(* ===== verification/Prelude.thy ===== *)
theory Prelude
  imports Main
begin

text \<open>
  Shared material: the state-and-exception monad in which the asynchronous methods of the
  program are written, its weakest preconditions, the relational rules by which a whole
  method is shown to move the state only along a given relation, and lemmas on the lists
  that stand for database tables.

  An asynchronous TypeScript method is a function from a state to a result and a state: the
  result is \<open>Inl e\<close> for a rejected promise (a thrown exception) and \<open>Inr x\<close> for a fulfilled
  one. Unlike a transaction, an exception does not undo the state changes made before it.
\<close>

named_theorems wp_simps "equations that push weakest preconditions through the monad"
named_theorems table_simps "lookup and update on list tables"

section \<open>The monad\<close>

type_synonym ('s, 'e, 'a) io = "'s \<Rightarrow> ('e + 'a) \<times> 's"

definition ret :: "'a \<Rightarrow> ('s, 'e, 'a) io" where
  "ret x = (\<lambda>s. (Inr x, s))"

definition raise :: "'e \<Rightarrow> ('s, 'e, 'a) io" where
  "raise e = (\<lambda>s. (Inl e, s))"

definition bindM :: "('s, 'e, 'a) io \<Rightarrow> ('a \<Rightarrow> ('s, 'e, 'b) io) \<Rightarrow> ('s, 'e, 'b) io" where
  "bindM m f = (\<lambda>s. case m s of (Inl e, s') \<Rightarrow> (Inl e, s') | (Inr x, s') \<Rightarrow> f x s')"

text \<open>\<open>try { m } catch (e) { h e }\<close>.\<close>

definition catchM :: "('s, 'e, 'a) io \<Rightarrow> ('e \<Rightarrow> ('s, 'e, 'a) io) \<Rightarrow> ('s, 'e, 'a) io" where
  "catchM m h = (\<lambda>s. case m s of (Inl e, s') \<Rightarrow> h e s' | (Inr x, s') \<Rightarrow> (Inr x, s'))"

text \<open>\<open>try { m } finally { c }\<close> for a clean-up that does not throw.\<close>

definition finallyM :: "('s, 'e, 'a) io \<Rightarrow> ('s \<Rightarrow> 's) \<Rightarrow> ('s, 'e, 'a) io" where
  "finallyM m c = (\<lambda>s. case m s of (r, s') \<Rightarrow> (r, c s'))"

definition getsM :: "('s \<Rightarrow> 'a) \<Rightarrow> ('s, 'e, 'a) io" where
  "getsM f = (\<lambda>s. (Inr (f s), s))"

definition modifyM :: "('s \<Rightarrow> 's) \<Rightarrow> ('s, 'e, unit) io" where
  "modifyM f = (\<lambda>s. (Inr (), f s))"

definition liftE :: "'e + 'a \<Rightarrow> ('s, 'e, 'a) io" where
  "liftE r = (\<lambda>s. (r, s))"

text \<open>\<open>if (!b) throw e\<close>.\<close>

definition requireM :: "bool \<Rightarrow> 'e \<Rightarrow> ('s, 'e, unit) io" where
  "requireM b e = (if b then ret () else raise e)"

lemmas monad_defs = ret_def raise_def bindM_def catchM_def finallyM_def getsM_def
  modifyM_def liftE_def requireM_def

lemma bindM_ret [simp]: "bindM (ret x) f = f x"
  by (simp add: monad_defs)

lemma bindM_raise [simp]: "bindM (raise e) f = raise e"
  by (simp add: monad_defs)

lemma catchM_ret [simp]: "catchM (ret x) h = ret x"
  by (simp add: monad_defs)

lemma catchM_raise [simp]: "catchM (raise e) h = h e"
  by (simp add: monad_defs)

lemma bindM_assoc: "bindM (bindM m f) g = bindM m (\<lambda>x. bindM (f x) g)"
  by (auto simp: monad_defs fun_eq_iff split: prod.splits sum.splits)

section \<open>Weakest preconditions\<close>

text \<open>
  \<open>wp m Q E s\<close>: run from \<open>s\<close>, the method either returns a value and a state in \<open>Q\<close> or throws
  an error and leaves a state in \<open>E\<close>. The monad is total, so this is total correctness.
\<close>

definition wp :: "('s, 'e, 'a) io \<Rightarrow> ('a \<Rightarrow> 's \<Rightarrow> bool) \<Rightarrow> ('e \<Rightarrow> 's \<Rightarrow> bool) \<Rightarrow> 's \<Rightarrow> bool" where
  "wp m Q E s = (case m s of (Inl e, s') \<Rightarrow> E e s' | (Inr x, s') \<Rightarrow> Q x s')"

lemma wp_ret [wp_simps]: "wp (ret x) Q E s = Q x s"
  by (simp add: wp_def ret_def)

lemma wp_raise [wp_simps]: "wp (raise e) Q E s = E e s"
  by (simp add: wp_def raise_def)

lemma wp_bindM [wp_simps]: "wp (bindM m f) Q E s = wp m (\<lambda>x. wp (f x) Q E) E s"
  by (auto simp: wp_def bindM_def split: prod.splits sum.splits)

lemma wp_catchM [wp_simps]: "wp (catchM m h) Q E s = wp m Q (\<lambda>e. wp (h e) Q E) s"
  by (auto simp: wp_def catchM_def split: prod.splits sum.splits)

lemma wp_finallyM [wp_simps]:
  "wp (finallyM m c) Q E s = wp m (\<lambda>x s'. Q x (c s')) (\<lambda>e s'. E e (c s')) s"
  by (auto simp: wp_def finallyM_def split: prod.splits sum.splits)

lemma wp_getsM [wp_simps]: "wp (getsM f) Q E s = Q (f s) s"
  by (simp add: wp_def getsM_def)

lemma wp_modifyM [wp_simps]: "wp (modifyM f) Q E s = Q () (f s)"
  by (simp add: wp_def modifyM_def)

lemma wp_liftE [wp_simps]:
  "wp (liftE r) Q E s = (case r of Inl e \<Rightarrow> E e s | Inr x \<Rightarrow> Q x s)"
  by (simp add: wp_def liftE_def)

lemma wp_requireM [wp_simps]:
  "wp (requireM b e) Q E s = (if b then Q () s else E e s)"
  by (simp add: requireM_def wp_simps)

lemma wp_if [wp_simps]:
  "wp (if b then m else n) Q E s = (if b then wp m Q E s else wp n Q E s)"
  by simp

lemma wp_mono:
  assumes "wp m Q E s"
    and "\<And>x s'. Q x s' \<Longrightarrow> Q' x s'" and "\<And>e s'. E e s' \<Longrightarrow> E' e s'"
  shows "wp m Q' E' s"
  using assms by (auto simp: wp_def split: prod.splits sum.splits)

lemma wp_conj: "wp m Q E s \<Longrightarrow> wp m Q' E' s \<Longrightarrow>
  wp m (\<lambda>x s'. Q x s' \<and> Q' x s') (\<lambda>e s'. E e s' \<and> E' e s') s"
  by (auto simp: wp_def split: prod.splits sum.splits)

lemma wp_iff: "wp m Q E s \<longleftrightarrow>
  (\<forall>x s'. m s = (Inr x, s') \<longrightarrow> Q x s') \<and> (\<forall>e s'. m s = (Inl e, s') \<longrightarrow> E e s')"
  by (auto simp: wp_def split: prod.splits sum.splits)

lemma wpI:
  assumes "\<And>x s'. m s = (Inr x, s') \<Longrightarrow> Q x s'" and "\<And>e s'. m s = (Inl e, s') \<Longrightarrow> E e s'"
  shows "wp m Q E s"
  using assms by (simp add: wp_iff)

lemma wp_returned: "m s = (Inr x, s') \<Longrightarrow> wp m Q E s \<Longrightarrow> Q x s'"
  by (simp add: wp_def)

lemma wp_threw: "m s = (Inl e, s') \<Longrightarrow> wp m Q E s \<Longrightarrow> E e s'"
  by (simp add: wp_def)

lemma wp_snd: "wp m (\<lambda>_. P) (\<lambda>_. P) s \<Longrightarrow> P (snd (m s))"
  by (auto simp: wp_def split: prod.splits sum.splits)

section \<open>Moving only along a relation\<close>

text \<open>
  \<open>keeps R m\<close>: whatever happens, the state after \<open>m\<close> is related by \<open>R\<close> to the state before.
  For a reflexive and transitive \<open>R\<close> this is closed under all the monad's operations, so a
  long method is shown to move along \<open>R\<close> from the same fact about its statements.
\<close>

definition keeps :: "('s \<Rightarrow> 's \<Rightarrow> bool) \<Rightarrow> ('s, 'e, 'a) io \<Rightarrow> bool" where
  "keeps R m \<longleftrightarrow> (\<forall>s. R s (snd (m s)))"

lemma keepsD: "keeps R m \<Longrightarrow> R s (snd (m s))"
  by (simp add: keeps_def)

lemma keeps_result: "keeps R m \<Longrightarrow> m s = (r, s') \<Longrightarrow> R s s'"
  by (metis keepsD snd_conv)

lemma keeps_wp: "keeps R m \<Longrightarrow> wp m (\<lambda>_ s'. R s s') (\<lambda>_ s'. R s s') s"
  by (auto simp: wp_iff dest: keeps_result)

lemma keeps_mono: "keeps R m \<Longrightarrow> (\<And>s t. R s t \<Longrightarrow> R' s t) \<Longrightarrow> keeps R' m"
  by (simp add: keeps_def)

locale step_relation =
  fixes R :: "'s \<Rightarrow> 's \<Rightarrow> bool"
  assumes rel_refl: "R s s"
    and rel_trans: "R s t \<Longrightarrow> R t u \<Longrightarrow> R s u"
begin

lemma keeps_ret: "keeps R (ret x)"
  by (simp add: keeps_def ret_def rel_refl)

lemma keeps_raise: "keeps R (raise e)"
  by (simp add: keeps_def raise_def rel_refl)

lemma keeps_liftE: "keeps R (liftE r)"
  by (simp add: keeps_def liftE_def rel_refl)

lemma keeps_getsM: "keeps R (getsM f)"
  by (simp add: keeps_def getsM_def rel_refl)

lemma keeps_requireM: "keeps R (requireM b e)"
  by (simp add: requireM_def keeps_ret keeps_raise)

lemma keeps_bindM:
  assumes "keeps R m" and "\<And>x. keeps R (f x)"
  shows "keeps R (bindM m f)"
  unfolding keeps_def
proof
  fix s
  obtain r s' where m: "m s = (r, s')" by fastforce
  from assms(1) m have R: "R s s'" by (rule keeps_result)
  show "R s (snd (bindM m f s))"
  proof (cases r)
    case (Inl e)
    with m R show ?thesis by (simp add: bindM_def)
  next
    case (Inr x)
    have "R s' (snd (f x s'))" using assms(2) by (rule keepsD)
    with m Inr R show ?thesis by (auto simp: bindM_def intro: rel_trans)
  qed
qed

lemma keeps_catchM:
  assumes "keeps R m" and "\<And>e. keeps R (h e)"
  shows "keeps R (catchM m h)"
  unfolding keeps_def
proof
  fix s
  obtain r s' where m: "m s = (r, s')" by fastforce
  from assms(1) m have R: "R s s'" by (rule keeps_result)
  show "R s (snd (catchM m h s))"
  proof (cases r)
    case (Inr x)
    with m R show ?thesis by (simp add: catchM_def)
  next
    case (Inl e)
    have "R s' (snd (h e s'))" using assms(2) by (rule keepsD)
    with m Inl R show ?thesis by (auto simp: catchM_def intro: rel_trans)
  qed
qed

lemma keeps_finallyM:
  assumes "keeps R m" and "\<And>s. R s (c s)"
  shows "keeps R (finallyM m c)"
  using assms by (auto simp: keeps_def finallyM_def split: prod.splits)
    (metis rel_trans snd_conv)

lemma keeps_modifyM: "(\<And>s. R s (f s)) \<Longrightarrow> keeps R (modifyM f)"
  by (simp add: keeps_def modifyM_def)

lemma keeps_if: "keeps R m \<Longrightarrow> keeps R n \<Longrightarrow> keeps R (if b then m else n)"
  by simp

lemma keeps_option:
  "keeps R m \<Longrightarrow> (\<And>x. keeps R (f x)) \<Longrightarrow> keeps R (case v of None \<Rightarrow> m | Some x \<Rightarrow> f x)"
  by (cases v) auto

lemma keeps_let: "keeps R (f v) \<Longrightarrow> keeps R (let x = v in f x)"
  by simp

lemmas keeps_rules = keeps_ret keeps_raise keeps_liftE keeps_getsM keeps_requireM keeps_bindM
  keeps_catchM keeps_if keeps_option keeps_let

end

section \<open>Tables as lists of rows\<close>

text \<open>
  A table is the list of its rows in the order of their identity column. A unique column is
  a key function that is injective on the rows.
\<close>

definition unique_on :: "('r \<Rightarrow> 'k) \<Rightarrow> 'r list \<Rightarrow> bool" where
  "unique_on key rows \<longleftrightarrow> distinct (map key rows)"

definition update_where :: "('r \<Rightarrow> bool) \<Rightarrow> ('r \<Rightarrow> 'r) \<Rightarrow> 'r list \<Rightarrow> 'r list" where
  "update_where p f rows = map (\<lambda>r. if p r then f r else r) rows"

definition count_where :: "('r \<Rightarrow> bool) \<Rightarrow> 'r list \<Rightarrow> nat" where
  "count_where p rows = length (filter p rows)"

lemma update_where_Nil [simp]: "update_where p f [] = []"
  by (simp add: update_where_def)

lemma update_where_Cons [simp]:
  "update_where p f (r # rs) = (if p r then f r else r) # update_where p f rs"
  by (simp add: update_where_def)

lemma set_update_where:
  "set (update_where p f rows) = (\<lambda>r. if p r then f r else r) ` set rows"
  by (simp add: update_where_def)

lemma update_where_none: "(\<And>r. r \<in> set rows \<Longrightarrow> \<not> p r) \<Longrightarrow> update_where p f rows = rows"
  by (induction rows) auto

lemma map_update_where: "(\<And>r. key (f r) = key r) \<Longrightarrow> map key (update_where p f rows) = map key rows"
  by (induction rows) auto

lemma unique_on_update_where [table_simps]:
  "(\<And>r. key (f r) = key r) \<Longrightarrow> unique_on key (update_where p f rows) = unique_on key rows"
  by (simp add: unique_on_def map_update_where)

lemma unique_on_append [table_simps]:
  "unique_on key (rows @ [r]) \<longleftrightarrow> unique_on key rows \<and> key r \<notin> key ` set rows"
  by (auto simp: unique_on_def)

lemma unique_onD:
  "unique_on key rows \<Longrightarrow> r \<in> set rows \<Longrightarrow> s \<in> set rows \<Longrightarrow> key r = key s \<Longrightarrow> r = s"
  by (auto simp: unique_on_def distinct_map dest: inj_onD)

lemma find_None_iff2: "find p rows = None \<longleftrightarrow> (\<forall>r \<in> set rows. \<not> p r)"
  by (auto simp: find_None_iff)

lemma find_SomeD: "find p rows = Some r \<Longrightarrow> r \<in> set rows \<and> p r"
  by (auto simp: find_Some_iff)

lemma find_append: "find p (xs @ ys) = (case find p xs of None \<Rightarrow> find p ys | Some x \<Rightarrow> Some x)"
  by (induction xs) auto

lemma find_update_where_same:
  assumes "\<And>r. p (f r) = p r"
  shows "find p (update_where q f rows) =
    map_option (\<lambda>r. if q r then f r else r) (find p rows)"
  using assms by (induction rows) auto

lemma find_cong2: "(\<And>r. r \<in> set rows \<Longrightarrow> p r = q r) \<Longrightarrow> find p rows = find q rows"
  by (induction rows) auto

text \<open>A unique key identifies the row that a lookup returns.\<close>

lemma find_unique:
  assumes "unique_on key rows" and "r \<in> set rows" and "key r = k"
  shows "find (\<lambda>x. key x = k) rows = Some r"
proof -
  have "\<exists>x. find (\<lambda>x. key x = k) rows = Some x"
    using assms(2,3) by (cases "find (\<lambda>x. key x = k) rows") (auto simp: find_None_iff)
  then obtain x where x: "find (\<lambda>x. key x = k) rows = Some x" ..
  then have "x \<in> set rows" "key x = k" by (auto dest: find_SomeD)
  with assms have "x = r" by (auto dest: unique_onD)
  with x show ?thesis by simp
qed

section \<open>Characters\<close>

text \<open>The order of character codes, compared bit by bit so that it evaluates fast.\<close>

fun char_le :: "char \<Rightarrow> char \<Rightarrow> bool" where
  "char_le (Char a0 a1 a2 a3 a4 a5 a6 a7) (Char b0 b1 b2 b3 b4 b5 b6 b7) =
   (if a7 \<noteq> b7 then b7 else if a6 \<noteq> b6 then b6 else if a5 \<noteq> b5 then b5 else if a4 \<noteq> b4 then b4
    else if a3 \<noteq> b3 then b3 else if a2 \<noteq> b2 then b2 else if a1 \<noteq> b1 then b1 else \<not> a0 \<or> b0)"

lemma bit_le: "of_bool a + 2 * x \<le> of_bool b + 2 * (y::nat) \<longleftrightarrow> x < y \<or> (x = y \<and> (a \<longrightarrow> b))"
  by (cases a; cases b) (simp_all, arith+)

lemma bit_less: "of_bool a + 2 * x < of_bool b + 2 * (y::nat) \<longleftrightarrow> x < y \<or> (x = y \<and> \<not> a \<and> b)"
  by (cases a; cases b) (simp_all, arith+)

lemma bit_eq: "of_bool a + 2 * x = of_bool b + 2 * (y::nat) \<longleftrightarrow> x = y \<and> a = b"
  by (cases a; cases b) (simp_all, arith+)

lemma char_le_of_char: "char_le c d \<longleftrightarrow> (of_char c :: nat) \<le> of_char d"
proof (cases c; cases d)
  fix a0 a1 a2 a3 a4 a5 a6 a7 b0 b1 b2 b3 b4 b5 b6 b7
  assume cd: "c = Char a0 a1 a2 a3 a4 a5 a6 a7" "d = Char b0 b1 b2 b3 b4 b5 b6 b7"
  have n: "(of_char c :: nat) =
      of_bool a0 + 2 * (of_bool a1 + 2 * (of_bool a2 + 2 * (of_bool a3
        + 2 * (of_bool a4 + 2 * (of_bool a5 + 2 * (of_bool a6 + 2 * (of_bool a7 + 2 * 0)))))))"
    "(of_char d :: nat) =
      of_bool b0 + 2 * (of_bool b1 + 2 * (of_bool b2 + 2 * (of_bool b3
        + 2 * (of_bool b4 + 2 * (of_bool b5 + 2 * (of_bool b6 + 2 * (of_bool b7 + 2 * 0)))))))"
    by (simp_all only: cd of_char_Char horner_sum_simps mult_zero_right add_0_right)
  show ?thesis
    unfolding n unfolding cd char_le.simps
    by (simp only: bit_le bit_less bit_eq less_numeral_extra simp_thms if_bool_eq_disj) satx
qed

text \<open>\<open>trim()\<close> of texts in ASCII.\<close>

definition white :: "char \<Rightarrow> bool" where
  "white c \<longleftrightarrow> c \<in> set [CHR '' '', CHR 0x09, CHR 0x0A, CHR 0x0B, CHR 0x0C, CHR 0x0D]"

definition trim :: "string \<Rightarrow> string" where
  "trim s = rev (dropWhile white (rev (dropWhile white s)))"

text \<open>\<open>startsWith\<close> and \<open>endsWith\<close>.\<close>

definition starts_with :: "string \<Rightarrow> string \<Rightarrow> bool" where
  "starts_with p s \<longleftrightarrow> take (length p) s = p"

definition ends_with :: "string \<Rightarrow> string \<Rightarrow> bool" where
  "ends_with p s \<longleftrightarrow> starts_with (rev p) (rev s)"

end
