(* ===== verification/Contracts.thy ===== *)
theory Contracts
  imports Prelude
begin

text \<open>
  The contracts package (packages/contracts/src): the enumerations, the error class, JSON
  values, opaque identifiers, and the schemas of the values that cross component borders. A
  zod schema of the source is the predicate that holds of the values \<open>parse\<close> accepts; a value
  that fails it makes \<open>parse\<close> throw \<open>ZodError\<close>.

  Timestamps and the message and details texts of errors are left out. Characters are bytes
  and JSON numbers are integers: the program carries amounts as decimal strings and uses
  numbers for versions, counts and limits.
\<close>

section \<open>Enumerations and errors\<close>

datatype error_category =
    Validation_rejected | Checker_rejected | Confirmation_required | Serialization_conflict
  | Constraint_violation | Duplicate_replay | Period_closed | Ambiguous_source_match
  | Readback_mismatch | Projection_unhealthy | Timeout | Storage_unavailable
  | Policy_rejected | Unsupported_capability | Runtime_failure

fun category_name :: "error_category \<Rightarrow> string" where
  "category_name Validation_rejected = ''validation_rejected''"
| "category_name Checker_rejected = ''checker_rejected''"
| "category_name Confirmation_required = ''confirmation_required''"
| "category_name Serialization_conflict = ''serialization_conflict''"
| "category_name Constraint_violation = ''constraint_violation''"
| "category_name Duplicate_replay = ''duplicate_replay''"
| "category_name Period_closed = ''period_closed''"
| "category_name Ambiguous_source_match = ''ambiguous_source_match''"
| "category_name Readback_mismatch = ''readback_mismatch''"
| "category_name Projection_unhealthy = ''projection_unhealthy''"
| "category_name Timeout = ''timeout''"
| "category_name Storage_unavailable = ''storage_unavailable''"
| "category_name Policy_rejected = ''policy_rejected''"
| "category_name Unsupported_capability = ''unsupported_capability''"
| "category_name Runtime_failure = ''runtime_failure''"

datatype retry_directive = Never | Safe | After_backoff | After_state_resolution

text \<open>What the database driver throws: an SQLSTATE, the violated constraint, a message.\<close>

record pg_failure =
  pg_code :: "string option"
  pg_constraint :: "string option"
  pg_message :: "string option"

text \<open>
  The thrown values: the program's own error class with its category, code, retry directive,
  receipt-lookup flag and cause; a raw driver failure; a schema failure; any other error.
\<close>

datatype exn =
    PlusOneError (e_category: error_category) (e_code: string) (e_retry: retry_directive)
      (e_receipt_lookup: bool) (e_cause: "exn option")
  | PgFailure (e_pg: pg_failure)
  | ZodError
  | JsError string

abbreviation plusOne ::
  "error_category \<Rightarrow> string \<Rightarrow> retry_directive \<Rightarrow> bool \<Rightarrow> exn" where
  "plusOne cat c retry lookup \<equiv> PlusOneError cat c retry lookup None"

text \<open>\<open>error instanceof PlusOneError\<close> and \<open>(error as { code?: string }).code\<close>.\<close>

fun is_plus_one :: "exn \<Rightarrow> bool" where
  "is_plus_one (PlusOneError cat c retry lookup cause) = True"
| "is_plus_one _ = False"

fun error_code :: "exn \<Rightarrow> string option" where
  "error_code (PlusOneError cat c retry lookup cause) = Some c"
| "error_code (PgFailure p) = pg_code p"
| "error_code _ = None"

datatype task_status =
    Created | Skill_selected | Maker_running | Maker_validated | Checker_running
  | Checker_validated | Revision_requested | Execution_pending | Committed
  | Readback_verified | Execution_failed | Readback_failed | Verified | Partial
  | Insufficient_evidence | Conflicted | Failed

datatype team_result_status =
    TR_verified | TR_partial | TR_insufficient_evidence | TR_conflicted | TR_failed

datatype command_status =
    Cmd_registered | Cmd_execution_pending | Cmd_committed | Cmd_readback_verified
  | Cmd_execution_failed | Cmd_readback_failed

datatype verdict_kind =
    V_accepted | V_rejected | V_revision_requested | V_insufficient_evidence | V_conflicted

section \<open>Character classes\<close>

definition char_in :: "char \<Rightarrow> char \<Rightarrow> char \<Rightarrow> bool" where
  "char_in lo hi c \<longleftrightarrow> char_le lo c \<and> char_le c hi"

definition is_lower :: "char \<Rightarrow> bool" where "is_lower c = char_in (CHR ''a'') (CHR ''z'') c"
definition is_upper :: "char \<Rightarrow> bool" where "is_upper c = char_in (CHR ''A'') (CHR ''Z'') c"
definition is_digit :: "char \<Rightarrow> bool" where "is_digit c = char_in (CHR ''0'') (CHR ''9'') c"

text \<open>\<open>/^[a-z][a-z0-9-]+$/\<close>, \<open>/^[a-z][a-z0-9_]{2,63}$/\<close>, \<open>/^[a-z][a-z0-9_.]{2,127}$/\<close>.\<close>

definition kebab_name :: "string \<Rightarrow> bool" where
  "kebab_name s = (case s of [] \<Rightarrow> False
    | c # cs \<Rightarrow> is_lower c \<and> cs \<noteq> [] \<and> list_all (\<lambda>d. is_lower d \<or> is_digit d \<or> d = CHR ''-'') cs)"

definition command_type_name :: "string \<Rightarrow> bool" where
  "command_type_name s = (case s of [] \<Rightarrow> False
    | c # cs \<Rightarrow> is_lower c \<and> 2 \<le> length cs \<and> length cs \<le> 63
        \<and> list_all (\<lambda>d. is_lower d \<or> is_digit d \<or> d = CHR ''_'') cs)"

definition record_type_name :: "string \<Rightarrow> bool" where
  "record_type_name s = (case s of [] \<Rightarrow> False
    | c # cs \<Rightarrow> is_lower c \<and> 2 \<le> length cs \<and> length cs \<le> 127
        \<and> list_all (\<lambda>d. is_lower d \<or> is_digit d \<or> d = CHR ''_'' \<or> d = CHR ''.'') cs)"

text \<open>\<open>/^[0-9a-f]{64}$/\<close>, the rendering of a SHA-256 digest.\<close>

definition sha256_hex :: "string \<Rightarrow> bool" where
  "sha256_hex s \<longleftrightarrow> length s = 64 \<and> list_all (\<lambda>c. is_digit c \<or> char_in (CHR ''a'') (CHR ''f'') c) s"

section \<open>Opaque identifiers\<close>

text \<open>\<open>[0-9A-HJKMNP-TV-Z]\<close>: Crockford base 32, without I, L, O and U.\<close>

definition crockford :: "char \<Rightarrow> bool" where
  "crockford c \<longleftrightarrow> is_digit c \<or> char_in (CHR ''A'') (CHR ''H'') c \<or> c = CHR ''J'' \<or> c = CHR ''K''
    \<or> c = CHR ''M'' \<or> c = CHR ''N'' \<or> char_in (CHR ''P'') (CHR ''T'') c
    \<or> char_in (CHR ''V'') (CHR ''Z'') c"

datatype identifier_kind =
    Id_household | Id_task | Id_run | Id_artifact | Id_command | Id_receipt | Id_job
  | Id_occurrence | Id_delivery | Id_conversation | Id_evidence | Id_book
  | Id_bookConfiguration | Id_account | Id_accountSourceMapping | Id_period | Id_draftSeries
  | Id_journalDraft | Id_journal | Id_posting | Id_counterparty | Id_tag | Id_confirmation
  | Id_mutationReadback | Id_workingMemoryEntry | Id_workingMemoryProposal | Id_idempotency
  | Id_sourceDocument | Id_importBatch | Id_rawRow | Id_normalizedRow | Id_matchDecision
  | Id_statementSnapshot | Id_statementLine | Id_reconciliation | Id_reconciliationItem
  | Id_periodEvent | Id_discrepancy

fun identifier_prefix :: "identifier_kind \<Rightarrow> string" where
  "identifier_prefix Id_household = ''hh''"
| "identifier_prefix Id_task = ''task''"
| "identifier_prefix Id_run = ''run''"
| "identifier_prefix Id_artifact = ''artifact''"
| "identifier_prefix Id_command = ''command''"
| "identifier_prefix Id_receipt = ''receipt''"
| "identifier_prefix Id_job = ''job''"
| "identifier_prefix Id_occurrence = ''occurrence''"
| "identifier_prefix Id_delivery = ''delivery''"
| "identifier_prefix Id_conversation = ''conversation''"
| "identifier_prefix Id_evidence = ''evidence''"
| "identifier_prefix Id_book = ''book''"
| "identifier_prefix Id_bookConfiguration = ''bookconfig''"
| "identifier_prefix Id_account = ''account''"
| "identifier_prefix Id_accountSourceMapping = ''accountmap''"
| "identifier_prefix Id_period = ''period''"
| "identifier_prefix Id_draftSeries = ''draftseries''"
| "identifier_prefix Id_journalDraft = ''draft''"
| "identifier_prefix Id_journal = ''journal''"
| "identifier_prefix Id_posting = ''posting''"
| "identifier_prefix Id_counterparty = ''counterparty''"
| "identifier_prefix Id_tag = ''tag''"
| "identifier_prefix Id_confirmation = ''confirm''"
| "identifier_prefix Id_mutationReadback = ''readback''"
| "identifier_prefix Id_workingMemoryEntry = ''wme''"
| "identifier_prefix Id_workingMemoryProposal = ''wmproposal''"
| "identifier_prefix Id_idempotency = ''idem''"
| "identifier_prefix Id_sourceDocument = ''source''"
| "identifier_prefix Id_importBatch = ''import''"
| "identifier_prefix Id_rawRow = ''rawrow''"
| "identifier_prefix Id_normalizedRow = ''normrow''"
| "identifier_prefix Id_matchDecision = ''match''"
| "identifier_prefix Id_statementSnapshot = ''snapshot''"
| "identifier_prefix Id_statementLine = ''stmtline''"
| "identifier_prefix Id_reconciliation = ''recon''"
| "identifier_prefix Id_reconciliationItem = ''reconitem''"
| "identifier_prefix Id_periodEvent = ''periodevent''"
| "identifier_prefix Id_discrepancy = ''discrepancy''"

definition identifier_max_suffix :: "identifier_kind \<Rightarrow> nat" where
  "identifier_max_suffix k = (if k = Id_idempotency then 120 else 26)"

text \<open>\<open>opaqueIdentifierSchema(kind)\<close>: \<open>^prefix_[crockford]{26,max}$\<close>.\<close>

definition opaqueIdentifierSchema :: "identifier_kind \<Rightarrow> string \<Rightarrow> bool" where
  "opaqueIdentifierSchema k s =
     (let p = identifier_prefix k @ ''_''; suffix = drop (length p) s
      in take (length p) s = p \<and> 26 \<le> length suffix \<and> length suffix \<le> identifier_max_suffix k
         \<and> list_all crockford suffix)"

end
