(* ===== verification/World.thy ===== *)
theory World
  imports Contracts
begin

text \<open>
  The world a repository method runs in. PostgreSQL is modelled by its committed state, of any
  type \<open>'db\<close>, and at most one client transaction with a working copy of that state. The driver
  may fail at every round trip: the schedule \<open>faults\<close> gives the fault of each one, and a
  theorem that leaves the schedule free holds for every failure the network can produce. A
  statement that reaches the server may still lose its answer (\<open>Fail_after\<close>), which is how a
  commit becomes ambiguous.

  \<open>clock_timestamp()\<close> and \<open>Date.now()\<close> read a clock that advances by the next of \<open>ticks\<close>, and
  \<open>ulid()\<close> takes the next name of a stream.
\<close>

datatype fault = No_fault | Fail_before pg_failure | Fail_after pg_failure

text \<open>An open transaction; after an error PostgreSQL refuses all but the end of it.\<close>

datatype 'db transaction = Active (working: 'db) | Aborted

record 'db world =
  wdb :: 'db
  txn :: "'db transaction option"
  faults :: "fault list"
  wclock :: nat
  ticks :: "nat list"
  ulids :: "nat \<Rightarrow> string"

type_synonym ('db, 'a) dbm = "('db world, exn, 'a) io"

text \<open>A statement reads the clock, and either fails or answers and changes the state.\<close>

type_synonym ('db, 'a) statement = "nat \<Rightarrow> 'db \<Rightarrow> exn + ('a \<times> 'db)"

section \<open>Round trips\<close>

definition next_fault :: "'db world \<Rightarrow> fault" where
  "next_fault w = (case faults w of [] \<Rightarrow> No_fault | f # _ \<Rightarrow> f)"

definition next_time :: "'db world \<Rightarrow> nat" where
  "next_time w = (case ticks w of [] \<Rightarrow> wclock w | d # _ \<Rightarrow> wclock w + d)"

text \<open>What a round trip uses up: one fault of the schedule and one tick of the clock.\<close>

definition elapse :: "'db world \<Rightarrow> 'db world" where
  "elapse w = w\<lparr>faults := tl (faults w), wclock := next_time w, ticks := tl (ticks w)\<rparr>"

lemma elapse_simps [simp]:
  "wdb (elapse w) = wdb w" "txn (elapse w) = txn w" "ulids (elapse w) = ulids w"
  "faults (elapse w) = tl (faults w)"
  by (simp_all add: elapse_def)

definition pg_code_failure :: "string \<Rightarrow> exn" where
  "pg_code_failure c = PgFailure \<lparr>pg_code = Some c, pg_constraint = None, pg_message = None\<rparr>"

definition pg_constraint_failure :: "string \<Rightarrow> string \<Rightarrow> exn" where
  "pg_constraint_failure c k =
    PgFailure \<lparr>pg_code = Some c, pg_constraint = Some k, pg_message = None\<rparr>"

text \<open>\<open>pool.query\<close>: one statement in a transaction of its own.\<close>

definition pool_query :: "('db, 'a) statement \<Rightarrow> ('db, 'a) dbm" where
  "pool_query f w =
    (case next_fault w of
       Fail_before p \<Rightarrow> (Inl (PgFailure p), elapse w)
     | No_fault \<Rightarrow>
         (case f (next_time w) (wdb w) of
            Inl e \<Rightarrow> (Inl e, elapse w)
          | Inr (x, d) \<Rightarrow> (Inr x, (elapse w)\<lparr>wdb := d\<rparr>))
     | Fail_after p \<Rightarrow>
         (case f (next_time w) (wdb w) of
            Inl e \<Rightarrow> (Inl (PgFailure p), elapse w)
          | Inr (x, d) \<Rightarrow> (Inl (PgFailure p), (elapse w)\<lparr>wdb := d\<rparr>)))"

text \<open>\<open>client.query\<close> inside the client's transaction; any failure aborts the transaction.\<close>

definition client_query :: "('db, 'a) statement \<Rightarrow> ('db, 'a) dbm" where
  "client_query f w =
    (case txn w of
       None \<Rightarrow> pool_query f w
     | Some Aborted \<Rightarrow> (Inl (pg_code_failure ''25P02''), elapse w)
     | Some (Active d) \<Rightarrow>
         (case next_fault w of
            No_fault \<Rightarrow>
              (case f (next_time w) d of
                 Inl e \<Rightarrow> (Inl e, (elapse w)\<lparr>txn := Some Aborted\<rparr>)
               | Inr (x, d') \<Rightarrow> (Inr x, (elapse w)\<lparr>txn := Some (Active d')\<rparr>))
          | Fail_before p \<Rightarrow> (Inl (PgFailure p), (elapse w)\<lparr>txn := Some Aborted\<rparr>)
          | Fail_after p \<Rightarrow> (Inl (PgFailure p), (elapse w)\<lparr>txn := Some Aborted\<rparr>)))"

definition connect :: "('db, unit) dbm" where
  "connect w =
    (case next_fault w of
       No_fault \<Rightarrow> (Inr (), elapse w)
     | Fail_before p \<Rightarrow> (Inl (PgFailure p), elapse w)
     | Fail_after p \<Rightarrow> (Inl (PgFailure p), elapse w))"

definition begin_transaction :: "('db, unit) dbm" where
  "begin_transaction w =
    (case next_fault w of
       No_fault \<Rightarrow> (Inr (), (elapse w)\<lparr>txn := Some (Active (wdb w))\<rparr>)
     | Fail_before p \<Rightarrow> (Inl (PgFailure p), elapse w)
     | Fail_after p \<Rightarrow> (Inl (PgFailure p), (elapse w)\<lparr>txn := Some (Active (wdb w))\<rparr>))"

text \<open>
  \<open>COMMIT\<close> publishes the working copy. Of an aborted transaction it is a rollback that
  reports no error. With \<open>Fail_after\<close> the commit has happened and the caller does not know.
\<close>

definition publish :: "'db world \<Rightarrow> 'db world" where
  "publish w = (case txn w of Some (Active d) \<Rightarrow> w\<lparr>wdb := d, txn := None\<rparr> | _ \<Rightarrow> w\<lparr>txn := None\<rparr>)"

definition commit_transaction :: "('db, unit) dbm" where
  "commit_transaction w =
    (case next_fault w of
       No_fault \<Rightarrow> (Inr (), publish (elapse w))
     | Fail_before p \<Rightarrow> (Inl (PgFailure p), (elapse w)\<lparr>txn := None\<rparr>)
     | Fail_after p \<Rightarrow> (Inl (PgFailure p), publish (elapse w)))"

text \<open>The server drops the transaction whether or not the rollback is answered.\<close>

definition rollback_transaction :: "('db, unit) dbm" where
  "rollback_transaction w =
    (case next_fault w of
       No_fault \<Rightarrow> (Inr (), (elapse w)\<lparr>txn := None\<rparr>)
     | Fail_before p \<Rightarrow> (Inl (PgFailure p), (elapse w)\<lparr>txn := None\<rparr>)
     | Fail_after p \<Rightarrow> (Inl (PgFailure p), (elapse w)\<lparr>txn := None\<rparr>))"

definition release :: "'db world \<Rightarrow> 'db world" where
  "release w = w\<lparr>txn := None\<rparr>"

text \<open>
  The shape every transactional repository method of the source has:
  \<open>connect; try { BEGIN; body; COMMIT } catch (e) { ROLLBACK; throw e } finally { release }\<close>.
  A rollback that fails replaces the error. The argument \<open>g\<close> is what the handler makes of the
  error before it throws it again.
\<close>

definition transactionally_as :: "(exn \<Rightarrow> exn) \<Rightarrow> ('db, 'a) dbm \<Rightarrow> ('db, 'a) dbm" where
  "transactionally_as g body =
    bindM connect (\<lambda>_.
      finallyM
        (catchM
          (bindM begin_transaction (\<lambda>_.
           bindM body (\<lambda>x.
           bindM commit_transaction (\<lambda>_. ret x))))
          (\<lambda>e. bindM rollback_transaction (\<lambda>_. raise (g e))))
        release)"

definition transactionally :: "('db, 'a) dbm \<Rightarrow> ('db, 'a) dbm" where
  "transactionally body = transactionally_as (\<lambda>e. e) body"

definition fresh_ulid :: "('db, string) dbm" where
  "fresh_ulid w = (Inr (ulids w 0), w\<lparr>ulids := (\<lambda>n. ulids w (Suc n))\<rparr>)"

definition now_ms :: "('db, nat) dbm" where
  "now_ms w = (Inr (next_time w), w\<lparr>wclock := next_time w, ticks := tl (ticks w)\<rparr>)"

section \<open>The committed state moves along a relation\<close>

text \<open>
  \<open>db_moves T\<close>, for a method that manages its own connection: no transaction is left open and
  the committed state moves along \<open>T\<close>. \<open>client_moves T\<close>, for code that runs inside a client's
  transaction: the working copy stays reachable along \<open>T\<close> from the committed state.
\<close>

definition db_moves :: "('db \<Rightarrow> 'db \<Rightarrow> bool) \<Rightarrow> 'db world \<Rightarrow> 'db world \<Rightarrow> bool" where
  "db_moves T w w' \<longleftrightarrow> (txn w = None \<longrightarrow> txn w' = None \<and> T (wdb w) (wdb w'))"

definition client_ok :: "('db \<Rightarrow> 'db \<Rightarrow> bool) \<Rightarrow> 'db world \<Rightarrow> bool" where
  "client_ok T w \<longleftrightarrow> (\<forall>d. txn w = Some (Active d) \<longrightarrow> T (wdb w) d)"

definition client_moves :: "('db \<Rightarrow> 'db \<Rightarrow> bool) \<Rightarrow> 'db world \<Rightarrow> 'db world \<Rightarrow> bool" where
  "client_moves T w w' \<longleftrightarrow> (client_ok T w \<longrightarrow> client_ok T w' \<and> T (wdb w) (wdb w'))"

definition statement_along :: "('db \<Rightarrow> 'db \<Rightarrow> bool) \<Rightarrow> ('db, 'a) statement \<Rightarrow> bool" where
  "statement_along T f \<longleftrightarrow> (\<forall>t d x d'. f t d = Inr (x, d') \<longrightarrow> T d d')"

lemma statement_alongI: "(\<And>t d x d'. f t d = Inr (x, d') \<Longrightarrow> T d d') \<Longrightarrow> statement_along T f"
  by (auto simp: statement_along_def)

lemma statement_alongD: "statement_along T f \<Longrightarrow> f t d = Inr (x, d') \<Longrightarrow> T d d'"
  by (auto simp: statement_along_def)

locale db_relation =
  fixes T :: "'db \<Rightarrow> 'db \<Rightarrow> bool"
  assumes db_refl: "T d d"
    and db_trans: "T d d' \<Longrightarrow> T d' d'' \<Longrightarrow> T d d''"

sublocale db_relation \<subseteq> pool: step_relation "db_moves T"
  by unfold_locales (auto simp: db_moves_def intro: db_refl db_trans)

sublocale db_relation \<subseteq> client: step_relation "client_moves T"
  by unfold_locales (auto simp: client_moves_def intro: db_refl db_trans)

context db_relation
begin

lemma keeps_pool_query: "statement_along T f \<Longrightarrow> keeps (db_moves T) (pool_query f)"
  by (auto simp: keeps_def pool_query_def db_moves_def db_refl
      dest: statement_alongD split: fault.splits sum.splits prod.splits)

lemma keeps_connect: "keeps (db_moves T) connect" "keeps (client_moves T) connect"
  by (auto simp: keeps_def connect_def db_moves_def client_moves_def client_ok_def db_refl
      split: fault.splits)

lemma keeps_begin: "keeps (client_moves T) begin_transaction"
  by (auto simp: keeps_def begin_transaction_def client_moves_def client_ok_def db_refl
      split: fault.splits)

lemma keeps_commit: "keeps (client_moves T) commit_transaction"
  by (auto simp: keeps_def commit_transaction_def publish_def client_moves_def client_ok_def
      db_refl split: fault.splits option.splits transaction.splits)

lemma keeps_rollback: "keeps (client_moves T) rollback_transaction"
  by (auto simp: keeps_def rollback_transaction_def client_moves_def client_ok_def
      db_refl split: fault.splits)

lemma keeps_client_query: "statement_along T f \<Longrightarrow> keeps (client_moves T) (client_query f)"
  unfolding keeps_def
proof
  fix w
  assume f: "statement_along T f"
  show "client_moves T w (snd (client_query f w))"
  proof (cases "txn w")
    case None
    then show ?thesis using f
      by (auto simp: client_query_def pool_query_def client_moves_def client_ok_def db_refl
          dest: statement_alongD split: fault.splits sum.splits)
  next
    case (Some t)
    then show ?thesis using f
      by (cases t) (auto simp: client_query_def client_moves_def client_ok_def db_refl
          dest: statement_alongD intro: db_trans split: fault.splits sum.splits)
  qed
qed

lemma keeps_client_section:
  assumes "keeps (client_moves T) m"
  shows "keeps (db_moves T) (finallyM m release)"
  unfolding keeps_def
proof
  fix w
  obtain r w' where m: "m w = (r, w')" by fastforce
  from assms m have "client_moves T w w'" by (rule keeps_result)
  then show "db_moves T w (snd (finallyM m release w))"
    by (auto simp: m finallyM_def release_def db_moves_def client_moves_def client_ok_def)
qed

lemma keeps_transactionally:
  assumes "keeps (client_moves T) body"
  shows "keeps (db_moves T) (transactionally_as g body)"
  unfolding transactionally_as_def
  by (intro pool.keeps_bindM keeps_connect keeps_client_section client.keeps_catchM
      client.keeps_bindM client.keeps_ret client.keeps_raise keeps_begin keeps_commit
      keeps_rollback assms)

lemma keeps_now: "keeps (db_moves T) now_ms" "keeps (client_moves T) now_ms"
  by (auto simp: keeps_def now_ms_def db_moves_def client_moves_def client_ok_def db_refl)

lemma keeps_ulid: "keeps (db_moves T) fresh_ulid" "keeps (client_moves T) fresh_ulid"
  by (auto simp: keeps_def fresh_ulid_def db_moves_def client_moves_def client_ok_def db_refl)

lemmas keeps_pool = pool.keeps_rules keeps_pool_query keeps_connect(1) keeps_transactionally
  keeps_now(1) keeps_ulid(1)

lemmas keeps_client = client.keeps_rules keeps_client_query keeps_begin keeps_commit
  keeps_rollback keeps_now(2) keeps_ulid(2)

end

text \<open>Nothing changes: the relation of the methods that only read.\<close>

interpretation same_db: db_relation "(=)"
  by unfold_locales auto

section \<open>Postconditions under every fault schedule\<close>

text \<open>
  \<open>dwp m Q E d\<close>: a method started without a transaction on the committed state \<open>d\<close> ends without
  one, in a committed state that satisfies \<open>Q\<close> with the value it returns or \<open>E\<close> with the error
  it throws, for every fault schedule, clock and identifier supply.

  \<open>twp m Q d\<close>: code run inside a transaction whose working copy is \<open>d\<close> does not touch the
  committed state, and if it returns, the working copy satisfies \<open>Q\<close> with the value.
\<close>

definition dwp :: "('db, 'a) dbm \<Rightarrow> ('a \<Rightarrow> 'db \<Rightarrow> bool) \<Rightarrow> (exn \<Rightarrow> 'db \<Rightarrow> bool) \<Rightarrow> 'db \<Rightarrow> bool" where
  "dwp m Q E d \<longleftrightarrow>
     (\<forall>w. wdb w = d \<and> txn w = None \<longrightarrow>
        wp m (\<lambda>x w'. txn w' = None \<and> Q x (wdb w')) (\<lambda>e w'. txn w' = None \<and> E e (wdb w')) w)"

definition twp :: "('db, 'a) dbm \<Rightarrow> ('a \<Rightarrow> 'db \<Rightarrow> bool) \<Rightarrow> 'db \<Rightarrow> bool" where
  "twp m Q d \<longleftrightarrow>
     (\<forall>w. txn w = Some (Active d) \<longrightarrow>
        wp m (\<lambda>x w'. wdb w' = wdb w \<and> (\<exists>d'. txn w' = Some (Active d') \<and> Q x d'))
           (\<lambda>e w'. wdb w' = wdb w) w)"

lemma dwpI:
  "(\<And>w. wdb w = d \<Longrightarrow> txn w = None \<Longrightarrow>
     wp m (\<lambda>x w'. txn w' = None \<and> Q x (wdb w')) (\<lambda>e w'. txn w' = None \<and> E e (wdb w')) w) \<Longrightarrow>
   dwp m Q E d"
  by (simp add: dwp_def)

lemma dwpD:
  "dwp m Q E (wdb w) \<Longrightarrow> txn w = None \<Longrightarrow>
     wp m (\<lambda>x w'. txn w' = None \<and> Q x (wdb w')) (\<lambda>e w'. txn w' = None \<and> E e (wdb w')) w"
  by (simp add: dwp_def)

lemma dwp_mono:
  assumes "dwp m Q E d"
    and "\<And>x d'. Q x d' \<Longrightarrow> Q' x d'" and "\<And>e d'. E e d' \<Longrightarrow> E' e d'"
  shows "dwp m Q' E' d"
  using assms unfolding dwp_def by (auto intro: wp_mono)

lemma dwp_returned:
  "dwp m Q E (wdb w) \<Longrightarrow> txn w = None \<Longrightarrow> m w = (Inr x, w') \<Longrightarrow> txn w' = None \<and> Q x (wdb w')"
  by (auto dest!: dwpD dest: wp_returned)

lemma dwp_threw:
  "dwp m Q E (wdb w) \<Longrightarrow> txn w = None \<Longrightarrow> m w = (Inl e, w') \<Longrightarrow> txn w' = None \<and> E e (wdb w')"
  by (auto dest!: dwpD dest: wp_threw)

lemma dwp_ret: "Q x d \<Longrightarrow> dwp (ret x) Q E d"
  by (simp add: dwp_def wp_simps)

lemma dwp_raise: "E e d \<Longrightarrow> dwp (raise e) Q E d"
  by (simp add: dwp_def wp_simps)

lemma dwp_liftE: "(\<And>x. r = Inr x \<Longrightarrow> Q x d) \<Longrightarrow> (\<And>e. r = Inl e \<Longrightarrow> E e d) \<Longrightarrow> dwp (liftE r) Q E d"
  by (simp add: dwp_def wp_simps split: sum.split)

lemma dwp_requireM: "(b \<Longrightarrow> Q () d) \<Longrightarrow> (\<not> b \<Longrightarrow> E e d) \<Longrightarrow> dwp (requireM b e) Q E d"
  by (simp add: dwp_def wp_simps)

lemma dwp_bindM: "dwp m (\<lambda>x d'. dwp (f x) Q E d') E d \<Longrightarrow> dwp (bindM m f) Q E d"
  unfolding dwp_def by (auto simp: wp_simps intro: wp_mono)

lemma dwp_catchM: "dwp m Q (\<lambda>e d'. dwp (h e) Q E d') d \<Longrightarrow> dwp (catchM m h) Q E d"
  unfolding dwp_def by (auto simp: wp_simps intro: wp_mono)

lemma dwp_pool_query:
  assumes "\<And>t x d'. f t d = Inr (x, d') \<Longrightarrow> Q x d'"
    and "\<And>t x d' p. f t d = Inr (x, d') \<Longrightarrow> E (PgFailure p) d'"
    and "\<And>t e. f t d = Inl e \<Longrightarrow> E e d" and "\<And>p. E (PgFailure p) d"
  shows "dwp (pool_query f) Q E d"
  using assms unfolding dwp_def
  by (auto simp: wp_def pool_query_def split: fault.splits sum.splits)

lemma dwp_now: "(\<And>t. Q t d) \<Longrightarrow> dwp now_ms Q E d"
  by (simp add: dwp_def wp_def now_ms_def)

lemma dwp_ulid: "(\<And>s. Q s d) \<Longrightarrow> dwp fresh_ulid Q E d"
  by (simp add: dwp_def wp_def fresh_ulid_def)

lemma twp_ret: "Q x d \<Longrightarrow> twp (ret x) Q d"
  by (simp add: twp_def wp_simps)

lemma twp_raise: "twp (raise e) Q d"
  by (simp add: twp_def wp_simps)

lemma twp_liftE: "(\<And>x. r = Inr x \<Longrightarrow> Q x d) \<Longrightarrow> twp (liftE r) Q d"
  by (simp add: twp_def wp_simps split: sum.split)

lemma twp_requireM: "(b \<Longrightarrow> Q () d) \<Longrightarrow> twp (requireM b e) Q d"
  by (simp add: twp_def wp_simps)

lemma twp_bindM: "twp m (\<lambda>x d'. twp (f x) Q d') d \<Longrightarrow> twp (bindM m f) Q d"
  unfolding twp_def by (fastforce simp: wp_simps elim!: wp_mono)

lemma twp_client_query:
  assumes "\<And>t x d'. f t d = Inr (x, d') \<Longrightarrow> Q x d'"
  shows "twp (client_query f) Q d"
  using assms unfolding twp_def
  by (auto simp: wp_def client_query_def split: fault.splits sum.splits)

text \<open>\<open>try { m } catch (e) { throw g(e) }\<close>.\<close>

lemma twp_catch_raise: "twp m Q d \<Longrightarrow> twp (catchM m (\<lambda>e. raise (g e))) Q d"
  by (auto simp: twp_def wp_simps intro: wp_mono)

lemma twp_mono: "twp m Q d \<Longrightarrow> (\<And>x d'. Q x d' \<Longrightarrow> Q' x d') \<Longrightarrow> twp m Q' d"
  unfolding twp_def by (blast intro: wp_mono)

lemma twp_option:
  "(v = None \<Longrightarrow> twp m Q d) \<Longrightarrow> (\<And>x. v = Some x \<Longrightarrow> twp (f x) Q d) \<Longrightarrow>
   twp (case v of None \<Rightarrow> m | Some x \<Rightarrow> f x) Q d"
  by (cases v) auto

lemma twp_if: "(b \<Longrightarrow> twp m Q d) \<Longrightarrow> (\<not> b \<Longrightarrow> twp n Q d) \<Longrightarrow> twp (if b then m else n) Q d"
  by simp

lemma dwp_option:
  "(v = None \<Longrightarrow> dwp m Q E d) \<Longrightarrow> (\<And>x. v = Some x \<Longrightarrow> dwp (f x) Q E d) \<Longrightarrow>
   dwp (case v of None \<Rightarrow> m | Some x \<Rightarrow> f x) Q E d"
  by (cases v) auto

lemma dwp_if: "(b \<Longrightarrow> dwp m Q E d) \<Longrightarrow> (\<not> b \<Longrightarrow> dwp n Q E d) \<Longrightarrow> dwp (if b then m else n) Q E d"
  by simp

lemmas twp_rules = twp_bindM twp_ret twp_raise twp_requireM twp_liftE twp_client_query
  twp_option twp_if

lemmas dwp_rules = dwp_bindM dwp_ret dwp_raise dwp_requireM dwp_liftE dwp_pool_query
  dwp_catchM dwp_option dwp_if dwp_now dwp_ulid

text \<open>
  A transaction is atomic: if it answers, its whole effect is published; if it throws, either
  nothing has happened or, when the answer to COMMIT was lost, everything has.
\<close>

lemma dwp_transactionally_as:
  assumes "twp body Q d"
  shows "dwp (transactionally_as g body) Q (\<lambda>e d'. d' = d \<or> (\<exists>x. Q x d')) d"
proof (rule dwpI)
  fix w :: "'a world"
  assume w: "wdb w = d" "txn w = None"
  have body: "wp body
      (\<lambda>x w'. wdb w' = d \<and> (\<exists>d'. txn w' = Some (Active d') \<and> Q x d')) (\<lambda>e w'. wdb w' = d) v"
    if "wdb v = d" "txn v = Some (Active d)" for v
    using assms that unfolding twp_def by auto
  let ?Q = "\<lambda>x w'. txn w' = None \<and> Q x (wdb w')"
  let ?E = "\<lambda>e w'. txn w' = None \<and> (wdb w' = d \<or> (\<exists>x. Q x (wdb w')))"
  have rollback: "wp (bindM rollback_transaction (\<lambda>_. raise (g e)))
      (\<lambda>x w'. ?Q x (release w')) (\<lambda>e w'. ?E e (release w')) v"
    if "wdb v = d \<or> (\<exists>x. Q x (wdb v))" for v e
    using that
    by (auto simp: wp_simps wp_def [of rollback_transaction] rollback_transaction_def release_def
        split: fault.splits)
  have commit: "wp commit_transaction (\<lambda>_ w'. ?Q x (release w'))
      (\<lambda>e w'. wdb w' = d \<or> (\<exists>x. Q x (wdb w'))) v"
    if "wdb v = d" "txn v = Some (Active d')" "Q x d'" for v d' x
    using that
    by (auto simp: wp_def commit_transaction_def publish_def release_def split: fault.splits)
  have inner: "wp (bindM body (\<lambda>x. bindM commit_transaction (\<lambda>_. ret x)))
      (\<lambda>x w'. ?Q x (release w')) (\<lambda>e w'. wdb w' = d \<or> (\<exists>x. Q x (wdb w'))) v"
    if "wdb v = d" "txn v = Some (Active d)" for v
    unfolding wp_bindM
  proof (rule wp_mono [OF body [OF that]], goal_cases)
    case (1 x w')
    then obtain d' where "wdb w' = d" "txn w' = Some (Active d')" "Q x d'" by blast
    then show ?case unfolding wp_bindM wp_ret by (rule commit)
  qed simp
  have attempt: "wp (bindM begin_transaction (\<lambda>_. bindM body (\<lambda>x. bindM commit_transaction (\<lambda>_. ret x))))
      (\<lambda>x w'. ?Q x (release w')) (\<lambda>e w'. wdb w' = d \<or> (\<exists>x. Q x (wdb w'))) v"
    if "wdb v = d" for v
    using that inner [of "elapse v\<lparr>txn := Some (Active (wdb v))\<rparr>"]
    by (auto simp: wp_bindM [of begin_transaction] wp_def [of begin_transaction]
        begin_transaction_def split: fault.splits)
  have managed: "wp (catchM
        (bindM begin_transaction (\<lambda>_. bindM body (\<lambda>x. bindM commit_transaction (\<lambda>_. ret x))))
        (\<lambda>e. bindM rollback_transaction (\<lambda>_. raise (g e))))
      (\<lambda>x w'. ?Q x (release w')) (\<lambda>e w'. ?E e (release w')) v"
    if "wdb v = d" for v
    unfolding wp_catchM by (rule wp_mono [OF attempt [OF that]]) (assumption, rule rollback)
  show "wp (transactionally_as g body) ?Q ?E w"
    unfolding transactionally_as_def wp_bindM [of connect] wp_finallyM
    using w managed [of "elapse w"]
    by (auto simp: wp_def [of connect] connect_def split: fault.splits)
qed

lemma dwp_transactionally:
  assumes "twp body Q d"
  shows "dwp (transactionally body) Q (\<lambda>e d'. d' = d \<or> (\<exists>x. Q x d')) d"
  unfolding transactionally_def by (rule dwp_transactionally_as [OF assms])

lemma keeps_dwp:
  assumes "\<And>d. dwp m (\<lambda>_ d'. T d d') (\<lambda>_ d'. T d d') d"
  shows "keeps (db_moves T) m"
  unfolding keeps_def
proof
  fix w
  obtain r w' where m: "m w = (r, w')" by fastforce
  show "db_moves T w (snd (m w))"
  proof (cases r)
    case (Inl e)
    with m show ?thesis
      using dwp_threw [OF assms [of "wdb w"], of e w'] by (auto simp: db_moves_def)
  next
    case (Inr x)
    with m show ?thesis
      using dwp_returned [OF assms [of "wdb w"], of x w'] by (auto simp: db_moves_def)
  qed
qed

text \<open>An invariant of the committed state, as a relation.\<close>

definition preserves :: "('db \<Rightarrow> bool) \<Rightarrow> 'db \<Rightarrow> 'db \<Rightarrow> bool" where
  "preserves I d d' \<longleftrightarrow> (I d \<longrightarrow> I d')"

interpretation preserved: db_relation "preserves I" for I
  by unfold_locales (auto simp: preserves_def)

lemma keeps_preserves:
  "keeps (db_moves (preserves I)) m \<Longrightarrow> m w = (r, w') \<Longrightarrow> txn w = None \<Longrightarrow> I (wdb w) \<Longrightarrow>
   txn w' = None \<and> I (wdb w')"
  using keeps_result [of "db_moves (preserves I)" m w r w']
  by (simp add: db_moves_def preserves_def)

lemma keeps_transaction_invariant:
  assumes "\<And>d. I d \<Longrightarrow> twp body (\<lambda>_. I) d"
  shows "keeps (db_moves (preserves I)) (transactionally_as g body)"
proof (rule keeps_dwp)
  fix d
  show "dwp (transactionally_as g body) (\<lambda>_. preserves I d) (\<lambda>_. preserves I d) d"
  proof (cases "I d")
    case True
    show ?thesis
      by (rule dwp_mono [OF dwp_transactionally_as [OF assms [OF True]]])
        (auto simp: preserves_def True)
  next
    case False
    then show ?thesis
      by (auto simp: preserves_def transactionally_as_def dwp_def wp_def bindM_def [of connect]
          connect_def finallyM_def release_def split: fault.splits prod.splits sum.splits)
  qed
qed

section \<open>Runs without faults\<close>

definition calm :: "'db world \<Rightarrow> bool" where
  "calm w \<longleftrightarrow> faults w = [] \<and> txn w = None"

lemma calm_next [simp]: "calm w \<Longrightarrow> next_fault w = No_fault"
  by (simp add: calm_def next_fault_def)

lemma calm_elapse [simp]: "calm w \<Longrightarrow> calm (elapse w)" "calm w \<Longrightarrow> calm (w\<lparr>wdb := d\<rparr>)"
  by (simp_all add: calm_def)

lemma calm_txn: "calm w \<Longrightarrow> txn w = None"
  by (simp add: calm_def)

lemma pool_query_calm:
  "calm w \<Longrightarrow> pool_query f w =
    (case f (next_time w) (wdb w) of
       Inl e \<Rightarrow> (Inl e, elapse w)
     | Inr (x, d) \<Rightarrow> (Inr x, (elapse w)\<lparr>wdb := d\<rparr>))"
  by (simp add: pool_query_def)

text \<open>
  The same postconditions for a schedule without faults: \<open>cwp\<close> outside and \<open>ctwp\<close> inside a
  transaction. With an error postcondition that is false they say that the method returns.
\<close>

definition cwp :: "('db, 'a) dbm \<Rightarrow> ('a \<Rightarrow> 'db \<Rightarrow> bool) \<Rightarrow> (exn \<Rightarrow> 'db \<Rightarrow> bool) \<Rightarrow> 'db \<Rightarrow> bool" where
  "cwp m Q E d \<longleftrightarrow>
     (\<forall>w. calm w \<and> wdb w = d \<longrightarrow>
        wp m (\<lambda>x w'. calm w' \<and> Q x (wdb w')) (\<lambda>e w'. calm w' \<and> E e (wdb w')) w)"

definition ctwp :: "('db, 'a) dbm \<Rightarrow> ('a \<Rightarrow> 'db \<Rightarrow> bool) \<Rightarrow> (exn \<Rightarrow> bool) \<Rightarrow> 'db \<Rightarrow> bool" where
  "ctwp m Q E d \<longleftrightarrow>
     (\<forall>w. faults w = [] \<and> txn w = Some (Active d) \<longrightarrow>
        wp m (\<lambda>x w'. faults w' = [] \<and> wdb w' = wdb w \<and> (\<exists>d'. txn w' = Some (Active d') \<and> Q x d'))
           (\<lambda>e w'. faults w' = [] \<and> wdb w' = wdb w \<and> E e) w)"

lemma cwpD: "cwp m Q E (wdb w) \<Longrightarrow> calm w \<Longrightarrow>
    wp m (\<lambda>x w'. calm w' \<and> Q x (wdb w')) (\<lambda>e w'. calm w' \<and> E e (wdb w')) w"
  by (simp add: cwp_def)

lemma cwp_mono:
  assumes "cwp m Q E d"
    and "\<And>x d'. Q x d' \<Longrightarrow> Q' x d'" and "\<And>e d'. E e d' \<Longrightarrow> E' e d'"
  shows "cwp m Q' E' d"
  using assms unfolding cwp_def by (auto intro: wp_mono)

lemma cwp_ret: "Q x d \<Longrightarrow> cwp (ret x) Q E d"
  by (simp add: cwp_def wp_simps)

lemma cwp_raise: "E e d \<Longrightarrow> cwp (raise e) Q E d"
  by (simp add: cwp_def wp_simps)

lemma cwp_liftE: "(\<And>x. r = Inr x \<Longrightarrow> Q x d) \<Longrightarrow> (\<And>e. r = Inl e \<Longrightarrow> E e d) \<Longrightarrow> cwp (liftE r) Q E d"
  by (simp add: cwp_def wp_simps split: sum.split)

lemma cwp_requireM: "(b \<Longrightarrow> Q () d) \<Longrightarrow> (\<not> b \<Longrightarrow> E e d) \<Longrightarrow> cwp (requireM b e) Q E d"
  by (simp add: cwp_def wp_simps)

lemma cwp_bindM: "cwp m (\<lambda>x d'. cwp (f x) Q E d') E d \<Longrightarrow> cwp (bindM m f) Q E d"
  unfolding cwp_def by (auto simp: wp_simps intro: wp_mono)

lemma cwp_catchM: "cwp m Q (\<lambda>e d'. cwp (h e) Q E d') d \<Longrightarrow> cwp (catchM m h) Q E d"
  unfolding cwp_def by (auto simp: wp_simps intro: wp_mono)

lemma cwp_pool_query:
  assumes "\<And>t. case f t d of Inr (x, d') \<Rightarrow> Q x d' | Inl e \<Rightarrow> E e d"
  shows "cwp (pool_query f) Q E d"
  unfolding cwp_def
proof (intro allI impI, elim conjE)
  fix w
  assume w: "calm w" "wdb w = d"
  with assms [of "next_time w"]
  show "wp (pool_query f) (\<lambda>x w'. calm w' \<and> Q x (wdb w')) (\<lambda>e w'. calm w' \<and> E e (wdb w')) w"
    by (auto simp: pool_query_calm wp_def split: sum.splits)
qed

lemma cwp_now: "(\<And>t. Q t d) \<Longrightarrow> cwp now_ms Q E d"
  by (simp add: cwp_def wp_def now_ms_def calm_def)

lemma cwp_ulid: "(\<And>s. Q s d) \<Longrightarrow> cwp fresh_ulid Q E d"
  by (simp add: cwp_def wp_def fresh_ulid_def calm_def)

lemma cwp_option:
  "(v = None \<Longrightarrow> cwp m Q E d) \<Longrightarrow> (\<And>x. v = Some x \<Longrightarrow> cwp (f x) Q E d) \<Longrightarrow>
   cwp (case v of None \<Rightarrow> m | Some x \<Rightarrow> f x) Q E d"
  by (cases v) auto

lemma cwp_if: "(b \<Longrightarrow> cwp m Q E d) \<Longrightarrow> (\<not> b \<Longrightarrow> cwp n Q E d) \<Longrightarrow> cwp (if b then m else n) Q E d"
  by simp

lemma ctwp_ret: "Q x d \<Longrightarrow> ctwp (ret x) Q E d"
  by (simp add: ctwp_def wp_simps)

lemma ctwp_raise: "E e \<Longrightarrow> ctwp (raise e) Q E d"
  by (simp add: ctwp_def wp_simps)

lemma ctwp_requireM: "(b \<Longrightarrow> Q () d) \<Longrightarrow> (\<not> b \<Longrightarrow> E e) \<Longrightarrow> ctwp (requireM b e) Q E d"
  by (simp add: ctwp_def wp_simps)

lemma ctwp_bindM: "ctwp m (\<lambda>x d'. ctwp (f x) Q E d') E d \<Longrightarrow> ctwp (bindM m f) Q E d"
  unfolding ctwp_def by (fastforce simp: wp_simps elim!: wp_mono)

lemma ctwp_client_query:
  assumes "\<And>t. case f t d of Inr (x, d') \<Rightarrow> Q x d' | Inl e \<Rightarrow> E e"
  shows "ctwp (client_query f) Q E d"
  unfolding ctwp_def
proof (intro allI impI, elim conjE)
  fix w :: "'b world"
  assume w: "faults w = []" "txn w = Some (Active d)"
  then have "next_fault w = No_fault" by (simp add: next_fault_def)
  with w assms [of "next_time w"]
  show "wp (client_query f)
      (\<lambda>x w'. faults w' = [] \<and> wdb w' = wdb w \<and> (\<exists>d'. txn w' = Some (Active d') \<and> Q x d'))
      (\<lambda>e w'. faults w' = [] \<and> wdb w' = wdb w \<and> E e) w"
    by (auto simp: client_query_def wp_def split: sum.splits)
qed

lemma ctwp_query_to:
  "(\<And>t. f t d = Inr (x, g t)) \<Longrightarrow> (\<And>t. Q x (g t)) \<Longrightarrow> ctwp (client_query f) Q E d"
  by (rule ctwp_client_query) simp

lemma ctwp_option:
  "(v = None \<Longrightarrow> ctwp m Q E d) \<Longrightarrow> (\<And>x. v = Some x \<Longrightarrow> ctwp (f x) Q E d) \<Longrightarrow>
   ctwp (case v of None \<Rightarrow> m | Some x \<Rightarrow> f x) Q E d"
  by (cases v) auto

lemma ctwp_if: "(b \<Longrightarrow> ctwp m Q E d) \<Longrightarrow> (\<not> b \<Longrightarrow> ctwp n Q E d) \<Longrightarrow> ctwp (if b then m else n) Q E d"
  by simp

lemma cwp_transactionally_as:
  assumes "ctwp body Q E d"
  shows "cwp (transactionally_as g body) Q (\<lambda>e d'. d' = d \<and> (\<exists>e'. e = g e' \<and> E e')) d"
  unfolding cwp_def
proof (intro allI impI, elim conjE)
  fix w :: "'a world"
  assume w: "calm w" "wdb w = d"
  let ?v = "elapse (elapse w)\<lparr>txn := Some (Active d)\<rparr>"
  have "wp body
      (\<lambda>x w'. faults w' = [] \<and> wdb w' = d \<and> (\<exists>d'. txn w' = Some (Active d') \<and> Q x d'))
      (\<lambda>e w'. faults w' = [] \<and> wdb w' = d \<and> E e) ?v"
    using assms [unfolded ctwp_def, rule_format, of ?v] w by (simp add: calm_def)
  then show "wp (transactionally_as g body) (\<lambda>x w'. calm w' \<and> Q x (wdb w'))
      (\<lambda>e w'. calm w' \<and> wdb w' = d \<and> (\<exists>e'. e = g e' \<and> E e')) w"
    using w
    by (auto simp: transactionally_as_def connect_def begin_transaction_def commit_transaction_def
        rollback_transaction_def release_def publish_def wp_def monad_defs calm_def next_fault_def
        split: prod.splits sum.splits fault.splits)
qed

lemma cwp_transactionally:
  assumes "ctwp body Q E d"
  shows "cwp (transactionally body) Q (\<lambda>e d'. d' = d \<and> E e) d"
  unfolding transactionally_def by (rule cwp_mono [OF cwp_transactionally_as [OF assms]]) auto

lemmas cwp_rules = cwp_bindM cwp_ret cwp_raise cwp_requireM cwp_liftE cwp_pool_query
  cwp_catchM cwp_option cwp_if cwp_now cwp_ulid

lemmas ctwp_rules = ctwp_bindM ctwp_ret ctwp_raise ctwp_requireM ctwp_client_query
  ctwp_option ctwp_if

section \<open>Quiet round trips\<close>

text \<open>Without faults and ticks a round trip only does what it is sent for.\<close>

lemma quiet_elapse: "faults w = [] \<Longrightarrow> ticks w = [] \<Longrightarrow> elapse w = w"
  by (simp add: elapse_def next_time_def)

lemma quiet_client_query:
  "faults w = [] \<Longrightarrow> ticks w = [] \<Longrightarrow> txn w = Some (Active d) \<Longrightarrow> f (wclock w) d = Inr (x, d') \<Longrightarrow>
   client_query f w = (Inr x, w\<lparr>txn := Some (Active d')\<rparr>)"
  by (simp add: client_query_def next_fault_def next_time_def quiet_elapse)

lemma quiet_transaction:
  "faults w = [] \<Longrightarrow> ticks w = [] \<Longrightarrow> body (w\<lparr>txn := Some (Active (wdb w))\<rparr>) = (Inr x, w') \<Longrightarrow>
   faults w' = [] \<Longrightarrow> ticks w' = [] \<Longrightarrow> txn w' = Some (Active d) \<Longrightarrow>
   transactionally body w = (Inr x, w'\<lparr>wdb := d, txn := None\<rparr>)"
  by (simp add: transactionally_def transactionally_as_def bindM_def finallyM_def catchM_def connect_def
    begin_transaction_def commit_transaction_def publish_def release_def ret_def next_fault_def quiet_elapse)

lemma quiet_pool_query:
  "faults w = [] \<Longrightarrow> ticks w = [] \<Longrightarrow> f (wclock w) (wdb w) = Inr (x, d) \<Longrightarrow> pool_query f w = (Inr x, w\<lparr>wdb := d\<rparr>)"
  by (simp add: pool_query_def next_fault_def next_time_def quiet_elapse)

end
