(* ===== verification/Schemas.thy ===== *)
theory Schemas
  imports Contracts "HOL-Library.Monad_Syntax"
begin

text \<open>
  JSON values and the schemas of packages/contracts/src that the verification and mutation
  paths exchange: artifacts and checker verdicts (artifacts.ts), checked commands, receipts and
  read-backs (mutations.ts), runtime policies (runtime.ts), invocations (invocations.ts), team
  results (team-results.ts) and the date and money schemas.

  A typed value is a record; its schema is the predicate that holds of the values \<open>parse\<close>
  accepts. Literal fields (schemaName, schemaVersion, canonicalizationVersion, hashAlgorithm)
  have one value and are left out, and instants are numbers of milliseconds. Where the program
  parses untyped JSON (a stored verdict, a maker artifact), the parser is a function on \<open>json\<close>.
\<close>

section \<open>JSON\<close>

datatype json =
    JNull
  | JBool bool
  | JNum int
  | JStr string
  | JArr "json list"
  | JObj "(string \<times> json) list"

definition json_field :: "string \<Rightarrow> json \<Rightarrow> json option" where
  "json_field k j = (case j of JObj kvs \<Rightarrow> map_of kvs k | _ \<Rightarrow> None)"

text \<open>\<open>z.object(...).strict()\<close>: an object with no other keys.\<close>

definition strict_object :: "string list \<Rightarrow> json \<Rightarrow> bool" where
  "strict_object ks j =
    (case j of JObj kvs \<Rightarrow> list_all (\<lambda>kv. fst kv \<in> set ks) kvs | _ \<Rightarrow> False)"

definition json_string :: "json \<Rightarrow> string option" where
  "json_string j = (case j of JStr s \<Rightarrow> Some s | _ \<Rightarrow> None)"

definition json_int :: "json \<Rightarrow> int option" where
  "json_int j = (case j of JNum n \<Rightarrow> Some n | _ \<Rightarrow> None)"

fun parse_list :: "(json \<Rightarrow> 'a option) \<Rightarrow> json list \<Rightarrow> 'a list option" where
  "parse_list p [] = Some []"
| "parse_list p (j # js) =
    (case p j of None \<Rightarrow> None
     | Some x \<Rightarrow> (case parse_list p js of None \<Rightarrow> None | Some xs \<Rightarrow> Some (x # xs)))"

definition json_array :: "(json \<Rightarrow> 'a option) \<Rightarrow> json \<Rightarrow> 'a list option" where
  "json_array p j = (case j of JArr js \<Rightarrow> parse_list p js | _ \<Rightarrow> None)"

definition check_that :: "bool \<Rightarrow> unit option" where
  "check_that b = (if b then Some () else None)"

lemma check_that_Some [simp]: "check_that b = Some u \<longleftrightarrow> b"
  by (simp add: check_that_def)

lemma check_that_True [simp]: "check_that True = Some ()"
  by (simp add: check_that_def)

lemma parse_list_map:
  assumes "\<And>x. x \<in> set xs \<Longrightarrow> p (f x) = Some x"
  shows "parse_list p (map f xs) = Some xs"
  using assms by (induction xs) auto

lemma parse_strings [simp]: "parse_list json_string (map JStr xs) = Some xs"
  by (rule parse_list_map) (simp add: json_string_def)

text \<open>Canonical JSON (RFC 8785) and SHA-256 are library code: parameters of the model.\<close>

record hashing =
  canonicalize :: "json \<Rightarrow> string"
  sha256 :: "string \<Rightarrow> string"

definition canonicalizeJson :: "hashing \<Rightarrow> json \<Rightarrow> string" where
  "canonicalizeJson h j = canonicalize h j"

definition hashArtifact :: "hashing \<Rightarrow> json \<Rightarrow> string" where
  "hashArtifact h j = sha256 h (canonicalizeJson h j)"

record schema_identity =
  sch_name :: string
  sch_version :: int

definition SchemaIdentitySchemaV1 :: "schema_identity \<Rightarrow> bool" where
  "SchemaIdentitySchemaV1 s \<longleftrightarrow> kebab_name (sch_name s) \<and> 0 < sch_version s"

definition parse_schema_identity :: "json \<Rightarrow> schema_identity option" where
  "parse_schema_identity j = do {
     check_that (strict_object [''schemaName'', ''schemaVersion''] j);
     n \<leftarrow> Option.bind (json_field ''schemaName'' j) json_string;
     v \<leftarrow> Option.bind (json_field ''schemaVersion'' j) json_int;
     check_that (SchemaIdentitySchemaV1 \<lparr>sch_name = n, sch_version = v\<rparr>);
     Some \<lparr>sch_name = n, sch_version = v\<rparr> }"

record skill_identity =
  sk_name :: string
  sk_version :: int
  sk_hash :: string

definition SkillIdentitySchemaV1 :: "skill_identity \<Rightarrow> bool" where
  "SkillIdentitySchemaV1 s \<longleftrightarrow> kebab_name (sk_name s) \<and> 0 < sk_version s \<and> sha256_hex (sk_hash s)"

definition text_between :: "nat \<Rightarrow> nat \<Rightarrow> string \<Rightarrow> bool" where
  "text_between lo hi s \<longleftrightarrow> lo \<le> length s \<and> length s \<le> hi"

section \<open>Artifacts and verdicts\<close>

datatype artifact_type =
    AT_maker_output | AT_checker_output | AT_evidence_package | AT_calculation
  | AT_reconciliation | AT_mutation_proposal | AT_team_result

record artifact =
  ar_id :: string
  ar_household :: string
  ar_task :: string
  ar_type :: artifact_type
  ar_schema :: schema_identity
  ar_hash :: string
  ar_payload :: json
  ar_created :: nat

definition ArtifactEnvelopeSchemaV1 :: "artifact \<Rightarrow> bool" where
  "ArtifactEnvelopeSchemaV1 a \<longleftrightarrow>
     opaqueIdentifierSchema Id_artifact (ar_id a)
     \<and> opaqueIdentifierSchema Id_household (ar_household a)
     \<and> opaqueIdentifierSchema Id_task (ar_task a)
     \<and> SchemaIdentitySchemaV1 (ar_schema a)
     \<and> sha256_hex (ar_hash a)"

record checker_finding =
  fd_code :: string
  fd_message :: string

record checker_verdict =
  cv_verdict :: verdict_kind
  cv_artifact :: string
  cv_hash :: string
  cv_findings :: "checker_finding list"

definition CheckerFindingSchemaV1 :: "checker_finding \<Rightarrow> bool" where
  "CheckerFindingSchemaV1 f \<longleftrightarrow> fd_code f \<noteq> [] \<and> fd_message f \<noteq> []"

definition CheckerVerdictSchemaV1 :: "checker_verdict \<Rightarrow> bool" where
  "CheckerVerdictSchemaV1 v \<longleftrightarrow>
     opaqueIdentifierSchema Id_artifact (cv_artifact v) \<and> sha256_hex (cv_hash v)
     \<and> list_all CheckerFindingSchemaV1 (cv_findings v)"

fun verdict_name :: "verdict_kind \<Rightarrow> string" where
  "verdict_name V_accepted = ''accepted''"
| "verdict_name V_rejected = ''rejected''"
| "verdict_name V_revision_requested = ''revision_requested''"
| "verdict_name V_insufficient_evidence = ''insufficient_evidence''"
| "verdict_name V_conflicted = ''conflicted''"

definition parse_verdict_kind :: "string \<Rightarrow> verdict_kind option" where
  "parse_verdict_kind s = find (\<lambda>k. verdict_name k = s)
    [V_accepted, V_rejected, V_revision_requested, V_insufficient_evidence, V_conflicted]"

definition finding_json :: "checker_finding \<Rightarrow> json" where
  "finding_json f = JObj [(''code'', JStr (fd_code f)), (''message'', JStr (fd_message f))]"

definition verdict_json :: "checker_verdict \<Rightarrow> json" where
  "verdict_json v = JObj
     [(''verdict'', JStr (verdict_name (cv_verdict v))),
      (''coveredArtifactId'', JStr (cv_artifact v)),
      (''coveredArtifactHash'', JStr (cv_hash v)),
      (''findings'', JArr (map finding_json (cv_findings v)))]"

definition parse_finding :: "json \<Rightarrow> checker_finding option" where
  "parse_finding j = do {
     check_that (strict_object [''code'', ''message''] j);
     c \<leftarrow> Option.bind (json_field ''code'' j) json_string;
     m \<leftarrow> Option.bind (json_field ''message'' j) json_string;
     check_that (CheckerFindingSchemaV1 \<lparr>fd_code = c, fd_message = m\<rparr>);
     Some \<lparr>fd_code = c, fd_message = m\<rparr> }"

definition parse_verdict :: "json \<Rightarrow> checker_verdict option" where
  "parse_verdict j = do {
     check_that (strict_object
       [''verdict'', ''coveredArtifactId'', ''coveredArtifactHash'', ''findings''] j);
     k \<leftarrow> Option.bind (Option.bind (json_field ''verdict'' j) json_string) parse_verdict_kind;
     a \<leftarrow> Option.bind (json_field ''coveredArtifactId'' j) json_string;
     h \<leftarrow> Option.bind (json_field ''coveredArtifactHash'' j) json_string;
     fs \<leftarrow> Option.bind (json_field ''findings'' j) (json_array parse_finding);
     let v = \<lparr>cv_verdict = k, cv_artifact = a, cv_hash = h, cv_findings = fs\<rparr>
     in if CheckerVerdictSchemaV1 v then Some v else None }"

lemma parse_verdict_kind_name [simp]: "parse_verdict_kind (verdict_name k) = Some k"
  by (cases k) (simp_all add: parse_verdict_kind_def)

lemma parse_finding_json: "CheckerFindingSchemaV1 f \<Longrightarrow> parse_finding (finding_json f) = Some f"
  by (cases f)
    (simp add: parse_finding_def finding_json_def strict_object_def json_field_def json_string_def)

text \<open>
  A checker verdict that satisfies its schema survives being stored as an artifact payload
  and parsed back from it: the ledger re-reads exactly the verdict that was recorded.
\<close>

theorem verdict_round_trip:
  assumes "CheckerVerdictSchemaV1 v"
  shows "parse_verdict (verdict_json v) = Some v"
proof -
  have "parse_list parse_finding (map finding_json (cv_findings v)) = Some (cv_findings v)"
    using assms
    by (intro parse_list_map parse_finding_json) (auto simp: CheckerVerdictSchemaV1_def list_all_iff)
  then show ?thesis using assms
    by (cases v) (simp add: parse_verdict_def verdict_json_def strict_object_def json_field_def
        json_string_def json_array_def)
qed

definition sample_verdict :: checker_verdict where
  "sample_verdict =
    \<lparr>cv_verdict = V_revision_requested, cv_artifact = ''artifact_0123456789ABCDEFGHJKMNPQRS'',
     cv_hash = replicate 64 (CHR ''a''),
     cv_findings = [\<lparr>fd_code = ''wrong_total'', fd_message = ''The postings do not balance''\<rparr>]\<rparr>"

theorem verdict_round_trip_witness:
  "parse_verdict (verdict_json sample_verdict) = Some sample_verdict"
  by (rule verdict_round_trip) code_simp

section \<open>Checked mutations\<close>

datatype confirmation_channel = Channel_telegram | Channel_slack | Channel_other

record external_confirmation =
  ec_id :: string
  ec_household :: string
  ec_task :: string
  ec_proposal :: string
  ec_proposal_hash :: string
  ec_principal :: string
  ec_channel :: confirmation_channel
  ec_reference :: string
  ec_confirmed :: nat

definition ExternalConfirmationSchemaV1 :: "external_confirmation \<Rightarrow> bool" where
  "ExternalConfirmationSchemaV1 e \<longleftrightarrow>
     opaqueIdentifierSchema Id_confirmation (ec_id e)
     \<and> opaqueIdentifierSchema Id_household (ec_household e)
     \<and> opaqueIdentifierSchema Id_task (ec_task e)
     \<and> opaqueIdentifierSchema Id_artifact (ec_proposal e) \<and> sha256_hex (ec_proposal_hash e)
     \<and> text_between 1 256 (ec_principal e) \<and> text_between 1 512 (ec_reference e)"

record checked_command =
  cc_id :: string
  cc_household :: string
  cc_task :: string
  cc_proposal :: string
  cc_proposal_hash :: string
  cc_type :: string
  cc_idem :: string
  cc_confirmation :: "string option"
  cc_schema :: schema_identity
  cc_payload :: json

definition CheckedCommandSchemaV1 :: "checked_command \<Rightarrow> bool" where
  "CheckedCommandSchemaV1 c \<longleftrightarrow>
     opaqueIdentifierSchema Id_command (cc_id c)
     \<and> opaqueIdentifierSchema Id_household (cc_household c)
     \<and> opaqueIdentifierSchema Id_task (cc_task c)
     \<and> opaqueIdentifierSchema Id_artifact (cc_proposal c) \<and> sha256_hex (cc_proposal_hash c)
     \<and> command_type_name (cc_type c)
     \<and> opaqueIdentifierSchema Id_idempotency (cc_idem c)
     \<and> (case cc_confirmation c of None \<Rightarrow> True
         | Some i \<Rightarrow> opaqueIdentifierSchema Id_confirmation i)
     \<and> SchemaIdentitySchemaV1 (cc_schema c)"

record committed_record =
  cr_type :: string
  cr_id :: string

definition CommittedRecordReferenceSchemaV1 :: "committed_record \<Rightarrow> bool" where
  "CommittedRecordReferenceSchemaV1 r \<longleftrightarrow> record_type_name (cr_type r) \<and> text_between 1 160 (cr_id r)"

record mutation_receipt =
  mr_id :: string
  mr_command :: string
  mr_household :: string
  mr_task :: string
  mr_proposal :: string
  mr_proposal_hash :: string
  mr_type :: string
  mr_idem :: string
  mr_records :: "committed_record list"
  mr_expected :: json
  mr_expected_hash :: string
  mr_committed :: nat

definition MutationReceiptSchemaV1 :: "mutation_receipt \<Rightarrow> bool" where
  "MutationReceiptSchemaV1 r \<longleftrightarrow>
     opaqueIdentifierSchema Id_receipt (mr_id r)
     \<and> opaqueIdentifierSchema Id_command (mr_command r)
     \<and> opaqueIdentifierSchema Id_household (mr_household r)
     \<and> opaqueIdentifierSchema Id_task (mr_task r)
     \<and> opaqueIdentifierSchema Id_artifact (mr_proposal r) \<and> sha256_hex (mr_proposal_hash r)
     \<and> command_type_name (mr_type r)
     \<and> opaqueIdentifierSchema Id_idempotency (mr_idem r)
     \<and> mr_records r \<noteq> [] \<and> list_all CommittedRecordReferenceSchemaV1 (mr_records r)
     \<and> sha256_hex (mr_expected_hash r)"

datatype check_kind =
    Ck_identifiers | Ck_row_values | Ck_balances | Ck_source_links | Ck_artifact_links
  | Ck_idempotency_receipt

datatype check_status = Check_passed | Check_failed | Check_not_applicable

record readback_check =
  rc_kind :: check_kind
  rc_status :: check_status
  rc_detail :: "string option"

definition ReadbackCheckSchemaV1 :: "readback_check \<Rightarrow> bool" where
  "ReadbackCheckSchemaV1 c \<longleftrightarrow>
     (case rc_detail c of None \<Rightarrow> rc_status c \<noteq> Check_failed | Some d \<Rightarrow> text_between 1 128 d)"

record readback_result =
  rb_id :: string
  rb_command :: string
  rb_receipt :: string
  rb_ok :: bool
  rb_checks :: "readback_check list"
  rb_mismatches :: "string list"
  rb_hash :: string

definition ReadbackResultSchemaV1 :: "readback_result \<Rightarrow> bool" where
  "ReadbackResultSchemaV1 r \<longleftrightarrow>
     opaqueIdentifierSchema Id_mutationReadback (rb_id r)
     \<and> opaqueIdentifierSchema Id_command (rb_command r)
     \<and> opaqueIdentifierSchema Id_receipt (rb_receipt r)
     \<and> rb_checks r \<noteq> [] \<and> list_all ReadbackCheckSchemaV1 (rb_checks r)
     \<and> list_all (text_between 1 256) (rb_mismatches r)
     \<and> sha256_hex (rb_hash r)
     \<and> distinct (map rc_kind (rb_checks r))
     \<and> (let failed = list_ex (\<lambda>c. rc_status c = Check_failed) (rb_checks r)
         in \<not> ((rb_ok r \<and> (failed \<or> rb_mismatches r \<noteq> []))
               \<or> (\<not> rb_ok r \<and> \<not> failed \<and> rb_mismatches r = [])))"

section \<open>Runtime policies\<close>

datatype model_capability =
  Cap_structured_output | Cap_tool_calling | Cap_web_research | Cap_long_context | Cap_vision

record policy_identity =
  pi_name :: string
  pi_version :: int

definition RuntimePolicyIdentitySchemaV1 :: "policy_identity \<Rightarrow> bool" where
  "RuntimePolicyIdentitySchemaV1 p \<longleftrightarrow> kebab_name (pi_name p) \<and> 0 < pi_version p"

record runtime_policy =
  rp_identity :: policy_identity
  rp_capabilities :: "model_capability list"
  rp_primary :: string
  rp_fallbacks :: "string list"
  rp_max_model_steps :: int
  rp_max_tool_concurrency :: int
  rp_max_attempts :: int
  rp_max_model_request_retries :: int
  rp_max_processor_retries :: int
  rp_max_sandbox :: int
  rp_call_deadline :: int
  rp_team_deadline :: int
  rp_end_deadline :: int
  rp_max_output_bytes :: int

definition RuntimePolicySchemaV1 :: "runtime_policy \<Rightarrow> bool" where
  "RuntimePolicySchemaV1 p \<longleftrightarrow>
     RuntimePolicyIdentitySchemaV1 (rp_identity p)
     \<and> rp_capabilities p \<noteq> []
     \<and> 3 \<le> length (rp_primary p) \<and> list_all (\<lambda>m. 3 \<le> length m) (rp_fallbacks p)
     \<and> 0 < rp_max_model_steps p \<and> 0 < rp_max_tool_concurrency p \<and> 0 < rp_max_attempts p
     \<and> 0 \<le> rp_max_model_request_retries p \<and> 0 \<le> rp_max_processor_retries p
     \<and> 0 \<le> rp_max_sandbox p
     \<and> 0 < rp_call_deadline p \<and> 0 < rp_team_deadline p \<and> 0 < rp_end_deadline p
     \<and> 0 < rp_max_output_bytes p
     \<and> \<not> (rp_team_deadline p < rp_call_deadline p \<or> rp_end_deadline p < rp_team_deadline p)"

end
