(* ===== verification/DbErrors.thy ===== *)
theory DbErrors
  imports Contracts
begin

text \<open>
  How driver failures become the program's errors: packages/database/src/errors.ts and
  repositories/operations/mutation-errors.ts. Whatever is thrown comes back as a
  \<open>PlusOneError\<close> whose retry directive tells the caller what to do next.
\<close>


definition SQL_STATE_MAPPING :: "(string \<times> (error_category \<times> string \<times> retry_directive)) list" where
  "SQL_STATE_MAPPING =
    [(''40001'', Serialization_conflict, ''database_serialization_conflict'', After_backoff),
     (''40P01'', Serialization_conflict, ''database_deadlock'', After_backoff),
     (''55P03'', Timeout, ''database_lock_timeout'', After_backoff),
     (''57014'', Timeout, ''database_statement_timeout'', After_backoff),
     (''08000'', Storage_unavailable, ''database_connection_failed'', After_backoff),
     (''08003'', Storage_unavailable, ''database_connection_failed'', After_backoff),
     (''08006'', Storage_unavailable, ''database_connection_failed'', After_backoff),
     (''57P01'', Storage_unavailable, ''database_shutdown'', After_backoff)]"

definition isConstraintClass :: "string \<Rightarrow> bool" where
  "isConstraintClass s \<longleftrightarrow> take 2 s = ''22'' \<or> take 2 s = ''23'' \<or> take 2 s = ''2B''"

definition normalizeDatabaseError :: "bool \<Rightarrow> exn \<Rightarrow> exn" where
  "normalizeDatabaseError receiptLookupRequired e =
    (if is_plus_one e then e
     else
       let sqlState = error_code e;
           mapped = Option.bind sqlState (map_of SQL_STATE_MAPPING);
           (cat, c, retry) =
             (case mapped of
                Some m \<Rightarrow> m
              | None \<Rightarrow>
                  (case sqlState of
                     Some s \<Rightarrow>
                       if isConstraintClass s
                       then (Constraint_violation, ''database_constraint_violation'', Never)
                       else (Storage_unavailable, ''database_operation_failed'', After_backoff)
                   | None \<Rightarrow> (Storage_unavailable, ''database_operation_failed'', After_backoff)))
       in PlusOneError cat c retry receiptLookupRequired (Some e))"

text \<open>\<open>hay.includes(needle)\<close>.\<close>

definition text_includes :: "string \<Rightarrow> string \<Rightarrow> bool" where
  "text_includes needle hay \<longleftrightarrow>
     list_ex (\<lambda>n. take (length needle) (drop n hay) = needle) [0..<Suc (length hay)]"

definition pg_of :: "exn \<Rightarrow> pg_failure" where
  "pg_of e = (case e of PgFailure p \<Rightarrow> p
    | _ \<Rightarrow> \<lparr>pg_code = None, pg_constraint = None, pg_message = None\<rparr>)"

definition acceptance_constraint :: "pg_failure \<Rightarrow> bool" where
  "acceptance_constraint p \<longleftrightarrow>
     pg_constraint p = Some ''mutation_command_acceptance_required''
     \<or> (case pg_message p of None \<Rightarrow> False | Some m \<Rightarrow> text_includes ''accepting checker verdict'' m)"

definition constraint_among :: "pg_failure \<Rightarrow> string list \<Rightarrow> bool" where
  "constraint_among p ks \<longleftrightarrow> (case pg_constraint p of None \<Rightarrow> '''' \<in> set ks | Some k \<Rightarrow> k \<in> set ks)"

definition normalizeMutationDatabaseError :: "exn \<Rightarrow> exn" where
  "normalizeMutationDatabaseError e =
    (if is_plus_one e then e
     else
       let p = pg_of e; raised = (pg_code p = Some ''23514'')
       in if raised \<and> acceptance_constraint p
          then PlusOneError Checker_rejected ''exact_checker_acceptance_required'' Never False (Some e)
          else if raised \<and> constraint_among p
            [''mutation_command_exact_confirmation'', ''mutation_command_confirmation_required'']
          then PlusOneError Confirmation_required ''exact_external_confirmation_required''
                 After_state_resolution False (Some e)
          else if raised \<and> constraint_among p
            [''mutation_command_exact_artifact'', ''mutation_command_task_not_ready'']
          then PlusOneError Validation_rejected ''checked_proposal_identity_mismatch'' Never False (Some e)
          else if raised \<and> constraint_among p
            [''mutation_command_not_executable'', ''mutation_command_not_pending'',
             ''mutation_command_status_transition'', ''mutation_command_task_not_execution_pending'',
             ''mutation_command_receipt_required'', ''mutation_command_readback_required'',
             ''mutation_command_claim_required'']
          then PlusOneError Serialization_conflict ''mutation_command_state_conflict''
                 After_state_resolution True (Some e)
          else normalizeDatabaseError False e)"

lemma normalize_plus_one [simp]:
  "is_plus_one e \<Longrightarrow> normalizeDatabaseError b e = e"
  "is_plus_one e \<Longrightarrow> normalizeMutationDatabaseError e = e"
  by (simp_all add: normalizeDatabaseError_def normalizeMutationDatabaseError_def)

lemma is_plus_one_normalize [simp]: "is_plus_one (normalizeDatabaseError b e)"
  by (auto simp: normalizeDatabaseError_def Let_def split: prod.split)

lemma is_plus_one_normalize_mutation [simp]: "is_plus_one (normalizeMutationDatabaseError e)"
  by (simp add: normalizeMutationDatabaseError_def Let_def)

lemma normalize_never:
  assumes "\<not> is_plus_one e"
  shows "e_retry (normalizeDatabaseError b e) = Never \<longleftrightarrow>
    (\<exists>s. error_code e = Some s \<and> isConstraintClass s)"
proof (cases "error_code e")
  case None
  with assms show ?thesis by (simp add: normalizeDatabaseError_def)
next
  case (Some s)
  show ?thesis
  proof (cases "map_of SQL_STATE_MAPPING s")
    case None
    with Some assms show ?thesis by (simp add: normalizeDatabaseError_def)
  next
    case (Some m)
    then have "snd (snd m) = After_backoff" "\<not> isConstraintClass s"
      by (auto simp: SQL_STATE_MAPPING_def isConstraintClass_def split: if_splits)
    with Some \<open>error_code e = Some s\<close> assms show ?thesis
      by (cases m) (simp add: normalizeDatabaseError_def)
  qed
qed

text \<open>
  Error normalisation is total and says when a retry is pointless: whatever the driver
  throws becomes a \<open>PlusOneError\<close>, the ones that already are pass through unchanged, and a raw
  failure is marked \<open>never\<close> exactly when its SQLSTATE is of class 22, 23 or 2B; every other raw
  failure is to be retried after a back-off.
\<close>

theorem normalizeDatabaseError_total:
  "is_plus_one (normalizeDatabaseError b e)
   \<and> (if is_plus_one e then normalizeDatabaseError b e = e
      else e_cause (normalizeDatabaseError b e) = Some e
        \<and> e_receipt_lookup (normalizeDatabaseError b e) = b
        \<and> e_retry (normalizeDatabaseError b e) =
            (case error_code e of
               Some s \<Rightarrow> if isConstraintClass s then Never else After_backoff
             | None \<Rightarrow> After_backoff))"
proof -
  have "e_retry (normalizeDatabaseError b e) \<in> {Never, After_backoff}" if "\<not> is_plus_one e"
    using that by (auto simp: normalizeDatabaseError_def Let_def SQL_STATE_MAPPING_def
        split: option.splits if_splits)
  then show ?thesis using normalize_never [of e b]
    by (auto simp: normalizeDatabaseError_def Let_def split: option.splits prod.splits)
qed

end
