(* ===== verification/OpsDb.thy ===== *)
theory OpsDb
  imports World Schemas DbErrors
begin

text \<open>
  The tables of the operations schema (database/migrations/0003, 0005, 0019, 0022) that the
  verification ledger and the mutation commands share. Rows carry the public identifiers where
  the tables carry surrogate keys that the statements join away, and a table lists its rows in
  the order of their identity column. \<open>domain\<close> stands for the accounting and planning tables a
  mutation handler writes.

  A statement checks the constraints PostgreSQL would check and fails with the violated one.
\<close>

datatype run_status = Run_running | Run_succeeded | Run_failed | Run_cancelled | Run_timed_out

datatype attempt_outcome =
  At_running | At_succeeded | At_schema_failed | At_model_failed | At_tool_failed | At_timed_out
  | At_cancelled

record execution_contract =
  xc_skill :: skill_identity
  xc_input :: schema_identity
  xc_output :: schema_identity
  xc_policy :: runtime_policy

record task_row =
  t_household :: string
  t_id :: string
  t_parent :: "string option"
  t_team :: string
  t_status :: task_status
  t_attempt_limit :: int
  t_deadline :: "nat option"
  t_failure :: "string option"
  t_resumable :: bool
  t_maker :: "string option"
  t_maker_hash :: "string option"
  t_checker :: "string option"
  t_contract :: "execution_contract option"
  t_terminal_at :: "nat option"
  t_updated :: nat

record transition_row =
  tr_household :: string
  tr_task :: string
  tr_sequence :: nat
  tr_from :: "task_status option"
  tr_to :: task_status
  tr_reason :: string
  tr_component :: string

record artifact_row =
  af_artifact :: artifact
  af_canonical :: string

record verdict_row =
  vd_household :: string
  vd_task :: string
  vd_checker :: string
  vd_covered :: string
  vd_hash :: string
  vd_verdict :: verdict_kind

record run_row =
  rn_household :: string
  rn_task :: string
  rn_id :: string
  rn_role :: string
  rn_role_version :: int
  rn_model :: string
  rn_policy :: runtime_policy
  rn_status :: run_status
  rn_ended :: "nat option"
  rn_failure :: "string option"
  rn_code :: "string option"
  rn_retry :: "string option"

record attempt_row =
  at_household :: string
  at_task :: string
  at_run :: string
  at_role :: string
  at_ordinal :: int
  at_limit :: int
  at_outcome :: attempt_outcome
  at_retry_category :: "string option"
  at_code :: "string option"
  at_retry :: "string option"
  at_resumable :: bool
  at_ended :: "nat option"

record command_row =
  cm_id :: string
  cm_household :: string
  cm_task :: string
  cm_type :: string
  cm_proposal :: string
  cm_proposal_hash :: string
  cm_idem :: string
  cm_required :: bool
  cm_confirmation :: "string option"
  cm_schema :: schema_identity
  cm_payload :: json
  cm_status :: command_status
  cm_failure :: "string option"
  cm_registered :: nat
  cm_updated :: nat

record receipt_row =
  rt_household :: string
  rt_command :: string
  rt_id :: string
  rt_records :: "committed_record list"
  rt_expected :: json
  rt_expected_hash :: string
  rt_committed :: nat

record readback_row =
  rk_household :: string
  rk_command :: string
  rk_receipt :: string
  rk_id :: string
  rk_ok :: bool
  rk_checks :: "readback_check list"
  rk_mismatches :: "string list"
  rk_hash :: string

record 'd opsdb =
  households :: "string list"
  tasks :: "task_row list"
  transitions :: "transition_row list"
  artifacts :: "artifact_row list"
  verdicts :: "verdict_row list"
  runs :: "run_row list"
  attempts :: "attempt_row list"
  confirmations :: "external_confirmation list"
  commands :: "command_row list"
  receipts :: "receipt_row list"
  readbacks :: "readback_row list"
  domain :: 'd

section \<open>Lookups\<close>

definition task_key :: "string \<Rightarrow> string \<Rightarrow> task_row \<Rightarrow> bool" where
  "task_key hh task t \<longleftrightarrow> t_household t = hh \<and> t_id t = task"

definition find_task_row :: "string \<Rightarrow> string \<Rightarrow> 'd opsdb \<Rightarrow> task_row option" where
  "find_task_row hh task db = find (task_key hh task) (tasks db)"

definition artifact_exists :: "string \<Rightarrow> string \<Rightarrow> string \<Rightarrow> 'd opsdb \<Rightarrow> bool" where
  "artifact_exists hh task aid db \<longleftrightarrow>
     list_ex (\<lambda>a. ar_household (af_artifact a) = hh \<and> ar_task (af_artifact a) = task
       \<and> ar_id (af_artifact a) = aid) (artifacts db)"

definition artifact_with_hash ::
  "string \<Rightarrow> string \<Rightarrow> string \<Rightarrow> string \<Rightarrow> 'd opsdb \<Rightarrow> artifact option" where
  "artifact_with_hash hh task aid hash db =
     map_option af_artifact
       (find (\<lambda>a. ar_household (af_artifact a) = hh \<and> ar_task (af_artifact a) = task
         \<and> ar_id (af_artifact a) = aid \<and> ar_hash (af_artifact a) = hash) (artifacts db))"

definition command_key :: "string \<Rightarrow> string \<Rightarrow> command_row \<Rightarrow> bool" where
  "command_key hh cid c \<longleftrightarrow> cm_household c = hh \<and> cm_id c = cid"

definition find_command_row :: "string \<Rightarrow> string \<Rightarrow> 'd opsdb \<Rightarrow> command_row option" where
  "find_command_row hh cid db = find (command_key hh cid) (commands db)"

definition find_receipt_row :: "string \<Rightarrow> string \<Rightarrow> 'd opsdb \<Rightarrow> receipt_row option" where
  "find_receipt_row hh cid db =
     find (\<lambda>r. rt_household r = hh \<and> rt_command r = cid) (receipts db)"

definition find_readback_row :: "string \<Rightarrow> string \<Rightarrow> 'd opsdb \<Rightarrow> readback_row option" where
  "find_readback_row hh cid db =
     find (\<lambda>r. rk_household r = hh \<and> rk_command r = cid) (readbacks db)"

section \<open>Constraints\<close>

definition check_violation :: "string \<Rightarrow> exn" where
  "check_violation name = pg_constraint_failure ''23514'' name"

definition unique_violation :: "string \<Rightarrow> exn" where
  "unique_violation name = pg_constraint_failure ''23505'' name"

definition foreign_key_violation :: "string \<Rightarrow> exn" where
  "foreign_key_violation name = pg_constraint_failure ''23503'' name"

text \<open>Checks in order; the first that fails is the error.\<close>

fun constraints :: "(bool \<times> exn) list \<Rightarrow> exn option" where
  "constraints [] = None"
| "constraints ((ok, e) # cs) = (if ok then constraints cs else Some e)"

lemma constraints_None [simp]: "constraints cs = None \<longleftrightarrow> list_all fst cs"
  by (induction cs rule: constraints.induct) auto

definition guarded :: "(bool \<times> exn) list \<Rightarrow> 'a \<Rightarrow> exn + 'a" where
  "guarded cs x = (case constraints cs of None \<Rightarrow> Inr x | Some e \<Rightarrow> Inl e)"

lemma guarded_Inr [simp]: "guarded cs x = Inr y \<longleftrightarrow> list_all fst cs \<and> y = x"
  by (cases "constraints cs") (auto simp: guarded_def simp flip: constraints_None)

definition terminal_metadata :: "task_row \<Rightarrow> bool" where
  "terminal_metadata t \<longleftrightarrow>
     (t_status t \<in> {Verified, Partial, Insufficient_evidence, Conflicted, Failed,
        Execution_failed, Readback_failed} \<longleftrightarrow> t_terminal_at t \<noteq> None)"

definition maker_link_complete :: "task_row \<Rightarrow> bool" where
  "maker_link_complete t \<longleftrightarrow>
     (case (t_maker t, t_maker_hash t) of
        (None, None) \<Rightarrow> True | (Some a, Some h) \<Rightarrow> sha256_hex h | _ \<Rightarrow> False)"

definition contract_complete :: "execution_contract \<Rightarrow> bool" where
  "contract_complete x \<longleftrightarrow>
     0 < sk_version (xc_skill x) \<and> sha256_hex (sk_hash (xc_skill x))
     \<and> 0 < sch_version (xc_input x) \<and> 0 < sch_version (xc_output x)
     \<and> 0 < pi_version (rp_identity (xc_policy x))"

definition status_format :: "(char \<Rightarrow> bool) \<Rightarrow> nat \<Rightarrow> string option \<Rightarrow> bool" where
  "status_format ok hi v \<longleftrightarrow>
     (case v of None \<Rightarrow> True | Some s \<Rightarrow> text_between 1 hi s \<and> list_all ok s)"

definition code_char :: "char \<Rightarrow> bool" where
  "code_char c \<longleftrightarrow> is_lower c \<or> is_digit c \<or> c = CHR ''_''"

end
