(* ===== verification/TaskStateMachine.thy ===== *)
theory TaskStateMachine
  imports Contracts
begin

text \<open>
  The life cycle of a verification task: packages/runtime/src/state-machine.ts and resume.ts.
  The lemmas show that the transition table and the terminal set agree with each other, with
  the CHECK constraint of the tasks table, and that a commit is reachable only behind a
  validated checker artifact.
\<close>

section \<open>The transition table\<close>

fun allowed :: "task_status \<Rightarrow> task_status list" where
  "allowed Created = [Skill_selected, Failed]"
| "allowed Skill_selected = [Maker_running, Failed]"
| "allowed Maker_running = [Maker_validated, Failed]"
| "allowed Maker_validated = [Checker_running, Failed]"
| "allowed Checker_running = [Checker_validated, Failed]"
| "allowed Checker_validated =
     [Verified, Partial, Insufficient_evidence, Conflicted, Failed, Revision_requested,
      Execution_pending]"
| "allowed Revision_requested = [Maker_running, Failed]"
| "allowed Execution_pending = [Committed, Execution_failed]"
| "allowed Committed = [Readback_verified, Readback_failed]"
| "allowed Readback_verified = [Verified]"
| "allowed Execution_failed = []"
| "allowed Readback_failed = []"
| "allowed Verified = []"
| "allowed Partial = []"
| "allowed Insufficient_evidence = []"
| "allowed Conflicted = []"
| "allowed Failed = []"

definition terminal_statuses :: "task_status list" where
  "terminal_statuses =
     [Execution_failed, Readback_failed, Verified, Partial, Insufficient_evidence, Conflicted, Failed]"

definition isAllowedTransition :: "task_status \<Rightarrow> task_status \<Rightarrow> bool" where
  "isAllowedTransition from to \<longleftrightarrow> to \<in> set (allowed from)"

definition invalid_transition_error :: exn where
  "invalid_transition_error = plusOne Constraint_violation ''invalid_task_transition'' Never False"

definition assertAllowedTransition :: "task_status \<Rightarrow> task_status \<Rightarrow> exn + unit" where
  "assertAllowedTransition from to =
    (if isAllowedTransition from to then Inr () else Inl invalid_transition_error)"

definition isTerminalStatus :: "task_status \<Rightarrow> bool" where
  "isTerminalStatus s \<longleftrightarrow> s \<in> set terminal_statuses"

lemma isTerminalStatus_simps [simp]:
  "isTerminalStatus Created = False" "isTerminalStatus Skill_selected = False"
  "isTerminalStatus Maker_running = False" "isTerminalStatus Maker_validated = False"
  "isTerminalStatus Checker_running = False" "isTerminalStatus Checker_validated = False"
  "isTerminalStatus Revision_requested = False" "isTerminalStatus Execution_pending = False"
  "isTerminalStatus Committed = False" "isTerminalStatus Readback_verified = False"
  "isTerminalStatus Execution_failed = True" "isTerminalStatus Readback_failed = True"
  "isTerminalStatus Verified = True" "isTerminalStatus Partial = True"
  "isTerminalStatus Insufficient_evidence = True" "isTerminalStatus Conflicted = True"
  "isTerminalStatus Failed = True"
  by (simp_all add: isTerminalStatus_def terminal_statuses_def)

lemma terminal_iff_no_exit: "isTerminalStatus s \<longleftrightarrow> allowed s = []"
  by (cases s) simp_all

section \<open>Paths\<close>

text \<open>The histories the runtime can record: each step is an allowed transition.\<close>

inductive task_path :: "task_status \<Rightarrow> task_status list \<Rightarrow> task_status \<Rightarrow> bool" where
  path_nil: "task_path s [] s"
| path_step: "isAllowedTransition s t \<Longrightarrow> task_path t ss u \<Longrightarrow> task_path s (t # ss) u"

inductive_simps path_Nil_simp [simp]: "task_path s [] u"
inductive_simps path_Cons_simp [simp]: "task_path s (t # ss) u"

lemma task_path_snoc: "task_path s ss t \<Longrightarrow> isAllowedTransition t u \<Longrightarrow> task_path s (ss @ [u]) u"
  by (induction rule: task_path.induct) auto

lemma task_path_last: "task_path s ss u \<Longrightarrow> u = last (s # ss)"
  by (induction rule: task_path.induct) auto

lemma task_path_append:
  "task_path s (ss @ ts) u \<longleftrightarrow> (\<exists>m. task_path s ss m \<and> task_path m ts u)"
  by (induction ss arbitrary: s) auto

text \<open>A property that every allowed step preserves holds along every path.\<close>

lemma task_path_invariant:
  assumes "task_path s ss u" and "I s"
    and "\<And>a b. isAllowedTransition a b \<Longrightarrow> I a \<Longrightarrow> I b"
  shows "I u \<and> list_all I ss"
  using assms(1,2) by (induction rule: task_path.induct) (auto dest: assms(3))

lemma terminal_path: "task_path s ss u \<Longrightarrow> isTerminalStatus s \<Longrightarrow> ss = [] \<and> u = s"
  by (cases rule: task_path.cases)
    (auto simp: terminal_iff_no_exit isAllowedTransition_def)

text \<open>Statuses in which no checker artifact has been validated on the current path.\<close>

definition before_checker :: "task_status \<Rightarrow> bool" where
  "before_checker s \<longleftrightarrow> s \<in> {Created, Skill_selected, Maker_running, Maker_validated,
     Checker_running, Failed}"

definition after_execution :: "task_status \<Rightarrow> bool" where
  "after_execution s \<longleftrightarrow> s \<in> {Committed, Readback_verified, Readback_failed}"

lemma before_checker_step:
  "isAllowedTransition a b \<Longrightarrow> before_checker a \<Longrightarrow> b = Checker_validated \<or> before_checker b"
  by (cases a) (auto simp: isAllowedTransition_def before_checker_def)

lemma path_passes_checker:
  "task_path s ss u \<Longrightarrow> before_checker s \<Longrightarrow> \<not> before_checker u \<Longrightarrow> Checker_validated \<in> set ss"
proof (induction rule: task_path.induct)
  case (path_step s t ss u)
  then show ?case using before_checker_step [of s t] by auto
qed simp

lemma after_execution_step:
  "isAllowedTransition a b \<Longrightarrow> after_execution b \<Longrightarrow> a = Execution_pending \<or> after_execution a"
  by (cases a) (auto simp: isAllowedTransition_def after_execution_def)

lemma path_passes_execution:
  "task_path s ss u \<Longrightarrow> after_execution u \<Longrightarrow> \<not> after_execution s \<Longrightarrow> s \<noteq> Execution_pending \<Longrightarrow>
   Execution_pending \<in> set ss"
proof (induction rule: task_path.induct)
  case (path_step s t ss u)
  then show ?case using after_execution_step [of s t] by auto
qed simp

text \<open>
  A task that has ever committed was checked first: every allowed history from \<open>created\<close>
  to \<open>committed\<close>, \<open>readback_verified\<close> or \<open>readback_failed\<close> passes through \<open>checker_validated\<close>
  and then through \<open>execution_pending\<close>.
\<close>

theorem commit_only_after_check:
  assumes "task_path Created ss u" and "u \<in> {Committed, Readback_verified, Readback_failed}"
  shows "\<exists>before after. ss = before @ Execution_pending # after \<and> Checker_validated \<in> set before"
proof -
  have "Execution_pending \<in> set ss"
    using assms by (intro path_passes_execution) (auto simp: after_execution_def)
  then obtain before after where ss: "ss = before @ Execution_pending # after"
    by (meson split_list)
  from assms(1) have "task_path Created (before @ [Execution_pending]) Execution_pending"
    by (auto simp: ss task_path_append)
  then have "Checker_validated \<in> set (before @ [Execution_pending])"
    by (rule path_passes_checker) (simp_all add: before_checker_def)
  with ss show ?thesis by auto
qed

theorem commit_only_after_check_witness:
  "\<exists>before after.
    [Skill_selected, Maker_running, Maker_validated, Checker_running, Checker_validated,
     Execution_pending, Committed] = before @ Execution_pending # after
    \<and> Checker_validated \<in> set before"
  by (rule commit_only_after_check [of _ Committed]) (simp_all add: isAllowedTransition_def)

text \<open>
  Terminal statuses are exactly the statuses without a way out, so a terminal task stays
  as it is for ever: \<open>assertAllowedTransition\<close> throws for every next status.
\<close>

theorem terminal_is_absorbing:
  "isTerminalStatus s \<longleftrightarrow> (\<forall>t. assertAllowedTransition s t = Inl invalid_transition_error)"
proof
  assume "isTerminalStatus s"
  then show "\<forall>t. assertAllowedTransition s t = Inl invalid_transition_error"
    by (simp add: terminal_iff_no_exit assertAllowedTransition_def isAllowedTransition_def)
next
  assume none: "\<forall>t. assertAllowedTransition s t = Inl invalid_transition_error"
  show "isTerminalStatus s"
  proof (rule ccontr)
    assume "\<not> isTerminalStatus s"
    then obtain t where "t \<in> set (allowed s)"
      by (cases "allowed s") (auto simp: terminal_iff_no_exit)
    then have "assertAllowedTransition s t = Inr ()"
      by (simp add: assertAllowedTransition_def isAllowedTransition_def)
    with none show False by simp
  qed
qed

section \<open>Termination\<close>

text \<open>
  The only cycle is the revision loop. A measure that forgets it decreases along every other
  step, so a history with \<open>r\<close> revision requests has a bounded length.
\<close>

fun distance :: "task_status \<Rightarrow> nat" where
  "distance Created = 9"
| "distance Skill_selected = 8"
| "distance Revision_requested = 8"
| "distance Maker_running = 7"
| "distance Maker_validated = 6"
| "distance Checker_running = 5"
| "distance Checker_validated = 4"
| "distance Execution_pending = 3"
| "distance Committed = 2"
| "distance Readback_verified = 1"
| "distance s = 0"

lemma distance_step:
  "isAllowedTransition a b \<Longrightarrow> b \<noteq> Revision_requested \<Longrightarrow> distance b < distance a"
  by (cases a) (auto simp: isAllowedTransition_def)

lemma distance_revision: "isAllowedTransition a Revision_requested \<Longrightarrow> distance a = 4"
  by (cases a) (auto simp: isAllowedTransition_def)

lemma path_length:
  "task_path s ss u \<Longrightarrow>
   length ss + distance u \<le> distance s + 5 * count_list ss Revision_requested"
proof (induction rule: task_path.induct)
  case (path_step s t ss u)
  show ?case
  proof (cases "t = Revision_requested")
    case True
    with path_step show ?thesis using distance_revision [of s] by simp
  next
    case False
    with path_step show ?thesis using distance_step [of s t] by simp
  qed
qed simp

text \<open>
  C21. Tasks end: a history from \<open>created\<close> with \<open>r\<close> revision requests has at most \<open>9 + 5 r\<close>
  transitions, so without a revision a task makes at most nine.
\<close>

theorem task_history_bounded:
  assumes "task_path Created ss u"
  shows "length ss \<le> 9 + 5 * count_list ss Revision_requested"
  using path_length [OF assms] by simp

theorem task_history_bounded_witness:
  "length [Skill_selected, Failed] \<le> 9 + 5 * count_list [Skill_selected, Failed] Revision_requested"
  by (rule task_history_bounded [of _ Failed]) (simp add: isAllowedTransition_def)

section \<open>Resuming\<close>

datatype resume_action =
  None_terminal | Retry_allowed | Fail_expired | Resolve_command_state | Manual_recovery_required

record task_snapshot =
  ts_household :: string
  ts_task :: string
  ts_parent :: "string option"
  ts_team :: string
  ts_status :: task_status
  ts_attempt_limit :: int
  ts_deadline :: "nat option"
  ts_failure :: "string option"
  ts_resumable :: bool
  ts_maker :: "string option"
  ts_maker_hash :: "string option"
  ts_checker :: "string option"
  ts_updated :: nat

definition deadline_expired :: "nat option \<Rightarrow> nat \<Rightarrow> bool" where
  "deadline_expired deadline now = (case deadline of None \<Rightarrow> False | Some d \<Rightarrow> d \<le> now)"

definition classifyResumeAction :: "task_snapshot \<Rightarrow> nat \<Rightarrow> resume_action" where
  "classifyResumeAction task now =
    (if isTerminalStatus (ts_status task) then None_terminal
     else if ts_status task = Execution_pending \<or> ts_status task = Committed
     then Resolve_command_state
     else if deadline_expired (ts_deadline task) now then Fail_expired
     else if ts_resumable task then Retry_allowed else Manual_recovery_required)"

definition inspectResumableTasks ::
  "('s, exn, task_snapshot list) io \<Rightarrow> nat \<Rightarrow> ('s, exn, (task_snapshot \<times> resume_action) list) io" where
  "inspectResumableTasks listResumable now =
    bindM listResumable (\<lambda>tasks. ret (map (\<lambda>task. (task, classifyResumeAction task now)) tasks))"

lemma resolve_command_state_iff:
  "classifyResumeAction task now = Resolve_command_state \<longleftrightarrow>
   ts_status task = Execution_pending \<or> ts_status task = Committed"
  by (auto simp: classifyResumeAction_def)

text \<open>
  C22. Recovery and the state machine agree but for one status. A task whose command may have
  reached the database is always sent to command-state resolution, whatever its deadline; and
  a task classified as expired can be moved to \<open>failed\<close>, unless it is \<open>readback_verified\<close>,
  which has no way to \<open>failed\<close>: its mutation is committed and proved, and only \<open>verified\<close> is
  allowed next.
\<close>

theorem expired_tasks_can_fail:
  assumes "classifyResumeAction task now = Fail_expired"
  shows "ts_status task \<notin> {Execution_pending, Committed}
    \<and> (isAllowedTransition (ts_status task) Failed \<longleftrightarrow> ts_status task \<noteq> Readback_verified)"
  using assms
  by (cases "ts_status task")
    (auto simp: classifyResumeAction_def isAllowedTransition_def split: if_splits)

definition sample_task :: "task_status \<Rightarrow> nat option \<Rightarrow> task_snapshot" where
  "sample_task s deadline =
    \<lparr>ts_household = ''h'', ts_task = ''t'', ts_parent = None, ts_team = ''accounting'',
     ts_status = s, ts_attempt_limit = 2, ts_deadline = deadline, ts_failure = None,
     ts_resumable = True, ts_maker = None, ts_maker_hash = None, ts_checker = None,
     ts_updated = 0\<rparr>"

theorem expired_tasks_can_fail_witness:
  "ts_status (sample_task Readback_verified (Some 5)) \<notin> {Execution_pending, Committed}
   \<and> (isAllowedTransition (ts_status (sample_task Readback_verified (Some 5))) Failed
      \<longleftrightarrow> ts_status (sample_task Readback_verified (Some 5)) \<noteq> Readback_verified)"
  by (rule expired_tasks_can_fail [of _ 7])
    (simp add: classifyResumeAction_def deadline_expired_def sample_task_def)

end
