(* ===== verification/VerificationLedger.thy ===== *)
theory VerificationLedger
  imports OpsDb TaskStateMachine
begin

text \<open>
  The verification ledger: repositories/operations/verification-ledger.ts, method by method,
  on the tables of OpsDb. Each SQL text is a statement definition (\<open>sql_...\<close>) and each method
  composes its statements the way the source does: \<open>createTask\<close>, \<open>transition\<close> and
  \<open>recordCheckerVerdict\<close> in a transaction of their own, the others as one autocommitted
  statement whose row count is checked.

  The lemmas show what one call does to the tables under every fault schedule, and that the
  recorded history of a task stays a gapless chain that ends in its current status.
\<close>

section \<open>Tasks\<close>

definition taskRecord :: "task_row \<Rightarrow> task_snapshot" where
  "taskRecord row =
    \<lparr>ts_household = t_household row, ts_task = t_id row, ts_parent = t_parent row,
     ts_team = t_team row, ts_status = t_status row, ts_attempt_limit = t_attempt_limit row,
     ts_deadline = t_deadline row, ts_failure = t_failure row, ts_resumable = t_resumable row,
     ts_maker = t_maker row, ts_maker_hash = t_maker_hash row, ts_checker = t_checker row,
     ts_updated = t_updated row\<rparr>"

definition requireId :: "identifier_kind \<Rightarrow> string \<Rightarrow> ('s, exn, unit) io" where
  "requireId k s = requireM (opaqueIdentifierSchema k s) ZodError"

definition read_only :: "('db \<Rightarrow> 'a) \<Rightarrow> ('db, 'a) statement" where
  "read_only f t db = Inr (f db, db)"

lemma read_only_Inr [simp]: "read_only f t db = Inr (x, db') \<longleftrightarrow> f db = x \<and> db' = db"
  by (auto simp: read_only_def)

definition task_not_found_error :: exn where
  "task_not_found_error = plusOne Validation_rejected ''task_not_found'' Never False"

text \<open>\<open>SELECT ... FOR UPDATE OF t\<close>: the lock is the isolation of the open transaction.\<close>

definition loadTaskForUpdate :: "string \<Rightarrow> string \<Rightarrow> ('d opsdb, task_row) dbm" where
  "loadTaskForUpdate hh task =
    bindM (requireId Id_household hh) (\<lambda>_.
    bindM (requireId Id_task task) (\<lambda>_.
    bindM (client_query (read_only (find_task_row hh task))) (\<lambda>row.
      case row of None \<Rightarrow> raise task_not_found_error | Some r \<Rightarrow> ret r)))"

record create_task =
  ct_household :: string
  ct_task :: string
  ct_parent :: "string option"
  ct_team :: string
  ct_attempt_limit :: int
  ct_deadline :: "nat option"

definition new_task_row :: "create_task \<Rightarrow> nat \<Rightarrow> task_row" where
  "new_task_row i now =
    \<lparr>t_household = ct_household i, t_id = ct_task i, t_parent = ct_parent i, t_team = ct_team i,
     t_status = Created, t_attempt_limit = ct_attempt_limit i, t_deadline = ct_deadline i,
     t_failure = None, t_resumable = True, t_maker = None, t_maker_hash = None,
     t_checker = None, t_contract = None, t_terminal_at = None, t_updated = now\<rparr>"

definition sql_insert_task :: "create_task \<Rightarrow> ('d opsdb, task_row option) statement" where
  "sql_insert_task i now db =
    (if ct_household i \<notin> set (households db) then Inr (None, db)
     else
       let row = new_task_row i now
       in guarded
         [(0 < ct_attempt_limit i, check_violation ''verification_tasks_attempt_limit_positive''),
          (\<forall>t \<in> set (tasks db). t_id t \<noteq> ct_task i,
             unique_violation ''verification_tasks_public_id_unique''),
          (case ct_parent i of None \<Rightarrow> True
           | Some p \<Rightarrow> p = ct_task i \<or> find_task_row (ct_household i) p db \<noteq> None,
             foreign_key_violation ''verification_tasks_parent_fk'')]
         (Some row, db\<lparr>tasks := tasks db @ [row]\<rparr>))"

definition sql_insert_transition :: "transition_row \<Rightarrow> ('d opsdb, unit) statement" where
  "sql_insert_transition row now db =
    (if tr_household row \<notin> set (households db) then Inr ((), db)
     else guarded
       [(0 < tr_sequence row, check_violation ''task_transitions_sequence_positive''),
        (\<forall>r \<in> set (transitions db). \<not> (tr_household r = tr_household row
           \<and> tr_task r = tr_task row \<and> tr_sequence r = tr_sequence row),
           unique_violation ''task_transitions_unique''),
        (find_task_row (tr_household row) (tr_task row) db \<noteq> None,
           foreign_key_violation ''task_transitions_task_fk'')]
       ((), db\<lparr>transitions := transitions db @ [row]\<rparr>))"

definition task_household_not_found_error :: exn where
  "task_household_not_found_error =
    plusOne Validation_rejected ''task_household_not_found'' Never False"

definition createTask_body :: "create_task \<Rightarrow> ('d opsdb, task_snapshot) dbm" where
  "createTask_body i =
    bindM (requireId Id_task (ct_task i)) (\<lambda>_.
    bindM (case ct_parent i of None \<Rightarrow> ret () | Some p \<Rightarrow> requireId Id_task p) (\<lambda>_.
    bindM (requireId Id_household (ct_household i)) (\<lambda>_.
    bindM (client_query (sql_insert_task i)) (\<lambda>inserted.
      case inserted of
        None \<Rightarrow> raise task_household_not_found_error
      | Some row \<Rightarrow>
          bindM (client_query (sql_insert_transition
            \<lparr>tr_household = ct_household i, tr_task = ct_task i, tr_sequence = 1, tr_from = None,
             tr_to = Created, tr_reason = ''task_created'',
             tr_component = ''VerificationRuntime''\<rparr>))
          (\<lambda>_. ret (taskRecord row))))))"

definition createTask :: "create_task \<Rightarrow> ('d opsdb, task_snapshot) dbm" where
  "createTask i = transactionally (createTask_body i)"

record transition_input =
  ti_household :: string
  ti_task :: string
  ti_from :: task_status
  ti_to :: task_status
  ti_reason :: string
  ti_component :: string
  ti_terminal :: "bool option"
  ti_failure :: "string option"
  ti_resumable :: "bool option"

definition stale_task_state_error :: exn where
  "stale_task_state_error = plusOne Constraint_violation ''stale_task_state'' Safe False"

definition task_transitions :: "string \<Rightarrow> string \<Rightarrow> 'd opsdb \<Rightarrow> transition_row list" where
  "task_transitions hh task db =
    filter (\<lambda>r. tr_household r = hh \<and> tr_task r = task) (transitions db)"

text \<open>\<open>COALESCE(MAX(sequence), 0) + 1\<close>.\<close>

definition next_sequence :: "string \<Rightarrow> string \<Rightarrow> 'd opsdb \<Rightarrow> nat" where
  "next_sequence hh task db =
    fold max (map tr_sequence (task_transitions hh task db)) 0 + 1"

definition moved_row :: "transition_input \<Rightarrow> nat \<Rightarrow> task_row \<Rightarrow> task_row" where
  "moved_row i now t =
    t\<lparr>t_status := ti_to i, t_failure := ti_failure i,
      t_resumable := (case ti_resumable i of None \<Rightarrow> t_resumable t | Some b \<Rightarrow> b),
      t_terminal_at := (if ti_terminal i = Some True then Some now else None),
      t_updated := now\<rparr>"

definition sql_update_task :: "transition_input \<Rightarrow> ('d opsdb, unit) statement" where
  "sql_update_task i now db =
    guarded
      [(\<forall>t \<in> set (tasks db). task_key (ti_household i) (ti_task i) t \<longrightarrow>
          terminal_metadata (moved_row i now t),
        check_violation ''verification_tasks_terminal_metadata'')]
      ((), db\<lparr>tasks := update_where (task_key (ti_household i) (ti_task i)) (moved_row i now)
                (tasks db)\<rparr>)"

definition transition_body :: "transition_input \<Rightarrow> ('d opsdb, task_snapshot) dbm" where
  "transition_body i =
    bindM (loadTaskForUpdate (ti_household i) (ti_task i)) (\<lambda>current.
    bindM (requireM (t_status current = ti_from i) stale_task_state_error) (\<lambda>_.
    bindM (client_query (read_only (next_sequence (ti_household i) (ti_task i)))) (\<lambda>next.
    bindM (client_query (sql_insert_transition
      \<lparr>tr_household = ti_household i, tr_task = ti_task i, tr_sequence = next,
       tr_from = Some (ti_from i), tr_to = ti_to i, tr_reason = ti_reason i,
       tr_component = ti_component i\<rparr>)) (\<lambda>_.
    bindM (client_query (sql_update_task i)) (\<lambda>_.
    bindM (loadTaskForUpdate (ti_household i) (ti_task i)) (\<lambda>updated.
      ret (taskRecord updated)))))))"

definition transition :: "transition_input \<Rightarrow> ('d opsdb, task_snapshot) dbm" where
  "transition i = transactionally (transition_body i)"

section \<open>Contracts, artifact links and verdicts\<close>

record contract_input =
  xi_household :: string
  xi_task :: string
  xi_contract :: execution_contract

definition sql_select_contract :: "contract_input \<Rightarrow> ('d opsdb, nat) statement" where
  "sql_select_contract i now db =
    (let hit = (\<lambda>t. task_key (xi_household i) (xi_task i) t \<and> t_status t = Created)
     in guarded
       [(count_where hit (tasks db) = 0 \<or> contract_complete (xi_contract i),
         check_violation ''verification_tasks_skill_complete'')]
       (count_where hit (tasks db),
        db\<lparr>tasks := update_where hit
             (\<lambda>t. t\<lparr>t_contract := Some (xi_contract i), t_updated := now\<rparr>) (tasks db)\<rparr>))"

definition selectExecutionContract :: "contract_input \<Rightarrow> ('d opsdb, unit) dbm" where
  "selectExecutionContract i =
    bindM (requireM (RuntimePolicySchemaV1 (xc_policy (xi_contract i))) ZodError) (\<lambda>_.
    bindM (pool_query (sql_select_contract i)) (\<lambda>n.
      requireM (n = 1)
        (plusOne Constraint_violation ''execution_contract_not_selectable'' Never False)))"

definition sql_link_maker ::
  "string \<Rightarrow> string \<Rightarrow> string \<Rightarrow> string \<Rightarrow> ('d opsdb, nat) statement" where
  "sql_link_maker hh task aid hash now db =
    (let hit = (\<lambda>t. task_key hh task t \<and> t_status t = Maker_running)
     in guarded
       [(count_where hit (tasks db) = 0 \<or> sha256_hex hash,
         check_violation ''verification_tasks_maker_link_complete''),
        (count_where hit (tasks db) = 0 \<or> artifact_with_hash hh task aid hash db \<noteq> None,
         foreign_key_violation ''verification_tasks_maker_artifact_fk'')]
       (count_where hit (tasks db),
        db\<lparr>tasks := update_where hit
             (\<lambda>t. t\<lparr>t_maker := Some aid, t_maker_hash := Some hash, t_checker := None,
                t_updated := now\<rparr>) (tasks db)\<rparr>))"

definition linkMakerArtifact :: "string \<Rightarrow> string \<Rightarrow> string \<Rightarrow> string \<Rightarrow> ('d opsdb, unit) dbm" where
  "linkMakerArtifact hh task aid hash =
    bindM (requireId Id_artifact aid) (\<lambda>_.
    bindM (pool_query (sql_link_maker hh task aid hash)) (\<lambda>n.
      requireM (n = 1)
        (plusOne Constraint_violation ''maker_artifact_not_linkable'' Never False)))"

definition verdict_of ::
  "string \<Rightarrow> string \<Rightarrow> string \<Rightarrow> verdict_row \<Rightarrow> bool" where
  "verdict_of hh task aid v \<longleftrightarrow> vd_household v = hh \<and> vd_task v = task \<and> vd_checker v = aid"

text \<open>\<open>INSERT ... ON CONFLICT ON CONSTRAINT checker_verdicts_unique DO NOTHING\<close>.\<close>

definition sql_insert_verdict ::
  "string \<Rightarrow> string \<Rightarrow> string \<Rightarrow> checker_verdict \<Rightarrow> ('d opsdb, nat) statement" where
  "sql_insert_verdict hh task aid v now db =
    (if hh \<notin> set (households db) \<or> list_ex (verdict_of hh task aid) (verdicts db) then Inr (0, db)
     else guarded
       [(find_task_row hh task db \<noteq> None, foreign_key_violation ''checker_verdicts_task_fk''),
        (artifact_exists hh task aid db,
           foreign_key_violation ''checker_verdicts_checker_artifact_fk''),
        (artifact_with_hash hh task (cv_artifact v) (cv_hash v) db \<noteq> None,
           foreign_key_violation ''checker_verdicts_covered_artifact_fk'')]
       (1, db\<lparr>verdicts := verdicts db @
          [\<lparr>vd_household = hh, vd_task = task, vd_checker = aid, vd_covered = cv_artifact v,
            vd_hash = cv_hash v, vd_verdict = cv_verdict v\<rparr>]\<rparr>))"

definition sql_link_checker :: "string \<Rightarrow> string \<Rightarrow> string \<Rightarrow> ('d opsdb, unit) statement" where
  "sql_link_checker hh task aid now db =
    guarded
      [(count_where (task_key hh task) (tasks db) = 0 \<or> artifact_exists hh task aid db,
        foreign_key_violation ''verification_tasks_checker_artifact_fk'')]
      ((), db\<lparr>tasks := update_where (task_key hh task)
                (\<lambda>t. t\<lparr>t_checker := Some aid, t_updated := now\<rparr>) (tasks db)\<rparr>)"

definition checker_coverage_mismatch_error :: exn where
  "checker_coverage_mismatch_error =
    plusOne Checker_rejected ''checker_coverage_mismatch'' Never False"

definition same_verdict :: "checker_verdict \<Rightarrow> verdict_row \<Rightarrow> bool" where
  "same_verdict v row \<longleftrightarrow> vd_covered row = cv_artifact v \<and> vd_hash row = cv_hash v
     \<and> vd_verdict row = cv_verdict v"

definition recordCheckerVerdict_body ::
  "string \<Rightarrow> string \<Rightarrow> string \<Rightarrow> checker_verdict \<Rightarrow> ('d opsdb, unit) dbm" where
  "recordCheckerVerdict_body hh task aid v =
    bindM (loadTaskForUpdate hh task) (\<lambda>t.
    bindM (requireM (CheckerVerdictSchemaV1 v) ZodError) (\<lambda>_.
    bindM (requireM (t_status t = Checker_running \<and> t_maker t = Some (cv_artifact v)
        \<and> t_maker_hash t = Some (cv_hash v)) checker_coverage_mismatch_error) (\<lambda>_.
    bindM (requireId Id_artifact aid) (\<lambda>_.
    bindM (client_query (sql_insert_verdict hh task aid v)) (\<lambda>inserted.
    bindM
      (if inserted = 0
       then bindM (client_query (read_only (\<lambda>db. find (verdict_of hh task aid) (verdicts db)))) (\<lambda>row.
         requireM (case row of None \<Rightarrow> False | Some r \<Rightarrow> same_verdict v r)
           (plusOne Constraint_violation ''checker_verdict_conflict'' Never False))
       else ret ()) (\<lambda>_.
    client_query (sql_link_checker hh task aid)))))))"

definition recordCheckerVerdict ::
  "string \<Rightarrow> string \<Rightarrow> string \<Rightarrow> checker_verdict \<Rightarrow> ('d opsdb, unit) dbm" where
  "recordCheckerVerdict hh task aid v = transactionally (recordCheckerVerdict_body hh task aid v)"

section \<open>Runs and attempts\<close>

record start_run =
  sr_household :: string
  sr_task :: string
  sr_run :: string
  sr_role :: string
  sr_role_version :: int
  sr_model :: string
  sr_policy :: runtime_policy

definition sql_insert_run :: "start_run \<Rightarrow> ('d opsdb, nat) statement" where
  "sql_insert_run i now db =
    (if sr_household i \<notin> set (households db) then Inr (0, db)
     else guarded
       [(0 < sr_role_version i, check_violation ''agent_runs_role_version_positive''),
        (\<forall>r \<in> set (runs db). rn_id r \<noteq> sr_run i, unique_violation ''agent_runs_public_id_unique''),
        (find_task_row (sr_household i) (sr_task i) db \<noteq> None,
           foreign_key_violation ''agent_runs_task_fk'')]
       (1, db\<lparr>runs := runs db @
          [\<lparr>rn_household = sr_household i, rn_task = sr_task i, rn_id = sr_run i,
            rn_role = sr_role i, rn_role_version = sr_role_version i, rn_model = sr_model i,
            rn_policy = sr_policy i, rn_status = Run_running, rn_ended = None,
            rn_failure = None, rn_code = None, rn_retry = None\<rparr>]\<rparr>))"

definition startRun :: "start_run \<Rightarrow> ('d opsdb, unit) dbm" where
  "startRun i =
    bindM (requireM (RuntimePolicySchemaV1 (sr_policy i)) ZodError) (\<lambda>_.
    bindM (requireId Id_run (sr_run i)) (\<lambda>_.
    bindM (pool_query (sql_insert_run i)) (\<lambda>n.
      requireM (n = 1) (plusOne Validation_rejected ''run_task_not_found'' Never False))))"

definition sql_finish_run :: "string \<Rightarrow> run_status \<Rightarrow> string option \<Rightarrow> string option \<Rightarrow>
    string option \<Rightarrow> ('d opsdb, nat) statement" where
  "sql_finish_run rid status failure c retry now db =
    (let hit = (\<lambda>r. rn_id r = rid \<and> rn_status r = Run_running)
     in guarded
       [(count_where hit (runs db) = 0 \<or> status_format code_char 160 c,
           check_violation ''agent_runs_failure_code_format''),
        (count_where hit (runs db) = 0 \<or> status_format code_char 80 retry,
           check_violation ''agent_runs_retry_directive_format'')]
       (count_where hit (runs db),
        db\<lparr>runs := update_where hit
             (\<lambda>r. r\<lparr>rn_status := status, rn_ended := Some now, rn_failure := failure,
                rn_code := c, rn_retry := retry\<rparr>) (runs db)\<rparr>))"

definition finishRun :: "string \<Rightarrow> run_status \<Rightarrow> string option \<Rightarrow> string option \<Rightarrow>
    string option \<Rightarrow> ('d opsdb, unit) dbm" where
  "finishRun rid status failure c retry =
    bindM (requireId Id_run rid) (\<lambda>_.
    bindM (pool_query (sql_finish_run rid status failure c retry)) (\<lambda>n.
      requireM (n = 1)
        (plusOne Serialization_conflict ''run_not_running'' After_state_resolution False)))"

record start_attempt =
  sa_household :: string
  sa_task :: string
  sa_run :: string
  sa_role :: string
  sa_ordinal :: int
  sa_limit :: int
  sa_resumable :: bool

definition sql_insert_attempt :: "start_attempt \<Rightarrow> ('d opsdb, nat) statement" where
  "sql_insert_attempt i now db =
    (if sa_household i \<notin> set (households db) then Inr (0, db)
     else guarded
       [(0 < sa_limit i, check_violation ''agent_attempts_limit_positive''),
        (0 < sa_ordinal i, check_violation ''agent_attempts_ordinal_positive''),
        (sa_ordinal i \<le> sa_limit i, check_violation ''agent_attempts_ordinal_within_limit''),
        (\<forall>a \<in> set (attempts db). \<not> (at_household a = sa_household i \<and> at_task a = sa_task i
            \<and> at_role a = sa_role i \<and> at_ordinal a = sa_ordinal i),
           unique_violation ''agent_attempts_unique''),
        (\<exists>r \<in> set (runs db). rn_household r = sa_household i \<and> rn_task r = sa_task i
            \<and> rn_id r = sa_run i, foreign_key_violation ''agent_attempts_run_fk''),
        (find_task_row (sa_household i) (sa_task i) db \<noteq> None,
           foreign_key_violation ''agent_attempts_task_fk'')]
       (1, db\<lparr>attempts := attempts db @
          [\<lparr>at_household = sa_household i, at_task = sa_task i, at_run = sa_run i,
            at_role = sa_role i, at_ordinal = sa_ordinal i, at_limit = sa_limit i,
            at_outcome = At_running, at_retry_category = None, at_code = None,
            at_retry = None, at_resumable = sa_resumable i, at_ended = None\<rparr>]\<rparr>))"

definition startAttempt :: "start_attempt \<Rightarrow> ('d opsdb, unit) dbm" where
  "startAttempt i =
    bindM (requireId Id_run (sa_run i)) (\<lambda>_.
    bindM (pool_query (sql_insert_attempt i)) (\<lambda>n.
      requireM (n = 1) (plusOne Validation_rejected ''attempt_run_not_found'' Never False)))"

record finish_attempt =
  fa_household :: string
  fa_task :: string
  fa_role :: string
  fa_ordinal :: int
  fa_outcome :: attempt_outcome
  fa_retry_category :: "string option"
  fa_code :: "string option"
  fa_retry :: "string option"
  fa_resumable :: bool

definition finished_by :: "finish_attempt \<Rightarrow> attempt_row \<Rightarrow> bool" where
  "finished_by i a \<longleftrightarrow> at_household a = fa_household i \<and> at_task a = fa_task i
     \<and> at_role a = fa_role i \<and> at_ordinal a = fa_ordinal i \<and> at_outcome a = At_running"

definition sql_finish_attempt :: "finish_attempt \<Rightarrow> ('d opsdb, nat) statement" where
  "sql_finish_attempt i now db =
    (let n = count_where (finished_by i) (attempts db)
     in guarded
       [(n = 0 \<or> status_format code_char 160 (fa_code i),
           check_violation ''agent_attempts_failure_code_format''),
        (n = 0 \<or> status_format code_char 80 (fa_retry i),
           check_violation ''agent_attempts_retry_directive_format'')]
       (n, db\<lparr>attempts := update_where (finished_by i)
             (\<lambda>a. a\<lparr>at_outcome := fa_outcome i, at_retry_category := fa_retry_category i,
                at_code := fa_code i, at_retry := fa_retry i, at_resumable := fa_resumable i,
                at_ended := Some now\<rparr>) (attempts db)\<rparr>))"

definition finishAttempt :: "finish_attempt \<Rightarrow> ('d opsdb, unit) dbm" where
  "finishAttempt i =
    bindM (pool_query (sql_finish_attempt i)) (\<lambda>n.
      requireM (n = 1)
        (plusOne Serialization_conflict ''attempt_not_running'' After_state_resolution False))"

section \<open>Reading\<close>

text \<open>The newest verdict of the task, joined to the artifact that holds it.\<close>

definition latest_verdict_row ::
  "string \<Rightarrow> string \<Rightarrow> 'd opsdb \<Rightarrow> (verdict_row \<times> json) option" where
  "latest_verdict_row hh task db =
    (case find (\<lambda>v. vd_household v = hh \<and> vd_task v = task
        \<and> artifact_exists hh task (vd_checker v) db) (rev (verdicts db)) of
       None \<Rightarrow> None
     | Some v \<Rightarrow>
         map_option (\<lambda>a. (v, ar_payload (af_artifact a)))
           (find (\<lambda>a. ar_household (af_artifact a) = hh \<and> ar_task (af_artifact a) = task
              \<and> ar_id (af_artifact a) = vd_checker v) (artifacts db)))"

definition storage_mismatch_error :: exn where
  "storage_mismatch_error =
    plusOne Constraint_violation ''checker_verdict_storage_mismatch'' Never False"

definition findLatestVerdict :: "string \<Rightarrow> string \<Rightarrow> ('d opsdb, checker_verdict option) dbm" where
  "findLatestVerdict hh task =
    bindM (pool_query (read_only (latest_verdict_row hh task))) (\<lambda>row.
      case row of
        None \<Rightarrow> ret None
      | Some (v, payload) \<Rightarrow>
          (case parse_verdict payload of
             None \<Rightarrow> raise ZodError
           | Some parsed \<Rightarrow>
               bindM (requireM (same_verdict parsed v) storage_mismatch_error)
                 (\<lambda>_. ret (Some parsed))))"

definition findTask :: "string \<Rightarrow> string \<Rightarrow> ('d opsdb, task_snapshot option) dbm" where
  "findTask hh task =
    bindM (pool_query (read_only (find_task_row hh task))) (\<lambda>row. ret (map_option taskRecord row))"

text \<open>\<open>ORDER BY updated_at, task_id\<close>.\<close>

fun text_le :: "string \<Rightarrow> string \<Rightarrow> bool" where
  "text_le [] t = True"
| "text_le (c # s) [] = False"
| "text_le (c # s) (d # t) = (if c = d then text_le s t else char_le c d)"

definition resumes_before :: "task_row \<Rightarrow> task_row \<Rightarrow> bool" where
  "resumes_before a b \<longleftrightarrow> t_updated a < t_updated b
     \<or> (t_updated a = t_updated b \<and> text_le (t_id a) (t_id b))"

fun insert_by :: "('a \<Rightarrow> 'a \<Rightarrow> bool) \<Rightarrow> 'a \<Rightarrow> 'a list \<Rightarrow> 'a list" where
  "insert_by le x [] = [x]"
| "insert_by le x (y # ys) = (if le x y then x # y # ys else y # insert_by le x ys)"

definition sort_by :: "('a \<Rightarrow> 'a \<Rightarrow> bool) \<Rightarrow> 'a list \<Rightarrow> 'a list" where
  "sort_by le xs = foldr (insert_by le) xs []"

definition resumable_rows :: "'d opsdb \<Rightarrow> task_row list" where
  "resumable_rows db =
    sort_by resumes_before (filter (\<lambda>t. t_resumable t \<and> t_status t \<notin>
      {Verified, Partial, Insufficient_evidence, Conflicted, Failed, Execution_failed,
       Readback_failed}) (tasks db))"

definition listResumable :: "('d opsdb, task_snapshot list) dbm" where
  "listResumable = bindM (pool_query (read_only resumable_rows)) (\<lambda>rows. ret (map taskRecord rows))"

section \<open>The history of a task\<close>

text \<open>
  \<open>history_ok rows s\<close>: the rows are numbered from one without a gap, the first opens the task,
  each starts where the one before ended, and the last ends in \<open>s\<close>.
\<close>

definition history_ok :: "transition_row list \<Rightarrow> task_status \<Rightarrow> bool" where
  "history_ok rows s \<longleftrightarrow>
     rows \<noteq> [] \<and> map tr_sequence rows = [1..<Suc (length rows)]
     \<and> map tr_from rows = None # map Some (butlast (map tr_to rows))
     \<and> tr_to (hd rows) = Created \<and> tr_to (last rows) = s"

definition row_allowed :: "transition_row \<Rightarrow> bool" where
  "row_allowed r \<longleftrightarrow> (case tr_from r of None \<Rightarrow> True | Some f \<Rightarrow> isAllowedTransition f (tr_to r))"

definition task_ok :: "'d opsdb \<Rightarrow> task_row \<Rightarrow> bool" where
  "task_ok db t \<longleftrightarrow> t_household t \<in> set (households db) \<and> terminal_metadata t
     \<and> history_ok (task_transitions (t_household t) (t_id t) db) (t_status t)"

definition ledger_ok :: "'d opsdb \<Rightarrow> bool" where
  "ledger_ok db \<longleftrightarrow>
     unique_on t_id (tasks db)
     \<and> (\<forall>t \<in> set (tasks db). task_ok db t)
     \<and> (\<forall>r \<in> set (transitions db). row_allowed r
          \<and> (\<exists>t \<in> set (tasks db). task_key (tr_household r) (tr_task r) t))"

lemma history_ok_snoc:
  assumes "history_ok rows s" and "tr_sequence r = Suc (length rows)" and "tr_from r = Some s"
    and "tr_to r = u"
  shows "history_ok (rows @ [r]) u"
proof -
  from assms(1) have ne: "rows \<noteq> []" and last: "tr_to (last rows) = s"
    and frm: "map tr_from rows = None # map Some (butlast (map tr_to rows))"
    by (simp_all add: history_ok_def)
  have "map tr_to rows = butlast (map tr_to rows) @ [s]"
    using ne last by (metis append_butlast_last_id last_map map_is_Nil_conv)
  then have "map tr_from rows @ [Some s] = None # map Some (map tr_to rows)"
    using frm by (metis append_Cons list.simps(8,9) map_append)
  with assms ne show ?thesis
    by (simp add: history_ok_def)
qed

lemma history_path:
  assumes "history_ok rows s" and "list_all row_allowed rows"
  shows "task_path Created (map tr_to (tl rows)) s"
  using assms
proof (induction rows arbitrary: s rule: rev_induct)
  case Nil
  then show ?case by (simp add: history_ok_def)
next
  case (snoc r rows)
  show ?case
  proof (cases "rows = []")
    case True
    with snoc.prems show ?thesis by (auto simp: history_ok_def)
  next
    case False
    from snoc.prems(1) False
    have frm: "map tr_from rows @ [tr_from r] = None # map Some (map tr_to rows)"
      and s: "tr_to r = s"
      by (simp_all add: history_ok_def butlast_append)
    have split: "map tr_to rows = butlast (map tr_to rows) @ [tr_to (last rows)]"
      using False by (metis append_butlast_last_id last_map map_is_Nil_conv)
    have "map tr_from rows @ [tr_from r] =
        (None # map Some (butlast (map tr_to rows))) @ [Some (tr_to (last rows))]"
      using frm split by (metis append_Cons list.simps(8,9) map_append)
    then have rows: "map tr_from rows = None # map Some (butlast (map tr_to rows))"
      and r: "tr_from r = Some (tr_to (last rows))"
      by (simp_all only: append_eq_append_conv length_Cons list.size butlast_snoc last_snoc
          append1_eq_conv)
    have "history_ok rows (tr_to (last rows))"
      using snoc.prems(1) False rows by (auto simp: history_ok_def hd_append)
    then have "task_path Created (map tr_to (tl rows)) (tr_to (last rows))"
      using snoc.prems(2) by (intro snoc.IH) simp_all
    moreover have "isAllowedTransition (tr_to (last rows)) (tr_to r)"
      using snoc.prems(2) r by (simp add: row_allowed_def)
    ultimately show ?thesis
      using False s by (auto intro: task_path_snoc)
  qed
qed

lemma fold_max_upt: "fold max [1..<Suc n] m = max m n"
  by (induction n arbitrary: m) (auto simp: max_def)

lemma next_sequence_history:
  assumes "history_ok (task_transitions hh task db) s"
  shows "next_sequence hh task db = Suc (length (task_transitions hh task db))"
  using assms fold_max_upt [of "length (task_transitions hh task db)" 0]
  by (simp add: next_sequence_def history_ok_def)

lemma find_task_rowD:
  "find_task_row hh task db = Some t \<Longrightarrow> t \<in> set (tasks db) \<and> t_household t = hh \<and> t_id t = task"
  unfolding find_task_row_def by (auto dest: find_SomeD simp: task_key_def)

lemma find_task_row_unique:
  assumes "unique_on t_id (tasks db)" and "t \<in> set (tasks db)"
  shows "find_task_row (t_household t) (t_id t) db = Some t"
proof (cases "find_task_row (t_household t) (t_id t) db")
  case None
  with assms(2) show ?thesis by (auto simp: find_task_row_def find_None_iff2 task_key_def)
next
  case (Some u)
  with assms show ?thesis by (auto dest!: find_task_rowD dest: unique_onD)
qed

section \<open>What one call does\<close>

text \<open>The effect of a transition that found the task in the expected status.\<close>

definition transition_effect :: "transition_input \<Rightarrow> 'd opsdb \<Rightarrow> task_snapshot \<Rightarrow> 'd opsdb \<Rightarrow> bool" where
  "transition_effect i db x db' \<longleftrightarrow>
     (\<exists>t now. find_task_row (ti_household i) (ti_task i) db = Some t \<and> t_status t = ti_from i
        \<and> terminal_metadata (moved_row i now t) \<and> x = taskRecord (moved_row i now t)
        \<and> db' = db\<lparr>transitions := transitions db @
              [\<lparr>tr_household = ti_household i, tr_task = ti_task i,
                tr_sequence = next_sequence (ti_household i) (ti_task i) db,
                tr_from = Some (ti_from i), tr_to = ti_to i, tr_reason = ti_reason i,
                tr_component = ti_component i\<rparr>],
            tasks := update_where (task_key (ti_household i) (ti_task i)) (moved_row i now)
              (tasks db)\<rparr>)"

lemma moved_row_key [simp]:
  "t_household (moved_row i now t) = t_household t" "t_id (moved_row i now t) = t_id t"
  "t_status (moved_row i now t) = ti_to i"
  by (simp_all add: moved_row_def)

lemma task_key_moved [simp]: "task_key hh task (moved_row i now t) = task_key hh task t"
  by (simp add: task_key_def)

lemma find_task_moved:
  "find (task_key hh task) (update_where q (moved_row i now) ts) =
   map_option (\<lambda>r. if q r then moved_row i now r else r) (find (task_key hh task) ts)"
  by (rule find_update_where_same) simp

definition households_ok :: "'d opsdb \<Rightarrow> bool" where
  "households_ok db \<longleftrightarrow> (\<forall>t \<in> set (tasks db). t_household t \<in> set (households db))"

lemma loadTask_twp:
  assumes "\<And>t. find_task_row hh task d = Some t \<Longrightarrow> Q t d"
  shows "twp (loadTaskForUpdate hh task) Q d"
  unfolding loadTaskForUpdate_def requireId_def
  by (intro twp_rules) (use assms in auto)

lemma transition_twp:
  assumes hh: "households_ok d"
  shows "twp (transition_body i) (transition_effect i d) d"
  unfolding transition_body_def
proof (intro twp_bindM loadTask_twp twp_requireM twp_client_query twp_ret; clarsimp)
  fix t n d1 now d2 u
  assume t: "find_task_row (ti_household i) (ti_task i) d = Some t" "t_status t = ti_from i"
    and ins: "sql_insert_transition
        \<lparr>tr_household = ti_household i, tr_task = ti_task i,
         tr_sequence = next_sequence (ti_household i) (ti_task i) d, tr_from = Some (ti_from i),
         tr_to = ti_to i, tr_reason = ti_reason i, tr_component = ti_component i\<rparr> n d
        = Inr ((), d1)"
    and upd: "sql_update_task i now d1 = Inr ((), d2)"
    and u: "find_task_row (ti_household i) (ti_task i) d2 = Some u"
  from t(1) have key: "t \<in> set (tasks d)" "task_key (ti_household i) (ti_task i) t"
    and "t_household t = ti_household i"
    by (auto dest: find_task_rowD simp: task_key_def)
  with hh have "ti_household i \<in> set (households d)"
    by (auto simp: households_ok_def)
  with ins have d1: "d1 = d\<lparr>transitions := transitions d @
      [\<lparr>tr_household = ti_household i, tr_task = ti_task i,
        tr_sequence = next_sequence (ti_household i) (ti_task i) d, tr_from = Some (ti_from i),
        tr_to = ti_to i, tr_reason = ti_reason i, tr_component = ti_component i\<rparr>]\<rparr>"
    by (simp add: sql_insert_transition_def)
  have meta: "terminal_metadata (moved_row i now t)"
    and d2: "d2 = d1\<lparr>tasks := update_where (task_key (ti_household i) (ti_task i))
        (moved_row i now) (tasks d1)\<rparr>"
    using upd key by (auto simp: sql_update_task_def d1)
  have "u = moved_row i now t"
    using u t(1) key by (simp add: find_task_row_def d2 d1 find_task_moved)
  with t meta show "transition_effect i d (taskRecord u) d2"
    unfolding transition_effect_def d2 d1 by (intro exI [of _ t] exI [of _ now]) simp
qed

lemma ledger_households: "ledger_ok d \<Longrightarrow> households_ok d"
  by (auto simp: ledger_ok_def task_ok_def households_ok_def)

section \<open>The ledger invariant\<close>

lemma task_transitions_append:
  "task_transitions hh task (db\<lparr>transitions := transitions db @ [r], tasks := ts\<rparr>) =
   task_transitions hh task db @ (if tr_household r = hh \<and> tr_task r = task then [r] else [])"
  by (simp add: task_transitions_def)

lemma task_exists_moved:
  "(\<exists>u \<in> set (update_where p (moved_row i now) ts). task_key hh task u) \<longleftrightarrow>
   (\<exists>u \<in> set ts. task_key hh task u)"
  by (induction ts) auto

lemma transition_effect_ok:
  assumes ok: "ledger_ok d" and allowed: "isAllowedTransition (ti_from i) (ti_to i)"
    and eff: "transition_effect i d x d'"
  shows "ledger_ok d'"
proof -
  from eff obtain t now where t: "find_task_row (ti_household i) (ti_task i) d = Some t"
      "t_status t = ti_from i" and meta: "terminal_metadata (moved_row i now t)"
    and d': "d' = d\<lparr>transitions := transitions d @
          [\<lparr>tr_household = ti_household i, tr_task = ti_task i,
            tr_sequence = next_sequence (ti_household i) (ti_task i) d,
            tr_from = Some (ti_from i), tr_to = ti_to i, tr_reason = ti_reason i,
            tr_component = ti_component i\<rparr>],
        tasks := update_where (task_key (ti_household i) (ti_task i)) (moved_row i now) (tasks d)\<rparr>"
    unfolding transition_effect_def by blast
  from t(1) have mem: "t \<in> set (tasks d)" and id: "t_household t = ti_household i" "t_id t = ti_task i"
    by (auto dest: find_task_rowD)
  from ok have uniq: "unique_on t_id (tasks d)" and each: "\<And>u. u \<in> set (tasks d) \<Longrightarrow> task_ok d u"
    and rows: "\<And>r. r \<in> set (transitions d) \<Longrightarrow> row_allowed r
          \<and> (\<exists>u \<in> set (tasks d). task_key (tr_household r) (tr_task r) u)"
    by (auto simp: ledger_ok_def)
  have "unique_on t_id (tasks d')"
    using uniq by (simp add: d' unique_on_update_where)
  moreover have "task_ok d' u" if "u \<in> set (tasks d')" for u
  proof -
    from that obtain v where v: "v \<in> set (tasks d)"
      "u = (if task_key (ti_household i) (ti_task i) v then moved_row i now v else v)"
      by (auto simp: d' set_update_where)
    show ?thesis
    proof (cases "task_key (ti_household i) (ti_task i) v")
      case True
      with v mem id uniq have "v = t" by (auto simp: task_key_def dest: unique_onD)
      with True v each [OF mem] meta t(2) id show ?thesis
        by (auto simp: task_ok_def d' task_transitions_append
            next_sequence_history intro!: history_ok_snoc)
    next
      case False
      with v each [OF v(1)] show ?thesis
        by (auto simp: task_ok_def d' task_transitions_append task_key_def)
    qed
  qed
  moreover have "row_allowed r \<and> (\<exists>u \<in> set (tasks d'). task_key (tr_household r) (tr_task r) u)"
    if "r \<in> set (transitions d')" for r
    using that rows [of r] mem id allowed
    by (auto simp: d' task_exists_moved row_allowed_def) (auto simp: task_key_def)
  ultimately show ?thesis by (simp add: ledger_ok_def)
qed

text \<open>The effect of creating a task.\<close>

definition create_effect :: "create_task \<Rightarrow> 'd opsdb \<Rightarrow> task_snapshot \<Rightarrow> 'd opsdb \<Rightarrow> bool" where
  "create_effect i db x db' \<longleftrightarrow>
     (\<exists>now. ct_household i \<in> set (households db) \<and> (\<forall>t \<in> set (tasks db). t_id t \<noteq> ct_task i)
        \<and> x = taskRecord (new_task_row i now)
        \<and> db' = db\<lparr>tasks := tasks db @ [new_task_row i now],
             transitions := transitions db @
              [\<lparr>tr_household = ct_household i, tr_task = ct_task i, tr_sequence = 1,
                tr_from = None, tr_to = Created, tr_reason = ''task_created'',
                tr_component = ''VerificationRuntime''\<rparr>]\<rparr>)"

lemma createTask_twp: "twp (createTask_body i) (create_effect i d) d"
  unfolding createTask_body_def requireId_def
  by (intro twp_rules)
    (auto simp: sql_insert_task_def sql_insert_transition_def create_effect_def Let_def
      split: if_splits)

lemma create_effect_ok:
  assumes ok: "ledger_ok d" and eff: "create_effect i d x d'"
  shows "ledger_ok d'"
proof -
  from eff obtain now where hh: "ct_household i \<in> set (households d)"
    and fresh: "\<And>t. t \<in> set (tasks d) \<Longrightarrow> t_id t \<noteq> ct_task i"
    and d': "d' = d\<lparr>tasks := tasks d @ [new_task_row i now],
         transitions := transitions d @
          [\<lparr>tr_household = ct_household i, tr_task = ct_task i, tr_sequence = 1,
            tr_from = None, tr_to = Created, tr_reason = ''task_created'',
            tr_component = ''VerificationRuntime''\<rparr>]\<rparr>"
    unfolding create_effect_def by blast
  have none: "task_transitions (ct_household i) (ct_task i) d = []"
    using ok fresh
    by (fastforce simp: ledger_ok_def task_transitions_def filter_empty_conv task_key_def)
  have "task_ok d' (new_task_row i now)"
    using hh none
    by (simp add: task_ok_def d' new_task_row_def terminal_metadata_def history_ok_def
        task_transitions_def)
  moreover have "task_ok d' t" if "t \<in> set (tasks d)" for t
    using ok fresh [OF that] that by (auto simp: ledger_ok_def task_ok_def d' task_transitions_def)
  moreover have "unique_on t_id (tasks d')"
    using ok fresh by (auto simp: ledger_ok_def d' unique_on_append new_task_row_def dest!: fresh)
  ultimately show ?thesis
    using ok by (auto simp: ledger_ok_def d' row_allowed_def task_key_def new_task_row_def)
qed

text \<open>Changes of a task's other columns, and of the other tables.\<close>

definition same_history :: "'d opsdb \<Rightarrow> 'd opsdb \<Rightarrow> bool" where
  "same_history d d' \<longleftrightarrow>
     households d' = households d \<and> transitions d' = transitions d
     \<and> list_all2 (\<lambda>t t'. t_household t' = t_household t \<and> t_id t' = t_id t
          \<and> t_status t' = t_status t \<and> t_terminal_at t' = t_terminal_at t) (tasks d) (tasks d')"

lemma same_history_refl [simp]: "tasks d' = tasks d \<Longrightarrow> households d' = households d \<Longrightarrow>
    transitions d' = transitions d \<Longrightarrow> same_history d d'"
  by (simp add: same_history_def list.rel_refl)

lemma same_history_update:
  assumes "\<And>t. t_household (f t) = t_household t \<and> t_id (f t) = t_id t
      \<and> t_status (f t) = t_status t \<and> t_terminal_at (f t) = t_terminal_at t"
  shows "same_history d (d\<lparr>tasks := update_where p f (tasks d)\<rparr>)"
  using assms
  by (auto simp: same_history_def update_where_def list_all2_conv_all_nth)

lemma same_history_ok:
  assumes ok: "ledger_ok d" and same: "same_history d d'"
  shows "ledger_ok d'"
proof -
  from same have "map t_id (tasks d') = map t_id (tasks d)"
    by (auto simp: same_history_def list_all2_conv_all_nth intro!: nth_equalityI)
  then have "unique_on t_id (tasks d')"
    using ok by (simp add: ledger_ok_def unique_on_def)
  moreover have "task_ok d' t'" if "t' \<in> set (tasks d')" for t'
  proof -
    from that same obtain t where "t \<in> set (tasks d)" "t_household t' = t_household t"
      "t_id t' = t_id t" "t_status t' = t_status t" "t_terminal_at t' = t_terminal_at t"
      by (fastforce simp: same_history_def list_all2_conv_all_nth in_set_conv_nth)
    with ok same show ?thesis
      by (auto simp: ledger_ok_def task_ok_def terminal_metadata_def same_history_def
          task_transitions_def)
  qed
  moreover have "\<exists>t' \<in> set (tasks d'). task_key hh task t'"
    if "t \<in> set (tasks d)" "task_key hh task t" for t hh task
    using that same
    by (fastforce simp: same_history_def list_all2_conv_all_nth in_set_conv_nth task_key_def)
  ultimately show ?thesis
    using ok same by (fastforce simp: ledger_ok_def same_history_def)
qed

lemma statement_same_history:
  "(\<And>t d x d'. f t d = Inr (x, d') \<Longrightarrow> same_history d d') \<Longrightarrow>
   statement_along (preserves ledger_ok) f"
  by (auto simp: statement_along_def preserves_def intro: same_history_ok)

named_theorems statement_defs "SQL statements"

lemmas [statement_defs] = sql_select_contract_def sql_link_maker_def sql_insert_verdict_def
  sql_link_checker_def sql_insert_run_def sql_finish_run_def sql_insert_attempt_def
  sql_finish_attempt_def

lemma statements_same_history:
  "sql_select_contract xi t d = Inr (n, d') \<Longrightarrow> same_history d d'"
  "sql_link_maker hh task aid hash t d = Inr (n, d') \<Longrightarrow> same_history d d'"
  "sql_insert_verdict hh task aid v t d = Inr (n, d') \<Longrightarrow> same_history d d'"
  "sql_link_checker hh task aid t d = Inr (u, d') \<Longrightarrow> same_history d d'"
  "sql_insert_run sr t d = Inr (n, d') \<Longrightarrow> same_history d d'"
  "sql_finish_run rid status failure c retry t d = Inr (n, d') \<Longrightarrow> same_history d d'"
  "sql_insert_attempt sa t d = Inr (n, d') \<Longrightarrow> same_history d d'"
  "sql_finish_attempt fa t d = Inr (n, d') \<Longrightarrow> same_history d d'"
  by (auto simp: statement_defs Let_def intro: same_history_update split: if_splits)

lemma recordCheckerVerdict_keeps:
  "keeps (db_moves (preserves ledger_ok)) (recordCheckerVerdict hh task aid v)"
  unfolding recordCheckerVerdict_def recordCheckerVerdict_body_def requireId_def transactionally_def
  by (intro keeps_transaction_invariant twp_rules loadTask_twp)
    (auto dest!: statements_same_history intro: same_history_ok)

section \<open>Any use of the ledger\<close>

text \<open>The calls that change the ledger, with every argument free.\<close>

datatype ledger_call =
    Call_create create_task
  | Call_transition transition_input
  | Call_select contract_input
  | Call_link_maker string string string string
  | Call_verdict string string string checker_verdict
  | Call_start_run start_run
  | Call_finish_run string run_status "string option" "string option" "string option"
  | Call_start_attempt start_attempt
  | Call_finish_attempt finish_attempt

fun ledger_call_run :: "ledger_call \<Rightarrow> ('d opsdb, unit) dbm" where
  "ledger_call_run (Call_create i) = bindM (createTask i) (\<lambda>_. ret ())"
| "ledger_call_run (Call_transition i) = bindM (transition i) (\<lambda>_. ret ())"
| "ledger_call_run (Call_select i) = selectExecutionContract i"
| "ledger_call_run (Call_link_maker hh task aid hash) = linkMakerArtifact hh task aid hash"
| "ledger_call_run (Call_verdict hh task aid v) = recordCheckerVerdict hh task aid v"
| "ledger_call_run (Call_start_run i) = startRun i"
| "ledger_call_run (Call_finish_run rid status failure c retry) =
     finishRun rid status failure c retry"
| "ledger_call_run (Call_start_attempt i) = startAttempt i"
| "ledger_call_run (Call_finish_attempt i) = finishAttempt i"

text \<open>What the runtime and the resolver check before they call \<open>transition\<close>.\<close>

fun call_allowed :: "ledger_call \<Rightarrow> bool" where
  "call_allowed (Call_transition i) = isAllowedTransition (ti_from i) (ti_to i)"
| "call_allowed c = True"

text \<open>Calls one after the other; a call that throws does not stop the next.\<close>

fun ledger_run :: "ledger_call list \<Rightarrow> 'd opsdb world \<Rightarrow> 'd opsdb world" where
  "ledger_run [] w = w"
| "ledger_run (c # cs) w = ledger_run cs (snd (ledger_call_run c w))"

lemma keeps_create: "keeps (db_moves (preserves ledger_ok)) (createTask i)"
  unfolding createTask_def transactionally_def
  by (rule keeps_transaction_invariant) (blast intro: twp_mono [OF createTask_twp] create_effect_ok)

lemma keeps_transition:
  "isAllowedTransition (ti_from i) (ti_to i) \<Longrightarrow>
   keeps (db_moves (preserves ledger_ok)) (transition i)"
  unfolding transition_def transactionally_def
  by (rule keeps_transaction_invariant)
    (blast intro: twp_mono [OF transition_twp] transition_effect_ok ledger_households)

lemma ledger_call_keeps:
  "call_allowed c \<Longrightarrow> keeps (db_moves (preserves ledger_ok)) (ledger_call_run c)"
  by (cases c)
    (auto simp: selectExecutionContract_def linkMakerArtifact_def startRun_def finishRun_def
      startAttempt_def finishAttempt_def requireId_def
      intro!: preserved.keeps_pool statement_same_history keeps_create keeps_transition
        recordCheckerVerdict_keeps dest: statements_same_history)

lemma ledger_run_ok:
  "list_all call_allowed cs \<Longrightarrow> txn w = None \<Longrightarrow> ledger_ok (wdb w) \<Longrightarrow>
   txn (ledger_run cs w) = None \<and> ledger_ok (wdb (ledger_run cs w))"
proof (induction cs arbitrary: w)
  case (Cons c cs)
  obtain r w' where c: "ledger_call_run c w = (r, w')" by fastforce
  have "txn w' = None \<and> ledger_ok (wdb w')"
    by (rule keeps_preserves [OF ledger_call_keeps c]) (use Cons.prems in simp_all)
  with c Cons show ?case by simp
qed simp

lemma ledger_ok_path:
  assumes "ledger_ok db" and "t \<in> set (tasks db)"
  shows "task_path Created (map tr_to (tl (task_transitions (t_household t) (t_id t) db))) (t_status t)"
proof (rule history_path)
  show "history_ok (task_transitions (t_household t) (t_id t) db) (t_status t)"
    using assms by (simp add: ledger_ok_def task_ok_def)
  show "list_all row_allowed (task_transitions (t_household t) (t_id t) db)"
    using assms by (auto simp: ledger_ok_def task_transitions_def list_all_iff)
qed


definition sample_hh :: string where "sample_hh = ''hh_00000000000000000000000001''"
definition sample_task_id :: string where "sample_task_id = ''task_00000000000000000000000001''"

definition empty_db :: "'d \<Rightarrow> 'd opsdb" where
  "empty_db x =
    \<lparr>households = [sample_hh], tasks = [], transitions = [], artifacts = [], verdicts = [],
     runs = [], attempts = [], confirmations = [], commands = [], receipts = [], readbacks = [],
     domain = x\<rparr>"

definition sample_world :: "'db \<Rightarrow> fault list \<Rightarrow> 'db world" where
  "sample_world db fs =
    \<lparr>wdb = db, txn = None, faults = fs, wclock = 0, ticks = [1, 1, 1, 1, 1, 1],
     ulids = (\<lambda>n. replicate 26 (CHR ''0''))\<rparr>"

definition sample_create :: create_task where
  "sample_create = \<lparr>ct_household = sample_hh, ct_task = sample_task_id, ct_parent = None,
     ct_team = ''accounting'', ct_attempt_limit = 2, ct_deadline = None\<rparr>"

definition sample_transition :: "task_status \<Rightarrow> task_status \<Rightarrow> transition_input" where
  "sample_transition from to =
    \<lparr>ti_household = sample_hh, ti_task = sample_task_id, ti_from = from, ti_to = to,
     ti_reason = ''test'', ti_component = ''VerificationRuntime'',
     ti_terminal = Some (isTerminalStatus to), ti_failure = None, ti_resumable = None\<rparr>"

lemma sample_transition_simps [simp]:
  "ti_household (sample_transition a b) = sample_hh" "ti_task (sample_transition a b) = sample_task_id"
  "ti_from (sample_transition a b) = a" "ti_to (sample_transition a b) = b"
  "ti_terminal (sample_transition a b) = Some (isTerminalStatus b)"
  by (simp_all add: sample_transition_def)

definition lost_answer :: pg_failure where
  "lost_answer = \<lparr>pg_code = Some ''08006'', pg_constraint = None, pg_message = None\<rparr>"

text \<open>Two calls: one that succeeds, and one whose COMMIT loses its answer.\<close>

definition sample_calls :: "ledger_call list" where
  "sample_calls = [Call_create sample_create, Call_transition (sample_transition Created Skill_selected)]"

definition sample_faults :: "fault list" where
  "sample_faults = replicate 12 No_fault @ [Fail_after lost_answer]"

abbreviation sample_end :: "unit opsdb" where
  "sample_end \<equiv> wdb (ledger_run sample_calls (sample_world (empty_db ()) sample_faults))"


section \<open>Transitions are compare-and-swap\<close>

lemma transition_dwp:
  assumes "households_ok d"
  shows "dwp (transition i) (transition_effect i d)
    (\<lambda>e d'. d' = d \<or> (\<exists>x. transition_effect i d x d')) d"
  unfolding transition_def by (rule dwp_transactionally [OF transition_twp [OF assms]])

lemma loadTask_ctwp:
  assumes "opaqueIdentifierSchema Id_household hh" and "opaqueIdentifierSchema Id_task task"
    and "find_task_row hh task d = Some t" and "Q t d"
  shows "ctwp (loadTaskForUpdate hh task) Q E d"
  unfolding loadTaskForUpdate_def requireId_def using assms
  by (intro ctwp_rules) (auto simp: read_only_def intro: ctwp_ret)

lemma transition_result:
  assumes "txn w = None" and "ledger_ok (wdb w)" and "transition i w = (r, w')"
  shows "(case r of Inr x \<Rightarrow> transition_effect i (wdb w) x (wdb w') \<and> ts_status x = ti_to i
     | Inl e \<Rightarrow> wdb w' = wdb w \<or> (\<exists>x. transition_effect i (wdb w) x (wdb w')))"
proof (cases r)
  case (Inl e)
  with assms show ?thesis
    using dwp_threw [OF transition_dwp [OF ledger_households], of w i e w'] by auto
next
  case (Inr x)
  with assms have "transition_effect i (wdb w) x (wdb w')"
    using dwp_returned [OF transition_dwp [OF ledger_households], of w i x w'] by auto
  with Inr show ?thesis by (auto simp: transition_effect_def taskRecord_def)
qed

text \<open>
  C18. A transition is a compare-and-swap on the task's status. Whatever fails, it either leaves
  the database as it was or has its whole effect: the task was in the expected status, is now
  in the requested one, and exactly one history row was added. It throws after having had
  its effect only when the answer to COMMIT was lost.
\<close>

theorem transition_compare_and_swap:
  assumes "txn w = None" and "ledger_ok (wdb w)" and "transition i w = (r, w')"
  shows "(case r of Inr x \<Rightarrow> transition_effect i (wdb w) x (wdb w') \<and> ts_status x = ti_to i
     | Inl e \<Rightarrow> wdb w' = wdb w \<or> (\<exists>x. transition_effect i (wdb w) x (wdb w')))"
  using assms by (rule transition_result)

theorem transition_compare_and_swap_witness:
  "\<exists>e w'. transition (sample_transition Created Skill_selected) (sample_world (empty_db ()) []) = (Inl e, w')
     \<and> (wdb w' = empty_db ()
        \<or> (\<exists>x. transition_effect (sample_transition Created Skill_selected) (empty_db ()) x (wdb w')))"
proof -
  let ?w = "sample_world (empty_db ()) [] :: unit opsdb world"
  let ?i = "sample_transition Created Skill_selected"
  obtain r w' where run: "transition ?i ?w = (r, w')" by fastforce
  have w: "txn ?w = None" "ledger_ok (wdb ?w)" "wdb ?w = empty_db ()"
    by (simp_all add: sample_world_def empty_db_def ledger_ok_def unique_on_def)
  have "\<exists>e. r = Inl e"
    using transition_result [OF w(1,2) run] w(3)
    by (auto simp: transition_effect_def find_task_row_def empty_db_def split: sum.splits)
  with transition_compare_and_swap [OF w(1,2) run] w(3) run show ?thesis by auto
qed

lemma terminal_metadata_moved:
  "ti_terminal i = Some (isTerminalStatus (ti_to i)) \<Longrightarrow> terminal_metadata (moved_row i now t)"
  by (cases "ti_to i") (simp_all add: terminal_metadata_def moved_row_def)

lemma transition_ctwp:
  assumes ok: "ledger_ok d"
    and ids: "opaqueIdentifierSchema Id_household (ti_household i)"
      "opaqueIdentifierSchema Id_task (ti_task i)"
    and t: "find_task_row (ti_household i) (ti_task i) d = Some t"
    and flag: "ti_terminal i = Some (isTerminalStatus (ti_to i))"
  shows "ctwp (transition_body i) (\<lambda>_ _. t_status t = ti_from i)
    (\<lambda>e. t_status t \<noteq> ti_from i \<and> e = stale_task_state_error) d"
proof (cases "t_status t = ti_from i")
  case False
  show ?thesis
    unfolding transition_body_def
    by (intro loadTask_ctwp [OF ids t] ctwp_bindM ctwp_requireM) (use False in simp_all)
next
  case True
  let ?r = "\<lparr>tr_household = ti_household i, tr_task = ti_task i,
     tr_sequence = next_sequence (ti_household i) (ti_task i) d, tr_from = Some (ti_from i),
     tr_to = ti_to i, tr_reason = ti_reason i, tr_component = ti_component i\<rparr>"
  let ?d1 = "d\<lparr>transitions := transitions d @ [?r]\<rparr>"
  let ?d2 = "\<lambda>now. ?d1\<lparr>tasks := update_where (task_key (ti_household i) (ti_task i))
     (moved_row i now) (tasks d)\<rparr>"
  from t have mem: "t \<in> set (tasks d)" and id: "t_household t = ti_household i" "t_id t = ti_task i"
    by (auto dest: find_task_rowD)
  with ok have "task_ok d t" by (auto simp: ledger_ok_def)
  with id have hh: "ti_household i \<in> set (households d)"
    and hist: "history_ok (task_transitions (ti_household i) (ti_task i) d) (t_status t)"
    by (simp_all add: task_ok_def)
  have below: "tr_sequence r < next_sequence (ti_household i) (ti_task i) d"
    if "r \<in> set (task_transitions (ti_household i) (ti_task i) d)" for r
  proof -
    from that have "tr_sequence r \<in> set (map tr_sequence (task_transitions (ti_household i) (ti_task i) d))"
      by simp
    then have "tr_sequence r < Suc (length (task_transitions (ti_household i) (ti_task i) d))"
      using hist unfolding history_ok_def by (metis atLeastLessThan_iff set_upt)
    with next_sequence_history [OF hist] show ?thesis by simp
  qed
  have new: "\<forall>r \<in> set (transitions d). tr_household r = ti_household i \<longrightarrow>
      tr_task r = ti_task i \<longrightarrow> tr_sequence r \<noteq> next_sequence (ti_household i) (ti_task i) d"
    using below by (fastforce simp: task_transitions_def)
  have ins: "sql_insert_transition ?r now d = Inr ((), ?d1)" for now
    using new hh t by (auto simp: sql_insert_transition_def next_sequence_def)
  have upd: "sql_update_task i now ?d1 = Inr ((), ?d2 now)" for now
    using terminal_metadata_moved [OF flag] by (auto simp: sql_update_task_def)
  have load: "find_task_row (ti_household i) (ti_task i) (?d2 now) = Some (moved_row i now t)" for now
    using t id by (simp add: find_task_row_def find_task_moved task_key_def)
  show ?thesis
    unfolding transition_body_def
    by (intro loadTask_ctwp [OF ids t] ctwp_bindM ctwp_requireM
        ctwp_query_to [where f = "sql_insert_transition ?r" and d = d and g = "\<lambda>_. ?d1", OF ins]
        ctwp_query_to [where f = "sql_update_task i" and d = ?d1 and g = ?d2, OF upd] loadTask_ctwp [OF ids load] ctwp_ret
        ctwp_query_to [where g = "\<lambda>_. d" and x = "next_sequence (ti_household i) (ti_task i) d"
          and f = "read_only (next_sequence (ti_household i) (ti_task i))"])
      (use True in \<open>simp_all add: read_only_def\<close>)
qed

text \<open>
  Without faults a transition always answers: from the expected status, with the terminal
  flag the runtime computes, it returns the task in the requested status; from any other
  status it throws \<open>stale_task_state\<close>, which is safe to retry, and changes nothing.
\<close>

theorem transition_answers:
  assumes "calm w" and "ledger_ok (wdb w)"
    and "opaqueIdentifierSchema Id_household (ti_household i)"
    and "opaqueIdentifierSchema Id_task (ti_task i)"
    and "find_task_row (ti_household i) (ti_task i) (wdb w) = Some t"
    and "ti_terminal i = Some (isTerminalStatus (ti_to i))"
  shows "case transition i w of
       (Inr x, w') \<Rightarrow> t_status t = ti_from i \<and> ts_status x = ti_to i
          \<and> transition_effect i (wdb w) x (wdb w')
     | (Inl e, w') \<Rightarrow> t_status t \<noteq> ti_from i \<and> e = stale_task_state_error \<and> wdb w' = wdb w"
proof -
  obtain r w' where run: "transition i w = (r, w')" by fastforce
  have w: "txn w = None" using assms(1) by (rule calm_txn)
  note calm = cwpD [OF cwp_transactionally [OF transition_ctwp [OF assms(2-6)]] assms(1)]
  show ?thesis
  proof (cases r)
    case (Inl e)
    with run calm show ?thesis by (auto simp: transition_def wp_def)
  next
    case (Inr x)
    with run calm have "t_status t = ti_from i" by (auto simp: transition_def wp_def)
    moreover have "transition_effect i (wdb w) x (wdb w') \<and> ts_status x = ti_to i"
      using transition_result [OF w assms(2) run] Inr by simp
    ultimately show ?thesis using run Inr by simp
  qed
qed

definition created_world :: "unit opsdb world" where
  "created_world = ledger_run [Call_create sample_create] (sample_world (empty_db ()) [])"

theorem transition_answers_witness:
  "case transition (sample_transition Created Skill_selected) created_world of
     (Inr x, w') \<Rightarrow> Created = Created \<and> ts_status x = Skill_selected
        \<and> transition_effect (sample_transition Created Skill_selected) (wdb created_world) x (wdb w')
   | (Inl e, w') \<Rightarrow> Created \<noteq> Created \<and> e = stale_task_state_error \<and> wdb w' = wdb created_world"
proof -
  have ok: "txn created_world = None \<and> ledger_ok (wdb created_world)"
    unfolding created_world_def
    by (rule ledger_run_ok) (simp_all add: sample_world_def empty_db_def ledger_ok_def unique_on_def)
  have "faults created_world = []" by code_simp
  with ok have calm: "calm created_world" by (simp add: calm_def)
  have "map_option t_status (find_task_row sample_hh sample_task_id (wdb created_world)) = Some Created"
    by code_simp
  then obtain t where t: "find_task_row sample_hh sample_task_id (wdb created_world) = Some t"
    and "t_status t = Created"
    by auto
  moreover have "opaqueIdentifierSchema Id_household sample_hh"
    "opaqueIdentifierSchema Id_task sample_task_id" by code_simp+
  ultimately show ?thesis
    using transition_answers [OF calm conjunct2 [OF ok],
        of "sample_transition Created Skill_selected" t]
    by (simp split: prod.splits sum.splits)
qed

end
