(* ===== verification/JsonText.thy ===== *)
theory JsonText
  imports Schemas Decimals
begin

text \<open>
  The text of JSON values as \<open>JSON.stringify\<close> writes it: object keys in their order, no white
  space, strings quoted with the escapes of the standard; and instants as text.
\<close>

text \<open>\<open>JSON.stringify\<close> of a string: the escapes it writes, other control characters as \<open>\uXXXX\<close>.\<close>

definition hex_digit :: "nat \<Rightarrow> char" where
  "hex_digit d = ''0123456789abcdef'' ! d"

definition json_escape :: "char \<Rightarrow> string" where
  "json_escape c =
    (if c = CHR 0x22 then [CHR 0x5C, CHR 0x22]
     else if c = CHR 0x5C then [CHR 0x5C, CHR 0x5C]
     else if c = CHR 0x08 then [CHR 0x5C, CHR ''b'']
     else if c = CHR 0x0C then [CHR 0x5C, CHR ''f'']
     else if c = CHR 0x0A then [CHR 0x5C, CHR ''n'']
     else if c = CHR 0x0D then [CHR 0x5C, CHR ''r'']
     else if c = CHR 0x09 then [CHR 0x5C, CHR ''t'']
     else if \<not> char_le (CHR 0x20) c
     then [CHR 0x5C, CHR ''u'', CHR ''0'', CHR ''0'', hex_digit (of_char c div 16), hex_digit (of_char c mod 16)]
     else [c])"

definition json_quote :: "string \<Rightarrow> string" where
  "json_quote s = [CHR 0x22] @ concat (map json_escape s) @ [CHR 0x22]"

fun join_with :: "string \<Rightarrow> string list \<Rightarrow> string" where
  "join_with sep [] = []"
| "join_with sep [s] = s"
| "join_with sep (s # t # ts) = s @ sep @ join_with sep (t # ts)"

fun json_stringify :: "json \<Rightarrow> string" where
  "json_stringify JNull = ''null''"
| "json_stringify (JBool b) = (if b then ''true'' else ''false'')"
| "json_stringify (JNum n) = int_string n"
| "json_stringify (JStr s) = json_quote s"
| "json_stringify (JArr js) = ''['' @ join_with '','' (map json_stringify js) @ '']''"
| "json_stringify (JObj kvs) =
     ''{'' @ join_with '','' (map (\<lambda>(k, j). json_quote k @ '':'' @ json_stringify j) kvs) @ ''}''"

section \<open>Instants as text\<close>

text \<open>\<open>Date.prototype.toISOString\<close>: the civil date of a number of milliseconds since 1970.\<close>

definition civil_of_days :: "nat \<Rightarrow> nat \<times> nat \<times> nat" where
  "civil_of_days days =
    (let z = days + 719468;
         era = z div 146097;
         doe = z mod 146097;
         yoe = (doe - doe div 1460 + doe div 36524 - doe div 146096) div 365;
         doy = doe - (365 * yoe + yoe div 4 - yoe div 100);
         mp = (5 * doy + 2) div 153;
         d = doy - (153 * mp + 2) div 5 + 1;
         m = (if mp < 10 then mp + 3 else mp - 9)
     in (yoe + era * 400 + (if m \<le> 2 then 1 else 0), m, d))"

definition padded :: "nat \<Rightarrow> nat \<Rightarrow> string" where
  "padded k n = replicate (k - length (decimal n)) (CHR ''0'') @ decimal n"

definition toISOString :: "nat \<Rightarrow> string" where
  "toISOString ms =
    (let (y, m, d) = civil_of_days (ms div 86400000); t = ms mod 86400000
     in (if y \<le> 9999 then padded 4 y else ''+'' @ padded 6 y) @ ''-'' @ padded 2 m @ ''-'' @ padded 2 d
        @ ''T'' @ padded 2 (t div 3600000) @ '':'' @ padded 2 (t div 60000 mod 60)
        @ '':'' @ padded 2 (t div 1000 mod 60) @ ''.'' @ padded 3 (t mod 1000) @ ''Z'')"

end
