(* ===== verification/MutationCommands.thy ===== *)
theory MutationCommands
  imports VerificationLedger JsonText
begin

text \<open>
  Mutation commands in the database: the repository
  repositories/operations/mutation-command-repository.ts, the bridge domain-command-bridge.ts
  that runs inside a domain transaction, and the database's own part, the triggers and functions
  of migrations 0005 and 0019 that both rely on.
\<close>

section \<open>JSON text\<close>

text \<open>
  \<open>localeCompare\<close> is a parameter: \<open>le a b\<close> when it does not put \<open>b\<close> before \<open>a\<close>.
\<close>

type_synonym locale_order = "string \<Rightarrow> string \<Rightarrow> bool"

fun stableJson :: "locale_order \<Rightarrow> json \<Rightarrow> string" where
  "stableJson le (JArr js) = ''['' @ join_with '','' (map (stableJson le) js) @ '']''"
| "stableJson le (JObj kvs) =
     ''{'' @ join_with '',''
       (map (\<lambda>(k, s). json_quote k @ '':'' @ s)
         (sort_by (\<lambda>a b. le (fst a) (fst b)) (map (\<lambda>(k, j). (k, stableJson le j)) kvs)))
     @ ''}''"
| "stableJson le JNull = ''null''"
| "stableJson le (JBool b) = (if b then ''true'' else ''false'')"
| "stableJson le (JNum n) = int_string n"
| "stableJson le (JStr s) = json_quote s"

text \<open>Equality of jsonb values: objects are equal up to the order of their keys.\<close>

fun jsonb_norm :: "json \<Rightarrow> json" where
  "jsonb_norm (JArr js) = JArr (map jsonb_norm js)"
| "jsonb_norm (JObj kvs) =
     JObj (sort_by (\<lambda>a b. text_le (fst a) (fst b)) (map (\<lambda>(k, j). (k, jsonb_norm j)) kvs))"
| "jsonb_norm j = j"

definition jsonb_eq :: "json \<Rightarrow> json \<Rightarrow> bool" where
  "jsonb_eq a b \<longleftrightarrow> jsonb_norm a = jsonb_norm b"

lemma jsonb_eq_refl [simp]: "jsonb_eq a a"
  by (simp add: jsonb_eq_def)

section \<open>Confirmations\<close>

definition nonblank :: "string \<Rightarrow> bool" where
  "nonblank s \<longleftrightarrow> list_ex (\<lambda>c. c \<noteq> CHR '' '') s"

definition sql_insert_confirmation :: "external_confirmation \<Rightarrow> ('d opsdb, nat) statement" where
  "sql_insert_confirmation e now db =
    (if ec_household e \<notin> set (households db) then Inr (0, db)
     else guarded
       [(nonblank (ec_principal e), check_violation ''external_confirmations_principal_nonempty''),
        (nonblank (ec_reference e), check_violation ''external_confirmations_reference_nonempty''),
        (\<forall>c \<in> set (confirmations db). ec_id c \<noteq> ec_id e,
           unique_violation ''external_confirmations_public_unique''),
        (artifact_with_hash (ec_household e) (ec_task e) (ec_proposal e) (ec_proposal_hash e) db \<noteq> None,
           foreign_key_violation ''external_confirmations_exact_artifact_fk'')]
       (1, db\<lparr>confirmations := confirmations db @ [e]\<rparr>))"

definition recordConfirmation :: "external_confirmation \<Rightarrow> ('d opsdb, unit) dbm" where
  "recordConfirmation e =
    bindM (requireM (ExternalConfirmationSchemaV1 e) ZodError) (\<lambda>_.
    catchM
      (bindM (pool_query (sql_insert_confirmation e)) (\<lambda>n.
        requireM (n = 1)
          (plusOne Validation_rejected ''confirmation_household_not_found'' Never False)))
      (\<lambda>err. raise (normalizeMutationDatabaseError err)))"

section \<open>The triggers\<close>

definition find_confirmation :: "string \<Rightarrow> string option \<Rightarrow> 'd opsdb \<Rightarrow> external_confirmation option" where
  "find_confirmation hh cid db =
    (case cid of None \<Rightarrow> None
     | Some i \<Rightarrow> find (\<lambda>c. ec_household c = hh \<and> ec_id c = i) (confirmations db))"

definition exact_artifact :: "command_row \<Rightarrow> 'd opsdb \<Rightarrow> bool" where
  "exact_artifact c db \<longleftrightarrow>
     (case artifact_with_hash (cm_household c) (cm_task c) (cm_proposal c) (cm_proposal_hash c) db of
        None \<Rightarrow> False
      | Some a \<Rightarrow>
          (case json_field ''output'' (ar_payload a) of
             None \<Rightarrow> False
           | Some out \<Rightarrow>
               jsonb_eq out (cm_payload c)
               \<and> json_field ''schemaName'' out = Some (JStr (sch_name (cm_schema c)))
               \<and> json_field ''schemaVersion'' out = Some (JNum (sch_version (cm_schema c)))))"

definition accepted_in :: "'d opsdb \<Rightarrow> string \<Rightarrow> string \<Rightarrow> string \<Rightarrow> string \<Rightarrow> bool" where
  "accepted_in db hh task proposal hash \<longleftrightarrow>
     list_ex (\<lambda>v. vd_household v = hh \<and> vd_task v = task \<and> vd_covered v = proposal
       \<and> vd_hash v = hash \<and> vd_verdict v = V_accepted) (verdicts db)"

definition exact_confirmation :: "command_row \<Rightarrow> 'd opsdb \<Rightarrow> bool" where
  "exact_confirmation c db \<longleftrightarrow>
     (case find_confirmation (cm_household c) (cm_confirmation c) db of
        None \<Rightarrow> False
      | Some e \<Rightarrow> ec_task e = cm_task c \<and> ec_proposal e = cm_proposal c
          \<and> ec_proposal_hash e = cm_proposal_hash c)"

definition validate_mutation_command_insert :: "command_row \<Rightarrow> 'd opsdb \<Rightarrow> (bool \<times> exn) list" where
  "validate_mutation_command_insert c db =
    [(exact_artifact c db, check_violation ''mutation_command_exact_artifact''),
     (accepted_in db (cm_household c) (cm_task c) (cm_proposal c) (cm_proposal_hash c),
        check_violation ''mutation_command_acceptance_required''),
     (cm_required c \<or> cm_confirmation c \<noteq> None \<longrightarrow> exact_confirmation c db,
        check_violation ''mutation_command_exact_confirmation'')]"

fun command_moves :: "command_status \<Rightarrow> command_status list" where
  "command_moves Cmd_registered = [Cmd_execution_pending, Cmd_execution_failed]"
| "command_moves Cmd_execution_pending = [Cmd_committed, Cmd_execution_failed]"
| "command_moves Cmd_committed = [Cmd_readback_verified, Cmd_readback_failed]"
| "command_moves s = []"

definition guard_mutation_command_update ::
  "command_row \<Rightarrow> command_status \<Rightarrow> 'd opsdb \<Rightarrow> (bool \<times> exn) list" where
  "guard_mutation_command_update c s db =
    (if cm_status c = s then []
     else
       [(s \<in> set (command_moves (cm_status c)), check_violation ''mutation_command_status_transition''),
        (s = Cmd_committed \<longrightarrow> find_receipt_row (cm_household c) (cm_id c) db \<noteq> None,
           check_violation ''mutation_command_receipt_required''),
        (s \<in> {Cmd_readback_verified, Cmd_readback_failed} \<longrightarrow>
           list_ex (\<lambda>r. rk_household r = cm_household c \<and> rk_command r = cm_id c
             \<and> rk_ok r = (s = Cmd_readback_verified)) (readbacks db),
           check_violation ''mutation_command_readback_required'')])"

text \<open>An update of the status of the rows that match; the guard runs for each of them.\<close>

definition set_status :: "command_status \<Rightarrow> string option \<Rightarrow> nat \<Rightarrow> command_row \<Rightarrow> command_row" where
  "set_status s failure now c = c\<lparr>cm_status := s, cm_failure := failure, cm_updated := now\<rparr>"

definition update_command_status ::
  "(command_row \<Rightarrow> bool) \<Rightarrow> command_status \<Rightarrow> string option \<Rightarrow> ('d opsdb, nat) statement" where
  "update_command_status p s failure now db =
    guarded
      (concat (map (\<lambda>c. guard_mutation_command_update c s db) (filter p (commands db))))
      (count_where p (commands db),
       db\<lparr>commands := update_where p (set_status s failure now) (commands db)\<rparr>)"

section \<open>Registration\<close>

definition new_command_row :: "checked_command \<Rightarrow> bool \<Rightarrow> nat \<Rightarrow> 'd opsdb \<Rightarrow> command_row" where
  "new_command_row c required now db =
    \<lparr>cm_id = cc_id c, cm_household = cc_household c, cm_task = cc_task c, cm_type = cc_type c,
     cm_proposal = cc_proposal c, cm_proposal_hash = cc_proposal_hash c, cm_idem = cc_idem c,
     cm_required = required,
     cm_confirmation = (case find_confirmation (cc_household c) (cc_confirmation c) db of
        None \<Rightarrow> None | Some e \<Rightarrow> Some (ec_id e)),
     cm_schema = cc_schema c, cm_payload = cc_payload c, cm_status = Cmd_registered,
     cm_failure = None, cm_registered = now, cm_updated = now\<rparr>"

text \<open>The unique constraints in the order of their indexes.\<close>

definition command_unique :: "command_row \<Rightarrow> 'd opsdb \<Rightarrow> (bool \<times> exn) list" where
  "command_unique c db =
    [(\<forall>r \<in> set (commands db). cm_id r \<noteq> cm_id c,
        unique_violation ''mutation_commands_public_unique''),
     (\<forall>r \<in> set (commands db). \<not> (cm_household r = cm_household c \<and> cm_idem r = cm_idem c),
        unique_violation ''mutation_commands_idempotency_unique''),
     (\<forall>r \<in> set (commands db). \<not> (cm_household r = cm_household c \<and> cm_proposal r = cm_proposal c
         \<and> cm_proposal_hash r = cm_proposal_hash c),
        unique_violation ''mutation_commands_checked_proposal_once'')]"

text \<open>
  \<open>RETURNING\<close> answers with the confirmation identifier of the input, not with the joined one.
\<close>

definition sql_insert_command ::
  "checked_command \<Rightarrow> bool \<Rightarrow> ('d opsdb, command_row option) statement" where
  "sql_insert_command c required now db =
    (if cc_household c \<notin> set (households db) then Inr (None, db)
     else
       let row = new_command_row c required now db
       in guarded (validate_mutation_command_insert row db @ command_unique row db)
            (Some (row\<lparr>cm_confirmation := cc_confirmation c\<rparr>),
             db\<lparr>commands := commands db @ [row]\<rparr>))"

definition findOne :: "(command_row \<Rightarrow> bool) \<Rightarrow> ('d opsdb, command_row option) dbm" where
  "findOne p = pool_query (read_only (\<lambda>db. find p (commands db)))"

definition findByIdempotency :: "string \<Rightarrow> string \<Rightarrow> ('d opsdb, command_row option) dbm" where
  "findByIdempotency hh key = findOne (\<lambda>c. cm_household c = hh \<and> cm_idem c = key)"

definition findByCommandId :: "string \<Rightarrow> string \<Rightarrow> ('d opsdb, command_row option) dbm" where
  "findByCommandId hh cid = findOne (command_key hh cid)"

definition sameEnvelope :: "locale_order \<Rightarrow> command_row \<Rightarrow> checked_command \<Rightarrow> bool \<Rightarrow> bool" where
  "sameEnvelope le r c required \<longleftrightarrow>
     cm_id r = cc_id c \<and> cm_task r = cc_task c \<and> cm_type r = cc_type c
     \<and> cm_proposal r = cc_proposal c \<and> cm_proposal_hash r = cc_proposal_hash c
     \<and> cm_required r = required \<and> cm_confirmation r = cc_confirmation c
     \<and> sch_name (cm_schema r) = sch_name (cc_schema c)
     \<and> sch_version (cm_schema r) = sch_version (cc_schema c)
     \<and> stableJson le (cm_payload r) = stableJson le (cc_payload c)"

definition idempotency_key_reused :: exn where
  "idempotency_key_reused = plusOne Duplicate_replay ''idempotency_key_reused'' Never True"

definition validateReplay ::
  "locale_order \<Rightarrow> command_row \<Rightarrow> checked_command \<Rightarrow> bool \<Rightarrow> exn + command_row" where
  "validateReplay le r c required =
    (if sameEnvelope le r c required then Inr r else Inl idempotency_key_reused)"

definition is_unique_violation_of :: "string list \<Rightarrow> exn \<Rightarrow> bool" where
  "is_unique_violation_of ks e \<longleftrightarrow>
     (case e of PgFailure p \<Rightarrow> pg_code p = Some ''23505'' \<and> constraint_among p ks | _ \<Rightarrow> False)"

definition normalizeRegistrationError :: "exn \<Rightarrow> exn" where
  "normalizeRegistrationError e =
    (if is_plus_one e then e
     else if is_unique_violation_of [''mutation_commands_checked_proposal_once''] e
     then PlusOneError Duplicate_replay ''checked_proposal_already_commanded'' Never True (Some e)
     else normalizeMutationDatabaseError e)"

definition register :: "locale_order \<Rightarrow> checked_command \<Rightarrow> bool \<Rightarrow> ('d opsdb, command_row) dbm" where
  "register le c required =
    bindM (requireM (CheckedCommandSchemaV1 c) ZodError) (\<lambda>_.
    bindM (findByIdempotency (cc_household c) (cc_idem c)) (\<lambda>preexisting.
      case preexisting of
        Some r \<Rightarrow> liftE (validateReplay le r c required)
      | None \<Rightarrow>
          catchM
            (bindM (pool_query (sql_insert_command c required)) (\<lambda>inserted.
              case inserted of
                None \<Rightarrow> raise (plusOne Validation_rejected ''mutation_command_household_not_found'' Never False)
              | Some row \<Rightarrow> ret row))
            (\<lambda>e.
              if is_unique_violation_of
                [''mutation_commands_public_unique'', ''mutation_commands_idempotency_unique''] e
              then bindM (findByIdempotency (cc_household c) (cc_idem c)) (\<lambda>replay.
                case replay of
                  Some r \<Rightarrow> liftE (validateReplay le r c required)
                | None \<Rightarrow> raise (normalizeRegistrationError e))
              else raise (normalizeRegistrationError e))))"

section \<open>Status changes\<close>

definition stateConflict :: exn where
  "stateConflict =
    plusOne Serialization_conflict ''mutation_command_state_conflict'' After_state_resolution True"

definition in_status :: "string \<Rightarrow> string \<Rightarrow> command_status \<Rightarrow> command_row \<Rightarrow> bool" where
  "in_status hh cid s c \<longleftrightarrow> command_key hh cid c \<and> cm_status c = s"

definition markExecutionPending :: "string \<Rightarrow> string \<Rightarrow> ('d opsdb, unit) dbm" where
  "markExecutionPending hh cid =
    bindM (pool_query (update_command_status (in_status hh cid Cmd_registered)
        Cmd_execution_pending None)) (\<lambda>n.
      requireM (n = 1) stateConflict)"

definition markExecutionFailed :: "string \<Rightarrow> string \<Rightarrow> string \<Rightarrow> ('d opsdb, unit) dbm" where
  "markExecutionFailed hh cid failureCode =
    bindM (pool_query (update_command_status (in_status hh cid Cmd_execution_pending)
        Cmd_execution_failed (Some failureCode))) (\<lambda>n.
      requireM (n = 1) stateConflict)"

definition readback_row :: "string \<Rightarrow> readback_result \<Rightarrow> readback_row" where
  "readback_row hh r =
    \<lparr>rk_household = hh, rk_command = rb_command r, rk_receipt = rb_receipt r, rk_id = rb_id r,
     rk_ok = rb_ok r, rk_checks = rb_checks r, rk_mismatches = rb_mismatches r, rk_hash = rb_hash r\<rparr>"

definition sql_insert_readback :: "string \<Rightarrow> readback_result \<Rightarrow> ('d opsdb, nat) statement" where
  "sql_insert_readback hh r now db =
    (if \<not> list_ex (in_status hh (rb_command r) Cmd_committed) (commands db)
        \<or> \<not> list_ex (\<lambda>t. rt_household t = hh \<and> rt_command t = rb_command r \<and> rt_id t = rb_receipt r)
             (receipts db)
     then Inr (0, db)
     else guarded
       [(rb_checks r \<noteq> [], check_violation ''mutation_readbacks_checks_array''),
        (rb_ok r \<longleftrightarrow> rb_mismatches r = [], check_violation ''mutation_readbacks_consistency''),
        (\<forall>k \<in> set (readbacks db). rk_id k \<noteq> rb_id r,
           unique_violation ''mutation_readbacks_public_unique''),
        (find_readback_row hh (rb_command r) db = None,
           unique_violation ''mutation_readbacks_command_unique'')]
       (1, db\<lparr>readbacks := readbacks db @ [readback_row hh r]\<rparr>))"

definition recordReadback_body :: "string \<Rightarrow> readback_result \<Rightarrow> ('d opsdb, unit) dbm" where
  "recordReadback_body hh r =
    bindM (client_query (sql_insert_readback hh r)) (\<lambda>inserted.
    bindM (requireM (inserted = 1) stateConflict) (\<lambda>_.
    bindM (client_query (update_command_status (in_status hh (rb_command r) Cmd_committed)
        (if rb_ok r then Cmd_readback_verified else Cmd_readback_failed)
        (if rb_ok r then None else Some ''readback_mismatch''))) (\<lambda>updated.
    requireM (updated = 1) stateConflict)))"

definition recordReadback :: "string \<Rightarrow> readback_result \<Rightarrow> ('d opsdb, unit) dbm" where
  "recordReadback hh r =
    bindM (requireM (ReadbackResultSchemaV1 r) ZodError) (\<lambda>_.
      transactionally_as normalizeMutationDatabaseError (recordReadback_body hh r))"

section \<open>Receipts and read-backs\<close>

definition receipt_of :: "command_row \<Rightarrow> receipt_row \<Rightarrow> mutation_receipt" where
  "receipt_of c r =
    \<lparr>mr_id = rt_id r, mr_command = cm_id c, mr_household = cm_household c, mr_task = cm_task c,
     mr_proposal = cm_proposal c, mr_proposal_hash = cm_proposal_hash c, mr_type = cm_type c,
     mr_idem = cm_idem c, mr_records = rt_records r, mr_expected = rt_expected r,
     mr_expected_hash = rt_expected_hash r, mr_committed = rt_committed r\<rparr>"

definition stored_receipt :: "string \<Rightarrow> string \<Rightarrow> 'd opsdb \<Rightarrow> mutation_receipt option" where
  "stored_receipt hh cid db =
    (case (find_command_row hh cid db, find_receipt_row hh cid db) of
       (Some c, Some r) \<Rightarrow> Some (receipt_of c r)
     | _ \<Rightarrow> None)"

definition findReceiptByCommand :: "string \<Rightarrow> string \<Rightarrow> ('d opsdb, mutation_receipt option) dbm" where
  "findReceiptByCommand hh cid =
    bindM (pool_query (read_only (stored_receipt hh cid))) (\<lambda>row.
      case row of
        None \<Rightarrow> ret None
      | Some r \<Rightarrow> bindM (requireM (MutationReceiptSchemaV1 r) ZodError) (\<lambda>_. ret (Some r)))"

definition readback_of :: "readback_row \<Rightarrow> readback_result" where
  "readback_of k =
    \<lparr>rb_id = rk_id k, rb_command = rk_command k, rb_receipt = rk_receipt k, rb_ok = rk_ok k,
     rb_checks = rk_checks k, rb_mismatches = rk_mismatches k, rb_hash = rk_hash k\<rparr>"

definition stored_readback :: "string \<Rightarrow> string \<Rightarrow> 'd opsdb \<Rightarrow> readback_result option" where
  "stored_readback hh cid db =
    (case (find_command_row hh cid db, find_readback_row hh cid db) of
       (Some c, Some k) \<Rightarrow>
         (if list_ex (\<lambda>r. rt_household r = hh \<and> rt_id r = rk_receipt k) (receipts db)
          then Some (readback_of k) else None)
     | _ \<Rightarrow> None)"

definition findReadbackByCommand :: "string \<Rightarrow> string \<Rightarrow> ('d opsdb, readback_result option) dbm" where
  "findReadbackByCommand hh cid =
    bindM (pool_query (read_only (stored_readback hh cid))) (\<lambda>row.
      case row of
        None \<Rightarrow> ret None
      | Some r \<Rightarrow> bindM (requireM (ReadbackResultSchemaV1 r) ZodError) (\<lambda>_. ret (Some r)))"

section \<open>The domain bridge\<close>

definition claimable :: "command_status \<Rightarrow> bool" where
  "claimable s \<longleftrightarrow> s \<in> {Cmd_execution_pending, Cmd_committed, Cmd_readback_verified}"

definition claim_mutation_command ::
  "string \<Rightarrow> string \<Rightarrow> 'd opsdb \<Rightarrow> (command_status \<times> string option) option" where
  "claim_mutation_command hh cid db =
    (case find_command_row hh cid db of
       None \<Rightarrow> None
     | Some c \<Rightarrow>
         if claimable (cm_status c)
         then Some (cm_status c, map_option rt_id (find_receipt_row hh cid db))
         else None)"

definition claim :: "string \<Rightarrow> string \<Rightarrow> ('d opsdb, command_status \<times> string option) dbm" where
  "claim hh cid =
    catchM
      (bindM (client_query (read_only (claim_mutation_command hh cid))) (\<lambda>row.
        case row of
          None \<Rightarrow> raise (JsError ''Mutation command was not claimable'')
        | Some (s, receipt) \<Rightarrow>
            bindM (requireM (case receipt of None \<Rightarrow> True | Some i \<Rightarrow> opaqueIdentifierSchema Id_receipt i)
              ZodError) (\<lambda>_. ret (s, receipt))))
      (\<lambda>e. raise (normalizeMutationDatabaseError e))"

record commit_input =
  ci_household :: string
  ci_command :: string
  ci_receipt :: string
  ci_records :: "committed_record list"
  ci_expected :: json
  ci_expected_hash :: string

definition new_receipt_row :: "commit_input \<Rightarrow> nat \<Rightarrow> receipt_row" where
  "new_receipt_row i now =
    \<lparr>rt_household = ci_household i, rt_command = ci_command i, rt_id = ci_receipt i,
     rt_records = ci_records i, rt_expected = ci_expected i,
     rt_expected_hash = ci_expected_hash i, rt_committed = now\<rparr>"

definition commit_mutation_command :: "commit_input \<Rightarrow> ('d opsdb, string \<times> nat) statement" where
  "commit_mutation_command i now db =
    (let p = in_status (ci_household i) (ci_command i) Cmd_execution_pending
     in if \<not> list_ex p (commands db)
        then Inl (check_violation ''mutation_command_claim_required'')
        else
          (case guarded
             [(ci_records i \<noteq> [], check_violation ''mutation_receipts_records_array''),
              (sha256_hex (ci_expected_hash i), check_violation ''mutation_receipts_expected_hash_format''),
              (\<forall>r \<in> set (receipts db). rt_id r \<noteq> ci_receipt i,
                 unique_violation ''mutation_receipts_public_unique''),
              (find_receipt_row (ci_household i) (ci_command i) db = None,
                 unique_violation ''mutation_receipts_command_unique'')]
             (db\<lparr>receipts := receipts db @ [new_receipt_row i now]\<rparr>) of
             Inl e \<Rightarrow> Inl e
           | Inr db' \<Rightarrow>
               (case update_command_status p Cmd_committed None now db' of
                  Inl e \<Rightarrow> Inl e
                | Inr (n, db'') \<Rightarrow> Inr ((ci_receipt i, now), db''))))"

definition commit_bridge :: "commit_input \<Rightarrow> ('d opsdb, string \<times> nat) dbm" where
  "commit_bridge i =
    catchM
      (bindM (requireId Id_receipt (ci_receipt i)) (\<lambda>_.
        client_query (commit_mutation_command i)))
      (\<lambda>e. raise (normalizeMutationDatabaseError e))"

end
