(* ===== verification/ClientSections.thy ===== *)
theory ClientSections
  imports World
begin

text \<open>
  Hand-written transactions: code that takes a client from a pool, begins, commits and rolls
  back at its own places, as the mutation runner and the read-back do. \<open>thenM m h k\<close> is
  \<open>m.then(k, h)\<close>: the handler sees the failures of \<open>m\<close> and not those of the continuation.

  \<open>owp\<close> is a postcondition on the committed state whatever the client's transaction is, and
  \<open>iwp\<close> one for code that starts with a known working copy.
\<close>

definition thenM ::
  "('s, 'e, 'a) io \<Rightarrow> ('e \<Rightarrow> ('s, 'e, 'b) io) \<Rightarrow> ('a \<Rightarrow> ('s, 'e, 'b) io) \<Rightarrow> ('s, 'e, 'b) io" where
  "thenM m h k = (\<lambda>s. case m s of (Inl e, s') \<Rightarrow> h e s' | (Inr x, s') \<Rightarrow> k x s')"

lemma wp_thenM: "wp (thenM m h k) Q E s = wp m (\<lambda>x. wp (k x) Q E) (\<lambda>e. wp (h e) Q E) s"
  by (auto simp: wp_def thenM_def split: prod.splits sum.splits)

text \<open>\<open>m.catch(() => undefined)\<close>.\<close>

definition quietly :: "('s, 'e, 'a) io \<Rightarrow> ('s, 'e, 'a option) io" where
  "quietly m = thenM m (\<lambda>_. ret None) (\<lambda>x. ret (Some x))"

definition sleep_ms :: "nat \<Rightarrow> ('db, unit) dbm" where
  "sleep_ms n w = (Inr (), w\<lparr>wclock := wclock w + n\<rparr>)"

definition with_client :: "('db, 'a) dbm \<Rightarrow> ('db, 'a) dbm" where
  "with_client m = bindM connect (\<lambda>_. finallyM m release)"

definition owp :: "('db, 'a) dbm \<Rightarrow> ('a \<Rightarrow> 'db \<Rightarrow> bool) \<Rightarrow> (exn \<Rightarrow> 'db \<Rightarrow> bool) \<Rightarrow> 'db \<Rightarrow> bool" where
  "owp m Q E d \<longleftrightarrow>
     (\<forall>w. wdb w = d \<longrightarrow> wp m (\<lambda>x w'. Q x (wdb w')) (\<lambda>e w'. E e (wdb w')) w)"

definition iwp ::
  "('db, 'a) dbm \<Rightarrow> ('a \<Rightarrow> 'db \<Rightarrow> bool) \<Rightarrow> (exn \<Rightarrow> 'db \<Rightarrow> bool) \<Rightarrow> 'db \<Rightarrow> 'db \<Rightarrow> bool" where
  "iwp m Q E d c \<longleftrightarrow>
     (\<forall>w. wdb w = d \<and> txn w = Some (Active c) \<longrightarrow>
        wp m (\<lambda>x w'. Q x (wdb w')) (\<lambda>e w'. E e (wdb w')) w)"

lemma owp_iwp: "owp m Q E d \<Longrightarrow> iwp m Q E d c"
  by (simp add: owp_def iwp_def)

lemma owp_ret: "Q x d \<Longrightarrow> owp (ret x) Q E d"
  by (simp add: owp_def wp_simps)

lemma owp_raise: "E e d \<Longrightarrow> owp (raise e) Q E d"
  by (simp add: owp_def wp_simps)

lemma owp_requireM: "(b \<Longrightarrow> Q () d) \<Longrightarrow> (\<not> b \<Longrightarrow> E e d) \<Longrightarrow> owp (requireM b e) Q E d"
  by (simp add: owp_def wp_simps)

lemma owp_thenM: "owp m (\<lambda>x d'. owp (k x) Q E d') (\<lambda>e d'. owp (h e) Q E d') d \<Longrightarrow> owp (thenM m h k) Q E d"
  unfolding owp_def by (auto simp: wp_thenM intro: wp_mono)

lemma owp_bindM: "owp m (\<lambda>x d'. owp (f x) Q E d') E d \<Longrightarrow> owp (bindM m f) Q E d"
  unfolding owp_def by (auto simp: wp_simps intro: wp_mono)

lemma owp_mono:
  assumes "owp m Q E d"
    and "\<And>x d'. Q x d' \<Longrightarrow> Q' x d'" and "\<And>e d'. E e d' \<Longrightarrow> E' e d'"
  shows "owp m Q' E' d"
  using assms unfolding owp_def by (auto intro: wp_mono)

lemma owp_pool_query:
  assumes "\<And>t x d'. f t d = Inr (x, d') \<Longrightarrow> Q x d'"
    and "\<And>t x d' p. f t d = Inr (x, d') \<Longrightarrow> E (PgFailure p) d'"
    and "\<And>t e. f t d = Inl e \<Longrightarrow> E e d" and "\<And>p. E (PgFailure p) d"
  shows "owp (pool_query f) Q E d"
  using assms unfolding owp_def
  by (auto simp: wp_def pool_query_def split: fault.splits sum.splits)

lemma owp_rollback: "Q () d \<Longrightarrow> (\<And>e. E e d) \<Longrightarrow> owp rollback_transaction Q E d"
  by (auto simp: owp_def wp_def rollback_transaction_def split: fault.splits)

lemma owp_sleep: "Q () d \<Longrightarrow> owp (sleep_ms n) Q E d"
  by (simp add: owp_def wp_def sleep_ms_def)

lemma owp_ulid: "(\<And>s. Q s d) \<Longrightarrow> owp fresh_ulid Q E d"
  by (simp add: owp_def wp_def fresh_ulid_def)

lemma owp_option:
  "(v = None \<Longrightarrow> owp m Q E d) \<Longrightarrow> (\<And>x. v = Some x \<Longrightarrow> owp (f x) Q E d) \<Longrightarrow>
   owp (case v of None \<Rightarrow> m | Some x \<Rightarrow> f x) Q E d"
  by (cases v) auto

lemma owp_if: "(b \<Longrightarrow> owp m Q E d) \<Longrightarrow> (\<not> b \<Longrightarrow> owp n Q E d) \<Longrightarrow> owp (if b then m else n) Q E d"
  by simp

lemma owp_quietly: "owp m (\<lambda>x. Q (Some x)) (\<lambda>_. Q None) d \<Longrightarrow> owp (quietly m) Q E d"
  unfolding quietly_def by (rule owp_thenM) (auto intro: owp_ret elim: owp_mono)

lemmas owp_rules = owp_ret owp_raise owp_requireM owp_bindM owp_thenM owp_pool_query
  owp_rollback owp_sleep owp_ulid owp_option owp_if owp_quietly

lemma owp_begin:
  assumes "iwp (k ()) Q E d d" and "\<And>e. owp (h e) Q E d"
  shows "owp (thenM begin_transaction h k) Q E d"
  unfolding owp_def
proof (intro allI impI)
  fix w :: "'a world"
  assume w: "wdb w = d"
  have k: "wp (k ()) (\<lambda>x w'. Q x (wdb w')) (\<lambda>e w'. E e (wdb w')) v"
    if "wdb v = d" "txn v = Some (Active d)" for v
    using assms(1) that by (simp add: iwp_def)
  have h: "wp (h e) (\<lambda>x w'. Q x (wdb w')) (\<lambda>e w'. E e (wdb w')) v" if "wdb v = d" for v e
    using assms(2) that by (simp add: owp_def)
  show "wp (thenM begin_transaction h k) (\<lambda>x w'. Q x (wdb w')) (\<lambda>e w'. E e (wdb w')) w"
    unfolding wp_thenM wp_def [of begin_transaction] begin_transaction_def
    using w by (auto split: fault.split intro!: k h)
qed

lemma iwp_body:
  assumes "twp body R c" and "\<And>x c'. R x c' \<Longrightarrow> iwp (k x) Q E d c'"
    and "\<And>e. owp (h e) Q E d"
  shows "iwp (thenM body h k) Q E d c"
  unfolding iwp_def
proof (intro allI impI, elim conjE)
  fix w :: "'a world"
  assume w: "wdb w = d" "txn w = Some (Active c)"
  have "wp body (\<lambda>x w'. wdb w' = d \<and> (\<exists>d'. txn w' = Some (Active d') \<and> R x d')) (\<lambda>e w'. wdb w' = d) w"
    using assms(1) w by (auto simp: twp_def)
  then show "wp (thenM body h k) (\<lambda>x w'. Q x (wdb w')) (\<lambda>e w'. E e (wdb w')) w"
    unfolding wp_thenM
    by (rule wp_mono) (use assms(2,3) in \<open>auto simp: iwp_def owp_def\<close>)
qed

lemma iwp_commit:
  assumes "owp (k ()) Q E c" and "\<And>e. owp (h e) Q E c" and "\<And>e. owp (h e) Q E d"
  shows "iwp (thenM commit_transaction h k) Q E d c"
  unfolding iwp_def
proof (intro allI impI, elim conjE)
  fix w :: "'a world"
  assume w: "wdb w = d" "txn w = Some (Active c)"
  have k: "wp (k ()) (\<lambda>x w'. Q x (wdb w')) (\<lambda>e w'. E e (wdb w')) v" if "wdb v = c" for v
    using assms(1) that by (simp add: owp_def)
  have h: "wp (h e) (\<lambda>x w'. Q x (wdb w')) (\<lambda>e w'. E e (wdb w')) v" if "wdb v = c \<or> wdb v = d" for v e
    using assms(2,3) that by (auto simp: owp_def)
  show "wp (thenM commit_transaction h k) (\<lambda>x w'. Q x (wdb w')) (\<lambda>e w'. E e (wdb w')) w"
    unfolding wp_thenM wp_def [of commit_transaction] commit_transaction_def
    using w by (auto simp: publish_def split: fault.split intro!: k h)
qed

lemma dwp_with_client:
  assumes "owp m Q E d" and "\<And>e. E e d"
  shows "dwp (with_client m) Q E d"
proof (rule dwpI)
  fix w :: "'a world"
  assume w: "wdb w = d" "txn w = None"
  have "wp m (\<lambda>x w'. txn (release w') = None \<and> Q x (wdb (release w')))
      (\<lambda>e w'. txn (release w') = None \<and> E e (wdb (release w'))) v" if "wdb v = d" for v
    using assms(1) that by (auto simp: owp_def release_def elim: wp_mono)
  then show "wp (with_client m) (\<lambda>x w'. txn w' = None \<and> Q x (wdb w'))
      (\<lambda>e w'. txn w' = None \<and> E e (wdb w')) w"
    unfolding with_client_def wp_bindM wp_finallyM wp_def [of connect] connect_def
    using w assms(2) by (auto split: fault.split)
qed

lemma dwp_thenM: "dwp m (\<lambda>x d'. dwp (k x) Q E d') (\<lambda>e d'. dwp (h e) Q E d') d \<Longrightarrow> dwp (thenM m h k) Q E d"
  unfolding dwp_def by (auto simp: wp_thenM intro: wp_mono)

lemma dwp_quietly: "dwp m (\<lambda>x. Q (Some x)) (\<lambda>_. Q None) d \<Longrightarrow> dwp (quietly m) Q E d"
  unfolding quietly_def by (rule dwp_thenM) (auto intro: dwp_ret elim: dwp_mono)

lemma dwp_sleep: "Q () d \<Longrightarrow> dwp (sleep_ms n) Q E d"
  by (simp add: dwp_def wp_def sleep_ms_def)

text \<open>A relation that every step moves along, whatever the outcome.\<close>

lemma keeps_dwp_rel:
  assumes "keeps (db_moves T) m"
  shows "dwp m (\<lambda>_ d'. T d d') (\<lambda>_ d'. T d d') d"
proof (rule dwpI)
  fix w :: "'a world"
  assume "wdb w = d" "txn w = None"
  then show "wp m (\<lambda>x w'. txn w' = None \<and> T d (wdb w')) (\<lambda>e w'. txn w' = None \<and> T d (wdb w')) w"
    using keeps_wp [OF assms, of w] by (auto simp: db_moves_def elim: wp_mono)
qed

lemma dwp_conj: "dwp m Q E d \<Longrightarrow> dwp m Q' E' d \<Longrightarrow>
    dwp m (\<lambda>x d'. Q x d' \<and> Q' x d') (\<lambda>e d'. E e d' \<and> E' e d') d"
  unfolding dwp_def by (blast intro: wp_mono dest: wp_conj)

text \<open>A handler that only rethrows.\<close>

lemma twp_rethrow: "twp m Q d \<Longrightarrow> twp (catchM m (\<lambda>e. raise (g e))) Q d"
  unfolding twp_def wp_catchM wp_raise by simp

end
