(* ===== verification/CommandRegistry.thy ===== *)
theory CommandRegistry
  imports MutationCommands ClientSections
begin

text \<open>
  Mutation handlers and their registry: packages/mutations/src/command-registry.ts.

  A handler's \<open>execute\<close> and \<open>readback\<close> are asynchronous programs over one database client, which
  the packages of the domains supply. They are scripts: a tree of queries, each one round trip,
  whose continuations see the answers. What the handlers do with the failure of a query is to throw
  it again under another name: the second argument of \<open>Query\<close> is what the enclosing catch blocks
  make of it. \<open>execute\<close> writes the domain's own tables and \<open>readback\<close> runs in a READ ONLY transaction.
\<close>

datatype ('q, 'a) script =
    Done 'a
  | Throw exn
  | Query 'q "exn \<Rightarrow> exn" "json \<Rightarrow> ('q, 'a) script"

primrec run_script ::
  "('q \<Rightarrow> ('db, json) statement) \<Rightarrow> ('q, 'a) script \<Rightarrow> ('db, 'a) dbm" where
  "run_script f (Done x) = ret x"
| "run_script f (Throw e) = raise e"
| "run_script f (Query q g k) =
    bindM (catchM (client_query (f q)) (\<lambda>e. raise (g e))) (\<lambda>j. run_script f (k j))"

definition on_domain :: "('d, json) statement \<Rightarrow> ('d opsdb, json) statement" where
  "on_domain q now db =
    (case q now (domain db) of
       Inl e \<Rightarrow> Inl e
     | Inr (j, x) \<Rightarrow> Inr (j, db\<lparr>domain := x\<rparr>))"

definition read_domain :: "(nat \<Rightarrow> 'd \<Rightarrow> exn + json) \<Rightarrow> ('d opsdb, json) statement" where
  "read_domain q now db =
    (case q now (domain db) of Inl e \<Rightarrow> Inl e | Inr j \<Rightarrow> Inr (j, db))"

text \<open>What a script answers when its queries are answered one after the other.\<close>

inductive script_result :: "(('d, json) statement, 'a) script \<Rightarrow> 'd \<Rightarrow> 'a \<Rightarrow> 'd \<Rightarrow> bool" where
  script_done: "script_result (Done x) d x d"
| script_query: "q t d = Inr (j, d') \<Longrightarrow> script_result (k j) d' x d'' \<Longrightarrow>
    script_result (Query q g k) d x d''"

lemma run_script_twp:
  "twp (run_script on_domain s) (\<lambda>x c'. \<exists>y. script_result s (domain c) x y \<and> c' = c\<lparr>domain := y\<rparr>) c"
proof (induction s arbitrary: c)
  case (Done x)
  show ?case by (auto intro!: twp_ret exI [of _ "domain c"] script_done)
next
  case (Throw e)
  show ?case by (simp add: twp_raise)
next
  case (Query q g k)
  show ?case
    unfolding run_script.simps
  proof (rule twp_bindM, rule twp_catch_raise, rule twp_client_query)
    fix t j c'
    assume "on_domain q t c = Inr (j, c')"
    then obtain x where x: "q t (domain c) = Inr (j, x)" "c' = c\<lparr>domain := x\<rparr>"
      by (auto simp: on_domain_def split: sum.splits)
    show "twp (run_script on_domain (k j))
        (\<lambda>r c''. \<exists>y. script_result (Query q g k) (domain c) r y \<and> c'' = c\<lparr>domain := y\<rparr>) c'"
      by (rule twp_mono [OF Query.IH [OF rangeI, of j c']])
        (use x in \<open>auto intro: script_query [where q = q and t = t and k = k and g = g]\<close>)
  qed
qed

lemma run_script_reads: "twp (run_script read_domain s) (\<lambda>x c'. c' = c) c"
proof (induction s arbitrary: c)
  case (Query q g k)
  have "twp (run_script read_domain (k j)) (\<lambda>x c'. c' = c) c" for j
    using Query.IH by blast
  then show ?case
    unfolding run_script.simps
    by (intro twp_bindM twp_catch_raise twp_client_query) (auto simp: read_domain_def split: sum.splits)
qed (auto intro: twp_ret twp_raise)

section \<open>Handlers\<close>

datatype domain_role = Role_accounting | Role_planning

datatype confirmation_rule = Confirm_required | Confirm_optional | Confirm_forbidden

record execution_context =
  ec_ctx_household :: string
  ec_ctx_task :: string
  ec_ctx_command :: string
  ec_ctx_proposal :: string
  ec_ctx_proposal_hash :: string
  ec_ctx_idem :: string

record execution_output =
  eo_records :: "committed_record list"
  eo_expected :: json

record readback_output =
  ro_checks :: "readback_check list"
  ro_mismatches :: "string list"
  ro_observed :: json

text \<open>
  \<open>h_parse\<close> is \<open>inputSchema.parse\<close>: \<open>None\<close> when it throws. The type of \<open>checks\<close> excludes
  \<open>idempotency_receipt\<close> in the source; here that is a property of a handler.
\<close>

record 'd handler =
  h_type :: string
  h_role :: domain_role
  h_parse :: "json \<Rightarrow> json option"
  h_schema :: schema_identity
  h_confirmation :: confirmation_rule
  h_required :: "check_kind list"
  h_execute :: "json \<Rightarrow> execution_context \<Rightarrow> (('d, json) statement, execution_output) script"
  h_readback :: "json \<Rightarrow> mutation_receipt \<Rightarrow> (nat \<Rightarrow> 'd \<Rightarrow> exn + json, readback_output) script"

definition context_of :: "checked_command \<Rightarrow> execution_context" where
  "context_of c =
    \<lparr>ec_ctx_household = cc_household c, ec_ctx_task = cc_task c, ec_ctx_command = cc_id c,
     ec_ctx_proposal = cc_proposal c, ec_ctx_proposal_hash = cc_proposal_hash c,
     ec_ctx_idem = cc_idem c\<rparr>"

text \<open>The constructor: handlers are added one by one to the map.\<close>

type_synonym 'd registry = "string \<rightharpoonup> 'd handler"

fun add_handlers :: "'d registry \<Rightarrow> 'd handler list \<Rightarrow> exn + 'd registry" where
  "add_handlers m [] = Inr m"
| "add_handlers m (h # hs) =
    (if m (h_type h) \<noteq> None then Inl (JsError ''Duplicate command type'')
     else if Ck_idempotency_receipt \<notin> set (h_required h)
     then Inl (JsError ''Mutation handlers must require idempotency_receipt read-back'')
     else add_handlers (m(h_type h \<mapsto> h)) hs)"

definition commandRegistry :: "'d handler list \<Rightarrow> exn + 'd registry" where
  "commandRegistry hs = add_handlers Map.empty hs"

definition prepare :: "'d registry \<Rightarrow> checked_command \<Rightarrow> exn + ('d handler \<times> json)" where
  "prepare reg c =
    (case reg (cc_type c) of
       None \<Rightarrow> Inl (plusOne Policy_rejected ''mutation_command_not_allowlisted'' Never False)
     | Some h \<Rightarrow>
         if sch_name (h_schema h) \<noteq> sch_name (cc_schema c)
            \<or> sch_version (h_schema h) \<noteq> sch_version (cc_schema c)
         then Inl (plusOne Validation_rejected ''mutation_command_schema_identity_mismatch'' Never False)
         else if h_confirmation h = Confirm_required \<and> cc_confirmation c = None
         then Inl (plusOne Confirmation_required ''external_confirmation_required''
                After_state_resolution False)
         else if h_confirmation h = Confirm_forbidden \<and> cc_confirmation c \<noteq> None
         then Inl (plusOne Validation_rejected ''unexpected_confirmation_reference'' Never False)
         else
           (case h_parse h (cc_payload c) of
              None \<Rightarrow> Inl ZodError
            | Some x \<Rightarrow> Inr (h, x)))"

section \<open>Lemmas\<close>

lemma add_handlers_spec:
  assumes "add_handlers m hs = Inr reg"
  shows "reg = m ++ map_of (map (\<lambda>h. (h_type h, h)) hs) \<and> distinct (map h_type hs)
    \<and> (\<forall>h \<in> set hs. m (h_type h) = None \<and> Ck_idempotency_receipt \<in> set (h_required h))"
  using assms
proof (induction hs arbitrary: m)
  case Nil
  then show ?case by simp
next
  case (Cons h hs)
  then have rest: "add_handlers (m(h_type h \<mapsto> h)) hs = Inr reg" and new: "m (h_type h) = None"
    and req: "Ck_idempotency_receipt \<in> set (h_required h)"
    by (auto split: if_splits)
  have ih: "reg = (m(h_type h \<mapsto> h)) ++ map_of (map (\<lambda>h. (h_type h, h)) hs)"
    "distinct (map h_type hs)"
    "\<forall>g \<in> set hs. (m(h_type h \<mapsto> h)) (h_type g) = None \<and> Ck_idempotency_receipt \<in> set (h_required g)"
    using Cons.IH [OF rest] by blast+
  have fresh: "h_type h \<notin> h_type ` set hs" using ih(3) by (force split: if_splits)
  then have "map_of (map (\<lambda>h. (h_type h, h)) hs) (h_type h) = None"
    by (force simp: map_of_eq_None_iff)
  then have "reg = m ++ map_of (map (\<lambda>h. (h_type h, h)) (h # hs))"
    unfolding ih(1) by - (rule ext, auto simp: map_add_def split: option.splits)
  moreover have "\<forall>g \<in> set (h # hs). m (h_type g) = None \<and> Ck_idempotency_receipt \<in> set (h_required g)"
    using ih(3) new req by (auto split: if_splits)
  moreover have "distinct (map h_type (h # hs))" using ih(2) fresh by simp
  ultimately show ?case by blast
qed

lemma registry_handler:
  assumes "commandRegistry hs = Inr reg" and "reg ty = Some h"
  shows "h \<in> set hs \<and> h_type h = ty \<and> Ck_idempotency_receipt \<in> set (h_required h)"
proof -
  have spec: "reg = map_of (map (\<lambda>h. (h_type h, h)) hs)"
    "\<forall>h \<in> set hs. Ck_idempotency_receipt \<in> set (h_required h)"
    using add_handlers_spec [of Map.empty hs reg] assms(1) by (simp_all add: commandRegistry_def)
  have "(ty, h) \<in> set (map (\<lambda>h. (h_type h, h)) hs)"
    using assms(2) spec(1) by (auto dest: map_of_SomeD)
  with spec(2) show ?thesis by auto
qed

lemma prepare_Inr:
  assumes "prepare reg c = Inr (h, x)"
  shows "reg (cc_type c) = Some h" and "h_parse h (cc_payload c) = Some x"
    and "h_schema h = cc_schema c"
    and "h_confirmation h = Confirm_required \<Longrightarrow> cc_confirmation c \<noteq> None"
    and "h_confirmation h = Confirm_forbidden \<Longrightarrow> cc_confirmation c = None"
  using assms
  by (auto simp: prepare_def split: option.splits if_splits intro: schema_identity.equality)

end
