(* ===== verification/Artifacts.thy ===== *)
theory Artifacts
  imports VerificationLedger
begin

text \<open>
  Content-addressed artifacts: the store of packages/runtime/src/artifacts/artifact-store.ts on
  top of the repository interface it declares, and the PostgreSQL repository of
  database/src/repositories/operations/artifacts.ts that provides it.

  The interface is the locale \<open>artifact_repository\<close>; the store's guarantees are proved in it
  once, and its interpretation on the PostgreSQL model discharges the laws.
\<close>

section \<open>The store\<close>

record 's artifact_repo =
  ap_insert :: "artifact \<Rightarrow> string \<Rightarrow> ('s, exn, unit) io"
  ap_find_by_id :: "string \<Rightarrow> ('s, exn, artifact option) io"
  ap_find_by_task_and_hash :: "string \<Rightarrow> string \<Rightarrow> string \<Rightarrow> ('s, exn, artifact option) io"

record create_artifact =
  ca_household :: string
  ca_task :: string
  ca_type :: artifact_type
  ca_schema :: schema_identity
  ca_payload :: json
  ca_now :: "nat option"
  ca_id :: "string option"

text \<open>\<open>ulid\<close> and \<open>clock\<close> stand for \<open>ulid()\<close> and \<open>new Date()\<close>.\<close>

definition createArtifactEnvelope ::
  "hashing \<Rightarrow> ('s, exn, string) io \<Rightarrow> ('s, exn, nat) io \<Rightarrow> create_artifact \<Rightarrow> ('s, exn, artifact) io" where
  "createArtifactEnvelope h ulid clock i =
    bindM (case ca_id i of
        None \<Rightarrow> bindM ulid (\<lambda>u. ret (''artifact_'' @ u))
      | Some aid \<Rightarrow> ret aid) (\<lambda>aid.
    bindM (case ca_now i of None \<Rightarrow> clock | Some t \<Rightarrow> ret t) (\<lambda>now.
    let a = \<lparr>ar_id = aid, ar_household = ca_household i, ar_task = ca_task i,
             ar_type = ca_type i, ar_schema = ca_schema i,
             ar_hash = hashArtifact h (ca_payload i), ar_payload = ca_payload i,
             ar_created = now\<rparr>
    in bindM (requireM (ArtifactEnvelopeSchemaV1 a) ZodError) (\<lambda>_. ret a)))"

definition isDuplicateArtifactHash :: "exn \<Rightarrow> bool" where
  "isDuplicateArtifactHash e =
    (case e of
       PgFailure p \<Rightarrow> pg_code p = Some ''23505''
         \<and> pg_constraint p = Some ''artifacts_household_task_hash_unique''
     | _ \<Rightarrow> False)"

definition save :: "hashing \<Rightarrow> 's artifact_repo \<Rightarrow> artifact \<Rightarrow> ('s, exn, artifact) io" where
  "save h repo a =
    bindM (requireM (ArtifactEnvelopeSchemaV1 a) ZodError) (\<lambda>_.
    bindM (requireM (hashArtifact h (ar_payload a) = ar_hash a)
      (plusOne Validation_rejected ''artifact_hash_mismatch'' Never False)) (\<lambda>_.
    catchM
      (bindM (ap_insert repo a (canonicalizeJson h (ar_payload a))) (\<lambda>_. ret a))
      (\<lambda>e.
        if \<not> isDuplicateArtifactHash e then raise e
        else bindM (ap_find_by_task_and_hash repo (ar_household a) (ar_task a) (ar_hash a))
          (\<lambda>existing. case existing of Some b \<Rightarrow> ret b | None \<Rightarrow> raise e))))"

definition getVerified :: "hashing \<Rightarrow> 's artifact_repo \<Rightarrow> string \<Rightarrow> ('s, exn, artifact) io" where
  "getVerified h repo aid =
    bindM (ap_find_by_id repo aid) (\<lambda>found.
      case found of
        None \<Rightarrow> raise (plusOne Validation_rejected ''artifact_not_found'' Never False)
      | Some a \<Rightarrow>
          bindM (requireM (ArtifactEnvelopeSchemaV1 a) ZodError) (\<lambda>_.
          bindM (requireM (hashArtifact h (ar_payload a) = ar_hash a)
            (plusOne Constraint_violation ''artifact_hash_mismatch'' Never False)) (\<lambda>_. ret a)))"

section \<open>The interface\<close>

text \<open>
  What the store relies on, for a state that satisfies \<open>ready\<close>: \<open>stored\<close> is the set of artifacts
  the repository holds. An insertion that throws may still have happened.
\<close>

locale artifact_repository =
  fixes repo :: "'s artifact_repo"
    and stored :: "'s \<Rightarrow> artifact set"
    and ready :: "'s \<Rightarrow> bool"
  assumes insert_law: "ready s \<Longrightarrow>
      wp (ap_insert repo a c)
        (\<lambda>_ s'. ready s' \<and> stored s' = insert a (stored s))
        (\<lambda>e s'. ready s' \<and> (stored s' = stored s \<or> stored s' = insert a (stored s))) s"
    and find_by_id_law: "ready s \<Longrightarrow>
      wp (ap_find_by_id repo aid)
        (\<lambda>r s'. ready s' \<and> stored s' = stored s \<and>
           (case r of None \<Rightarrow> \<forall>a \<in> stored s. ar_id a \<noteq> aid
            | Some a \<Rightarrow> a \<in> stored s \<and> ar_id a = aid))
        (\<lambda>e s'. ready s' \<and> stored s' = stored s) s"
    and find_by_hash_law: "ready s \<Longrightarrow>
      wp (ap_find_by_task_and_hash repo hh task hash)
        (\<lambda>r s'. ready s' \<and> stored s' = stored s \<and>
           (case r of None \<Rightarrow> True
            | Some a \<Rightarrow> a \<in> stored s \<and> ar_household a = hh \<and> ar_task a = task \<and> ar_hash a = hash))
        (\<lambda>e s'. ready s' \<and> stored s' = stored s) s"
begin

text \<open>
  Saving answers with a stored artifact of the same content; it never removes an artifact, and
  adds none but its argument.
\<close>

lemma save_spec:
  assumes "ready s"
  shows "wp (save h repo a)
    (\<lambda>b s'. ready s' \<and> b \<in> stored s' \<and> ar_household b = ar_household a \<and> ar_task b = ar_task a
       \<and> ar_hash b = ar_hash a \<and> hashArtifact h (ar_payload a) = ar_hash a
       \<and> (stored s' = stored s \<or> stored s' = insert a (stored s)))
    (\<lambda>e s'. ready s' \<and> (stored s' = stored s \<or> stored s' = insert a (stored s))) s"
  unfolding save_def
  apply (simp add: wp_simps assms, intro impI)
  apply (rule wp_mono [OF insert_law [OF assms]])
   apply (simp add: wp_simps)
  apply (simp add: wp_simps, intro impI)
  apply (rule wp_mono [OF find_by_hash_law], simp)
   apply (auto simp: wp_simps split: option.splits)
  done

lemma getVerified_spec:
  assumes "ready s"
  shows "wp (getVerified h repo aid)
    (\<lambda>b s'. ready s' \<and> stored s' = stored s \<and> b \<in> stored s \<and> ar_id b = aid
       \<and> hashArtifact h (ar_payload b) = ar_hash b)
    (\<lambda>e s'. ready s' \<and> stored s' = stored s) s"
  unfolding getVerified_def
  apply (simp add: wp_simps)
  apply (rule wp_mono [OF find_by_id_law [OF assms]])
   apply (auto simp: wp_simps split: option.splits)
  done

end

section \<open>The PostgreSQL repository\<close>

definition artifact_rows :: "'d opsdb \<Rightarrow> artifact list" where
  "artifact_rows db = map af_artifact (artifacts db)"

definition sql_insert_artifact :: "artifact \<Rightarrow> string \<Rightarrow> ('d opsdb, nat) statement" where
  "sql_insert_artifact a c now db =
    (if ar_household a \<notin> set (households db) then Inr (0, db)
     else guarded
       [(\<forall>b \<in> set (artifact_rows db). ar_id b \<noteq> ar_id a,
           unique_violation ''artifacts_public_id_unique''),
        (\<forall>b \<in> set (artifact_rows db). \<not> (ar_household b = ar_household a
            \<and> ar_task b = ar_task a \<and> ar_hash b = ar_hash a),
           unique_violation ''artifacts_household_task_hash_unique''),
        (find_task_row (ar_household a) (ar_task a) db \<noteq> None,
           foreign_key_violation ''artifacts_task_fk'')]
       (1, db\<lparr>artifacts := artifacts db @ [\<lparr>af_artifact = a, af_canonical = c\<rparr>]\<rparr>))"

definition insertArtifact :: "artifact \<Rightarrow> string \<Rightarrow> ('d opsdb, unit) dbm" where
  "insertArtifact a c =
    bindM (requireM (ArtifactEnvelopeSchemaV1 a) ZodError) (\<lambda>_.
    bindM (pool_query (sql_insert_artifact a c)) (\<lambda>n.
      requireM (n = 1)
        (plusOne Validation_rejected ''artifact_household_not_found'' Never False)))"

definition findWhere :: "(artifact \<Rightarrow> bool) \<Rightarrow> ('d opsdb, artifact option) dbm" where
  "findWhere p =
    bindM (pool_query (read_only (\<lambda>db. find p (artifact_rows db)))) (\<lambda>row.
      case row of
        None \<Rightarrow> ret None
      | Some a \<Rightarrow> bindM (requireM (ArtifactEnvelopeSchemaV1 a) ZodError) (\<lambda>_. ret (Some a)))"

definition findById :: "string \<Rightarrow> ('d opsdb, artifact option) dbm" where
  "findById aid = bindM (requireId Id_artifact aid) (\<lambda>_. findWhere (\<lambda>a. ar_id a = aid))"

definition findByTaskAndHash ::
  "string \<Rightarrow> string \<Rightarrow> string \<Rightarrow> ('d opsdb, artifact option) dbm" where
  "findByTaskAndHash hh task hash =
    findWhere (\<lambda>a. ar_household a = hh \<and> ar_task a = task \<and> ar_hash a = hash)"

definition postgres_artifacts :: "'d opsdb world artifact_repo" where
  "postgres_artifacts =
    \<lparr>ap_insert = insertArtifact, ap_find_by_id = findById,
     ap_find_by_task_and_hash = findByTaskAndHash\<rparr>"

definition stored_artifacts :: "'d opsdb world \<Rightarrow> artifact set" where
  "stored_artifacts w = set (artifact_rows (wdb w))"

definition no_transaction :: "'db world \<Rightarrow> bool" where
  "no_transaction w \<longleftrightarrow> txn w = None"

lemma artifact_rows_insert [simp]:
  "artifact_rows (db\<lparr>artifacts := artifacts db @ [\<lparr>af_artifact = a, af_canonical = c\<rparr>]\<rparr>) =
   artifact_rows db @ [a]"
  by (simp add: artifact_rows_def)

lemma findWhere_dwp:
  "dwp (findWhere p)
    (\<lambda>r d'. d' = d \<and> (case r of None \<Rightarrow> \<forall>a \<in> set (artifact_rows d). \<not> p a
        | Some a \<Rightarrow> a \<in> set (artifact_rows d) \<and> p a \<and> ArtifactEnvelopeSchemaV1 a))
    (\<lambda>e d'. d' = d) d"
  unfolding findWhere_def
  by (intro dwp_rules)
    (auto simp: find_None_iff2 dest: find_SomeD split: option.splits)

lemma insertArtifact_dwp:
  "dwp (insertArtifact a c)
    (\<lambda>_ d'. d' = d\<lparr>artifacts := artifacts d @ [\<lparr>af_artifact = a, af_canonical = c\<rparr>]\<rparr>)
    (\<lambda>e d'. d' = d \<or>
       d' = d\<lparr>artifacts := artifacts d @ [\<lparr>af_artifact = a, af_canonical = c\<rparr>]\<rparr>) d"
  unfolding insertArtifact_def
  by (intro dwp_rules) (auto simp: sql_insert_artifact_def split: if_splits)

lemma stored_insert:
  "stored_artifacts (w :: 'd opsdb world) = insert a (stored_artifacts v)"
  if "wdb w = (wdb v)\<lparr>artifacts := artifacts (wdb v) @ [\<lparr>af_artifact = a, af_canonical = c\<rparr>]\<rparr>"
  using that by (simp add: stored_artifacts_def)

interpretation pg: artifact_repository postgres_artifacts stored_artifacts no_transaction
proof
  fix s :: "'d opsdb world" and a c
  assume s: "no_transaction s"
  show "wp (ap_insert postgres_artifacts a c)
        (\<lambda>_ s'. no_transaction s' \<and> stored_artifacts s' = insert a (stored_artifacts s))
        (\<lambda>e s'. no_transaction s' \<and> (stored_artifacts s' = stored_artifacts s \<or>
           stored_artifacts s' = insert a (stored_artifacts s))) s"
    unfolding postgres_artifacts_def artifact_repo.simps
    by (rule wp_mono [OF dwpD [OF insertArtifact_dwp]])
      (use s in \<open>auto simp: no_transaction_def stored_insert\<close>,
       auto simp: stored_artifacts_def)
next
  fix s :: "'d opsdb world" and aid
  assume s: "no_transaction s"
  show "wp (ap_find_by_id postgres_artifacts aid)
        (\<lambda>r s'. no_transaction s' \<and> stored_artifacts s' = stored_artifacts s \<and>
           (case r of None \<Rightarrow> \<forall>a \<in> stored_artifacts s. ar_id a \<noteq> aid
            | Some a \<Rightarrow> a \<in> stored_artifacts s \<and> ar_id a = aid))
        (\<lambda>e s'. no_transaction s' \<and> stored_artifacts s' = stored_artifacts s) s"
    unfolding postgres_artifacts_def artifact_repo.simps findById_def requireId_def wp_bindM
      wp_requireM
    using s
    by (auto simp: no_transaction_def stored_artifacts_def split: option.splits
        intro!: wp_mono [OF dwpD [OF findWhere_dwp]])
next
  fix s :: "'d opsdb world" and hh task hash
  assume s: "no_transaction s"
  show "wp (ap_find_by_task_and_hash postgres_artifacts hh task hash)
        (\<lambda>r s'. no_transaction s' \<and> stored_artifacts s' = stored_artifacts s \<and>
           (case r of None \<Rightarrow> True
            | Some a \<Rightarrow> a \<in> stored_artifacts s \<and> ar_household a = hh \<and> ar_task a = task
                \<and> ar_hash a = hash))
        (\<lambda>e s'. no_transaction s' \<and> stored_artifacts s' = stored_artifacts s) s"
    unfolding postgres_artifacts_def artifact_repo.simps findByTaskAndHash_def
    using s
    by (auto simp: no_transaction_def stored_artifacts_def split: option.splits
        intro!: wp_mono [OF dwpD [OF findWhere_dwp]])
qed

section \<open>Content addressing\<close>

definition content_key :: "artifact \<Rightarrow> string \<times> string \<times> string" where
  "content_key a = (ar_household a, ar_task a, ar_hash a)"

definition artifacts_unique :: "'d opsdb \<Rightarrow> bool" where
  "artifacts_unique db \<longleftrightarrow>
     unique_on ar_id (artifact_rows db) \<and> unique_on content_key (artifact_rows db)"

lemma artifacts_unique_insert:
  assumes "artifacts_unique db" and "\<forall>b \<in> set (artifact_rows db). ar_id b \<noteq> ar_id a"
    and "\<forall>b \<in> set (artifact_rows db). ar_household b = ar_household a \<longrightarrow>
       ar_task b = ar_task a \<longrightarrow> ar_hash b \<noteq> ar_hash a"
  shows "artifacts_unique (db\<lparr>artifacts := artifacts db @ [\<lparr>af_artifact = a, af_canonical = c\<rparr>]\<rparr>)"
proof -
  have "ar_id a \<notin> ar_id ` set (artifact_rows db)" using assms(2) by (auto simp: eq_commute)
  moreover have "content_key a \<notin> content_key ` set (artifact_rows db)"
    using assms(3) by (auto simp: content_key_def)
  ultimately show ?thesis
    using assms(1) by (simp add: artifacts_unique_def unique_on_append)
qed

lemma insertArtifact_unique:
  "keeps (db_moves (preserves artifacts_unique)) (insertArtifact a c)"
  unfolding insertArtifact_def
  by (intro preserved.keeps_pool statement_alongI)
    (auto simp: preserves_def sql_insert_artifact_def intro: artifacts_unique_insert split: if_splits)

lemma findWhere_unique: "keeps (db_moves (preserves artifacts_unique)) (findWhere p)"
  by (rule keeps_dwp, rule dwp_mono [OF findWhere_dwp]) (auto simp: preserves_def)

lemma save_unique: "keeps (db_moves (preserves artifacts_unique)) (save h postgres_artifacts a)"
  unfolding save_def postgres_artifacts_def artifact_repo.simps findByTaskAndHash_def
  by (intro preserved.pool.keeps_rules insertArtifact_unique findWhere_unique)

text \<open>
  Saving an artifact is content addressing. Whatever the database does, when \<open>save\<close>
  answers, the answer is the one stored artifact with the household, task and hash of the
  argument, the payload of the argument has that hash, nothing that was stored is lost and
  at most the argument is new; so saving the same content again gives the same artifact.
\<close>

theorem artifact_save_content_addressed:
  assumes "txn w = None" and "artifacts_unique (wdb w)"
    and "save h postgres_artifacts a w = (Inr b, w')"
  shows "artifacts_unique (wdb w')
    \<and> (\<forall>c \<in> set (artifact_rows (wdb w')). content_key c = content_key a \<longleftrightarrow> c = b)
    \<and> hashArtifact h (ar_payload a) = ar_hash b
    \<and> set (artifact_rows (wdb w)) \<subseteq> set (artifact_rows (wdb w'))
    \<and> set (artifact_rows (wdb w')) \<subseteq> insert a (set (artifact_rows (wdb w)))"
proof -
  have uniq: "artifacts_unique (wdb w')"
    using keeps_preserves [OF save_unique assms(3,1,2)] by simp
  have b: "b \<in> set (artifact_rows (wdb w'))" "content_key b = content_key a"
      "hashArtifact h (ar_payload a) = ar_hash b"
    and stored: "stored_artifacts w' = stored_artifacts w
      \<or> stored_artifacts w' = insert a (stored_artifacts w)"
    using wp_returned [OF assms(3) pg.save_spec] assms(1)
    by (simp_all add: no_transaction_def content_key_def stored_artifacts_def)
  have "c = b" if "c \<in> set (artifact_rows (wdb w'))" "content_key c = content_key a" for c
    using uniq that b(1,2) unfolding artifacts_unique_def by (metis unique_onD)
  with uniq b stored show ?thesis
    unfolding stored_artifacts_def by blast
qed

text \<open>A concrete run: the same payload is saved twice under two identifiers.\<close>

definition sample_hashing :: hashing where
  "sample_hashing = \<lparr>canonicalize = (\<lambda>_. ''x''), sha256 = (\<lambda>_. replicate 64 (CHR ''0''))\<rparr>"

definition sample_artifact :: "string \<Rightarrow> artifact" where
  "sample_artifact suffix =
    \<lparr>ar_id = ''artifact_0000000000000000000000000'' @ suffix, ar_household = sample_hh,
     ar_task = sample_task_id, ar_type = AT_maker_output,
     ar_schema = \<lparr>sch_name = ''maker-artifact'', sch_version = 1\<rparr>,
     ar_hash = replicate 64 (CHR ''0''), ar_payload = JNull, ar_created = 0\<rparr>"

definition saved_world :: "unit opsdb world" where
  "saved_world = snd (save sample_hashing postgres_artifacts (sample_artifact ''1'') created_world)"

lemma saved_world_ok: "txn saved_world = None" "artifacts_unique (wdb saved_world)"
proof -
  have "txn created_world = None" "artifacts (wdb created_world) = []" by code_simp+
  then have "txn created_world = None \<and> artifacts_unique (wdb created_world)"
    by (simp add: artifacts_unique_def artifact_rows_def unique_on_def)
  then show "txn saved_world = None" "artifacts_unique (wdb saved_world)"
    using keeps_preserves [OF save_unique, of sample_hashing "sample_artifact ''1''" created_world]
    unfolding saved_world_def by (metis prod.collapse)+
qed

theorem artifact_save_content_addressed_witness:
  "\<exists>b w'. save sample_hashing postgres_artifacts (sample_artifact ''2'') saved_world = (Inr b, w')
     \<and> b = sample_artifact ''1''
     \<and> (\<forall>c \<in> set (artifact_rows (wdb w')).
          content_key c = content_key (sample_artifact ''2'') \<longleftrightarrow> c = b)"
proof -
  let ?run = "save sample_hashing postgres_artifacts (sample_artifact ''2'') saved_world"
  have "map_sum (\<lambda>_. ()) ar_id (fst ?run) = Inr (ar_id (sample_artifact ''1''))"
    "artifact_rows (wdb (snd ?run)) = [sample_artifact ''1'']"
    by code_simp+
  then obtain b w' where run: "?run = (Inr b, w')" and id: "ar_id b = ar_id (sample_artifact ''1'')"
    and rows: "artifact_rows (wdb w') = [sample_artifact ''1'']"
    by (cases ?run; cases "fst ?run") auto
  note all = artifact_save_content_addressed [OF saved_world_ok run]
  have "content_key (sample_artifact ''1'') = content_key (sample_artifact ''2'')"
    by (simp add: content_key_def sample_artifact_def)
  with all rows have "b = sample_artifact ''1''" by auto
  with run all show ?thesis by blast
qed



end
