(* ===== verification/RuntimePolicies.thy ===== *)
theory RuntimePolicies
  imports Schemas Decimals
begin

text \<open>
  The registry of runtime policies: packages/runtime/src/runtime-policy.ts. The constructor is
  a fold over the candidate policies that throws on the first bad one; the map of the class is
  an association list.
\<close>

type_synonym model_table = "(string \<times> model_capability list) list"
type_synonym policy_registry = "(string \<times> runtime_policy) list"

definition policy_key :: "policy_identity \<Rightarrow> string" where
  "policy_key p = pi_name p @ ''@'' @ int_string (pi_version p)"

definition missing_capabilities :: "model_table \<Rightarrow> runtime_policy \<Rightarrow> string \<Rightarrow> model_capability list" where
  "missing_capabilities models p m =
    (case map_of models m of
       None \<Rightarrow> rp_capabilities p
     | Some caps \<Rightarrow> filter (\<lambda>c. c \<notin> set caps) (rp_capabilities p))"

definition model_capability_mismatch :: exn where
  "model_capability_mismatch = plusOne Validation_rejected ''model_capability_mismatch'' Never False"

definition add_policy ::
  "model_table \<Rightarrow> policy_registry \<Rightarrow> runtime_policy \<Rightarrow> exn + policy_registry" where
  "add_policy models reg p =
    (if \<not> RuntimePolicySchemaV1 p then Inl ZodError
     else if list_ex (\<lambda>m. missing_capabilities models p m \<noteq> []) (rp_primary p # rp_fallbacks p)
     then Inl model_capability_mismatch
     else if map_of reg (policy_key (rp_identity p)) \<noteq> None
     then Inl (JsError ''Duplicate runtime policy'')
     else Inr (reg @ [(policy_key (rp_identity p), p)]))"

fun RuntimePolicyRegistry ::
  "model_table \<Rightarrow> runtime_policy list \<Rightarrow> policy_registry \<Rightarrow> exn + policy_registry" where
  "RuntimePolicyRegistry models [] reg = Inr reg"
| "RuntimePolicyRegistry models (p # ps) reg =
    (case add_policy models reg p of
       Inl e \<Rightarrow> Inl e
     | Inr reg' \<Rightarrow> RuntimePolicyRegistry models ps reg')"

definition resolve :: "policy_registry \<Rightarrow> policy_identity \<Rightarrow> exn + runtime_policy" where
  "resolve reg p =
    (if \<not> RuntimePolicyIdentitySchemaV1 p then Inl ZodError
     else (case map_of reg (policy_key p) of
        None \<Rightarrow> Inl (plusOne Validation_rejected ''runtime_policy_not_found'' Never False)
      | Some policy \<Rightarrow> Inr policy))"

text \<open>A kebab-case name contains no \<open>@\<close>, so the key determines the identity.\<close>

lemma kebab_no_at: "kebab_name s \<Longrightarrow> CHR ''@'' \<notin> set s"
proof -
  have "\<not> is_lower (CHR ''@'')" "\<not> is_digit (CHR ''@'')" by code_simp+
  then show "kebab_name s \<Longrightarrow> CHR ''@'' \<notin> set s"
    by (auto simp: kebab_name_def list_all_iff split: list.splits)
qed

lemma append_at_inject:
  "CHR ''@'' \<notin> set s \<Longrightarrow> CHR ''@'' \<notin> set t \<Longrightarrow>
   s @ ''@'' @ u = t @ ''@'' @ v \<longleftrightarrow> s = t \<and> u = v"
proof (induction s arbitrary: t)
  case Nil
  then show ?case by (cases t) auto
next
  case (Cons c s)
  then show ?case by (cases t) auto
qed

lemma policy_key_inject:
  assumes "RuntimePolicyIdentitySchemaV1 p" and "RuntimePolicyIdentitySchemaV1 q"
  shows "policy_key p = policy_key q \<longleftrightarrow> p = q"
proof -
  have "policy_key p = policy_key q \<longleftrightarrow> pi_name p = pi_name q \<and> pi_version p = pi_version q"
    unfolding policy_key_def using assms
    by (subst append_at_inject)
      (auto simp: RuntimePolicyIdentitySchemaV1_def kebab_no_at int_string_inject)
  then show ?thesis by (cases p; cases q) auto
qed

definition policy_supported :: "model_table \<Rightarrow> runtime_policy \<Rightarrow> bool" where
  "policy_supported models p \<longleftrightarrow>
     (\<forall>m \<in> set (rp_primary p # rp_fallbacks p). \<exists>caps. map_of models m = Some caps
        \<and> set (rp_capabilities p) \<subseteq> set caps)"

definition registry_ok :: "model_table \<Rightarrow> policy_registry \<Rightarrow> bool" where
  "registry_ok models reg \<longleftrightarrow>
     distinct (map fst reg) \<and>
     (\<forall>(k, p) \<in> set reg. k = policy_key (rp_identity p) \<and> RuntimePolicySchemaV1 p
        \<and> policy_supported models p)"

lemma add_policy_ok:
  assumes "registry_ok models reg" and "add_policy models reg p = Inr reg'"
  shows "registry_ok models reg' \<and> reg' = reg @ [(policy_key (rp_identity p), p)]"
proof -
  from assms(2) have p: "RuntimePolicySchemaV1 p"
    and caps: "\<forall>m \<in> set (rp_primary p # rp_fallbacks p). missing_capabilities models p m = []"
    and new: "map_of reg (policy_key (rp_identity p)) = None"
    and reg': "reg' = reg @ [(policy_key (rp_identity p), p)]"
    by (auto simp: add_policy_def list_ex_iff split: if_splits)
  from p have "rp_capabilities p \<noteq> []" by (simp add: RuntimePolicySchemaV1_def)
  with caps have "policy_supported models p"
    by (fastforce simp: policy_supported_def missing_capabilities_def filter_empty_conv
        split: option.splits)
  with assms(1) p new reg' show ?thesis
    by (auto simp: registry_ok_def map_of_eq_None_iff)
qed

lemma registry_complete:
  assumes "registry_ok models reg" and "RuntimePolicyRegistry models ps reg = Inr out"
  shows "registry_ok models out \<and> map snd out = map snd reg @ ps"
  using assms
proof (induction ps arbitrary: reg)
  case (Cons p ps)
  then obtain reg' where add: "add_policy models reg p = Inr reg'"
    and rest: "RuntimePolicyRegistry models ps reg' = Inr out"
    by (auto split: sum.splits)
  with Cons.IH [OF _ rest] add_policy_ok [OF Cons.prems(1) add] show ?case by auto
qed simp

text \<open>
  The policy registry resolves an identity to the one registered policy with exactly that
  identity, and every policy it can hand out satisfies the policy schema (ordered deadlines
  included) and runs only on models that have all the capabilities it requires; an identity
  that was not registered is refused.
\<close>

theorem policy_registry_resolves:
  assumes "RuntimePolicyRegistry models ps [] = Inr reg" and "RuntimePolicyIdentitySchemaV1 i"
  shows "case resolve reg i of
       Inr p \<Rightarrow> p \<in> set ps \<and> rp_identity p = i \<and> (\<forall>q \<in> set ps. rp_identity q = i \<longleftrightarrow> q = p)
          \<and> RuntimePolicySchemaV1 p \<and> policy_supported models p
     | Inl e \<Rightarrow> e_code e = ''runtime_policy_not_found'' \<and> (\<forall>q \<in> set ps. rp_identity q \<noteq> i)"
proof -
  have ok: "registry_ok models reg" and ps: "map snd reg = ps"
    using registry_complete [OF _ assms(1)] by (auto simp: registry_ok_def)
  have entry: "k = policy_key (rp_identity p) \<and> RuntimePolicySchemaV1 p \<and> policy_supported models p
      \<and> RuntimePolicyIdentitySchemaV1 (rp_identity p)" if "(k, p) \<in> set reg" for k p
    using ok that by (auto simp: registry_ok_def RuntimePolicySchemaV1_def)
  have mem: "p \<in> set ps \<longleftrightarrow> (policy_key (rp_identity p), p) \<in> set reg" for p
    unfolding ps [symmetric] set_map using entry by force
  show ?thesis
  proof (cases "map_of reg (policy_key i)")
    case None
    then have "rp_identity q \<noteq> i" if "q \<in> set ps" for q
      using that mem by (auto simp: map_of_eq_None_iff image_iff)
    with None assms(2) show ?thesis by (simp add: resolve_def)
  next
    case (Some p)
    then have p: "(policy_key i, p) \<in> set reg" by (rule map_of_SomeD)
    with entry [OF p] assms(2) have id: "rp_identity p = i"
      using policy_key_inject [of i "rp_identity p"] by simp
    have uniq: "q = p" if "q \<in> set ps" "rp_identity q = i" for q
    proof -
      from that mem have "(policy_key i, q) \<in> set reg" by auto
      with ok have "map_of reg (policy_key i) = Some q" by (simp add: registry_ok_def)
      with Some show ?thesis by simp
    qed
    have "resolve reg i = Inr p" using Some assms(2) by (simp add: resolve_def)
    moreover have "p \<in> set ps" using mem [of p] p id by simp
    moreover have "\<forall>q \<in> set ps. rp_identity q = i \<longleftrightarrow> q = p" using uniq id by blast
    ultimately show ?thesis using entry [OF p] id by simp
  qed
qed

definition sample_policy :: runtime_policy where
  "sample_policy =
    \<lparr>rp_identity = \<lparr>pi_name = ''maker'', pi_version = 12\<rparr>,
     rp_capabilities = [Cap_structured_output], rp_primary = ''model-a'', rp_fallbacks = [''model-b''],
     rp_max_model_steps = 4, rp_max_tool_concurrency = 1, rp_max_attempts = 2,
     rp_max_model_request_retries = 0, rp_max_processor_retries = 1, rp_max_sandbox = 0,
     rp_call_deadline = 1000, rp_team_deadline = 2000, rp_end_deadline = 3000,
     rp_max_output_bytes = 4096\<rparr>"

definition sample_models :: model_table where
  "sample_models = [(''model-a'', [Cap_structured_output, Cap_vision]),
     (''model-b'', [Cap_structured_output])]"

theorem policy_registry_resolves_witness:
  "case resolve [(''maker@12'', sample_policy)] \<lparr>pi_name = ''maker'', pi_version = 12\<rparr> of
     Inr p \<Rightarrow> p \<in> set [sample_policy] \<and> rp_identity p = \<lparr>pi_name = ''maker'', pi_version = 12\<rparr>
       \<and> (\<forall>q \<in> set [sample_policy]. rp_identity q = \<lparr>pi_name = ''maker'', pi_version = 12\<rparr> \<longleftrightarrow> q = p)
       \<and> RuntimePolicySchemaV1 p \<and> policy_supported sample_models p
   | Inl e \<Rightarrow> e_code e = ''runtime_policy_not_found''
       \<and> (\<forall>q \<in> set [sample_policy]. rp_identity q \<noteq> \<lparr>pi_name = ''maker'', pi_version = 12\<rparr>)"
proof (rule policy_registry_resolves)
  have "add_policy sample_models [] sample_policy = Inr [(''maker@12'', sample_policy)]"
  proof -
    have "RuntimePolicySchemaV1 sample_policy"
      "list_ex (\<lambda>m. missing_capabilities sample_models sample_policy m \<noteq> [])
        (rp_primary sample_policy # rp_fallbacks sample_policy) = False"
      "policy_key (rp_identity sample_policy) = ''maker@12''"
      by code_simp+
    then show ?thesis by (simp add: add_policy_def)
  qed
  then show "RuntimePolicyRegistry sample_models [sample_policy] [] = Inr [(''maker@12'', sample_policy)]"
    by simp
  show "RuntimePolicyIdentitySchemaV1 \<lparr>pi_name = ''maker'', pi_version = 12\<rparr>" by code_simp
qed

end
