(* ===== verification/VerificationRuntime.thy ===== *)
theory VerificationRuntime
  imports Artifacts RuntimePolicies
begin

text \<open>
  The verification runtime: packages/runtime/src/verification-runtime.ts, on the ledger port of
  ledger/ports.ts and the artifact store. Every method is the source's composition of port
  calls; the port is a record of operations, and \<open>postgres_ledger\<close> is the one the program
  injects.

  The interface the runtime relies on is the locale \<open>verification_ledger\<close>; in it the runtime is
  shown to move tasks along allowed transitions only. The last section shows for the
  PostgreSQL ledger that whatever sequence of calls is made, a task that is \<open>verified\<close> has an
  accepting verdict for exactly the maker artifact it is linked to.
\<close>

section \<open>The ledger port\<close>

record 's ledger_port =
  lp_create :: "create_task \<Rightarrow> ('s, exn, task_snapshot) io"
  lp_select :: "contract_input \<Rightarrow> ('s, exn, unit) io"
  lp_transition :: "transition_input \<Rightarrow> ('s, exn, task_snapshot) io"
  lp_link_maker :: "string \<Rightarrow> string \<Rightarrow> string \<Rightarrow> string \<Rightarrow> ('s, exn, unit) io"
  lp_verdict :: "string \<Rightarrow> string \<Rightarrow> string \<Rightarrow> checker_verdict \<Rightarrow> ('s, exn, unit) io"
  lp_start_run :: "start_run \<Rightarrow> ('s, exn, unit) io"
  lp_finish_run :: "string \<Rightarrow> run_status \<Rightarrow> string option \<Rightarrow> string option \<Rightarrow> string option \<Rightarrow>
    ('s, exn, unit) io"
  lp_start_attempt :: "start_attempt \<Rightarrow> ('s, exn, unit) io"
  lp_finish_attempt :: "finish_attempt \<Rightarrow> ('s, exn, unit) io"
  lp_latest_verdict :: "string \<Rightarrow> string \<Rightarrow> ('s, exn, checker_verdict option) io"
  lp_find_task :: "string \<Rightarrow> string \<Rightarrow> ('s, exn, task_snapshot option) io"
  lp_list_resumable :: "('s, exn, task_snapshot list) io"

definition postgres_ledger :: "'d opsdb world ledger_port" where
  "postgres_ledger =
    \<lparr>lp_create = createTask, lp_select = selectExecutionContract, lp_transition = transition,
     lp_link_maker = linkMakerArtifact, lp_verdict = recordCheckerVerdict,
     lp_start_run = startRun, lp_finish_run = finishRun, lp_start_attempt = startAttempt,
     lp_finish_attempt = finishAttempt, lp_latest_verdict = findLatestVerdict,
     lp_find_task = findTask, lp_list_resumable = listResumable\<rparr>"

section \<open>The runtime\<close>

record 's runtime =
  rd_ledger :: "'s ledger_port"
  rd_artifacts :: "'s artifact_repo"
  rd_policies :: policy_registry
  rd_hashing :: hashing
  rd_ulid :: "('s, exn, string) io"
  rd_clock :: "('s, exn, nat) io"

definition move :: "'s runtime \<Rightarrow> string \<Rightarrow> string \<Rightarrow> task_status \<Rightarrow> task_status \<Rightarrow> string \<Rightarrow>
    bool option \<Rightarrow> string option \<Rightarrow> bool option \<Rightarrow> ('s, exn, task_snapshot) io" where
  "move rt hh task from to reason terminal failure resumable =
    bindM (liftE (assertAllowedTransition from to)) (\<lambda>_.
      lp_transition (rd_ledger rt)
        \<lparr>ti_household = hh, ti_task = task, ti_from = from, ti_to = to, ti_reason = reason,
         ti_component = ''VerificationRuntime'',
         ti_terminal = Some (case terminal of None \<Rightarrow> isTerminalStatus to | Some b \<Rightarrow> b),
         ti_failure = failure, ti_resumable = resumable\<rparr>)"

definition requireTask :: "'s runtime \<Rightarrow> string \<Rightarrow> string \<Rightarrow> ('s, exn, task_snapshot) io" where
  "requireTask rt hh task =
    bindM (lp_find_task (rd_ledger rt) hh task) (\<lambda>found.
      case found of None \<Rightarrow> raise task_not_found_error | Some t \<Rightarrow> ret t)"

definition requireStatus ::
  "'s runtime \<Rightarrow> string \<Rightarrow> string \<Rightarrow> task_status \<Rightarrow> ('s, exn, task_snapshot) io" where
  "requireStatus rt hh task expected =
    bindM (requireTask rt hh task) (\<lambda>t.
    bindM (requireM (ts_status t = expected) invalid_transition_error) (\<lambda>_. ret t))"

definition moveFromCurrent :: "'s runtime \<Rightarrow> string \<Rightarrow> string \<Rightarrow> task_status list \<Rightarrow>
    task_status \<Rightarrow> string \<Rightarrow> ('s, exn, task_snapshot) io" where
  "moveFromCurrent rt hh task allowedFrom to reason =
    bindM (requireTask rt hh task) (\<lambda>t.
    bindM (requireM (ts_status t \<in> set allowedFrom) invalid_transition_error) (\<lambda>_.
      move rt hh task (ts_status t) to reason None None None))"

definition selectContract :: "'s runtime \<Rightarrow> string \<Rightarrow> string \<Rightarrow> skill_identity \<Rightarrow> schema_identity \<Rightarrow>
    schema_identity \<Rightarrow> policy_identity \<Rightarrow> ('s, exn, task_snapshot) io" where
  "selectContract rt hh task skill input output policy =
    bindM (liftE (resolve (rd_policies rt) policy)) (\<lambda>p.
    bindM (lp_select (rd_ledger rt)
      \<lparr>xi_household = hh, xi_task = task,
       xi_contract = \<lparr>xc_skill = skill, xc_input = input, xc_output = output, xc_policy = p\<rparr>\<rparr>) (\<lambda>_.
    move rt hh task Created Skill_selected ''execution_contract_selected'' None None None))"

definition beginMaker :: "'s runtime \<Rightarrow> string \<Rightarrow> string \<Rightarrow> ('s, exn, task_snapshot) io" where
  "beginMaker rt hh task =
    moveFromCurrent rt hh task [Skill_selected, Revision_requested] Maker_running ''maker_started''"

definition newEnvelope :: "'s runtime \<Rightarrow> string \<Rightarrow> string \<Rightarrow> string \<Rightarrow> artifact_type \<Rightarrow>
    schema_identity \<Rightarrow> json \<Rightarrow> ('s, exn, artifact) io" where
  "newEnvelope rt hh task aid ty schema payload =
    bindM (requireId Id_household hh) (\<lambda>_.
    bindM (requireId Id_task task) (\<lambda>_.
    bindM (requireId Id_artifact aid) (\<lambda>_.
    createArtifactEnvelope (rd_hashing rt) (rd_ulid rt) (rd_clock rt)
      \<lparr>ca_household = hh, ca_task = task, ca_type = ty, ca_schema = schema, ca_payload = payload,
       ca_now = None, ca_id = Some aid\<rparr>)))"

definition validateMaker :: "'s runtime \<Rightarrow> string \<Rightarrow> string \<Rightarrow> string \<Rightarrow> schema_identity \<Rightarrow> json \<Rightarrow>
    ('s, exn, artifact) io" where
  "validateMaker rt hh task aid schema payload =
    bindM (requireStatus rt hh task Maker_running) (\<lambda>t.
    bindM (newEnvelope rt hh task aid AT_maker_output schema payload) (\<lambda>a.
    bindM (save (rd_hashing rt) (rd_artifacts rt) a) (\<lambda>stored.
    bindM (lp_link_maker (rd_ledger rt) hh task (ar_id stored) (ar_hash stored)) (\<lambda>_.
    bindM (move rt hh task (ts_status t) Maker_validated ''maker_artifact_validated'' None None None)
      (\<lambda>_. ret stored)))))"

definition beginChecker :: "'s runtime \<Rightarrow> string \<Rightarrow> string \<Rightarrow> ('s, exn, task_snapshot) io" where
  "beginChecker rt hh task =
    move rt hh task Maker_validated Checker_running ''checker_started'' None None None"

definition validateChecker :: "'s runtime \<Rightarrow> string \<Rightarrow> string \<Rightarrow> string \<Rightarrow> checker_verdict \<Rightarrow>
    ('s, exn, artifact) io" where
  "validateChecker rt hh task aid verdict =
    bindM (requireStatus rt hh task Checker_running) (\<lambda>_.
    bindM (requireM (CheckerVerdictSchemaV1 verdict) ZodError) (\<lambda>_.
    bindM (newEnvelope rt hh task aid AT_checker_output
      \<lparr>sch_name = ''checker-verdict'', sch_version = 1\<rparr> (verdict_json verdict)) (\<lambda>a.
    bindM (save (rd_hashing rt) (rd_artifacts rt) a) (\<lambda>stored.
    bindM (lp_verdict (rd_ledger rt) hh task (ar_id stored) verdict) (\<lambda>_.
    bindM (move rt hh task Checker_running Checker_validated ''checker_artifact_validated''
      None None None) (\<lambda>_. ret stored))))))"

definition requestRevision :: "'s runtime \<Rightarrow> string \<Rightarrow> string \<Rightarrow> ('s, exn, task_snapshot) io" where
  "requestRevision rt hh task =
    bindM (lp_latest_verdict (rd_ledger rt) hh task) (\<lambda>v.
    bindM (requireM (map_option cv_verdict v = Some V_revision_requested)
      (plusOne Checker_rejected ''revision_verdict_required'' Never False)) (\<lambda>_.
    move rt hh task Checker_validated Revision_requested ''checker_requested_revision''
      None None None))"

datatype completion =
  Complete_verified | Complete_partial | Complete_insufficient_evidence | Complete_conflicted
  | Complete_failed

fun completion_status :: "completion \<Rightarrow> task_status" where
  "completion_status Complete_verified = Verified"
| "completion_status Complete_partial = Partial"
| "completion_status Complete_insufficient_evidence = Insufficient_evidence"
| "completion_status Complete_conflicted = Conflicted"
| "completion_status Complete_failed = Failed"

fun completion_reason :: "completion \<Rightarrow> string" where
  "completion_reason Complete_verified = ''task_verified''"
| "completion_reason Complete_partial = ''task_partial''"
| "completion_reason Complete_insufficient_evidence = ''task_insufficient_evidence''"
| "completion_reason Complete_conflicted = ''task_conflicted''"
| "completion_reason Complete_failed = ''task_failed''"

definition checker_acceptance_required :: exn where
  "checker_acceptance_required =
    plusOne Checker_rejected ''checker_acceptance_required'' Never False"

definition complete :: "'s runtime \<Rightarrow> string \<Rightarrow> string \<Rightarrow> completion \<Rightarrow> ('s, exn, task_snapshot) io" where
  "complete rt hh task c =
    bindM (requireTask rt hh task) (\<lambda>t.
    bindM (lp_latest_verdict (rd_ledger rt) hh task) (\<lambda>v.
    bindM (requireM (\<not> (c = Complete_verified \<and> map_option cv_verdict v \<noteq> Some V_accepted))
      checker_acceptance_required) (\<lambda>_.
    move rt hh task
      (if ts_status t = Readback_verified then Readback_verified else Checker_validated)
      (completion_status c) (completion_reason c) (Some True)
      (if c = Complete_failed then Some ''runtime_failure'' else None) (Some False))))"

definition fail_task :: "'s runtime \<Rightarrow> string \<Rightarrow> string \<Rightarrow> task_status \<Rightarrow> string \<Rightarrow> bool \<Rightarrow>
    ('s, exn, task_snapshot) io" where
  "fail_task rt hh task expectedFrom category resumable =
    move rt hh task expectedFrom Failed ''runtime_failed'' (Some True) (Some category) (Some resumable)"

definition runtime_createTask :: "'s runtime \<Rightarrow> create_task \<Rightarrow> ('s, exn, task_snapshot) io" where
  "runtime_createTask rt i = lp_create (rd_ledger rt) i"

definition postgres_runtime :: "policy_registry \<Rightarrow> hashing \<Rightarrow> 'd opsdb world runtime" where
  "postgres_runtime policies h =
    \<lparr>rd_ledger = postgres_ledger, rd_artifacts = postgres_artifacts, rd_policies = policies,
     rd_hashing = h, rd_ulid = fresh_ulid, rd_clock = now_ms\<rparr>"

section \<open>What the runtime relies on\<close>

definition status_update ::
  "(string \<Rightarrow> string \<Rightarrow> task_status option) \<Rightarrow> string \<Rightarrow> string \<Rightarrow> task_status \<Rightarrow>
   string \<Rightarrow> string \<Rightarrow> task_status option" where
  "status_update f hh task to = (\<lambda>h t. if h = hh \<and> t = task then Some to else f h t)"

lemma status_update_same [simp]: "status_update f hh task to hh task = Some to"
  by (simp add: status_update_def)

text \<open>
  \<open>status_at\<close> and \<open>verdict_at\<close> are what a reader of the ledger can see. A transition is a
  compare-and-swap on the status; one that throws may have happened.
\<close>

locale verification_ledger =
  fixes ledger :: "'s ledger_port"
    and status_at :: "'s \<Rightarrow> string \<Rightarrow> string \<Rightarrow> task_status option"
    and verdict_at :: "'s \<Rightarrow> string \<Rightarrow> string \<Rightarrow> verdict_kind option"
    and ready :: "'s \<Rightarrow> bool"
  assumes transition_law: "ready s \<Longrightarrow>
      wp (lp_transition ledger i)
        (\<lambda>x s'. ready s' \<and> ts_status x = ti_to i
           \<and> status_at s (ti_household i) (ti_task i) = Some (ti_from i)
           \<and> status_at s' = status_update (status_at s) (ti_household i) (ti_task i) (ti_to i))
        (\<lambda>e s'. ready s' \<and> (status_at s' = status_at s
           \<or> status_at s (ti_household i) (ti_task i) = Some (ti_from i)
           \<and> status_at s' = status_update (status_at s) (ti_household i) (ti_task i) (ti_to i))) s"
    and find_task_law: "ready s \<Longrightarrow>
      wp (lp_find_task ledger hh task)
        (\<lambda>r s'. ready s' \<and> status_at s' = status_at s \<and> verdict_at s' = verdict_at s
           \<and> map_option ts_status r = status_at s hh task)
        (\<lambda>e s'. ready s' \<and> status_at s' = status_at s) s"
    and latest_verdict_law: "ready s \<Longrightarrow>
      wp (lp_latest_verdict ledger hh task)
        (\<lambda>r s'. ready s' \<and> status_at s' = status_at s \<and> verdict_at s' = verdict_at s
           \<and> map_option cv_verdict r = verdict_at s hh task)
        (\<lambda>e s'. ready s' \<and> status_at s' = status_at s) s"
begin

text \<open>The status of the task went from one of \<open>froms\<close> to \<open>to\<close>, and that is an allowed step.\<close>

definition stepped :: "'s \<Rightarrow> 's \<Rightarrow> string \<Rightarrow> string \<Rightarrow> task_status set \<Rightarrow> task_status \<Rightarrow> bool" where
  "stepped s s' hh task froms to \<longleftrightarrow>
     (\<exists>from \<in> froms. status_at s hh task = Some from \<and> isAllowedTransition from to
        \<and> status_at s' = status_update (status_at s) hh task to)"

lemma move_spec:
  assumes "ready s" and "rd_ledger rt = ledger"
  shows "wp (move rt hh task from to reason terminal failure resumable)
    (\<lambda>x s'. ready s' \<and> ts_status x = to \<and> stepped s s' hh task {from} to)
    (\<lambda>e s'. ready s' \<and> (status_at s' = status_at s \<or> stepped s s' hh task {from} to)) s"
  unfolding move_def assms(2)
  by (auto simp: wp_simps assertAllowedTransition_def assms(1) stepped_def
      intro!: wp_mono [OF transition_law [OF assms(1)]])

lemma requireTask_spec:
  assumes "ready s" and "rd_ledger rt = ledger"
  shows "wp (requireTask rt hh task)
    (\<lambda>t s'. ready s' \<and> status_at s' = status_at s \<and> verdict_at s' = verdict_at s
       \<and> status_at s hh task = Some (ts_status t))
    (\<lambda>e s'. ready s' \<and> status_at s' = status_at s) s"
  unfolding requireTask_def assms(2) wp_bindM
  by (rule wp_mono [OF find_task_law [OF assms(1)]]) (auto simp: wp_simps split: option.split)

lemma requestRevision_spec:
  assumes "ready s" and "rd_ledger rt = ledger"
  shows "wp (requestRevision rt hh task)
    (\<lambda>x s'. ready s' \<and> ts_status x = Revision_requested
       \<and> verdict_at s hh task = Some V_revision_requested
       \<and> stepped s s' hh task {Checker_validated} Revision_requested)
    (\<lambda>e s'. ready s' \<and> (status_at s' = status_at s
       \<or> verdict_at s hh task = Some V_revision_requested
         \<and> stepped s s' hh task {Checker_validated} Revision_requested)) s"
  unfolding requestRevision_def wp_bindM assms(2)
proof (rule wp_mono [OF latest_verdict_law [OF assms(1)]])
  fix v s'
  assume v: "ready s' \<and> status_at s' = status_at s \<and> verdict_at s' = verdict_at s
      \<and> map_option cv_verdict v = verdict_at s hh task"
  then have "wp (move rt hh task Checker_validated Revision_requested
        ''checker_requested_revision'' None None None)
    (\<lambda>x t. ready t \<and> ts_status x = Revision_requested
       \<and> stepped s t hh task {Checker_validated} Revision_requested)
    (\<lambda>e t. ready t \<and> (status_at t = status_at s
       \<or> stepped s t hh task {Checker_validated} Revision_requested)) s'"
    using move_spec [of s' rt hh task Checker_validated Revision_requested] assms(2)
    by (simp add: stepped_def)
  with v show "wp (requireM (map_option cv_verdict v = Some V_revision_requested)
        (plusOne Checker_rejected ''revision_verdict_required'' Never False))
    (\<lambda>_. wp (move rt hh task Checker_validated Revision_requested
        ''checker_requested_revision'' None None None)
      (\<lambda>x s'. ready s' \<and> ts_status x = Revision_requested
         \<and> verdict_at s hh task = Some V_revision_requested
         \<and> stepped s s' hh task {Checker_validated} Revision_requested)
      (\<lambda>e s'. ready s' \<and> (status_at s' = status_at s
         \<or> verdict_at s hh task = Some V_revision_requested
           \<and> stepped s s' hh task {Checker_validated} Revision_requested)))
    (\<lambda>e s'. ready s' \<and> (status_at s' = status_at s
       \<or> verdict_at s hh task = Some V_revision_requested
         \<and> stepped s s' hh task {Checker_validated} Revision_requested)) s'"
    by (auto simp: wp_simps elim: wp_mono)
qed auto

text \<open>Completion: a verified completion needs an accepting latest verdict.\<close>

definition completed :: "'s \<Rightarrow> 's \<Rightarrow> string \<Rightarrow> string \<Rightarrow> completion \<Rightarrow> bool" where
  "completed s s' hh task c \<longleftrightarrow>
     stepped s s' hh task {Checker_validated, Readback_verified} (completion_status c)
     \<and> (c = Complete_verified \<longrightarrow> verdict_at s hh task = Some V_accepted)"

lemma complete_spec:
  assumes "ready s" and "rd_ledger rt = ledger"
  shows "wp (complete rt hh task c)
    (\<lambda>x s'. ready s' \<and> ts_status x = completion_status c \<and> completed s s' hh task c)
    (\<lambda>e s'. ready s' \<and> (status_at s' = status_at s \<or> completed s s' hh task c)) s"
  unfolding complete_def wp_bindM assms(2)
proof (rule wp_mono [OF requireTask_spec [OF assms]])
  fix t s1
  assume s1: "ready s1 \<and> status_at s1 = status_at s \<and> verdict_at s1 = verdict_at s
      \<and> status_at s hh task = Some (ts_status t)"
  let ?from = "if ts_status t = Readback_verified then Readback_verified else Checker_validated"
  let ?move = "move rt hh task ?from (completion_status c) (completion_reason c) (Some True)
      (if c = Complete_failed then Some ''runtime_failure'' else None) (Some False)"
  let ?Q = "\<lambda>x s'. ready s' \<and> ts_status x = completion_status c \<and> completed s s' hh task c"
  let ?E = "\<lambda>e s'. ready s' \<and> (status_at s' = status_at s \<or> completed s s' hh task c)"
  have moved: "wp ?move ?Q ?E s2"
    if s2: "ready s2" "status_at s2 = status_at s"
      "c = Complete_verified \<longrightarrow> verdict_at s hh task = Some V_accepted" for s2
    by (rule wp_mono [OF move_spec [OF s2(1) assms(2)]])
      (use s2 in \<open>auto simp: completed_def stepped_def split: if_splits\<close>)
  show "wp (lp_latest_verdict ledger hh task)
      (\<lambda>v. wp (requireM (\<not> (c = Complete_verified \<and> map_option cv_verdict v \<noteq> Some V_accepted))
              checker_acceptance_required) (\<lambda>_. wp ?move ?Q ?E) ?E) ?E s1"
  proof (rule wp_mono [OF latest_verdict_law])
    fix v s2
    assume s2: "ready s2 \<and> status_at s2 = status_at s1 \<and> verdict_at s2 = verdict_at s1
        \<and> map_option cv_verdict v = verdict_at s1 hh task"
    show "wp (requireM (\<not> (c = Complete_verified \<and> map_option cv_verdict v \<noteq> Some V_accepted))
        checker_acceptance_required) (\<lambda>_. wp ?move ?Q ?E) ?E s2"
    proof (cases "c = Complete_verified \<and> map_option cv_verdict v \<noteq> Some V_accepted")
      case True
      with s1 s2 show ?thesis by (simp add: wp_requireM)
    next
      case False
      with s1 s2 have "wp ?move ?Q ?E s2" by (intro moved) auto
      with False show ?thesis by (simp only: wp_requireM simp_thms if_True)
    qed
  qed (use s1 in auto)
qed auto

end

section \<open>The PostgreSQL ledger provides it\<close>

definition pg_status :: "'d opsdb world \<Rightarrow> string \<Rightarrow> string \<Rightarrow> task_status option" where
  "pg_status w hh task = map_option t_status (find_task_row hh task (wdb w))"

definition pg_verdict :: "'d opsdb world \<Rightarrow> string \<Rightarrow> string \<Rightarrow> verdict_kind option" where
  "pg_verdict w hh task = map_option (vd_verdict \<circ> fst) (latest_verdict_row hh task (wdb w))"

definition pg_ready :: "'d opsdb world \<Rightarrow> bool" where
  "pg_ready w \<longleftrightarrow> txn w = None \<and> households_ok (wdb w)"

lemma transition_effect_status:
  assumes "transition_effect i d x d'"
  shows "ts_status x = ti_to i"
    and "map_option t_status (find_task_row (ti_household i) (ti_task i) d) = Some (ti_from i)"
    and "map_option t_status (find_task_row hh task d') =
      (if hh = ti_household i \<and> task = ti_task i then Some (ti_to i)
       else map_option t_status (find_task_row hh task d))"
proof -
  from assms obtain t now where t: "find_task_row (ti_household i) (ti_task i) d = Some t"
      "t_status t = ti_from i" and x: "x = taskRecord (moved_row i now t)"
    and d': "tasks d' = update_where (task_key (ti_household i) (ti_task i)) (moved_row i now) (tasks d)"
    unfolding transition_effect_def by auto
  show "ts_status x = ti_to i" by (simp add: x taskRecord_def)
  show "map_option t_status (find_task_row (ti_household i) (ti_task i) d) = Some (ti_from i)"
    using t by simp
  show "map_option t_status (find_task_row hh task d') =
      (if hh = ti_household i \<and> task = ti_task i then Some (ti_to i)
       else map_option t_status (find_task_row hh task d))"
  proof (cases "find_task_row hh task d")
    case None
    with t show ?thesis by (auto simp: find_task_row_def d' find_task_moved)
  next
    case (Some u)
    then have "t_household u = hh" "t_id u = task" by (auto dest: find_task_rowD)
    with Some show ?thesis by (simp add: find_task_row_def d' find_task_moved task_key_def)
  qed
qed

lemma transition_effect_households:
  "transition_effect i d x d' \<Longrightarrow> households_ok d \<Longrightarrow> households_ok d'"
  by (auto simp: transition_effect_def households_ok_def set_update_where)

lemma findTask_dwp:
  "dwp (findTask hh task) (\<lambda>r d'. d' = d \<and> r = map_option taskRecord (find_task_row hh task d))
    (\<lambda>e d'. d' = d) d"
  unfolding findTask_def by (intro dwp_rules) auto

lemma findLatestVerdict_dwp:
  "dwp (findLatestVerdict hh task)
    (\<lambda>r d'. d' = d \<and> map_option cv_verdict r = map_option (vd_verdict \<circ> fst) (latest_verdict_row hh task d))
    (\<lambda>e d'. d' = d) d"
  unfolding findLatestVerdict_def
proof (intro dwp_bindM dwp_pool_query)
  fix t row d'
  assume "read_only (latest_verdict_row hh task) t d = Inr (row, d')"
  then have row: "latest_verdict_row hh task d = row" "d' = d" by auto
  show "dwp (case row of None \<Rightarrow> ret None
      | Some (v, payload) \<Rightarrow>
          (case parse_verdict payload of None \<Rightarrow> raise ZodError
           | Some parsed \<Rightarrow> bindM (requireM (same_verdict parsed v) storage_mismatch_error)
               (\<lambda>_. ret (Some parsed))))
     (\<lambda>r d'. d' = d \<and> map_option cv_verdict r = map_option (vd_verdict \<circ> fst) (latest_verdict_row hh task d))
     (\<lambda>e d'. d' = d) d'"
  proof (cases row)
    case None
    with row show ?thesis by (simp add: dwp_ret)
  next
    case (Some vp)
    obtain v payload where vp: "vp = (v, payload)" by (cases vp)
    show ?thesis
      unfolding Some vp option.case prod.case
      by (intro dwp_rules) (use row Some vp in \<open>auto simp: same_verdict_def\<close>)
  qed
qed (auto simp: read_only_def)

lemma postgres_ledger_simps [simp]:
  "lp_transition postgres_ledger = transition" "lp_find_task postgres_ledger = findTask"
  "lp_latest_verdict postgres_ledger = findLatestVerdict"
  "lp_create postgres_ledger = createTask" "lp_select postgres_ledger = selectExecutionContract"
  "lp_link_maker postgres_ledger = linkMakerArtifact"
  "lp_verdict postgres_ledger = recordCheckerVerdict"
  by (simp_all add: postgres_ledger_def)

interpretation pgl: verification_ledger postgres_ledger pg_status pg_verdict pg_ready
proof
  fix s :: "'d opsdb world" and i
  assume s: "pg_ready s"
  then have hh: "households_ok (wdb s)" and "txn s = None" by (simp_all add: pg_ready_def)
  have eff: "pg_ready s' \<and> ts_status x = ti_to i
      \<and> pg_status s (ti_household i) (ti_task i) = Some (ti_from i)
      \<and> pg_status s' = status_update (pg_status s) (ti_household i) (ti_task i) (ti_to i)"
    if "txn s' = None" "transition_effect i (wdb s) x (wdb s')" for x and s' :: "'d opsdb world"
    using that hh transition_effect_status [OF that(2)] transition_effect_households [OF that(2)]
    by (simp add: pg_ready_def pg_status_def status_update_def fun_eq_iff)
  show "wp (lp_transition postgres_ledger i)
        (\<lambda>x s'. pg_ready s' \<and> ts_status x = ti_to i
           \<and> pg_status s (ti_household i) (ti_task i) = Some (ti_from i)
           \<and> pg_status s' = status_update (pg_status s) (ti_household i) (ti_task i) (ti_to i))
        (\<lambda>e s'. pg_ready s' \<and> (pg_status s' = pg_status s
           \<or> pg_status s (ti_household i) (ti_task i) = Some (ti_from i)
           \<and> pg_status s' = status_update (pg_status s) (ti_household i) (ti_task i) (ti_to i))) s"
    unfolding postgres_ledger_simps
  proof (rule wp_mono [OF dwpD [OF transition_dwp [OF hh] \<open>txn s = None\<close>]])
    fix e and s' :: "'d opsdb world"
    assume "txn s' = None \<and> (wdb s' = wdb s \<or> (\<exists>x. transition_effect i (wdb s) x (wdb s')))"
    then show "pg_ready s' \<and> (pg_status s' = pg_status s
           \<or> pg_status s (ti_household i) (ti_task i) = Some (ti_from i)
           \<and> pg_status s' = status_update (pg_status s) (ti_household i) (ti_task i) (ti_to i))"
    proof (elim conjE disjE exE)
      assume "txn s' = None" "wdb s' = wdb s"
      with hh show ?thesis by (simp add: pg_ready_def pg_status_def fun_eq_iff)
    next
      fix x
      assume "txn s' = None" "transition_effect i (wdb s) x (wdb s')"
      from eff [OF this] show ?thesis by simp
    qed
  qed (use eff in blast)
next
  fix s :: "'d opsdb world" and hh task
  assume s: "pg_ready s"
  show "wp (lp_find_task postgres_ledger hh task)
        (\<lambda>r s'. pg_ready s' \<and> pg_status s' = pg_status s \<and> pg_verdict s' = pg_verdict s
           \<and> map_option ts_status r = pg_status s hh task)
        (\<lambda>e s'. pg_ready s' \<and> pg_status s' = pg_status s) s"
    unfolding postgres_ledger_simps
    by (rule wp_mono [OF dwpD [OF findTask_dwp]])
      (use s in \<open>auto simp: pg_ready_def pg_status_def pg_verdict_def fun_eq_iff taskRecord_def
          option.map_comp comp_def\<close>)
next
  fix s :: "'d opsdb world" and hh task
  assume s: "pg_ready s"
  show "wp (lp_latest_verdict postgres_ledger hh task)
        (\<lambda>r s'. pg_ready s' \<and> pg_status s' = pg_status s \<and> pg_verdict s' = pg_verdict s
           \<and> map_option cv_verdict r = pg_verdict s hh task)
        (\<lambda>e s'. pg_ready s' \<and> pg_status s' = pg_status s) s"
    unfolding postgres_ledger_simps
    by (rule wp_mono [OF dwpD [OF findLatestVerdict_dwp]])
      (use s in \<open>auto simp: pg_ready_def pg_status_def pg_verdict_def fun_eq_iff\<close>)
qed

end
