(* ===== verification/CheckedWork.thy ===== *)
theory CheckedWork
  imports VerificationRuntime
begin

text \<open>
  What the verification runtime guarantees on the PostgreSQL ledger. The invariant relates each
  task to its verdicts: the newest verdict asks for a revision or covers the maker artifact the
  task is linked to; while the maker may still change its artifact the newest verdict is a
  request for revision; and a verified task has an accepting verdict for its artifact. Every
  method of the runtime preserves it, whatever its arguments and whatever the database does.
\<close>

section \<open>The invariant\<close>

definition task_verdicts :: "string \<Rightarrow> string \<Rightarrow> 'd opsdb \<Rightarrow> verdict_row list" where
  "task_verdicts hh task db = filter (\<lambda>v. vd_household v = hh \<and> vd_task v = task) (verdicts db)"

definition covers :: "task_row \<Rightarrow> verdict_row \<Rightarrow> bool" where
  "covers t v \<longleftrightarrow> t_maker t = Some (vd_covered v) \<and> t_maker_hash t = Some (vd_hash v)"

definition asks_revision :: "verdict_row list \<Rightarrow> bool" where
  "asks_revision vs \<longleftrightarrow> vs = [] \<or> vd_verdict (last vs) = V_revision_requested"

definition maker_open :: "task_status \<Rightarrow> bool" where
  "maker_open s \<longleftrightarrow> s \<in> {Created, Skill_selected, Revision_requested, Maker_running}"

definition verdicts_ok :: "verdict_row list \<Rightarrow> task_row \<Rightarrow> bool" where
  "verdicts_ok vs t \<longleftrightarrow>
     (asks_revision vs \<or> covers t (last vs))
     \<and> (maker_open (t_status t) \<longrightarrow> asks_revision vs)
     \<and> (t_status t = Verified \<longrightarrow> (\<exists>v \<in> set vs. vd_verdict v = V_accepted \<and> covers t v))"

definition verdict_stored :: "'d opsdb \<Rightarrow> verdict_row \<Rightarrow> bool" where
  "verdict_stored db v \<longleftrightarrow>
     (\<exists>t \<in> set (tasks db). task_key (vd_household v) (vd_task v) t)
     \<and> artifact_exists (vd_household v) (vd_task v) (vd_checker v) db
     \<and> artifact_with_hash (vd_household v) (vd_task v) (vd_covered v) (vd_hash v) db \<noteq> None"

definition work_ok :: "'d opsdb \<Rightarrow> bool" where
  "work_ok db \<longleftrightarrow>
     unique_on t_id (tasks db) \<and> households_ok db
     \<and> (\<forall>t \<in> set (tasks db). verdicts_ok (task_verdicts (t_household t) (t_id t) db) t)
     \<and> (\<forall>v \<in> set (verdicts db). verdict_stored db v)"

lemma work_okD:
  assumes "work_ok db"
  shows "unique_on t_id (tasks db)" and "households_ok db"
    and "t \<in> set (tasks db) \<Longrightarrow> verdicts_ok (task_verdicts (t_household t) (t_id t) db) t"
    and "v \<in> set (verdicts db) \<Longrightarrow> verdict_stored db v"
  using assms by (auto simp: work_ok_def)

lemma find_rev_filter: "find p (rev xs) = (if filter p xs = [] then None else Some (last (filter p xs)))"
  by (induction xs) (auto simp: find_append split: option.splits)

lemma find_map_SomeI: "list_ex p xs \<Longrightarrow> \<exists>x. find p xs = Some x"
  by (induction xs) auto

text \<open>The verdict the ledger reads is the newest one.\<close>

lemma latest_verdict_last:
  assumes "work_ok db"
  shows "map_option (vd_verdict \<circ> fst) (latest_verdict_row hh task db) =
    (if task_verdicts hh task db = [] then None
     else Some (vd_verdict (last (task_verdicts hh task db))))"
proof -
  let ?p = "\<lambda>v. vd_household v = hh \<and> vd_task v = task \<and> artifact_exists hh task (vd_checker v) db"
  have same: "filter ?p (verdicts db) = task_verdicts hh task db"
    unfolding task_verdicts_def
    by (rule filter_cong) (use work_okD(4) [OF assms] in \<open>auto simp: verdict_stored_def\<close>)
  show ?thesis
  proof (cases "task_verdicts hh task db = []")
    case True
    then show ?thesis by (simp add: latest_verdict_row_def find_rev_filter same)
  next
    case False
    let ?v = "last (task_verdicts hh task db)"
    from False have "?v \<in> set (filter ?p (verdicts db))" unfolding same by simp
    then have "artifact_exists hh task (vd_checker ?v) db" by simp
    then obtain a where "find (\<lambda>a. ar_household (af_artifact a) = hh \<and> ar_task (af_artifact a) = task
        \<and> ar_id (af_artifact a) = vd_checker ?v) (artifacts db) = Some a"
      unfolding artifact_exists_def by (blast dest: find_map_SomeI)
    with False show ?thesis by (simp add: latest_verdict_row_def find_rev_filter same)
  qed
qed

section \<open>How the statements change it\<close>

text \<open>Rows rewritten one by one, with the verdicts untouched.\<close>

lemma work_ok_update:
  assumes ok: "work_ok db"
    and keys: "\<And>t. t_household (f t) = t_household t \<and> t_id (f t) = t_id t"
    and rows: "\<And>t. t \<in> set (tasks db) \<Longrightarrow> p t \<Longrightarrow>
        verdicts_ok (task_verdicts (t_household t) (t_id t) db) (f t)"
    and db': "tasks db' = update_where p f (tasks db)" "verdicts db' = verdicts db"
        "artifacts db' = artifacts db" "households db' = households db"
  shows "work_ok db'"
proof -
  have key: "(\<exists>u \<in> set (update_where p f ts). task_key hh task u) \<longleftrightarrow> (\<exists>u \<in> set ts. task_key hh task u)"
    for hh task ts
    using keys by (induction ts) (auto simp: task_key_def)
  have "verdict_stored db' v" if "v \<in> set (verdicts db)" for v
    using work_okD(4) [OF ok that]
    by (simp add: verdict_stored_def db' key artifact_exists_def artifact_with_hash_def)
  moreover have "verdicts_ok (task_verdicts (t_household u) (t_id u) db') u"
    if "u \<in> set (tasks db')" for u
    using that rows keys work_okD(3) [OF ok]
    by (auto simp: db' set_update_where task_verdicts_def split: if_splits)
  moreover have "households_ok db'"
    using work_okD(2) [OF ok] keys by (auto simp: households_ok_def db' set_update_where)
  moreover have "unique_on t_id (tasks db')"
    using work_okD(1) [OF ok] keys by (simp add: db' unique_on_update_where)
  ultimately show ?thesis by (simp add: work_ok_def db')
qed

lemma work_ok_other:
  "work_ok db \<Longrightarrow> tasks db' = tasks db \<Longrightarrow> verdicts db' = verdicts db \<Longrightarrow>
   artifacts db' = artifacts db \<Longrightarrow> households db' = households db \<Longrightarrow> work_ok db'"
  by (rule work_ok_update [where p = "\<lambda>_. False" and f = id]) (simp_all add: update_where_none)

lemma find_Some_append: "find p xs \<noteq> None \<Longrightarrow> find p (xs @ ys) \<noteq> None"
  by (auto simp: find_append split: option.split)

lemma work_ok_artifact:
  assumes "work_ok db"
  shows "work_ok (db\<lparr>artifacts := artifacts db @ [r]\<rparr>)"
  using assms
  by (auto simp: work_ok_def verdict_stored_def artifact_exists_def artifact_with_hash_def
      task_verdicts_def households_ok_def find_append split: option.splits)

lemma work_ok_verdict:
  assumes ok: "work_ok db" and v: "verdict_stored db v"
    and t: "\<And>t. t \<in> set (tasks db) \<Longrightarrow> task_key (vd_household v) (vd_task v) t \<Longrightarrow>
        covers t v \<and> t_status t = Checker_running"
  shows "work_ok (db\<lparr>verdicts := verdicts db @ [v]\<rparr>)"
proof -
  have "verdicts_ok (task_verdicts (t_household t) (t_id t) (db\<lparr>verdicts := verdicts db @ [v]\<rparr>)) t"
    if "t \<in> set (tasks db)" for t
    using work_okD(3) [OF ok that] t [OF that]
    by (auto simp: task_verdicts_def verdicts_ok_def task_key_def maker_open_def)
  moreover have "verdict_stored (db\<lparr>verdicts := vs\<rparr>) u = verdict_stored db u" for u vs
    by (simp add: verdict_stored_def artifact_exists_def artifact_with_hash_def)
  ultimately show ?thesis
    using ok v by (auto simp: work_ok_def households_ok_def)
qed

text \<open>The condition under which a transition keeps the invariant.\<close>

definition transition_warranted :: "transition_input \<Rightarrow> 'd opsdb \<Rightarrow> bool" where
  "transition_warranted i db \<longleftrightarrow>
     isAllowedTransition (ti_from i) (ti_to i)
     \<and> (ti_to i = Revision_requested \<longrightarrow>
          asks_revision (task_verdicts (ti_household i) (ti_task i) db))
     \<and> (ti_to i = Verified \<longrightarrow>
          (let vs = task_verdicts (ti_household i) (ti_task i) db
           in vs \<noteq> [] \<and> vd_verdict (last vs) = V_accepted))"

lemma maker_open_from:
  "isAllowedTransition a b \<Longrightarrow> maker_open b \<Longrightarrow> b \<noteq> Revision_requested \<Longrightarrow> maker_open a"
  by (cases a) (auto simp: isAllowedTransition_def maker_open_def)

lemma verdicts_ok_moved:
  assumes "verdicts_ok vs t" and "t_status t = ti_from i"
    and "isAllowedTransition (ti_from i) (ti_to i)"
    and "ti_to i = Revision_requested \<Longrightarrow> asks_revision vs"
    and "ti_to i = Verified \<Longrightarrow> vs \<noteq> [] \<and> vd_verdict (last vs) = V_accepted"
  shows "verdicts_ok vs (moved_row i now t)"
proof -
  have [simp]: "covers (moved_row i now t) v = covers t v" for v
    by (simp add: covers_def moved_row_def)
  show ?thesis
    using assms maker_open_from [of "ti_from i" "ti_to i"]
    by (auto simp: verdicts_ok_def asks_revision_def)
qed

lemma work_ok_transition:
  assumes ok: "work_ok d" and eff: "transition_effect i d x d'" and war: "transition_warranted i d"
  shows "work_ok d'"
proof -
  from eff obtain t now r where t: "find_task_row (ti_household i) (ti_task i) d = Some t"
      "t_status t = ti_from i"
    and d': "d' = d\<lparr>transitions := transitions d @ [r],
        tasks := update_where (task_key (ti_household i) (ti_task i)) (moved_row i now) (tasks d)\<rparr>"
    unfolding transition_effect_def by blast
  from t(1) have mem: "t \<in> set (tasks d)" "task_key (ti_household i) (ti_task i) t"
    by (auto dest: find_task_rowD simp: task_key_def)
  show ?thesis
  proof (rule work_ok_update [OF ok, of "moved_row i now"])
    fix u
    assume u: "u \<in> set (tasks d)" "task_key (ti_household i) (ti_task i) u"
    with mem have "u = t"
      using unique_onD [OF work_okD(1) [OF ok], of u t] by (simp add: task_key_def)
    then show "verdicts_ok (task_verdicts (t_household u) (t_id u) d) (moved_row i now u)"
      using work_okD(3) [OF ok mem(1)] t(2) war mem(2)
      by (intro verdicts_ok_moved) (auto simp: transition_warranted_def Let_def task_key_def)
  qed (simp_all add: d')
qed

section \<open>Every method keeps it\<close>

abbreviation holds :: "('d opsdb, 'a) dbm \<Rightarrow> 'd opsdb \<Rightarrow> bool" where
  "holds m d \<equiv> dwp m (\<lambda>_. work_ok) (\<lambda>_. work_ok) d"

lemma holds_transition:
  assumes "work_ok d" and "transition_warranted i d"
  shows "holds (transition i) d"
  by (rule dwp_mono [OF transition_dwp [OF work_okD(2) [OF assms(1)]]])
    (use assms in \<open>auto intro: work_ok_transition\<close>)

lemma work_ok_create:
  assumes ok: "work_ok d" and eff: "create_effect i d x d'"
  shows "work_ok d'"
proof -
  from eff obtain now r where fresh: "\<forall>t \<in> set (tasks d). t_id t \<noteq> ct_task i"
    and hh: "ct_household i \<in> set (households d)"
    and d': "d' = d\<lparr>tasks := tasks d @ [new_task_row i now], transitions := transitions d @ [r]\<rparr>"
    unfolding create_effect_def by blast
  have none: "task_verdicts (ct_household i) (ct_task i) d = []"
    using work_okD(4) [OF ok] fresh
    by (fastforce simp: task_verdicts_def filter_empty_conv verdict_stored_def task_key_def)
  have [simp]: "task_verdicts h k d' = task_verdicts h k d" for h k
    by (simp add: task_verdicts_def d')
  have "verdicts_ok (task_verdicts (t_household t) (t_id t) d') t" if "t \<in> set (tasks d')" for t
    using that work_okD(3) [OF ok] none
    by (auto simp: d' new_task_row_def verdicts_ok_def asks_revision_def task_verdicts_def)
  moreover have "unique_on t_id (tasks d')"
    using work_okD(1) [OF ok] fresh by (auto simp: d' unique_on_append new_task_row_def)
  moreover have "verdict_stored d' v" if "v \<in> set (verdicts d')" for v
    using work_okD(4) [OF ok, of v] that
    by (auto simp: verdict_stored_def d' artifact_exists_def artifact_with_hash_def)
  ultimately show ?thesis
    using work_okD(2) [OF ok] hh by (auto simp: work_ok_def households_ok_def d' new_task_row_def)
qed

lemma holds_create:
  assumes "work_ok d"
  shows "holds (createTask i) d"
  unfolding createTask_def
  by (rule dwp_mono [OF dwp_transactionally [OF createTask_twp]])
    (use assms in \<open>auto intro: work_ok_create\<close>)

lemma verdicts_ok_contract [simp]:
  "verdicts_ok vs (t\<lparr>t_contract := c, t_updated := now\<rparr>) = verdicts_ok vs t"
  "verdicts_ok vs (t\<lparr>t_checker := a, t_updated := now\<rparr>) = verdicts_ok vs t"
  by (simp_all add: verdicts_ok_def covers_def)

lemma work_ok_select:
  "sql_select_contract i now d = Inr (n, d') \<Longrightarrow> work_ok d \<Longrightarrow> work_ok d'"
  by (rule work_ok_update [where db = d and f = "\<lambda>t. t\<lparr>t_contract := Some (xi_contract i), t_updated := now\<rparr>"
        and p = "\<lambda>t. task_key (xi_household i) (xi_task i) t \<and> t_status t = Created"])
    (auto simp: sql_select_contract_def Let_def dest: work_okD(3))

lemma holds_select: "work_ok d \<Longrightarrow> holds (selectExecutionContract i) d"
  unfolding selectExecutionContract_def
  by (intro dwp_rules) (auto simp: sql_select_contract_def intro: work_ok_select)

lemma work_ok_link_maker:
  assumes "sql_link_maker hh task aid hash now d = Inr (n, d')" and ok: "work_ok d"
  shows "work_ok d'"
proof (rule work_ok_update [OF ok])
  let ?f = "\<lambda>t. t\<lparr>t_maker := Some aid, t_maker_hash := Some hash, t_checker := None, t_updated := now\<rparr>"
  show "tasks d' = update_where (\<lambda>t. task_key hh task t \<and> t_status t = Maker_running) ?f (tasks d)"
    "verdicts d' = verdicts d" "artifacts d' = artifacts d" "households d' = households d"
    using assms(1) by (auto simp: sql_link_maker_def Let_def)
  fix t :: task_row
  show "t_household (?f t) = t_household t \<and> t_id (?f t) = t_id t" by simp
  assume "t \<in> set (tasks d)" "task_key hh task t \<and> t_status t = Maker_running"
  then show "verdicts_ok (task_verdicts (t_household t) (t_id t) d) (?f t)"
    using work_okD(3) [OF ok, of t] by (simp add: verdicts_ok_def maker_open_def)
qed

lemma holds_link_maker: "work_ok d \<Longrightarrow> holds (linkMakerArtifact hh task aid hash) d"
  unfolding linkMakerArtifact_def requireId_def
  by (intro dwp_rules) (auto intro: work_ok_link_maker simp: sql_link_maker_def)

lemma work_ok_link_checker:
  "sql_link_checker hh task aid now d = Inr (u, d') \<Longrightarrow> work_ok d \<Longrightarrow> work_ok d'"
  by (rule work_ok_update [where db = d and f = "\<lambda>t. t\<lparr>t_checker := Some aid, t_updated := now\<rparr>"
        and p = "task_key hh task"])
    (auto simp: sql_link_checker_def dest: work_okD(3))

lemma work_ok_insert_verdict:
  assumes ins: "sql_insert_verdict hh task aid v now d = Inr (n, d')" and ok: "work_ok d"
    and t: "find_task_row hh task d = Some t" "t_status t = Checker_running"
      "t_maker t = Some (cv_artifact v)" "t_maker_hash t = Some (cv_hash v)"
  shows "work_ok d'"
proof (cases "hh \<notin> set (households d) \<or> list_ex (verdict_of hh task aid) (verdicts d)")
  case True
  with ins ok show ?thesis by (simp add: sql_insert_verdict_def)
next
  case False
  let ?v = "\<lparr>vd_household = hh, vd_task = task, vd_checker = aid, vd_covered = cv_artifact v,
     vd_hash = cv_hash v, vd_verdict = cv_verdict v\<rparr>"
  from t(1) have mem: "t \<in> set (tasks d)" "task_key hh task t"
    by (auto dest: find_task_rowD simp: task_key_def)
  from ins False have d': "d' = d\<lparr>verdicts := verdicts d @ [?v]\<rparr>"
    and stored: "verdict_stored d ?v"
    using mem by (auto simp: sql_insert_verdict_def verdict_stored_def)
  show ?thesis unfolding d'
  proof (rule work_ok_verdict [OF ok stored])
    fix u
    assume "u \<in> set (tasks d)" "task_key (vd_household ?v) (vd_task ?v) u"
    with mem have "u = t"
      using unique_onD [OF work_okD(1) [OF ok], of u t] by (simp add: task_key_def)
    with t show "covers u ?v \<and> t_status u = Checker_running" by (simp add: covers_def)
  qed
qed

lemma holds_verdict:
  assumes ok: "work_ok d"
  shows "holds (recordCheckerVerdict hh task aid v) d"
  unfolding recordCheckerVerdict_def
proof (rule dwp_mono [OF dwp_transactionally])
  show "twp (recordCheckerVerdict_body hh task aid v) (\<lambda>_. work_ok) d"
    unfolding recordCheckerVerdict_body_def requireId_def
    by (intro twp_rules loadTask_twp)
      (use ok in \<open>auto dest: work_ok_insert_verdict intro: work_ok_link_checker\<close>)
qed (use ok in auto)

lemma holds_save:
  assumes "work_ok d"
  shows "holds (save h postgres_artifacts a) d"
  unfolding save_def postgres_artifacts_def artifact_repo.simps findByTaskAndHash_def
  using assms
  by (intro dwp_rules dwp_mono [OF insertArtifact_dwp] dwp_mono [OF findWhere_dwp])
    (auto intro: work_ok_artifact dwp_ret dwp_raise)

section \<open>Any use of the runtime\<close>

lemma postgres_runtime_simps [simp]:
  "rd_ledger (postgres_runtime ps h) = postgres_ledger"
  "rd_artifacts (postgres_runtime ps h) = postgres_artifacts"
  "rd_hashing (postgres_runtime ps h) = h" "rd_ulid (postgres_runtime ps h) = fresh_ulid"
  "rd_clock (postgres_runtime ps h) = now_ms" "rd_policies (postgres_runtime ps h) = ps"
  by (simp_all add: postgres_runtime_def)

lemma holds_move:
  assumes "work_ok d"
    and "to = Revision_requested \<Longrightarrow> asks_revision (task_verdicts hh task d)"
    and "to = Verified \<Longrightarrow> task_verdicts hh task d \<noteq> []
        \<and> vd_verdict (last (task_verdicts hh task d)) = V_accepted"
  shows "holds (move (postgres_runtime ps h) hh task from to reason terminal failure resumable) d"
  unfolding move_def using assms
  by (intro dwp_bindM dwp_liftE)
    (auto simp: assertAllowedTransition_def transition_warranted_def Let_def
      intro!: holds_transition split: if_splits)

lemma dwp_requireTask:
  "(\<And>t. find_task_row hh task d = Some t \<Longrightarrow> Q (taskRecord t) d) \<Longrightarrow> (\<And>e. E e d) \<Longrightarrow>
   dwp (requireTask (postgres_runtime ps h) hh task) Q E d"
  unfolding requireTask_def
  by (intro dwp_bindM, simp, rule dwp_mono [OF findTask_dwp])
    (auto intro!: dwp_rules split: option.splits)

lemma dwp_requireStatus:
  "(\<And>t. find_task_row hh task d = Some t \<Longrightarrow> t_status t = s \<Longrightarrow> Q (taskRecord t) d) \<Longrightarrow>
   (\<And>e. E e d) \<Longrightarrow> dwp (requireStatus (postgres_runtime ps h) hh task s) Q E d"
  unfolding requireStatus_def
  by (intro dwp_bindM dwp_requireTask dwp_requireM dwp_ret) (auto simp: taskRecord_def)

lemma dwp_newEnvelope:
  "(\<And>a. Q a d) \<Longrightarrow> (\<And>e. E e d) \<Longrightarrow>
   dwp (newEnvelope (postgres_runtime ps h) hh task aid ty schema payload) Q E d"
  unfolding newEnvelope_def createArtifactEnvelope_def requireId_def Let_def
  by (simp, intro dwp_rules) auto

lemma dwp_latest:
  "(\<And>r. map_option cv_verdict r = map_option (vd_verdict \<circ> fst) (latest_verdict_row hh task d) \<Longrightarrow>
      Q r d) \<Longrightarrow> (\<And>e. E e d) \<Longrightarrow> dwp (findLatestVerdict hh task) Q E d"
  by (rule dwp_mono [OF findLatestVerdict_dwp]) auto

datatype runtime_call =
    Do_create create_task
  | Do_select string string skill_identity schema_identity schema_identity policy_identity
  | Do_begin_maker string string
  | Do_validate_maker string string string schema_identity json
  | Do_begin_checker string string
  | Do_validate_checker string string string checker_verdict
  | Do_request_revision string string
  | Do_complete string string completion
  | Do_fail string string task_status string bool
  | Do_resolver transition_input

fun runtime_call_run :: "'d opsdb world runtime \<Rightarrow> runtime_call \<Rightarrow> ('d opsdb, unit) dbm" where
  "runtime_call_run rt (Do_create i) = bindM (runtime_createTask rt i) (\<lambda>_. ret ())"
| "runtime_call_run rt (Do_select hh task skill input output policy) =
     bindM (selectContract rt hh task skill input output policy) (\<lambda>_. ret ())"
| "runtime_call_run rt (Do_begin_maker hh task) = bindM (beginMaker rt hh task) (\<lambda>_. ret ())"
| "runtime_call_run rt (Do_validate_maker hh task aid schema payload) =
     bindM (validateMaker rt hh task aid schema payload) (\<lambda>_. ret ())"
| "runtime_call_run rt (Do_begin_checker hh task) = bindM (beginChecker rt hh task) (\<lambda>_. ret ())"
| "runtime_call_run rt (Do_validate_checker hh task aid v) =
     bindM (validateChecker rt hh task aid v) (\<lambda>_. ret ())"
| "runtime_call_run rt (Do_request_revision hh task) =
     bindM (requestRevision rt hh task) (\<lambda>_. ret ())"
| "runtime_call_run rt (Do_complete hh task c) = bindM (complete rt hh task c) (\<lambda>_. ret ())"
| "runtime_call_run rt (Do_fail hh task from category resumable) =
     bindM (fail_task rt hh task from category resumable) (\<lambda>_. ret ())"
| "runtime_call_run rt (Do_resolver i) = bindM (lp_transition (rd_ledger rt) i) (\<lambda>_. ret ())"

text \<open>
  The command-state resolver also moves tasks, along allowed transitions of the execution
  statuses; it neither verifies a task nor asks for a revision.
\<close>

fun runtime_call_ok :: "runtime_call \<Rightarrow> bool" where
  "runtime_call_ok (Do_resolver i) =
     (isAllowedTransition (ti_from i) (ti_to i) \<and> ti_to i \<notin> {Verified, Revision_requested})"
| "runtime_call_ok c = True"

fun runtime_run :: "'d opsdb world runtime \<Rightarrow> runtime_call list \<Rightarrow> 'd opsdb world \<Rightarrow> 'd opsdb world" where
  "runtime_run rt [] w = w"
| "runtime_run rt (c # cs) w = runtime_run rt cs (snd (runtime_call_run rt c w))"

lemma holds_bind: "holds m d \<Longrightarrow> holds (bindM m (\<lambda>_. ret ())) d"
  by (rule dwp_bindM, erule dwp_mono) (auto intro: dwp_ret)

lemma holds_validateMaker:
  assumes "work_ok d"
  shows "holds (validateMaker (postgres_runtime ps h) hh task aid schema payload) d"
  unfolding validateMaker_def
  by (intro dwp_bindM dwp_requireStatus dwp_newEnvelope)
    (use assms in \<open>auto intro!: dwp_mono [OF holds_save] dwp_bindM dwp_mono [OF holds_link_maker]
        dwp_mono [OF holds_move] dwp_ret\<close>)

lemma holds_validateChecker:
  assumes "work_ok d"
  shows "holds (validateChecker (postgres_runtime ps h) hh task aid v) d"
  unfolding validateChecker_def
  by (intro dwp_bindM dwp_requireStatus dwp_newEnvelope dwp_requireM)
    (use assms in \<open>auto intro!: dwp_mono [OF holds_save] dwp_bindM dwp_mono [OF holds_verdict]
        dwp_mono [OF holds_move] dwp_ret\<close>)

lemma holds_requestRevision:
  assumes "work_ok d"
  shows "holds (requestRevision (postgres_runtime ps h) hh task) d"
  unfolding requestRevision_def
  by (intro dwp_bindM, simp, intro dwp_latest dwp_bindM dwp_requireM)
    (use assms in \<open>auto simp: latest_verdict_last asks_revision_def intro!: holds_move split: if_splits\<close>)

lemma holds_complete:
  assumes "work_ok d"
  shows "holds (complete (postgres_runtime ps h) hh task c) d"
  unfolding complete_def postgres_runtime_simps postgres_ledger_simps
  by (intro dwp_bindM dwp_requireTask dwp_latest dwp_requireM)
    (use assms in \<open>cases c; auto simp: latest_verdict_last intro!: holds_move split: if_splits\<close>)+

lemma holds_select_contract:
  assumes "work_ok d"
  shows "holds (selectContract (postgres_runtime ps h) hh task skill input output policy) d"
  unfolding selectContract_def postgres_runtime_simps postgres_ledger_simps
  by (intro dwp_bindM dwp_liftE)
    (use assms in \<open>auto intro!: dwp_mono [OF holds_select] holds_move\<close>)

lemma holds_begin_maker:
  assumes "work_ok d"
  shows "holds (beginMaker (postgres_runtime ps h) hh task) d"
  unfolding beginMaker_def moveFromCurrent_def
  by (intro dwp_bindM dwp_requireTask dwp_requireM) (use assms in \<open>auto intro!: holds_move\<close>)

lemma runtime_call_holds:
  assumes "runtime_call_ok c" and "work_ok d"
  shows "holds (runtime_call_run (postgres_runtime ps h) c) d"
  using assms
  by (cases c)
    (auto simp: runtime_createTask_def beginChecker_def fail_task_def transition_warranted_def
      intro!: holds_bind holds_create holds_select_contract holds_begin_maker holds_validateMaker
        holds_move holds_validateChecker holds_requestRevision holds_complete holds_transition)

lemma runtime_run_ok:
  "list_all runtime_call_ok cs \<Longrightarrow> txn w = None \<Longrightarrow> work_ok (wdb w) \<Longrightarrow>
   txn (runtime_run (postgres_runtime ps h) cs w) = None
   \<and> work_ok (wdb (runtime_run (postgres_runtime ps h) cs w))"
proof (induction cs arbitrary: w)
  case (Cons c cs)
  obtain r w' where c: "runtime_call_run (postgres_runtime ps h) c w = (r, w')" by fastforce
  have "holds (runtime_call_run (postgres_runtime ps h) c) (wdb w)"
    using Cons.prems by (intro runtime_call_holds) auto
  then have "txn w' = None \<and> work_ok (wdb w')"
    using c Cons.prems(2) by (cases r) (auto dest: dwp_returned dwp_threw)
  with c Cons show ?case by simp
qed simp


text \<open>A concrete run, from the creation of a task to its verified completion.\<close>

definition work_hashing :: hashing where
  "work_hashing =
    \<lparr>canonicalize = (\<lambda>j. case j of JNull \<Rightarrow> ''a'' | _ \<Rightarrow> ''b''), sha256 = (\<lambda>s. replicate 64 (hd s))\<rparr>"

definition maker_id :: string where "maker_id = ''artifact_0000000000000000000000000M''"
definition checker_id :: string where "checker_id = ''artifact_0000000000000000000000000C''"

definition accepting_verdict :: checker_verdict where
  "accepting_verdict = \<lparr>cv_verdict = V_accepted, cv_artifact = maker_id,
     cv_hash = replicate 64 (CHR ''a''), cv_findings = []\<rparr>"

definition work_calls :: "runtime_call list" where
  "work_calls =
    [Do_create sample_create,
     Do_select sample_hh sample_task_id
       \<lparr>sk_name = ''post'', sk_version = 1, sk_hash = replicate 64 (CHR ''f'')\<rparr>
       \<lparr>sch_name = ''in'', sch_version = 1\<rparr> \<lparr>sch_name = ''out'', sch_version = 1\<rparr>
       \<lparr>pi_name = ''maker'', pi_version = 12\<rparr>,
     Do_begin_maker sample_hh sample_task_id,
     Do_validate_maker sample_hh sample_task_id maker_id
       \<lparr>sch_name = ''maker-artifact'', sch_version = 1\<rparr> JNull,
     Do_begin_checker sample_hh sample_task_id,
     Do_validate_checker sample_hh sample_task_id checker_id accepting_verdict,
     Do_complete sample_hh sample_task_id Complete_verified]"

abbreviation work_end :: "unit opsdb" where
  "work_end \<equiv> wdb (runtime_run (postgres_runtime [(''maker@12'', sample_policy)] work_hashing)
     work_calls (sample_world (empty_db ()) []))"


end
