(* ===== verification/MutationInvariant.thy ===== *)
theory MutationInvariant
  imports CommandRegistry CheckedWork
begin

text \<open>
  The invariant of the mutation tables and how each database operation of MutationCommands
  moves them. Every command was registered for the exact output of an accepted maker artifact;
  a command has a receipt exactly from \<open>committed\<close> on, and a read-back whose verdict is its
  terminal status. The operations other than the commit of a domain transaction change neither
  the receipts nor the domain tables.
\<close>

section \<open>The invariant\<close>

definition status_ok :: "command_status \<Rightarrow> receipt_row option \<Rightarrow> readback_row option \<Rightarrow> bool" where
  "status_ok s receipt readback \<longleftrightarrow>
     (receipt \<noteq> None \<longleftrightarrow> s \<in> {Cmd_committed, Cmd_readback_verified, Cmd_readback_failed})
     \<and> (case readback of
          None \<Rightarrow> s \<notin> {Cmd_readback_verified, Cmd_readback_failed}
        | Some k \<Rightarrow> s = (if rk_ok k then Cmd_readback_verified else Cmd_readback_failed))"

definition warranted :: "'d opsdb \<Rightarrow> command_row \<Rightarrow> bool" where
  "warranted db c \<longleftrightarrow>
     exact_artifact c db
     \<and> accepted_in db (cm_household c) (cm_task c) (cm_proposal c) (cm_proposal_hash c)
     \<and> (cm_required c \<longrightarrow> exact_confirmation c db)"

definition has_command :: "string \<Rightarrow> string \<Rightarrow> 'd opsdb \<Rightarrow> bool" where
  "has_command hh cid db \<longleftrightarrow> list_ex (command_key hh cid) (commands db)"

definition has_receipt :: "string \<Rightarrow> string \<Rightarrow> string \<Rightarrow> 'd opsdb \<Rightarrow> bool" where
  "has_receipt hh cid rid db \<longleftrightarrow>
     list_ex (\<lambda>r. rt_household r = hh \<and> rt_command r = cid \<and> rt_id r = rid) (receipts db)"

definition receipt_key :: "receipt_row \<Rightarrow> string \<times> string" where
  "receipt_key r = (rt_household r, rt_command r)"

definition readback_key :: "readback_row \<Rightarrow> string \<times> string" where
  "readback_key k = (rk_household k, rk_command k)"

definition tables_ok :: "'d opsdb \<Rightarrow> bool" where
  "tables_ok db \<longleftrightarrow>
     unique_on cm_id (commands db)
     \<and> unique_on (\<lambda>c. (cm_household c, cm_idem c)) (commands db)
     \<and> unique_on receipt_key (receipts db) \<and> unique_on rt_id (receipts db)
     \<and> unique_on readback_key (readbacks db)
     \<and> list_all (warranted db) (commands db)
     \<and> list_all (\<lambda>r. has_command (rt_household r) (rt_command r) db) (receipts db)
     \<and> list_all (\<lambda>k. has_command (rk_household k) (rk_command k) db
         \<and> has_receipt (rk_household k) (rk_command k) (rk_receipt k) db) (readbacks db)"

definition row_ok :: "'d opsdb \<Rightarrow> command_row \<Rightarrow> bool" where
  "row_ok db c \<longleftrightarrow> status_ok (cm_status c) (find_receipt_row (cm_household c) (cm_id c) db)
     (find_readback_row (cm_household c) (cm_id c) db)"

definition mutations_ok :: "'d opsdb \<Rightarrow> bool" where
  "mutations_ok db \<longleftrightarrow> tables_ok db \<and> list_all (row_ok db) (commands db)"

lemma row_okI: "mutations_ok db \<Longrightarrow> c \<in> set (commands db) \<Longrightarrow> row_ok db c"
  by (simp add: mutations_ok_def list_all_iff)

lemma warrantedI: "mutations_ok db \<Longrightarrow> c \<in> set (commands db) \<Longrightarrow> warranted db c"
  by (simp add: mutations_ok_def tables_ok_def list_all_iff)

lemma find_receipt_key:
  "find_receipt_row hh cid db = find (\<lambda>r. receipt_key r = (hh, cid)) (receipts db)"
  by (simp add: find_receipt_row_def receipt_key_def)

lemma find_readback_key:
  "find_readback_row hh cid db = find (\<lambda>k. readback_key k = (hh, cid)) (readbacks db)"
  by (simp add: find_readback_row_def readback_key_def)

text \<open>The invariant reads these columns only.\<close>

lemma has_command_find: "has_command hh cid db \<longleftrightarrow> find_command_row hh cid db \<noteq> None"
  by (auto simp: has_command_def find_command_row_def list_ex_iff find_None_iff)

lemma find_receipt_cong: "receipts db' = receipts db \<Longrightarrow>
    find_receipt_row hh cid db' = find_receipt_row hh cid db"
  by (simp add: find_receipt_row_def)

lemma find_readback_cong: "readbacks db' = readbacks db \<Longrightarrow>
    find_readback_row hh cid db' = find_readback_row hh cid db"
  by (simp add: find_readback_row_def)

lemma exact_artifact_mono:
  assumes "artifacts db' = artifacts db @ as" and "exact_artifact c db"
  shows "exact_artifact c db'"
  using assms
  by (auto simp: exact_artifact_def artifact_with_hash_def find_append split: option.splits)

lemma warranted_mono:
  assumes "artifacts db' = artifacts db @ as" and "verdicts db' = verdicts db @ vs"
    and "confirmations db' = confirmations db @ es" and "warranted db c"
  shows "warranted db' c"
  using assms exact_artifact_mono [OF assms(1)]
  by (auto simp: warranted_def accepted_in_def exact_confirmation_def find_confirmation_def
      find_append split: option.splits)

lemma warranted_cong:
  "artifacts db' = artifacts db \<Longrightarrow> verdicts db' = verdicts db \<Longrightarrow>
   confirmations db' = confirmations db \<Longrightarrow> warranted db' c = warranted db c"
  using warranted_mono [of db' db "[]" "[]" "[]" c] warranted_mono [of db db' "[]" "[]" "[]" c]
  by auto

lemma mutations_ok_ledger:
  assumes "mutations_ok db"
    and "artifacts db' = artifacts db @ as" "verdicts db' = verdicts db @ vs"
    and "confirmations db' = confirmations db @ es" "commands db' = commands db"
    and "receipts db' = receipts db" "readbacks db' = readbacks db"
  shows "mutations_ok db'"
proof -
  have row: "row_ok db' = row_ok db"
    by (simp add: fun_eq_iff row_ok_def find_receipt_cong [OF assms(6)] find_readback_cong [OF assms(7)])
  have has: "has_command hh cid db' = has_command hh cid db" "has_receipt hh cid rid db' = has_receipt hh cid rid db"
    for hh cid rid using assms(5,6) by (simp_all add: has_command_def has_receipt_def)
  have "list_all (warranted db') (commands db)"
    using assms(1) warranted_mono [OF assms(2-4)]
    by (simp add: mutations_ok_def tables_ok_def list_all_iff)
  then show ?thesis
    using assms(1) by (simp add: mutations_ok_def tables_ok_def assms(5-7) row has)
qed

text \<open>A status may change where the new one fits the receipt and the read-back.\<close>

lemma set_status_simps [simp]:
  "cm_id (set_status s failure now c) = cm_id c"
  "cm_household (set_status s failure now c) = cm_household c"
  "cm_task (set_status s failure now c) = cm_task c"
  "cm_idem (set_status s failure now c) = cm_idem c"
  "cm_required (set_status s failure now c) = cm_required c"
  "cm_status (set_status s failure now c) = s"
  "command_key hh cid (set_status s failure now c) = command_key hh cid c"
  "warranted db (set_status s failure now c) = warranted db c"
  by (simp_all add: set_status_def command_key_def warranted_def exact_artifact_def
      exact_confirmation_def cong: option.case_cong)

lemma tables_ok_update:
  assumes "tables_ok db"
  shows "tables_ok (db\<lparr>commands := update_where p (set_status s failure now) (commands db)\<rparr>)"
proof -
  have key: "list_ex (command_key hh cid) (update_where p (set_status s failure now) cs)
      = list_ex (command_key hh cid) cs" for hh cid cs
    by (induction cs) auto
  let ?db = "db\<lparr>commands := update_where p (set_status s failure now) (commands db)\<rparr>"
  have w: "warranted ?db c = warranted db c" for c
    by (rule warranted_cong) simp_all
  show ?thesis
    using assms
    by (auto simp: tables_ok_def list_all_iff has_command_def has_receipt_def key w set_update_where
        unique_on_update_where)
qed

lemma mutations_ok_update:
  assumes "tables_ok db"
    and "\<And>c. c \<in> set (commands db) \<Longrightarrow>
        if p c then row_ok db (set_status s failure now c) else row_ok db c"
  shows "mutations_ok (db\<lparr>commands := update_where p (set_status s failure now) (commands db)\<rparr>)"
proof -
  let ?db = "db\<lparr>commands := update_where p (set_status s failure now) (commands db)\<rparr>"
  have row: "row_ok ?db = row_ok db"
    by (simp add: fun_eq_iff row_ok_def find_receipt_row_def find_readback_row_def)
  have "list_all (row_ok db) (update_where p (set_status s failure now) (commands db))"
    using assms(2) by (auto simp: list_all_iff set_update_where split: if_splits)
  then show ?thesis
    using tables_ok_update [OF assms(1)] by (simp add: mutations_ok_def row)
qed

lemma in_status_unique:
  assumes "tables_ok db" "c \<in> set (commands db)" "in_status hh cid s c"
  shows "find_command_row hh cid db = Some c"
proof -
  have c: "cm_household c = hh" "cm_id c = cid" using assms(3) by (auto simp: in_status_def command_key_def)
  have u: "unique_on cm_id (commands db)" using assms(1) by (simp add: tables_ok_def)
  have "find (\<lambda>x. cm_id x = cid) (commands db) = Some c"
    by (rule find_unique [OF u assms(2) c(2)])
  moreover have "find (command_key hh cid) (commands db) = find (\<lambda>x. cm_id x = cid) (commands db)"
    by (rule find_cong2) (use assms(2) c unique_onD [OF u] in \<open>auto simp: command_key_def\<close>)
  ultimately show ?thesis by (simp add: find_command_row_def)
qed

section \<open>The history of the domain\<close>

text \<open>
  What no operation changes of a command, and what a new receipt says of the domain: the
  registered handler of its command ran once, on a payload the command's envelope admits, and
  the receipt records what it returned.
\<close>

definition command_identity :: "command_row \<Rightarrow> command_row" where
  "command_identity c = c\<lparr>cm_status := Cmd_registered, cm_failure := None, cm_updated := 0\<rparr>"

definition row_context :: "command_row \<Rightarrow> execution_context" where
  "row_context c =
    \<lparr>ec_ctx_household = cm_household c, ec_ctx_task = cm_task c, ec_ctx_command = cm_id c,
     ec_ctx_proposal = cm_proposal c, ec_ctx_proposal_hash = cm_proposal_hash c,
     ec_ctx_idem = cm_idem c\<rparr>"

definition executed_as ::
  "locale_order \<Rightarrow> 'd registry \<Rightarrow> command_row list \<Rightarrow> receipt_row \<Rightarrow> 'd \<Rightarrow> 'd \<Rightarrow> bool" where
  "executed_as le reg cs r x y \<longleftrightarrow>
     (\<exists>c \<in> set cs. \<exists>h payload input out.
        command_key (rt_household r) (rt_command r) c \<and> reg (cm_type c) = Some h
        \<and> stableJson le payload = stableJson le (cm_payload c)
        \<and> h_parse h payload = Some input
        \<and> script_result (h_execute h input (row_context c)) x out y
        \<and> rt_records r = eo_records out \<and> rt_expected r = eo_expected out)"

fun replayed ::
  "locale_order \<Rightarrow> 'd registry \<Rightarrow> command_row list \<Rightarrow> receipt_row list \<Rightarrow> 'd \<Rightarrow> 'd \<Rightarrow> bool" where
  "replayed le reg cs [] x y = (y = x)"
| "replayed le reg cs (r # rs) x z = (\<exists>y. executed_as le reg cs r x y \<and> replayed le reg cs rs y z)"

lemma executed_mono: "executed_as le reg cs r x y \<Longrightarrow> set cs \<subseteq> set cs' \<Longrightarrow> executed_as le reg cs' r x y"
  unfolding executed_as_def by blast

lemma replayed_mono: "replayed le reg cs rs x y \<Longrightarrow> set cs \<subseteq> set cs' \<Longrightarrow> replayed le reg cs' rs x y"
  by (induction rs arbitrary: x) (auto dest: executed_mono)

lemma replayed_append:
  "replayed le reg cs (rs @ rs') x z \<longleftrightarrow> (\<exists>y. replayed le reg cs rs x y \<and> replayed le reg cs rs' y z)"
  by (induction rs arbitrary: x) auto

definition identities :: "'d opsdb \<Rightarrow> command_row list" where
  "identities db = map command_identity (commands db)"

definition extends :: "'d opsdb \<Rightarrow> 'd opsdb \<Rightarrow> bool" where
  "extends d d' \<longleftrightarrow>
     (mutations_ok d \<longrightarrow> mutations_ok d')
     \<and> (\<exists>as. artifacts d' = artifacts d @ as) \<and> (\<exists>vs. verdicts d' = verdicts d @ vs)
     \<and> (\<exists>es. confirmations d' = confirmations d @ es)
     \<and> (\<exists>ks. readbacks d' = readbacks d @ ks)
     \<and> (\<exists>cs. identities d' = identities d @ cs)"

definition quiet :: "'d opsdb \<Rightarrow> 'd opsdb \<Rightarrow> bool" where
  "quiet d d' \<longleftrightarrow> extends d d' \<and> receipts d' = receipts d \<and> domain d' = domain d"

definition history :: "locale_order \<Rightarrow> 'd registry \<Rightarrow> 'd opsdb \<Rightarrow> 'd opsdb \<Rightarrow> bool" where
  "history le reg d d' \<longleftrightarrow>
     extends d d'
     \<and> (\<exists>rs. receipts d' = receipts d @ rs
         \<and> replayed le reg (identities d') rs (domain d) (domain d'))"

lemma extends_refl: "extends d d"
  by (simp add: extends_def)

lemma extends_trans: "extends d d' \<Longrightarrow> extends d' d'' \<Longrightarrow> extends d d''"
  unfolding extends_def by (metis append.assoc)

interpretation quiet: db_relation quiet
  by unfold_locales (auto simp: quiet_def intro: extends_refl extends_trans)

lemma quiet_history: "quiet d d' \<Longrightarrow> history le reg d d'"
  by (simp add: quiet_def history_def)

lemma history_refl: "history le reg d d"
  by (simp add: history_def extends_refl)

lemma history_trans:
  assumes "history le reg d d'" and "history le reg d' d''"
  shows "history le reg d d''"
proof -
  obtain rs where rs: "receipts d' = receipts d @ rs"
    "replayed le reg (identities d') rs (domain d) (domain d')"
    using assms(1) by (auto simp: history_def)
  obtain rs' where rs': "receipts d'' = receipts d' @ rs'"
    "replayed le reg (identities d'') rs' (domain d') (domain d'')"
    using assms(2) by (auto simp: history_def)
  have "set (identities d') \<subseteq> set (identities d'')"
    using assms(2) by (auto simp: history_def extends_def)
  with rs rs' have "replayed le reg (identities d'') (rs @ rs') (domain d) (domain d'')"
    by (auto simp: replayed_append dest: replayed_mono)
  with rs rs' assms show ?thesis
    by (auto simp: history_def intro: extends_trans)
qed

interpretation history: db_relation "history le reg" for le reg
  by unfold_locales (fact history_refl, fact history_trans)

section \<open>The quiet operations\<close>

text \<open>Statements on the ledger's tables leave the mutation tables alone.\<close>

lemma quiet_ledger:
  assumes "artifacts db' = artifacts db @ as" "verdicts db' = verdicts db @ vs"
    and "confirmations db' = confirmations db @ es" "commands db' = commands db"
    and "receipts db' = receipts db" "readbacks db' = readbacks db" "domain db' = domain db"
  shows "quiet db db'"
  using assms mutations_ok_ledger [OF _ assms(1-6)]
  by (auto simp: quiet_def extends_def identities_def)

lemma quiet_refl: "quiet d d"
  by (rule quiet.db_refl)

lemma command_identity_set_status [simp]:
  "command_identity (set_status s failure now c) = command_identity c"
  by (simp add: command_identity_def set_status_def)

lemma identities_update [simp]:
  "identities (db\<lparr>commands := update_where p (set_status s failure now) (commands db)\<rparr>) = identities db"
  unfolding identities_def by (auto intro: map_update_where)

text \<open>
  An update of the status that the guard admits, of rows whose new status fits their receipt
  and read-back.
\<close>

lemma update_status_Inr:
  "update_command_status p s failure now db = Inr (n, db') \<longleftrightarrow>
     (\<forall>c \<in> set (commands db). p c \<longrightarrow> list_all fst (guard_mutation_command_update c s db))
     \<and> n = count_where p (commands db)
     \<and> db' = db\<lparr>commands := update_where p (set_status s failure now) (commands db)\<rparr>"
  by (auto simp: update_command_status_def list_all_iff)

lemma quiet_update:
  assumes upd: "update_command_status p s failure now db = Inr (n, db')"
    and "\<And>c. mutations_ok db \<Longrightarrow> c \<in> set (commands db) \<Longrightarrow> p c \<Longrightarrow>
        status_ok s (find_receipt_row (cm_household c) (cm_id c) db)
          (find_readback_row (cm_household c) (cm_id c) db)"
  shows "quiet db db'"
proof -
  have db': "db' = db\<lparr>commands := update_where p (set_status s failure now) (commands db)\<rparr>"
    using upd by (simp add: update_status_Inr)
  have "mutations_ok db'" if "mutations_ok db"
    unfolding db'
    by (rule mutations_ok_update)
      (use that assms(2) in \<open>auto simp: row_ok_def mutations_ok_def list_all_iff\<close>)
  then show ?thesis by (simp add: quiet_def extends_def db')
qed

lemma quiet_mark_failed:
  "statement_along quiet (update_command_status (in_status hh cid Cmd_execution_pending)
     Cmd_execution_failed failure)"
  by (intro statement_alongI quiet_update, assumption)
    (auto simp: in_status_def row_ok_def status_ok_def dest!: row_okI split: option.splits if_splits)

lemma quiet_mark_pending:
  "statement_along quiet (update_command_status (in_status hh cid Cmd_registered)
     Cmd_execution_pending failure)"
  by (intro statement_alongI quiet_update, assumption)
    (auto simp: in_status_def row_ok_def status_ok_def dest!: row_okI split: option.splits if_splits)

text \<open>Registration adds a warranted row.\<close>

lemma mutations_ok_insert:
  assumes ok: "mutations_ok db" and w: "warranted db c" and s: "cm_status c = Cmd_registered"
    and new: "\<forall>r \<in> set (commands db). cm_id r \<noteq> cm_id c"
        "\<forall>r \<in> set (commands db). \<not> (cm_household r = cm_household c \<and> cm_idem r = cm_idem c)"
  shows "mutations_ok (db\<lparr>commands := commands db @ [c]\<rparr>)"
proof -
  let ?db = "db\<lparr>commands := commands db @ [c]\<rparr>"
  have t: "tables_ok db" using ok by (simp add: mutations_ok_def)
  have w': "warranted ?db = warranted db"
    by (rule ext, rule warranted_cong) simp_all
  have r': "row_ok ?db = row_ok db"
    by (simp add: fun_eq_iff row_ok_def find_receipt_row_def find_readback_row_def)
  have none: "\<not> has_command hh (cm_id c) db" for hh
    using new(1) by (auto simp: has_command_def list_ex_iff command_key_def)
  have "find_receipt_row (cm_household c) (cm_id c) db = None"
    using t none by (fastforce simp: tables_ok_def list_all_iff find_receipt_row_def find_None_iff)
  moreover have "find_readback_row (cm_household c) (cm_id c) db = None"
    using t none by (fastforce simp: tables_ok_def list_all_iff find_readback_row_def find_None_iff)
  ultimately have "row_ok db c" by (simp add: row_ok_def status_ok_def s)
  moreover have "tables_ok ?db"
  proof -
    have hc: "has_command hh cid db \<Longrightarrow> has_command hh cid ?db" for hh cid
      by (simp add: has_command_def)
    have hr: "has_receipt hh cid rid ?db = has_receipt hh cid rid db" for hh cid rid
      by (simp add: has_receipt_def)
    have u: "unique_on cm_id (commands ?db)" "unique_on (\<lambda>c. (cm_household c, cm_idem c)) (commands ?db)"
      using t new by (auto simp: tables_ok_def unique_on_append)
    have "list_all (warranted ?db) (commands ?db)"
      using t w by (simp add: tables_ok_def w')
    with t u show ?thesis
      unfolding tables_ok_def hr by (auto intro: hc elim!: list.pred_mono_strong)
  qed
  ultimately show ?thesis using ok by (simp add: mutations_ok_def r')
qed

lemma insert_command_Inr:
  assumes "sql_insert_command c required now db = Inr (r, db')"
  shows "(r = None \<and> db' = db) \<or>
    (let row = new_command_row c required now db in
     r = Some (row\<lparr>cm_confirmation := cc_confirmation c\<rparr>) \<and> db' = db\<lparr>commands := commands db @ [row]\<rparr>
     \<and> list_all fst (validate_mutation_command_insert row db @ command_unique row db))"
  using assms by (auto simp: sql_insert_command_def Let_def split: if_splits)

lemma new_command_row_simps [simp]:
  "cm_id (new_command_row c required now db) = cc_id c"
  "cm_household (new_command_row c required now db) = cc_household c"
  "cm_task (new_command_row c required now db) = cc_task c"
  "cm_type (new_command_row c required now db) = cc_type c"
  "cm_proposal (new_command_row c required now db) = cc_proposal c"
  "cm_proposal_hash (new_command_row c required now db) = cc_proposal_hash c"
  "cm_idem (new_command_row c required now db) = cc_idem c"
  "cm_required (new_command_row c required now db) = required"
  "cm_schema (new_command_row c required now db) = cc_schema c"
  "cm_payload (new_command_row c required now db) = cc_payload c"
  "cm_status (new_command_row c required now db) = Cmd_registered"
  by (simp_all add: new_command_row_def)

lemma quiet_insert_command: "statement_along quiet (sql_insert_command c required)"
proof (rule statement_alongI)
  fix now db r db'
  assume "sql_insert_command c required now db = Inr (r, db')"
  from insert_command_Inr [OF this]
  consider "db' = db"
  | "db' = db\<lparr>commands := commands db @ [new_command_row c required now db]\<rparr>"
    "list_all fst (validate_mutation_command_insert (new_command_row c required now db) db
       @ command_unique (new_command_row c required now db) db)"
    by (auto simp: Let_def)
  then show "quiet db db'"
  proof cases
    case 1
    then show ?thesis by (simp add: quiet_refl)
  next
    case 2
    have "mutations_ok db'" if "mutations_ok db"
      unfolding 2(1)
      by (rule mutations_ok_insert [OF that])
        (use 2(2) in \<open>auto simp: validate_mutation_command_insert_def command_unique_def warranted_def\<close>)
    then show ?thesis by (simp add: 2 quiet_def extends_def identities_def)
  qed
qed

lemma read_only_along: "statement_along quiet (read_only f)"
  by (rule statement_alongI) (auto simp: read_only_def quiet_refl)

lemma quiet_register: "keeps (db_moves quiet) (register le c required)"
  unfolding register_def findByIdempotency_def findOne_def
  by (intro quiet.keeps_pool quiet_insert_command read_only_along)

lemma quiet_find_command: "keeps (db_moves quiet) (findByCommandId hh cid)"
  unfolding findByCommandId_def findOne_def by (intro quiet.keeps_pool read_only_along)

lemma quiet_mark:
  "keeps (db_moves quiet) (markExecutionPending hh cid)"
  "keeps (db_moves quiet) (markExecutionFailed hh cid failure)"
  unfolding markExecutionPending_def markExecutionFailed_def
  by (intro quiet.keeps_pool quiet_mark_pending quiet_mark_failed)+

lemma quiet_find_receipt: "keeps (db_moves quiet) (findReceiptByCommand hh cid)"
  unfolding findReceiptByCommand_def by (intro quiet.keeps_pool read_only_along)

lemma quiet_find_readback: "keeps (db_moves quiet) (findReadbackByCommand hh cid)"
  unfolding findReadbackByCommand_def by (intro quiet.keeps_pool read_only_along)

section \<open>Read-backs and commits\<close>

text \<open>The row of a command is unique, so a row with its key is the one a test has found.\<close>

lemma same_row:
  assumes "tables_ok db" "list_ex (in_status hh cid s) (commands db)"
    and "c \<in> set (commands db)" "command_key hh cid c"
  shows "in_status hh cid s c"
proof -
  obtain c' where c': "c' \<in> set (commands db)" "in_status hh cid s c'"
    using assms(2) by (auto simp: list_ex_iff)
  have "unique_on cm_id (commands db)" using assms(1) by (simp add: tables_ok_def)
  then have "c = c'"
    by (rule unique_onD) (use assms(3,4) c' in \<open>auto simp: in_status_def command_key_def\<close>)
  with c' show ?thesis by simp
qed

lemma find_append_new: "find p xs = None \<Longrightarrow> find p (xs @ [y]) = (if p y then Some y else None)"
  by (simp add: find_append)

lemma find_append_other: "\<not> p y \<Longrightarrow> find p (xs @ [y]) = find p xs"
  by (simp add: find_append split: option.split)

lemma find_key_None: "find (\<lambda>x. key x = k) xs = None \<longleftrightarrow> k \<notin> key ` set xs"
  by (auto simp: find_None_iff)

lemma tables_ok_readback:
  assumes t: "tables_ok db" and c: "has_command (rk_household k) (rk_command k) db"
    and r: "has_receipt (rk_household k) (rk_command k) (rk_receipt k) db"
    and new: "find_readback_row (rk_household k) (rk_command k) db = None"
  shows "tables_ok (db\<lparr>readbacks := readbacks db @ [k]\<rparr>)"
proof -
  let ?db = "db\<lparr>readbacks := readbacks db @ [k]\<rparr>"
  have w: "warranted ?db = warranted db"
    by (rule ext, rule warranted_cong) simp_all
  have h: "has_command hh cid ?db = has_command hh cid db"
    "has_receipt hh cid rid ?db = has_receipt hh cid rid db" for hh cid rid
    by (simp_all add: has_command_def has_receipt_def)
  have "readback_key k \<notin> readback_key ` set (readbacks db)"
    using new unfolding find_readback_key find_key_None by (simp add: readback_key_def)
  then show ?thesis using t c r by (simp add: tables_ok_def w h unique_on_append)
qed

lemma mutations_ok_readback:
  assumes ok: "mutations_ok db"
    and c: "list_ex (in_status (rk_household k) (rk_command k) Cmd_committed) (commands db)"
    and r: "has_receipt (rk_household k) (rk_command k) (rk_receipt k) db"
    and new: "find_readback_row (rk_household k) (rk_command k) db = None"
    and db': "db' = db\<lparr>readbacks := readbacks db @ [k],
        commands := update_where (in_status (rk_household k) (rk_command k) Cmd_committed)
          (set_status (if rk_ok k then Cmd_readback_verified else Cmd_readback_failed) failure now)
          (commands db)\<rparr>"
  shows "mutations_ok db'"
proof -
  let ?p = "in_status (rk_household k) (rk_command k) Cmd_committed"
  let ?db = "db\<lparr>readbacks := readbacks db @ [k]\<rparr>"
  have t: "tables_ok db" using ok by (simp add: mutations_ok_def)
  have "has_command (rk_household k) (rk_command k) db"
    using c by (auto simp: has_command_def list_ex_iff in_status_def)
  then have t': "tables_ok ?db" by (rule tables_ok_readback [OF t _ r new])
  have receipt: "find_receipt_row hh cid ?db = find_receipt_row hh cid db" for hh cid
    by (simp add: find_receipt_row_def)
  have row: "if ?p x
      then row_ok ?db (set_status (if rk_ok k then Cmd_readback_verified else Cmd_readback_failed) failure now x)
      else row_ok ?db x" if x: "x \<in> set (commands ?db)" for x
  proof (cases "?p x")
    case True
    then have key: "cm_household x = rk_household k" "cm_id x = rk_command k" "cm_status x = Cmd_committed"
      by (auto simp: in_status_def command_key_def)
    have "find_readback_row (cm_household x) (cm_id x) ?db = Some k"
      using new key by (simp add: find_readback_row_def find_append_new)
    moreover have "find_receipt_row (cm_household x) (cm_id x) db \<noteq> None"
      using row_okI [OF ok, of x] x key by (simp add: row_ok_def status_ok_def)
    ultimately show ?thesis using True by (simp add: row_ok_def receipt status_ok_def)
  next
    case False
    then have "\<not> (rk_household k = cm_household x \<and> rk_command k = cm_id x)"
      using same_row [OF t c, of x] x by (auto simp: command_key_def)
    then have "find_readback_row (cm_household x) (cm_id x) ?db = find_readback_row (cm_household x) (cm_id x) db"
      by (simp add: find_readback_row_def find_append_other)
    with False show ?thesis using row_okI [OF ok, of x] x by (simp add: row_ok_def receipt)
  qed
  show ?thesis unfolding db' using mutations_ok_update [OF t' row] by simp
qed

lemma sql_readback_Inr:
  assumes "sql_insert_readback hh r now db = Inr (n, db')"
  shows "n = 0 \<and> db' = db \<or>
    (n = 1 \<and> list_ex (in_status hh (rb_command r) Cmd_committed) (commands db)
     \<and> has_receipt hh (rb_command r) (rb_receipt r) db
     \<and> find_readback_row hh (rb_command r) db = None
     \<and> rb_checks r \<noteq> [] \<and> (rb_ok r \<longleftrightarrow> rb_mismatches r = [])
     \<and> db' = db\<lparr>readbacks := readbacks db @ [readback_row hh r]\<rparr>)"
  using assms by (auto simp: sql_insert_readback_def has_receipt_def split: if_splits)

definition readback_recorded :: "string \<Rightarrow> readback_result \<Rightarrow> 'd opsdb \<Rightarrow> 'd opsdb \<Rightarrow> bool" where
  "readback_recorded hh r d d' \<longleftrightarrow>
     quiet d d' \<and> (mutations_ok d \<longrightarrow> find_readback_row hh (rb_command r) d' = Some (readback_row hh r))"

lemma recordReadback_twp:
  "twp (recordReadback_body hh r) (\<lambda>_ d'. readback_recorded hh r d d') d"
  unfolding recordReadback_body_def
proof (rule twp_bindM, rule twp_client_query)
  fix t n d1
  assume "sql_insert_readback hh r t d = Inr (n, d1)"
  from sql_readback_Inr [OF this]
  show "twp (bindM (requireM (n = 1) stateConflict) (\<lambda>_.
      bindM (client_query (update_command_status (in_status hh (rb_command r) Cmd_committed)
        (if rb_ok r then Cmd_readback_verified else Cmd_readback_failed)
        (if rb_ok r then None else Some ''readback_mismatch''))) (\<lambda>updated.
      requireM (updated = 1) stateConflict))) (\<lambda>_. readback_recorded hh r d) d1"
  proof (elim disjE conjE)
    assume n: "n = 0"
    show ?thesis by (simp add: n requireM_def twp_raise)
  next
    assume c: "list_ex (in_status hh (rb_command r) Cmd_committed) (commands d)"
      and rc: "has_receipt hh (rb_command r) (rb_receipt r) d"
      and new: "find_readback_row hh (rb_command r) d = None"
      and d1: "d1 = d\<lparr>readbacks := readbacks d @ [readback_row hh r]\<rparr>"
    let ?s = "if rb_ok r then Cmd_readback_verified else Cmd_readback_failed"
    let ?f = "if rb_ok r then None else Some ''readback_mismatch''"
    have "readback_recorded hh r d
        (d1\<lparr>commands := update_where (in_status hh (rb_command r) Cmd_committed)
          (set_status ?s ?f now) (commands d1)\<rparr>)" for now
    proof -
      let ?d = "d1\<lparr>commands := update_where (in_status hh (rb_command r) Cmd_committed)
          (set_status ?s ?f now) (commands d1)\<rparr>"
      have "mutations_ok d \<Longrightarrow> mutations_ok ?d"
        by (rule mutations_ok_readback [where k = "readback_row hh r" and db = d and failure = ?f and now = now])
          (use c rc new in \<open>simp_all add: readback_row_def d1\<close>)
      moreover have "find_readback_row hh (rb_command r) ?d = Some (readback_row hh r)"
        using new by (simp add: find_readback_row_def d1 find_append_new readback_row_def)
      moreover have "identities ?d = identities d"
        unfolding identities_update by (simp add: identities_def d1)
      ultimately show ?thesis
        by (simp add: readback_recorded_def quiet_def extends_def) (simp add: d1)
    qed
    then show ?thesis
      by (intro twp_rules) (auto simp: update_status_Inr)
  qed
qed

lemma keeps_transaction:
  assumes "\<And>d. twp body (\<lambda>_. T d) d" and "\<And>d. T d d"
  shows "keeps (db_moves T) (transactionally_as g body)"
proof (rule keeps_dwp)
  fix d
  show "dwp (transactionally_as g body) (\<lambda>_. T d) (\<lambda>_. T d) d"
    by (rule dwp_mono [OF dwp_transactionally_as [OF assms(1)]]) (auto simp: assms(2))
qed

lemma quiet_record_readback: "keeps (db_moves quiet) (recordReadback hh r)"
  unfolding recordReadback_def
  by (intro quiet.keeps_pool(6) quiet.keeps_pool(5) keeps_transaction quiet_refl
      twp_mono [OF recordReadback_twp]) (simp add: readback_recorded_def)

text \<open>The commit adds the receipt and moves the command, which is the only one with its key.\<close>

definition commit_key :: "commit_input \<Rightarrow> command_status \<Rightarrow> command_row \<Rightarrow> bool" where
  "commit_key i s = in_status (ci_household i) (ci_command i) s"

definition committed_db :: "commit_input \<Rightarrow> nat \<Rightarrow> 'd opsdb \<Rightarrow> 'd opsdb" where
  "committed_db i now db = db\<lparr>receipts := receipts db @ [new_receipt_row i now],
     commands := update_where (commit_key i Cmd_execution_pending) (set_status Cmd_committed None now)
       (commands db)\<rparr>"

lemma commit_Inr:
  assumes "commit_mutation_command i now db = Inr (r, db')"
  shows "r = (ci_receipt i, now)" and "db' = committed_db i now db"
    and "list_ex (commit_key i Cmd_execution_pending) (commands db)"
    and "find_receipt_row (ci_household i) (ci_command i) db = None"
    and "\<forall>r \<in> set (receipts db). rt_id r \<noteq> ci_receipt i"
    and "ci_records i \<noteq> []" and "sha256_hex (ci_expected_hash i)"
  using assms
  by (auto simp: commit_mutation_command_def Let_def update_status_Inr committed_db_def
      commit_key_def split: if_splits sum.splits)

lemma tables_ok_receipt:
  assumes t: "tables_ok db" and c: "has_command (rt_household r) (rt_command r) db"
    and new: "find_receipt_row (rt_household r) (rt_command r) db = None"
    and i: "\<forall>r' \<in> set (receipts db). rt_id r' \<noteq> rt_id r"
  shows "tables_ok (db\<lparr>receipts := receipts db @ [r]\<rparr>)"
proof -
  let ?db = "db\<lparr>receipts := receipts db @ [r]\<rparr>"
  have w: "warranted ?db = warranted db"
    by (rule ext, rule warranted_cong) simp_all
  have h: "has_command hh cid ?db = has_command hh cid db"
    "has_receipt hh cid rid db \<Longrightarrow> has_receipt hh cid rid ?db" for hh cid rid
    by (simp_all add: has_command_def has_receipt_def)
  have "receipt_key r \<notin> receipt_key ` set (receipts db)"
    using new unfolding find_receipt_key find_key_None by (simp add: receipt_key_def)
  moreover have "rt_id r \<notin> rt_id ` set (receipts db)" using i by auto
  ultimately show ?thesis using t c
    by (auto simp: tables_ok_def w h unique_on_append elim!: list.pred_mono_strong)
qed

lemma mutations_ok_commit:
  assumes ok: "mutations_ok db"
    and c: "list_ex (commit_key i Cmd_execution_pending) (commands db)"
    and new: "find_receipt_row (ci_household i) (ci_command i) db = None"
    and i: "\<forall>r \<in> set (receipts db). rt_id r \<noteq> ci_receipt i"
  shows "mutations_ok (committed_db i now db)"
proof -
  let ?p = "commit_key i Cmd_execution_pending"
  let ?r = "new_receipt_row i now"
  let ?db = "db\<lparr>receipts := receipts db @ [?r]\<rparr>"
  have r: "rt_household ?r = ci_household i" "rt_command ?r = ci_command i" "rt_id ?r = ci_receipt i"
    by (simp_all add: new_receipt_row_def)
  have t: "tables_ok db" using ok by (simp add: mutations_ok_def)
  have "has_command (ci_household i) (ci_command i) db"
    using c by (auto simp: has_command_def list_ex_iff in_status_def commit_key_def)
  then have t': "tables_ok ?db"
    using new i by (intro tables_ok_receipt [OF t]) (simp_all add: r)
  have readback: "find_readback_row hh cid ?db = find_readback_row hh cid db" for hh cid
    by (simp add: find_readback_row_def)
  have row: "if ?p x then row_ok ?db (set_status Cmd_committed None now x) else row_ok ?db x"
    if x: "x \<in> set (commands ?db)" for x
  proof (cases "?p x")
    case True
    then have key: "cm_household x = ci_household i" "cm_id x = ci_command i" "cm_status x = Cmd_execution_pending"
      by (auto simp: commit_key_def in_status_def command_key_def)
    have "find_receipt_row (cm_household x) (cm_id x) ?db = Some ?r"
      using new key by (simp add: find_receipt_row_def find_append_new r)
    moreover have "find_readback_row (cm_household x) (cm_id x) db = None"
      using row_okI [OF ok, of x] x key by (auto simp: row_ok_def status_ok_def split: option.splits if_splits)
    ultimately show ?thesis using True by (simp add: row_ok_def readback status_ok_def)
  next
    case False
    then have "\<not> (rt_household ?r = cm_household x \<and> rt_command ?r = cm_id x)"
      using same_row [OF t c [unfolded commit_key_def], of x] x
      by (auto simp: command_key_def r commit_key_def)
    then have "find_receipt_row (cm_household x) (cm_id x) ?db = find_receipt_row (cm_household x) (cm_id x) db"
      by (simp add: find_receipt_row_def find_append_other)
    with False show ?thesis using row_okI [OF ok, of x] x by (simp add: row_ok_def readback)
  qed
  show ?thesis unfolding committed_db_def using mutations_ok_update [OF t' row] by simp
qed

lemma extends_committed:
  assumes "commit_mutation_command i now db = Inr (r, db')"
  shows "extends db db'"
  using mutations_ok_commit commit_Inr [OF assms]
  by (auto simp: extends_def identities_def committed_db_def map_update_where)

lemma domain_committed [simp]: "domain (committed_db i now db) = domain db"
  by (simp add: committed_db_def)

lemma receipts_committed: "receipts (committed_db i now db) = receipts db @ [new_receipt_row i now]"
  by (simp add: committed_db_def)

lemma identities_committed [simp]: "identities (committed_db i now db) = identities db"
  unfolding identities_def committed_db_def by (auto intro: map_update_where)

lemma commit_bridge_twp:
  "twp (commit_bridge i) (\<lambda>r d'. \<exists>t. commit_mutation_command i t d = Inr (r, d')) d"
  unfolding commit_bridge_def requireId_def
  by (intro twp_rethrow twp_rules) auto

lemma claim_twp:
  "twp (claim hh cid) (\<lambda>r d'. d' = d \<and> claim_mutation_command hh cid d = Some r) d"
  unfolding claim_def
  by (intro twp_rethrow twp_bindM twp_client_query) (auto intro!: twp_rules split: option.split)

section \<open>The ledger and the artifacts\<close>

text \<open>The verification ledger and the artifact store never touch the mutation tables.\<close>

lemma quiet_tables:
  "artifacts db' = artifacts db \<Longrightarrow> verdicts db' = verdicts db \<Longrightarrow>
   confirmations db' = confirmations db \<Longrightarrow> commands db' = commands db \<Longrightarrow>
   receipts db' = receipts db \<Longrightarrow> readbacks db' = readbacks db \<Longrightarrow> domain db' = domain db \<Longrightarrow>
   quiet db db'"
  by (rule quiet_ledger [where as = "[]" and vs = "[]" and es = "[]"]) simp_all

lemma quiet_ledger_statements:
  "statement_along quiet (sql_insert_task ct)"
  "statement_along quiet (sql_insert_transition tr)"
  "statement_along quiet (sql_update_task ti)"
  "statement_along quiet (sql_select_contract xi)"
  "statement_along quiet (sql_link_maker hh task aid hash)"
  "statement_along quiet (sql_link_checker hh task aid)"
  by (rule statement_alongI, rule quiet_tables;
      auto simp: sql_insert_task_def sql_insert_transition_def sql_update_task_def
        sql_select_contract_def sql_link_maker_def sql_link_checker_def Let_def split: if_splits)+

lemma quiet_appends:
  "\<exists>as. artifacts db' = artifacts db @ as \<Longrightarrow> \<exists>vs. verdicts db' = verdicts db @ vs \<Longrightarrow>
   \<exists>es. confirmations db' = confirmations db @ es \<Longrightarrow> commands db' = commands db \<Longrightarrow>
   receipts db' = receipts db \<Longrightarrow> readbacks db' = readbacks db \<Longrightarrow> domain db' = domain db \<Longrightarrow>
   quiet db db'"
  by (elim exE, rule quiet_ledger)

lemma quiet_insert_verdict: "statement_along quiet (sql_insert_verdict hh task aid v)"
  by (rule statement_alongI, rule quiet_appends)
    (auto simp: sql_insert_verdict_def split: if_splits)

lemma quiet_insert_artifact: "statement_along quiet (sql_insert_artifact a c)"
  by (rule statement_alongI, rule quiet_appends)
    (auto simp: sql_insert_artifact_def split: if_splits)

lemma quiet_insert_confirmation: "statement_along quiet (sql_insert_confirmation e)"
  by (rule statement_alongI, rule quiet_appends)
    (auto simp: sql_insert_confirmation_def split: if_splits)

lemma quiet_load: "keeps (client_moves quiet) (loadTaskForUpdate hh task)"
  unfolding loadTaskForUpdate_def requireId_def by (intro quiet.keeps_client read_only_along)

lemma quiet_transition: "keeps (db_moves quiet) (transition i)"
  unfolding transition_def transactionally_def transition_body_def
  by (intro quiet.keeps_transactionally quiet.keeps_client quiet_load read_only_along
      quiet_ledger_statements)

lemma quiet_create: "keeps (db_moves quiet) (createTask i)"
  unfolding createTask_def transactionally_def createTask_body_def requireId_def
  by (intro quiet.keeps_transactionally quiet.keeps_client read_only_along quiet_ledger_statements)

lemma quiet_verdict: "keeps (db_moves quiet) (recordCheckerVerdict hh task aid v)"
  unfolding recordCheckerVerdict_def transactionally_def recordCheckerVerdict_body_def requireId_def
  by (intro quiet.keeps_transactionally quiet.keeps_client quiet_load read_only_along
      quiet_ledger_statements quiet_insert_verdict)

lemma quiet_contract:
  "keeps (db_moves quiet) (selectExecutionContract x)"
  "keeps (db_moves quiet) (linkMakerArtifact hh task aid hash)"
  unfolding selectExecutionContract_def linkMakerArtifact_def requireId_def
  by (intro quiet.keeps_pool quiet_ledger_statements)+

lemma quiet_find_task: "keeps (db_moves quiet) (findTask hh task)"
  unfolding findTask_def by (intro quiet.keeps_pool read_only_along)

lemma quiet_latest: "keeps (db_moves quiet) (findLatestVerdict hh task)"
  unfolding findLatestVerdict_def
  by (intro quiet.keeps_pool read_only_along) (auto intro!: quiet.keeps_pool split: prod.split option.split)

lemma quiet_confirmation: "keeps (db_moves quiet) (recordConfirmation e)"
  unfolding recordConfirmation_def by (intro quiet.keeps_pool quiet_insert_confirmation)

lemma quiet_artifacts:
  "keeps (db_moves quiet) (insertArtifact a c)"
  "keeps (db_moves quiet) (findById aid)"
  unfolding insertArtifact_def findById_def findWhere_def requireId_def
  by (intro quiet.keeps_pool quiet_insert_artifact read_only_along)+

lemma quiet_get_verified: "keeps (db_moves quiet) (getVerified h postgres_artifacts aid)"
  unfolding getVerified_def
  by (intro quiet.keeps_pool) (simp add: postgres_artifacts_def quiet_artifacts)

end
