(* ===== verification/SerializableRunner.thy ===== *)
theory SerializableRunner
  imports MutationInvariant
begin

text \<open>
  The serializable mutation runner: packages/mutations/src/serializable-runner.ts. One attempt
  is one SERIALIZABLE transaction on a client of the handler's domain role: claim the command,
  run the handler, record the receipt, commit. The two local flags of the source, \<open>began\<close> and
  \<open>commitAttempted\<close>, are arguments of the catch block.
\<close>

record mutation_policy =
  mp_attempts :: int
  mp_statement :: nat
  mp_lock :: nat
  mp_idle :: nat
  mp_overall :: nat
  mp_delay :: nat

record policy_overrides =
  po_attempts :: "int option"
  po_statement :: "nat option"
  po_lock :: "nat option"
  po_idle :: "nat option"
  po_overall :: "nat option"
  po_delay :: "nat option"

definition defaultPolicy :: mutation_policy where
  "defaultPolicy = \<lparr>mp_attempts = 3, mp_statement = 5000, mp_lock = 1000, mp_idle = 5000,
     mp_overall = 15000, mp_delay = 25\<rparr>"

definition override :: "'a option \<Rightarrow> 'a \<Rightarrow> 'a" where
  "override v x = (case v of None \<Rightarrow> x | Some y \<Rightarrow> y)"

definition runner_policy :: "policy_overrides \<Rightarrow> exn + mutation_policy" where
  "runner_policy o' =
    (let p = \<lparr>mp_attempts = override (po_attempts o') (mp_attempts defaultPolicy),
              mp_statement = override (po_statement o') (mp_statement defaultPolicy),
              mp_lock = override (po_lock o') (mp_lock defaultPolicy),
              mp_idle = override (po_idle o') (mp_idle defaultPolicy),
              mp_overall = override (po_overall o') (mp_overall defaultPolicy),
              mp_delay = override (po_delay o') (mp_delay defaultPolicy)\<rparr>
     in if mp_attempts p < 1 \<or> mp_attempts p > 5
        then Inl (JsError ''Serializable mutation attempts must be between 1 and 5'')
        else Inr p)"

section \<open>Errors\<close>

definition isSerializationFailure :: "exn \<Rightarrow> bool" where
  "isSerializationFailure e \<longleftrightarrow> error_code e = Some ''40001''"

definition isConnectionFailure :: "exn \<Rightarrow> bool" where
  "isConnectionFailure e \<longleftrightarrow> (case error_code e of None \<Rightarrow> False | Some c \<Rightarrow> take 2 c = ''08'')"

definition retryExhausted :: "string \<Rightarrow> exn" where
  "retryExhausted c = plusOne Serialization_conflict c After_state_resolution True"

definition ambiguous_mutation_commit :: exn where
  "ambiguous_mutation_commit =
    plusOne Storage_unavailable ''ambiguous_mutation_commit'' After_state_resolution True"

section \<open>One attempt\<close>

definition applyTimeouts :: "mutation_policy \<Rightarrow> ('d opsdb, unit) dbm" where
  "applyTimeouts p = client_query (read_only (\<lambda>_. ()))"

definition requireExistingReceipt :: "checked_command \<Rightarrow> ('d opsdb, mutation_receipt) dbm" where
  "requireExistingReceipt c =
    bindM (findReceiptByCommand (cc_household c) (cc_id c)) (\<lambda>r.
      case r of
        None \<Rightarrow> raise (plusOne Constraint_violation ''committed_command_receipt_missing'' Never True)
      | Some receipt \<Rightarrow> ret receipt)"

text \<open>The catch block: \<open>None\<close> means \<open>continue\<close> with the next attempt.\<close>

definition on_failure :: "mutation_policy \<Rightarrow> checked_command \<Rightarrow> nat \<Rightarrow> bool \<Rightarrow> bool \<Rightarrow> exn \<Rightarrow>
    ('d opsdb, mutation_receipt option) dbm" where
  "on_failure p c attempt began commitAttempted e =
    bindM (if began \<and> \<not> commitAttempted
           then bindM (quietly rollback_transaction) (\<lambda>_. ret ()) else ret ()) (\<lambda>_.
    bindM (if commitAttempted \<or> isConnectionFailure e
           then findReceiptByCommand (cc_household c) (cc_id c) else ret None) (\<lambda>receipt.
      case receipt of
        Some r \<Rightarrow> ret (Some r)
      | None \<Rightarrow>
          if commitAttempted then raise ambiguous_mutation_commit
          else if isSerializationFailure e \<and> int attempt < mp_attempts p
          then bindM (sleep_ms (mp_delay p * attempt)) (\<lambda>_. ret None)
          else if isSerializationFailure e
          then raise (retryExhausted ''serialization_retry_exhausted'')
          else raise (if is_plus_one e then e else normalizeDatabaseError False e)))"

definition commit_input_of :: "hashing \<Rightarrow> checked_command \<Rightarrow> string \<Rightarrow> execution_output \<Rightarrow> commit_input" where
  "commit_input_of h c rid out =
    \<lparr>ci_household = cc_household c, ci_command = cc_id c, ci_receipt = rid,
     ci_records = eo_records out, ci_expected = eo_expected out,
     ci_expected_hash = hashArtifact h (eo_expected out)\<rparr>"

definition receipt_from :: "hashing \<Rightarrow> checked_command \<Rightarrow> execution_output \<Rightarrow> string \<times> nat \<Rightarrow> mutation_receipt" where
  "receipt_from h c out committed =
    \<lparr>mr_id = fst committed, mr_command = cc_id c, mr_household = cc_household c,
     mr_task = cc_task c, mr_proposal = cc_proposal c, mr_proposal_hash = cc_proposal_hash c,
     mr_type = cc_type c, mr_idem = cc_idem c, mr_records = eo_records out,
     mr_expected = eo_expected out, mr_expected_hash = hashArtifact h (eo_expected out),
     mr_committed = snd committed\<rparr>"

definition execute_handler :: "hashing \<Rightarrow> checked_command \<Rightarrow> 'd handler \<Rightarrow> json \<Rightarrow> string \<Rightarrow>
    ('d opsdb, execution_output \<times> (string \<times> nat)) dbm" where
  "execute_handler h c hn input rid =
    bindM (run_script on_domain (h_execute hn input (context_of c))) (\<lambda>out.
    bindM (commit_bridge (commit_input_of h c rid out)) (\<lambda>committed.
      ret (out, committed)))"

definition run_attempt :: "hashing \<Rightarrow> mutation_policy \<Rightarrow> checked_command \<Rightarrow> 'd handler \<Rightarrow> json \<Rightarrow>
    string \<Rightarrow> nat \<Rightarrow> ('d opsdb, mutation_receipt option) dbm" where
  "run_attempt h p c hn input rid attempt =
    with_client
      (thenM begin_transaction (on_failure p c attempt False False) (\<lambda>_.
       thenM (bindM (applyTimeouts p) (\<lambda>_. claim (cc_household c) (cc_id c)))
         (on_failure p c attempt True False) (\<lambda>(status, _).
       if status \<noteq> Cmd_execution_pending
       then
         thenM rollback_transaction (on_failure p c attempt True False) (\<lambda>_.
         thenM (requireExistingReceipt c) (on_failure p c attempt False False) (\<lambda>r. ret (Some r)))
       else
         thenM (execute_handler h c hn input rid) (on_failure p c attempt True False) (\<lambda>(out, committed).
         thenM commit_transaction (on_failure p c attempt True True) (\<lambda>_.
         thenM
           (bindM (requireM (MutationReceiptSchemaV1 (receipt_from h c out committed)) ZodError)
             (\<lambda>_. ret (receipt_from h c out committed)))
           (on_failure p c attempt False True) (\<lambda>r. ret (Some r)))))))"

text \<open>The loop: \<open>left\<close> attempts remain, and \<open>attempt\<close> is the number of the next one.\<close>

fun run_attempts :: "hashing \<Rightarrow> mutation_policy \<Rightarrow> checked_command \<Rightarrow> 'd handler \<Rightarrow> json \<Rightarrow>
    string \<Rightarrow> nat \<Rightarrow> nat \<Rightarrow> nat \<Rightarrow> ('d opsdb, mutation_receipt) dbm" where
  "run_attempts h p c hn input rid started attempt 0 =
     raise (retryExhausted ''serialization_retry_exhausted'')"
| "run_attempts h p c hn input rid started attempt (Suc left) =
     bindM now_ms (\<lambda>now.
     if now - started \<ge> mp_overall p then raise (retryExhausted ''mutation_overall_timeout'')
     else
       bindM (run_attempt h p c hn input rid attempt) (\<lambda>r.
         case r of
           Some receipt \<Rightarrow> ret receipt
         | None \<Rightarrow> run_attempts h p c hn input rid started (attempt + 1) left))"

definition runner_run :: "hashing \<Rightarrow> mutation_policy \<Rightarrow> checked_command \<Rightarrow> 'd handler \<Rightarrow> json \<Rightarrow>
    string \<Rightarrow> ('d opsdb, mutation_receipt) dbm" where
  "runner_run h p c hn input rid =
    bindM now_ms (\<lambda>started. run_attempts h p c hn input rid started 1 (nat (mp_attempts p)))"

section \<open>What an attempt does\<close>

text \<open>The row of the command that is run, and the one way the runner changes the database.\<close>

definition row_matches :: "checked_command \<Rightarrow> command_row \<Rightarrow> bool" where
  "row_matches c r \<longleftrightarrow>
     cm_id r = cc_id c \<and> cm_household r = cc_household c \<and> cm_task r = cc_task c
     \<and> cm_type r = cc_type c \<and> cm_proposal r = cc_proposal c
     \<and> cm_proposal_hash r = cc_proposal_hash c \<and> cm_idem r = cc_idem c"

definition runs_once :: "hashing \<Rightarrow> checked_command \<Rightarrow> 'd handler \<Rightarrow> json \<Rightarrow> string \<Rightarrow>
    'd opsdb \<Rightarrow> 'd opsdb \<Rightarrow> bool" where
  "runs_once h c hn input rid d d' \<longleftrightarrow>
     (\<exists>out y t r. script_result (h_execute hn input (context_of c)) (domain d) out y
        \<and> commit_mutation_command (commit_input_of h c rid out) t (d\<lparr>domain := y\<rparr>) = Inr (r, d'))"

definition run_outcome :: "hashing \<Rightarrow> checked_command \<Rightarrow> 'd handler \<Rightarrow> json \<Rightarrow> string \<Rightarrow>
    'd opsdb \<Rightarrow> 'd opsdb \<Rightarrow> bool" where
  "run_outcome h c hn input rid d d' \<longleftrightarrow> d' = d \<or> runs_once h c hn input rid d d'"

definition matched :: "checked_command \<Rightarrow> 'd opsdb \<Rightarrow> bool" where
  "matched c d \<longleftrightarrow> (\<exists>r. find_command_row (cc_household c) (cc_id c) d = Some r \<and> row_matches c r)"

lemma owp_find_receipt:
  "Q (stored_receipt hh cid d) d \<Longrightarrow> (\<And>p. E (PgFailure p) d) \<Longrightarrow> E ZodError d \<Longrightarrow>
   owp (findReceiptByCommand hh cid) Q E d"
  unfolding findReceiptByCommand_def
  by (intro owp_rules) (auto simp: read_only_def)

lemma owp_on_failure:
  "(\<And>r. stored_receipt (cc_household c) (cc_id c) d = Some r \<Longrightarrow> Q (Some r) d) \<Longrightarrow>
   (\<not> ca \<Longrightarrow> Q None d) \<Longrightarrow> (\<And>e'. \<not> ca \<Longrightarrow> E e' d) \<Longrightarrow> (\<And>p. E (PgFailure p) d) \<Longrightarrow>
   E ZodError d \<Longrightarrow> (ca \<Longrightarrow> E ambiguous_mutation_commit d) \<Longrightarrow> owp (on_failure p c attempt began ca e) Q E d"
  unfolding on_failure_def
  by (intro owp_rules owp_find_receipt) auto

lemma find_command_update:
  "find_command_row hh cid (committed_db i now d) =
     map_option (\<lambda>c. if commit_key i Cmd_execution_pending c then set_status Cmd_committed None now c else c)
       (find_command_row hh cid d)"
  unfolding find_command_row_def committed_db_def
  by (simp add: find_update_where_same)

lemma row_matches_set_status [simp]: "row_matches c (set_status s failure now r) = row_matches c r"
  by (simp add: row_matches_def set_status_def)

lemma find_command_domain [simp]: "find_command_row hh cid (d\<lparr>domain := y\<rparr>) = find_command_row hh cid d"
  by (simp add: find_command_row_def)

text \<open>The receipt the runner returns is the one it stored.\<close>

lemma committed_receipt:
  assumes "commit_mutation_command (commit_input_of h c rid out) t (d\<lparr>domain := y\<rparr>) = Inr (r, d')"
    and "matched c d"
  shows "stored_receipt (cc_household c) (cc_id c) d' = Some (receipt_from h c out r)" and "matched c d'"
proof -
  let ?i = "commit_input_of h c rid out"
  obtain row where row: "find_command_row (cc_household c) (cc_id c) d = Some row" "row_matches c row"
    using assms(2) by (auto simp: matched_def)
  note committed = commit_Inr [OF assms(1)]
  have receipt: "find_receipt_row (cc_household c) (cc_id c) d' = Some (new_receipt_row ?i t)"
    using committed(4) unfolding committed(2)
    by (simp add: find_receipt_row_def receipts_committed find_append_new new_receipt_row_def
        commit_input_of_def)
  obtain row' where row': "find_command_row (cc_household c) (cc_id c) d' = Some row'" "row_matches c row'"
    using row by (auto simp: committed(2) find_command_update)
  then show "matched c d'" by (auto simp: matched_def)
  show "stored_receipt (cc_household c) (cc_id c) d' = Some (receipt_from h c out r)"
    using receipt row' committed(1)
    by (simp add: stored_receipt_def receipt_of_def receipt_from_def new_receipt_row_def
        commit_input_of_def row_matches_def)
qed

lemma execute_handler_twp:
  "twp (execute_handler h c hn input rid)
    (\<lambda>(out, r) d'. \<exists>y t. script_result (h_execute hn input (context_of c)) (domain d) out y
       \<and> commit_mutation_command (commit_input_of h c rid out) t (d\<lparr>domain := y\<rparr>) = Inr (r, d')) d"
  unfolding execute_handler_def
  by (rule twp_bindM, rule twp_mono [OF run_script_twp], elim exE conjE, rule twp_bindM,
      rule twp_mono [OF commit_bridge_twp]) (auto intro!: twp_ret)

definition attempt_post :: "hashing \<Rightarrow> checked_command \<Rightarrow> 'd handler \<Rightarrow> json \<Rightarrow> string \<Rightarrow>
    'd opsdb \<Rightarrow> mutation_receipt option \<Rightarrow> 'd opsdb \<Rightarrow> bool" where
  "attempt_post h c hn input rid d r d' \<longleftrightarrow>
     (case r of
        None \<Rightarrow> d' = d
      | Some receipt \<Rightarrow> run_outcome h c hn input rid d d'
          \<and> stored_receipt (cc_household c) (cc_id c) d' = Some receipt)"

text \<open>An error that does not ask for a receipt lookup means that nothing was committed.\<close>

definition attempt_error :: "hashing \<Rightarrow> checked_command \<Rightarrow> 'd handler \<Rightarrow> json \<Rightarrow> string \<Rightarrow>
    'd opsdb \<Rightarrow> exn \<Rightarrow> 'd opsdb \<Rightarrow> bool" where
  "attempt_error h c hn input rid d e d' \<longleftrightarrow>
     run_outcome h c hn input rid d d' \<and> (is_plus_one e \<and> \<not> e_receipt_lookup e \<longrightarrow> d' = d)"

lemma attempt_error_same [simp]: "attempt_error h c hn input rid d e d"
  by (simp add: attempt_error_def run_outcome_def)

lemma applyTimeouts_claim_twp:
  "twp (bindM (applyTimeouts p) (\<lambda>_. claim hh cid))
    (\<lambda>r d'. d' = d \<and> claim_mutation_command hh cid d = Some r) d"
  unfolding applyTimeouts_def
  by (intro twp_bindM twp_client_query) (auto intro: claim_twp)

lemma run_attempt_dwp:
  assumes "matched c d"
  shows "dwp (run_attempt h p c hn input rid attempt) (attempt_post h c hn input rid d)
    (attempt_error h c hn input rid d) d"
  (is "dwp _ ?Q ?E d")
proof -
  have same: "owp (on_failure p c attempt b False e) ?Q ?E d" for b e
    by (rule owp_on_failure) (auto simp: attempt_post_def run_outcome_def)
  have tried: "owp (on_failure p c attempt b True e) ?Q ?E d'"
    if "run_outcome h c hn input rid d d'" for b e d'
    by (rule owp_on_failure) (use that in \<open>auto simp: attempt_post_def attempt_error_def ambiguous_mutation_commit_def\<close>)
  have existing: "owp (thenM rollback_transaction (on_failure p c attempt True False) (\<lambda>_.
      thenM (requireExistingReceipt c) (on_failure p c attempt False False) (\<lambda>r. ret (Some r)))) ?Q ?E d"
    unfolding requireExistingReceipt_def
    by (intro owp_thenM owp_rollback owp_bindM owp_find_receipt owp_option owp_raise owp_ret same)
      (auto simp: attempt_post_def run_outcome_def)
  have finish: "iwp (thenM commit_transaction (on_failure p c attempt True True) (\<lambda>_.
      thenM (bindM (requireM (MutationReceiptSchemaV1 (receipt_from h c out r)) ZodError)
          (\<lambda>_. ret (receipt_from h c out r)))
        (on_failure p c attempt False True) (\<lambda>r. ret (Some r)))) ?Q ?E d c'"
    if script: "script_result (h_execute hn input (context_of c)) (domain d) out y"
      and commit: "commit_mutation_command (commit_input_of h c rid out) t (d\<lparr>domain := y\<rparr>) = Inr (r, c')"
    for out y t r c'
  proof -
    have once: "run_outcome h c hn input rid d c'"
      unfolding run_outcome_def runs_once_def using script commit by (cases r) blast
    show ?thesis
      by (intro iwp_commit owp_thenM owp_bindM owp_requireM owp_ret tried once)
        (use once committed_receipt(1) [OF commit assms] in \<open>auto simp: attempt_post_def run_outcome_def\<close>)
  qed
  show ?thesis
    unfolding run_attempt_def
  proof (rule dwp_with_client, rule owp_begin, rule iwp_body [OF applyTimeouts_claim_twp], goal_cases)
    case (1 x c')
    then show ?case
      by (cases x) (auto intro!: owp_iwp [OF existing] iwp_body [OF execute_handler_twp] same finish)
  qed (auto intro: same)
qed

section \<open>The runner\<close>

lemma run_attempts_dwp:
  assumes "matched c d"
  shows "dwp (run_attempts h p c hn input rid started attempt left)
    (\<lambda>r. attempt_post h c hn input rid d (Some r)) (attempt_error h c hn input rid d) d"
proof (induction left arbitrary: attempt)
  case 0
  then show ?case by (simp add: dwp_raise)
next
  case (Suc left)
  show ?case
    unfolding run_attempts.simps
    by (intro dwp_bindM dwp_now dwp_if dwp_raise, simp,
        rule dwp_mono [OF run_attempt_dwp [OF assms]])
      (auto simp: attempt_post_def intro!: dwp_ret Suc.IH [unfolded attempt_post_def option.case] split: option.splits)
qed

lemma runner_run_dwp:
  assumes "matched c d"
  shows "dwp (runner_run h p c hn input rid)
    (\<lambda>r. attempt_post h c hn input rid d (Some r)) (attempt_error h c hn input rid d) d"
  unfolding runner_run_def by (intro dwp_bindM dwp_now run_attempts_dwp assms)

lemma runs_once_receipts:
  assumes "runs_once h c hn input rid d d'"
  shows "\<exists>r. receipts d' = receipts d @ [r] \<and> rt_household r = cc_household c
    \<and> rt_command r = cc_id c \<and> rt_id r = rid"
  using assms
  by (auto simp: runs_once_def commit_input_of_def new_receipt_row_def receipts_committed
      dest!: commit_Inr(2))

end
