(* ===== verification/CommandStateResolver.thy ===== *)
theory CommandStateResolver
  imports SerializableRunner
begin

text \<open>
  The command-state resolver: packages/mutations/src/command-state-resolver.ts. It brings the
  verification task to the status that the mutation command has reached, whichever step of an
  earlier execution was interrupted.
\<close>

definition mutation_state_inconsistent :: exn where
  "mutation_state_inconsistent =
    plusOne Constraint_violation ''mutation_state_inconsistent'' After_state_resolution True"

definition resolver_transition :: "command_row \<Rightarrow> task_status \<Rightarrow> task_status \<Rightarrow> string \<Rightarrow> bool \<Rightarrow>
    string option \<Rightarrow> ('d opsdb, task_snapshot) dbm" where
  "resolver_transition c from to reason terminal failure =
    transition
      \<lparr>ti_household = cm_household c, ti_task = cm_task c, ti_from = from, ti_to = to,
       ti_reason = reason, ti_component = ''CommandStateResolver'', ti_terminal = Some terminal,
       ti_failure = failure,
       ti_resumable = (case failure of None \<Rightarrow> None | Some f \<Rightarrow> Some False)\<rparr>"

text \<open>Move the task from one status to the next, or check that it is already there.\<close>

definition advance :: "command_row \<Rightarrow> task_status \<Rightarrow> task_status \<Rightarrow> task_status list \<Rightarrow> task_status \<Rightarrow>
    string \<Rightarrow> bool \<Rightarrow> string option \<Rightarrow> ('d opsdb, unit) dbm" where
  "advance c current from there to reason terminal failure =
    (if current = from
     then bindM (resolver_transition c from to reason terminal failure) (\<lambda>_. ret ())
     else requireM (current \<in> set there) mutation_state_inconsistent)"

definition reconcileOnce :: "string \<Rightarrow> string \<Rightarrow> ('d opsdb, command_row) dbm" where
  "reconcileOnce hh cid =
    bindM (findByCommandId hh cid) (\<lambda>found.
      case found of
        None \<Rightarrow> raise (plusOne Validation_rejected ''mutation_command_not_found'' Never False)
      | Some c \<Rightarrow>
          bindM (findTask hh (cm_task c)) (\<lambda>task.
            case task of
              None \<Rightarrow> raise mutation_state_inconsistent
            | Some t \<Rightarrow>
                (case cm_status c of
                   Cmd_registered \<Rightarrow>
                     bindM (advance c (ts_status t) Checker_validated [Execution_pending]
                       Execution_pending ''recover_registered_mutation'' False None) (\<lambda>_.
                     bindM (markExecutionPending hh cid) (\<lambda>_.
                     bindM (findByCommandId hh cid) (\<lambda>again.
                       case again of
                         None \<Rightarrow> raise (JsError ''undefined command'')
                       | Some c' \<Rightarrow> ret c')))
                 | Cmd_execution_pending \<Rightarrow>
                     bindM (advance c (ts_status t) Checker_validated [Execution_pending]
                       Execution_pending ''recover_pending_mutation'' False None) (\<lambda>_. ret c)
                 | Cmd_committed \<Rightarrow>
                     bindM (advance c (ts_status t) Execution_pending [Committed]
                       Committed ''recover_committed_mutation'' False None) (\<lambda>_. ret c)
                 | Cmd_readback_verified \<Rightarrow>
                     bindM (advance c (ts_status t) Committed [Readback_verified, Verified]
                       Readback_verified ''recover_verified_readback'' False None) (\<lambda>_. ret c)
                 | Cmd_execution_failed \<Rightarrow>
                     bindM (advance c (ts_status t) Execution_pending [Execution_failed]
                       Execution_failed ''recover_execution_failure'' True
                       (Some (case cm_failure c of None \<Rightarrow> ''runtime_failure'' | Some f \<Rightarrow> f))) (\<lambda>_. ret c)
                 | Cmd_readback_failed \<Rightarrow>
                     bindM (advance c (ts_status t) Committed [Readback_failed]
                       Readback_failed ''recover_readback_failure'' True
                       (Some (case cm_failure c of None \<Rightarrow> ''readback_mismatch'' | Some f \<Rightarrow> f))) (\<lambda>_. ret c))))"

definition resolver_retries :: "exn \<Rightarrow> bool" where
  "resolver_retries e \<longleftrightarrow>
     is_plus_one e \<and> (e_category e = Serialization_conflict \<or> error_code e = Some ''stale_task_state'')"

fun reconcile_from :: "nat \<Rightarrow> string \<Rightarrow> string \<Rightarrow> ('d opsdb, command_row) dbm" where
  "reconcile_from 0 hh cid = raise (JsError ''Unreachable reconciliation loop'')"
| "reconcile_from (Suc left) hh cid =
     catchM (reconcileOnce hh cid) (\<lambda>e.
       if \<not> resolver_retries e \<or> left = 0 then raise e else reconcile_from left hh cid)"

definition reconcile :: "string \<Rightarrow> string \<Rightarrow> ('d opsdb, command_row) dbm" where
  "reconcile hh cid = reconcile_from 3 hh cid"

section \<open>What it guarantees\<close>

text \<open>The task statuses that go with a settled command status.\<close>

fun settled :: "command_status \<Rightarrow> task_status \<Rightarrow> bool" where
  "settled Cmd_registered s = False"
| "settled Cmd_execution_pending s = (s = Execution_pending)"
| "settled Cmd_committed s = (s = Committed)"
| "settled Cmd_readback_verified s = (s \<in> {Readback_verified, Verified})"
| "settled Cmd_execution_failed s = (s = Execution_failed)"
| "settled Cmd_readback_failed s = (s = Readback_failed)"

definition resolved :: "string \<Rightarrow> string \<Rightarrow> command_row \<Rightarrow> 'd opsdb \<Rightarrow> bool" where
  "resolved hh cid c d \<longleftrightarrow>
     find_command_row hh cid d = Some c
     \<and> (\<exists>t. find_task_row hh (cm_task c) d = Some t \<and> settled (cm_status c) (t_status t))"

lemma quiet_advance: "keeps (db_moves quiet) (advance c current from there to reason terminal failure)"
  unfolding advance_def resolver_transition_def by (intro quiet.keeps_pool quiet_transition)

lemma quiet_reconcileOnce: "keeps (db_moves quiet) (reconcileOnce hh cid)"
  unfolding reconcileOnce_def
  by (intro quiet.keeps_pool quiet_find_command quiet_find_task)
    (auto intro!: quiet.keeps_pool quiet_advance quiet_mark quiet_find_command split: command_status.split)

lemma quiet_reconcile_from: "keeps (db_moves quiet) (reconcile_from n hh cid)"
  by (induction n) (auto intro!: quiet.keeps_pool quiet_reconcileOnce)

lemma quiet_reconcile: "keeps (db_moves quiet) (reconcile hh cid)"
  unfolding reconcile_def by (rule quiet_reconcile_from)

lemma find_command_dwp:
  "dwp (findByCommandId hh cid) (\<lambda>r d'. d' = d \<and> r = find_command_row hh cid d) (\<lambda>_ d'. d' = d) d"
  unfolding findByCommandId_def findOne_def find_command_row_def
  by (intro dwp_rules) auto

lemma households_transition:
  assumes "households_ok d" and "transition_effect i d x d'"
  shows "households_ok d'"
  using assms by (auto simp: transition_effect_def households_ok_def set_update_where)

lemma advance_dwp:
  assumes hh: "households_ok d" and t: "find_task_row (cm_household c) (cm_task c) d = Some t"
    and "t_status t = current"
  shows "dwp (advance c current from there to reason terminal failure)
    (\<lambda>_ d'. households_ok d' \<and> commands d' = commands d
       \<and> (\<exists>t'. find_task_row (cm_household c) (cm_task c) d' = Some t'
          \<and> (t_status t' = to \<or> t_status t' \<in> set there)))
    (\<lambda>_. households_ok) d"
proof -
  let ?i = "\<lparr>ti_household = cm_household c, ti_task = cm_task c, ti_from = from, ti_to = to,
     ti_reason = reason, ti_component = ''CommandStateResolver'', ti_terminal = Some terminal,
     ti_failure = failure,
     ti_resumable = (case failure of None \<Rightarrow> None | Some f \<Rightarrow> Some False)\<rparr>"
  have eff: "households_ok d' \<and> commands d' = commands d
      \<and> (\<exists>t'. find_task_row (cm_household c) (cm_task c) d' = Some t' \<and> t_status t' = to)"
    if "transition_effect ?i d x d'" for x d'
    using that t households_transition [OF hh that]
    by (auto simp: transition_effect_def find_task_row_def find_task_moved dest: find_SomeD)
  show ?thesis
    unfolding advance_def resolver_transition_def
    by (intro dwp_if dwp_bindM dwp_requireM dwp_mono [OF transition_dwp [OF hh]] dwp_ret)
      (use assms eff in \<open>auto dest: eff\<close>)
qed

lemma mark_pending_dwp:
  "dwp (markExecutionPending hh cid)
    (\<lambda>_ d'. \<exists>now. d' = d\<lparr>commands := update_where (in_status hh cid Cmd_registered)
        (set_status Cmd_execution_pending None now) (commands d)\<rparr>)
    (\<lambda>_ d'. tasks d' = tasks d \<and> households d' = households d) d"
  unfolding markExecutionPending_def
  by (intro dwp_rules) (auto simp: update_status_Inr)

lemma find_command_key: "find_command_row hh cid d = Some c \<Longrightarrow> cm_household c = hh \<and> cm_id c = cid"
  by (auto simp: find_command_row_def command_key_def dest: find_SomeD)

lemma find_command_same: "commands d' = commands d \<Longrightarrow> find_command_row hh cid d' = find_command_row hh cid d"
  by (simp add: find_command_row_def)

lemma advance_settles:
  assumes "households_ok d" "find_command_row hh cid d = Some c"
    and "find_task_row hh (cm_task c) d = Some t" "t_status t = current"
    and "settled (cm_status c) to" "list_all (settled (cm_status c)) there"
  shows "dwp (advance c current from there to reason terminal failure)
    (\<lambda>_ d'. households_ok d' \<and> resolved hh cid c d') (\<lambda>_. households_ok) d"
  by (rule dwp_mono [OF advance_dwp [OF assms(1) _ assms(4)]])
    (use assms(2-6) find_command_key [OF assms(2)] in
      \<open>auto simp: resolved_def find_command_row_def list_all_iff\<close>)

lemma dwp_find_command:
  "Q (find_command_row hh cid d) d \<Longrightarrow> (\<And>e. E e d) \<Longrightarrow> dwp (findByCommandId hh cid) Q E d"
  by (rule dwp_mono [OF find_command_dwp]) auto

lemma dwp_find_task:
  "Q (map_option taskRecord (find_task_row hh task d)) d \<Longrightarrow> (\<And>e. E e d) \<Longrightarrow> dwp (findTask hh task) Q E d"
  by (rule dwp_mono [OF findTask_dwp]) auto

text \<open>The last steps for a registered command.\<close>

lemma registered_settles:
  assumes c: "find_command_row hh cid d = Some c" "cm_status c = Cmd_registered"
    and d: "households_ok d" "find_task_row hh (cm_task c) d = Some t" "t_status t = Execution_pending"
  shows "dwp (bindM (markExecutionPending hh cid) (\<lambda>_.
        bindM (findByCommandId hh cid) (\<lambda>again.
          case again of None \<Rightarrow> raise (JsError ''undefined command'') | Some c' \<Rightarrow> ret c')))
      (\<lambda>c d'. households_ok d' \<and> resolved hh cid c d') (\<lambda>_. households_ok) d"
proof (rule dwp_bindM, rule dwp_mono [OF mark_pending_dwp], elim exE)
  fix d' now
  assume d': "d' = d\<lparr>commands := update_where (in_status hh cid Cmd_registered)
      (set_status Cmd_execution_pending None now) (commands d)\<rparr>"
  let ?c = "set_status Cmd_execution_pending None now c"
  have "find_command_row hh cid d' = Some ?c"
    using c find_command_key [OF c(1)]
    by (simp add: find_command_row_def d' find_update_where_same in_status_def command_key_def)
  moreover have "households_ok d'" using d(1) by (simp add: households_ok_def d')
  moreover have "find_task_row hh (cm_task c) d' = Some t"
    using d(2) by (simp add: find_task_row_def d')
  ultimately show "dwp (bindM (findByCommandId hh cid) (\<lambda>again.
        case again of None \<Rightarrow> raise (JsError ''undefined command'') | Some c' \<Rightarrow> ret c'))
      (\<lambda>c d'. households_ok d' \<and> resolved hh cid c d') (\<lambda>_. households_ok) d'"
    using d(3) by (intro dwp_bindM dwp_find_command) (auto intro!: dwp_ret simp: resolved_def)
qed (use d(1) in \<open>simp add: households_ok_def\<close>)

lemma reconcileOnce_dwp:
  assumes hh: "households_ok d"
  shows "dwp (reconcileOnce hh cid) (\<lambda>c d'. households_ok d' \<and> resolved hh cid c d')
    (\<lambda>_. households_ok) d"
  unfolding reconcileOnce_def
proof (rule dwp_bindM, rule dwp_find_command, rule dwp_option, goal_cases)
  case (2 c)
  then have c: "find_command_row hh cid d = Some c" by simp
  have key: "cm_household c = hh" using find_command_key [OF c] by simp
  show ?case
  proof (rule dwp_bindM, rule dwp_find_task, rule dwp_option, goal_cases)
    case (2 ts)
    then obtain t where t: "find_task_row hh (cm_task c) d = Some t"
      and ts: "t_status t = ts_status ts"
      by (auto simp: taskRecord_def)
    note settles = advance_settles [OF hh c t ts]
    have registered: "dwp (advance c (ts_status ts) Checker_validated [Execution_pending]
          Execution_pending reason False None)
        (\<lambda>_ d'. households_ok d' \<and> find_command_row hh cid d' = Some c
          \<and> (\<exists>t'. find_task_row hh (cm_task c) d' = Some t' \<and> t_status t' = Execution_pending))
        (\<lambda>_. households_ok) d" for reason
      by (rule dwp_mono [OF advance_dwp [OF hh _ ts]])
        (use t key c in \<open>auto simp: find_command_row_def\<close>)
    show ?case
    proof (cases "cm_status c")
      case Cmd_registered
      show ?thesis
        unfolding Cmd_registered command_status.case
        by (rule dwp_bindM, rule dwp_mono [OF registered])
          (auto intro: registered_settles simp: Cmd_registered)
    qed (auto intro!: dwp_bindM dwp_mono [OF settles] dwp_ret)
  qed (simp_all add: dwp_raise hh)
qed (simp_all add: dwp_raise hh)

lemma reconcile_dwp:
  assumes "households_ok d"
  shows "dwp (reconcile hh cid) (\<lambda>c d'. households_ok d' \<and> resolved hh cid c d')
    (\<lambda>_. households_ok) d"
proof -
  have "dwp (reconcile_from n hh cid) (\<lambda>c d'. households_ok d' \<and> resolved hh cid c d')
      (\<lambda>_. households_ok) d" if "households_ok d" for n and d :: "'a opsdb"
    using that
  proof (induction n arbitrary: d)
    case (Suc n)
    show ?case
      unfolding reconcile_from.simps
      by (rule dwp_catchM, rule dwp_mono [OF reconcileOnce_dwp [OF Suc.prems]])
        (auto intro!: dwp_raise Suc.IH)
  qed (simp add: dwp_raise)
  then show ?thesis using assms by (simp add: reconcile_def)
qed

text \<open>What the resolver and the ledger leave of the receipts of a command.\<close>

lemma dwp_quiet:
  assumes "dwp m Q E d" and "keeps (db_moves quiet) m"
  shows "dwp m (\<lambda>x d'. Q x d' \<and> quiet d d') (\<lambda>e d'. E e d' \<and> quiet d d') d"
  by (rule dwp_conj [OF assms(1) keeps_dwp_rel [OF assms(2)]])

end
