(* ===== verification/MutationExecutor.thy ===== *)
theory MutationExecutor
  imports CommandStateResolver
begin

text \<open>
  The checked mutation executor: packages/mutations/src/checked-mutation-executor.ts, with the
  maker-artifact schema of contracts/src/invocations.ts that it parses. The components it is
  built from are the PostgreSQL ones: artifact store, ledger, command repository, resolver,
  registry and runner.
\<close>

section \<open>Maker artifacts\<close>

record maker_claim =
  mk_claim_id :: string
  mk_text :: string
  mk_evidence :: "string list"

definition MakerClaimSchemaV1 :: "maker_claim \<Rightarrow> bool" where
  "MakerClaimSchemaV1 m \<longleftrightarrow>
     text_between 1 128 (mk_claim_id m) \<and> text_between 1 8000 (mk_text m)
     \<and> list_all (opaqueIdentifierSchema Id_artifact) (mk_evidence m)"

record maker_artifact =
  mk_output_schema :: schema_identity
  mk_output :: json
  mk_claims :: "maker_claim list"
  mk_assumptions :: "string list"
  mk_uncertainty :: "string list"

definition parse_claim :: "json \<Rightarrow> maker_claim option" where
  "parse_claim j = do {
     check_that (strict_object [''claimId'', ''text'', ''evidenceArtifactIds''] j);
     i \<leftarrow> Option.bind (json_field ''claimId'' j) json_string;
     t \<leftarrow> Option.bind (json_field ''text'' j) json_string;
     es \<leftarrow> Option.bind (json_field ''evidenceArtifactIds'' j) (json_array json_string);
     let m = \<lparr>mk_claim_id = i, mk_text = t, mk_evidence = es\<rparr>
     in if MakerClaimSchemaV1 m then Some m else None }"

definition MakerArtifactSchemaV1 :: "json \<Rightarrow> maker_artifact option" where
  "MakerArtifactSchemaV1 j = do {
     check_that (strict_object [''schemaName'', ''schemaVersion'', ''outputSchema'', ''output'',
       ''claims'', ''assumptions'', ''uncertainty''] j);
     check_that (json_field ''schemaName'' j = Some (JStr ''maker-artifact''));
     check_that (json_field ''schemaVersion'' j = Some (JNum 1));
     s \<leftarrow> Option.bind (json_field ''outputSchema'' j) parse_schema_identity;
     out \<leftarrow> json_field ''output'' j;
     cs \<leftarrow> Option.bind (json_field ''claims'' j) (json_array parse_claim);
     as \<leftarrow> Option.bind (json_field ''assumptions'' j) (json_array json_string);
     us \<leftarrow> Option.bind (json_field ''uncertainty'' j) (json_array json_string);
     check_that (list_all (text_between 1 2000) as \<and> list_all (text_between 1 2000) us);
     Some \<lparr>mk_output_schema = s, mk_output = out, mk_claims = cs, mk_assumptions = as,
       mk_uncertainty = us\<rparr> }"

text \<open>The schema identity an output carries, when it is an object with both fields.\<close>

definition embedded_schema :: "json \<Rightarrow> schema_identity option" where
  "embedded_schema out = do {
     n \<leftarrow> Option.bind (json_field ''schemaName'' out) json_string;
     v \<leftarrow> Option.bind (json_field ''schemaVersion'' out) json_int;
     Some \<lparr>sch_name = n, sch_version = v\<rparr> }"

definition same_schema :: "schema_identity \<Rightarrow> schema_identity \<Rightarrow> bool" where
  "same_schema a b \<longleftrightarrow> sch_name a = sch_name b \<and> sch_version a = sch_version b"

definition exact_proposal :: "hashing \<Rightarrow> checked_command \<Rightarrow> artifact \<Rightarrow> bool" where
  "exact_proposal h c a \<longleftrightarrow>
     ar_id a = cc_proposal c \<and> ar_household a = cc_household c \<and> ar_task a = cc_task c
     \<and> ar_hash a = cc_proposal_hash c
     \<and> sch_name (ar_schema a) = ''maker-artifact'' \<and> sch_version (ar_schema a) = 1
     \<and> (case MakerArtifactSchemaV1 (ar_payload a) of
          None \<Rightarrow> False
        | Some m \<Rightarrow>
            (case embedded_schema (mk_output m) of
               None \<Rightarrow> False
             | Some s \<Rightarrow> same_schema s (cc_schema c)
                 \<and> canonicalizeJson h (mk_output m) = canonicalizeJson h (cc_payload c)))"

definition assertExactArtifact :: "hashing \<Rightarrow> checked_command \<Rightarrow> artifact \<Rightarrow> exn + unit" where
  "assertExactArtifact h c a =
    (if exact_proposal h c a then Inr ()
     else Inl (plusOne Validation_rejected ''checked_proposal_identity_mismatch'' Never False))"

section \<open>Read-back\<close>

definition committed_record_json :: "committed_record \<Rightarrow> json" where
  "committed_record_json r = JObj [(''recordType'', JStr (cr_type r)), (''recordId'', JStr (cr_id r))]"

definition receipt_json :: "mutation_receipt \<Rightarrow> json" where
  "receipt_json r = JObj
     [(''schemaName'', JStr ''mutation-receipt''), (''schemaVersion'', JNum 1),
      (''receiptId'', JStr (mr_id r)), (''commandId'', JStr (mr_command r)),
      (''householdId'', JStr (mr_household r)), (''taskId'', JStr (mr_task r)),
      (''checkedProposalId'', JStr (mr_proposal r)),
      (''checkedProposalHash'', JStr (mr_proposal_hash r)),
      (''commandType'', JStr (mr_type r)), (''idempotencyKey'', JStr (mr_idem r)),
      (''committedRecords'', JArr (map committed_record_json (mr_records r))),
      (''expectedState'', mr_expected r), (''expectedStateHash'', JStr (mr_expected_hash r)),
      (''committedAt'', JNum (int (mr_committed r)))]"

fun check_kind_name :: "check_kind \<Rightarrow> string" where
  "check_kind_name Ck_identifiers = ''identifiers''"
| "check_kind_name Ck_row_values = ''row_values''"
| "check_kind_name Ck_balances = ''balances''"
| "check_kind_name Ck_source_links = ''source_links''"
| "check_kind_name Ck_artifact_links = ''artifact_links''"
| "check_kind_name Ck_idempotency_receipt = ''idempotency_receipt''"

definition requiredFailures :: "check_kind list \<Rightarrow> readback_check list \<Rightarrow> string list" where
  "requiredFailures required checks =
    concat (map (\<lambda>k.
      case find (\<lambda>ch. rc_kind ch = k) checks of
        Some ch \<Rightarrow> if rc_status ch = Check_passed then [] else [''required_check.'' @ check_kind_name k]
      | None \<Rightarrow> [''required_check.'' @ check_kind_name k]) required)"

definition receipt_matches :: "checked_command \<Rightarrow> mutation_receipt \<Rightarrow> mutation_receipt option \<Rightarrow> bool" where
  "receipt_matches c receipt persisted \<longleftrightarrow>
     (case persisted of
        None \<Rightarrow> False
      | Some r \<Rightarrow> mr_id r = mr_id receipt \<and> mr_idem r = cc_idem c \<and> mr_proposal r = cc_proposal c
          \<and> mr_proposal_hash r = cc_proposal_hash c)"

definition receipt_check :: "bool \<Rightarrow> readback_check" where
  "receipt_check ok =
    \<lparr>rc_kind = Ck_idempotency_receipt, rc_status = (if ok then Check_passed else Check_failed),
     rc_detail = (if ok then None else Some ''receipt_identity_mismatch'')\<rparr>"

definition readback_from :: "hashing \<Rightarrow> checked_command \<Rightarrow> 'd handler \<Rightarrow> mutation_receipt \<Rightarrow>
    readback_output \<Rightarrow> mutation_receipt option \<Rightarrow> string \<Rightarrow> readback_result" where
  "readback_from h c hn receipt observed persisted rid =
    (let checks = ro_checks observed @ [receipt_check (receipt_matches c receipt persisted)];
         mismatches = ro_mismatches observed @ requiredFailures (h_required hn) checks
     in \<lparr>rb_id = rid, rb_command = cc_id c, rb_receipt = mr_id receipt, rb_ok = (mismatches = []),
         rb_checks = checks, rb_mismatches = mismatches,
         rb_hash = hashArtifact h (JObj
           [(''domain'', ro_observed observed),
            (''receipt'', case persisted of None \<Rightarrow> JNull | Some r \<Rightarrow> receipt_json r)])\<rparr>)"

definition newReadbackId :: "('d opsdb, string) dbm" where
  "newReadbackId = bindM fresh_ulid (\<lambda>u. ret (''readback_'' @ u))"

definition performReadback :: "hashing \<Rightarrow> checked_command \<Rightarrow> 'd handler \<Rightarrow> json \<Rightarrow> mutation_receipt \<Rightarrow>
    ('d opsdb, readback_result) dbm" where
  "performReadback h c hn input receipt =
    with_client
      (catchM
        (bindM begin_transaction (\<lambda>_.
         bindM (client_query (read_only (\<lambda>_. ()))) (\<lambda>_.
         bindM (run_script read_domain (h_readback hn input receipt)) (\<lambda>observed.
         bindM (findReceiptByCommand (cc_household c) (cc_id c)) (\<lambda>persisted.
         bindM commit_transaction (\<lambda>_.
         bindM newReadbackId (\<lambda>rid.
         let result = readback_from h c hn receipt observed persisted rid
         in bindM (requireM (ReadbackResultSchemaV1 result) ZodError) (\<lambda>_. ret result))))))))
        (\<lambda>e. bindM (quietly rollback_transaction) (\<lambda>_. raise e)))"

definition all_check_kinds :: "check_kind list" where
  "all_check_kinds =
    [Ck_identifiers, Ck_row_values, Ck_balances, Ck_source_links, Ck_artifact_links,
     Ck_idempotency_receipt]"

definition failure_code :: "exn \<Rightarrow> string" where
  "failure_code e = (if is_plus_one e then e_code e else ''readback_execution_failed'')"

definition failed_result :: "hashing \<Rightarrow> checked_command \<Rightarrow> mutation_receipt \<Rightarrow> check_kind list \<Rightarrow>
    string \<Rightarrow> string \<Rightarrow> readback_result" where
  "failed_result h c receipt required code rid =
    \<lparr>rb_id = rid, rb_command = cc_id c, rb_receipt = mr_id receipt, rb_ok = False,
     rb_checks = map (\<lambda>k.
       if k \<in> set required
       then \<lparr>rc_kind = k, rc_status = Check_failed, rc_detail = Some code\<rparr>
       else \<lparr>rc_kind = k, rc_status = Check_not_applicable, rc_detail = None\<rparr>) all_check_kinds,
     rb_mismatches = [''readback_error.'' @ code],
     rb_hash = hashArtifact h (JObj [(''failureCode'', JStr code)])\<rparr>"

definition failedReadback :: "hashing \<Rightarrow> checked_command \<Rightarrow> mutation_receipt \<Rightarrow> check_kind list \<Rightarrow> exn \<Rightarrow>
    ('d opsdb, readback_result) dbm" where
  "failedReadback h c receipt required e =
    bindM newReadbackId (\<lambda>rid.
    let result = failed_result h c receipt required (failure_code e) rid
    in bindM (requireM (ReadbackResultSchemaV1 result) ZodError) (\<lambda>_. ret result))"

section \<open>Execution\<close>

record verified_mutation =
  vm_receipt :: mutation_receipt
  vm_readback :: readback_result

definition accepts :: "checked_command \<Rightarrow> checker_verdict option \<Rightarrow> bool" where
  "accepts c v \<longleftrightarrow>
     (case v of None \<Rightarrow> False
      | Some v \<Rightarrow> cv_verdict v = V_accepted \<and> cv_artifact v = cc_proposal c
          \<and> cv_hash v = cc_proposal_hash c)"

definition exact_acceptance_required :: exn where
  "exact_acceptance_required =
    plusOne Checker_rejected ''exact_checker_acceptance_required'' Never False"

definition terminal_failure :: "command_status \<Rightarrow> exn" where
  "terminal_failure s =
    plusOne (if s = Cmd_readback_failed then Readback_mismatch else Runtime_failure)
      ''mutation_command_terminal_failure'' Never True"

definition failed_terminally :: "command_status \<Rightarrow> bool" where
  "failed_terminally s \<longleftrightarrow> s \<in> {Cmd_execution_failed, Cmd_readback_failed}"

definition requireVerifiedReplay :: "checked_command \<Rightarrow> ('d opsdb, verified_mutation) dbm" where
  "requireVerifiedReplay c =
    bindM (findReceiptByCommand (cc_household c) (cc_id c)) (\<lambda>receipt.
    bindM (findReadbackByCommand (cc_household c) (cc_id c)) (\<lambda>readback.
      case (receipt, readback) of
        (Some r, Some k) \<Rightarrow>
          if rb_ok k then ret \<lparr>vm_receipt = r, vm_readback = k\<rparr>
          else raise (plusOne Constraint_violation ''verified_command_evidence_missing'' Never True)
      | _ \<Rightarrow> raise (plusOne Constraint_violation ''verified_command_evidence_missing'' Never True)))"

definition failureCategory :: "exn \<Rightarrow> string" where
  "failureCategory e = (if is_plus_one e then category_name (e_category e) else ''runtime_failure'')"

text \<open>\<open>commandId.replace(/^command_/, 'receipt_')\<close>.\<close>

definition receipt_id_for :: "string \<Rightarrow> string" where
  "receipt_id_for cid =
    (if take 8 cid = ''command_'' then ''receipt_'' @ drop 8 cid else cid)"

text \<open>The catch block around the runner: the state it resolved to, or an error.\<close>

definition recover_run :: "checked_command \<Rightarrow> exn \<Rightarrow> ('d opsdb, command_row) dbm" where
  "recover_run c e =
    bindM (quietly (reconcile (cc_household c) (cc_id c))) (\<lambda>state.
      if map_option cm_status state \<in> {Some Cmd_committed, Some Cmd_readback_verified}
      then ret (the state)
      else if is_plus_one e \<and> e_receipt_lookup e then raise e
      else
        bindM (markExecutionFailed (cc_household c) (cc_id c) (failureCategory e)) (\<lambda>_.
        bindM (reconcile (cc_household c) (cc_id c)) (\<lambda>_. raise e)))"

definition run_command :: "hashing \<Rightarrow> mutation_policy \<Rightarrow> checked_command \<Rightarrow> 'd handler \<Rightarrow> json \<Rightarrow>
    command_row \<Rightarrow> mutation_receipt option \<Rightarrow>
    ('d opsdb, command_row \<times> mutation_receipt option) dbm" where
  "run_command h p c hn input state receipt =
    bindM
      (thenM (runner_run h p c hn input (receipt_id_for (cc_id c)))
        (\<lambda>e. bindM (recover_run c e) (\<lambda>s. ret (s, receipt)))
        (\<lambda>r. ret (state, Some r)))
      (\<lambda>(s, receipt).
        if cm_status s = Cmd_execution_pending
        then bindM (reconcile (cc_household c) (cc_id c)) (\<lambda>s'. ret (s', receipt))
        else ret (s, receipt))"

definition record_readback :: "checked_command \<Rightarrow> readback_result \<Rightarrow> ('d opsdb, readback_result) dbm" where
  "record_readback c readback =
    catchM
      (bindM (recordReadback (cc_household c) readback) (\<lambda>_. ret readback))
      (\<lambda>e. bindM (findReadbackByCommand (cc_household c) (cc_id c)) (\<lambda>existing.
        case existing of None \<Rightarrow> raise e | Some k \<Rightarrow> ret k))"

definition finish_command :: "hashing \<Rightarrow> checked_command \<Rightarrow> 'd handler \<Rightarrow> json \<Rightarrow> command_row \<Rightarrow>
    mutation_receipt option \<Rightarrow> ('d opsdb, verified_mutation) dbm" where
  "finish_command h c hn input state receipt =
    (if cm_status state = Cmd_readback_verified then requireVerifiedReplay c
     else if failed_terminally (cm_status state) then raise (terminal_failure (cm_status state))
     else
       bindM (case receipt of
           None \<Rightarrow> findReceiptByCommand (cc_household c) (cc_id c)
         | Some r \<Rightarrow> ret (Some r)) (\<lambda>found.
       case found of
         None \<Rightarrow> raise (plusOne Constraint_violation ''committed_mutation_receipt_missing'' Never True)
       | Some receipt \<Rightarrow>
           bindM (requireM (cm_status state = Cmd_committed)
             (plusOne Constraint_violation ''committed_mutation_receipt_missing'' Never True)) (\<lambda>_.
           bindM (catchM (performReadback h c hn input receipt)
             (failedReadback h c receipt (h_required hn))) (\<lambda>readback.
           bindM (record_readback c readback) (\<lambda>readback.
           bindM (reconcile (cc_household c) (cc_id c)) (\<lambda>state.
           bindM (requireM (\<not> (\<not> rb_ok readback \<or> cm_status state = Cmd_readback_failed))
             (plusOne Readback_mismatch ''mutation_readback_failed'' After_state_resolution True)) (\<lambda>_.
           ret \<lparr>vm_receipt = receipt, vm_readback = readback\<rparr>)))))))"

text \<open>What follows the first reconciliation.\<close>

definition continue_command :: "hashing \<Rightarrow> mutation_policy \<Rightarrow> checked_command \<Rightarrow> 'd handler \<Rightarrow> json \<Rightarrow>
    command_row \<Rightarrow> ('d opsdb, verified_mutation) dbm" where
  "continue_command h p c hn input state =
    (if cm_status state = Cmd_readback_verified then requireVerifiedReplay c
     else if failed_terminally (cm_status state) then raise (terminal_failure (cm_status state))
     else
       bindM (findReceiptByCommand (cc_household c) (cc_id c)) (\<lambda>receipt.
       bindM (if cm_status state = Cmd_execution_pending
              then run_command h p c hn input state receipt else ret (state, receipt)) (\<lambda>(state, receipt).
       finish_command h c hn input state receipt)))"

definition execute_mutation :: "hashing \<Rightarrow> mutation_policy \<Rightarrow> locale_order \<Rightarrow> 'd registry \<Rightarrow>
    checked_command \<Rightarrow> ('d opsdb, verified_mutation) dbm" where
  "execute_mutation h p le reg c =
    bindM (requireM (CheckedCommandSchemaV1 c) ZodError) (\<lambda>_.
    bindM (getVerified h postgres_artifacts (cc_proposal c)) (\<lambda>a.
    bindM (liftE (assertExactArtifact h c a)) (\<lambda>_.
    bindM (findLatestVerdict (cc_household c) (cc_task c)) (\<lambda>v.
    bindM (requireM (accepts c v) exact_acceptance_required) (\<lambda>_.
    bindM (liftE (prepare reg c)) (\<lambda>(hn, input).
    bindM (register le c (h_confirmation hn = Confirm_required)) (\<lambda>registered.
    bindM (reconcile (cm_household registered) (cm_id registered))
      (continue_command h p c hn input))))))))"

end
