(* ===== verification/MutationSafety.thy ===== *)
theory MutationSafety
  imports MutationExecutor
begin

text \<open>
  What the executor guarantees, for every fault schedule of the database: the domain changes by
  at most one run of the registered handler for each command, on the checked payload, and the
  receipt records it; an answer means that the receipt and a positive read-back are stored and
  the verification task has reached \<open>readback_verified\<close>.
\<close>

section \<open>Steady operations\<close>

text \<open>The columns the verification invariant \<open>work_ok\<close> reads.\<close>

definition core :: "'d opsdb \<Rightarrow> 'd opsdb \<Rightarrow> bool" where
  "core d d' \<longleftrightarrow> tasks d' = tasks d \<and> verdicts d' = verdicts d \<and> artifacts d' = artifacts d
     \<and> households d' = households d"

definition steady :: "'d opsdb \<Rightarrow> 'd opsdb \<Rightarrow> bool" where
  "steady d d' \<longleftrightarrow> quiet d d' \<and> (work_ok d \<longrightarrow> work_ok d')"

interpretation core: db_relation core
  by unfold_locales (auto simp: core_def)

interpretation steady: db_relation steady
  by unfold_locales (auto simp: steady_def intro: quiet.db_refl quiet.db_trans)

lemma core_work_ok: "core d d' \<Longrightarrow> work_ok d \<Longrightarrow> work_ok d'"
  by (rule work_ok_other) (simp_all add: core_def)

lemma keeps_steady:
  assumes "keeps (db_moves quiet) m" and "keeps (db_moves (preserves work_ok)) m"
  shows "keeps (db_moves steady) m"
  using assms unfolding keeps_def db_moves_def steady_def preserves_def by blast

lemma steady_core:
  assumes "keeps (db_moves quiet) m" and "keeps (db_moves core) m"
  shows "keeps (db_moves steady) m"
  by (rule keeps_steady [OF assms(1)], rule keeps_mono [OF assms(2)])
    (auto simp: db_moves_def preserves_def intro: core_work_ok)

lemma core_statements:
  "statement_along core (read_only f)"
  "statement_along core (sql_insert_command c required)"
  "statement_along core (update_command_status p s failure)"
  "statement_along core (sql_insert_readback hh r)"
  by (rule statement_alongI;
      auto simp: core_def sql_insert_command_def sql_insert_readback_def Let_def update_status_Inr
        split: if_splits)+

lemma steady_register: "keeps (db_moves steady) (register le c required)"
  by (rule steady_core [OF quiet_register])
    (unfold register_def findByIdempotency_def findOne_def, intro core.keeps_pool core_statements)

lemma steady_mark_failed: "keeps (db_moves steady) (markExecutionFailed hh cid failure)"
  by (rule steady_core [OF quiet_mark(2)])
    (unfold markExecutionFailed_def, intro core.keeps_pool core_statements)

lemma steady_record_readback: "keeps (db_moves steady) (recordReadback hh r)"
  by (rule steady_core [OF quiet_record_readback])
    (unfold recordReadback_def recordReadback_body_def,
     intro core.keeps_pool core.keeps_client core_statements)

lemma steady_find_receipt: "keeps (db_moves steady) (findReceiptByCommand hh cid)"
  by (rule steady_core [OF quiet_find_receipt])
    (unfold findReceiptByCommand_def, intro core.keeps_pool core_statements)

lemma steady_find_readback: "keeps (db_moves steady) (findReadbackByCommand hh cid)"
  by (rule steady_core [OF quiet_find_readback])
    (unfold findReadbackByCommand_def, intro core.keeps_pool core_statements)

text \<open>The resolver moves tasks along allowed transitions only.\<close>

lemma holds_resolver_transition:
  assumes "work_ok d" and "isAllowedTransition from to" and "to \<notin> {Verified, Revision_requested}"
  shows "dwp (resolver_transition c from to reason terminal failure)
    (\<lambda>_. work_ok) (\<lambda>_. work_ok) d"
  unfolding resolver_transition_def
  by (rule holds_transition) (use assms in \<open>auto simp: transition_warranted_def\<close>)

lemma work_advance:
  assumes "isAllowedTransition from to" and "to \<notin> {Verified, Revision_requested}"
  shows "keeps (db_moves (preserves work_ok)) (advance c current from there to reason terminal failure)"
proof (rule keeps_dwp)
  fix d :: "'a opsdb"
  have "dwp (advance c current from there to reason terminal failure) (\<lambda>_. work_ok) (\<lambda>_. work_ok) d"
    if "work_ok d"
    unfolding advance_def
    by (intro dwp_if dwp_bindM dwp_requireM dwp_mono [OF holds_resolver_transition [OF that assms]] dwp_ret)
      (auto simp: that)
  then show "dwp (advance c current from there to reason terminal failure)
      (\<lambda>_. preserves work_ok d) (\<lambda>_. preserves work_ok d) d"
    using keeps_dwp_rel [OF quiet_advance, of c current "from" there to reason terminal failure d]
    by (cases "work_ok d") (auto simp: preserves_def elim: dwp_mono)
qed

lemma core_work: "keeps (db_moves core) m \<Longrightarrow> keeps (db_moves (preserves work_ok)) m"
  by (erule keeps_mono) (auto simp: db_moves_def preserves_def intro: core_work_ok)

lemma work_reads:
  "keeps (db_moves (preserves work_ok)) (findByCommandId hh cid)"
  "keeps (db_moves (preserves work_ok)) (findTask hh task)"
  "keeps (db_moves (preserves work_ok)) (markExecutionPending hh cid)"
  by (rule core_work;
      unfold findByCommandId_def findOne_def findTask_def markExecutionPending_def,
      intro core.keeps_pool core_statements)+

lemma work_reconcileOnce: "keeps (db_moves (preserves work_ok)) (reconcileOnce hh cid)"
  unfolding reconcileOnce_def
  by (intro preserved.keeps_pool work_reads)
    (auto intro!: preserved.keeps_pool work_reads work_advance
      simp: isAllowedTransition_def split: command_status.split)

lemma steady_reconcile: "keeps (db_moves steady) (reconcile hh cid)"
proof (rule keeps_steady [OF quiet_reconcile])
  have "keeps (db_moves (preserves work_ok)) (reconcile_from n hh cid :: ('a opsdb, command_row) dbm)" for n
    by (induction n) (auto intro!: preserved.keeps_pool work_reconcileOnce)
  then show "keeps (db_moves (preserves work_ok)) (reconcile hh cid :: ('a opsdb, command_row) dbm)"
    by (simp add: reconcile_def)
qed

lemma steady_get_verified: "keeps (db_moves steady) (getVerified h postgres_artifacts aid)"
  by (rule steady_core [OF quiet_get_verified])
    (unfold getVerified_def postgres_artifacts_def artifact_repo.simps findById_def findWhere_def
       requireId_def, intro core.keeps_pool core_statements)

lemma steady_latest: "keeps (db_moves steady) (findLatestVerdict hh task)"
  by (rule steady_core [OF quiet_latest])
    (unfold findLatestVerdict_def, intro core.keeps_pool core_statements,
     auto intro!: core.keeps_pool split: prod.split option.split)

text \<open>A client section that only reads.\<close>

lemma read_script: "keeps (client_moves (=)) (run_script read_domain s)"
proof (induction s)
  case (Query q g k)
  have "statement_along (=) (read_domain q)"
    by (rule statement_alongI) (auto simp: read_domain_def split: sum.splits)
  then show ?case
    unfolding run_script.simps
    by (intro same_db.keeps_client) (use Query.IH in auto)
qed (auto intro: same_db.keeps_client)

lemma keeps_client_reads: "statement_along (=) f \<Longrightarrow> keeps (client_moves (=)) (pool_query f)"
  by (auto simp: keeps_def pool_query_def client_moves_def client_ok_def
      dest: statement_alongD split: fault.splits sum.splits prod.splits)

lemma same_reads: "statement_along (=) (read_only f)"
  by (rule statement_alongI) auto

lemma same_find_receipt: "keeps (client_moves (=)) (findReceiptByCommand hh cid)"
  unfolding findReceiptByCommand_def
  by (intro same_db.keeps_client keeps_client_reads same_reads)

lemma same_readback: "keeps (db_moves (=)) (performReadback h c hn input receipt)"
  unfolding performReadback_def with_client_def newReadbackId_def Let_def quietly_def
proof (intro same_db.pool.keeps_bindM same_db.keeps_connect(1) same_db.keeps_client_section
    same_db.client.keeps_catchM same_db.client.keeps_bindM same_db.keeps_client same_reads
    read_script same_find_receipt, goal_cases)
  case (1 e)
  show ?case
    by (auto simp: keeps_def thenM_def rollback_transaction_def client_moves_def client_ok_def
        ret_def split: fault.splits)
qed

section \<open>The history of one command\<close>

definition system_ok :: "'d opsdb \<Rightarrow> bool" where
  "system_ok d \<longleftrightarrow> mutations_ok d \<and> work_ok d"

definition command_of :: "checked_command \<Rightarrow> string \<times> string" where
  "command_of c = (cc_household c, cc_id c)"

text \<open>As \<open>history\<close>, where all new receipts are of the one command.\<close>

definition own :: "locale_order \<Rightarrow> 'd registry \<Rightarrow> checked_command \<Rightarrow> 'd opsdb \<Rightarrow> 'd opsdb \<Rightarrow> bool" where
  "own le reg c d d' \<longleftrightarrow>
     history le reg d d' \<and> (work_ok d \<longrightarrow> work_ok d')
     \<and> (\<exists>rs. receipts d' = receipts d @ rs \<and> list_all (\<lambda>r. receipt_key r = command_of c) rs)"

lemma own_refl: "own le reg c d d"
  by (simp add: own_def history_refl)

lemma own_trans: "own le reg c d d' \<Longrightarrow> own le reg c d' d'' \<Longrightarrow> own le reg c d d''"
  unfolding own_def by (auto intro: history_trans)

lemma steady_own: "steady d d' \<Longrightarrow> own le reg c d d'"
  by (auto simp: own_def steady_def quiet_history intro!: exI [of _ "[]"]) (simp_all add: quiet_def)

lemma own_system: "own le reg c d d' \<Longrightarrow> system_ok d \<Longrightarrow> system_ok d'"
  by (auto simp: own_def system_ok_def history_def extends_def)

lemma steady_system: "steady d d' \<Longrightarrow> system_ok d \<Longrightarrow> system_ok d'"
  by (auto simp: steady_def quiet_def extends_def system_ok_def)

lemma system_households: "system_ok d \<Longrightarrow> households_ok d"
  by (auto simp: system_ok_def dest: work_okD(2))

definition registered_as :: "locale_order \<Rightarrow> checked_command \<Rightarrow> 'd opsdb \<Rightarrow> bool" where
  "registered_as le c d \<longleftrightarrow>
     (\<exists>r. find_command_row (cc_household c) (cc_id c) d = Some r \<and> row_matches c r
        \<and> stableJson le (cm_payload r) = stableJson le (cc_payload c))"

lemma find_map_same: "(\<And>x. p (f x) = p x) \<Longrightarrow> find p (map f xs) = map_option f (find p xs)"
  by (induction xs) auto

lemma identity_key [simp]: "command_key hh cid (command_identity r) = command_key hh cid r"
  by (simp add: command_key_def command_identity_def)

lemma find_identity:
  "map_option command_identity (find_command_row hh cid d) = find (command_key hh cid) (identities d)"
  by (simp add: find_command_row_def identities_def find_map_same)

lemma extends_find:
  assumes "extends d d'" and "find_command_row hh cid d = Some r"
  shows "\<exists>r'. find_command_row hh cid d' = Some r' \<and> command_identity r' = command_identity r"
proof -
  obtain cs where cs: "identities d' = identities d @ cs" using assms(1) by (auto simp: extends_def)
  have "find (command_key hh cid) (identities d) = Some (command_identity r)"
    using assms(2) find_identity [of hh cid d] by simp
  then have "map_option command_identity (find_command_row hh cid d') = Some (command_identity r)"
    unfolding find_identity cs by (simp add: find_append)
  then show ?thesis by auto
qed

lemma identity_fields:
  assumes "command_identity r' = command_identity r"
  shows "cm_id r' = cm_id r" "cm_household r' = cm_household r" "cm_task r' = cm_task r"
    "cm_type r' = cm_type r" "cm_proposal r' = cm_proposal r" "cm_idem r' = cm_idem r"
    "cm_proposal_hash r' = cm_proposal_hash r" "cm_payload r' = cm_payload r"
  using assms by (cases r; cases r'; simp add: command_identity_def)+

lemma registered_extends: "registered_as le c d \<Longrightarrow> extends d d' \<Longrightarrow> registered_as le c d'"
proof -
  assume "registered_as le c d" and ext: "extends d d'"
  then obtain r where r: "find_command_row (cc_household c) (cc_id c) d = Some r" "row_matches c r"
    "stableJson le (cm_payload r) = stableJson le (cc_payload c)"
    by (auto simp: registered_as_def)
  obtain r' where r': "find_command_row (cc_household c) (cc_id c) d' = Some r'"
    "command_identity r' = command_identity r"
    using extends_find [OF ext r(1)] by blast
  show "registered_as le c d'"
    using r r' by (simp add: registered_as_def row_matches_def identity_fields [OF r'(2)])
qed

lemma registered_matched: "registered_as le c d \<Longrightarrow> matched c d"
  by (auto simp: registered_as_def matched_def)

text \<open>One run of the handler is one step of the command's history.\<close>

lemma extends_domain: "extends d (d\<lparr>domain := y\<rparr>)"
proof -
  have "mutations_ok d \<Longrightarrow> mutations_ok (d\<lparr>domain := y\<rparr>)"
    by (rule mutations_ok_ledger [where as = "[]" and vs = "[]" and es = "[]"]) simp_all
  then show ?thesis by (simp add: extends_def identities_def)
qed

lemma runs_once_own:
  assumes run: "runs_once h c hn input rid d d'" and c: "registered_as le c d"
    and hn: "reg (cc_type c) = Some hn" and input: "h_parse hn (cc_payload c) = Some input"
  shows "own le reg c d d'"
proof -
  obtain out y t r where script: "script_result (h_execute hn input (context_of c)) (domain d) out y"
    and commit: "commit_mutation_command (commit_input_of h c rid out) t (d\<lparr>domain := y\<rparr>) = Inr (r, d')"
    using run by (auto simp: runs_once_def)
  let ?i = "commit_input_of h c rid out"
  have d': "d' = committed_db ?i t (d\<lparr>domain := y\<rparr>)" by (rule commit_Inr(2) [OF commit])
  have ext: "extends d d'"
    by (rule extends_trans [OF extends_domain extends_committed [OF commit]])
  have receipts: "receipts d' = receipts d @ [new_receipt_row ?i t]"
    by (simp add: d' receipts_committed)
  obtain row where row: "find_command_row (cc_household c) (cc_id c) d' = Some row" "row_matches c row"
    and payload: "stableJson le (cm_payload row) = stableJson le (cc_payload c)"
    using registered_extends [OF c ext] by (auto simp: registered_as_def)
  let ?row = "command_identity row"
  have mem: "?row \<in> set (identities d')"
    using row(1) by (auto simp: find_command_row_def identities_def dest: find_SomeD)
  have fields: "cm_type ?row = cc_type c" "cm_payload ?row = cm_payload row" "row_context ?row = context_of c"
    "command_key (cc_household c) (cc_id c) ?row"
    using row(2)
    by (simp_all add: command_identity_def row_matches_def row_context_def context_of_def command_key_def)
  have "executed_as le reg (identities d') (new_receipt_row ?i t) (domain d) (domain d')"
    unfolding executed_as_def
    by (rule bexI [OF _ mem], rule exI [of _ hn], rule exI [of _ "cc_payload c"],
        rule exI [of _ input], rule exI [of _ out])
      (use fields payload hn input script in \<open>simp add: new_receipt_row_def commit_input_of_def d'\<close>)
  then have "history le reg d d'"
    by (simp add: history_def ext receipts)
  moreover have "work_ok d \<Longrightarrow> work_ok d'"
    by (erule work_ok_other) (simp_all add: d' committed_db_def)
  ultimately show ?thesis
    by (simp add: own_def receipts receipt_key_def command_of_def new_receipt_row_def commit_input_of_def)
qed

section \<open>Step by step\<close>

definition safe :: "locale_order \<Rightarrow> 'd registry \<Rightarrow> checked_command \<Rightarrow> 'd opsdb \<Rightarrow> 'd opsdb \<Rightarrow> bool" where
  "safe le reg c d0 d \<longleftrightarrow> own le reg c d0 d \<and> system_ok d"

lemma safe_steady: "safe le reg c d0 d \<Longrightarrow> steady d d' \<Longrightarrow> safe le reg c d0 d'"
  unfolding safe_def by (blast intro: own_trans steady_own steady_system)

lemma safe_own: "safe le reg c d0 d \<Longrightarrow> own le reg c d d' \<Longrightarrow> safe le reg c d0 d'"
  unfolding safe_def by (blast intro: own_trans own_system)

lemma steady_extends: "steady d d' \<Longrightarrow> extends d d'"
  by (simp add: steady_def quiet_def)

text \<open>A steady step inside a longer method.\<close>

lemma dwp_steady:
  assumes "keeps (db_moves steady) m" and "safe le reg c d0 d"
    and "dwp m Q' (\<lambda>_ _. True) d"
    and "\<And>x d'. Q' x d' \<Longrightarrow> steady d d' \<Longrightarrow> safe le reg c d0 d' \<Longrightarrow> Q x d'"
  shows "dwp m Q (\<lambda>_. safe le reg c d0) d"
  by (rule dwp_mono [OF dwp_conj [OF assms(3) keeps_dwp_rel [OF assms(1)]]])
    (auto intro: assms(4) safe_steady [OF assms(2)])

lemma dwp_any: "keeps (db_moves steady) m \<Longrightarrow> dwp m (\<lambda>_ _. True) (\<lambda>_ _. True) d"
  by (rule dwp_mono [OF keeps_dwp_rel]) auto

lemma unique_command:
  assumes "mutations_ok d" "r \<in> set (commands d)"
  shows "find_command_row (cm_household r) (cm_id r) d = Some r"
  using assms
  by (intro in_status_unique [where s = "cm_status r"])
    (auto simp: mutations_ok_def in_status_def command_key_def)

lemma replay_registered:
  assumes "mutations_ok d" and "validateReplay le r c required = Inr x"
    and "find (\<lambda>x. cm_household x = cc_household c \<and> cm_idem x = cc_idem c) (commands d) = Some r"
  shows "x = r \<and> cm_household r = cc_household c \<and> cm_id r = cc_id c \<and> registered_as le c d"
proof -
  have r: "r \<in> set (commands d)" "cm_household r = cc_household c" "cm_idem r = cc_idem c"
    using assms(3) by (auto dest: find_SomeD)
  have same: "sameEnvelope le r c required" "x = r"
    using assms(2) by (auto simp: validateReplay_def split: if_splits)
  then show ?thesis
    using r unique_command [OF assms(1) r(1)]
    by (simp add: registered_as_def row_matches_def sameEnvelope_def)
qed

lemma dwp_find_idempotency:
  "Q (find (\<lambda>c. cm_household c = hh \<and> cm_idem c = key) (commands d)) d \<Longrightarrow> (\<And>e. E e d) \<Longrightarrow>
   dwp (findByIdempotency hh key) Q E d"
  unfolding findByIdempotency_def findOne_def by (intro dwp_rules) auto

lemma insert_registered:
  assumes "sql_insert_command c required now d = Inr (Some r, d')"
  shows "cm_household r = cc_household c \<and> cm_id r = cc_id c \<and> registered_as le c d'"
proof -
  let ?row = "new_command_row c required now d"
  have r: "r = ?row\<lparr>cm_confirmation := cc_confirmation c\<rparr>" "d' = d\<lparr>commands := commands d @ [?row]\<rparr>"
    and new: "\<forall>r \<in> set (commands d). cm_id r \<noteq> cc_id c"
    using insert_command_Inr [OF assms] by (auto simp: Let_def command_unique_def)
  have "find_command_row (cc_household c) (cc_id c) d' = Some ?row"
    using new by (auto simp: find_command_row_def r(2) find_append command_key_def find_None_iff
        split: option.splits dest: find_SomeD)
  then show ?thesis
    by (simp add: r(1) registered_as_def row_matches_def)
qed

lemma register_dwp:
  assumes ok: "mutations_ok d"
  shows "dwp (register le c required)
    (\<lambda>r d'. cm_household r = cc_household c \<and> cm_id r = cc_id c \<and> registered_as le c d')
    (\<lambda>_ _. True) d"
proof -
  have replay: "dwp (liftE (validateReplay le r c required))
      (\<lambda>r d'. cm_household r = cc_household c \<and> cm_id r = cc_id c \<and> registered_as le c d') (\<lambda>_ _. True) d'"
    if "mutations_ok d'"
      "find (\<lambda>x. cm_household x = cc_household c \<and> cm_idem x = cc_idem c) (commands d') = Some r" for r d'
    using replay_registered [OF that(1) _ that(2)] by (intro dwp_liftE) auto
  have ok': "mutations_ok d'" if "sql_insert_command c required now d = Inr (r, d')" for now r d'
    using statement_alongD [OF quiet_insert_command that] ok by (simp add: quiet_def extends_def)
  show ?thesis
    unfolding register_def
    by (intro dwp_bindM dwp_requireM dwp_find_idempotency dwp_option dwp_catchM dwp_pool_query dwp_if
        dwp_raise dwp_ret replay ok)
      (auto intro: replay ok ok' dwp_raise simp: insert_registered split: option.splits)
qed

text \<open>The runner, for a registered command and its prepared handler.\<close>

definition prepared_for :: "'d registry \<Rightarrow> checked_command \<Rightarrow> 'd handler \<Rightarrow> json \<Rightarrow> bool" where
  "prepared_for reg c hn input \<longleftrightarrow>
     reg (cc_type c) = Some hn \<and> h_parse hn (cc_payload c) = Some input"

definition receipt_stored :: "checked_command \<Rightarrow> mutation_receipt option \<Rightarrow> 'd opsdb \<Rightarrow> bool" where
  "receipt_stored c r d \<longleftrightarrow>
     (\<forall>x. r = Some x \<longrightarrow> stored_receipt (cc_household c) (cc_id c) d = Some x)"

definition ready :: "locale_order \<Rightarrow> 'd registry \<Rightarrow> checked_command \<Rightarrow> 'd opsdb \<Rightarrow> 'd opsdb \<Rightarrow> bool" where
  "ready le reg c d0 d \<longleftrightarrow> safe le reg c d0 d \<and> registered_as le c d"

lemma ready_steady: "ready le reg c d0 d \<Longrightarrow> steady d d' \<Longrightarrow> ready le reg c d0 d'"
  unfolding ready_def by (blast intro: safe_steady registered_extends steady_extends)

lemma run_outcome_ready:
  assumes "ready le reg c d0 d" and "prepared_for reg c hn input"
    and "run_outcome h c hn input rid d d'"
  shows "ready le reg c d0 d'"
proof -
  have "own le reg c d d'"
    using assms runs_once_own [of h c hn input rid d d' le reg] own_refl
    by (auto simp: run_outcome_def ready_def prepared_for_def)
  then have "safe le reg c d0 d'" "extends d d'"
    using assms(1) by (auto simp: ready_def own_def history_def intro: safe_own)
  then show ?thesis using assms(1) by (auto simp: ready_def intro: registered_extends)
qed

lemma runner_ready:
  assumes "ready le reg c d0 d" and "prepared_for reg c hn input"
  shows "dwp (runner_run h p c hn input rid)
    (\<lambda>r d'. ready le reg c d0 d' \<and> receipt_stored c (Some r) d')
    (\<lambda>_. ready le reg c d0) d"
proof (rule dwp_mono [OF runner_run_dwp])
  show "matched c d" using assms(1) by (auto simp: ready_def intro: registered_matched)
qed (auto simp: attempt_post_def attempt_error_def receipt_stored_def intro: run_outcome_ready [OF assms])

text \<open>Receipts and read-backs stay.\<close>

lemma quiet_stored_receipt:
  assumes "quiet d d'" and "stored_receipt hh cid d = Some r"
  shows "stored_receipt hh cid d' = Some r"
proof -
  obtain row rc where row: "find_command_row hh cid d = Some row"
    and rc: "find_receipt_row hh cid d = Some rc" "r = receipt_of row rc"
    using assms(2) by (auto simp: stored_receipt_def split: option.splits)
  obtain row' where row': "find_command_row hh cid d' = Some row'"
    "command_identity row' = command_identity row"
    using extends_find [of d d', OF _ row] assms(1) by (auto simp: quiet_def)
  have "find_receipt_row hh cid d' = Some rc"
    using rc assms(1) by (simp add: quiet_def find_receipt_row_def)
  then show ?thesis
    using row' rc by (simp add: stored_receipt_def receipt_of_def identity_fields [OF row'(2)])
qed

lemma quiet_stored_readback:
  assumes "quiet d d'" and "stored_readback hh cid d = Some k"
  shows "stored_readback hh cid d' = Some k"
proof -
  obtain row kr where row: "find_command_row hh cid d = Some row"
    and kr: "find_readback_row hh cid d = Some kr" "k = readback_of kr"
      "list_ex (\<lambda>r. rt_household r = hh \<and> rt_id r = rk_receipt kr) (receipts d)"
    using assms(2) by (auto simp: stored_readback_def split: option.splits if_splits)
  obtain row' where "find_command_row hh cid d' = Some row'"
    using extends_find [of d d', OF _ row] assms(1) by (auto simp: quiet_def)
  moreover have "find_readback_row hh cid d' = Some kr"
    using kr(1) assms(1) by (auto simp: quiet_def extends_def find_readback_row_def find_append)
  ultimately show ?thesis using kr assms(1) by (simp add: stored_readback_def quiet_def)
qed

lemma steady_receipt_stored: "receipt_stored c r d \<Longrightarrow> steady d d' \<Longrightarrow> receipt_stored c r d'"
  by (auto simp: receipt_stored_def steady_def intro: quiet_stored_receipt)

lemma dwp_find_receipt:
  "Q (stored_receipt hh cid d) d \<Longrightarrow> (\<And>e. E e d) \<Longrightarrow> dwp (findReceiptByCommand hh cid) Q E d"
  unfolding findReceiptByCommand_def by (intro dwp_rules) auto

lemma dwp_find_readback:
  "Q (stored_readback hh cid d) d \<Longrightarrow> (\<And>e. E e d) \<Longrightarrow> dwp (findReadbackByCommand hh cid) Q E d"
  unfolding findReadbackByCommand_def by (intro dwp_rules) auto

text \<open>A step that keeps \<open>ready\<close>, for the rest of the method.\<close>

lemma dwp_ready:
  assumes "keeps (db_moves steady) m" and "ready le reg c d0 d" and "dwp m Q' (\<lambda>_ _. True) d"
    and "\<And>x d'. Q' x d' \<Longrightarrow> steady d d' \<Longrightarrow> ready le reg c d0 d' \<Longrightarrow> Q x d'"
    and "\<And>e d'. ready le reg c d0 d' \<Longrightarrow> E e d'"
  shows "dwp m Q E d"
  by (rule dwp_mono [OF dwp_conj [OF assms(3) keeps_dwp_rel [OF assms(1)]]])
    (auto intro: assms(4,5) ready_steady [OF assms(2)])

lemma dwp_reconcile:
  assumes "ready le reg c d0 d"
    and "\<And>s d'. resolved hh cid s d' \<Longrightarrow> steady d d' \<Longrightarrow> ready le reg c d0 d' \<Longrightarrow> Q s d'"
    and "\<And>e d'. ready le reg c d0 d' \<Longrightarrow> E e d'"
  shows "dwp (reconcile hh cid) Q E d"
proof (rule dwp_ready [OF steady_reconcile assms(1)])
  show "dwp (reconcile hh cid) (resolved hh cid) (\<lambda>_ _. True) d"
    by (rule dwp_mono [OF reconcile_dwp])
      (use assms(1) system_households in \<open>auto simp: ready_def safe_def\<close>)
qed (use assms(2,3) in auto)

text \<open>The state after the run.\<close>

definition run_state :: "locale_order \<Rightarrow> 'd registry \<Rightarrow> checked_command \<Rightarrow> 'd opsdb \<Rightarrow>
    command_row \<times> mutation_receipt option \<Rightarrow> 'd opsdb \<Rightarrow> bool" where
  "run_state le reg c d0 x d \<longleftrightarrow> ready le reg c d0 d \<and> receipt_stored c (snd x) d
     \<and> (cm_status (fst x) = Cmd_readback_verified \<longrightarrow>
          resolved (cc_household c) (cc_id c) (fst x) d)"

lemma recover_run_ready:
  assumes "ready le reg c d0 d"
  shows "dwp (recover_run c e)
    (\<lambda>s d'. ready le reg c d0 d' \<and> steady d d' \<and> resolved (cc_household c) (cc_id c) s d')
    (\<lambda>_. ready le reg c d0) d"
  unfolding recover_run_def
  by (intro dwp_bindM dwp_quietly dwp_reconcile [OF assms] dwp_if dwp_ret dwp_raise
      dwp_ready [OF steady_mark_failed _ dwp_any [OF steady_mark_failed]])
    (auto intro: dwp_reconcile dwp_raise)

lemma run_outcome_stored:
  assumes "receipt_stored c r d" and "run_outcome h c hn input rid d d'"
  shows "receipt_stored c r d'"
proof -
  have "stored_receipt (cc_household c) (cc_id c) d = None"
    if commit: "commit_mutation_command (commit_input_of h c rid out) t (d\<lparr>domain := y\<rparr>) = Inr (x, d')"
    for out t y x
    using commit_Inr(4) [OF commit]
    by (simp add: stored_receipt_def commit_input_of_def find_receipt_row_def split: option.split)
  then show ?thesis
    using assms by (fastforce simp: receipt_stored_def run_outcome_def runs_once_def)
qed

lemma runner_failed:
  assumes "ready le reg c d0 d" and "prepared_for reg c hn input" and "receipt_stored c receipt d"
  shows "dwp (runner_run h p c hn input rid)
    (\<lambda>r d'. ready le reg c d0 d' \<and> receipt_stored c (Some r) d')
    (\<lambda>_ d'. ready le reg c d0 d' \<and> receipt_stored c receipt d') d"
proof (rule dwp_mono [OF runner_run_dwp])
  show "matched c d" using assms(1) by (auto simp: ready_def intro: registered_matched)
qed (auto simp: attempt_post_def attempt_error_def receipt_stored_def [of c "Some _"]
    intro: run_outcome_ready [OF assms(1,2)] run_outcome_stored [OF assms(3)])

lemma after_run:
  assumes "ready le reg c d0 d" and "receipt_stored c r d"
    and "cm_status s = Cmd_readback_verified \<longrightarrow> resolved (cc_household c) (cc_id c) s d"
  shows "dwp (if cm_status s = Cmd_execution_pending
        then bindM (reconcile (cc_household c) (cc_id c)) (\<lambda>s'. ret (s', r))
        else ret (s, r)) (run_state le reg c d0) (\<lambda>_. ready le reg c d0) d"
proof (rule dwp_if, goal_cases)
  case 1
  show ?case
    by (rule dwp_bindM, rule dwp_reconcile [OF assms(1)])
      (auto intro!: dwp_ret simp: run_state_def elim: steady_receipt_stored [OF assms(2)])
qed (use assms in \<open>auto intro!: dwp_ret simp: run_state_def\<close>)

lemma run_command_ready:
  assumes ready: "ready le reg c d0 d" and prep: "prepared_for reg c hn input"
    and receipt: "receipt_stored c receipt d" and pending: "cm_status state = Cmd_execution_pending"
  shows "dwp (run_command h p c hn input state receipt) (run_state le reg c d0)
    (\<lambda>_. ready le reg c d0) d"
  unfolding run_command_def
proof (rule dwp_bindM, rule dwp_thenM, rule dwp_mono [OF runner_failed [OF ready prep receipt]], goal_cases)
  case (1 r d')
  then show ?case
    by (intro dwp_ret) (simp only: prod.case, rule after_run, simp_all add: pending)
next
  case (2 e d')
  then have ready': "ready le reg c d0 d'" and stored: "receipt_stored c receipt d'" by auto
  show ?case
  proof (rule dwp_bindM, rule dwp_mono [OF recover_run_ready [OF ready']], goal_cases)
    case (1 s d2)
    then show ?case
      by (intro dwp_ret)
        (simp only: prod.case, rule after_run, simp_all add: steady_receipt_stored [OF stored])
  qed
qed

section \<open>The answer\<close>

definition verified_outcome :: "checked_command \<Rightarrow> verified_mutation \<Rightarrow> 'd opsdb \<Rightarrow> bool" where
  "verified_outcome c x d \<longleftrightarrow>
     (\<exists>row. resolved (cc_household c) (cc_id c) row d \<and> cm_status row = Cmd_readback_verified)
     \<and> stored_receipt (cc_household c) (cc_id c) d = Some (vm_receipt x)
     \<and> stored_readback (cc_household c) (cc_id c) d = Some (vm_readback x)
     \<and> rb_ok (vm_readback x)"

lemma requireVerifiedReplay_dwp:
  "dwp (requireVerifiedReplay c)
    (\<lambda>x d'. d' = d \<and> stored_receipt (cc_household c) (cc_id c) d = Some (vm_receipt x)
       \<and> stored_readback (cc_household c) (cc_id c) d = Some (vm_readback x) \<and> rb_ok (vm_readback x))
    (\<lambda>_ d'. d' = d) d"
proof -
  have receipt: "dwp (findReceiptByCommand hh cid) (\<lambda>r d'. d' = d \<and> r = stored_receipt hh cid d) (\<lambda>_ d'. d' = d) d"
    for hh cid unfolding findReceiptByCommand_def by (intro dwp_rules) auto
  have readback: "dwp (findReadbackByCommand hh cid) (\<lambda>r d'. d' = d \<and> r = stored_readback hh cid d) (\<lambda>_ d'. d' = d) d"
    for hh cid unfolding findReadbackByCommand_def by (intro dwp_rules) auto
  show ?thesis
    unfolding requireVerifiedReplay_def
    by (rule dwp_bindM, rule dwp_mono [OF receipt], elim conjE, hypsubst, rule dwp_bindM,
        rule dwp_mono [OF readback])
      (auto intro!: dwp_ret dwp_raise split: option.splits)
qed

lemma replay_verified:
  assumes "ready le reg c d0 d" and "resolved (cc_household c) (cc_id c) s d"
    and "cm_status s = Cmd_readback_verified"
  shows "dwp (requireVerifiedReplay c)
    (\<lambda>x d'. ready le reg c d0 d' \<and> verified_outcome c x d') (\<lambda>_. ready le reg c d0) d"
  by (rule dwp_mono [OF requireVerifiedReplay_dwp]) (use assms in \<open>auto simp: verified_outcome_def\<close>)

text \<open>The read-back is recorded, or one was there.\<close>

lemma recorded_readback:
  assumes "readback_recorded hh r d d'" and "mutations_ok d" and "find_command_row hh (rb_command r) d = Some row"
  shows "stored_readback hh (rb_command r) d' = Some r"
proof -
  have k: "find_readback_row hh (rb_command r) d' = Some (readback_row hh r)"
    and q: "quiet d d'"
    using assms(1,2) by (simp_all add: readback_recorded_def)
  have "mutations_ok d'" using q assms(2) by (simp add: quiet_def extends_def)
  then have "has_receipt hh (rb_command r) (rb_receipt r) d'"
    using k by (auto simp: mutations_ok_def tables_ok_def list_all_iff readback_row_def
        find_readback_row_def dest!: find_SomeD)
  then have "list_ex (\<lambda>t. rt_household t = hh \<and> rt_id t = rb_receipt r) (receipts d')"
    by (auto simp: has_receipt_def list_ex_iff)
  moreover obtain row' where "find_command_row hh (rb_command r) d' = Some row'"
    using extends_find [of d d', OF _ assms(3)] q by (auto simp: quiet_def)
  ultimately show ?thesis
    using k by (simp add: stored_readback_def readback_of_def readback_row_def)
qed

lemma performReadback_dwp:
  "dwp (performReadback h c hn input receipt) (\<lambda>_ d'. d' = d) (\<lambda>_ d'. d' = d) d"
  by (rule dwp_mono [OF keeps_dwp_rel [OF same_readback]]) auto

lemma recordReadback_dwp:
  assumes "mutations_ok d" and "find_command_row hh (rb_command r) d = Some row"
  shows "dwp (recordReadback hh r) (\<lambda>_ d'. stored_readback hh (rb_command r) d' = Some r) (\<lambda>_ _. True) d"
  unfolding recordReadback_def
  by (intro dwp_bindM dwp_requireM dwp_mono [OF dwp_transactionally_as [OF recordReadback_twp]])
    (use recorded_readback [OF _ assms] in auto)

lemma steady_record: "keeps (db_moves steady) (record_readback c r)"
  unfolding record_readback_def
  by (intro steady.keeps_pool steady_record_readback steady_find_readback)

lemma record_readback_dwp:
  assumes "mutations_ok d" and "find_command_row (cc_household c) (cc_id c) d = Some row"
    and "rb_command r = cc_id c"
  shows "dwp (record_readback c r)
    (\<lambda>k d'. stored_readback (cc_household c) (cc_id c) d' = Some k) (\<lambda>_ _. True) d"
  unfolding record_readback_def
  by (intro dwp_catchM dwp_bindM dwp_ret, rule dwp_mono [OF recordReadback_dwp [OF assms(1)]])
    (use assms(2,3) in \<open>auto intro!: dwp_bindM dwp_find_readback dwp_option dwp_raise dwp_ret intro: dwp_ret\<close>)

text \<open>A property of every value a method returns.\<close>

definition returns :: "('a \<Rightarrow> bool) \<Rightarrow> ('s, 'e, 'a) io \<Rightarrow> bool" where
  "returns P m \<longleftrightarrow> (\<forall>s x s'. m s = (Inr x, s') \<longrightarrow> P x)"

lemma returns_ret: "P x \<Longrightarrow> returns P (ret x)"
  by (simp add: returns_def ret_def)

lemma returns_raise: "returns P (raise e)"
  by (simp add: returns_def raise_def)

lemma returns_bindM: "(\<And>x. returns P (f x)) \<Longrightarrow> returns P (bindM m f)"
  by (auto simp: returns_def bindM_def split: prod.splits sum.splits)

lemma returns_catchM: "returns P m \<Longrightarrow> (\<And>e. returns P (h e)) \<Longrightarrow> returns P (catchM m h)"
  by (fastforce simp: returns_def catchM_def split: prod.splits sum.splits)

lemma returns_with_client: "returns P m \<Longrightarrow> returns P (with_client m)"
  unfolding with_client_def
  by (rule returns_bindM) (auto simp: returns_def finallyM_def split: prod.splits)

lemmas returns_rules = returns_ret returns_raise returns_bindM returns_catchM returns_with_client

lemma dwp_returns: "dwp m Q E d \<Longrightarrow> returns P m \<Longrightarrow> dwp m (\<lambda>x d'. Q x d' \<and> P x) E d"
  unfolding dwp_def returns_def
  by (blast intro: wpI dest: wp_returned wp_threw)

lemma readback_command:
  "dwp (catchM (performReadback h c hn input receipt) (failedReadback h c receipt required))
    (\<lambda>k d'. d' = d \<and> rb_command k = cc_id c) (\<lambda>_ d'. d' = d) d"
proof (rule dwp_returns)
  show "dwp (catchM (performReadback h c hn input receipt) (failedReadback h c receipt required))
      (\<lambda>_ d'. d' = d) (\<lambda>_ d'. d' = d) d"
    unfolding failedReadback_def newReadbackId_def Let_def
    by (rule dwp_catchM, rule dwp_mono [OF performReadback_dwp]) (auto intro!: dwp_rules)
  show "returns (\<lambda>k. rb_command k = cc_id c)
      (catchM (performReadback h c hn input receipt) (failedReadback h c receipt required))"
    unfolding performReadback_def failedReadback_def Let_def
    by (intro returns_rules) (simp_all add: readback_from_def failed_result_def Let_def)
qed

text \<open>The last steps: read back, record, resolve.\<close>

definition settle_readback :: "checked_command \<Rightarrow> mutation_receipt \<Rightarrow> readback_result \<Rightarrow>
    ('d opsdb, verified_mutation) dbm" where
  "settle_readback c receipt readback =
    bindM (reconcile (cc_household c) (cc_id c)) (\<lambda>state.
    bindM (requireM (\<not> (\<not> rb_ok readback \<or> cm_status state = Cmd_readback_failed))
      (plusOne Readback_mismatch ''mutation_readback_failed'' After_state_resolution True)) (\<lambda>_.
    ret \<lparr>vm_receipt = receipt, vm_readback = readback\<rparr>))"

lemma settle_readback_dwp:
  assumes ready: "ready le reg c d0 d" and r: "receipt_stored c (Some r) d"
    and k: "stored_readback (cc_household c) (cc_id c) d = Some k"
  shows "dwp (settle_readback c r k)
    (\<lambda>x d'. ready le reg c d0 d' \<and> verified_outcome c x d') (\<lambda>_. ready le reg c d0) d"
  unfolding settle_readback_def
proof (rule dwp_bindM, rule dwp_reconcile [OF ready], goal_cases)
  case (1 s d2)
  then have q: "quiet d d2" by (simp add: steady_def)
  have k2: "stored_readback (cc_household c) (cc_id c) d2 = Some k"
    by (rule quiet_stored_readback [OF q k])
  have r2: "stored_receipt (cc_household c) (cc_id c) d2 = Some r"
    using r by (intro quiet_stored_receipt [OF q]) (simp add: receipt_stored_def)
  have s: "find_command_row (cc_household c) (cc_id c) d2 = Some s"
    using 1 by (simp add: resolved_def)
  have "mutations_ok d2" using 1 by (simp add: ready_def safe_def system_ok_def)
  then have "row_ok d2 s"
    by (rule row_okI) (use s in \<open>auto simp: find_command_row_def dest: find_SomeD\<close>)
  moreover obtain kr where "find_readback_row (cc_household c) (cc_id c) d2 = Some kr" "k = readback_of kr"
    using k2 by (auto simp: stored_readback_def split: option.splits if_splits)
  ultimately have "cm_status s = (if rb_ok k then Cmd_readback_verified else Cmd_readback_failed)"
    using find_command_key [OF s] by (simp add: row_ok_def status_ok_def readback_of_def)
  with 1 k2 r2 show ?case
    by (intro dwp_bindM dwp_requireM dwp_ret) (auto simp: verified_outcome_def)
qed

lemma read_back_and_settle:
  assumes ready: "ready le reg c d0 d" and r: "receipt_stored c (Some r) d"
  shows "dwp (bindM (catchM (performReadback h c hn input r) (failedReadback h c r (h_required hn)))
      (\<lambda>readback. bindM (record_readback c readback) (settle_readback c r)))
    (\<lambda>x d'. ready le reg c d0 d' \<and> verified_outcome c x d') (\<lambda>_. ready le reg c d0) d"
proof (rule dwp_bindM, rule dwp_mono [OF readback_command], goal_cases)
  case (1 k d')
  obtain row where row: "find_command_row (cc_household c) (cc_id c) d = Some row"
    using ready by (auto simp: ready_def registered_as_def)
  have ok: "mutations_ok d" using ready by (simp add: ready_def safe_def system_ok_def)
  have k: "rb_command k = cc_id c" using 1 by simp
  have "dwp (bindM (record_readback c k) (settle_readback c r))
      (\<lambda>x d'. ready le reg c d0 d' \<and> verified_outcome c x d') (\<lambda>_. ready le reg c d0) d"
    by (rule dwp_bindM, rule dwp_ready [OF steady_record ready record_readback_dwp [OF ok row k]])
      (auto intro!: settle_readback_dwp elim: steady_receipt_stored [OF r])
  with 1 show ?case by simp
qed (use ready in simp)

lemma finish_command_ready:
  assumes ready: "ready le reg c d0 d" and receipt: "receipt_stored c receipt d"
    and state: "cm_status state = Cmd_readback_verified \<Longrightarrow> resolved (cc_household c) (cc_id c) state d"
  shows "dwp (finish_command h c hn input state receipt)
    (\<lambda>x d'. ready le reg c d0 d' \<and> verified_outcome c x d') (\<lambda>_. ready le reg c d0) d"
proof -
  have found: "dwp (case receipt of None \<Rightarrow> findReceiptByCommand (cc_household c) (cc_id c)
        | Some r \<Rightarrow> ret (Some r)) (\<lambda>r d'. d' = d \<and> receipt_stored c r d) (\<lambda>_. ready le reg c d0) d"
    by (intro dwp_option dwp_find_receipt dwp_ret) (use receipt ready in \<open>auto simp: receipt_stored_def\<close>)
  show ?thesis
    unfolding finish_command_def settle_readback_def [symmetric]
  proof (intro dwp_if dwp_raise, goal_cases)
    case 1
    show ?case by (rule replay_verified [OF ready state]) (use 1 in auto)
  next
    case 3
    show ?case
    proof (rule dwp_bindM, rule dwp_mono [OF found], goal_cases)
      case (1 r d')
      then show ?case
        by (cases r) (auto simp: ready intro!: dwp_raise dwp_bindM [of "requireM _ _"] dwp_requireM
            read_back_and_settle [OF ready])
    qed
  qed (use ready in auto)
qed

lemma continue_command_ready:
  assumes ready: "ready le reg c d0 d" and prep: "prepared_for reg c hn input"
    and state: "resolved (cc_household c) (cc_id c) state d"
  shows "dwp (continue_command h p c hn input state)
    (\<lambda>x d'. ready le reg c d0 d' \<and> verified_outcome c x d') (\<lambda>_. ready le reg c d0) d"
proof -
  have run: "dwp (if cm_status state = Cmd_execution_pending
        then run_command h p c hn input state r else ret (state, r))
      (run_state le reg c d0) (\<lambda>_. ready le reg c d0) d"
    if "receipt_stored c r d" for r
    using that state by (intro dwp_if run_command_ready [OF ready prep] dwp_ret)
      (auto simp: run_state_def ready)
  have finish: "dwp (finish_command h c hn input s r)
      (\<lambda>x d'. ready le reg c d0 d' \<and> verified_outcome c x d') (\<lambda>_. ready le reg c d0) d'"
    if "run_state le reg c d0 (s, r) d'" for s r d'
    using that by (auto simp: run_state_def intro!: finish_command_ready)
  show ?thesis
    unfolding continue_command_def
  proof (intro dwp_if [of _ "requireVerifiedReplay c"] dwp_if [of "failed_terminally _"] dwp_raise
      replay_verified [OF ready state] ready, assumption, rule dwp_bindM, rule dwp_find_receipt, goal_cases)
    case 1
    show ?case
      by (rule dwp_bindM, rule dwp_mono [OF run]) (auto simp: receipt_stored_def intro: finish)
  qed (rule ready)
qed

lemma execute_ready:
  assumes ok: "system_ok d"
  shows "dwp (execute_mutation h p le reg c)
    (\<lambda>x d'. ready le reg c d d' \<and> verified_outcome c x d') (\<lambda>_. safe le reg c d) d"
  unfolding execute_mutation_def
proof (rule dwp_bindM, rule dwp_requireM, rule dwp_bindM,
    rule dwp_steady [OF steady_get_verified _ dwp_any [OF steady_get_verified]],
    goal_cases)
  case (2 a d1)
  note d1 = 2(4)
  show ?case
  proof (rule dwp_bindM, rule dwp_liftE, rule dwp_bindM,
      rule dwp_steady [OF steady_latest d1 dwp_any [OF steady_latest]],
      rule dwp_bindM, rule dwp_requireM, rule dwp_bindM, rule dwp_liftE, goal_cases)
    case (1 u v d2 x)
    obtain hn input where x: "x = (hn, input)" by fastforce
    then have prep: "prepared_for reg c hn input"
      using prepare_Inr(1,2) [of reg c hn input] 1 by (simp add: prepared_for_def)
    have d2: "safe le reg c d d2" "mutations_ok d2" using 1 by (simp_all add: safe_def system_ok_def)
    have "dwp (bindM (register le c (h_confirmation hn = Confirm_required)) (\<lambda>registered.
        bindM (reconcile (cm_household registered) (cm_id registered))
          (continue_command h p c hn input)))
      (\<lambda>x d'. ready le reg c d d' \<and> verified_outcome c x d') (\<lambda>_. safe le reg c d) d2"
    proof (rule dwp_bindM, rule dwp_steady [OF steady_register d2(1) register_dwp [OF d2(2)]], goal_cases)
      case (1 r d3)
      then have ready: "ready le reg c d d3" and key: "cm_household r = cc_household c" "cm_id r = cc_id c"
        by (simp_all add: ready_def)
      show ?case
        unfolding key
        by (rule dwp_bindM, rule dwp_reconcile [OF ready], rule dwp_mono [OF continue_command_ready [OF _ prep]])
          (auto simp: ready_def)
    qed
    then show ?case by (simp add: x)
  qed (use d1 in auto)
qed (simp_all add: safe_def own_refl ok)

lemma execute_dwp:
  assumes "system_ok d"
  shows "dwp (execute_mutation h p le reg c)
    (\<lambda>x d'. safe le reg c d d' \<and> verified_outcome c x d') (\<lambda>_. safe le reg c d) d"
  by (rule dwp_mono [OF execute_ready [OF assms]]) (auto simp: ready_def)

end
