(* ===== verification/CheckedMutations.thy ===== *)
theory CheckedMutations
  imports MutationSafety
begin

text \<open>
  The guarantees of checked mutations, stated for whole calls of the executor, the runner and the
  resolver on the PostgreSQL model, with concrete runs that satisfy their hypotheses.
\<close>

section \<open>A concrete system\<close>

definition ledger_hashing :: hashing where
  "ledger_hashing =
    \<lparr>canonicalize = (\<lambda>j. case j of JNull \<Rightarrow> ''a'' | _ \<Rightarrow> ''b''), sha256 = (\<lambda>s. replicate 64 (hd s))\<rparr>"

text \<open>A handler that adds one to the domain, a counter, and reads it back.\<close>

definition entry_schema :: schema_identity where
  "entry_schema = \<lparr>sch_name = ''entry'', sch_version = 1\<rparr>"

definition entry_payload :: json where
  "entry_payload = JObj [(''schemaName'', JStr ''entry''), (''schemaVersion'', JNum 1)]"

definition entry_handler :: "nat handler" where
  "entry_handler =
    \<lparr>h_type = ''post_entry'', h_role = Role_accounting, h_parse = (\<lambda>j. Some j),
     h_schema = entry_schema, h_confirmation = Confirm_forbidden,
     h_required = [Ck_row_values, Ck_idempotency_receipt],
     h_execute = (\<lambda>input ctx. Query (\<lambda>t n. Inr (JNum (int n), Suc n)) (\<lambda>e. e)
       (\<lambda>j. Done \<lparr>eo_records = [\<lparr>cr_type = ''accounting.entry'', cr_id = ''entry_1''\<rparr>], eo_expected = j\<rparr>)),
     h_readback = (\<lambda>input receipt. Query (\<lambda>t n. Inr (JNum (int n))) (\<lambda>e. e)
       (\<lambda>j. Done \<lparr>ro_checks = [\<lparr>rc_kind = Ck_row_values, rc_status = Check_passed, rc_detail = None\<rparr>],
          ro_mismatches = [], ro_observed = j\<rparr>))\<rparr>"

definition entry_registry :: "nat registry" where
  "entry_registry = [''post_entry'' \<mapsto> entry_handler]"

definition entry_maker :: artifact where
  "entry_maker =
    \<lparr>ar_id = maker_id, ar_household = sample_hh, ar_task = sample_task_id, ar_type = AT_maker_output,
     ar_schema = \<lparr>sch_name = ''maker-artifact'', sch_version = 1\<rparr>, ar_hash = replicate 64 (CHR ''b''),
     ar_payload = JObj
       [(''schemaName'', JStr ''maker-artifact''), (''schemaVersion'', JNum 1),
        (''outputSchema'', JObj [(''schemaName'', JStr ''entry''), (''schemaVersion'', JNum 1)]),
        (''output'', entry_payload), (''claims'', JArr []), (''assumptions'', JArr []),
        (''uncertainty'', JArr [])],
     ar_created = 0\<rparr>"

definition entry_verdict :: checker_verdict where
  "entry_verdict = \<lparr>cv_verdict = V_accepted, cv_artifact = maker_id,
     cv_hash = replicate 64 (CHR ''b''), cv_findings = []\<rparr>"

definition entry_checker :: artifact where
  "entry_checker =
    \<lparr>ar_id = checker_id, ar_household = sample_hh, ar_task = sample_task_id, ar_type = AT_checker_output,
     ar_schema = \<lparr>sch_name = ''checker-verdict'', sch_version = 1\<rparr>, ar_hash = replicate 64 (CHR ''b''),
     ar_payload = verdict_json entry_verdict, ar_created = 0\<rparr>"

text \<open>The database after a checker has accepted the maker's artifact.\<close>

definition accepted_db :: "nat opsdb" where
  "accepted_db = (empty_db 0)
    \<lparr>tasks := [(new_task_row sample_create 0)\<lparr>t_status := Checker_validated, t_maker := Some maker_id,
        t_maker_hash := Some (replicate 64 (CHR ''b'')), t_checker := Some checker_id\<rparr>],
     artifacts := [\<lparr>af_artifact = entry_maker, af_canonical = ''b''\<rparr>,
        \<lparr>af_artifact = entry_checker, af_canonical = ''b''\<rparr>],
     verdicts := [\<lparr>vd_household = sample_hh, vd_task = sample_task_id, vd_checker = checker_id,
        vd_covered = maker_id, vd_hash = replicate 64 (CHR ''b''), vd_verdict = V_accepted\<rparr>]\<rparr>"

definition entry_command :: checked_command where
  "entry_command =
    \<lparr>cc_id = ''command_00000000000000000000000001'', cc_household = sample_hh, cc_task = sample_task_id,
     cc_proposal = maker_id, cc_proposal_hash = replicate 64 (CHR ''b''), cc_type = ''post_entry'',
     cc_idem = ''idem_00000000000000000000000001'', cc_confirmation = None, cc_schema = entry_schema,
     cc_payload = entry_payload\<rparr>"

text \<open>The default policy without waiting.\<close>

definition eager_policy :: mutation_policy where
  "eager_policy = defaultPolicy\<lparr>mp_delay := 0\<rparr>"

definition entry_run :: "checked_command \<Rightarrow> (nat opsdb, verified_mutation) dbm" where
  "entry_run = execute_mutation ledger_hashing eager_policy text_le entry_registry"

lemma accepted_ok: "system_ok accepted_db"
  by code_simp

lemma sample_world_simps [simp]: "wdb (sample_world d fs) = d" "txn (sample_world d fs) = None"
  by (simp_all add: sample_world_def)

section \<open>At most once\<close>

text \<open>Commands executed one after the other, whatever each execution answers.\<close>

fun execute_all :: "hashing \<Rightarrow> mutation_policy \<Rightarrow> locale_order \<Rightarrow> 'd registry \<Rightarrow>
    checked_command list \<Rightarrow> 'd opsdb world \<Rightarrow> 'd opsdb world" where
  "execute_all h p le reg [] w = w"
| "execute_all h p le reg (c # cs) w = execute_all h p le reg cs (snd (execute_mutation h p le reg c w))"

lemma execute_safe:
  assumes "system_ok (wdb w)" and "txn w = None" and "execute_mutation h p le reg c w = (r, w')"
  shows "txn w' = None \<and> own le reg c (wdb w) (wdb w') \<and> system_ok (wdb w')"
  using assms(3) dwp_returned [OF execute_dwp [OF assms(1)] assms(2)]
    dwp_threw [OF execute_dwp [OF assms(1)] assms(2)]
  by (cases r) (auto simp: safe_def)

lemma execute_all_history:
  assumes "system_ok (wdb w)" and "txn w = None"
  shows "system_ok (wdb (execute_all h p le reg cs w))
    \<and> history le reg (wdb w) (wdb (execute_all h p le reg cs w))"
  using assms
proof (induction cs arbitrary: w)
  case (Cons c cs)
  obtain r w' where c: "execute_mutation h p le reg c w = (r, w')" by fastforce
  from execute_safe [OF Cons.prems c]
  have "txn w' = None" "history le reg (wdb w) (wdb w')" "system_ok (wdb w')"
    by (auto simp: own_def)
  with Cons.IH [of w'] c show ?case by (auto intro: history_trans)
qed (simp add: history_refl)

text \<open>
  C1. Every change of the domain tables is accounted for, once. Execute any sequence of checked
  commands (repeated, reordered or conflicting), let any round trip of them fail, or succeed
  without an answer: the domain reached is the one obtained by running the registered handlers
  of the new receipts in their order, each exactly once; no two receipts, new or old, are of the
  same command; and the command of each receipt was registered for the exact payload of a maker
  artifact that a checker has accepted.
\<close>

theorem mutations_applied_once:
  assumes "system_ok (wdb w)" and "txn w = None"
    and d: "d = wdb w" and d': "d' = wdb (execute_all h p le reg cs w)"
  shows "\<exists>rs. receipts d' = receipts d @ rs
    \<and> replayed le reg (identities d') rs (domain d) (domain d')
    \<and> distinct (map receipt_key (receipts d'))
    \<and> (\<forall>r \<in> set rs. \<exists>c \<in> set (commands d'). command_key (rt_household r) (rt_command r) c
        \<and> exact_artifact c d'
        \<and> accepted_in d' (cm_household c) (cm_task c) (cm_proposal c) (cm_proposal_hash c))"
proof -
  have ok: "mutations_ok d'" and hist: "history le reg d d'"
    using execute_all_history [OF assms(1,2)] by (simp_all add: d d' system_ok_def)
  obtain rs where rs: "receipts d' = receipts d @ rs"
    "replayed le reg (identities d') rs (domain d) (domain d')"
    using hist by (auto simp: history_def)
  have "\<exists>c \<in> set (commands d'). command_key (rt_household r) (rt_command r) c" if "r \<in> set rs" for r
    using ok that rs(1) by (auto simp: mutations_ok_def tables_ok_def list_all_iff has_command_def list_ex_iff)
  then have "\<forall>r \<in> set rs. \<exists>c \<in> set (commands d'). command_key (rt_household r) (rt_command r) c
        \<and> exact_artifact c d'
        \<and> accepted_in d' (cm_household c) (cm_task c) (cm_proposal c) (cm_proposal_hash c)"
    using warrantedI [OF ok] by (fastforce simp: warranted_def)
  moreover have "distinct (map receipt_key (receipts d'))"
    using ok by (simp add: mutations_ok_def tables_ok_def unique_on_def)
  ultimately show ?thesis using rs by blast
qed

text \<open>
  The command is executed twice; the COMMIT of the first execution happens, but its answer is
  lost.
\<close>

definition lost_commit :: "fault list" where
  "lost_commit = replicate 23 No_fault @ [Fail_after lost_answer]"

abbreviation twice_end :: "nat opsdb" where
  "twice_end \<equiv> wdb (execute_all ledger_hashing eager_policy text_le entry_registry
     [entry_command, entry_command] (sample_world accepted_db lost_commit))"

theorem mutations_applied_once_witness:
  "\<exists>rs. receipts twice_end = rs
   \<and> replayed text_le entry_registry (identities twice_end) rs 0 (domain twice_end)
   \<and> distinct (map receipt_key rs)"
proof -
  have "domain accepted_db = 0" "receipts accepted_db = []"
    by (simp_all add: accepted_db_def empty_db_def)
  then show ?thesis
    using mutations_applied_once [OF _ _ refl refl, of "sample_world accepted_db lost_commit"
        ledger_hashing eager_policy text_le entry_registry "[entry_command, entry_command]"]
    by (auto simp: accepted_ok)
qed

section \<open>Refinement of an exactly-once ledger\<close>

text \<open>
  What the executor promises, without tables, retries, status columns or faults: a list of the
  commands applied so far and the domain. A step applies one command that is not in the list, by
  running its registered handler once.
\<close>

type_synonym 'd applied_ledger = "(string \<times> string) list \<times> 'd"

inductive applies ::
  "locale_order \<Rightarrow> 'd registry \<Rightarrow> command_row \<Rightarrow> 'd applied_ledger \<Rightarrow> 'd applied_ledger \<Rightarrow> bool"
  for le reg row where
  apply_once: "(cm_household row, cm_id row) \<notin> set applied \<Longrightarrow> reg (cm_type row) = Some hn \<Longrightarrow>
    stableJson le payload = stableJson le (cm_payload row) \<Longrightarrow> h_parse hn payload = Some input \<Longrightarrow>
    script_result (h_execute hn input (row_context row)) x out y \<Longrightarrow>
    applies le reg row (applied, x) (applied @ [(cm_household row, cm_id row)], y)"

definition ledger_of :: "'d opsdb \<Rightarrow> 'd applied_ledger" where
  "ledger_of d = (map receipt_key (receipts d), domain d)"

text \<open>A receipt of one command is one application of it.\<close>

lemma executed_applies:
  assumes "executed_as le reg cs r x y" and "receipt_key r \<notin> set applied"
  shows "\<exists>row \<in> set cs. command_key (rt_household r) (rt_command r) row
    \<and> applies le reg row (applied, x) (applied @ [receipt_key r], y)"
proof -
  obtain row hn payload input out where row: "row \<in> set cs"
      "command_key (rt_household r) (rt_command r) row" "reg (cm_type row) = Some hn"
      "stableJson le payload = stableJson le (cm_payload row)" "h_parse hn payload = Some input"
      "script_result (h_execute hn input (row_context row)) x out y"
    using assms(1) by (auto simp: executed_as_def)
  have key: "receipt_key r = (cm_household row, cm_id row)"
    using row(2) by (simp add: receipt_key_def command_key_def)
  have "applies le reg row (applied, x) (applied @ [receipt_key r], y)"
    unfolding key
    by (rule apply_once [where hn = hn and payload = payload and input = input and out = out])
      (use assms(2) key row(3-6) in simp_all)
  with row(1,2) show ?thesis by blast
qed

lemma same_key_singleton:
  "list_all (\<lambda>r. f r = k) rs \<Longrightarrow> distinct (map f rs) \<Longrightarrow> rs = [] \<or> (\<exists>r. rs = [r] \<and> f r = k)"
  by (cases rs; cases "tl rs") auto

lemma own_new_receipts:
  assumes "own le reg c d d'" and "system_ok d"
  obtains "receipts d' = receipts d" "domain d' = domain d"
  | r where "receipts d' = receipts d @ [r]" "receipt_key r = command_of c"
      "receipt_key r \<notin> set (map receipt_key (receipts d))"
      "executed_as le reg (identities d') r (domain d) (domain d')"
proof -
  have ok: "mutations_ok d'" using own_system [OF assms] by (simp add: system_ok_def)
  obtain rs where rs: "receipts d' = receipts d @ rs" "list_all (\<lambda>r. receipt_key r = command_of c) rs"
    "replayed le reg (identities d') rs (domain d) (domain d')"
    using assms(1) by (auto simp: own_def history_def)
  have dist: "distinct (map receipt_key (receipts d @ rs))"
    using ok by (simp add: mutations_ok_def tables_ok_def unique_on_def rs(1))
  then have "rs = [] \<or> (\<exists>r. rs = [r] \<and> receipt_key r = command_of c)"
    by (intro same_key_singleton rs(2)) simp
  then show thesis
    using rs(1,3) dist by (elim disjE exE conjE) (auto intro: that)
qed

lemma identity_applies [simp]: "applies le reg (command_identity row) = applies le reg row"
proof -
  have same: "cm_household (command_identity row) = cm_household row"
    "cm_id (command_identity row) = cm_id row" "cm_type (command_identity row) = cm_type row"
    "cm_payload (command_identity row) = cm_payload row"
    "row_context (command_identity row) = row_context row"
    by (simp_all add: command_identity_def row_context_def)
  show ?thesis by (rule ext, rule ext) (simp add: applies.simps same)
qed

text \<open>
  C2. Executing a checked command refines the exactly-once ledger. From any consistent database,
  whatever the faults and whatever the answer, one call of the executor either leaves the
  abstract ledger (the commands applied so far and the domain) as it is, or makes exactly one
  abstract step: it applies this command, which was not applied before, by running the registered
  handler once on the payload that was registered for an accepted proposal.
\<close>

theorem execute_refines_once:
  assumes "system_ok (wdb w)" and "txn w = None"
    and d': "d' = wdb (snd (execute_mutation h p le reg c w))"
  shows "ledger_of d' = ledger_of (wdb w)
    \<or> (\<exists>row \<in> set (commands d'). cm_household row = cc_household c \<and> cm_id row = cc_id c
        \<and> warranted d' row \<and> applies le reg row (ledger_of (wdb w)) (ledger_of d'))"
proof -
  obtain r w' where run: "execute_mutation h p le reg c w = (r, w')" by fastforce
  have own: "own le reg c (wdb w) d'" and ok: "mutations_ok d'"
    using execute_safe [OF assms(1,2) run] by (simp_all add: d' run system_ok_def)
  from own assms(1) show ?thesis
  proof (cases rule: own_new_receipts)
    case 1
    then show ?thesis by (simp add: ledger_of_def)
  next
    case (2 r)
    obtain row where row: "row \<in> set (identities d')" "command_key (rt_household r) (rt_command r) row"
      "applies le reg row (map receipt_key (receipts (wdb w)), domain (wdb w))
        (map receipt_key (receipts (wdb w)) @ [receipt_key r], domain d')"
      using executed_applies [OF 2(4,3)] by blast
    then obtain row' where row': "row' \<in> set (commands d')" "row = command_identity row'"
      by (auto simp: identities_def)
    have "cm_household row' = cc_household c \<and> cm_id row' = cc_id c"
      using row(2) 2(2) by (simp add: row'(2) command_key_def receipt_key_def command_of_def command_identity_def)
    then show ?thesis
      using row(3) row' 2(1) warrantedI [OF ok row'(1)] by (auto simp: ledger_of_def)
  qed
qed

theorem execute_refines_once_witness:
  "ledger_of (wdb (snd (entry_run entry_command (sample_world accepted_db lost_commit)))) = ([], 0)
   \<or> (\<exists>row. applies text_le entry_registry row ([], 0)
        (ledger_of (wdb (snd (entry_run entry_command (sample_world accepted_db lost_commit))))))"
proof -
  have "ledger_of accepted_db = ([], 0)"
    by (simp add: ledger_of_def accepted_db_def empty_db_def)
  then show ?thesis
    using execute_refines_once [OF _ _ refl, of "sample_world accepted_db lost_commit"
        ledger_hashing eager_policy text_le entry_registry entry_command]
    by (auto simp: accepted_ok entry_run_def)
qed

section \<open>Replays, refusals and answers\<close>

text \<open>
  C12. An answer of the executor is evidence. Whatever the faults, when a call of the executor
  returns, the command is stored as \<open>readback_verified\<close> and its task has followed it, the receipt
  it returns is the stored receipt of this command, and the read-back it returns is the stored
  one and positive.
\<close>

theorem execution_answer_is_evidence:
  assumes "system_ok (wdb w)" and "txn w = None"
  shows "case execute_mutation h p le reg c w of
      (Inr x, w') \<Rightarrow>
        (\<exists>row. resolved (cc_household c) (cc_id c) row (wdb w') \<and> cm_status row = Cmd_readback_verified)
        \<and> stored_receipt (cc_household c) (cc_id c) (wdb w') = Some (vm_receipt x)
        \<and> stored_readback (cc_household c) (cc_id c) (wdb w') = Some (vm_readback x)
        \<and> rb_ok (vm_readback x) \<and> system_ok (wdb w') \<and> txn w' = None
    | (Inl e, w') \<Rightarrow> system_ok (wdb w') \<and> txn w' = None"
proof -
  obtain r w' where run: "execute_mutation h p le reg c w = (r, w')" by fastforce
  have "system_ok (wdb w') \<and> txn w' = None" using execute_safe [OF assms run] by simp
  moreover have "verified_outcome c x (wdb w')" if "r = Inr x" for x
    using dwp_returned [OF execute_dwp [OF assms(1)] assms(2)] run that by blast
  ultimately show ?thesis by (simp add: run verified_outcome_def split: sum.split)
qed

theorem execution_answer_is_evidence_witness:
  "case entry_run entry_command (sample_world accepted_db lost_commit) of
      (Inr x, w') \<Rightarrow> rb_ok (vm_readback x) \<and> system_ok (wdb w')
    | (Inl e, w') \<Rightarrow> system_ok (wdb w')"
  using execution_answer_is_evidence [of "sample_world accepted_db lost_commit",
      where h = ledger_hashing and p = eager_policy and le = text_le and reg = entry_registry
        and c = entry_command]
  by (auto simp: accepted_ok entry_run_def split: prod.splits sum.splits)

text \<open>
  A replay has no effect on the books. When the command already has a receipt, another call
  of the executor, whatever its envelope, its answer and the faults, leaves the domain tables and
  the receipts exactly as they are.
\<close>

theorem receipt_makes_replays_inert:
  assumes "system_ok (wdb w)" and "txn w = None"
    and receipt: "find_receipt_row (cc_household c) (cc_id c) (wdb w) = Some r"
    and d': "d' = wdb (snd (execute_mutation h p le reg c w))"
  shows "domain d' = domain (wdb w) \<and> receipts d' = receipts (wdb w)"
proof -
  obtain x w' where run: "execute_mutation h p le reg c w = (x, w')" by fastforce
  have own: "own le reg c (wdb w) d'"
    using execute_safe [OF assms(1,2) run] by (simp add: d' run)
  have "command_of c \<in> set (map receipt_key (receipts (wdb w)))"
    using receipt by (force simp: find_receipt_row_def receipt_key_def command_of_def dest: find_SomeD)
  with own assms(1) show ?thesis by (cases rule: own_new_receipts) auto
qed

definition entry_row :: "command_status \<Rightarrow> command_row" where
  "entry_row s = (new_command_row entry_command False 0 accepted_db)\<lparr>cm_status := s\<rparr>"

text \<open>The database after the commit of the command, before its read-back.\<close>

definition booked_db :: "nat opsdb" where
  "booked_db = accepted_db
    \<lparr>commands := [entry_row Cmd_committed],
     receipts := [\<lparr>rt_household = sample_hh, rt_command = cc_id entry_command, rt_id = ''receipt_1'',
        rt_records = [\<lparr>cr_type = ''accounting.entry'', cr_id = ''entry_1''\<rparr>], rt_expected = JNum 0,
        rt_expected_hash = replicate 64 (CHR ''b''), rt_committed = 0\<rparr>],
     domain := 1\<rparr>"

lemma booked_ok: "system_ok booked_db"
  by code_simp

theorem receipt_makes_replays_inert_witness:
  "domain (wdb (snd (entry_run entry_command (sample_world booked_db lost_commit)))) = 1"
proof -
  have "find_receipt_row (cc_household entry_command) (cc_id entry_command) booked_db \<noteq> None"
    by code_simp
  moreover have "domain booked_db = 1" by (simp add: booked_db_def)
  ultimately show ?thesis
    using receipt_makes_replays_inert [OF _ _ _ refl, of "sample_world booked_db lost_commit"
        entry_command _ ledger_hashing eager_policy text_le entry_registry]
    by (auto simp: booked_ok entry_run_def)
qed

lemma same_get_verified: "keeps (db_moves (=)) (getVerified h postgres_artifacts aid)"
  unfolding getVerified_def postgres_artifacts_def artifact_repo.simps findById_def findWhere_def
    requireId_def
  by (intro same_db.keeps_pool same_reads)

lemma dwp_throws:
  assumes "dwp m (\<lambda>_ _. False) E (wdb w)" and "txn w = None"
  shows "\<exists>e w'. m w = (Inl e, w') \<and> E e (wdb w')"
proof -
  obtain r w' where m: "m w = (r, w')" by fastforce
  show ?thesis
  proof (cases r)
    case (Inl e)
    then show ?thesis using dwp_threw [OF assms] m by blast
  next
    case (Inr x)
    then show ?thesis using dwp_returned [OF assms] m by blast
  qed
qed

lemma accepts_verdict: "accepts c v \<Longrightarrow> map_option cv_verdict v = Some V_accepted"
  by (auto simp: accepts_def split: option.splits)

text \<open>
  C13. Nothing is executed without the checker. When the latest verdict of the task is not an
  acceptance, or there is none, every call of the executor for it throws and leaves the whole
  database as it is, whatever the proposal, the payload and the faults.
\<close>

theorem unaccepted_proposal_never_runs:
  assumes "map_option (vd_verdict \<circ> fst) (latest_verdict_row (cc_household c) (cc_task c) (wdb w))
      \<noteq> Some V_accepted"
    and "txn w = None"
  shows "\<exists>e w'. execute_mutation h p le reg c w = (Inl e, w') \<and> wdb w' = wdb w"
proof -
  have "dwp (execute_mutation h p le reg c) (\<lambda>_ _. False) (\<lambda>_ d'. d' = wdb w) (wdb w)"
    unfolding execute_mutation_def
    by (intro dwp_bindM dwp_requireM dwp_liftE
          dwp_mono [OF keeps_dwp_rel [OF same_get_verified]] dwp_mono [OF findLatestVerdict_dwp])
      (use assms(1) in \<open>auto dest!: accepts_verdict simp del: map_option_eq_Some simp: eq_commute\<close>)
  then show ?thesis using dwp_throws [OF _ assms(2)] by blast
qed

theorem unaccepted_proposal_never_runs_witness:
  "\<exists>e w'. entry_run entry_command (sample_world (accepted_db\<lparr>verdicts := []\<rparr>) []) = (Inl e, w')
    \<and> domain (wdb w') = 0"
proof -
  have "latest_verdict_row hh task (accepted_db\<lparr>verdicts := []\<rparr>) = None" for hh task
    by (simp add: latest_verdict_row_def)
  moreover have "domain accepted_db = 0" by (simp add: accepted_db_def empty_db_def)
  ultimately show ?thesis
    using unaccepted_proposal_never_runs [of entry_command
        "sample_world (accepted_db\<lparr>verdicts := []\<rparr>) []" ledger_hashing eager_policy text_le entry_registry]
    by (auto simp: entry_run_def)
qed

end
