(* ===== verification/MutationComponents.thy ===== *)
theory MutationComponents
  imports CheckedMutations
begin

text \<open>
  The guarantees of the parts of the mutation pipeline taken alone: the runner, the resolver, the
  registry and the policy of the runner, and one property of the error paths between them.
\<close>

section \<open>The runner\<close>


definition pending_db :: "nat opsdb" where
  "pending_db = accepted_db\<lparr>commands := [entry_row Cmd_execution_pending]\<rparr>"

lemma pending_matched: "matched entry_command pending_db"
  by (simp add: matched_def pending_db_def find_command_row_def command_key_def entry_row_def
      new_command_row_def row_matches_def)


text \<open>
  The runner's policy is bounded: a policy that the constructor accepts allows between one and
  five attempts, takes every option that is given and the default of every other; and the
  constructor rejects exactly the numbers of attempts out of these bounds.
\<close>

theorem runner_policy_bounds:
  "case runner_policy o' of
     Inr p \<Rightarrow> mp_attempts p \<in> {1..5} \<and> mp_attempts p = override (po_attempts o') 3
       \<and> mp_overall p = override (po_overall o') 15000 \<and> mp_delay p = override (po_delay o') 25
       \<and> mp_statement p = override (po_statement o') 5000 \<and> mp_lock p = override (po_lock o') 1000
       \<and> mp_idle p = override (po_idle o') 5000
   | Inl e \<Rightarrow> override (po_attempts o') 3 \<notin> {1..5}"
  by (auto simp: runner_policy_def defaultPolicy_def Let_def)

text \<open>Errors that the bridge has normalised.\<close>

lemma client_query_pg:
  assumes "client_query f w = (Inl e, w')" and "\<And>t d e. f t d = Inl e \<Longrightarrow> \<not> is_plus_one e"
  shows "\<not> is_plus_one e"
  using assms
  by (auto simp: client_query_def pool_query_def pg_code_failure_def split: option.splits
      transaction.splits fault.splits sum.splits prod.splits)

lemma normalized_code:
  assumes "\<not> is_plus_one e"
  shows "\<not> isSerializationFailure (normalizeMutationDatabaseError e)
    \<and> \<not> isConnectionFailure (normalizeMutationDatabaseError e)"
proof -
  have "\<not> isSerializationFailure (normalizeDatabaseError b e) \<and> \<not> isConnectionFailure (normalizeDatabaseError b e)" for b
    using assms
    by (auto simp: isSerializationFailure_def isConnectionFailure_def normalizeDatabaseError_def
        SQL_STATE_MAPPING_def Let_def split: prod.splits option.splits if_splits)
  then show ?thesis
    using assms
    by (simp add: normalizeMutationDatabaseError_def Let_def)
      (auto simp: isSerializationFailure_def isConnectionFailure_def)
qed

lemma claim_error:
  assumes "claim hh cid w = (Inl e, w')"
  shows "\<exists>e'. \<not> is_plus_one e' \<and> e = normalizeMutationDatabaseError e'"
proof -
  have "\<not> is_plus_one x" if "client_query (read_only (claim_mutation_command hh cid)) w = (Inl x, w'')" for x w''
    by (rule client_query_pg [OF that]) (simp add: read_only_def)
  then show ?thesis
    using assms
    by (force simp: claim_def catchM_def bindM_def raise_def requireM_def ret_def
        split: prod.splits sum.splits option.splits if_splits)
qed

lemma constraints_Some: "constraints cs = Some e \<Longrightarrow> \<exists>b. (b, e) \<in> set cs"
  by (induction cs rule: constraints.induct) (auto split: if_splits)

lemma guarded_pg:
  assumes "guarded cs x = Inl e" and "list_all (\<lambda>(b, e). \<not> is_plus_one e) cs"
  shows "\<not> is_plus_one e"
  using assms by (auto simp: guarded_def list_all_iff dest!: constraints_Some split: option.splits)

lemma violations_pg [simp]:
  "\<not> is_plus_one (check_violation s)" "\<not> is_plus_one (unique_violation s)"
  by (simp_all add: check_violation_def unique_violation_def pg_constraint_failure_def)

lemma update_status_pg: "update_command_status p s f t d = Inl e \<Longrightarrow> \<not> is_plus_one e"
  unfolding update_command_status_def
  by (erule guarded_pg) (auto simp: list_all_iff guard_mutation_command_update_def split: if_splits)

lemma commit_pg: "commit_mutation_command i t d = Inl e \<Longrightarrow> \<not> is_plus_one e"
  by (auto simp: commit_mutation_command_def Let_def dest!: update_status_pg
      split: if_splits sum.splits) (drule guarded_pg; simp)

lemma commit_error:
  assumes "commit_bridge i w = (Inl e, w')"
  shows "\<exists>e'. \<not> is_plus_one e' \<and> e = normalizeMutationDatabaseError e'"
proof -
  have "\<not> is_plus_one x" if "client_query (commit_mutation_command i) w = (Inl x, w'')" for x w''
    by (rule client_query_pg [OF that]) (rule commit_pg)
  then show ?thesis
    using assms
    by (force simp: commit_bridge_def requireId_def catchM_def bindM_def raise_def requireM_def ret_def
        split: prod.splits sum.splits if_splits)
qed

text \<open>
  C20. Conflicts that reach the runner through the bridge are final. The runner retries errors
  whose code is \<open>40001\<close>, and looks a receipt up for codes \<open>08...\<close>; but what \<open>claim\<close> and
  \<open>commit\<close> of the bridge throw, for any fault of the connection or the statement, has been given
  one of the code's own error codes, so that it is never recognised as either. The catch block of
  the runner then throws it on the first attempt, however many attempts the policy allows. An
  error of the driver itself is recognised.
\<close>

theorem bridge_conflicts_are_not_retried:
  "(case claim hh cid w of
      (Inl e, w') \<Rightarrow> \<not> isSerializationFailure e \<and> \<not> isConnectionFailure e
        \<and> fst (on_failure p c attempt True False e w') = Inl e
    | (Inr x, w') \<Rightarrow> True)
   \<and> (case commit_bridge i w of
      (Inl e, w') \<Rightarrow> \<not> isSerializationFailure e \<and> \<not> isConnectionFailure e
        \<and> fst (on_failure p c attempt True False e w') = Inl e
    | (Inr x, w') \<Rightarrow> True)
   \<and> isSerializationFailure (pg_code_failure ''40001'') \<and> isConnectionFailure (pg_code_failure ''08006'')"
proof -
  have thrown: "fst (on_failure p c attempt True False e v) = Inl e"
    if "is_plus_one e" "\<not> isSerializationFailure e" "\<not> isConnectionFailure e" for e v
    using that
    by (simp add: on_failure_def bindM_def quietly_def thenM_def raise_def ret_def
        split: prod.split sum.split)
  have bridge: "\<not> isSerializationFailure e \<and> \<not> isConnectionFailure e
      \<and> fst (on_failure p c attempt True False e v) = Inl e"
    if "\<exists>e'. \<not> is_plus_one e' \<and> e = normalizeMutationDatabaseError e'" for e v
    using that normalized_code thrown is_plus_one_normalize_mutation by metis
  obtain r w' where c: "claim hh cid w = (r, w')" by fastforce
  obtain r' w'' where b: "commit_bridge i w = (r', w'')" by fastforce
  have "isSerializationFailure (pg_code_failure ''40001'')" "isConnectionFailure (pg_code_failure ''08006'')"
    by (simp_all add: isSerializationFailure_def isConnectionFailure_def pg_code_failure_def)
  moreover have "case r of Inl e \<Rightarrow> \<not> isSerializationFailure e \<and> \<not> isConnectionFailure e
      \<and> fst (on_failure p c attempt True False e w') = Inl e | Inr x \<Rightarrow> True"
  proof (cases r)
    case (Inl e)
    then show ?thesis using bridge [OF claim_error [of hh cid w e w']] c by simp
  qed simp
  moreover have "case r' of Inl e \<Rightarrow> \<not> isSerializationFailure e \<and> \<not> isConnectionFailure e
      \<and> fst (on_failure p c attempt True False e w'') = Inl e | Inr x \<Rightarrow> True"
  proof (cases r')
    case (Inl e)
    then show ?thesis using bridge [OF commit_error [of i w e w'']] b by simp
  qed simp
  ultimately show ?thesis unfolding c b prod.case by blast
qed

section \<open>The resolver\<close>

text \<open>
  C19. The resolver settles. Whatever was interrupted before and whatever fails now, when
  \<open>reconcile\<close> returns a command, that is the stored command and its task stands at the status
  that belongs to the command's; whether it returns or throws, it changes neither the domain nor
  the receipts.
\<close>

theorem reconcile_settles:
  assumes "households_ok (wdb w)" and "txn w = None"
  shows "case reconcile hh cid w of
      (r, w') \<Rightarrow> domain (wdb w') = domain (wdb w) \<and> receipts (wdb w') = receipts (wdb w) \<and>
        (case r of Inl e \<Rightarrow> True
         | Inr row \<Rightarrow> find_command_row hh cid (wdb w') = Some row
            \<and> (\<exists>t. find_task_row hh (cm_task row) (wdb w') = Some t
                 \<and> settled (cm_status row) (t_status t)))"
proof -
  note run = dwp_quiet [OF reconcile_dwp [OF assms(1)] quiet_reconcile]
  obtain r w' where w': "reconcile hh cid w = (r, w')" by fastforce
  show ?thesis
    using dwp_returned [OF run assms(2)] dwp_threw [OF run assms(2)] w'
    by (cases r) (auto simp: resolved_def quiet_def)
qed

theorem reconcile_settles_witness:
  "case reconcile sample_hh (cc_id entry_command) (sample_world pending_db lost_commit) of
     (r, w') \<Rightarrow> domain (wdb w') = 0"
proof -
  have "system_ok pending_db" by code_simp
  then have "households_ok pending_db" by (rule system_households)
  moreover have "domain pending_db = 0" by (simp add: pending_db_def accepted_db_def empty_db_def)
  ultimately show ?thesis
    using reconcile_settles [of "sample_world pending_db lost_commit" sample_hh "cc_id entry_command"]
    by (auto split: prod.splits)
qed

section \<open>The registry\<close>

text \<open>
  The registry is an exact allow-list. Its construction succeeds exactly for handlers with
  distinct command types that all require the receipt check; then preparing a command succeeds
  exactly when one of the given handlers has its type and its schema, its confirmation rule
  agrees with the presence of a confirmation, and its input parser accepts the payload.
\<close>

lemma add_handlers_accepts:
  "(\<exists>reg. add_handlers m hs = Inr reg) \<longleftrightarrow>
     distinct (map h_type hs) \<and> list_all (\<lambda>h. m (h_type h) = None) hs
     \<and> list_all (\<lambda>h. Ck_idempotency_receipt \<in> set (h_required h)) hs"
proof (induction hs arbitrary: m)
  case (Cons h hs)
  have "list_all (\<lambda>g. (m(h_type h \<mapsto> h)) (h_type g) = None) hs \<longleftrightarrow>
      h_type h \<notin> h_type ` set hs \<and> list_all (\<lambda>g. m (h_type g) = None) hs"
    by (induction hs) auto
  with Cons.IH [of "m(h_type h \<mapsto> h)"] show ?case
    by (auto simp del: fun_upd_apply)
qed simp

definition confirmation_fits :: "confirmation_rule \<Rightarrow> 'a option \<Rightarrow> bool" where
  "confirmation_fits rule x \<longleftrightarrow>
     (case rule of Confirm_required \<Rightarrow> x \<noteq> None | Confirm_forbidden \<Rightarrow> x = None
      | Confirm_optional \<Rightarrow> True)"

theorem registry_is_exact_allow_list:
  "case commandRegistry hs of
     Inl e \<Rightarrow> \<not> (distinct (map h_type hs)
         \<and> list_all (\<lambda>h. Ck_idempotency_receipt \<in> set (h_required h)) hs)
   | Inr reg \<Rightarrow> distinct (map h_type hs)
       \<and> list_all (\<lambda>h. Ck_idempotency_receipt \<in> set (h_required h)) hs
       \<and> (prepare reg c = Inr (hn, x) \<longleftrightarrow>
            hn \<in> set hs \<and> h_type hn = cc_type c
            \<and> sch_name (h_schema hn) = sch_name (cc_schema c)
            \<and> sch_version (h_schema hn) = sch_version (cc_schema c)
            \<and> confirmation_fits (h_confirmation hn) (cc_confirmation c)
            \<and> h_parse hn (cc_payload c) = Some x)"
proof (cases "commandRegistry hs")
  case (Inl e)
  then show ?thesis
    using add_handlers_accepts [of Map.empty hs] by (auto simp: commandRegistry_def list_all_iff)
next
  case (Inr reg)
  have spec: "reg = map_of (map (\<lambda>h. (h_type h, h)) hs)" "distinct (map h_type hs)"
    "\<forall>h \<in> set hs. Ck_idempotency_receipt \<in> set (h_required h)"
    using add_handlers_spec [of Map.empty hs reg] Inr by (simp_all add: commandRegistry_def)
  have look: "reg ty = Some g \<longleftrightarrow> g \<in> set hs \<and> h_type g = ty" for ty g
    using map_of_eq_Some_iff [of "map (\<lambda>h. (h_type h, h)) hs" ty g] spec(2)
    by (auto simp: spec(1) comp_def)
  have "prepare reg c = Inr (hn, x) \<longleftrightarrow> reg (cc_type c) = Some hn
      \<and> sch_name (h_schema hn) = sch_name (cc_schema c)
      \<and> sch_version (h_schema hn) = sch_version (cc_schema c)
      \<and> confirmation_fits (h_confirmation hn) (cc_confirmation c) \<and> h_parse hn (cc_payload c) = Some x"
  proof (cases "reg (cc_type c)")
    case (Some g)
    show ?thesis
      by (cases "h_confirmation g"; cases "h_parse g (cc_payload c)")
        (auto simp: prepare_def Some confirmation_fits_def split: if_splits)
  qed (simp add: prepare_def)
  then show ?thesis
    unfolding Inr sum.case using spec(2,3) by (simp add: look list_all_iff conj_assoc)
qed

end
