(* ===== verification/TurnRegistry.thy ===== *)
theory TurnRegistry
  imports Prelude "HOL-Library.AList"
begin

text \<open>
  Conversation turns: packages/runtime/src/gateway/active-turn-registry.ts.

  The registry runs on one JavaScript thread. A step of the model is what the thread does between
  two points where it yields: the synchronous part of \<open>submit\<close>, the continuation of \<open>run\<close> after the
  work has settled, or one promise callback. Callbacks wait in a first-in first-out list, as the
  microtask queue does. Slots are objects: \<open>heap\<close> holds them by their number, and \<open>slots\<close> is the
  \<open>Map\<close> from keys to slots, an association list, so that a callback can act on a slot that the map has forgotten.
\<close>

section \<open>The state\<close>

datatype origin = From_submit | From_drain

record 'w slot =
  sl_active :: bool
  sl_queue :: "'w list"
  sl_drain :: bool

text \<open>A call of \<open>run\<close> that waits for its work.\<close>

record 'w turn =
  tn_key :: string
  tn_slot :: nat
  tn_work :: 'w
  tn_origin :: origin

text \<open>
  Callbacks: the \<open>finally\<close> of \<open>submit\<close>, the continuation of the drain loop after its \<open>await\<close>, and
  the \<open>finally\<close> of the drain loop.
\<close>

datatype job = Settle string nat | Drain_next string nat | Drain_done string nat

fun job_slot :: "job \<Rightarrow> nat" where
  "job_slot (Settle k s) = s"
| "job_slot (Drain_next k s) = s"
| "job_slot (Drain_done k s) = s"

text \<open>
  \<open>accepted\<close> and \<open>started\<close> are not fields of the class: they record every work that \<open>submit\<close> did not
  refuse (and whether it was queued), and every call of \<open>run\<close>.
\<close>

record 'w turns =
  slots :: "(string \<times> nat) list"
  heap :: "'w slot list"
  accepting :: bool
  running :: "'w turn list"
  jobs :: "job list"
  accepted :: "(string \<times> 'w \<times> origin) list"
  started :: "(string \<times> 'w \<times> origin) list"

definition no_turns :: "'w turns" where
  "no_turns = \<lparr>slots = [], heap = [], accepting = True, running = [], jobs = [],
     accepted = [], started = []\<rparr>"

definition on_slot :: "nat \<Rightarrow> ('w slot \<Rightarrow> 'w slot) \<Rightarrow> 'w turns \<Rightarrow> 'w turns" where
  "on_slot s f st = st\<lparr>heap := (heap st)[s := f (heap st ! s)]\<rparr>"

section \<open>The operations\<close>

text \<open>The synchronous part of \<open>run\<close>, up to \<open>await work()\<close>.\<close>

definition run_turn :: "string \<Rightarrow> nat \<Rightarrow> 'w \<Rightarrow> origin \<Rightarrow> 'w turns \<Rightarrow> 'w turns" where
  "run_turn k s w orig st =
    (on_slot s (sl_active_update (\<lambda>_. True)) st)
      \<lparr>running := running st @ [\<lparr>tn_key = k, tn_slot = s, tn_work = w, tn_origin = orig\<rparr>],
       started := started st @ [(k, w, orig)]\<rparr>"

text \<open>One round of \<open>while (slot.queue.length > 0)\<close>.\<close>

definition drain_loop :: "string \<Rightarrow> nat \<Rightarrow> 'w turns \<Rightarrow> 'w turns" where
  "drain_loop k s st =
    (case sl_queue (heap st ! s) of
       [] \<Rightarrow> st\<lparr>jobs := jobs st @ [Drain_done k s]\<rparr>
     | w # ws \<Rightarrow> run_turn k s w From_drain (on_slot s (sl_queue_update (\<lambda>_. ws)) st))"

definition scheduleDrain :: "string \<Rightarrow> nat \<Rightarrow> 'w turns \<Rightarrow> 'w turns" where
  "scheduleDrain k s st =
    (let slot = heap st ! s
     in if sl_active slot \<or> sl_drain slot \<or> sl_queue slot = []
        then if \<not> sl_active slot \<and> \<not> sl_drain slot \<and> sl_queue slot = []
             then st\<lparr>slots := AList.delete k (slots st)\<rparr> else st
        else drain_loop k s (on_slot s (sl_drain_update (\<lambda>_. True)) st))"

datatype submitted = Sub_started | Sub_queued | Sub_closed

definition slot_for :: "string \<Rightarrow> 'w turns \<Rightarrow> nat \<times> 'w turns" where
  "slot_for k st =
    (case map_of (slots st) k of
       Some s \<Rightarrow> (s, st)
     | None \<Rightarrow> (length (heap st),
         st\<lparr>heap := heap st @ [\<lparr>sl_active = False, sl_queue = [], sl_drain = False\<rparr>],
            slots := AList.update k (length (heap st)) (slots st)\<rparr>))"

definition submit :: "string \<Rightarrow> 'w \<Rightarrow> 'w turns \<Rightarrow> submitted \<times> 'w turns" where
  "submit k w st =
    (if \<not> accepting st then (Sub_closed, st)
     else
       let (s, st) = slot_for k st; slot = heap st ! s
       in if sl_active slot \<or> sl_drain slot
          then (Sub_queued, (on_slot s (sl_queue_update (\<lambda>q. q @ [w])) st)
                  \<lparr>accepted := accepted st @ [(k, w, From_drain)]\<rparr>)
          else (Sub_started,
                  run_turn k s w From_submit (st\<lparr>accepted := accepted st @ [(k, w, From_submit)]\<rparr>)))"

text \<open>The work of turn number \<open>i\<close> settles, with a value or an error: the \<open>finally\<close> of \<open>run\<close>.\<close>

definition complete_turn :: "nat \<Rightarrow> 'w turns \<Rightarrow> 'w turns" where
  "complete_turn i st =
    (let t = running st ! i
     in (on_slot (tn_slot t) (sl_active_update (\<lambda>_. False)) st)
          \<lparr>running := take i (running st) @ drop (Suc i) (running st),
           jobs := jobs st @ [case tn_origin t of
              From_submit \<Rightarrow> Settle (tn_key t) (tn_slot t)
            | From_drain \<Rightarrow> Drain_next (tn_key t) (tn_slot t)]\<rparr>)"

fun run_job :: "job \<Rightarrow> 'w turns \<Rightarrow> 'w turns" where
  "run_job (Settle k s) st = scheduleDrain k s st"
| "run_job (Drain_next k s) st = drain_loop k s st"
| "run_job (Drain_done k s) st =
    (let st = on_slot s (sl_drain_update (\<lambda>_. False)) st; slot = heap st ! s
     in if sl_queue slot \<noteq> [] then scheduleDrain k s st
        else if \<not> sl_active slot \<and> sl_queue slot = []
        then st\<lparr>slots := AList.delete k (slots st)\<rparr> else st)"

text \<open>The state that \<open>drainIdle\<close> waits for, and the number of active turns.\<close>

definition drained :: "'w turns \<Rightarrow> bool" where
  "drained st \<longleftrightarrow> list_all (\<lambda>(k, s). \<not> sl_active (heap st ! s) \<and> \<not> sl_drain (heap st ! s)) (slots st)"

definition activeCount :: "'w turns \<Rightarrow> nat" where
  "activeCount st = length (filter (\<lambda>(k, s). sl_active (heap st ! s)) (slots st))"

definition shutdown :: "'w turns \<Rightarrow> 'w turns" where
  "shutdown st = st\<lparr>accepting := False\<rparr>"

section \<open>Executions\<close>

text \<open>
  A turn that starts while the \<open>finally\<close> of an earlier one of its slot is in the queue awaits its
  work at least once, so its own continuation comes after that callback.
\<close>

definition can_complete :: "nat \<Rightarrow> 'w turns \<Rightarrow> bool" where
  "can_complete i st \<longleftrightarrow>
     i < length (running st) \<and> list_all (\<lambda>j. job_slot j \<noteq> tn_slot (running st ! i)) (jobs st)"

text \<open>What the registry does by itself, and what callers do.\<close>

inductive internal_step :: "'w turns \<Rightarrow> 'w turns \<Rightarrow> bool" where
  step_complete: "can_complete i st \<Longrightarrow> internal_step st (complete_turn i st)"
| step_job: "jobs st = j # js \<Longrightarrow> internal_step st (run_job j (st\<lparr>jobs := js\<rparr>))"

inductive turn_step :: "'w turns \<Rightarrow> 'w turns \<Rightarrow> bool" where
  step_internal: "internal_step st st' \<Longrightarrow> turn_step st st'"
| step_submit: "turn_step st (snd (submit k w st))"
| step_shutdown: "turn_step st (shutdown st)"

inductive turns_reachable :: "'w turns \<Rightarrow> bool" where
  reach_start: "turns_reachable no_turns"
| reach_step: "turns_reachable st \<Longrightarrow> turn_step st st' \<Longrightarrow> turns_reachable st'"

section \<open>The phases of a slot\<close>

definition turns_at :: "nat \<Rightarrow> 'w turns \<Rightarrow> (string \<times> origin) list" where
  "turns_at s st = map (\<lambda>t. (tn_key t, tn_origin t)) (filter (\<lambda>t. tn_slot t = s) (running st))"

definition jobs_at :: "nat \<Rightarrow> 'w turns \<Rightarrow> job list" where
  "jobs_at s st = filter (\<lambda>j. job_slot j = s) (jobs st)"

text \<open>
  The life of one slot: the calls of \<open>run\<close> on it, the callbacks that wait for it, its flags, its
  queue, and whether the map holds it. A slot is never used again once the map has forgotten it.
\<close>

inductive phase_ok :: "string \<Rightarrow> nat \<Rightarrow> (string \<times> origin) list \<Rightarrow> job list \<Rightarrow> bool \<Rightarrow> bool \<Rightarrow>
    'w list \<Rightarrow> bool \<Rightarrow> bool" for k s where
  ph_dead: "phase_ok k s [] [] False False [] False"
| ph_running: "phase_ok k s [(k, From_submit)] [] True False q True"
| ph_settling: "phase_ok k s [] [Settle k s] False False q True"
| ph_overtaken: "phase_ok k s [(k, From_submit)] [Settle k s] True False q True"
| ph_draining: "phase_ok k s [(k, From_drain)] [] True True q True"
| ph_next: "phase_ok k s [] [Drain_next k s] False True q True"
| ph_done: "phase_ok k s [] [Drain_done k s] False True q True"

inductive_simps phase_simps: "phase_ok k s ts js a d q m"

definition slot_phase :: "string \<Rightarrow> nat \<Rightarrow> 'w turns \<Rightarrow> bool" where
  "slot_phase k s st \<longleftrightarrow>
     phase_ok k s (turns_at s st) (jobs_at s st) (sl_active (heap st ! s)) (sl_drain (heap st ! s))
       (sl_queue (heap st ! s)) (map_of (slots st) k = Some s)"

text \<open>\<open>own s\<close> is the key that slot \<open>s\<close> was made for.\<close>

definition turns_ok :: "(nat \<Rightarrow> string) \<Rightarrow> 'w turns \<Rightarrow> bool" where
  "turns_ok own st \<longleftrightarrow>
     (\<forall>s < length (heap st). slot_phase (own s) s st)
     \<and> (\<forall>t \<in> set (running st). tn_slot t < length (heap st))
     \<and> (\<forall>j \<in> set (jobs st). job_slot j < length (heap st))
     \<and> (\<forall>k s. map_of (slots st) k = Some s \<longrightarrow> s < length (heap st) \<and> own s = k)"

text \<open>A step that touches one slot only.\<close>

definition slot_step :: "string \<Rightarrow> nat \<Rightarrow> 'w turns \<Rightarrow> 'w turns \<Rightarrow> bool" where
  "slot_step k s st st' \<longleftrightarrow>
     length (heap st') = length (heap st)
     \<and> (\<forall>s'. s' \<noteq> s \<longrightarrow> heap st' ! s' = heap st ! s' \<and> turns_at s' st' = turns_at s' st
          \<and> jobs_at s' st' = jobs_at s' st)
     \<and> (\<forall>t \<in> set (running st'). tn_slot t = s \<or> t \<in> set (running st))
     \<and> (\<forall>j \<in> set (jobs st'). job_slot j = s \<or> j \<in> set (jobs st))
     \<and> (\<forall>k'. k' \<noteq> k \<longrightarrow> map_of (slots st') k' = map_of (slots st) k')
     \<and> (map_of (slots st') k = map_of (slots st) k
          \<or> map_of (slots st) k = Some s \<and> map_of (slots st') k = None)"

lemma slot_stepD:
  assumes "slot_step k s st st'"
  shows "length (heap st') = length (heap st)"
    and "s' \<noteq> s \<Longrightarrow> heap st' ! s' = heap st ! s'" and "s' \<noteq> s \<Longrightarrow> turns_at s' st' = turns_at s' st"
    and "s' \<noteq> s \<Longrightarrow> jobs_at s' st' = jobs_at s' st"
    and "t \<in> set (running st') \<Longrightarrow> tn_slot t = s \<or> t \<in> set (running st)"
    and "j \<in> set (jobs st') \<Longrightarrow> job_slot j = s \<or> j \<in> set (jobs st)"
    and "map_of (slots st') k' = map_of (slots st) k'
      \<or> k' = k \<and> map_of (slots st) k = Some s \<and> map_of (slots st') k = None"
proof -
  have d: "length (heap st') = length (heap st)"
    "\<forall>s'. s' \<noteq> s \<longrightarrow> heap st' ! s' = heap st ! s' \<and> turns_at s' st' = turns_at s' st
      \<and> jobs_at s' st' = jobs_at s' st"
    "\<forall>t \<in> set (running st'). tn_slot t = s \<or> t \<in> set (running st)"
    "\<forall>j \<in> set (jobs st'). job_slot j = s \<or> j \<in> set (jobs st)"
    "\<forall>k'. k' \<noteq> k \<longrightarrow> map_of (slots st') k' = map_of (slots st) k'"
    "map_of (slots st') k = map_of (slots st) k
      \<or> map_of (slots st) k = Some s \<and> map_of (slots st') k = None"
    using assms by (unfold slot_step_def) (elim conjE, assumption)+
  show "length (heap st') = length (heap st)" by (rule d(1))
  show "heap st' ! s' = heap st ! s'" "turns_at s' st' = turns_at s' st" "jobs_at s' st' = jobs_at s' st"
    if "s' \<noteq> s" using d(2) that by blast+
  show "tn_slot t = s \<or> t \<in> set (running st)" if "t \<in> set (running st')" using d(3) that by blast
  show "job_slot j = s \<or> j \<in> set (jobs st)" if "j \<in> set (jobs st')" using d(4) that by blast
  show "map_of (slots st') k' = map_of (slots st) k'
      \<or> k' = k \<and> map_of (slots st) k = Some s \<and> map_of (slots st') k = None"
    using d(5,6) by (cases "k' = k") simp_all
qed

lemma turns_okD:
  assumes "turns_ok own st"
  shows "s < length (heap st) \<Longrightarrow> slot_phase (own s) s st"
    and "t \<in> set (running st) \<Longrightarrow> tn_slot t < length (heap st)"
    and "j \<in> set (jobs st) \<Longrightarrow> job_slot j < length (heap st)"
    and "map_of (slots st) k = Some s \<Longrightarrow> s < length (heap st)"
    and "map_of (slots st) k = Some s \<Longrightarrow> own s = k"
  using assms unfolding turns_ok_def by blast+

lemma turns_ok_step:
  assumes ok: "turns_ok own st" and s: "s < length (heap st)"
    and step: "slot_step (own s) s st st'" and phase: "slot_phase (own s) s st'"
  shows "turns_ok own st'"
proof -
  note ds = slot_stepD [OF step] and ok = turns_okD [OF ok]
  have mapped: "map_of (slots st') k = Some s' \<Longrightarrow> map_of (slots st) k = Some s'" for k s'
    using ds(7) [of k] by auto
  have other: "slot_phase (own s') s' st'" if "s' < length (heap st)" "s' \<noteq> s" for s'
  proof -
    have "map_of (slots st') (own s') = Some s' \<longleftrightarrow> map_of (slots st) (own s') = Some s'"
      using ds(7) [of "own s'"] that(2) by auto
    then show ?thesis
      using ok(1) [OF that(1)] unfolding slot_phase_def by (simp add: ds(2-4) that(2))
  qed
  show ?thesis
    unfolding turns_ok_def
  proof (intro conjI allI impI ballI)
    fix s' assume "s' < length (heap st')"
    then show "slot_phase (own s') s' st'"
      using phase other ds(1) by (cases "s' = s") simp_all
  next
    fix t assume "t \<in> set (running st')"
    then show "tn_slot t < length (heap st')" using ds(5) ok(2) s by (auto simp: ds(1))
  next
    fix j assume "j \<in> set (jobs st')"
    then show "job_slot j < length (heap st')" using ds(6) ok(3) s by (auto simp: ds(1))
  next
    fix k s' assume "map_of (slots st') k = Some s'"
    from mapped [OF this] show "s' < length (heap st')" "own s' = k"
      using ok(4,5) by (simp_all add: ds(1))
  qed
qed

section \<open>What the operations do to a slot\<close>

named_theorems turn_simps "the parts of the state after an operation"

lemma on_slot_simps [simp]:
  "slots (on_slot s f st) = slots st" "running (on_slot s f st) = running st"
  "jobs (on_slot s f st) = jobs st" "accepting (on_slot s f st) = accepting st"
  "accepted (on_slot s f st) = accepted st" "started (on_slot s f st) = started st"
  "length (heap (on_slot s f st)) = length (heap st)"
  by (simp_all add: on_slot_def)

lemma heap_on_slot [turn_simps]:
  "s < length (heap st) \<Longrightarrow> heap (on_slot s f st) ! s = f (heap st ! s)"
  "s' \<noteq> s \<Longrightarrow> heap (on_slot s f st) ! s' = heap st ! s'"
  by (simp_all add: on_slot_def)

lemma at_simps [turn_simps]:
  "turns_at s (on_slot s' f st) = turns_at s st" "jobs_at s (on_slot s' f st) = jobs_at s st"
  "turns_at s (st\<lparr>jobs := js\<rparr>) = turns_at s st" "turns_at s (st\<lparr>slots := m\<rparr>) = turns_at s st"
  "jobs_at s (st\<lparr>slots := m\<rparr>) = jobs_at s st"
  "jobs_at s (st\<lparr>jobs := js\<rparr>) = filter (\<lambda>j. job_slot j = s) js"
  "turns_at s (st\<lparr>accepted := l\<rparr>) = turns_at s st" "jobs_at s (st\<lparr>accepted := l\<rparr>) = jobs_at s st"
  by (simp_all add: turns_at_def jobs_at_def)

lemma run_turn_simps [turn_simps]:
  "turns_at s (run_turn k s w orig st) = turns_at s st @ [(k, orig)]"
  "s' \<noteq> s \<Longrightarrow> turns_at s' (run_turn k s w orig st) = turns_at s' st"
  "jobs_at s' (run_turn k s w orig st) = jobs_at s' st"
  "slots (run_turn k s w orig st) = slots st" "jobs (run_turn k s w orig st) = jobs st"
  "length (heap (run_turn k s w orig st)) = length (heap st)"
  "s < length (heap st) \<Longrightarrow> heap (run_turn k s w orig st) ! s = (heap st ! s)\<lparr>sl_active := True\<rparr>"
  "s' \<noteq> s \<Longrightarrow> heap (run_turn k s w orig st) ! s' = heap st ! s'"
  "accepted (run_turn k s w orig st) = accepted st"
  "started (run_turn k s w orig st) = started st @ [(k, w, orig)]"
  "running (run_turn k s w orig st) =
     running st @ [\<lparr>tn_key = k, tn_slot = s, tn_work = w, tn_origin = orig\<rparr>]"
  by (simp_all add: run_turn_def turns_at_def jobs_at_def on_slot_def)

lemma delete_map [turn_simps]: "map_of (AList.delete k m) k' = (if k' = k then None else map_of m k')"
  by (simp add: delete_conv')

lemma drain_loop_step:
  "s < length (heap st) \<Longrightarrow> slot_step k' s st (drain_loop k s st)"
  unfolding slot_step_def drain_loop_def
  by (cases "sl_queue (heap st ! s)") (auto simp: turn_simps jobs_at_def)

lemma drain_loop_phase:
  assumes s: "s < length (heap st)" and "turns_at s st = []" "jobs_at s st = []"
    "\<not> sl_active (heap st ! s)" "sl_drain (heap st ! s)" "map_of (slots st) k = Some s"
  shows "slot_phase k s (drain_loop k s st)"
  using assms
  by (cases "sl_queue (heap st ! s)")
    (auto simp: drain_loop_def slot_phase_def turn_simps phase_simps jobs_at_def)

lemma scheduleDrain_step:
  assumes "s < length (heap st)" and "map_of (slots st) k = Some s"
  shows "slot_step k s st (scheduleDrain k s st)"
proof -
  let ?st = "on_slot s (sl_drain_update (\<lambda>_. True)) st"
  have "slot_step k s ?st (drain_loop k s ?st)" by (rule drain_loop_step) (simp add: assms)
  then have "slot_step k s st (drain_loop k s ?st)"
    by (simp add: slot_step_def turn_simps)
  moreover have "slot_step k s st (st\<lparr>slots := AList.delete k (slots st)\<rparr>)" "slot_step k s st st"
    using assms by (simp_all add: slot_step_def turn_simps)
  ultimately show ?thesis by (simp add: scheduleDrain_def Let_def)
qed

text \<open>\<open>scheduleDrain\<close> on a slot without callbacks that is idle or has been overtaken.\<close>

lemma scheduleDrain_phase:
  assumes s: "s < length (heap st)" and "jobs_at s st = []" "\<not> sl_drain (heap st ! s)"
    and "map_of (slots st) k = Some s"
    and "turns_at s st = (if sl_active (heap st ! s) then [(k, From_submit)] else [])"
  shows "slot_phase k s (scheduleDrain k s st)"
proof (cases "\<not> sl_active (heap st ! s) \<and> sl_queue (heap st ! s) \<noteq> []")
  case True
  have "slot_phase k s (drain_loop k s (on_slot s (sl_drain_update (\<lambda>_. True)) st))"
    by (rule drain_loop_phase) (use assms True in \<open>simp_all add: turn_simps\<close>)
  with True assms(3) show ?thesis by (simp add: scheduleDrain_def Let_def)
next
  case False
  with assms show ?thesis
    by (auto simp: scheduleDrain_def slot_phase_def turn_simps phase_simps Let_def)
qed

section \<open>Every step keeps the phases\<close>

lemma slot_phaseD:
  "slot_phase k s st \<Longrightarrow>
    phase_ok k s (turns_at s st) (jobs_at s st) (sl_active (heap st ! s)) (sl_drain (heap st ! s))
      (sl_queue (heap st ! s)) (map_of (slots st) k = Some s)"
  by (simp add: slot_phase_def)

lemma filter_remove:
  assumes "i < length xs"
  shows "filter P (take i xs @ drop (Suc i) xs) =
    filter P (take i xs) @ filter P (drop (Suc i) xs)"
    and "filter P xs = filter P (take i xs) @ (if P (xs ! i) then [xs ! i] else []) @ filter P (drop (Suc i) xs)"
  by (simp, subst id_take_nth_drop [OF assms], simp)

lemma append_single: "xs @ y # ys = [z] \<longleftrightarrow> xs = [] \<and> y = z \<and> ys = []"
  by (cases xs) auto

lemma complete_ok:
  assumes ok: "turns_ok own st" and can: "can_complete i st"
  shows "turns_ok own (complete_turn i st)"
proof -
  let ?t = "running st ! i" and ?st = "complete_turn i st"
  let ?s = "tn_slot ?t"
  have i: "i < length (running st)" and none: "jobs_at ?s st = []"
    using can by (auto simp: can_complete_def jobs_at_def list_all_iff filter_empty_conv)
  have s: "?s < length (heap st)" using turns_okD(2) [OF ok] i by simp
  have remove: "turns_at s ?st = map (\<lambda>t. (tn_key t, tn_origin t))
      (filter (\<lambda>t. tn_slot t = s) (take i (running st) @ drop (Suc i) (running st)))" for s
    by (simp add: complete_turn_def Let_def turns_at_def on_slot_def)
  have other: "turns_at s ?st = turns_at s st" if "s \<noteq> ?s" for s
    using that filter_remove [OF i, of "\<lambda>t. tn_slot t = s"]
    unfolding remove by (simp add: turns_at_def)
  have phase: "slot_phase (own ?s) ?s st" by (rule turns_okD(1) [OF ok s])
  have at: "turns_at ?s st = map (\<lambda>t. (tn_key t, tn_origin t)) (filter (\<lambda>t. tn_slot t = ?s) (take i (running st)))
      @ (tn_key ?t, tn_origin ?t)
      # map (\<lambda>t. (tn_key t, tn_origin t)) (filter (\<lambda>t. tn_slot t = ?s) (drop (Suc i) (running st)))"
    using filter_remove(2) [OF i, of "\<lambda>t. tn_slot t = ?s"] by (simp add: turns_at_def)
  have one: "turns_at ?s ?st = []" "turns_at ?s st = [(tn_key ?t, tn_origin ?t)]"
    using slot_phaseD [OF phase] unfolding remove at phase_simps none by (auto simp: append_single)
  let ?j = "case tn_origin ?t of From_submit \<Rightarrow> Settle (tn_key ?t) ?s
      | From_drain \<Rightarrow> Drain_next (tn_key ?t) ?s"
  have parts: "heap ?st = (heap st)[?s := (heap st ! ?s)\<lparr>sl_active := False\<rparr>]" "slots ?st = slots st"
    "jobs ?st = jobs st @ [?j]" "running ?st = take i (running st) @ drop (Suc i) (running st)"
    by (simp_all add: complete_turn_def Let_def on_slot_def)
  have job: "job_slot ?j = ?s" by (simp split: origin.split)
  have jobs: "jobs_at ?s ?st = [?j]" "\<And>s. s \<noteq> ?s \<Longrightarrow> jobs_at s ?st = jobs_at s st"
    using none job by (auto simp: jobs_at_def parts(3))
  show ?thesis
  proof (rule turns_ok_step [OF ok s])
    show "slot_step (own ?s) ?s st ?st"
      unfolding slot_step_def
      using other jobs(2) job by (auto simp: parts dest: in_set_takeD in_set_dropD)
    show "slot_phase (own ?s) ?s ?st"
      using slot_phaseD [OF phase] s
      unfolding slot_phase_def one jobs(1) none phase_simps
      by (auto simp: parts split: origin.split)
  qed
qed

lemma job_ok:
  assumes ok: "turns_ok own st" and js: "jobs st = j # js"
  shows "turns_ok own (run_job j (st\<lparr>jobs := js\<rparr>))"
proof -
  let ?s = "job_slot j" and ?st = "st\<lparr>jobs := js\<rparr>"
  have s: "?s < length (heap st)" using turns_okD(3) [OF ok] js by simp
  note phase = slot_phaseD [OF turns_okD(1) [OF ok s]]
  have at: "jobs_at ?s st = j # jobs_at ?s ?st" by (simp add: jobs_at_def js)
  then have one: "jobs_at ?s ?st = []" using phase by (auto simp: phase_simps)
  have others: "s' \<noteq> ?s \<Longrightarrow> jobs_at s' ?st = jobs_at s' st" for s' by (simp add: jobs_at_def js)
  have whole: "turns_ok own st'" if "slot_step (own ?s) ?s ?st st'" "slot_phase (own ?s) ?s st'" for st'
  proof (rule turns_ok_step [OF ok s _ that(2)])
    show "slot_step (own ?s) ?s st st'"
      using that(1) others unfolding slot_step_def by (simp add: turn_simps js) blast
  qed
  show ?thesis
  proof (cases j)
    case (Settle k s)
    with phase at one have k: "k = own s" "map_of (slots st) k = Some s" "\<not> sl_drain (heap st ! s)"
      "turns_at s st = (if sl_active (heap st ! s) then [(k, From_submit)] else [])"
      by (auto simp: phase_simps)
    show ?thesis
      unfolding Settle run_job.simps
      by (rule whole [unfolded Settle job_slot.simps])
        (use k s one Settle in \<open>auto intro!: scheduleDrain_step scheduleDrain_phase simp: turn_simps\<close>)
  next
    case (Drain_next k s)
    with phase at one have k: "k = own s" "map_of (slots st) k = Some s" "sl_drain (heap st ! s)"
      "turns_at s st = []" "\<not> sl_active (heap st ! s)"
      by (auto simp: phase_simps)
    show ?thesis
      unfolding Drain_next run_job.simps
      by (rule whole [unfolded Drain_next job_slot.simps])
        (use k s one Drain_next in \<open>auto intro!: drain_loop_step drain_loop_phase simp: turn_simps\<close>)
  next
    case (Drain_done k s)
    with phase at one have k: "k = own s" "map_of (slots st) k = Some s" "sl_drain (heap st ! s)"
      "turns_at s st = []" "\<not> sl_active (heap st ! s)" "s < length (heap st)" "jobs_at s ?st = []"
      using s by (auto simp: phase_simps)
    let ?u = "on_slot s (sl_drain_update (\<lambda>_. False)) ?st"
    have u: "slot_step k s ?st ?u" using k(6) by (simp add: slot_step_def turn_simps)
    have sched: "slot_step k s ?u (scheduleDrain k s ?u)" "slot_phase k s (scheduleDrain k s ?u)"
      using k by (auto intro!: scheduleDrain_step scheduleDrain_phase simp: turn_simps)
    have "run_job j ?st = scheduleDrain k s ?u"
      using k by (simp add: Drain_done Let_def turn_simps scheduleDrain_def)
    moreover have "slot_step k s ?st (scheduleDrain k s ?u)"
      using sched(1) k(6) by (simp add: slot_step_def turn_simps)
    ultimately show ?thesis
      using whole sched(2) k(1) by (simp add: Drain_done)
  qed
qed

lemma slot_for_ok:
  assumes ok: "turns_ok own st" and f: "slot_for k st = (s, st')"
  obtains own' where "s < length (heap st')" "own' s = k" "map_of (slots st') k = Some s"
    "\<forall>s' < length (heap st'). s' \<noteq> s \<longrightarrow> slot_phase (own' s') s' st'"
    "\<forall>t \<in> set (running st'). tn_slot t < length (heap st')"
    "\<forall>j \<in> set (jobs st'). job_slot j < length (heap st')"
    "\<forall>k s. map_of (slots st') k = Some s \<longrightarrow> s < length (heap st') \<and> own' s = k"
    "slot_phase k s st' \<or> turns_at s st' = [] \<and> jobs_at s st' = []
       \<and> heap st' ! s = \<lparr>sl_active = False, sl_queue = [], sl_drain = False\<rparr>"
proof (cases "map_of (slots st) k")
  case (Some s0)
  with f have s: "s0 = s" "st' = st" by (simp_all add: slot_for_def)
  have "s < length (heap st)" "own s = k" using turns_okD(4,5) [OF ok] Some s by auto
  moreover from this have "slot_phase k s st" using turns_okD(1) [OF ok, of s] by simp
  ultimately show thesis
    using ok Some s by (intro that [of own]) (auto simp: turns_ok_def)
next
  case None
  let ?n = "length (heap st)" and ?own = "own(length (heap st) := k)"
  have s: "s = ?n" and st': "st' = st\<lparr>heap := heap st @ [\<lparr>sl_active = False, sl_queue = [], sl_drain = False\<rparr>],
      slots := AList.update k ?n (slots st)\<rparr>"
    using f None by (auto simp: slot_for_def)
  have m: "map_of (slots st') k' = (if k' = k then Some ?n else map_of (slots st) k')" for k'
    by (simp add: st' update_conv')
  have at: "turns_at s' st' = turns_at s' st" "jobs_at s' st' = jobs_at s' st" for s'
    by (simp_all add: st' turns_at_def jobs_at_def)
  have fresh: "turns_at ?n st = []" "jobs_at ?n st = []"
    using turns_okD(2,3) [OF ok] by (force simp: turns_at_def jobs_at_def filter_empty_conv)+
  have "slot_phase (?own s') s' st'" if "s' < ?n" for s'
  proof -
    have "own s' \<noteq> k \<or> map_of (slots st) (own s') \<noteq> Some s'" using None by auto
    then show ?thesis
      using turns_okD(1) [OF ok that] that None
      by (auto simp: slot_phase_def at m) (simp_all add: st' nth_append)
  qed
  with fresh ok show thesis
    by (intro that [of ?own])
      (auto simp: s at [unfolded st'] m st' turns_ok_def less_Suc_eq update_conv' split: if_splits)
qed

lemma submit_ok:
  assumes "turns_ok own st"
  shows "\<exists>own'. turns_ok own' (snd (submit k w st))"
proof (cases "accepting st")
  case True
  obtain s st' where f: "slot_for k st = (s, st')" by fastforce
  obtain own' where o: "s < length (heap st')" "own' s = k" "map_of (slots st') k = Some s"
    "\<forall>s' < length (heap st'). s' \<noteq> s \<longrightarrow> slot_phase (own' s') s' st'"
    "\<forall>t \<in> set (running st'). tn_slot t < length (heap st')"
    "\<forall>j \<in> set (jobs st'). job_slot j < length (heap st')"
    "\<forall>k s. map_of (slots st') k = Some s \<longrightarrow> s < length (heap st') \<and> own' s = k"
    and p: "slot_phase k s st' \<or> turns_at s st' = [] \<and> jobs_at s st' = []
       \<and> heap st' ! s = \<lparr>sl_active = False, sl_queue = [], sl_drain = False\<rparr>"
    by (rule slot_for_ok [OF assms f])
  let ?q = "(on_slot s (sl_queue_update (\<lambda>q. q @ [w])) st')\<lparr>accepted := accepted st' @ [(k, w, From_drain)]\<rparr>"
  let ?r = "run_turn k s w From_submit (st'\<lparr>accepted := accepted st' @ [(k, w, From_submit)]\<rparr>)"
  have sub: "snd (submit k w st) = (if sl_active (heap st' ! s) \<or> sl_drain (heap st' ! s) then ?q else ?r)"
    using True f by (simp add: submit_def Let_def)
  have ok: "turns_ok own' st''"
    if "slot_step k s st' st''" "slot_phase k s st''" for st''
  proof -
    have "slot_phase (own' s') s' st''" if "s' < length (heap st')" for s'
    proof (cases "s' = s")
      case False
      have "map_of (slots st'') (own' s') = Some s' \<longleftrightarrow> map_of (slots st') (own' s') = Some s'"
        using slot_stepD(7) [OF \<open>slot_step k s st' st''\<close>, of "own' s'"] False by auto
      then show ?thesis
        using o(4) False that slot_stepD(2-4) [OF \<open>slot_step k s st' st''\<close> False]
        by (simp add: slot_phase_def)
    qed (use \<open>slot_phase k s st''\<close> o(2) in simp)
    moreover have "s' < length (heap st') \<and> own' s' = k'" if "map_of (slots st'') k' = Some s'" for k' s'
      using slot_stepD(7) [OF \<open>slot_step k s st' st''\<close>, of k'] that o(7) by auto
    moreover have "\<forall>t \<in> set (running st''). tn_slot t < length (heap st')"
      using o(1,5) slot_stepD(5) [OF that(1)] by auto
    moreover have "\<forall>j \<in> set (jobs st''). job_slot j < length (heap st')"
      using o(1,6) slot_stepD(6) [OF that(1)] by auto
    ultimately show ?thesis
      using slot_stepD(1) [OF that(1)] unfolding turns_ok_def by simp
  qed
  have "slot_step k s st' ?q" "slot_step k s st' ?r"
    using o(1) by (auto simp: slot_step_def turn_simps)
  moreover have "sl_active (heap st' ! s) \<or> sl_drain (heap st' ! s) \<Longrightarrow> slot_phase k s ?q"
    using p o(1,3) by (auto simp: slot_phase_def turn_simps phase_simps)
  moreover have "\<not> (sl_active (heap st' ! s) \<or> sl_drain (heap st' ! s)) \<Longrightarrow> slot_phase k s ?r"
    using p o(1,3) by (auto simp: slot_phase_def turn_simps phase_simps)
  ultimately show ?thesis unfolding sub using ok by (intro exI [of _ own']) auto
qed (use assms in \<open>auto simp: submit_def\<close>)

lemma shutdown_ok: "turns_ok own (shutdown st) = turns_ok own st"
  by (simp add: turns_ok_def slot_phase_def turns_at_def jobs_at_def shutdown_def)

lemma reachable_ok: "turns_reachable st \<Longrightarrow> \<exists>own. turns_ok own st"
proof (induction rule: turns_reachable.induct)
  case reach_start
  then show ?case by (simp add: turns_ok_def no_turns_def)
next
  case (reach_step st st')
  then obtain own where ok: "turns_ok own st" by blast
  from reach_step(2) show ?case
  proof cases
    case step_internal
    then show ?thesis
      by (cases rule: internal_step.cases) (use complete_ok [OF ok] job_ok [OF ok] in blast)+
  next
    case (step_submit k w)
    then show ?thesis using submit_ok [OF ok] by simp
  next
    case step_shutdown
    then show ?thesis using ok by (auto simp: shutdown_ok)
  qed
qed

section \<open>Every accepted turn runs once, in order\<close>

definition log_of :: "string \<Rightarrow> origin \<Rightarrow> (string \<times> 'w \<times> origin) list \<Rightarrow> 'w list" where
  "log_of k orig l = map (fst \<circ> snd) (filter (\<lambda>(k', w, orig'). k' = k \<and> orig' = orig) l)"

definition queue_of :: "string \<Rightarrow> 'w turns \<Rightarrow> 'w list" where
  "queue_of k st = (case map_of (slots st) k of None \<Rightarrow> [] | Some s \<Rightarrow> sl_queue (heap st ! s))"

lemma queue_of_simps [simp]:
  "queue_of k (st\<lparr>jobs := js\<rparr>) = queue_of k st" "queue_of k (st\<lparr>accepted := l\<rparr>) = queue_of k st"
  "queue_of k (st\<lparr>accepting := b\<rparr>) = queue_of k st" "queue_of k (st\<lparr>running := ts\<rparr>) = queue_of k st"
  "queue_of k (st\<lparr>slots := m\<rparr>) =
     (case map_of m k of None \<Rightarrow> [] | Some s \<Rightarrow> sl_queue (heap st ! s))"
  by (simp_all add: queue_of_def split: option.split)

definition log_ok :: "'w turns \<Rightarrow> bool" where
  "log_ok st \<longleftrightarrow>
     (\<forall>k. log_of k From_submit (accepted st) = log_of k From_submit (started st)
        \<and> log_of k From_drain (accepted st) = log_of k From_drain (started st) @ queue_of k st)"

lemma log_of_append [simp]:
  "log_of k orig (l @ [(k', w, orig')]) =
     log_of k orig l @ (if k' = k \<and> orig' = orig then [w] else [])"
  by (simp add: log_of_def)

lemma log_ok_cong:
  assumes "accepted st' = accepted st" "started st' = started st" "\<And>k. queue_of k st' = queue_of k st"
  shows "log_ok st' = log_ok st"
  using assms by (simp add: log_ok_def)

lemma queue_of_other:
  assumes "map_of (slots st) k = Some s" and "\<And>k'. map_of (slots st) k' = Some s \<Longrightarrow> k' = k"
    and "slots st' = slots st" and "\<And>s'. s' \<noteq> s \<Longrightarrow> heap st' ! s' = heap st ! s'"
  shows "queue_of k' st' = (if k' = k then sl_queue (heap st' ! s) else queue_of k' st)"
proof (cases "k' = k")
  case False
  then have "s' \<noteq> s" if "map_of (slots st) k' = Some s'" for s' using assms(2) that by blast
  then show ?thesis using False assms(3,4) by (simp add: queue_of_def split: option.split)
qed (simp add: queue_of_def assms)

lemma on_slot_log:
  assumes "\<And>sl. sl_queue (f sl) = sl_queue sl"
  shows "log_ok (on_slot s f st) = log_ok st"
proof (rule log_ok_cong)
  have "sl_queue (heap (on_slot s f st) ! s') = sl_queue (heap st ! s')" for s'
    using assms by (cases "s < length (heap st)"; cases "s' = s") (auto simp: on_slot_def list_update_beyond)
  then show "queue_of k (on_slot s f st) = queue_of k st" for k
    by (simp add: queue_of_def split: option.split)
qed simp_all

lemma drain_loop_log:
  assumes log: "log_ok st" and s: "s < length (heap st)" "map_of (slots st) k = Some s"
    and own: "\<And>k'. map_of (slots st) k' = Some s \<Longrightarrow> k' = k"
  shows "log_ok (drain_loop k s st)"
proof (cases "sl_queue (heap st ! s)")
  case Nil
  have "log_ok (st\<lparr>jobs := jobs st @ [Drain_done k s]\<rparr>) = log_ok st"
    by (rule log_ok_cong) simp_all
  with Nil log show ?thesis by (simp add: drain_loop_def)
next
  case (Cons w ws)
  let ?u = "on_slot s (sl_queue_update (\<lambda>_. ws)) st"
  let ?st = "run_turn k s w From_drain ?u"
  have q: "queue_of k' ?st = (if k' = k then ws else queue_of k' st)" for k'
    using queue_of_other [OF s(2) own, of ?st k'] s(1) by (simp add: turn_simps)
  have "queue_of k st = w # ws" using s(2) Cons by (simp add: queue_of_def)
  then have "log_ok ?st"
    using log unfolding log_ok_def by (auto simp: turn_simps q)
  with Cons show ?thesis by (simp add: drain_loop_def)
qed

lemma delete_log:
  assumes "log_ok st" and "map_of (slots st) k = Some s" and "sl_queue (heap st ! s) = []"
  shows "log_ok (st\<lparr>slots := AList.delete k (slots st)\<rparr>)"
proof -
  have "queue_of k' (st\<lparr>slots := AList.delete k (slots st)\<rparr>) = queue_of k' st" for k'
    using assms(2,3) by (simp add: queue_of_def [of k' st] turn_simps)
  with assms(1) show ?thesis by (simp add: log_ok_def)
qed

lemma scheduleDrain_log:
  assumes log: "log_ok st" and s: "s < length (heap st)" "map_of (slots st) k = Some s"
    and own: "\<And>k'. map_of (slots st) k' = Some s \<Longrightarrow> k' = k"
  shows "log_ok (scheduleDrain k s st)"
proof -
  have "log_ok (drain_loop k s (on_slot s (sl_drain_update (\<lambda>_. True)) st))"
  proof (rule drain_loop_log)
    show "k' = k" if "map_of (slots (on_slot s (sl_drain_update (\<lambda>_. True)) st)) k' = Some s" for k'
      by (rule own) (use that in simp)
  qed (use log s in \<open>simp_all add: on_slot_log\<close>)
  then show ?thesis
    using delete_log [OF log s(2)] log by (simp add: scheduleDrain_def Let_def)
qed

lemma job_log:
  assumes ok: "turns_ok own st" and log: "log_ok st" and js: "jobs st = j # js"
  shows "log_ok (run_job j (st\<lparr>jobs := js\<rparr>))"
proof -
  let ?s = "job_slot j" and ?st = "st\<lparr>jobs := js\<rparr>"
  have s: "?s < length (heap st)" using turns_okD(3) [OF ok] js by simp
  have "jobs_at ?s st \<noteq> []" by (simp add: jobs_at_def js)
  then have m: "map_of (slots st) (own ?s) = Some ?s" and k: "j \<in> {Settle (own ?s) ?s,
      Drain_next (own ?s) ?s, Drain_done (own ?s) ?s}"
    using slot_phaseD [OF turns_okD(1) [OF ok s]] by (auto simp: phase_simps jobs_at_def js)
  have log': "log_ok ?st" using log log_ok_cong [of ?st st] by simp
  let ?u = "on_slot ?s (sl_drain_update (\<lambda>_. False)) ?st"
  have own: "map_of (slots ?st) k' = Some ?s \<Longrightarrow> k' = own ?s"
    "map_of (slots ?u) k' = Some ?s \<Longrightarrow> k' = own ?s" for k'
    using turns_okD(5) [OF ok, of k' ?s] by simp_all
  have sched: "log_ok (scheduleDrain (own ?s) ?s ?st)" "log_ok (drain_loop (own ?s) ?s ?st)"
    "log_ok (scheduleDrain (own ?s) ?s ?u)"
    by (rule scheduleDrain_log [OF _ _ _ own(1)] drain_loop_log [OF _ _ _ own(1)]
        scheduleDrain_log [OF _ _ _ own(2)]; use log' s m in \<open>simp add: on_slot_log\<close>)+
  have deleted: "log_ok (?u\<lparr>slots := AList.delete (own ?s) (slots ?u)\<rparr>)" if "sl_queue (heap ?u ! ?s) = []"
    by (rule delete_log) (use log' m that in \<open>simp_all add: on_slot_log\<close>)
  from k sched deleted show ?thesis
    using on_slot_log [of "sl_drain_update (\<lambda>_. False)" ?s ?st] log'
    by (cases j) (auto simp: Let_def)
qed

lemma submit_log:
  assumes ok: "turns_ok own st" and log: "log_ok st"
  shows "log_ok (snd (submit k w st))"
proof (cases "accepting st")
  case True
  obtain s st' where f: "slot_for k st = (s, st')" by fastforce
  have m: "map_of (slots st') k = Some s" and s: "s < length (heap st')"
    and own: "\<And>k'. map_of (slots st') k' = Some s \<Longrightarrow> k' = k"
    by (rule slot_for_ok [OF ok f]; simp)+
  have q: "queue_of k' st' = queue_of k' st" "accepted st' = accepted st" "started st' = started st" for k'
    using f turns_okD(4) [OF ok, of k']
    by (cases "map_of (slots st) k"; cases "map_of (slots st) k'"; cases "k' = k";
        auto simp: slot_for_def queue_of_def update_conv' nth_append)+
  let ?q = "(on_slot s (sl_queue_update (\<lambda>q. q @ [w])) st')\<lparr>accepted := accepted st' @ [(k, w, From_drain)]\<rparr>"
  let ?r = "run_turn k s w From_submit (st'\<lparr>accepted := accepted st' @ [(k, w, From_submit)]\<rparr>)"
  have qk: "queue_of k st = sl_queue (heap st' ! s)" using q(1) [of k] m by (simp add: queue_of_def)
  have "queue_of k' ?q = (if k' = k then queue_of k st @ [w] else queue_of k' st)" for k'
    using queue_of_other [OF m own, of ?q k'] s q(1) [of k', symmetric] qk by (simp add: turn_simps)
  moreover have "queue_of k' ?r = queue_of k' st" for k'
    using queue_of_other [OF m own, of ?r k'] s q(1) [of k'] qk
    by (cases "k' = k") (simp_all add: turn_simps)
  ultimately have "log_ok ?q" "log_ok ?r"
    using log by (auto simp: log_ok_def q turn_simps)
  then show ?thesis using True f by (simp add: submit_def Let_def)
qed (use log in \<open>auto simp: submit_def\<close>)

lemma reachable_log: "turns_reachable st \<Longrightarrow> log_ok st"
proof (induction rule: turns_reachable.induct)
  case reach_start
  then show ?case by (simp add: log_ok_def no_turns_def log_of_def queue_of_def)
next
  case (reach_step st st')
  obtain own where ok: "turns_ok own st" using reachable_ok [OF reach_step(1)] by blast
  from reach_step(2) show ?case
  proof cases
    case step_internal
    then show ?thesis
    proof cases
      case (step_complete i)
      let ?s = "tn_slot (running st ! i)"
      have "log_ok st' = log_ok (on_slot ?s (sl_active_update (\<lambda>_. False)) st)"
        unfolding step_complete(1) complete_turn_def Let_def
        by (rule log_ok_cong) simp_all
      then show ?thesis using reach_step.IH by (simp add: on_slot_log)
    qed (use job_log [OF ok reach_step.IH] in simp)
  next
    case (step_submit k w)
    then show ?thesis using submit_log [OF ok reach_step.IH] by simp
  next
    case step_shutdown
    then show ?thesis using reach_step.IH log_ok_cong [of st' st] by (simp add: shutdown_def)
  qed
qed

section \<open>Mutual exclusion\<close>

lemma distinct_by_count:
  "(\<And>y. length (filter (\<lambda>x. f x = y) xs) \<le> 1) \<Longrightarrow> distinct (map f xs)"
proof (induction xs)
  case (Cons x xs)
  have "filter (\<lambda>z. f z = f x) xs = []" using Cons.prems [of "f x"] by simp
  then have "f x \<notin> set (map f xs)" by (auto simp: filter_empty_conv)
  moreover have "length (filter (\<lambda>z. f z = y) xs) \<le> 1" for y
    using Cons.prems [of y] by (auto split: if_splits)
  ultimately show ?case using Cons.IH by simp
qed simp

lemma running_mapped:
  assumes ok: "turns_ok own st" and t: "t \<in> set (running st)"
  shows "map_of (slots st) (tn_key t) = Some (tn_slot t)"
proof -
  have "(tn_key t, tn_origin t) \<in> set (turns_at (tn_slot t) st)"
    using t by (force simp: turns_at_def)
  with slot_phaseD [OF turns_okD(1) [OF ok turns_okD(2) [OF ok t]]] show ?thesis
    by (auto simp: phase_simps)
qed

lemma one_turn_per_slot:
  assumes ok: "turns_ok own st"
  shows "length (turns_at s st) \<le> 1"
proof (cases "s < length (heap st)")
  case True
  from slot_phaseD [OF turns_okD(1) [OF ok True]] show ?thesis by (auto simp: phase_simps)
next
  case False
  then have "turns_at s st = []"
    using turns_okD(2) [OF ok] by (force simp: turns_at_def filter_empty_conv)
  then show ?thesis by simp
qed

text \<open>
  C28. One turn per conversation. In every state the registry can reach, whatever is submitted
  and in whatever order works settle and callbacks run, no two works with the same key are
  running, and the map has the slot of every running one.
\<close>

theorem one_turn_per_conversation:
  assumes "turns_reachable st"
  shows "distinct (map tn_key (running st))
    \<and> list_all (\<lambda>t. map_of (slots st) (tn_key t) = Some (tn_slot t)) (running st)"
proof -
  obtain own where ok: "turns_ok own st" using reachable_ok [OF assms] by blast
  have "distinct (map tn_slot (running st))"
    using one_turn_per_slot [OF ok] by (intro distinct_by_count) (simp add: turns_at_def)
  moreover have slot: "map tn_slot (running st) = map (the \<circ> map_of (slots st)) (map tn_key (running st))"
    using running_mapped [OF ok] by simp
  ultimately have "distinct (map tn_key (running st))" unfolding slot by (simp only: distinct_map)
  then show ?thesis using running_mapped [OF ok] by (simp add: list_all_iff)
qed

definition busy_state :: "nat turns" where
  "busy_state = snd (submit ''c'' 2 (snd (submit ''b'' 1 (snd (submit ''b'' 0 no_turns)))))"

lemma busy_reachable: "turns_reachable busy_state"
  unfolding busy_state_def by (intro reach_step [OF _ step_submit] reach_start)

theorem one_turn_per_conversation_witness:
  "map tn_key (running busy_state) = [''b'', ''c''] \<and> distinct (map tn_key (running busy_state))"
  using one_turn_per_conversation [OF busy_reachable] by code_simp

text \<open>
  C29. Every accepted turn runs once. In every reachable state the works that were started at
  once are, for each conversation, exactly those that \<open>submit\<close> started, in the order of their
  submission; the works that were queued are started in the order of their submission too, and
  those not yet started are exactly the queue of the conversation's slot.
\<close>

theorem accepted_turns_run_once_in_order:
  assumes "turns_reachable st"
  shows "log_of k From_submit (accepted st) = log_of k From_submit (started st)
    \<and> log_of k From_drain (accepted st) = log_of k From_drain (started st) @ queue_of k st"
  using reachable_log [OF assms] by (simp add: log_ok_def)

theorem accepted_turns_run_once_in_order_witness:
  "log_of ''b'' From_drain (accepted busy_state) = [1] \<and> queue_of ''b'' busy_state = [1]
   \<and> log_of ''b'' From_submit (started busy_state) = [0]"
  using accepted_turns_run_once_in_order [OF busy_reachable, of "''b''"] by code_simp

section \<open>Progress\<close>

definition queued_count :: "'w turns \<Rightarrow> nat" where
  "queued_count st = sum_list (map (length \<circ> sl_queue) (heap st))"

fun job_weight :: "job \<Rightarrow> nat" where
  "job_weight (Settle k s) = 3"
| "job_weight (Drain_next k s) = 2"
| "job_weight (Drain_done k s) = 1"

text \<open>A bound on the steps that the registry can make by itself.\<close>

definition turn_fuel :: "'w turns \<Rightarrow> nat" where
  "turn_fuel st =
     5 * queued_count st + 4 * length (running st) + sum_list (map job_weight (jobs st))"

lemma queued_on_slot:
  assumes "s < length (heap st)"
  shows "queued_count (on_slot s f st) + length (sl_queue (heap st ! s)) =
    queued_count st + length (sl_queue (f (heap st ! s)))"
proof -
  have "length (sl_queue (heap st ! s)) \<le> queued_count st"
    using assms unfolding queued_count_def by (intro member_le_sum_list) auto
  then show ?thesis
    using assms by (simp add: queued_count_def on_slot_def map_update sum_list_update comp_def)
qed

lemma queued_count_simps [simp]:
  "queued_count (st\<lparr>jobs := js\<rparr>) = queued_count st" "queued_count (st\<lparr>slots := m\<rparr>) = queued_count st"
  "queued_count (st\<lparr>running := ts\<rparr>) = queued_count st" "queued_count (st\<lparr>started := l\<rparr>) = queued_count st"
  by (simp_all add: queued_count_def)

lemma queued_flag:
  assumes "\<And>sl. sl_queue (f sl) = sl_queue sl"
  shows "queued_count (on_slot s f st) = queued_count st"
  using queued_on_slot [of s st f] assms
  by (cases "s < length (heap st)") (simp_all add: on_slot_def list_update_beyond)

lemma run_turn_fuel: "turn_fuel (run_turn k s w orig st) = turn_fuel st + 4"
  by (simp add: turn_fuel_def run_turn_def queued_flag)

lemma drain_loop_fuel:
  assumes "s < length (heap st)"
  shows "turn_fuel (drain_loop k s st) \<le> turn_fuel st + 1"
    and "sl_queue (heap st ! s) \<noteq> [] \<Longrightarrow> turn_fuel (drain_loop k s st) < turn_fuel st"
proof -
  have pop: "turn_fuel (on_slot s (sl_queue_update (\<lambda>_. ws)) st) + 5 = turn_fuel st"
    if "sl_queue (heap st ! s) = w # ws" for w ws
    using queued_on_slot [OF assms, of "sl_queue_update (\<lambda>_. ws)"] that by (simp add: turn_fuel_def)
  show "turn_fuel (drain_loop k s st) \<le> turn_fuel st + 1"
    using pop by (cases "sl_queue (heap st ! s)")
      (simp add: drain_loop_def turn_fuel_def, fastforce simp: drain_loop_def run_turn_fuel)
  show "turn_fuel (drain_loop k s st) < turn_fuel st" if "sl_queue (heap st ! s) \<noteq> []"
    using pop that by (cases "sl_queue (heap st ! s)") (simp, fastforce simp: drain_loop_def run_turn_fuel)
qed

lemma scheduleDrain_fuel:
  assumes "s < length (heap st)"
  shows "turn_fuel (scheduleDrain k s st) \<le> turn_fuel st"
proof -
  let ?u = "on_slot s (sl_drain_update (\<lambda>_. True)) st"
  have "turn_fuel ?u = turn_fuel st" by (simp add: turn_fuel_def queued_flag)
  moreover have "sl_queue (heap ?u ! s) = sl_queue (heap st ! s)"
    using assms by (simp add: turn_simps)
  ultimately have "turn_fuel (drain_loop k s ?u) < turn_fuel st" if "sl_queue (heap st ! s) \<noteq> []"
    using drain_loop_fuel(2) [of s ?u k] assms that by simp
  then show ?thesis by (auto simp: scheduleDrain_def Let_def turn_fuel_def)
qed

lemma job_fuel:
  assumes "job_slot j < length (heap st)"
  shows "turn_fuel (run_job j st) < turn_fuel st + job_weight j"
proof (cases j)
  case (Settle k s)
  then show ?thesis using scheduleDrain_fuel [of s st k] assms by simp
next
  case (Drain_next k s)
  then show ?thesis using drain_loop_fuel(1) [of s st k] assms by simp
next
  case (Drain_done k s)
  let ?u = "on_slot s (sl_drain_update (\<lambda>_. False)) st"
  have "turn_fuel ?u = turn_fuel st" by (simp add: turn_fuel_def queued_flag)
  then show ?thesis
    using scheduleDrain_fuel [of s ?u k] assms
    by (auto simp: Drain_done Let_def) (simp_all add: turn_fuel_def)
qed

lemma internal_fuel:
  assumes ok: "turns_ok own st" and step: "internal_step st st'"
  shows "turn_fuel st' < turn_fuel st"
  using step
proof cases
  case (step_complete i)
  have "i < length (running st)" using step_complete by (simp add: can_complete_def)
  then show ?thesis
    unfolding step_complete(1) complete_turn_def Let_def turn_fuel_def
    by (simp add: queued_flag split: origin.split) arith
next
  case (step_job j js)
  have "job_slot j < length (heap (st\<lparr>jobs := js\<rparr>))"
    using turns_okD(3) [OF ok] step_job(2) by simp
  from job_fuel [OF this] show ?thesis
    unfolding step_job(1) by (simp add: turn_fuel_def step_job(2))
qed

lemma internal_ok: "turns_ok own st \<Longrightarrow> internal_step st st' \<Longrightarrow> turns_ok own st'"
  by (erule internal_step.cases) (auto intro: complete_ok job_ok)

lemma internal_run:
  assumes "turns_reachable st" and "(internal_step ^^ n) st st'"
  shows "turns_reachable st' \<and> n + turn_fuel st' \<le> turn_fuel st"
  using assms(2)
proof (induction n arbitrary: st')
  case 0
  then show ?case using assms(1) by simp
next
  case (Suc n)
  then obtain st1 where st1: "(internal_step ^^ n) st st1" "internal_step st1 st'" by auto
  from Suc.IH [OF st1(1)] obtain own where "turns_reachable st1" "n + turn_fuel st1 \<le> turn_fuel st"
    "turns_ok own st1" using reachable_ok by blast
  moreover have "turn_fuel st' < turn_fuel st1"
    using internal_fuel [OF \<open>turns_ok own st1\<close> st1(2)] .
  ultimately show ?case using st1(2) by (auto intro: reach_step [OF _ step_internal])
qed

text \<open>Nothing is running, no callback waits, and the registry holds no slot.\<close>

definition settled_registry :: "'w turns \<Rightarrow> bool" where
  "settled_registry st \<longleftrightarrow> running st = [] \<and> jobs st = [] \<and> slots st = []"

lemma stuck_settled:
  assumes "turns_reachable st" and stuck: "\<And>st'. \<not> internal_step st st'"
  shows "settled_registry st"
proof -
  obtain own where ok: "turns_ok own st" using reachable_ok [OF assms(1)] by blast
  have jobs: "jobs st = []" using stuck step_job by (cases "jobs st") blast+
  have running: "running st = []"
    using stuck [of "complete_turn 0 st"] step_complete [of 0 st]
    by (cases "running st") (auto simp: can_complete_def jobs)
  have none: "map_of (slots st) k = None" for k
  proof (cases "map_of (slots st) k")
    case (Some s)
    have "slot_phase (own s) s st" "own s = k" 
      using turns_okD(1) [OF ok, of s] turns_okD(4,5) [OF ok Some] by auto
    with Some show ?thesis
      using slot_phaseD [of k s st] jobs running by (auto simp: phase_simps turns_at_def jobs_at_def)
  qed
  have "slots st = []"
  proof (cases "slots st")
    case (Cons x xs)
    then show ?thesis using none [of "fst x"] by simp
  qed
  with jobs running show ?thesis by (simp add: settled_registry_def)
qed

lemma settled_log:
  assumes "turns_reachable st" and "settled_registry st"
  shows "log_of k orig (started st) = log_of k orig (accepted st)"
  using reachable_log [OF assms(1)] assms(2)
  by (cases orig) (simp_all add: log_ok_def settled_registry_def queue_of_def)

text \<open>
  C30. The registry always comes to rest. From any reachable state, provided that works settle,
  every run of the registry by itself is finite, with at most \<open>turn_fuel\<close> steps; such runs can
  only end, and one of them does end, in a state where no work is running, no callback waits, the
  map is empty, and every accepted work has been started: no queued turn is forgotten, and no
  slot is leaked.
\<close>

theorem turns_settle:
  assumes "turns_reachable st"
  shows "(\<forall>n st'. (internal_step ^^ n) st st' \<longrightarrow> n \<le> turn_fuel st
      \<and> (settled_registry st' \<or> (\<exists>st''. internal_step st' st'')))
    \<and> (\<exists>n st'. (internal_step ^^ n) st st' \<and> settled_registry st'
        \<and> (\<forall>k orig. log_of k orig (started st') = log_of k orig (accepted st')))"
proof (intro conjI)
  show "\<forall>n st'. (internal_step ^^ n) st st' \<longrightarrow> n \<le> turn_fuel st
      \<and> (settled_registry st' \<or> (\<exists>st''. internal_step st' st''))"
    using internal_run [OF assms] stuck_settled by fastforce
  have "\<exists>n st'. (internal_step ^^ n) st st' \<and> settled_registry st'"
    using assms
  proof (induction "turn_fuel st" arbitrary: st rule: less_induct)
    case less
    show ?case
    proof (cases "\<exists>st'. internal_step st st'")
      case True
      then obtain st' where st': "internal_step st st'" ..
      obtain own where "turns_ok own st" using reachable_ok [OF less.prems] by blast
      then have "turn_fuel st' < turn_fuel st" using internal_fuel st' by blast
      then obtain n st'' where "(internal_step ^^ n) st' st''" "settled_registry st''"
        using less.hyps [of st'] less.prems st' by (blast intro: reach_step step_internal)
      then show ?thesis using st' relpowp_Suc_I2 [of internal_step st st' n st''] by blast
    next
      case False
      then have "settled_registry st" using stuck_settled [OF less.prems] by blast
      then show ?thesis by (intro exI [of _ 0] exI [of _ st]) simp
    qed
  qed
  then show "\<exists>n st'. (internal_step ^^ n) st st' \<and> settled_registry st'
      \<and> (\<forall>k orig. log_of k orig (started st') = log_of k orig (accepted st'))"
    using internal_run [OF assms] settled_log by meson
qed

theorem turns_settle_witness:
  "turn_fuel busy_state = 13
   \<and> (\<exists>n st'. n \<le> 13 \<and> (internal_step ^^ n) busy_state st' \<and> settled_registry st')"
proof -
  have "turn_fuel busy_state = 13" by code_simp
  then show ?thesis using turns_settle [OF busy_reachable] by auto
qed

definition gap_state :: "nat turns" where
  "gap_state = complete_turn 0 (snd (submit ''b'' 1 (snd (submit ''b'' 0 no_turns))))"


end
