(* ===== verification/ChannelPairing.thy ===== *)
theory ChannelPairing
  imports Schemas
begin

text \<open>
  Pairing of a chat user with a household: packages/runtime/src/telegram/pairing-service.ts, over
  the port \<open>ChannelPairingRepositoryPort\<close>. Instants are milliseconds. The code and salt
  generators and SHA-256 are parameters; logging has no effect on the results and is left out.
\<close>

datatype pairable_channel = Telegram | Slack

record channel_principal =
  pp_id :: nat
  pp_channel :: pairable_channel
  pp_user :: string
  pp_chat :: string
  pp_household :: string
  pp_display :: "string option"
  pp_username :: "string option"
  pp_approved_at :: nat
  pp_approved_by :: string
  pp_revoked :: "nat option"
  pp_metadata :: json

record pairing_request =
  pq_id :: nat
  pq_channel :: pairable_channel
  pq_user :: string
  pq_chat :: string
  pq_hash :: string
  pq_salt :: string
  pq_display :: "string option"
  pq_username :: "string option"
  pq_expires :: nat
  pq_consumed :: "nat option"
  pq_sent :: nat
  pq_failed :: nat
  pq_locked :: "nat option"
  pq_metadata :: json

text \<open>The arguments of \<open>upsertPendingRequest\<close>.\<close>

record pairing_upsert =
  pu_channel :: pairable_channel
  pu_user :: string
  pu_chat :: string
  pu_hash :: string
  pu_salt :: string
  pu_display :: "string option"
  pu_username :: "string option"
  pu_expires :: nat
  pu_sent :: nat
  pu_metadata :: json

record 's pairing_repo =
  pr_find :: "pairable_channel \<Rightarrow> string \<Rightarrow> ('s, exn, channel_principal option) io"
  pr_upsert :: "pairing_upsert \<Rightarrow> ('s, exn, pairing_request) io"
  pr_list :: "pairable_channel \<Rightarrow> nat \<Rightarrow> ('s, exn, pairing_request list) io"
  pr_consume :: "nat \<Rightarrow> string \<Rightarrow> string \<Rightarrow> nat \<Rightarrow> ('s, exn, channel_principal) io"
  pr_failed :: "nat \<Rightarrow> nat option \<Rightarrow> ('s, exn, pairing_request) io"
  pr_revoke :: "pairable_channel \<Rightarrow> string \<Rightarrow> nat \<Rightarrow> ('s, exn, unit) io"

record 's pairing_service =
  ps_repo :: "'s pairing_repo"
  ps_code :: "('s, exn, string) io"
  ps_salt :: "('s, exn, string) io"
  ps_now :: "('s, exn, nat) io"
  ps_sha256 :: "string \<Rightarrow> string"

section \<open>Codes\<close>

definition CODE_ALPHABET :: string where
  "CODE_ALPHABET = ''ABCDEFGHJKLMNPQRSTUVWXYZ23456789''"

text \<open>\<open>generateCode\<close> on the random bytes it draws.\<close>

definition generateCode :: "nat list \<Rightarrow> string" where
  "generateCode bytes = map (\<lambda>b. CODE_ALPHABET ! (b mod length CODE_ALPHABET)) bytes"

definition upper_char :: "char \<Rightarrow> char" where
  "upper_char c =
    (if char_le (CHR ''a'') c \<and> char_le c (CHR ''z'') then char_of (of_char c - 32 :: nat) else c)"

definition toUpperCase :: "string \<Rightarrow> string" where
  "toUpperCase s = map upper_char s"

definition hashCode :: "(string \<Rightarrow> string) \<Rightarrow> string \<Rightarrow> string \<Rightarrow> string" where
  "hashCode sha code salt = sha (salt @ '':'' @ toUpperCase (trim code))"

text \<open>\<open>Buffer.from(s, 'hex')\<close>: it stops at the first pair that is not hexadecimal.\<close>

definition hex_value :: "char \<Rightarrow> nat option" where
  "hex_value c =
    (if char_le (CHR ''0'') c \<and> char_le c (CHR ''9'') then Some (of_char c - 48)
     else if char_le (CHR ''a'') c \<and> char_le c (CHR ''f'') then Some (of_char c - 87)
     else if char_le (CHR ''A'') c \<and> char_le c (CHR ''F'') then Some (of_char c - 55)
     else None)"

fun hex_bytes :: "string \<Rightarrow> nat list" where
  "hex_bytes (a # b # s) =
    (case (hex_value a, hex_value b) of (Some x, Some y) \<Rightarrow> (16 * x + y) # hex_bytes s | _ \<Rightarrow> [])"
| "hex_bytes _ = []"

definition constantTimeEqual :: "string \<Rightarrow> string \<Rightarrow> bool" where
  "constantTimeEqual left right \<longleftrightarrow> hex_bytes left = hex_bytes right"

section \<open>The service\<close>

definition CODE_TTL_MS :: nat where "CODE_TTL_MS = 60 * 60 * 1000"
definition RATE_LIMIT_MS :: nat where "RATE_LIMIT_MS = 10 * 60 * 1000"
definition LOCKOUT_MS :: nat where "LOCKOUT_MS = 60 * 60 * 1000"
definition MAX_PENDING :: nat where "MAX_PENDING = 3"
definition MAX_FAILED_ATTEMPTS :: nat where "MAX_FAILED_ATTEMPTS = 5"

datatype pairing_request_result =
    Created string nat
  | Rate_limited nat
  | Too_many_pending

datatype pairing_approval_result =
    Approved channel_principal
  | Invalid_code
  | Locked nat

definition isApprovalLocked :: "pairing_request \<Rightarrow> nat \<Rightarrow> bool" where
  "isApprovalLocked r now \<longleftrightarrow> (case pq_locked r of None \<Rightarrow> False | Some l \<Rightarrow> now < l)"

definition findPrincipal :: "'s pairing_service \<Rightarrow> string \<Rightarrow> ('s, exn, channel_principal option) io" where
  "findPrincipal sv user = pr_find (ps_repo sv) Telegram user"

record pairing_input =
  pin_user :: string
  pin_chat :: string
  pin_display :: "string option"
  pin_username :: "string option"
  pin_metadata :: json

definition createPairingRequest :: "'s pairing_service \<Rightarrow> pairing_input \<Rightarrow>
    ('s, exn, pairing_request_result) io" where
  "createPairingRequest sv i =
    bindM (ps_now sv) (\<lambda>now.
    bindM (pr_list (ps_repo sv) Telegram now) (\<lambda>pending.
      let existing = find (\<lambda>r. pq_user r = pin_user i) pending;
          limited = (case existing of None \<Rightarrow> False | Some r \<Rightarrow> now < pq_sent r + RATE_LIMIT_MS)
      in if limited then ret (Rate_limited (pq_sent (the existing) + RATE_LIMIT_MS))
         else if length pending \<ge> MAX_PENDING \<and> existing = None then ret Too_many_pending
         else
           bindM (ps_code sv) (\<lambda>code.
           bindM (ps_salt sv) (\<lambda>salt.
           bindM (pr_upsert (ps_repo sv)
             \<lparr>pu_channel = Telegram, pu_user = pin_user i, pu_chat = pin_chat i,
              pu_hash = hashCode (ps_sha256 sv) code salt, pu_salt = salt,
              pu_display = pin_display i, pu_username = pin_username i,
              pu_expires = now + CODE_TTL_MS, pu_sent = now, pu_metadata = pin_metadata i\<rparr>) (\<lambda>_.
           ret (Created code (now + CODE_TTL_MS)))))))"

definition code_matches :: "'s pairing_service \<Rightarrow> string \<Rightarrow> pairing_request \<Rightarrow> bool" where
  "code_matches sv code r \<longleftrightarrow> constantTimeEqual (hashCode (ps_sha256 sv) code (pq_salt r)) (pq_hash r)"

text \<open>What happens after no pending request has matched.\<close>

definition reject_code :: "'s pairing_service \<Rightarrow> nat \<Rightarrow> pairing_request list \<Rightarrow>
    ('s, exn, pairing_approval_result) io" where
  "reject_code sv now pending =
    (let otherwise =
       (case find (\<lambda>r. isApprovalLocked r now) pending of
          Some r \<Rightarrow> (case pq_locked r of Some l \<Rightarrow> ret (Locked l) | None \<Rightarrow> ret Invalid_code)
        | None \<Rightarrow> ret Invalid_code)
     in case find (\<lambda>r. \<not> isApprovalLocked r now) pending of
          None \<Rightarrow> otherwise
        | Some first \<Rightarrow>
            let failedCount = pq_failed first + 1;
                lockUntil = (if failedCount \<ge> MAX_FAILED_ATTEMPTS then Some (now + LOCKOUT_MS) else None)
            in bindM (pr_failed (ps_repo sv) (pq_id first) lockUntil) (\<lambda>_.
               case lockUntil of Some l \<Rightarrow> ret (Locked l) | None \<Rightarrow> otherwise))"

definition approveCode :: "'s pairing_service \<Rightarrow> string \<Rightarrow> string \<Rightarrow> string \<Rightarrow>
    ('s, exn, pairing_approval_result) io" where
  "approveCode sv code household approvedBy =
    bindM (ps_now sv) (\<lambda>now.
    bindM (pr_list (ps_repo sv) Telegram now) (\<lambda>pending.
      case find (code_matches sv code) pending of
        Some r \<Rightarrow>
          (case pq_locked r of
             Some l \<Rightarrow>
               if now < l then ret (Locked l)
               else bindM (pr_consume (ps_repo sv) (pq_id r) household approvedBy now) (\<lambda>p. ret (Approved p))
           | None \<Rightarrow>
               bindM (pr_consume (ps_repo sv) (pq_id r) household approvedBy now) (\<lambda>p. ret (Approved p)))
      | None \<Rightarrow> reject_code sv now pending))"

definition revoke :: "'s pairing_service \<Rightarrow> string \<Rightarrow> ('s, exn, unit) io" where
  "revoke sv user =
    bindM (ps_now sv) (\<lambda>now. pr_revoke (ps_repo sv) Telegram user now)"

definition listPending :: "'s pairing_service \<Rightarrow> ('s, exn, pairing_request list) io" where
  "listPending sv = bindM (ps_now sv) (\<lambda>now. pr_list (ps_repo sv) Telegram now)"

section \<open>What the repository stores\<close>

definition open_for :: "pairable_channel \<Rightarrow> string \<Rightarrow> pairing_request \<Rightarrow> bool" where
  "open_for ch user r \<longleftrightarrow> pq_channel r = ch \<and> pq_user r = user \<and> pq_consumed r = None"

definition live_at :: "pairable_channel \<Rightarrow> nat \<Rightarrow> pairing_request \<Rightarrow> bool" where
  "live_at ch t r \<longleftrightarrow> pq_channel r = ch \<and> pq_consumed r = None \<and> t < pq_expires r"

definition new_request :: "pairing_upsert \<Rightarrow> nat \<Rightarrow> pairing_request" where
  "new_request u n =
    \<lparr>pq_id = n, pq_channel = pu_channel u, pq_user = pu_user u, pq_chat = pu_chat u,
     pq_hash = pu_hash u, pq_salt = pu_salt u, pq_display = pu_display u,
     pq_username = pu_username u, pq_expires = pu_expires u, pq_consumed = None,
     pq_sent = pu_sent u, pq_failed = 0, pq_locked = None, pq_metadata = pu_metadata u\<rparr>"

definition refreshed :: "pairing_upsert \<Rightarrow> pairing_request \<Rightarrow> pairing_request" where
  "refreshed u r = new_request u (pq_id r)"

definition upsert_request :: "pairing_upsert \<Rightarrow> nat \<Rightarrow> pairing_request list \<Rightarrow> pairing_request list" where
  "upsert_request u n rs =
    (let mine = open_for (pu_channel u) (pu_user u)
     in if list_ex mine rs then update_where mine (refreshed u) rs else rs @ [new_request u n])"

definition consume_request :: "nat \<Rightarrow> nat \<Rightarrow> pairing_request list \<Rightarrow> pairing_request list" where
  "consume_request i t =
    update_where (\<lambda>r. pq_id r = i \<and> pq_consumed r = None) (\<lambda>r. r\<lparr>pq_consumed := Some t\<rparr>)"

definition failed_again :: "nat option \<Rightarrow> pairing_request \<Rightarrow> pairing_request" where
  "failed_again lock r =
    r\<lparr>pq_failed := pq_failed r + 1, pq_locked := (case lock of None \<Rightarrow> pq_locked r | Some l \<Rightarrow> Some l)\<rparr>"

definition fail_request :: "nat \<Rightarrow> nat option \<Rightarrow> pairing_request list \<Rightarrow> pairing_request list" where
  "fail_request i lock = update_where (\<lambda>r. pq_id r = i) (failed_again lock)"

definition active_for :: "pairable_channel \<Rightarrow> string \<Rightarrow> channel_principal \<Rightarrow> bool" where
  "active_for ch user p \<longleftrightarrow> pp_channel p = ch \<and> pp_user p = user \<and> pp_revoked p = None"

definition principal_from :: "pairing_request \<Rightarrow> string \<Rightarrow> string \<Rightarrow> nat \<Rightarrow> nat \<Rightarrow> channel_principal" where
  "principal_from r household by t n =
    \<lparr>pp_id = n, pp_channel = pq_channel r, pp_user = pq_user r, pp_chat = pq_chat r,
     pp_household = household, pp_display = pq_display r, pp_username = pq_username r,
     pp_approved_at = t, pp_approved_by = by, pp_revoked = None, pp_metadata = pq_metadata r\<rparr>"

definition approve_principal :: "pairing_request \<Rightarrow> string \<Rightarrow> string \<Rightarrow> nat \<Rightarrow> nat \<Rightarrow>
    channel_principal list \<Rightarrow> channel_principal list" where
  "approve_principal r household by t n ps =
    (let mine = active_for (pq_channel r) (pq_user r)
     in if list_ex mine ps then update_where mine (\<lambda>p. principal_from r household by t (pp_id p)) ps
        else ps @ [principal_from r household by t n])"

definition revoke_principal :: "pairable_channel \<Rightarrow> string \<Rightarrow> nat \<Rightarrow> channel_principal list \<Rightarrow>
    channel_principal list" where
  "revoke_principal ch user t = update_where (active_for ch user) (\<lambda>p. p\<lparr>pp_revoked := Some t\<rparr>)"

section \<open>The invariant\<close>

text \<open>
  One open request and one active principal per user; at most three live requests; a request has
  at most five failed guesses, and after the fifth it stays locked for the rest of its life.
\<close>

definition request_ok :: "nat \<Rightarrow> pairing_request \<Rightarrow> bool" where
  "request_ok t r \<longleftrightarrow>
     (pq_channel r = Telegram \<and> pq_consumed r = None \<longrightarrow>
        pq_expires r \<le> t + CODE_TTL_MS \<and> pq_failed r \<le> MAX_FAILED_ATTEMPTS
        \<and> (pq_failed r = MAX_FAILED_ATTEMPTS \<longrightarrow>
             (case pq_locked r of None \<Rightarrow> False | Some l \<Rightarrow> pq_expires r \<le> l)))"

definition pairing_ok :: "nat \<Rightarrow> pairing_request list \<Rightarrow> channel_principal list \<Rightarrow> bool" where
  "pairing_ok t rs ps \<longleftrightarrow>
     unique_on pq_id rs
     \<and> unique_on (\<lambda>r. (pq_channel r, pq_user r)) (filter (\<lambda>r. pq_consumed r = None) rs)
     \<and> unique_on (\<lambda>p. (pp_channel p, pp_user p)) (filter (\<lambda>p. pp_revoked p = None) ps)
     \<and> length (filter (live_at Telegram t) rs) \<le> MAX_PENDING
     \<and> list_all (request_ok t) rs"

lemma length_filter_mono:
  "(\<And>x. x \<in> set xs \<Longrightarrow> P x \<Longrightarrow> Q x) \<Longrightarrow> length (filter P xs) \<le> length (filter Q xs)"
  by (induction xs) auto

lemma pairing_ok_later:
  assumes "pairing_ok t rs ps" and "t \<le> t'"
  shows "pairing_ok t' rs ps"
proof -
  have "length (filter (live_at Telegram t') rs) \<le> length (filter (live_at Telegram t) rs)"
    using assms(2) by (intro length_filter_mono) (auto simp: live_at_def)
  then show ?thesis
    using assms by (force simp: pairing_ok_def request_ok_def list_all_iff)
qed

text \<open>Updates of one open row keep the keys of the open rows.\<close>

lemma filter_update_where:
  assumes "\<And>r. q r \<Longrightarrow> P (f r) = P r"
  shows "filter P (update_where q f rs) = update_where q f (filter P rs)"
  using assms by (induction rs) auto

lemma length_update_where: "length (update_where q f rs) = length rs"
  by (simp add: update_where_def)

lemma filter_update_drop:
  assumes "\<And>r. q r \<Longrightarrow> \<not> P (f r)"
  shows "filter P (update_where q f rs) = filter (\<lambda>r. P r \<and> \<not> q r) rs"
  using assms by (induction rs) auto

lemma unique_on_sub: "unique_on f (filter P rs) \<Longrightarrow> unique_on f (filter (\<lambda>r. P r \<and> Q r) rs)"
  by (simp add: unique_on_def distinct_map_filter flip: filter_filter)

lemma consume_ok:
  assumes "pairing_ok t rs ps"
  shows "pairing_ok t (consume_request i t' rs) ps"
proof -
  let ?q = "\<lambda>r. pq_id r = i \<and> pq_consumed r = None" and ?f = "\<lambda>r. r\<lparr>pq_consumed := Some t'\<rparr>"
  have "unique_on pq_id (update_where ?q ?f rs)"
    using assms by (simp add: pairing_ok_def unique_on_update_where)
  moreover have "filter (\<lambda>r. pq_consumed r = None) (update_where ?q ?f rs) =
      filter (\<lambda>r. pq_consumed r = None \<and> \<not> ?q r) rs"
    by (rule filter_update_drop) simp
  moreover have "filter (live_at Telegram t) (update_where ?q ?f rs) =
      filter (\<lambda>r. live_at Telegram t r \<and> \<not> ?q r) rs"
    by (rule filter_update_drop) (simp add: live_at_def)
  moreover have "length (filter (\<lambda>r. live_at Telegram t r \<and> \<not> ?q r) rs) \<le>
      length (filter (live_at Telegram t) rs)"
    by (rule length_filter_mono) simp
  moreover have "list_all (request_ok t) (update_where ?q ?f rs)"
    using assms by (auto simp: pairing_ok_def list_all_iff set_update_where request_ok_def)
  ultimately show ?thesis
    using assms unique_on_sub by (fastforce simp: pairing_ok_def consume_request_def)
qed

lemma fail_ok:
  assumes ok: "pairing_ok t rs ps" and q: "q \<in> set rs" "live_at Telegram now q" "\<not> isApprovalLocked q now"
    and t: "t \<le> now"
    and lock: "lock = (if pq_failed q + 1 \<ge> MAX_FAILED_ATTEMPTS then Some (now + LOCKOUT_MS) else None)"
  shows "pairing_ok now (fail_request (pq_id q) lock rs) ps"
proof -
  have ok': "pairing_ok now rs ps" by (rule pairing_ok_later [OF ok t])
  have only: "r = q" if "r \<in> set rs" "pq_id r = pq_id q" for r
    using ok' that q(1) by (auto simp: pairing_ok_def dest: unique_onD)
  have "request_ok t q" using ok q(1) by (simp add: pairing_ok_def list_all_iff)
  then have small: "pq_failed q < MAX_FAILED_ATTEMPTS" and ends: "pq_expires q \<le> t + CODE_TTL_MS"
    using q(2,3) by (auto simp: request_ok_def live_at_def isApprovalLocked_def split: option.splits)
  have "request_ok now (failed_again lock q)"
    using small ends t
    by (auto simp: request_ok_def failed_again_def lock MAX_FAILED_ATTEMPTS_def LOCKOUT_MS_def CODE_TTL_MS_def)
  then have "list_all (request_ok now) (fail_request (pq_id q) lock rs)"
    using ok' only by (auto simp: pairing_ok_def list_all_iff fail_request_def set_update_where)
  then show ?thesis
    using ok'
    by (simp add: pairing_ok_def fail_request_def unique_on_update_where filter_update_where
        failed_again_def live_at_def length_update_where)
qed

lemma count_update_where:
  "length (filter P (update_where q f rs)) \<le>
     length (filter (\<lambda>r. P r \<and> \<not> q r) rs) + length (filter q rs)"
  by (induction rs) auto

lemma count_split:
  "length (filter P rs) = length (filter (\<lambda>r. P r \<and> q r) rs) + length (filter (\<lambda>r. P r \<and> \<not> q r) rs)"
  by (induction rs) auto

lemma unique_on_count: "unique_on f rs \<Longrightarrow> length (filter (\<lambda>r. f r = k) rs) \<le> 1"
proof (induction rs)
  case (Cons r rs)
  then have "f r = k \<Longrightarrow> filter (\<lambda>r. f r = k) rs = []"
    by (auto simp: unique_on_def filter_empty_conv image_iff)
  with Cons show ?case by (auto simp: unique_on_def)
qed simp

lemma one_open_request:
  assumes "pairing_ok t rs ps"
  shows "length (filter (open_for ch user) rs) \<le> 1"
proof -
  have "filter (open_for ch user) rs =
      filter (\<lambda>r. (pq_channel r, pq_user r) = (ch, user)) (filter (\<lambda>r. pq_consumed r = None) rs)"
    by (auto simp: open_for_def intro!: filter_cong)
  then show ?thesis
    using unique_on_count [of "\<lambda>r. (pq_channel r, pq_user r)" "filter (\<lambda>r. pq_consumed r = None) rs" "(ch, user)"]
      assms by (simp add: pairing_ok_def)
qed

lemma new_request_simps [simp]:
  "pq_id (new_request u n) = n" "pq_channel (new_request u n) = pu_channel u"
  "pq_user (new_request u n) = pu_user u" "pq_consumed (new_request u n) = None"
  "pq_expires (new_request u n) = pu_expires u" "pq_failed (new_request u n) = 0"
  "pq_id (refreshed u r) = pq_id r" "pq_channel (refreshed u r) = pu_channel u"
  "pq_user (refreshed u r) = pu_user u" "pq_consumed (refreshed u r) = None"
  by (simp_all add: new_request_def refreshed_def)

lemma upsert_ok:
  assumes ok: "pairing_ok t rs ps" and u: "pu_channel u = Telegram" "pu_expires u = t + CODE_TTL_MS"
    and n: "n \<notin> pq_id ` set rs"
    and room: "(\<exists>r \<in> set rs. live_at Telegram t r \<and> pq_user r = pu_user u)
      \<or> length (filter (live_at Telegram t) rs) < MAX_PENDING"
  shows "pairing_ok t (upsert_request u n rs) ps"
proof -
  let ?q = "open_for (pu_channel u) (pu_user u)" and ?l = "live_at Telegram t"
  have new: "request_ok t (new_request u m)" for m
    using u by (simp add: request_ok_def MAX_FAILED_ATTEMPTS_def)
  show ?thesis
  proof (cases "list_ex ?q rs")
    case True
    let ?rs = "update_where ?q (refreshed u) rs"
    have one: "length (filter ?q rs) \<le> 1" by (rule one_open_request [OF ok])
    have keys: "unique_on pq_id ?rs"
      using ok by (simp add: pairing_ok_def unique_on_update_where)
    have "filter (\<lambda>r. pq_consumed r = None) ?rs = update_where ?q (refreshed u) (filter (\<lambda>r. pq_consumed r = None) rs)"
      by (rule filter_update_where) (simp add: open_for_def)
    moreover have "map (\<lambda>r. (pq_channel r, pq_user r)) (update_where ?q (refreshed u) xs) =
        map (\<lambda>r. (pq_channel r, pq_user r)) xs" for xs
      by (induction xs) (auto simp: open_for_def)
    ultimately have opened: "unique_on (\<lambda>r. (pq_channel r, pq_user r)) (filter (\<lambda>r. pq_consumed r = None) ?rs)"
      using ok by (simp add: pairing_ok_def unique_on_def)
    have "length (filter ?l ?rs) \<le> length (filter (\<lambda>r. ?l r \<and> \<not> ?q r) rs) + 1"
      using count_update_where [of ?l ?q "refreshed u" rs] one by simp
    moreover have "length (filter (\<lambda>r. ?l r \<and> \<not> ?q r) rs) < MAX_PENDING"
      using room
    proof
      assume "\<exists>r \<in> set rs. ?l r \<and> pq_user r = pu_user u"
      then have "filter (\<lambda>r. ?l r \<and> ?q r) rs \<noteq> []"
        using u(1) by (auto simp: filter_empty_conv live_at_def open_for_def)
      then have "0 < length (filter (\<lambda>r. ?l r \<and> ?q r) rs)" by (rule length_greater_0_conv [THEN iffD2])
      moreover have "length (filter ?l rs) \<le> MAX_PENDING" using ok by (simp add: pairing_ok_def)
      ultimately show ?thesis using count_split [of ?l rs ?q] by linarith
    next
      assume "length (filter ?l rs) < MAX_PENDING"
      then show ?thesis using count_split [of ?l rs ?q] by simp
    qed
    ultimately have "length (filter ?l ?rs) \<le> MAX_PENDING" by simp
    moreover have "list_all (request_ok t) ?rs"
      using ok new by (auto simp: pairing_ok_def list_all_iff set_update_where refreshed_def)
    ultimately show ?thesis
      using ok keys opened True by (simp add: pairing_ok_def upsert_request_def)
  next
    case False
    then have none: "\<not> (\<exists>r \<in> set rs. ?q r)" by (simp add: list_ex_iff)
    then have "length (filter ?l rs) < MAX_PENDING"
      using room u(1) by (auto simp: live_at_def open_for_def)
    moreover have "unique_on (\<lambda>r. (pq_channel r, pq_user r))
        (filter (\<lambda>r. pq_consumed r = None) (rs @ [new_request u n]))"
      using ok none by (force simp: pairing_ok_def unique_on_append open_for_def)
    ultimately show ?thesis
      using ok new n False by (simp add: pairing_ok_def upsert_request_def unique_on_append)
  qed
qed

lemma principal_from_simps [simp]:
  "pp_channel (principal_from r hh by t n) = pq_channel r" "pp_user (principal_from r hh by t n) = pq_user r"
  "pp_revoked (principal_from r hh by t n) = None" "pp_household (principal_from r hh by t n) = hh"
  by (simp_all add: principal_from_def)

lemma approve_ok:
  assumes ok: "pairing_ok t rs ps"
  shows "pairing_ok t rs (approve_principal r hh by t' n ps)"
proof -
  let ?q = "active_for (pq_channel r) (pq_user r)" and ?a = "\<lambda>p. pp_revoked p = None"
    and ?k = "\<lambda>p. (pp_channel p, pp_user p)"
  let ?f = "\<lambda>p. principal_from r hh by t' (pp_id p)"
  have "unique_on ?k (filter ?a (approve_principal r hh by t' n ps))"
  proof (cases "list_ex ?q ps")
    case True
    have "filter ?a (update_where ?q ?f ps) = update_where ?q ?f (filter ?a ps)"
      by (rule filter_update_where) (simp add: active_for_def)
    moreover have "map ?k (update_where ?q ?f xs) = map ?k xs" for xs
      by (induction xs) (auto simp: active_for_def)
    ultimately show ?thesis
      using ok True by (simp add: pairing_ok_def unique_on_def approve_principal_def)
  next
    case False
    then show ?thesis
      using ok by (force simp: pairing_ok_def unique_on_append approve_principal_def active_for_def list_ex_iff)
  qed
  then show ?thesis using ok by (simp add: pairing_ok_def)
qed

lemma revoke_ok:
  assumes ok: "pairing_ok t rs ps"
  shows "pairing_ok t rs (revoke_principal ch user t' ps)"
proof -
  have "filter (\<lambda>p. pp_revoked p = None) (revoke_principal ch user t' ps) =
      filter (\<lambda>p. pp_revoked p = None \<and> \<not> active_for ch user p) ps"
    unfolding revoke_principal_def by (rule filter_update_drop) simp
  then show ?thesis using ok unique_on_sub by (fastforce simp: pairing_ok_def)
qed

section \<open>What the service relies on\<close>

text \<open>
  \<open>view\<close> is what a reader of the repository can see: the requests, the principals and the clock. An
  operation that throws may have happened. The service reads a clock that does not go back.
\<close>

locale pairing_repository =
  fixes sv :: "'s pairing_service"
    and requests :: "'s \<Rightarrow> pairing_request list"
    and principals :: "'s \<Rightarrow> channel_principal list"
    and clock :: "'s \<Rightarrow> nat"
    and ready :: "'s \<Rightarrow> bool"
  assumes now_law: "ready s \<Longrightarrow>
      wp (ps_now sv) (\<lambda>t s'. ready s' \<and> requests s' = requests s \<and> principals s' = principals s
          \<and> clock s \<le> t \<and> clock s' = t)
        (\<lambda>e s'. False) s"
    and code_law: "ready s \<Longrightarrow>
      wp (ps_code sv) (\<lambda>x s'. ready s' \<and> requests s' = requests s \<and> principals s' = principals s
          \<and> clock s' = clock s) (\<lambda>e s'. False) s"
    and salt_law: "ready s \<Longrightarrow>
      wp (ps_salt sv) (\<lambda>x s'. ready s' \<and> requests s' = requests s \<and> principals s' = principals s
          \<and> clock s' = clock s) (\<lambda>e s'. False) s"
    and list_law: "ready s \<Longrightarrow>
      wp (pr_list (ps_repo sv) ch t)
        (\<lambda>x s'. ready s' \<and> requests s' = requests s \<and> principals s' = principals s
           \<and> clock s \<le> clock s' \<and> x = filter (live_at ch t) (requests s))
        (\<lambda>e s'. ready s' \<and> requests s' = requests s \<and> principals s' = principals s
           \<and> clock s \<le> clock s') s"
    and upsert_law: "ready s \<Longrightarrow>
      wp (pr_upsert (ps_repo sv) u)
        (\<lambda>x s'. ready s' \<and> principals s' = principals s \<and> clock s \<le> clock s'
           \<and> (\<exists>n. n \<notin> pq_id ` set (requests s) \<and> requests s' = upsert_request u n (requests s)))
        (\<lambda>e s'. ready s' \<and> principals s' = principals s \<and> clock s \<le> clock s'
           \<and> (requests s' = requests s
              \<or> (\<exists>n. n \<notin> pq_id ` set (requests s) \<and> requests s' = upsert_request u n (requests s)))) s"
    and consume_law: "ready s \<Longrightarrow>
      wp (pr_consume (ps_repo sv) i hh by t)
        (\<lambda>p s'. ready s' \<and> clock s \<le> clock s' \<and> requests s' = consume_request i t (requests s)
           \<and> (\<exists>r n. r \<in> set (requests s) \<and> pq_id r = i \<and> pq_consumed r = None
              \<and> principals s' = approve_principal r hh by t n (principals s) \<and> p \<in> set (principals s')
              \<and> active_for (pq_channel r) (pq_user r) p \<and> pp_household p = hh))
        (\<lambda>e s'. ready s' \<and> clock s \<le> clock s'
           \<and> (requests s' = requests s \<and> principals s' = principals s
              \<or> requests s' = consume_request i t (requests s)
                \<and> (\<exists>r n. r \<in> set (requests s) \<and> pq_id r = i \<and> pq_consumed r = None
                   \<and> principals s' = approve_principal r hh by t n (principals s)))) s"
    and failed_law: "ready s \<Longrightarrow>
      wp (pr_failed (ps_repo sv) i lock)
        (\<lambda>x s'. ready s' \<and> principals s' = principals s \<and> clock s \<le> clock s'
           \<and> requests s' = fail_request i lock (requests s))
        (\<lambda>e s'. ready s' \<and> principals s' = principals s \<and> clock s \<le> clock s'
           \<and> (requests s' = requests s \<or> requests s' = fail_request i lock (requests s))) s"
    and revoke_law: "ready s \<Longrightarrow>
      wp (pr_revoke (ps_repo sv) ch user t)
        (\<lambda>x s'. ready s' \<and> requests s' = requests s \<and> clock s \<le> clock s'
           \<and> principals s' = revoke_principal ch user t (principals s))
        (\<lambda>e s'. ready s' \<and> requests s' = requests s \<and> clock s \<le> clock s'
           \<and> (principals s' = principals s
              \<or> principals s' = revoke_principal ch user t (principals s))) s"
begin

definition good :: "'s \<Rightarrow> bool" where
  "good s \<longleftrightarrow> ready s \<and> pairing_ok (clock s) (requests s) (principals s)"

text \<open>The one way a principal is approved.\<close>

definition approved :: "'s \<Rightarrow> 's \<Rightarrow> string \<Rightarrow> string \<Rightarrow> string \<Rightarrow> pairing_request \<Rightarrow> bool" where
  "approved s s' code hh by r \<longleftrightarrow>
     (\<exists>t n. r \<in> set (requests s) \<and> clock s \<le> t \<and> live_at Telegram t r \<and> \<not> isApprovalLocked r t
        \<and> code_matches sv code r
        \<and> requests s' = consume_request (pq_id r) t (requests s)
        \<and> principals s' = approve_principal r hh by t n (principals s))"

lemma good_later:
  "good s \<Longrightarrow> ready s' \<Longrightarrow> requests s' = requests s \<Longrightarrow> principals s' = principals s \<Longrightarrow>
   clock s \<le> clock s' \<Longrightarrow> good s'"
  by (auto simp: good_def intro: pairing_ok_later)

lemma good_moved:
  "pairing_ok t (requests s') (principals s') \<Longrightarrow> t \<le> clock s' \<Longrightarrow> ready s' \<Longrightarrow> good s'"
  by (auto simp: good_def intro: pairing_ok_later)

lemma listed:
  assumes "good s"
  shows "wp (ps_now sv) (\<lambda>t. wp (pr_list (ps_repo sv) ch t)
      (\<lambda>x s'. good s' \<and> requests s' = requests s \<and> principals s' = principals s \<and> clock s \<le> t
         \<and> t \<le> clock s' \<and> x = filter (live_at ch t) (requests s))
      (\<lambda>e s'. good s' \<and> requests s' = requests s \<and> principals s' = principals s))
    (\<lambda>e s'. False) s"
proof (rule wp_mono [OF now_law])
  show "ready s" using assms by (simp add: good_def)
next
  fix t s1
  assume s1: "ready s1 \<and> requests s1 = requests s \<and> principals s1 = principals s \<and> clock s \<le> t \<and> clock s1 = t"
  then have "good s1" using good_later [OF assms] by simp
  then show "wp (pr_list (ps_repo sv) ch t)
      (\<lambda>x s'. good s' \<and> requests s' = requests s \<and> principals s' = principals s \<and> clock s \<le> t
         \<and> t \<le> clock s' \<and> x = filter (live_at ch t) (requests s))
      (\<lambda>e s'. good s' \<and> requests s' = requests s \<and> principals s' = principals s) s1"
    using s1 by (intro wp_mono [OF list_law]) (auto intro: good_later)
qed

lemma reject_spec:
  assumes s: "good s" and pending: "pending = filter (live_at Telegram now) (requests s)"
    and ok: "pairing_ok t (requests s) (principals s)" "t \<le> now" "now \<le> clock s"
  shows "wp (reject_code sv now pending)
    (\<lambda>x s'. good s' \<and> principals s' = principals s \<and> (\<forall>p. x \<noteq> Approved p))
    (\<lambda>e s'. good s' \<and> principals s' = principals s) s"
proof -
  have otherwise: "wp (case find (\<lambda>r. isApprovalLocked r now) pending of
          Some r \<Rightarrow> (case pq_locked r of Some l \<Rightarrow> ret (Locked l) | None \<Rightarrow> ret Invalid_code)
        | None \<Rightarrow> ret Invalid_code)
      (\<lambda>x s'. good s' \<and> principals s' = principals s \<and> (\<forall>p. x \<noteq> Approved p))
      (\<lambda>e s'. good s' \<and> principals s' = principals s) s'"
    if "good s'" "principals s' = principals s" for s'
    using that by (auto simp: wp_simps split: option.split)
  show ?thesis
  proof (cases "find (\<lambda>r. \<not> isApprovalLocked r now) pending")
    case None
    then show ?thesis using otherwise [of s] s by (simp add: reject_code_def Let_def)
  next
    case (Some q)
    let ?lock = "if MAX_FAILED_ATTEMPTS \<le> pq_failed q + 1 then Some (now + LOCKOUT_MS) else None"
    have q: "q \<in> set (requests s)" "live_at Telegram now q" "\<not> isApprovalLocked q now"
      using find_SomeD [OF Some] by (simp_all add: pending)
    have "pairing_ok now (fail_request (pq_id q) ?lock (requests s)) (principals s)"
      by (rule fail_ok [OF ok(1) q ok(2)]) simp
    then have failed: "good s'" if "requests s' = fail_request (pq_id q) ?lock (requests s)"
      "principals s' = principals s" "clock s \<le> clock s'" "ready s'" for s'
      using good_moved [of now s'] that ok(3) by simp
    have r: "ready s" using s by (simp add: good_def)
    have "wp (pr_failed (ps_repo sv) (pq_id q) ?lock)
      (\<lambda>x s'. good s' \<and> principals s' = principals s) (\<lambda>e s'. good s' \<and> principals s' = principals s) s"
      by (rule wp_mono [OF failed_law [OF r]]) (auto intro: failed good_later [OF s])
    then show ?thesis
      unfolding reject_code_def Let_def Some option.case wp_bindM
      by (rule wp_mono) (auto simp: wp_simps intro: otherwise)
  qed
qed

lemma consume_spec:
  assumes s: "good s" and ok: "pairing_ok t (requests s) (principals s)" "now \<le> clock s"
    and r: "r \<in> set (requests s)" "clock s0 \<le> now" "live_at Telegram now r" "\<not> isApprovalLocked r now"
      "code_matches sv code r"
    and same: "requests s = requests s0" "principals s = principals s0"
  shows "wp (bindM (pr_consume (ps_repo sv) (pq_id r) hh by now) (\<lambda>p. ret (Approved p)))
    (\<lambda>x s'. good s' \<and> (\<exists>p. x = Approved p \<and> p \<in> set (principals s') \<and> pp_household p = hh
        \<and> active_for Telegram (pq_user r) p \<and> approved s0 s' code hh by r))
    (\<lambda>e s'. good s' \<and> (principals s' = principals s0 \<or> approved s0 s' code hh by r)) s"
proof -
  have ready: "ready s" and ok': "pairing_ok (clock s) (requests s) (principals s)"
    using s by (simp_all add: good_def)
  have only: "r' = r" if "r' \<in> set (requests s)" "pq_id r' = pq_id r" for r'
    using ok(1) that r(1) by (auto simp: pairing_ok_def dest: unique_onD)
  have effect: "good s' \<and> approved s0 s' code hh by r"
    if "ready s'" "clock s \<le> clock s'" "requests s' = consume_request (pq_id r) now (requests s)"
      "principals s' = approve_principal r hh by now n (principals s)" for s' n
  proof
    have "pairing_ok (clock s) (requests s') (principals s')"
      unfolding that by (rule approve_ok [OF consume_ok [OF ok']])
    then show "good s'" using good_moved that by blast
    show "approved s0 s' code hh by r"
      unfolding approved_def using that r same by auto
  qed
  have ch: "pq_channel r = Telegram" using r(3) by (simp add: live_at_def)
  show ?thesis
    unfolding wp_bindM wp_ret
    by (rule wp_mono [OF consume_law [OF ready]])
      (use effect only ch same good_later [OF s] in \<open>(fastforce | metis)+\<close>)
qed

lemma approve_spec:
  assumes s: "good s"
  shows "wp (approveCode sv code hh by)
    (\<lambda>x s'. good s' \<and> (principals s' = principals s \<and> (\<forall>p. x \<noteq> Approved p)
       \<or> (\<exists>r p. x = Approved p \<and> p \<in> set (principals s') \<and> pp_household p = hh
          \<and> active_for Telegram (pq_user r) p \<and> approved s s' code hh by r)))
    (\<lambda>e s'. good s' \<and> (principals s' = principals s \<or> (\<exists>r. approved s s' code hh by r))) s"
    (is "wp _ ?Q ?E s")
  unfolding approveCode_def wp_bindM
proof (rule wp_mono [OF listed [OF s, of Telegram]], goal_cases)
  case (1 now s1)
  have ok: "pairing_ok (clock s) (requests s) (principals s)" using s by (simp add: good_def)
  from 1 show ?case
  proof (rule wp_mono, goal_cases)
    case (1 pending s2)
    then have s2: "good s2" "requests s2 = requests s" "principals s2 = principals s"
      "clock s \<le> now" "now \<le> clock s2" and pending: "pending = filter (live_at Telegram now) (requests s)"
      by blast+
    have reject: "wp (reject_code sv now pending) ?Q ?E s2"
      using reject_spec [OF s2(1), of pending now "clock s"] ok s2 pending
      by (auto elim: wp_mono)
    have consume: "wp (bindM (pr_consume (ps_repo sv) (pq_id r) hh by now) (\<lambda>p. ret (Approved p))) ?Q ?E s2"
      if "find (code_matches sv code) pending = Some r" "\<not> isApprovalLocked r now" for r
    proof -
      have r: "r \<in> set (requests s)" "live_at Telegram now r" "code_matches sv code r"
        using find_SomeD [OF that(1)] by (simp_all add: pending)
      show ?thesis
        by (rule wp_mono [OF consume_spec [where t = "clock s" and r = r and now = now and ?s0.0 = s
              and code = code]])
          (use s2 ok r that(2) in auto)
    qed
    show ?case
      using reject consume s2
      by (auto simp: wp_simps isApprovalLocked_def split: option.split)
  qed auto
qed simp

lemma create_spec:
  assumes s: "good s"
  shows "wp (createPairingRequest sv i)
    (\<lambda>x s'. good s' \<and> principals s' = principals s)
    (\<lambda>e s'. good s' \<and> principals s' = principals s) s"
    (is "wp _ ?Q ?E s")
  unfolding createPairingRequest_def wp_bindM
proof (rule wp_mono [OF listed [OF s, of Telegram]], goal_cases)
  case (1 now s1)
  have ok: "pairing_ok (clock s) (requests s) (principals s)" using s by (simp add: good_def)
  from 1 show ?case
  proof (rule wp_mono, goal_cases)
    case (1 pending s2)
    then have s2: "good s2" "requests s2 = requests s" "principals s2 = principals s"
      "clock s \<le> now" "now \<le> clock s2" and pending: "pending = filter (live_at Telegram now) (requests s)"
      by blast+
    have okn: "pairing_ok now (requests s) (principals s)" by (rule pairing_ok_later [OF ok s2(4)])
    let ?u = "\<lambda>code salt. \<lparr>pu_channel = Telegram, pu_user = pin_user i, pu_chat = pin_chat i,
        pu_hash = hashCode (ps_sha256 sv) code salt, pu_salt = salt,
        pu_display = pin_display i, pu_username = pin_username i,
        pu_expires = now + CODE_TTL_MS, pu_sent = now, pu_metadata = pin_metadata i\<rparr>"
    have upsert: "wp (pr_upsert (ps_repo sv) (?u code salt)) (\<lambda>_ s'. good s' \<and> principals s' = principals s)
        (\<lambda>_ s'. good s' \<and> principals s' = principals s) s4"
      if room: "(\<exists>r \<in> set (requests s). live_at Telegram now r \<and> pq_user r = pin_user i)
          \<or> length pending < MAX_PENDING"
        and s4: "good s4" "requests s4 = requests s" "principals s4 = principals s" "now \<le> clock s4"
      for code salt s4
    proof (rule wp_mono [OF upsert_law])
      show "ready s4" using s4(1) by (simp add: good_def)
      have moved: "good s'" if "ready s'" "principals s' = principals s4" "clock s4 \<le> clock s'"
        "n \<notin> pq_id ` set (requests s4)" "requests s' = upsert_request (?u code salt) n (requests s4)" for s' n
      proof (rule good_moved [of now])
        show "pairing_ok now (requests s') (principals s')"
          unfolding that(2,5) s4(2,3)
          by (rule upsert_ok [OF okn]) (use room that(4) s4 pending in simp_all)
      qed (use that s4 in auto)
      show "good s' \<and> principals s' = principals s"
        if "ready s' \<and> principals s' = principals s4 \<and> clock s4 \<le> clock s'
          \<and> (\<exists>n. n \<notin> pq_id ` set (requests s4) \<and> requests s' = upsert_request (?u code salt) n (requests s4))" for s'
        using that moved s4(3) by auto
      show "good s' \<and> principals s' = principals s"
        if "ready s' \<and> principals s' = principals s4 \<and> clock s4 \<le> clock s'
          \<and> (requests s' = requests s4 \<or> (\<exists>n. n \<notin> pq_id ` set (requests s4)
             \<and> requests s' = upsert_request (?u code salt) n (requests s4)))" for s'
        using that moved s4(3) good_later [OF s4(1)] by auto
    qed
    have generate: "wp (bindM (ps_code sv) (\<lambda>code. bindM (ps_salt sv) (\<lambda>salt.
          bindM (pr_upsert (ps_repo sv) (?u code salt)) (\<lambda>_. ret (Created code (now + CODE_TTL_MS)))))) ?Q ?E s2"
      if room: "(\<exists>r \<in> set (requests s). live_at Telegram now r \<and> pq_user r = pin_user i)
          \<or> length pending < MAX_PENDING"
      unfolding wp_bindM wp_ret
    proof (rule wp_mono [OF code_law], goal_cases)
      case 1
      then show ?case using s2(1) by (simp add: good_def)
    next
      case (2 code s3)
      then have s3: "good s3" "requests s3 = requests s" "principals s3 = principals s" "now \<le> clock s3"
        using good_later [OF s2(1), of s3] s2 by auto
      show ?case
      proof (rule wp_mono [OF salt_law], goal_cases)
        case 1
        then show ?case using s3(1) by (simp add: good_def)
      next
        case (2 salt s4)
        then have "good s4" "requests s4 = requests s" "principals s4 = principals s" "now \<le> clock s4"
          using good_later [OF s3(1), of s4] s3 by auto
        from upsert [OF room this] show ?case .
      qed simp
    qed simp
    let ?old = "find (\<lambda>r. pq_user r = pin_user i) pending"
    have room: "(\<exists>r \<in> set (requests s). live_at Telegram now r \<and> pq_user r = pin_user i)
        \<or> length pending < MAX_PENDING" if "\<not> (MAX_PENDING \<le> length pending \<and> ?old = None)"
    proof (cases ?old)
      case (Some r)
      from find_SomeD [OF this] show ?thesis by (auto simp: pending)
    qed (use that in auto)
    show ?case
      using generate [OF room] s2 by (auto simp: Let_def wp_simps)
  qed auto
qed simp

lemma revoke_spec:
  assumes s: "good s"
  shows "wp (revoke sv user)
    (\<lambda>x s'. good s' \<and> (\<forall>p \<in> set (principals s'). pp_revoked p = None \<longrightarrow> p \<in> set (principals s)))
    (\<lambda>e s'. good s' \<and> (\<forall>p \<in> set (principals s'). pp_revoked p = None \<longrightarrow> p \<in> set (principals s))) s"
  unfolding revoke_def wp_bindM
proof (rule wp_mono [OF now_law], goal_cases)
  case 1
  then show ?case using s by (simp add: good_def)
next
  case (2 t s1)
  then have s1: "good s1" and same: "principals s1 = principals s" using good_later [OF s] by simp_all
  then have "ready s1" "pairing_ok (clock s1) (requests s1) (principals s1)" by (simp_all add: good_def)
  moreover have "p \<in> set (principals s)"
    if "p \<in> set (revoke_principal ch user t (principals s))" "pp_revoked p = None" for p ch
    using that by (auto simp: revoke_principal_def set_update_where)
  ultimately show ?case
    by (intro wp_mono [OF revoke_law])
      (auto intro: good_later [OF s1] good_moved [of "clock s1"] simp: revoke_ok same)
qed simp

lemma list_spec:
  assumes s: "good s"
  shows "wp (listPending sv) (\<lambda>x s'. good s' \<and> principals s' = principals s)
    (\<lambda>e s'. good s' \<and> principals s' = principals s) s"
  unfolding listPending_def wp_bindM
  by (rule wp_mono [OF listed [OF s, of Telegram]]) (erule wp_mono, simp_all)

end

end
