(* ===== verification/PairingRepository.thy ===== *)
theory PairingRepository
  imports ChannelPairing OpsDb "HOL-Library.Code_Target_Nat"
begin

text \<open>
  The PostgreSQL repository of the pairing service:
  packages/database/src/repositories/operations/channel-pairing.ts, on the tables
  \<open>operations.channel_principals\<close> and \<open>operations.channel_pairing_requests\<close> of migration 0018. It
  provides the interface of ChannelPairing, and with it the guarantees of the service. An identity
  column takes the next free number; rows are kept in the order of their creation.
\<close>

record pairing_db =
  principal_rows :: "channel_principal list"
  request_rows :: "pairing_request list"
  household_ids :: "string list"

definition next_id :: "nat list \<Rightarrow> nat" where
  "next_id ids = Suc (fold max ids 0)"

definition pairing_not_found :: "string \<Rightarrow> exn" where
  "pairing_not_found c = plusOne Validation_rejected c Never False"

definition metadata_object :: "json \<Rightarrow> bool" where
  "metadata_object j \<longleftrightarrow> (case j of JObj fs \<Rightarrow> True | _ \<Rightarrow> False)"

definition hex_salt :: "string \<Rightarrow> bool" where
  "hex_salt s \<longleftrightarrow> length s = 32 \<and> list_all (\<lambda>c. is_digit c \<or> char_in (CHR ''a'') (CHR ''f'') c) s"

section \<open>Statements\<close>

definition findActivePrincipal :: "pairable_channel \<Rightarrow> string \<Rightarrow>
    (pairing_db world, exn, channel_principal option) io" where
  "findActivePrincipal ch user =
    pool_query (\<lambda>t db. Inr (find (active_for ch user) (principal_rows db), db))"

definition sql_upsert_request :: "pairing_upsert \<Rightarrow> (pairing_db, pairing_request) statement" where
  "sql_upsert_request u now db =
    (let rs = upsert_request u (next_id (map pq_id (request_rows db))) (request_rows db)
     in guarded
       [(sha256_hex (pu_hash u), check_violation ''channel_pairing_requests_code_hash_format''),
        (hex_salt (pu_salt u), check_violation ''channel_pairing_requests_code_salt_format''),
        (metadata_object (pu_metadata u), check_violation ''channel_pairing_requests_metadata_object'')]
       (the (find (open_for (pu_channel u) (pu_user u)) rs), db\<lparr>request_rows := rs\<rparr>))"

definition upsertPendingRequest :: "pairing_upsert \<Rightarrow> (pairing_db world, exn, pairing_request) io" where
  "upsertPendingRequest u = pool_query (sql_upsert_request u)"

definition listPendingRequests :: "pairable_channel \<Rightarrow> nat \<Rightarrow>
    (pairing_db world, exn, pairing_request list) io" where
  "listPendingRequests ch now =
    pool_query (\<lambda>t db. Inr (filter (live_at ch now) (request_rows db), db))"

definition sql_consume_request :: "nat \<Rightarrow> nat \<Rightarrow> (pairing_db, pairing_request option) statement" where
  "sql_consume_request i at now db =
    (case find (\<lambda>r. pq_id r = i \<and> pq_consumed r = None) (request_rows db) of
       None \<Rightarrow> Inr (None, db)
     | Some r \<Rightarrow> Inr (Some (r\<lparr>pq_consumed := Some at\<rparr>),
         db\<lparr>request_rows := consume_request i at (request_rows db)\<rparr>))"

definition sql_approve_principal :: "pairing_request \<Rightarrow> string \<Rightarrow> string \<Rightarrow> nat \<Rightarrow>
    (pairing_db, channel_principal option) statement" where
  "sql_approve_principal r household by at now db =
    (if household \<notin> set (household_ids db) then Inr (None, db)
     else
       let ps = approve_principal r household by at (next_id (map pp_id (principal_rows db))) (principal_rows db)
       in guarded [(metadata_object (pq_metadata r), check_violation ''channel_principals_metadata_object'')]
            (find (active_for (pq_channel r) (pq_user r)) ps, db\<lparr>principal_rows := ps\<rparr>))"

definition consume_body :: "nat \<Rightarrow> string \<Rightarrow> string \<Rightarrow> nat \<Rightarrow>
    (pairing_db world, exn, channel_principal) io" where
  "consume_body i household by at =
    bindM (client_query (sql_consume_request i at)) (\<lambda>consumed.
      case consumed of
        None \<Rightarrow> raise (pairing_not_found ''pending_pairing_not_found'')
      | Some r \<Rightarrow>
          bindM (requireM (opaqueIdentifierSchema Id_household household) ZodError) (\<lambda>_.
          bindM (client_query (sql_approve_principal r household by at)) (\<lambda>inserted.
            case inserted of
              None \<Rightarrow> raise (pairing_not_found ''household_not_found'')
            | Some p \<Rightarrow> ret p)))"

definition consumePendingAndApprove :: "nat \<Rightarrow> string \<Rightarrow> string \<Rightarrow> nat \<Rightarrow>
    (pairing_db world, exn, channel_principal) io" where
  "consumePendingAndApprove i household by at = transactionally (consume_body i household by at)"

definition sql_fail_request :: "nat \<Rightarrow> nat option \<Rightarrow> (pairing_db, pairing_request option) statement" where
  "sql_fail_request i lock now db =
    (let rs = fail_request i lock (request_rows db)
     in Inr (find (\<lambda>r. pq_id r = i) rs, db\<lparr>request_rows := rs\<rparr>))"

definition recordFailedApprovalAttempt :: "nat \<Rightarrow> nat option \<Rightarrow>
    (pairing_db world, exn, pairing_request) io" where
  "recordFailedApprovalAttempt i lock =
    bindM (pool_query (sql_fail_request i lock)) (\<lambda>row.
      case row of
        None \<Rightarrow> raise (pairing_not_found ''pending_pairing_not_found'')
      | Some r \<Rightarrow> ret r)"

definition revokePrincipal :: "pairable_channel \<Rightarrow> string \<Rightarrow> nat \<Rightarrow> (pairing_db world, exn, unit) io" where
  "revokePrincipal ch user at =
    pool_query (\<lambda>t db. Inr ((), db\<lparr>principal_rows := revoke_principal ch user at (principal_rows db)\<rparr>))"

definition postgres_pairing :: "pairing_db world pairing_repo" where
  "postgres_pairing =
    \<lparr>pr_find = findActivePrincipal, pr_upsert = upsertPendingRequest, pr_list = listPendingRequests,
     pr_consume = consumePendingAndApprove, pr_failed = recordFailedApprovalAttempt,
     pr_revoke = revokePrincipal\<rparr>"

text \<open>The service with its random codes and salts taken from the world's stream of names.\<close>

definition telegram_pairing :: "(string \<Rightarrow> string) \<Rightarrow> pairing_db world pairing_service" where
  "telegram_pairing sha =
    \<lparr>ps_repo = postgres_pairing, ps_code = fresh_ulid, ps_salt = fresh_ulid, ps_now = now_ms,
     ps_sha256 = sha\<rparr>"

section \<open>It provides the interface\<close>

lemma next_id_fresh: "next_id ids \<notin> set ids"
proof -
  have "x \<le> fold max ids m" if "x \<in> set ids \<or> x \<le> m" for x m
    using that
  proof (induction ids arbitrary: m)
    case (Cons i ids)
    then show ?case by (metis fold_simps(2) list.set_cases max.cobounded2 max.coboundedI2 max.commute set_ConsD)
  qed simp
  then show ?thesis unfolding next_id_def by (metis Suc_n_not_le_n)
qed

text \<open>A method in terms of what is committed, and of a clock that only advances.\<close>

definition clock_runs :: "'db world \<Rightarrow> 'db world \<Rightarrow> bool" where
  "clock_runs w w' \<longleftrightarrow> wclock w \<le> wclock w'"

interpretation clock_runs: step_relation clock_runs
  by unfold_locales (auto simp: clock_runs_def)

lemma clock_primitives:
  "keeps clock_runs (pool_query f)" "keeps clock_runs (client_query f)" "keeps clock_runs connect"
  "keeps clock_runs begin_transaction" "keeps clock_runs commit_transaction"
  "keeps clock_runs rollback_transaction"
  by (auto simp: keeps_def clock_runs_def pool_query_def client_query_def connect_def
      begin_transaction_def commit_transaction_def rollback_transaction_def publish_def elapse_def
      next_time_def split: fault.split sum.split option.split transaction.split list.split prod.split)

lemma clock_transactionally:
  "keeps clock_runs m \<Longrightarrow> keeps clock_runs (transactionally m)"
  unfolding transactionally_def transactionally_as_def
  by (intro clock_runs.keeps_rules clock_runs.keeps_finallyM clock_primitives)
    (simp_all add: clock_runs_def release_def)

lemma wp_clock:
  assumes "dwp m Q E (wdb w)" and "txn w = None" and "keeps clock_runs m"
    and "\<And>x w'. txn w' = None \<Longrightarrow> Q x (wdb w') \<Longrightarrow> wclock w \<le> wclock w' \<Longrightarrow> Q' x w'"
    and "\<And>e w'. txn w' = None \<Longrightarrow> E e (wdb w') \<Longrightarrow> wclock w \<le> wclock w' \<Longrightarrow> E' e w'"
  shows "wp m Q' E' w"
  by (rule wp_mono [OF wp_conj [OF dwpD [OF assms(1,2)] keeps_wp [OF assms(3)]]])
    (use assms(4,5) in \<open>auto simp: clock_runs_def\<close>)

lemma approve_consumed [simp]:
  "approve_principal (r\<lparr>pq_consumed := c\<rparr>) hh by t n = approve_principal r hh by t n"
proof -
  have "principal_from (r\<lparr>pq_consumed := c\<rparr>) hh by t m = principal_from r hh by t m" for m
    by (simp add: principal_from_def)
  then show ?thesis by (intro ext) (simp add: approve_principal_def Let_def)
qed

lemma find_approved:
  assumes "find (active_for (pq_channel r) (pq_user r)) (approve_principal r hh by t n ps) = Some p"
  shows "p \<in> set (approve_principal r hh by t n ps)" "active_for (pq_channel r) (pq_user r) p"
    "pp_household p = hh"
proof -
  show mem: "p \<in> set (approve_principal r hh by t n ps)" and act: "active_for (pq_channel r) (pq_user r) p"
    using find_SomeD [OF assms] by simp_all
  show "pp_household p = hh"
    using mem act
    by (auto simp: approve_principal_def Let_def set_update_where list_ex_iff split: if_splits)
qed

lemma consume_twp:
  "twp (consume_body i hh by at)
    (\<lambda>p d'. request_rows d' = consume_request i at (request_rows d)
       \<and> (\<exists>r n. r \<in> set (request_rows d) \<and> pq_id r = i \<and> pq_consumed r = None
          \<and> principal_rows d' = approve_principal r hh by at n (principal_rows d)
          \<and> p \<in> set (principal_rows d') \<and> active_for (pq_channel r) (pq_user r) p \<and> pp_household p = hh)) d"
  unfolding consume_body_def
proof (rule twp_bindM, rule twp_client_query)
  fix t x d1
  assume "sql_consume_request i at t d = Inr (x, d1)"
  then have "x = None \<or> (\<exists>r. x = Some (r\<lparr>pq_consumed := Some at\<rparr>)
      \<and> find (\<lambda>r. pq_id r = i \<and> pq_consumed r = None) (request_rows d) = Some r
      \<and> d1 = d\<lparr>request_rows := consume_request i at (request_rows d)\<rparr>)"
    unfolding sql_consume_request_def by (simp split: option.splits)
  then consider "x = None" | r where "x = Some (r\<lparr>pq_consumed := Some at\<rparr>)"
    "find (\<lambda>r. pq_id r = i \<and> pq_consumed r = None) (request_rows d) = Some r"
    "d1 = d\<lparr>request_rows := consume_request i at (request_rows d)\<rparr>" by blast
  then show "twp (case x of None \<Rightarrow> raise (pairing_not_found ''pending_pairing_not_found'')
      | Some r \<Rightarrow> bindM (requireM (opaqueIdentifierSchema Id_household hh) ZodError) (\<lambda>_.
          bindM (client_query (sql_approve_principal r hh by at)) (\<lambda>inserted.
            case inserted of None \<Rightarrow> raise (pairing_not_found ''household_not_found'') | Some p \<Rightarrow> ret p)))
    (\<lambda>p d'. request_rows d' = consume_request i at (request_rows d)
       \<and> (\<exists>r n. r \<in> set (request_rows d) \<and> pq_id r = i \<and> pq_consumed r = None
          \<and> principal_rows d' = approve_principal r hh by at n (principal_rows d)
          \<and> p \<in> set (principal_rows d') \<and> active_for (pq_channel r) (pq_user r) p \<and> pp_household p = hh)) d1"
  proof cases
    case (2 r)
    note r = find_SomeD [OF 2(2)]
    show ?thesis
      unfolding 2(1) option.case
    proof (intro twp_bindM twp_requireM twp_client_query)
      fix t' y d2
      assume ins: "sql_approve_principal (r\<lparr>pq_consumed := Some at\<rparr>) hh by at t' d1 = Inr (y, d2)"
      show "twp (case y of None \<Rightarrow> raise (pairing_not_found ''household_not_found'') | Some p \<Rightarrow> ret p)
        (\<lambda>p d'. request_rows d' = consume_request i at (request_rows d)
           \<and> (\<exists>r n. r \<in> set (request_rows d) \<and> pq_id r = i \<and> pq_consumed r = None
              \<and> principal_rows d' = approve_principal r hh by at n (principal_rows d)
              \<and> p \<in> set (principal_rows d') \<and> active_for (pq_channel r) (pq_user r) p \<and> pp_household p = hh)) d2"
      proof (cases y)
        case (Some p)
        let ?ps = "approve_principal r hh by at (next_id (map pp_id (principal_rows d))) (principal_rows d)"
        have "find (active_for (pq_channel r) (pq_user r)) ?ps = Some p"
          "principal_rows d2 = ?ps" "request_rows d2 = consume_request i at (request_rows d)"
          using ins Some by (auto simp: sql_approve_principal_def Let_def 2(3) split: if_splits)
        then show ?thesis
          unfolding Some option.case using r find_approved by (intro twp_ret) metis
      qed (simp add: twp_raise)
    qed
  qed (simp add: twp_raise)
qed

lemma postgres_pairing_simps [simp]:
  "ps_repo (telegram_pairing sha) = postgres_pairing" "ps_code (telegram_pairing sha) = fresh_ulid"
  "ps_salt (telegram_pairing sha) = fresh_ulid" "ps_now (telegram_pairing sha) = now_ms"
  "pr_list postgres_pairing = listPendingRequests" "pr_upsert postgres_pairing = upsertPendingRequest"
  "pr_consume postgres_pairing = consumePendingAndApprove"
  "pr_failed postgres_pairing = recordFailedApprovalAttempt" "pr_revoke postgres_pairing = revokePrincipal"
  by (simp_all add: telegram_pairing_def postgres_pairing_def)

interpretation tg: pairing_repository "telegram_pairing sha" "\<lambda>w. request_rows (wdb w)"
  "\<lambda>w. principal_rows (wdb w)" wclock "\<lambda>w. txn w = None" for sha
proof (unfold_locales, goal_cases)
  case (1 w)
  then show ?case by (auto simp: wp_def now_ms_def next_time_def split: list.split)
next
  case (2 w)
  then show ?case by (auto simp: wp_def fresh_ulid_def)
next
  case (3 w)
  then show ?case by (auto simp: wp_def fresh_ulid_def)
next
  case (4 w ch t)
  have up: "dwp (listPendingRequests ch t) (\<lambda>x d'. d' = wdb w \<and> x = filter (live_at ch t) (request_rows (wdb w)))
      (\<lambda>e d'. d' = wdb w) (wdb w)"
    unfolding listPendingRequests_def by (intro dwp_pool_query) auto
  have clock: "keeps clock_runs (listPendingRequests ch t)"
    by (simp add: listPendingRequests_def clock_primitives)
  show ?case
    unfolding postgres_pairing_simps by (rule wp_clock [OF up 4 clock]) auto
next
  case (5 w u)
  let ?n = "next_id (map pq_id (request_rows (wdb w)))"
  let ?up = "\<lambda>d'. principal_rows d' = principal_rows (wdb w)
      \<and> request_rows d' = upsert_request u ?n (request_rows (wdb w))"
  have up: "dwp (upsertPendingRequest u) (\<lambda>x. ?up) (\<lambda>e d'. d' = wdb w \<or> ?up d') (wdb w)"
    unfolding upsertPendingRequest_def by (intro dwp_pool_query) (auto simp: sql_upsert_request_def Let_def)
  have n: "?n \<notin> pq_id ` set (request_rows (wdb w))"
    using next_id_fresh [of "map pq_id (request_rows (wdb w))"] by simp
  have clock: "keeps clock_runs (upsertPendingRequest u)"
    by (simp add: upsertPendingRequest_def clock_primitives)
  show ?case
    unfolding postgres_pairing_simps by (rule wp_clock [OF up 5 clock]) (use n in auto)
next
  case (6 w i hh who t)
  have clock: "keeps clock_runs (consumePendingAndApprove i hh who t)"
    unfolding consumePendingAndApprove_def consume_body_def
    by (intro clock_transactionally clock_runs.keeps_rules clock_primitives)
  show ?case
    unfolding postgres_pairing_simps
    by (rule wp_clock [OF dwp_transactionally [OF consume_twp [of i hh who t "wdb w"]],
        folded consumePendingAndApprove_def, OF 6 clock])
      (blast, elim conjE disjE, simp, blast)
next
  case (7 w i lock)
  let ?up = "\<lambda>d'. principal_rows d' = principal_rows (wdb w)
      \<and> request_rows d' = fail_request i lock (request_rows (wdb w))"
  have up: "dwp (recordFailedApprovalAttempt i lock) (\<lambda>x. ?up) (\<lambda>e d'. d' = wdb w \<or> ?up d') (wdb w)"
    unfolding recordFailedApprovalAttempt_def
    by (intro dwp_rules) (auto simp: sql_fail_request_def Let_def)
  have clock: "keeps clock_runs (recordFailedApprovalAttempt i lock)"
    unfolding recordFailedApprovalAttempt_def by (intro clock_runs.keeps_rules clock_primitives)
  show ?case
    unfolding postgres_pairing_simps by (rule wp_clock [OF up 7 clock]) auto
next
  case (8 w ch user t)
  let ?up = "\<lambda>d'. request_rows d' = request_rows (wdb w)
      \<and> principal_rows d' = revoke_principal ch user t (principal_rows (wdb w))"
  have up: "dwp (revokePrincipal ch user t) (\<lambda>x. ?up) (\<lambda>e d'. d' = wdb w \<or> ?up d') (wdb w)"
    unfolding revokePrincipal_def by (intro dwp_pool_query) auto
  have clock: "keeps clock_runs (revokePrincipal ch user t)"
    by (simp add: revokePrincipal_def clock_primitives)
  show ?case
    unfolding postgres_pairing_simps by (rule wp_clock [OF up 8 clock]) auto
qed

section \<open>Any sequence of calls\<close>

datatype pairing_call =
    Call_create pairing_input
  | Call_approve string string string
  | Call_revoke string
  | Call_list
  | Call_find string

fun pairing_call_run :: "(string \<Rightarrow> string) \<Rightarrow> pairing_call \<Rightarrow> pairing_db world \<Rightarrow> pairing_db world" where
  "pairing_call_run sha (Call_create i) w = snd (createPairingRequest (telegram_pairing sha) i w)"
| "pairing_call_run sha (Call_approve code household who) w =
     snd (approveCode (telegram_pairing sha) code household who w)"
| "pairing_call_run sha (Call_revoke user) w = snd (revoke (telegram_pairing sha) user w)"
| "pairing_call_run sha Call_list w = snd (listPending (telegram_pairing sha) w)"
| "pairing_call_run sha (Call_find user) w = snd (findPrincipal (telegram_pairing sha) user w)"

fun pairing_run :: "(string \<Rightarrow> string) \<Rightarrow> pairing_call list \<Rightarrow> pairing_db world \<Rightarrow> pairing_db world" where
  "pairing_run sha [] w = w"
| "pairing_run sha (c # cs) w = pairing_run sha cs (pairing_call_run sha c w)"

text \<open>What one call does to the tables.\<close>

definition accepts :: "(string \<Rightarrow> string) \<Rightarrow> pairing_call \<Rightarrow> pairing_db world \<Rightarrow> channel_principal \<Rightarrow> bool" where
  "accepts sha c w p \<longleftrightarrow>
     (\<exists>code who r t. c = Call_approve code (pp_household p) who \<and> r \<in> set (request_rows (wdb w))
        \<and> live_at Telegram t r \<and> \<not> isApprovalLocked r t \<and> code_matches (telegram_pairing sha) code r
        \<and> pp_user p = pq_user r \<and> pp_chat p = pq_chat r)"

definition call_ok :: "(string \<Rightarrow> string) \<Rightarrow> pairing_call \<Rightarrow> pairing_db world \<Rightarrow> pairing_db world \<Rightarrow> bool" where
  "call_ok sha c w w' \<longleftrightarrow> tg.good w'
     \<and> (\<forall>p \<in> set (principal_rows (wdb w')). pp_revoked p = None \<longrightarrow>
          p \<in> set (principal_rows (wdb w)) \<or> accepts sha c w p)"

lemma call_ok_same:
  "tg.good w' \<Longrightarrow> principal_rows (wdb w') = principal_rows (wdb w) \<Longrightarrow> call_ok sha c w w'"
  by (simp add: call_ok_def)

lemma call_ok_approved:
  assumes "tg.good w'" and "tg.approved sha w w' code hh who r"
  shows "call_ok sha (Call_approve code hh who) w w'"
proof -
  obtain t n where r: "r \<in> set (request_rows (wdb w))" "live_at Telegram t r" "\<not> isApprovalLocked r t"
      "code_matches (telegram_pairing sha) code r"
    and ps: "principal_rows (wdb w') = approve_principal r hh who t n (principal_rows (wdb w))"
    using assms(2) by (auto simp: tg.approved_def)
  have "p \<in> set (principal_rows (wdb w)) \<or> accepts sha (Call_approve code hh who) w p"
    if "p \<in> set (principal_rows (wdb w'))" for p
  proof -
    have "p \<in> set (principal_rows (wdb w)) \<or> (\<exists>m. p = principal_from r hh who t m)"
      using that unfolding ps by (auto simp: approve_principal_def Let_def set_update_where split: if_splits)
    then show ?thesis
      using r unfolding accepts_def principal_from_def by (elim disjE exE) (simp, fastforce)
  qed
  then show ?thesis using assms(1) by (simp add: call_ok_def)
qed

lemma pairing_call_ok:
  assumes "tg.good w"
  shows "call_ok sha c w (pairing_call_run sha c w)"
proof (cases c)
  case (Call_create i)
  have "wp (createPairingRequest (telegram_pairing sha) i) (\<lambda>_. call_ok sha c w) (\<lambda>_. call_ok sha c w) w"
    by (rule wp_mono [OF tg.create_spec [OF assms]]) (use call_ok_same in blast)+
  then show ?thesis unfolding Call_create pairing_call_run.simps by (rule wp_snd)
next
  case (Call_approve code hh who)
  have "wp (approveCode (telegram_pairing sha) code hh who) (\<lambda>_. call_ok sha c w) (\<lambda>_. call_ok sha c w) w"
    unfolding Call_approve
    by (rule wp_mono [OF tg.approve_spec [OF assms]]) (use call_ok_same call_ok_approved in blast)+
  then show ?thesis unfolding Call_approve pairing_call_run.simps by (rule wp_snd)
next
  case (Call_revoke user)
  have "wp (revoke (telegram_pairing sha) user) (\<lambda>_. call_ok sha c w) (\<lambda>_. call_ok sha c w) w"
    by (rule wp_mono [OF tg.revoke_spec [OF assms]]) (simp_all add: call_ok_def)
  then show ?thesis unfolding Call_revoke pairing_call_run.simps by (rule wp_snd)
next
  case Call_list
  have "wp (listPending (telegram_pairing sha)) (\<lambda>_. call_ok sha c w) (\<lambda>_. call_ok sha c w) w"
    by (rule wp_mono [OF tg.list_spec [OF assms]]) (use call_ok_same in blast)+
  then show ?thesis unfolding Call_list pairing_call_run.simps by (rule wp_snd)
next
  case (Call_find user)
  have same: "dwp (findActivePrincipal Telegram user) (\<lambda>_ d. d = wdb w) (\<lambda>_ d. d = wdb w) (wdb w)"
    unfolding findActivePrincipal_def by (intro dwp_pool_query) auto
  have clock: "keeps clock_runs (findActivePrincipal Telegram user)"
    by (simp add: findActivePrincipal_def clock_primitives)
  have "txn w = None" using assms by (simp add: tg.good_def)
  then have "wp (findActivePrincipal Telegram user) (\<lambda>_. call_ok sha c w) (\<lambda>_. call_ok sha c w) w"
    by (intro wp_clock [OF same _ clock]) (auto intro!: call_ok_same tg.good_later [OF assms])
  then have "wp (findPrincipal (telegram_pairing sha) user) (\<lambda>_. call_ok sha c w) (\<lambda>_. call_ok sha c w) w"
    by (simp add: findPrincipal_def Call_find postgres_pairing_def)
  then show ?thesis unfolding Call_find pairing_call_run.simps by (rule wp_snd)
qed

lemma pairing_run_good: "tg.good w \<Longrightarrow> tg.good (pairing_run sha calls w)"
proof (induction calls arbitrary: w)
  case (Cons c cs)
  then show ?case using pairing_call_ok [of w sha c] by (simp add: call_ok_def)
qed simp

definition fresh_pairing :: "string list \<Rightarrow> pairing_db" where
  "fresh_pairing hhs = \<lparr>principal_rows = [], request_rows = [], household_ids = hhs\<rparr>"

lemma good_fresh:
  assumes "wdb w = fresh_pairing hhs" and "txn w = None"
  shows "tg.good w"
  using assms by (simp add: tg.good_def pairing_ok_def fresh_pairing_def unique_on_def)

text \<open>
  C24. Pairing keeps its limits. Start with empty tables, make any sequence of service calls with
  any arguments, and let any round trip fail or lose its answer: there are never more than three
  live requests, one open request per user and one active principal per user; no request ever
  has more than five failed guesses, and a request with five is locked until it expires.
\<close>

theorem pairing_keeps_its_limits:
  assumes "wdb w = fresh_pairing hhs" and "txn w = None"
  shows "pairing_ok (wclock (pairing_run sha calls w)) (request_rows (wdb (pairing_run sha calls w)))
    (principal_rows (wdb (pairing_run sha calls w)))"
  using pairing_run_good [OF good_fresh [OF assms], of sha calls] by (simp add: tg.good_def)

definition pairing_world :: "pairing_db \<Rightarrow> fault list \<Rightarrow> pairing_db world" where
  "pairing_world d fs = \<lparr>wdb = d, txn = None, faults = fs, wclock = 0, ticks = replicate 40 1000,
     ulids = (\<lambda>n. if n mod 2 = 0 then ''CODE2345'' else replicate 32 (CHR ''a''))\<rparr>"

definition pairing_hh :: string where
  "pairing_hh = ''hh_01ARZ3NDEKTSV4RRFFQ69G5FAV''"

definition guess_calls :: "pairing_call list" where
  "guess_calls = Call_create \<lparr>pin_user = ''42'', pin_chat = ''42'', pin_display = None,
      pin_username = None, pin_metadata = JObj []\<rparr>
    # replicate 6 (Call_approve ''WRONG'' pairing_hh ''owner'')"

text \<open>A hash that tells the guess from the code.\<close>

definition pairing_sha :: "string \<Rightarrow> string" where
  "pairing_sha s = replicate 64 (if hd (drop 33 s) = CHR ''C'' then CHR ''c'' else CHR ''d'')"

lemma pairing_world_simps [simp]: "wdb (pairing_world d fs) = d" "txn (pairing_world d fs) = None"
  by (simp_all add: pairing_world_def)

lemma five_guesses:
  "map pq_failed (request_rows (wdb (pairing_run pairing_sha guess_calls
     (pairing_world (fresh_pairing [pairing_hh]) [])))) = [5]"
  by code_simp

theorem pairing_keeps_its_limits_witness:
  "map pq_failed (request_rows (wdb (pairing_run pairing_sha guess_calls
     (pairing_world (fresh_pairing [pairing_hh]) [])))) = [5]
   \<and> list_all (request_ok (wclock (pairing_run pairing_sha guess_calls
       (pairing_world (fresh_pairing [pairing_hh]) []))))
     (request_rows (wdb (pairing_run pairing_sha guess_calls (pairing_world (fresh_pairing [pairing_hh]) []))))"
  using pairing_keeps_its_limits [OF pairing_world_simps(1) pairing_world_simps(2), of pairing_sha guess_calls] five_guesses
  unfolding pairing_ok_def by blast


definition welcome_calls :: "pairing_call list" where
  "welcome_calls = [Call_create \<lparr>pin_user = ''42'', pin_chat = ''42'', pin_display = None,
      pin_username = None, pin_metadata = JObj []\<rparr>]"

definition right_code :: pairing_call where
  "right_code = Call_approve ''code2345 '' pairing_hh ''owner''"

definition welcomed :: channel_principal where
  "welcomed = \<lparr>pp_id = 1, pp_channel = Telegram, pp_user = ''42'', pp_chat = ''42'',
     pp_household = pairing_hh, pp_display = None, pp_username = None, pp_approved_at = 4000,
     pp_approved_by = ''owner'', pp_revoked = None, pp_metadata = JObj []\<rparr>"

lemma welcomed_now:
  "principal_rows (wdb (pairing_call_run pairing_sha right_code
     (pairing_run pairing_sha welcome_calls (pairing_world (fresh_pairing [pairing_hh]) [])))) = [welcomed]"
  by code_simp

lemma not_before:
  "principal_rows (wdb (pairing_run pairing_sha welcome_calls (pairing_world (fresh_pairing [pairing_hh]) []))) = []"
  by code_simp


end
