(* ===== verification/Channels.thy ===== *)
theory Channels
  imports Schemas Decimals
begin

text \<open>
  The contracts of chat channels, deliveries and scheduled work:
  packages/contracts/src/channels.ts. A schema is the predicate of the values it accepts; the
  literal \<open>schemaName\<close> and \<open>schemaVersion\<close> fields are left out and an instant is a number. Metadata
  and destinations are JSON objects, as association lists in the order of their keys.
\<close>

type_synonym metadata = "(string \<times> json) list"

datatype channel_kind = Ch_telegram | Ch_slack
datatype conversation_kind = Ck_direct | Ck_group | Ck_channel | Ck_thread
datatype message_format = Plain_text | Mrkdwn

fun channel_name :: "channel_kind \<Rightarrow> string" where
  "channel_name Ch_telegram = ''telegram''"
| "channel_name Ch_slack = ''slack''"

fun format_name :: "message_format \<Rightarrow> string" where
  "format_name Plain_text = ''plain_text''"
| "format_name Mrkdwn = ''mrkdwn''"

definition optional :: "('a \<Rightarrow> bool) \<Rightarrow> 'a option \<Rightarrow> bool" where
  "optional p v \<longleftrightarrow> (case v of None \<Rightarrow> True | Some x \<Rightarrow> p x)"

lemma optional_simps [simp]: "optional p None" "optional p (Some x) = p x"
  by (simp_all add: optional_def)

section \<open>Conversations and messages\<close>

record channel_conversation =
  cv_id :: string
  cv_household :: string
  cv_channel :: channel_kind
  cv_kind :: conversation_kind
  cv_external :: string
  cv_thread :: "string option"
  cv_destination :: metadata
  cv_created :: nat
  cv_updated :: nat

definition ChannelConversationSchemaV1 :: "channel_conversation \<Rightarrow> bool" where
  "ChannelConversationSchemaV1 c \<longleftrightarrow>
     opaqueIdentifierSchema Id_conversation (cv_id c) \<and> opaqueIdentifierSchema Id_household (cv_household c)
     \<and> text_between 1 512 (cv_external c) \<and> optional (text_between 1 512) (cv_thread c)"

record inbound_message =
  im_conversation :: string
  im_household :: string
  im_channel :: channel_kind
  im_external :: string
  im_received :: nat
  im_principal :: string
  im_display :: "string option"
  im_body :: string
  im_attachments :: "metadata list"
  im_metadata :: metadata

definition InboundChannelMessageSchemaV1 :: "inbound_message \<Rightarrow> bool" where
  "InboundChannelMessageSchemaV1 m \<longleftrightarrow>
     opaqueIdentifierSchema Id_conversation (im_conversation m) \<and> opaqueIdentifierSchema Id_household (im_household m)
     \<and> text_between 1 512 (im_external m) \<and> text_between 1 512 (im_principal m)
     \<and> optional (text_between 1 256) (im_display m) \<and> text_between 1 32000 (im_body m)"

section \<open>Final responses\<close>

datatype policy_boundary =
  Personalized_finance | Informational_only | Unsupported_capability_boundary | Operational

datatype unsupported_capability = Cap_tax | Cap_insurance

record citation =
  ct_label :: string
  ct_artifact :: "string option"
  ct_source :: "string option"

record delivery_target =
  dt_channel :: channel_kind
  dt_destination :: metadata
  dt_format :: message_format

record final_response =
  fr_id :: string
  fr_household :: string
  fr_conversation :: string
  fr_task :: "string option"
  fr_body :: string
  fr_boundary :: policy_boundary
  fr_citations :: "citation list"
  fr_assumptions :: "string list"
  fr_freshness :: "string list"
  fr_disclaimer :: string
  fr_unsupported :: "unsupported_capability list"
  fr_actions :: "string list"
  fr_delivery :: delivery_target
  fr_hash :: string
  fr_created :: nat

definition citation_schema :: "citation \<Rightarrow> bool" where
  "citation_schema c \<longleftrightarrow> text_between 1 512 (ct_label c)
     \<and> optional (opaqueIdentifierSchema Id_artifact) (ct_artifact c) \<and> optional (text_between 1 512) (ct_source c)"

definition OrchestratorFinalResponseSchemaV1 :: "final_response \<Rightarrow> bool" where
  "OrchestratorFinalResponseSchemaV1 r \<longleftrightarrow>
     text_between 1 256 (fr_id r) \<and> opaqueIdentifierSchema Id_household (fr_household r)
     \<and> opaqueIdentifierSchema Id_conversation (fr_conversation r)
     \<and> optional (opaqueIdentifierSchema Id_task) (fr_task r) \<and> text_between 1 32000 (fr_body r)
     \<and> fr_citations r \<noteq> [] \<and> list_all citation_schema (fr_citations r)
     \<and> list_all (text_between 1 2000) (fr_assumptions r)
     \<and> fr_freshness r \<noteq> [] \<and> list_all (text_between 1 2000) (fr_freshness r)
     \<and> text_between 1 2000 (fr_disclaimer r) \<and> list_all (text_between 1 2000) (fr_actions r)
     \<and> sha256_hex (fr_hash r)"

record processor_result =
  or_processor :: string
  or_version :: int
  or_blocked :: bool
  or_reason :: string
  or_issues :: "string list"
  or_retryable :: bool

definition OutputProcessorResultSchemaV1 :: "processor_result \<Rightarrow> bool" where
  "OutputProcessorResultSchemaV1 p \<longleftrightarrow>
     kebab_name (or_processor p) \<and> 0 < or_version p \<and> text_between 1 2000 (or_reason p)
     \<and> list_all (text_between 1 256) (or_issues p)"

section \<open>Deliveries\<close>

datatype delivery_status = Dl_pending | Dl_sending | Dl_delivered | Dl_failed | Dl_ambiguous

record delivery_record =
  dr_id :: string
  dr_household :: string
  dr_conversation :: string
  dr_channel :: channel_kind
  dr_key :: string
  dr_hash :: string
  dr_status :: delivery_status
  dr_destination :: metadata
  dr_message :: "string option"
  dr_attempts :: nat
  dr_failure :: "string option"
  dr_created :: nat
  dr_updated :: nat

definition DeliveryRecordSchemaV1 :: "delivery_record \<Rightarrow> bool" where
  "DeliveryRecordSchemaV1 d \<longleftrightarrow>
     opaqueIdentifierSchema Id_delivery (dr_id d) \<and> opaqueIdentifierSchema Id_household (dr_household d)
     \<and> opaqueIdentifierSchema Id_conversation (dr_conversation d) \<and> text_between 1 512 (dr_key d)
     \<and> sha256_hex (dr_hash d) \<and> optional (text_between 1 512) (dr_message d)
     \<and> optional (text_between 1 256) (dr_failure d)"

section \<open>Scheduled work\<close>

datatype run_target = To_orchestrator | To_team_lead string
datatype overlap_policy = Overlap_skip | Overlap_allow
datatype missed_run_policy = Missed_skip | Missed_run_once | Missed_bounded_catch_up

datatype occurrence_status =
  Oc_claimed | Oc_running | Oc_succeeded | Oc_failed | Oc_timed_out | Oc_cancelled | Oc_skipped

record scheduled_run =
  sr_occurrence :: string
  sr_job :: string
  sr_version :: int
  sr_household :: string
  sr_key :: string
  sr_for :: nat
  sr_status :: occurrence_status
  sr_attempts :: nat
  sr_task :: "string option"
  sr_delivery :: "string option"
  sr_failure :: "string option"
  sr_created :: nat
  sr_updated :: nat

definition ScheduledRunSchemaV1 :: "scheduled_run \<Rightarrow> bool" where
  "ScheduledRunSchemaV1 r \<longleftrightarrow>
     opaqueIdentifierSchema Id_occurrence (sr_occurrence r) \<and> opaqueIdentifierSchema Id_job (sr_job r)
     \<and> 0 < sr_version r \<and> opaqueIdentifierSchema Id_household (sr_household r)
     \<and> text_between 1 512 (sr_key r) \<and> optional (opaqueIdentifierSchema Id_task) (sr_task r)
     \<and> optional (opaqueIdentifierSchema Id_delivery) (sr_delivery r)
     \<and> optional (text_between 1 256) (sr_failure r)"

record review_context =
  rv_conversation :: string
  rv_principal :: string

text \<open>\<open>WorkingMemoryReviewScheduleContextSchemaV1.parse\<close> of an untyped context.\<close>

definition parse_review_context :: "json \<Rightarrow> review_context option" where
  "parse_review_context j = do {
     check_that (strict_object [''schemaName'', ''schemaVersion'', ''conversationId'', ''principalRef'', ''mode''] j);
     check_that (json_field ''schemaName'' j = Some (JStr ''working-memory-review-context''));
     check_that (json_field ''schemaVersion'' j = Some (JNum 1));
     c \<leftarrow> Option.bind (json_field ''conversationId'' j) json_string;
     p \<leftarrow> Option.bind (json_field ''principalRef'' j) json_string;
     check_that (opaqueIdentifierSchema Id_conversation c \<and> text_between 1 512 p);
     check_that (json_field ''mode'' j = Some (JStr ''suggest''));
     Some \<lparr>rv_conversation = c, rv_principal = p\<rparr> }"

text \<open>The channel of a response is that of its target.\<close>

abbreviation fr_channel :: "final_response \<Rightarrow> channel_kind" where
  "fr_channel r \<equiv> dt_channel (fr_delivery r)"

end
