(* ===== verification/Transports.thy ===== *)
theory Transports
  imports Channels DbErrors
begin

text \<open>
  What a chat transport answers and how its failures are read:
  packages/runtime/src/gateway/send-result.ts, and the adapter's interface in
  delivery/final-delivery-handler.ts. Code outside the repositories throws more than their errors:
  \<open>thrown\<close> adds the transport's error class, \<open>TypeError\<close>, \<open>DOMException\<close> with its name, the reason of
  an abort signal, and values that are no \<open>Error\<close>. Messages are left out.
\<close>

datatype transport_category =
  Tc_too_long | Tc_bad_format | Tc_forbidden | Tc_not_found | Tc_rate_limited | Tc_transient
  | Tc_ambiguous | Tc_unknown

fun transport_category_name :: "transport_category \<Rightarrow> string" where
  "transport_category_name Tc_too_long = ''too_long''"
| "transport_category_name Tc_bad_format = ''bad_format''"
| "transport_category_name Tc_forbidden = ''forbidden''"
| "transport_category_name Tc_not_found = ''not_found''"
| "transport_category_name Tc_rate_limited = ''rate_limited''"
| "transport_category_name Tc_transient = ''transient''"
| "transport_category_name Tc_ambiguous = ''ambiguous''"
| "transport_category_name Tc_unknown = ''unknown''"

record transport_failure =
  tf_category :: transport_category
  tf_retryable :: bool
  tf_lookup :: bool
  tf_retry_after :: "nat option"

datatype thrown =
    Ex exn
  | TransportSendError transport_failure
  | TypeError
  | DomException string
  | AbortReason
  | NotAnError

definition send_failure :: "transport_category \<Rightarrow> bool \<Rightarrow> bool \<Rightarrow> transport_failure" where
  "send_failure c retryable lookup =
    \<lparr>tf_category = c, tf_retryable = retryable, tf_lookup = lookup, tf_retry_after = None\<rparr>"

definition lower_char :: "char \<Rightarrow> char" where
  "lower_char c = (if is_upper c then char_of ((of_char c :: nat) + 32) else c)"

definition toLowerCase :: "string \<Rightarrow> string" where
  "toLowerCase s = map lower_char s"

definition classifyTelegramApiFailure :: "nat option \<Rightarrow> string option \<Rightarrow> nat option \<Rightarrow> transport_failure" where
  "classifyTelegramApiFailure status description retryAfterSeconds =
    (let n = toLowerCase (case description of Some d \<Rightarrow> d | None \<Rightarrow> ''Telegram API request failed'')
     in if status = Some 429
        then (send_failure Tc_rate_limited True False)
               \<lparr>tf_retry_after := map_option (\<lambda>s. s * 1000) retryAfterSeconds\<rparr>
        else if (case status of Some s \<Rightarrow> 500 \<le> s | None \<Rightarrow> False) then send_failure Tc_transient True False
        else if text_includes ''too long'' n \<or> text_includes ''message is too long'' n
        then send_failure Tc_too_long False False
        else if text_includes ''parse entities'' n \<or> text_includes ''cannot parse'' n
          \<or> text_includes ''bad format'' n
        then send_failure Tc_bad_format False False
        else if status = Some 403 \<or> text_includes ''forbidden'' n \<or> text_includes ''blocked by the user'' n
        then send_failure Tc_forbidden False False
        else if status = Some 404 \<or> text_includes ''not found'' n then send_failure Tc_not_found False False
        else send_failure Tc_unknown False False)"

fun transportFailureFromUnknown :: "thrown \<Rightarrow> transport_failure" where
  "transportFailureFromUnknown (TransportSendError f) = f"
| "transportFailureFromUnknown TypeError = send_failure Tc_ambiguous True True"
| "transportFailureFromUnknown NotAnError = send_failure Tc_unknown False False"
| "transportFailureFromUnknown AbortReason = send_failure Tc_unknown False False"
| "transportFailureFromUnknown _ = send_failure Tc_transient True False"

record send_input =
  si_body :: string
  si_destination :: metadata
  si_format :: message_format

section \<open>Two worlds side by side\<close>

text \<open>
  The world outside the database: what each call of a transport answers, the calls made so far,
  and how many more times the caller's abort signal is read before it is found aborted.
\<close>

record outside =
  outcomes :: "nat \<Rightarrow> thrown + string"
  sent :: "(channel_kind \<times> send_input) list"
  abort_in :: "nat option"

text \<open>A repository method among them.\<close>

definition on_db :: "('w, exn, 'a) io \<Rightarrow> ('w \<times> 'o, thrown, 'a) io" where
  "on_db m = (\<lambda>(w, out). case m w of
      (Inl e, w') \<Rightarrow> (Inl (Ex e), (w', out))
    | (Inr x, w') \<Rightarrow> (Inr x, (w', out)))"

lemma wp_on_db:
  "wp (on_db m) Q E s \<longleftrightarrow> wp m (\<lambda>x w'. Q x (w', snd s)) (\<lambda>e w'. E (Ex e) (w', snd s)) (fst s)"
  by (cases s) (auto simp: wp_def on_db_def split: prod.splits sum.splits)

definition transport_send :: "channel_kind \<Rightarrow> send_input \<Rightarrow> ('w \<times> outside, thrown, string) io" where
  "transport_send ch i =
    (\<lambda>(w, out). (outcomes out 0,
       (w, out\<lparr>outcomes := (\<lambda>n. outcomes out (Suc n)), sent := sent out @ [(ch, i)]\<rparr>)))"

text \<open>\<open>options.signal?.aborted\<close>; an aborted signal stays aborted.\<close>

definition signal_aborted :: "('w \<times> outside, thrown, bool) io" where
  "signal_aborted =
    (\<lambda>(w, out). (Inr (abort_in out = Some 0), (w, out\<lparr>abort_in := map_option (\<lambda>n. n - 1) (abort_in out)\<rparr>)))"

lemma wp_transport_send:
  "wp (transport_send ch i) Q E (w, out) \<longleftrightarrow>
     (case outcomes out 0 of
        Inl e \<Rightarrow> E e (w, out\<lparr>outcomes := (\<lambda>n. outcomes out (Suc n)), sent := sent out @ [(ch, i)]\<rparr>)
      | Inr m \<Rightarrow> Q m (w, out\<lparr>outcomes := (\<lambda>n. outcomes out (Suc n)), sent := sent out @ [(ch, i)]\<rparr>))"
  by (simp add: wp_def transport_send_def split: sum.split)

lemma wp_signal_aborted:
  "wp signal_aborted Q E (w, out) \<longleftrightarrow>
     Q (abort_in out = Some 0) (w, out\<lparr>abort_in := map_option (\<lambda>n. n - 1) (abort_in out)\<rparr>)"
  by (simp add: wp_def signal_aborted_def)

end
