(* ===== verification/OutputProcessors.thy ===== *)
theory OutputProcessors
  imports Transports
begin

text \<open>
  The processors that a response passes before it is delivered:
  packages/runtime/src/policy/output-processors.ts. A processor answers a verdict or throws; the
  chain stops at the first that blocks. The processor for internal implementation detail, a list of
  regular expressions, is not part of the chain that deliveries use and is left out.
\<close>

record output_processor =
  op_name :: string
  op_version :: int
  op_process :: "final_response \<Rightarrow> exn + processor_result"

definition processor_result_of ::
  "string \<Rightarrow> int \<Rightarrow> bool \<Rightarrow> string \<Rightarrow> string list \<Rightarrow> bool \<Rightarrow> exn + processor_result" where
  "processor_result_of name version blocked reason issues retryable =
    (let p = \<lparr>or_processor = name, or_version = version, or_blocked = blocked, or_reason = reason,
              or_issues = issues, or_retryable = retryable\<rparr>
     in if OutputProcessorResultSchemaV1 p then Inr p else Inl ZodError)"

definition passed :: "string \<Rightarrow> int \<Rightarrow> string \<Rightarrow> exn + processor_result" where
  "passed name version reason = processor_result_of name version False reason [] False"

definition blocked :: "string \<Rightarrow> int \<Rightarrow> string \<Rightarrow> string \<Rightarrow> exn + processor_result" where
  "blocked name version reason issue = processor_result_of name version True reason [issue] True"

definition schemaBlocked :: "string \<Rightarrow> int \<Rightarrow> exn + processor_result" where
  "schemaBlocked name version =
    processor_result_of name version True ''Final response failed structured validation.''
      [''schema_validation''] False"

definition mandatory_policy :: "final_response \<Rightarrow> exn + processor_result" where
  "mandatory_policy r =
    (let n = ''mandatory-policy''
     in if \<not> OrchestratorFinalResponseSchemaV1 r then schemaBlocked n 1
        else if fr_unsupported r \<noteq> [] \<and> fr_boundary r \<noteq> Unsupported_capability_boundary
        then blocked n 1 ''Unsupported tax or insurance content must use the unsupported-capability boundary.''
               ''unsupported_capability_not_declared''
        else if fr_boundary r = Unsupported_capability_boundary
        then if fr_unsupported r = []
             then blocked n 1 ''Unsupported-capability responses must name the unsupported capability.''
                    ''unsupported_capability_missing''
             else if fr_actions r \<noteq> []
             then blocked n 1 ''Unsupported capabilities cannot include recommendation actions.''
                    ''unsupported_recommendation_action''
             else passed n 1 ''Unsupported capability boundary is explicit.''
        else if fr_boundary r = Informational_only \<and> fr_actions r \<noteq> []
        then blocked n 1 ''Informational-only responses cannot include recommendation actions.''
               ''informational_recommendation_action''
        else if \<not> text_includes ''not a licensed financial professional'' (toLowerCase (fr_disclaimer r))
        then blocked n 1 ''Financial responses must include the mandatory professional disclaimer.''
               ''missing_financial_professional_disclaimer''
        else if list_ex (\<lambda>i. text_includes ''stale'' (toLowerCase i)) (fr_freshness r)
        then blocked n 1 ''Response freshness is stale.'' ''stale_freshness''
        else passed n 1 ''Mandatory policy checks passed.'')"

definition mandatoryPolicyProcessor :: output_processor where
  "mandatoryPolicyProcessor =
    \<lparr>op_name = ''mandatory-policy'', op_version = 1, op_process = mandatory_policy\<rparr>"

text \<open>\<open>typeof destination[k] === 'string'\<close>.\<close>

definition string_field :: "string \<Rightarrow> metadata \<Rightarrow> bool" where
  "string_field k m \<longleftrightarrow> (case map_of m k of Some (JStr s) \<Rightarrow> True | _ \<Rightarrow> False)"

definition channel_format :: "final_response \<Rightarrow> exn + processor_result" where
  "channel_format r =
    (let n = ''channel-format'' in
     if \<not> OrchestratorFinalResponseSchemaV1 r then schemaBlocked n 1
     else case fr_channel r of
       Ch_telegram \<Rightarrow>
         if \<not> string_field ''chatId'' (dt_destination (fr_delivery r))
         then blocked n 1 ''Telegram delivery requires chatId destination metadata.'' ''telegram_chat_id_missing''
         else if length (fr_body r) > 4096
         then blocked n 1 ''Telegram body exceeds the platform message limit.'' ''telegram_body_too_long''
         else passed n 1 ''Channel formatting checks passed.''
     | Ch_slack \<Rightarrow>
         if \<not> string_field ''channelId'' (dt_destination (fr_delivery r))
         then blocked n 1 ''Slack delivery requires channelId destination metadata.'' ''slack_channel_id_missing''
         else if length (fr_body r) > 40000
         then blocked n 1 ''Slack body exceeds the platform message limit.'' ''slack_body_too_long''
         else passed n 1 ''Channel formatting checks passed.'')"

definition channelFormatProcessor :: output_processor where
  "channelFormatProcessor =
    \<lparr>op_name = ''channel-format'', op_version = 1, op_process = channel_format\<rparr>"

fun runOutputProcessors :: "final_response \<Rightarrow> output_processor list \<Rightarrow> exn + processor_result" where
  "runOutputProcessors r [] =
    processor_result_of ''processor-chain'' 1 False ''All output processors passed.'' [] False"
| "runOutputProcessors r (p # ps) =
    (case op_process p r of
       Inl e \<Rightarrow> Inl e
     | Inr x \<Rightarrow> if or_blocked x then Inr x else runOutputProcessors r ps)"

section \<open>What passes\<close>

text \<open>The parse of a built result never fails: the verdicts are literals.\<close>

lemma processor_names [simp]:
  "kebab_name ''mandatory-policy''" "kebab_name ''channel-format''" "kebab_name ''processor-chain''"
  by code_simp+

lemma result_Inr:
  "kebab_name n \<Longrightarrow> 0 < v \<Longrightarrow> text_between 1 2000 s \<Longrightarrow> list_all (text_between 1 256) is \<Longrightarrow>
   processor_result_of n v b s is r = Inr \<lparr>or_processor = n, or_version = v, or_blocked = b, or_reason = s,
     or_issues = is, or_retryable = r\<rparr>"
  by (simp add: processor_result_of_def OutputProcessorResultSchemaV1_def)

lemmas verdict_simps = passed_def blocked_def schemaBlocked_def result_Inr text_between_def

text \<open>What the two default processors let through.\<close>

definition within_policy :: "final_response \<Rightarrow> bool" where
  "within_policy r \<longleftrightarrow>
     (if fr_boundary r = Unsupported_capability_boundary
      then fr_unsupported r \<noteq> [] \<and> fr_actions r = []
      else fr_unsupported r = [] \<and> \<not> (fr_boundary r = Informational_only \<and> fr_actions r \<noteq> [])
        \<and> text_includes ''not a licensed financial professional'' (toLowerCase (fr_disclaimer r))
        \<and> \<not> list_ex (\<lambda>i. text_includes ''stale'' (toLowerCase i)) (fr_freshness r))"

definition fits_channel :: "final_response \<Rightarrow> bool" where
  "fits_channel r \<longleftrightarrow>
     (case fr_channel r of
        Ch_telegram \<Rightarrow> string_field ''chatId'' (dt_destination (fr_delivery r)) \<and> length (fr_body r) \<le> 4096
      | Ch_slack \<Rightarrow> string_field ''channelId'' (dt_destination (fr_delivery r)) \<and> length (fr_body r) \<le> 40000)"

definition deliverable :: "final_response \<Rightarrow> bool" where
  "deliverable r \<longleftrightarrow> OrchestratorFinalResponseSchemaV1 r \<and> within_policy r \<and> fits_channel r"

lemma mandatory_policy_verdict:
  "\<exists>x. mandatory_policy r = Inr x
     \<and> (or_blocked x \<longleftrightarrow> \<not> (OrchestratorFinalResponseSchemaV1 r \<and> within_policy r))"
  unfolding mandatory_policy_def Let_def within_policy_def
  by (cases "fr_boundary r") (simp_all add: verdict_simps)

lemma channel_format_verdict:
  "\<exists>x. channel_format r = Inr x
     \<and> (or_blocked x \<longleftrightarrow> \<not> (OrchestratorFinalResponseSchemaV1 r \<and> fits_channel r))"
  unfolding channel_format_def Let_def fits_channel_def
  by (cases "fr_channel r") (simp_all add: verdict_simps)

lemma default_processors_verdict:
  "\<exists>x. runOutputProcessors r [mandatoryPolicyProcessor, channelFormatProcessor] = Inr x
     \<and> (or_blocked x \<longleftrightarrow> \<not> deliverable r)"
proof -
  obtain x y where x: "mandatory_policy r = Inr x"
      "or_blocked x \<longleftrightarrow> \<not> (OrchestratorFinalResponseSchemaV1 r \<and> within_policy r)"
    and y: "channel_format r = Inr y"
      "or_blocked y \<longleftrightarrow> \<not> (OrchestratorFinalResponseSchemaV1 r \<and> fits_channel r)"
    using mandatory_policy_verdict [of r] channel_format_verdict [of r] by blast
  then show ?thesis
    by (auto simp: mandatoryPolicyProcessor_def channelFormatProcessor_def verdict_simps deliverable_def)
qed

end
