(* ===== verification/DeliveryRepository.thy ===== *)
theory DeliveryRepository
  imports Channels OpsDb
begin

text \<open>
  Conversations, inbound messages and outbound deliveries in PostgreSQL: class
  \<open>PostgresDeliveryRepository\<close> of repositories/operations/delivery-scheduler.ts on the tables of
  migrations 0012 and 0017, and the tables of scheduled work that the same file uses. The statements
  join the tables on surrogate keys; the rows here carry the public ones.
\<close>

record conversation_row =
  vw_id :: string
  vw_household :: string
  vw_channel :: channel_kind
  vw_kind :: conversation_kind
  vw_external :: string
  vw_thread :: string
  vw_destination :: metadata
  vw_created :: nat
  vw_updated :: nat

record lane_row =
  ln_household :: string
  ln_channel :: channel_kind
  ln_external :: string
  ln_thread :: string
  ln_active :: string

record message_row =
  mg_conversation :: string
  mg_household :: string
  mg_channel :: channel_kind
  mg_external :: string
  mg_body :: string
  mg_principal :: string
  mg_display :: "string option"
  mg_attachments :: "metadata list"
  mg_metadata :: metadata

record job_row =
  jb_id :: string
  jb_household :: string
  jb_version :: int
  jb_target :: run_target
  jb_next :: nat
  jb_timeout :: nat
  jb_retries :: nat
  jb_context_schema :: schema_identity
  jb_context :: json
  jb_behavior :: json
  jb_overlap :: overlap_policy
  jb_missed :: missed_run_policy
  jb_enabled :: bool

record chat_db =
  ch_households :: "string list"
  ch_conversations :: "conversation_row list"
  ch_lanes :: "lane_row list"
  ch_messages :: "message_row list"
  ch_deliveries :: "delivery_record list"
  ch_jobs :: "job_row list"
  ch_runs :: "scheduled_run list"

definition record_not_found :: "string \<Rightarrow> exn" where
  "record_not_found c = plusOne Validation_rejected c Never False"

section \<open>Conversations\<close>

record start_conversation =
  sc_conversation :: string
  sc_household :: string
  sc_channel :: channel_kind
  sc_kind :: conversation_kind
  sc_external :: string
  sc_thread :: "string option"
  sc_destination :: metadata

definition thread_text :: "string option \<Rightarrow> string" where
  "thread_text t = (case t of None \<Rightarrow> [] | Some s \<Rightarrow> s)"

text \<open>\<open>channelConversation(row)\<close>.\<close>

definition channelConversation :: "conversation_row \<Rightarrow> exn + channel_conversation" where
  "channelConversation w =
    (let c = \<lparr>cv_id = vw_id w, cv_household = vw_household w, cv_channel = vw_channel w,
              cv_kind = vw_kind w, cv_external = vw_external w,
              cv_thread = (if vw_thread w = [] then None else Some (vw_thread w)),
              cv_destination = vw_destination w, cv_created = vw_created w, cv_updated = vw_updated w\<rparr>
     in if ChannelConversationSchemaV1 c then Inr c else Inl ZodError)"

definition sql_insert_conversation ::
  "start_conversation \<Rightarrow> (chat_db, conversation_row option) statement" where
  "sql_insert_conversation i now db =
    (if sc_household i \<notin> set (ch_households db) then Inr (None, db)
     else
       let w = \<lparr>vw_id = sc_conversation i, vw_household = sc_household i, vw_channel = sc_channel i,
                vw_kind = sc_kind i, vw_external = sc_external i, vw_thread = thread_text (sc_thread i),
                vw_destination = sc_destination i, vw_created = now, vw_updated = now\<rparr>
       in guarded
            [(opaqueIdentifierSchema Id_conversation (vw_id w),
                check_violation ''channel_conversations_public_id_format''),
             (vw_id w \<notin> vw_id ` set (ch_conversations db),
                unique_violation ''channel_conversations_public_unique'')]
            (Some w, db\<lparr>ch_conversations := ch_conversations db @ [w]\<rparr>))"

definition lane_of :: "string \<Rightarrow> channel_kind \<Rightarrow> string \<Rightarrow> string \<Rightarrow> lane_row \<Rightarrow> bool" where
  "lane_of hh ch ext th l \<longleftrightarrow> ln_household l = hh \<and> ln_channel l = ch \<and> ln_external l = ext \<and> ln_thread l = th"

definition conversation_of :: "string \<Rightarrow> string \<Rightarrow> conversation_row \<Rightarrow> bool" where
  "conversation_of hh c w \<longleftrightarrow> vw_household w = hh \<and> vw_id w = c"

definition sql_upsert_lane :: "start_conversation \<Rightarrow> (chat_db, unit) statement" where
  "sql_upsert_lane i now db =
    (let mine = lane_of (sc_household i) (sc_channel i) (sc_external i) (thread_text (sc_thread i))
     in if sc_household i \<notin> set (ch_households db)
           \<or> \<not> list_ex (conversation_of (sc_household i) (sc_conversation i)) (ch_conversations db)
        then Inr ((), db)
        else if list_ex mine (ch_lanes db)
        then Inr ((), db\<lparr>ch_lanes :=
          update_where mine (\<lambda>l. l\<lparr>ln_active := sc_conversation i\<rparr>) (ch_lanes db)\<rparr>)
        else Inr ((), db\<lparr>ch_lanes := ch_lanes db @
          [\<lparr>ln_household = sc_household i, ln_channel = sc_channel i, ln_external = sc_external i,
            ln_thread = thread_text (sc_thread i), ln_active = sc_conversation i\<rparr>]\<rparr>))"

definition start_body :: "start_conversation \<Rightarrow> (chat_db, conversation_row) dbm" where
  "start_body i =
    bindM (requireM (opaqueIdentifierSchema Id_household (sc_household i)) ZodError) (\<lambda>_.
    bindM (client_query (sql_insert_conversation i)) (\<lambda>row.
      case row of
        None \<Rightarrow> raise (record_not_found ''household_not_found'')
      | Some w \<Rightarrow> bindM (client_query (sql_upsert_lane i)) (\<lambda>_. ret w)))"

text \<open>The row is parsed inside the \<open>try\<close>, after COMMIT.\<close>

definition startNewConversation :: "start_conversation \<Rightarrow> (chat_db, channel_conversation) dbm" where
  "startNewConversation i =
    bindM connect (\<lambda>_.
      finallyM
        (catchM
          (bindM begin_transaction (\<lambda>_.
           bindM (start_body i) (\<lambda>w.
           bindM commit_transaction (\<lambda>_. liftE (channelConversation w)))))
          (\<lambda>e. bindM rollback_transaction (\<lambda>_. raise e)))
        release)"

definition active_conversation ::
  "string \<Rightarrow> channel_kind \<Rightarrow> string \<Rightarrow> string \<Rightarrow> chat_db \<Rightarrow> conversation_row option" where
  "active_conversation hh ch ext th db =
    (case find (lane_of hh ch ext th) (ch_lanes db) of
       None \<Rightarrow> None
     | Some l \<Rightarrow> find (\<lambda>w. vw_id w = ln_active l) (ch_conversations db))"

definition resolveActiveConversation ::
  "string \<Rightarrow> channel_kind \<Rightarrow> string \<Rightarrow> string option \<Rightarrow> (chat_db, channel_conversation option) dbm" where
  "resolveActiveConversation hh ch ext th =
    bindM (requireM (opaqueIdentifierSchema Id_household hh) ZodError) (\<lambda>_.
    bindM (pool_query (\<lambda>t db. Inr (active_conversation hh ch ext (thread_text th) db, db))) (\<lambda>row.
      case row of
        None \<Rightarrow> ret None
      | Some w \<Rightarrow> bindM (liftE (channelConversation w)) (\<lambda>c. ret (Some c))))"

section \<open>Inbound messages\<close>

definition message_of :: "string \<Rightarrow> channel_kind \<Rightarrow> string \<Rightarrow> message_row \<Rightarrow> bool" where
  "message_of hh ch ext m \<longleftrightarrow> mg_household m = hh \<and> mg_channel m = ch \<and> mg_external m = ext"

definition known_conversation :: "string \<Rightarrow> string \<Rightarrow> chat_db \<Rightarrow> bool" where
  "known_conversation hh c db \<longleftrightarrow> list_ex (conversation_of hh c) (ch_conversations db)"

definition sql_insert_message :: "inbound_message \<Rightarrow> (chat_db, bool) statement" where
  "sql_insert_message i now db =
    (if \<not> known_conversation (im_household i) (im_conversation i) db
        \<or> list_ex (message_of (im_household i) (im_channel i) (im_external i)) (ch_messages db)
     then Inr (False, db)
     else Inr (True, db\<lparr>ch_messages := ch_messages db @
       [\<lparr>mg_conversation = im_conversation i, mg_household = im_household i, mg_channel = im_channel i,
         mg_external = im_external i, mg_body = im_body i, mg_principal = im_principal i,
         mg_display = im_display i, mg_attachments = im_attachments i, mg_metadata = im_metadata i\<rparr>]\<rparr>))"

definition recordInboundMessage :: "inbound_message \<Rightarrow> (chat_db, bool) dbm" where
  "recordInboundMessage i =
    bindM (requireM (InboundChannelMessageSchemaV1 i) ZodError) (\<lambda>_.
    bindM (pool_query (sql_insert_message i)) (\<lambda>inserted.
      if inserted then ret True
      else
        bindM (pool_query (\<lambda>t db.
            Inr (list_ex (message_of (im_household i) (im_channel i) (im_external i)) (ch_messages db), db)))
          (\<lambda>existing.
            if existing then ret False
            else raise (record_not_found ''channel_conversation_not_found''))))"

section \<open>Deliveries\<close>

definition deliveryRecord :: "delivery_record \<Rightarrow> exn + delivery_record" where
  "deliveryRecord d = (if DeliveryRecordSchemaV1 d then Inr d else Inl ZodError)"

definition delivery_of :: "string \<Rightarrow> string \<Rightarrow> delivery_record \<Rightarrow> bool" where
  "delivery_of hh key d \<longleftrightarrow> dr_household d = hh \<and> dr_key d = key"

definition new_delivery :: "string \<Rightarrow> string \<Rightarrow> final_response \<Rightarrow> nat \<Rightarrow> delivery_record" where
  "new_delivery i key r now =
    \<lparr>dr_id = i, dr_household = fr_household r, dr_conversation = fr_conversation r,
     dr_channel = fr_channel r, dr_key = key, dr_hash = fr_hash r, dr_status = Dl_pending,
     dr_destination = dt_destination (fr_delivery r), dr_message = None, dr_attempts = 0,
     dr_failure = None, dr_created = now, dr_updated = now\<rparr>"

definition sql_reserve_delivery ::
  "string \<Rightarrow> string \<Rightarrow> final_response \<Rightarrow> (chat_db, delivery_record option) statement" where
  "sql_reserve_delivery i key r now db =
    (if \<not> known_conversation (fr_household r) (fr_conversation r) db
        \<or> list_ex (delivery_of (fr_household r) key) (ch_deliveries db)
     then Inr (None, db)
     else guarded [(i \<notin> dr_id ` set (ch_deliveries db), unique_violation ''outbound_deliveries_public_unique'')]
       (Some (new_delivery i key r now),
        db\<lparr>ch_deliveries := ch_deliveries db @ [new_delivery i key r now]\<rparr>))"

definition find_delivery_by_key :: "string \<Rightarrow> string \<Rightarrow> (chat_db, delivery_record option) dbm" where
  "find_delivery_by_key hh key =
    bindM (requireM (opaqueIdentifierSchema Id_household hh) ZodError) (\<lambda>_.
    bindM (pool_query (\<lambda>t db. Inr (find (delivery_of hh key) (ch_deliveries db), db))) (\<lambda>row.
      case row of
        None \<Rightarrow> ret None
      | Some d \<Rightarrow> bindM (liftE (deliveryRecord d)) (\<lambda>d. ret (Some d))))"

definition reserveDelivery :: "string \<Rightarrow> string \<Rightarrow> final_response \<Rightarrow> (chat_db, delivery_record) dbm" where
  "reserveDelivery i key r =
    bindM (requireM (OrchestratorFinalResponseSchemaV1 r) ZodError) (\<lambda>_.
    bindM (requireM (opaqueIdentifierSchema Id_delivery i) ZodError) (\<lambda>_.
    bindM (pool_query (sql_reserve_delivery i key r)) (\<lambda>inserted.
      case inserted of
        Some d \<Rightarrow> liftE (deliveryRecord d)
      | None \<Rightarrow>
          bindM (find_delivery_by_key (fr_household r) key) (\<lambda>existing.
            case existing of
              Some d \<Rightarrow> ret d
            | None \<Rightarrow> raise (record_not_found ''delivery_conversation_not_found'')))))"

text \<open>\<open>updateDelivery\<close>; the argument is the SET clause.\<close>

definition sql_update_delivery ::
  "string \<Rightarrow> string \<Rightarrow> (nat \<Rightarrow> delivery_record \<Rightarrow> delivery_record) \<Rightarrow> (chat_db, delivery_record option) statement" where
  "sql_update_delivery hh i f now db =
    (let mine = (\<lambda>d. dr_household d = hh \<and> dr_id d = i);
         ds = update_where mine (f now) (ch_deliveries db)
     in Inr (find mine ds, db\<lparr>ch_deliveries := ds\<rparr>))"

definition updateDelivery ::
  "string \<Rightarrow> string \<Rightarrow> (nat \<Rightarrow> delivery_record \<Rightarrow> delivery_record) \<Rightarrow> (chat_db, delivery_record) dbm" where
  "updateDelivery hh i f =
    bindM (requireM (opaqueIdentifierSchema Id_household hh \<and> opaqueIdentifierSchema Id_delivery i) ZodError) (\<lambda>_.
    bindM (pool_query (sql_update_delivery hh i f)) (\<lambda>row.
      case row of
        None \<Rightarrow> raise (record_not_found ''delivery_not_found'')
      | Some d \<Rightarrow> liftE (deliveryRecord d)))"

definition set_delivered :: "string \<Rightarrow> nat \<Rightarrow> delivery_record \<Rightarrow> delivery_record" where
  "set_delivered message now d =
    d\<lparr>dr_status := Dl_delivered, dr_message := Some message, dr_failure := None,
      dr_attempts := dr_attempts d + 1, dr_updated := now\<rparr>"

definition set_failed :: "bool \<Rightarrow> string \<Rightarrow> nat \<Rightarrow> delivery_record \<Rightarrow> delivery_record" where
  "set_failed ambiguous category now d =
    d\<lparr>dr_status := (if ambiguous then Dl_ambiguous else Dl_failed), dr_failure := Some category,
      dr_attempts := dr_attempts d + 1, dr_updated := now\<rparr>"

definition markDelivered :: "string \<Rightarrow> string \<Rightarrow> string \<Rightarrow> (chat_db, delivery_record) dbm" where
  "markDelivered hh i message = updateDelivery hh i (set_delivered message)"

definition markDeliveryFailed :: "string \<Rightarrow> string \<Rightarrow> bool \<Rightarrow> string \<Rightarrow> (chat_db, delivery_record) dbm" where
  "markDeliveryFailed hh i ambiguous category = updateDelivery hh i (set_failed ambiguous category)"

end
