(* ===== verification/FinalDelivery.thy ===== *)
theory FinalDelivery
  imports OutputProcessors DeliveryRepository JsonText ClientSections
begin

text \<open>
  The delivery of final responses: packages/runtime/src/delivery/final-delivery-handler.ts, over the
  ports it declares. The guarantees are proved in the locale \<open>delivery_ports\<close> and hold for the
  PostgreSQL repository, which provides it. Log lines and durations are left out. An operation that
  is under way when the signal aborts has come to its end when the handler goes on.
\<close>

record 's delivery_deps =
  dl_reserve :: "string \<Rightarrow> string \<Rightarrow> final_response \<Rightarrow> ('s, thrown, delivery_record) io"
  dl_delivered :: "string \<Rightarrow> string \<Rightarrow> string \<Rightarrow> ('s, thrown, delivery_record) io"
  dl_failed :: "string \<Rightarrow> string \<Rightarrow> bool \<Rightarrow> string \<Rightarrow> ('s, thrown, delivery_record) io"
  dl_send :: "channel_kind \<Rightarrow> send_input \<Rightarrow> ('s, thrown, string) io"
  dl_ids :: "('s, thrown, string) io"
  dl_processors :: "output_processor list option"
  dl_aborted :: "('s, thrown, bool) io"
  dl_sha256 :: "string \<Rightarrow> string"

datatype delivery_result =
    Blocked processor_result
  | Delivered delivery_record bool
  | Not_delivered bool delivery_record bool

definition createDeliveryKey :: "(string \<Rightarrow> string) \<Rightarrow> final_response \<Rightarrow> string" where
  "createDeliveryKey sha r =
    sha (json_stringify (JObj
      [(''responseId'', JStr (fr_id r)),
       (''conversationId'', JStr (fr_conversation r)),
       (''delivery'', JObj
          [(''channel'', JStr (channel_name (fr_channel r))),
           (''destination'', JObj (dt_destination (fr_delivery r))),
           (''format'', JStr (format_name (dt_format (fr_delivery r))))]),
       (''body'', JStr (fr_body r)),
       (''responseHash'', JStr (fr_hash r))]))"

definition throwIfAborted :: "'s delivery_deps \<Rightarrow> ('s, thrown, unit) io" where
  "throwIfAborted h = bindM (dl_aborted h) (\<lambda>a. requireM (\<not> a) AbortReason)"

text \<open>The operation has been started when \<open>abortable\<close> looks at the signal.\<close>

definition abortable :: "'s delivery_deps \<Rightarrow> ('s, thrown, 'a) io \<Rightarrow> ('s, thrown, 'a) io" where
  "abortable h m =
    bindM (dl_aborted h) (\<lambda>a.
      if a then thenM m (\<lambda>_. raise AbortReason) (\<lambda>_. raise AbortReason)
      else thenM m (\<lambda>e. bindM (dl_aborted h) (\<lambda>a. raise (if a then AbortReason else e)))
             (\<lambda>x. bindM (dl_aborted h) (\<lambda>a. if a then raise AbortReason else ret x)))"

text \<open>The inner \<open>catch\<close>, with the flag \<open>sendAttempted\<close>.\<close>

definition settle_failure ::
  "'s delivery_deps \<Rightarrow> final_response \<Rightarrow> delivery_record \<Rightarrow> bool \<Rightarrow> thrown \<Rightarrow> ('s, thrown, delivery_result) io" where
  "settle_failure h r d attempted e =
    bindM (dl_aborted h) (\<lambda>a.
      if a then
        (if attempted
         then thenM (dl_failed h (fr_household r) (dr_id d) True ''timeout'')
                (\<lambda>_. raise AbortReason) (\<lambda>_. raise AbortReason)
         else raise AbortReason)
      else
        let f = transportFailureFromUnknown e;
            ambiguous = tf_lookup f \<or> tf_category f = Tc_ambiguous
        in bindM (dl_failed h (fr_household r) (dr_id d) ambiguous (transport_category_name (tf_category f)))
             (\<lambda>failed. ret (Not_delivered ambiguous failed True)))"

definition send_reserved ::
  "'s delivery_deps \<Rightarrow> final_response \<Rightarrow> delivery_record \<Rightarrow> ('s, thrown, delivery_result) io" where
  "send_reserved h r d =
    thenM (throwIfAborted h)
      (settle_failure h r d False)
      (\<lambda>_. catchM
        (bindM (abortable h (dl_send h (fr_channel r)
             \<lparr>si_body = fr_body r, si_destination = dt_destination (fr_delivery r),
              si_format = dt_format (fr_delivery r)\<rparr>)) (\<lambda>message.
         bindM (throwIfAborted h) (\<lambda>_.
         bindM (abortable h (dl_delivered h (fr_household r) (dr_id d) message)) (\<lambda>delivered.
         ret (Delivered delivered True)))))
        (settle_failure h r d True))"

definition processors_of :: "'s delivery_deps \<Rightarrow> output_processor list" where
  "processors_of h =
    (case dl_processors h of
       Some ps \<Rightarrow> ps
     | None \<Rightarrow> [mandatoryPolicyProcessor, channelFormatProcessor])"

definition deliver :: "'s delivery_deps \<Rightarrow> final_response \<Rightarrow> ('s, thrown, delivery_result) io" where
  "deliver h r =
    bindM (throwIfAborted h) (\<lambda>_.
      case runOutputProcessors r (processors_of h) of
        Inl e \<Rightarrow> raise (Ex e)
      | Inr p \<Rightarrow>
          if or_blocked p then ret (Blocked p)
          else
            bindM (throwIfAborted h) (\<lambda>_.
            bindM (dl_ids h) (\<lambda>i.
            bindM (abortable h (dl_reserve h i (createDeliveryKey (dl_sha256 h) r) r)) (\<lambda>d.
            bindM (throwIfAborted h) (\<lambda>_.
              case dr_status d of
                Dl_delivered \<Rightarrow> ret (Delivered d False)
              | Dl_failed \<Rightarrow> ret (Not_delivered False d False)
              | Dl_ambiguous \<Rightarrow> ret (Not_delivered True d False)
              | _ \<Rightarrow> send_reserved h r d)))))"

section \<open>What the handler relies on\<close>

text \<open>Reservations and marks, as changes of the table of deliveries.\<close>

definition reserved_rows :: "final_response \<Rightarrow> string \<Rightarrow> delivery_record list \<Rightarrow> delivery_record list \<Rightarrow> bool" where
  "reserved_rows r key ds ds' \<longleftrightarrow>
     ds' = ds
     \<or> (\<exists>i t. ds' = ds @ [new_delivery i key r t] \<and> i \<notin> dr_id ` set ds
          \<and> \<not> list_ex (delivery_of (fr_household r) key) ds)"

definition marked_rows :: "string \<Rightarrow> string \<Rightarrow> (delivery_record \<Rightarrow> delivery_record) \<Rightarrow>
    delivery_record list \<Rightarrow> delivery_record list" where
  "marked_rows hh i f = update_where (\<lambda>d. dr_household d = hh \<and> dr_id d = i) f"

definition settled :: "delivery_record \<Rightarrow> bool" where
  "settled d \<longleftrightarrow> dr_status d = Dl_delivered \<or> dr_status d = Dl_failed \<or> dr_status d = Dl_ambiguous"

definition message_of_response :: "final_response \<Rightarrow> send_input" where
  "message_of_response r = \<lparr>si_body = fr_body r, si_destination = dt_destination (fr_delivery r),
     si_format = dt_format (fr_delivery r)\<rparr>"

lemma set_simps [simp]:
  "dr_id (set_delivered m t d) = dr_id d" "dr_household (set_delivered m t d) = dr_household d"
  "dr_key (set_delivered m t d) = dr_key d" "dr_status (set_delivered m t d) = Dl_delivered"
  "dr_id (set_failed a c t d) = dr_id d" "dr_household (set_failed a c t d) = dr_household d"
  "dr_key (set_failed a c t d) = dr_key d"
  "dr_status (set_failed a c t d) = (if a then Dl_ambiguous else Dl_failed)"
  by (simp_all add: set_delivered_def set_failed_def)

text \<open>The other deliveries are as in \<open>ds\<close>, and the one of the response is number \<open>i\<close>.\<close>

definition touched :: "final_response \<Rightarrow> string \<Rightarrow> string \<Rightarrow> delivery_record list \<Rightarrow> delivery_record list \<Rightarrow> bool" where
  "touched r key i ds ds' \<longleftrightarrow> unique_on dr_id ds'
     \<and> (\<forall>hh k. (hh, k) \<noteq> (fr_household r, key) \<longrightarrow> find (delivery_of hh k) ds' = find (delivery_of hh k) ds)
     \<and> (\<exists>d. find (delivery_of (fr_household r) key) ds' = Some d \<and> dr_id d = i)"

text \<open>
  What one call does to the deliveries \<open>ds\<close> and the messages sent \<open>ms\<close>: every other delivery and every
  settled one stays as it is, and at most the message of the response is sent, when it may pass.
\<close>

definition delivery_step :: "bool \<Rightarrow> final_response \<Rightarrow> string \<Rightarrow>
    delivery_record list \<Rightarrow> (channel_kind \<times> send_input) list \<Rightarrow>
    delivery_record list \<Rightarrow> (channel_kind \<times> send_input) list \<Rightarrow> bool" where
  "delivery_step pass r key ds ms ds' ms' \<longleftrightarrow> unique_on dr_id ds'
     \<and> (\<forall>hh k. (hh, k) \<noteq> (fr_household r, key) \<longrightarrow> find (delivery_of hh k) ds' = find (delivery_of hh k) ds)
     \<and> (\<forall>d. find (delivery_of (fr_household r) key) ds = Some d \<and> settled d \<longrightarrow>
          find (delivery_of (fr_household r) key) ds' = Some d \<and> ms' = ms)
     \<and> (ms' = ms \<or> pass \<and> ms' = ms @ [(fr_channel r, message_of_response r)])"

lemma new_delivery_simps [simp]:
  "dr_id (new_delivery i key r t) = i" "dr_household (new_delivery i key r t) = fr_household r"
  "dr_key (new_delivery i key r t) = key" "dr_status (new_delivery i key r t) = Dl_pending"
  by (simp_all add: new_delivery_def)

lemma reserved_unique:
  "reserved_rows r key ds ds' \<Longrightarrow> unique_on dr_id ds \<Longrightarrow> unique_on dr_id ds'"
  by (auto simp: reserved_rows_def unique_on_append)

lemma reserved_found:
  assumes "reserved_rows r key ds ds'"
  shows "(hh, k) \<noteq> (fr_household r, key) \<Longrightarrow> find (delivery_of hh k) ds' = find (delivery_of hh k) ds"
    and "find (delivery_of hh k) ds = Some d \<Longrightarrow> find (delivery_of hh k) ds' = Some d"
  using assms
  by (auto simp: reserved_rows_def find_append delivery_of_def split: option.split)

text \<open>A mark on one delivery changes no other.\<close>

lemma marked_found:
  assumes "unique_on dr_id ds" and "find (delivery_of hh key) ds = Some d"
    and same: "\<And>x. dr_id (f x) = dr_id x \<and> dr_household (f x) = dr_household x \<and> dr_key (f x) = dr_key x"
  shows "find (delivery_of hh' key') (marked_rows hh (dr_id d) f ds) =
    (if (hh', key') = (hh, key) then Some (f d) else find (delivery_of hh' key') ds)"
proof -
  let ?mine = "\<lambda>x. dr_household x = hh \<and> dr_id x = dr_id d"
  have d: "d \<in> set ds" "dr_household d = hh" "dr_key d = key"
    using find_SomeD [OF assms(2)] by (simp_all add: delivery_of_def)
  have only: "x = d" if "x \<in> set ds" "?mine x" for x
    using assms(1) that d(1) by (auto dest: unique_onD)
  have "find (delivery_of hh' key') (marked_rows hh (dr_id d) f ds) =
      map_option (\<lambda>x. if ?mine x then f x else x) (find (delivery_of hh' key') ds)"
    unfolding marked_rows_def by (rule find_update_where_same) (simp add: delivery_of_def same)
  moreover have "\<not> ?mine x" if "find (delivery_of hh' key') ds = Some x" "(hh', key') \<noteq> (hh, key)" for x
    using find_SomeD [OF that(1)] that(2) only [of x] d by (auto simp: delivery_of_def)
  ultimately show ?thesis
    using assms(2) d by (cases "find (delivery_of hh' key') ds") auto
qed

lemma marked_touched:
  assumes "touched r key i ds ds1"
    and "\<And>x. dr_id (f x) = dr_id x \<and> dr_household (f x) = dr_household x \<and> dr_key (f x) = dr_key x"
  shows "touched r key i ds (marked_rows (fr_household r) i f ds1)"
proof -
  obtain d where u: "unique_on dr_id ds1" and d: "find (delivery_of (fr_household r) key) ds1 = Some d" "dr_id d = i"
    and other: "\<And>hh k. (hh, k) \<noteq> (fr_household r, key) \<Longrightarrow> find (delivery_of hh k) ds1 = find (delivery_of hh k) ds"
    using assms(1) unfolding touched_def by blast
  note found = marked_found [OF u d(1), of f, unfolded d(2)]
  have "unique_on dr_id (marked_rows (fr_household r) i f ds1)"
    using u assms(2) by (simp add: marked_rows_def unique_on_update_where)
  then show ?thesis
    unfolding touched_def using found other assms(2) d(2) by auto
qed

lemma marked_answer:
  assumes "touched r key i ds ds1"
    and "\<And>x. dr_id (f x) = dr_id x \<and> dr_household (f x) = dr_household x \<and> dr_key (f x) = dr_key x"
    and "x \<in> set (marked_rows (fr_household r) i f ds1)" and "dr_household x = fr_household r" and "dr_id x = i"
    and status: "\<And>y. dr_status (f y) = st"
  shows "find (delivery_of (fr_household r) key) (marked_rows (fr_household r) i f ds1) = Some x"
    and "dr_status x = st"
proof -
  obtain d where u: "unique_on dr_id ds1" and d: "find (delivery_of (fr_household r) key) ds1 = Some d" "dr_id d = i"
    using assms(1) unfolding touched_def by blast
  have found: "find (delivery_of (fr_household r) key) (marked_rows (fr_household r) i f ds1) = Some (f d)"
    using marked_found [OF u d(1), of f "fr_household r" key, unfolded d(2)] assms(2) by simp
  have "unique_on dr_id (marked_rows (fr_household r) i f ds1)"
    using u assms(2) by (simp add: marked_rows_def unique_on_update_where)
  then have "x = f d"
    using find_SomeD [OF found] assms(2,3,5) d(2) by (auto dest: unique_onD)
  then show "find (delivery_of (fr_household r) key) (marked_rows (fr_household r) i f ds1) = Some x" "dr_status x = st"
    using found status by simp_all
qed

locale delivery_ports =
  fixes h :: "'s delivery_deps"
    and rows :: "'s \<Rightarrow> delivery_record list"
    and sends :: "'s \<Rightarrow> (channel_kind \<times> send_input) list"
    and ready :: "'s \<Rightarrow> bool"
  assumes abort_law: "ready s \<Longrightarrow>
      wp (dl_aborted h) (\<lambda>a s'. ready s' \<and> rows s' = rows s \<and> sends s' = sends s)
        (\<lambda>e s'. False) s"
    and ids_law: "ready s \<Longrightarrow>
      wp (dl_ids h) (\<lambda>i s'. ready s' \<and> rows s' = rows s \<and> sends s' = sends s)
        (\<lambda>e s'. ready s' \<and> rows s' = rows s \<and> sends s' = sends s) s"
    and send_law: "ready s \<Longrightarrow>
      wp (dl_send h ch inp) (\<lambda>m s'. ready s' \<and> rows s' = rows s \<and> sends s' = sends s @ [(ch, inp)])
        (\<lambda>e s'. ready s' \<and> rows s' = rows s \<and> sends s' = sends s @ [(ch, inp)]) s"
    and reserve_law: "ready s \<Longrightarrow>
      wp (dl_reserve h i key r)
        (\<lambda>d s'. ready s' \<and> sends s' = sends s \<and> reserved_rows r key (rows s) (rows s')
           \<and> find (delivery_of (fr_household r) key) (rows s') = Some d)
        (\<lambda>e s'. ready s' \<and> sends s' = sends s \<and> reserved_rows r key (rows s) (rows s')) s"
    and delivered_law: "ready s \<Longrightarrow>
      wp (dl_delivered h hh i m)
        (\<lambda>d s'. ready s' \<and> sends s' = sends s \<and> (\<exists>t. rows s' = marked_rows hh i (set_delivered m t) (rows s))
           \<and> d \<in> set (rows s') \<and> dr_household d = hh \<and> dr_id d = i)
        (\<lambda>e s'. ready s' \<and> sends s' = sends s
           \<and> (rows s' = rows s \<or> (\<exists>t. rows s' = marked_rows hh i (set_delivered m t) (rows s)))) s"
    and failed_law: "ready s \<Longrightarrow>
      wp (dl_failed h hh i amb c)
        (\<lambda>d s'. ready s' \<and> sends s' = sends s \<and> (\<exists>t. rows s' = marked_rows hh i (set_failed amb c t) (rows s))
           \<and> d \<in> set (rows s') \<and> dr_household d = hh \<and> dr_id d = i)
        (\<lambda>e s'. ready s' \<and> sends s' = sends s
           \<and> (rows s' = rows s \<or> (\<exists>t. rows s' = marked_rows hh i (set_failed amb c t) (rows s)))) s"
begin

abbreviation key_of :: "final_response \<Rightarrow> string" where
  "key_of r \<equiv> createDeliveryKey (dl_sha256 h) r"

abbreviation passes :: "final_response \<Rightarrow> bool" where
  "passes r \<equiv> (\<exists>p. runOutputProcessors r (processors_of h) = Inr p \<and> \<not> or_blocked p)"

lemma wp_aborted:
  assumes "ready s"
    and "\<And>a s'. ready s' \<Longrightarrow> rows s' = rows s \<Longrightarrow> sends s' = sends s \<Longrightarrow> Q a s'"
  shows "wp (dl_aborted h) Q E s"
  by (rule wp_mono [OF abort_law [OF assms(1)]]) (use assms(2) in auto)

lemma wp_throwIfAborted:
  assumes "ready s"
    and "\<And>s'. ready s' \<Longrightarrow> rows s' = rows s \<Longrightarrow> sends s' = sends s \<Longrightarrow> Q () s'"
    and "\<And>s'. ready s' \<Longrightarrow> rows s' = rows s \<Longrightarrow> sends s' = sends s \<Longrightarrow> E AbortReason s'"
  shows "wp (throwIfAborted h) Q E s"
  unfolding throwIfAborted_def wp_bindM wp_requireM
  by (rule wp_aborted [OF assms(1)]) (use assms(2,3) in auto)

lemma wp_abortable:
  assumes "ready s"
    and m: "\<And>s'. ready s' \<Longrightarrow> rows s' = rows s \<Longrightarrow> sends s' = sends s \<Longrightarrow>
      wp m (\<lambda>x s2. ready s2 \<and> P x (rows s2) (sends s2)) (\<lambda>e s2. ready s2 \<and> P' (rows s2) (sends s2)) s'"
    and weaken: "\<And>x ds ms. P x ds ms \<Longrightarrow> P' ds ms"
  shows "wp (abortable h m) (\<lambda>x s2. ready s2 \<and> P x (rows s2) (sends s2))
    (\<lambda>e s2. ready s2 \<and> P' (rows s2) (sends s2)) s"
  unfolding abortable_def wp_bindM
proof (rule wp_aborted [OF assms(1)], goal_cases)
  case (1 a s1)
  have "wp (dl_aborted h) (\<lambda>a. wp (raise (if a then AbortReason else e))
      (\<lambda>x s2. ready s2 \<and> P x (rows s2) (sends s2)) (\<lambda>e s2. ready s2 \<and> P' (rows s2) (sends s2)))
      E s2" if "ready s2" "P' (rows s2) (sends s2)" for s2 e E
    by (rule wp_aborted [OF that(1)]) (use that in \<open>simp add: wp_simps\<close>)
  moreover have "wp (dl_aborted h) (\<lambda>a. wp (if a then raise AbortReason else ret x)
      (\<lambda>x s2. ready s2 \<and> P x (rows s2) (sends s2)) (\<lambda>e s2. ready s2 \<and> P' (rows s2) (sends s2)))
      E s2" if "ready s2" "P x (rows s2) (sends s2)" for s2 x E
    by (rule wp_aborted [OF that(1)]) (use that weaken in \<open>auto simp: wp_simps\<close>)
  ultimately show ?case
    using m [OF 1] weaken
    by (auto simp: wp_thenM wp_simps intro: wp_mono)
qed

text \<open>The two marks on the delivery of the response.\<close>

lemma delivered_spec:
  assumes "ready s" and t: "touched r (key_of r) i ds (rows s)"
  shows "wp (dl_delivered h (fr_household r) i m)
    (\<lambda>x s'. ready s' \<and> sends s' = sends s \<and> touched r (key_of r) i ds (rows s')
       \<and> find (delivery_of (fr_household r) (key_of r)) (rows s') = Some x \<and> dr_status x = Dl_delivered)
    (\<lambda>e s'. ready s' \<and> sends s' = sends s \<and> touched r (key_of r) i ds (rows s')) s"
proof (rule wp_mono [OF delivered_law [OF assms(1), of "fr_household r" i m]], goal_cases)
  case (1 x s')
  then obtain t' where t': "rows s' = marked_rows (fr_household r) i (set_delivered m t') (rows s)" by blast
  show ?case
    using 1 marked_touched [OF t, of "set_delivered m t'"]
      marked_answer [OF t, of "set_delivered m t'" x Dl_delivered] by (simp add: t')
next
  case (2 e s')
  then show ?case using t marked_touched [OF t] by auto
qed

lemma failed_spec:
  assumes "ready s" and t: "touched r (key_of r) i ds (rows s)"
  shows "wp (dl_failed h (fr_household r) i a c)
    (\<lambda>x s'. ready s' \<and> sends s' = sends s \<and> touched r (key_of r) i ds (rows s')
       \<and> find (delivery_of (fr_household r) (key_of r)) (rows s') = Some x
       \<and> dr_status x = (if a then Dl_ambiguous else Dl_failed))
    (\<lambda>e s'. ready s' \<and> sends s' = sends s \<and> touched r (key_of r) i ds (rows s')) s"
proof (rule wp_mono [OF failed_law [OF assms(1), of "fr_household r" i a c]], goal_cases)
  case (1 x s')
  then obtain t' where t': "rows s' = marked_rows (fr_household r) i (set_failed a c t') (rows s)" by blast
  show ?case
    using 1 marked_touched [OF t, of "set_failed a c t'"]
      marked_answer [OF t, of "set_failed a c t'" x "if a then Dl_ambiguous else Dl_failed"]
    by (simp add: t')
next
  case (2 e s')
  then show ?case using t marked_touched [OF t] by auto
qed

text \<open>An answer is what is stored.\<close>

definition answered :: "final_response \<Rightarrow> delivery_result \<Rightarrow> delivery_record list \<Rightarrow> bool" where
  "answered r x ds \<longleftrightarrow>
     (\<exists>d. find (delivery_of (fr_household r) (key_of r)) ds = Some d
        \<and> (dr_status d = Dl_delivered \<and> (\<exists>b. x = Delivered d b)
           \<or> dr_status d = Dl_failed \<and> (\<exists>b. x = Not_delivered False d b)
           \<or> dr_status d = Dl_ambiguous \<and> (\<exists>b. x = Not_delivered True d b)))"

lemma settle_failure_spec:
  assumes "ready s" and t: "touched r (key_of r) (dr_id d) ds (rows s)"
  shows "wp (settle_failure h r d attempted e)
    (\<lambda>x s'. ready s' \<and> sends s' = sends s \<and> touched r (key_of r) (dr_id d) ds (rows s') \<and> answered r x (rows s'))
    (\<lambda>e s'. ready s' \<and> sends s' = sends s \<and> touched r (key_of r) (dr_id d) ds (rows s')) s"
  unfolding settle_failure_def wp_bindM
proof (rule wp_aborted [OF assms(1)], goal_cases)
  case (1 a s1)
  have t1: "touched r (key_of r) (dr_id d) ds (rows s1)" using t 1 by simp
  note mark = failed_spec [OF 1(1) t1]
  show ?case
  proof (cases a)
    case True
    then show ?thesis
      using 1 t1
      by (auto simp: wp_simps wp_thenM intro: wp_mono [OF mark])
  next
    case False
    then show ?thesis
      unfolding Let_def
      by (simp add: wp_simps)
        (rule wp_mono [OF mark], use 1 in \<open>auto simp: answered_def wp_simps split: if_splits\<close>)
  qed
qed

lemma send_reserved_spec:
  assumes "ready s" and t: "touched r (key_of r) (dr_id d) ds (rows s)" and ms: "sends s = ms"
  shows "wp (send_reserved h r d)
    (\<lambda>x s'. ready s' \<and> (sends s' = ms \<or> sends s' = ms @ [(fr_channel r, message_of_response r)])
       \<and> touched r (key_of r) (dr_id d) ds (rows s') \<and> answered r x (rows s'))
    (\<lambda>e s'. ready s' \<and> (sends s' = ms \<or> sends s' = ms @ [(fr_channel r, message_of_response r)])
       \<and> touched r (key_of r) (dr_id d) ds (rows s')) s"
    (is "wp _ ?Q ?E s")
  unfolding send_reserved_def wp_thenM
proof (rule wp_throwIfAborted [OF assms(1)], goal_cases)
  case (2 s1)
  then have "touched r (key_of r) (dr_id d) ds (rows s1)" using t by simp
  from settle_failure_spec [OF 2(1) this, of False AbortReason] show ?case
    by (rule wp_mono) (use 2 ms in auto)
next
  case (1 s1)
  let ?T = "\<lambda>ds'. touched r (key_of r) (dr_id d) ds ds'" and ?ms = "ms @ [(fr_channel r, message_of_response r)]"
  have t1: "?T (rows s1)" using 1 t by simp
  have settle: "wp (settle_failure h r d True e) ?Q ?E s2"
    if "ready s2" "?T (rows s2)" "sends s2 = ms \<or> sends s2 = ?ms" for s2 e
    by (rule wp_mono [OF settle_failure_spec [OF that(1,2), of True e]]) (use that in auto)
  have send: "wp (abortable h (dl_send h (fr_channel r)
        \<lparr>si_body = fr_body r, si_destination = dt_destination (fr_delivery r), si_format = dt_format (fr_delivery r)\<rparr>))
      (\<lambda>m s2. ready s2 \<and> (?T (rows s2) \<and> sends s2 = ?ms))
      (\<lambda>e s2. ready s2 \<and> (?T (rows s2) \<and> sends s2 = ?ms)) s1"
    using 1(1)
  proof (rule wp_abortable [where P = "\<lambda>_ ds' ms'. ?T ds' \<and> ms' = ?ms" and P' = "\<lambda>ds' ms'. ?T ds' \<and> ms' = ?ms"])
    fix s2
    assume "ready s2" "rows s2 = rows s1" "sends s2 = sends s1"
    then show "wp (dl_send h (fr_channel r)
        \<lparr>si_body = fr_body r, si_destination = dt_destination (fr_delivery r), si_format = dt_format (fr_delivery r)\<rparr>)
      (\<lambda>x s2. ready s2 \<and> ?T (rows s2) \<and> sends s2 = ?ms) (\<lambda>e s2. ready s2 \<and> ?T (rows s2) \<and> sends s2 = ?ms) s2"
      using 1 t1 ms
      by (intro wp_mono [OF send_law]) (auto simp: message_of_response_def)
  qed simp
  have mark: "wp (abortable h (dl_delivered h (fr_household r) (dr_id d) m))
      (\<lambda>x s3. ready s3 \<and> (?T (rows s3) \<and> sends s3 = ?ms \<and> answered r (Delivered x True) (rows s3)))
      (\<lambda>e s3. ready s3 \<and> (?T (rows s3) \<and> sends s3 = ?ms)) s2"
    if "ready s2" "?T (rows s2)" "sends s2 = ?ms" for m s2
    using that(1)
  proof (rule wp_abortable [where P = "\<lambda>x ds' ms'. ?T ds' \<and> ms' = ?ms \<and> answered r (Delivered x True) ds'"
        and P' = "\<lambda>ds' ms'. ?T ds' \<and> ms' = ?ms"])
    fix s3
    assume s3: "ready s3" "rows s3 = rows s2" "sends s3 = sends s2"
    then have "?T (rows s3)" using that by simp
    from delivered_spec [OF s3(1) this, of m]
    show "wp (dl_delivered h (fr_household r) (dr_id d) m)
      (\<lambda>x s4. ready s4 \<and> ?T (rows s4) \<and> sends s4 = ?ms \<and> answered r (Delivered x True) (rows s4))
      (\<lambda>e s4. ready s4 \<and> ?T (rows s4) \<and> sends s4 = ?ms) s3"
      by (rule wp_mono) (use s3 that in \<open>auto simp: answered_def\<close>)
  qed simp
  show ?case
    unfolding wp_catchM wp_bindM wp_ret
  proof (rule wp_mono [OF send], goal_cases)
    case (1 m s2)
    then show ?case
    proof (elim conjE, intro wp_throwIfAborted, goal_cases)
      case (2 s3)
      then show ?case by (auto intro!: wp_mono [OF mark] settle)
    next
      case (3 s3)
      then show ?case by (intro settle) auto
    qed simp
  qed (intro settle, auto)
qed

text \<open>The whole handler.\<close>

definition step :: "final_response \<Rightarrow> 's \<Rightarrow> 's \<Rightarrow> bool" where
  "step r s s' \<longleftrightarrow> ready s'
     \<and> delivery_step (passes r) r (key_of r) (rows s) (sends s) (rows s') (sends s')"

lemma step_same:
  assumes "ready s'" and "rows s' = rows s" and "sends s' = sends s" and "unique_on dr_id (rows s)"
  shows "step r s s'"
  using assms by (simp add: step_def delivery_step_def)

lemma step_reserved:
  assumes "ready s'" and "reserved_rows r (key_of r) (rows s) (rows s')" and "sends s' = sends s"
    and "unique_on dr_id (rows s)"
  shows "step r s s'"
  unfolding step_def delivery_step_def
  using assms(1,3) reserved_unique [OF assms(2,4)] reserved_found [OF assms(2)] by blast

text \<open>The outcome of a call.\<close>

definition outcome :: "final_response \<Rightarrow> 's \<Rightarrow> delivery_result \<Rightarrow> 's \<Rightarrow> bool" where
  "outcome r s x s' \<longleftrightarrow> step r s s'
     \<and> (case x of Blocked p \<Rightarrow> \<not> passes r \<and> sends s' = sends s \<and> rows s' = rows s
        | _ \<Rightarrow> passes r \<and> answered r x (rows s'))"

lemma reserve_spec:
  assumes s: "ready s"
  shows "wp (abortable h (dl_reserve h i (key_of r) r))
    (\<lambda>d s'. ready s' \<and> (sends s' = sends s \<and> reserved_rows r (key_of r) (rows s) (rows s')
       \<and> find (delivery_of (fr_household r) (key_of r)) (rows s') = Some d))
    (\<lambda>e s'. ready s' \<and> (sends s' = sends s \<and> reserved_rows r (key_of r) (rows s) (rows s'))) s"
  using s
proof (rule wp_abortable [where P = "\<lambda>d ds' ms'. ms' = sends s \<and> reserved_rows r (key_of r) (rows s) ds'
      \<and> find (delivery_of (fr_household r) (key_of r)) ds' = Some d"
      and P' = "\<lambda>ds' ms'. ms' = sends s \<and> reserved_rows r (key_of r) (rows s) ds'"])
  fix s1
  assume "ready s1" "rows s1 = rows s" "sends s1 = sends s"
  then show "wp (dl_reserve h i (key_of r) r)
    (\<lambda>d s2. ready s2 \<and> sends s2 = sends s \<and> reserved_rows r (key_of r) (rows s) (rows s2)
       \<and> find (delivery_of (fr_household r) (key_of r)) (rows s2) = Some d)
    (\<lambda>e s2. ready s2 \<and> sends s2 = sends s \<and> reserved_rows r (key_of r) (rows s) (rows s2)) s1"
    by (intro wp_mono [OF reserve_law]) auto
qed simp

lemma answer_spec:
  assumes ids: "unique_on dr_id (rows s)" and pass: "passes r"
    and s1: "ready s1" "sends s1 = sends s" "reserved_rows r (key_of r) (rows s) (rows s1)"
      "find (delivery_of (fr_household r) (key_of r)) (rows s1) = Some d"
  shows "wp (case dr_status d of
        Dl_delivered \<Rightarrow> ret (Delivered d False)
      | Dl_failed \<Rightarrow> ret (Not_delivered False d False)
      | Dl_ambiguous \<Rightarrow> ret (Not_delivered True d False)
      | _ \<Rightarrow> send_reserved h r d) (outcome r s) (\<lambda>e. step r s) s1"
proof (cases "settled d")
  case True
  then have "step r s s1" using step_reserved s1 ids by blast
  with True s1 pass show ?thesis
    by (auto simp: settled_def wp_simps answered_def outcome_def)
next
  case False
  have t: "touched r (key_of r) (dr_id d) (rows s) (rows s1)"
    unfolding touched_def
    using reserved_unique [OF s1(3) ids] reserved_found(1) [OF s1(3)] s1(4) by blast
  have fresh: "\<not> settled d'" if "find (delivery_of (fr_household r) (key_of r)) (rows s) = Some d'" for d'
    using reserved_found(2) [OF s1(3) that] s1(4) False by simp
  have stepped: "step r s s'"
    if "ready s'" "sends s' = sends s \<or> sends s' = sends s @ [(fr_channel r, message_of_response r)]"
      "touched r (key_of r) (dr_id d) (rows s) (rows s')" for s'
    using that pass fresh unfolding step_def delivery_step_def touched_def by blast
  have "wp (send_reserved h r d) (outcome r s) (\<lambda>e. step r s) s1"
    by (rule wp_mono [OF send_reserved_spec [OF s1(1) t s1(2)]])
      (use stepped pass in \<open>auto simp: answered_def outcome_def\<close>)
  then show ?thesis using False by (simp add: settled_def split: delivery_status.split)
qed

lemma reserve_and_answer_spec:
  assumes s: "ready s" and ids: "unique_on dr_id (rows s)" and pass: "passes r"
  shows "wp (bindM (dl_ids h) (\<lambda>i.
      bindM (abortable h (dl_reserve h i (key_of r) r)) (\<lambda>d.
      bindM (throwIfAborted h) (\<lambda>_.
        case dr_status d of
          Dl_delivered \<Rightarrow> ret (Delivered d False)
        | Dl_failed \<Rightarrow> ret (Not_delivered False d False)
        | Dl_ambiguous \<Rightarrow> ret (Not_delivered True d False)
        | _ \<Rightarrow> send_reserved h r d)))) (outcome r s) (\<lambda>e. step r s) s"
  unfolding wp_bindM
proof (rule wp_mono [OF ids_law [OF s]], goal_cases)
  case (1 i s1)
  then have "ready s1" "rows s1 = rows s" "sends s1 = sends s" by auto
  from reserve_spec [OF this(1), of i r] this(2,3) show ?case
    by (elim wp_mono conjE, intro wp_throwIfAborted)
      (auto intro: answer_spec [OF ids pass] step_reserved ids)
qed (use ids in \<open>simp add: step_same\<close>)

lemma deliver_spec:
  assumes s: "ready s" "unique_on dr_id (rows s)"
  shows "wp (deliver h r) (outcome r s) (\<lambda>e. step r s) s"
  unfolding deliver_def wp_bindM
proof (rule wp_throwIfAborted [OF s(1)], goal_cases)
  case (1 s1)
  have same: "outcome r s = outcome r s2" "step r s = step r s2"
    if "rows s2 = rows s" "sends s2 = sends s" for s2
    using that by (auto simp: fun_eq_iff outcome_def step_def split: delivery_result.split)
  show ?case
  proof (cases "runOutputProcessors r (processors_of h)")
    case (Inr p)
    have "wp (throwIfAborted h) (\<lambda>_. wp (bindM (dl_ids h) (\<lambda>i.
        bindM (abortable h (dl_reserve h i (key_of r) r)) (\<lambda>d.
        bindM (throwIfAborted h) (\<lambda>_.
          case dr_status d of
            Dl_delivered \<Rightarrow> ret (Delivered d False)
          | Dl_failed \<Rightarrow> ret (Not_delivered False d False)
          | Dl_ambiguous \<Rightarrow> ret (Not_delivered True d False)
          | _ \<Rightarrow> send_reserved h r d)))) (outcome r s) (\<lambda>e. step r s)) (\<lambda>e. step r s) s1"
      if pass: "passes r"
    proof (rule wp_throwIfAborted [OF 1(1)], goal_cases)
      case (1 s2)
      then have s2: "rows s2 = rows s" "sends s2 = sends s"
        using \<open>rows s1 = rows s\<close> \<open>sends s1 = sends s\<close> by simp_all
      show ?case
        unfolding same(1) [OF s2] same(2) [OF s2]
        by (rule reserve_and_answer_spec [OF 1(1) _ pass]) (simp add: s2(1) s(2))
    qed (use 1 s in \<open>simp add: step_same\<close>)
    then show ?thesis
      using 1 s Inr by (cases "or_blocked p") (simp_all add: wp_simps step_same outcome_def)
  qed (use 1 s in \<open>simp add: wp_simps step_same\<close>)
qed (use s in \<open>simp add: step_same\<close>)

end

section \<open>The PostgreSQL repository provides the ports\<close>

definition defaultDeliveryIdGenerator :: "('db, string) dbm" where
  "defaultDeliveryIdGenerator =
    bindM fresh_ulid (\<lambda>u.
    bindM (requireM (opaqueIdentifierSchema Id_delivery (''delivery_'' @ u)) ZodError) (\<lambda>_.
    ret (''delivery_'' @ u)))"

definition chat_delivery ::
  "(string \<Rightarrow> string) \<Rightarrow> output_processor list option \<Rightarrow> (chat_db world \<times> outside) delivery_deps" where
  "chat_delivery sha ps =
    \<lparr>dl_reserve = (\<lambda>i key r. on_db (reserveDelivery i key r)),
     dl_delivered = (\<lambda>hh i m. on_db (markDelivered hh i m)),
     dl_failed = (\<lambda>hh i a c. on_db (markDeliveryFailed hh i a c)),
     dl_send = transport_send, dl_ids = on_db defaultDeliveryIdGenerator, dl_processors = ps,
     dl_aborted = signal_aborted, dl_sha256 = sha\<rparr>"

lemma chat_delivery_simps [simp]:
  "dl_reserve (chat_delivery sha ps) i key r = on_db (reserveDelivery i key r)"
  "dl_delivered (chat_delivery sha ps) hh i m = on_db (markDelivered hh i m)"
  "dl_failed (chat_delivery sha ps) hh i a c = on_db (markDeliveryFailed hh i a c)"
  "dl_send (chat_delivery sha ps) = transport_send" "dl_ids (chat_delivery sha ps) = on_db defaultDeliveryIdGenerator"
  "dl_processors (chat_delivery sha ps) = ps" "dl_aborted (chat_delivery sha ps) = signal_aborted"
  "dl_sha256 (chat_delivery sha ps) = sha"
  by (simp_all add: chat_delivery_def)

lemma liftE_deliveryRecord: "deliveryRecord d = Inr x \<longleftrightarrow> DeliveryRecordSchemaV1 d \<and> x = d"
  by (auto simp: deliveryRecord_def)

lemma find_new:
  assumes "\<not> list_ex (delivery_of (fr_household r) key) ds"
  shows "find (delivery_of (fr_household r) key) (ds @ [new_delivery i key r t]) = Some (new_delivery i key r t)"
proof -
  have "find (delivery_of (fr_household r) key) ds = None"
    using assms by (simp add: find_None_iff list_ex_iff)
  then show ?thesis by (simp add: find_append delivery_of_def)
qed

lemma reserve_dwp:
  "dwp (reserveDelivery i key r)
    (\<lambda>x d'. reserved_rows r key (ch_deliveries d) (ch_deliveries d')
       \<and> find (delivery_of (fr_household r) key) (ch_deliveries d') = Some x)
    (\<lambda>e d'. reserved_rows r key (ch_deliveries d) (ch_deliveries d')) d"
  unfolding reserveDelivery_def find_delivery_by_key_def
  by (intro dwp_rules)
    (auto simp: sql_reserve_delivery_def liftE_deliveryRecord reserved_rows_def find_new split: if_splits)

lemma update_dwp:
  assumes "\<And>t d. dr_id (f t d) = dr_id d \<and> dr_household (f t d) = dr_household d"
  shows "dwp (updateDelivery hh i f)
    (\<lambda>x d'. (\<exists>t. ch_deliveries d' = marked_rows hh i (f t) (ch_deliveries d))
       \<and> x \<in> set (ch_deliveries d') \<and> dr_household x = hh \<and> dr_id x = i)
    (\<lambda>e d'. ch_deliveries d' = ch_deliveries d
       \<or> (\<exists>t. ch_deliveries d' = marked_rows hh i (f t) (ch_deliveries d))) d"
  unfolding updateDelivery_def
  by (intro dwp_rules)
    (auto simp: sql_update_delivery_def Let_def marked_rows_def liftE_deliveryRecord dest!: find_SomeD)

lemma wp_on_db_dwp:
  assumes "dwp m Q E (wdb (fst s))" and "txn (fst s) = None"
    and "\<And>x w'. txn w' = None \<Longrightarrow> Q x (wdb w') \<Longrightarrow> Q' x (w', snd s)"
    and "\<And>e w'. txn w' = None \<Longrightarrow> E e (wdb w') \<Longrightarrow> E' (Ex e) (w', snd s)"
  shows "wp (on_db m) Q' E' s"
  unfolding wp_on_db by (rule wp_mono [OF dwpD [OF assms(1,2)]]) (use assms(3,4) in auto)

interpretation pg: delivery_ports "chat_delivery sha ps" "\<lambda>s. ch_deliveries (wdb (fst s))"
  "\<lambda>s. sent (snd s)" "\<lambda>s. txn (fst s) = None" for sha ps
proof (unfold_locales, goal_cases)
  case (1 s)
  then show ?case by (cases s) (simp add: wp_signal_aborted)
next
  case (2 s)
  have "dwp defaultDeliveryIdGenerator (\<lambda>x d'. d' = wdb (fst s)) (\<lambda>e d'. d' = wdb (fst s)) (wdb (fst s))"
    unfolding defaultDeliveryIdGenerator_def by (intro dwp_rules) auto
  then show ?case unfolding chat_delivery_simps by (rule wp_on_db_dwp) (use 2 in simp_all)
next
  case (3 s ch inp)
  then show ?case by (cases s) (simp add: wp_transport_send split: sum.split)
next
  case (4 s i key r)
  show ?case unfolding chat_delivery_simps by (rule wp_on_db_dwp [OF reserve_dwp 4]) simp_all
next
  case (5 s hh i m)
  show ?case
    unfolding chat_delivery_simps markDelivered_def
    by (rule wp_on_db_dwp [OF update_dwp 5]) simp_all
next
  case (6 s hh i a c)
  show ?case
    unfolding chat_delivery_simps markDeliveryFailed_def
    by (rule wp_on_db_dwp [OF update_dwp 6]) simp_all
qed

end
