(* ===== verification/Deliveries.thy ===== *)
theory Deliveries
  imports FinalDelivery "HOL-Library.Sublist" "HOL-Library.Code_Target_Nat"
begin

text \<open>
  What deliveries guarantee on the PostgreSQL repository, for every fault schedule of the database,
  every answer of the transport and every moment at which the caller aborts.
\<close>

type_synonym chat_state = "chat_db world \<times> outside"

abbreviation stored_deliveries :: "chat_state \<Rightarrow> delivery_record list" where
  "stored_deliveries s \<equiv> ch_deliveries (wdb (fst s))"

definition delivery_ready :: "chat_state \<Rightarrow> bool" where
  "delivery_ready s \<longleftrightarrow> txn (fst s) = None \<and> unique_on dr_id (stored_deliveries s)"

text \<open>One delivery after the other, whatever each of them answers or throws.\<close>

fun deliver_all :: "'s delivery_deps \<Rightarrow> final_response list \<Rightarrow> 's \<Rightarrow> 's" where
  "deliver_all h [] s = s"
| "deliver_all h (r # rs) s = deliver_all h rs (snd (deliver h r s))"

text \<open>The stored part of an answer.\<close>

fun settled_as :: "delivery_result \<Rightarrow> (bool option \<times> delivery_record) option" where
  "settled_as (Blocked p) = None"
| "settled_as (Delivered d b) = Some (None, d)"
| "settled_as (Not_delivered a d b) = Some (Some a, d)"

lemma outcome_step: "pg.outcome sha ps r s x s' \<Longrightarrow> pg.step sha ps r s s'"
  by (simp add: pg.outcome_def)

lemma deliver_step:
  assumes "delivery_ready s"
  shows "pg.step sha ps r s (snd (deliver (chat_delivery sha ps) r s))"
proof -
  have "wp (deliver (chat_delivery sha ps) r) (pg.outcome sha ps r s) (\<lambda>e. pg.step sha ps r s) s"
    using assms by (intro pg.deliver_spec) (simp_all add: delivery_ready_def)
  then show ?thesis
    by (cases "deliver (chat_delivery sha ps) r s") (auto simp: wp_def outcome_step split: sum.splits)
qed

lemma deliver_ready:
  assumes "delivery_ready s"
  shows "delivery_ready (snd (deliver (chat_delivery sha ps) r s))"
  using deliver_step [OF assms, of sha ps r] by (simp add: pg.step_def delivery_step_def delivery_ready_def)

text \<open>A settled delivery is never changed, whichever response is delivered.\<close>

lemma deliver_keeps_settled:
  assumes "delivery_ready s" and "find (delivery_of hh k) (stored_deliveries s) = Some d" and "settled d"
  shows "find (delivery_of hh k) (stored_deliveries (snd (deliver (chat_delivery sha ps) r s))) = Some d"
  using deliver_step [OF assms(1), of sha ps r] assms(2,3)
  by (cases "(hh, k) = (fr_household r, createDeliveryKey sha r)") (auto simp: pg.step_def delivery_step_def)

lemma deliver_all_keeps_settled:
  assumes "delivery_ready s" and "find (delivery_of hh k) (stored_deliveries s) = Some d" and "settled d"
  shows "delivery_ready (deliver_all (chat_delivery sha ps) rs s)
     \<and> find (delivery_of hh k) (stored_deliveries (deliver_all (chat_delivery sha ps) rs s)) = Some d"
  using assms
  by (induction rs arbitrary: s) (simp_all add: deliver_ready deliver_keeps_settled)

lemma answered_settled:
  assumes "pg.answered sha ps r x ds" and "\<And>p. x \<noteq> Blocked p"
  shows "\<exists>d. find (delivery_of (fr_household r) (createDeliveryKey sha r)) ds = Some d \<and> settled d
     \<and> settled_as x = Some (if dr_status d = Dl_delivered then None else Some (dr_status d = Dl_ambiguous), d)"
  using assms by (auto simp: pg.answered_def settled_def)

text \<open>
  C33. A delivery is settled once and for all. When a delivery has been answered, as delivered, failed
  or ambiguous, then whatever is delivered afterwards, with whatever faults: delivering the same
  response again sends no message, and if it answers, it answers the same outcome.
\<close>

theorem settled_deliveries_are_final:
  assumes ready: "delivery_ready s"
    and first: "deliver (chat_delivery sha ps) r s = (Inr x, s1)" "settled_as x \<noteq> None"
    and later: "s2 = deliver_all (chat_delivery sha ps) rs s1"
    and again: "deliver (chat_delivery sha ps) r s2 = (y, s3)"
  shows "sent (snd s3) = sent (snd s2)
     \<and> (case y of Inr z \<Rightarrow> settled_as z = settled_as x | Inl e \<Rightarrow> True)"
proof -
  let ?k = "createDeliveryKey sha r"
  have spec: "wp (deliver (chat_delivery sha ps) r) (pg.outcome sha ps r s) (\<lambda>e. pg.step sha ps r s) s"
    if "delivery_ready s" for s
    using that by (intro pg.deliver_spec) (simp_all add: delivery_ready_def)
  have not_blocked: "x \<noteq> Blocked p" for p using first(2) by auto
  have "pg.outcome sha ps r s x s1" by (rule wp_returned [OF first(1) spec [OF ready]])
  then have pass: "pg.passes sha ps r" and answered: "pg.answered sha ps r x (stored_deliveries s1)"
    using not_blocked by (auto simp: pg.outcome_def split: delivery_result.splits)
  obtain d where d: "find (delivery_of (fr_household r) ?k) (stored_deliveries s1) = Some d" "settled d"
    and x: "settled_as x = Some (if dr_status d = Dl_delivered then None else Some (dr_status d = Dl_ambiguous), d)"
    using answered_settled [OF answered not_blocked] by blast
  have "delivery_ready s1" using deliver_ready [OF ready, of sha ps r] first(1) by simp
  from deliver_all_keeps_settled [OF this d, of sha ps rs]
  have s2: "delivery_ready s2" "find (delivery_of (fr_household r) ?k) (stored_deliveries s2) = Some d"
    by (simp_all add: later)
  have step: "pg.step sha ps r s2 s3" using deliver_step [OF s2(1), of sha ps r] again by simp
  then have s3: "find (delivery_of (fr_household r) ?k) (stored_deliveries s3) = Some d"
    "sent (snd s3) = sent (snd s2)"
    using s2(2) d(2) by (auto simp: pg.step_def delivery_step_def)
  have "settled_as z = settled_as x" if "y = Inr z" for z
  proof -
    have "pg.outcome sha ps r s2 z s3" using wp_returned [OF _ spec [OF s2(1)]] again that by blast
    then have "pg.answered sha ps r z (stored_deliveries s3)" "\<And>p. z \<noteq> Blocked p"
      using pass by (auto simp: pg.outcome_def split: delivery_result.splits)
    from answered_settled [OF this] s3(1) show ?thesis by (simp add: x)
  qed
  then show ?thesis using s3(2) by (auto split: sum.split)
qed

definition message_for :: "final_response \<Rightarrow> channel_kind \<times> send_input" where
  "message_for r = (fr_channel r, message_of_response r)"

lemma default_passes: "pg.passes sha None r \<longleftrightarrow> deliverable r"
  using default_processors_verdict [of r] by (auto simp: processors_of_def)

lemma one_message:
  assumes "delivery_ready s"
  shows "\<exists>ms. sent (snd (snd (deliver (chat_delivery sha None) r s))) = sent (snd s) @ ms
     \<and> (ms = [] \<or> deliverable r \<and> ms = [message_for r])"
proof -
  have "sent (snd (snd (deliver (chat_delivery sha None) r s))) = sent (snd s)
      \<or> deliverable r \<and> sent (snd (snd (deliver (chat_delivery sha None) r s))) = sent (snd s) @ [message_for r]"
    using deliver_step [OF assms, of sha None r]
    unfolding pg.step_def delivery_step_def default_passes message_for_def by (elim conjE)
  then show ?thesis by auto
qed

text \<open>
  C32. Only what the policy allows is sent. Deliver any responses one after the other with the
  default processors: the messages sent are those of some of the responses, in their order and each
  once for its call, and every one of them is well formed, keeps the policy boundary (unsupported
  tax or insurance content only as such and without recommendations; otherwise with the mandatory
  disclaimer and no stale freshness) and fits its channel.
\<close>

theorem only_deliverable_messages_are_sent:
  assumes "delivery_ready s"
  shows "\<exists>ms. sent (snd (deliver_all (chat_delivery sha None) rs s)) = sent (snd s) @ ms
     \<and> subseq ms (map message_for (filter deliverable rs))"
  using assms
proof (induction rs arbitrary: s)
  case (Cons r rs)
  let ?s = "snd (deliver (chat_delivery sha None) r s)"
  obtain ms where one: "sent (snd ?s) = sent (snd s) @ ms" "ms = [] \<or> deliverable r \<and> ms = [message_for r]"
    using one_message [OF Cons.prems] by blast
  obtain ms' where rest: "sent (snd (deliver_all (chat_delivery sha None) rs ?s)) = sent (snd ?s) @ ms'"
    "subseq ms' (map message_for (filter deliverable rs))"
    using Cons.IH [OF deliver_ready [OF Cons.prems]] by blast
  have "subseq (ms @ ms') (map message_for (filter deliverable (r # rs)))"
    using one(2) rest(2) by auto
  then show ?case using one(1) rest(1) by auto
qed simp

section \<open>Concrete runs\<close>

definition chat_hh :: string where "chat_hh = ''hh_01ARZ3NDEKTSV4RRFFQ69G5FAV''"
definition chat_conversation :: string where "chat_conversation = ''conversation_01ARZ3NDEKTSV4RRFFQ69G5FAV''"

definition chat_response :: final_response where
  "chat_response =
    \<lparr>fr_id = ''answer'', fr_household = chat_hh, fr_conversation = chat_conversation, fr_task = None,
     fr_body = ''Paid.'', fr_boundary = Operational,
     fr_citations = [\<lparr>ct_label = ''ledger'', ct_artifact = None, ct_source = None\<rparr>], fr_assumptions = [],
     fr_freshness = [''today''], fr_disclaimer = ''I am not a licensed financial professional.'',
     fr_unsupported = [], fr_actions = [],
     fr_delivery = \<lparr>dt_channel = Ch_telegram, dt_destination = [(''chatId'', JStr ''42'')], dt_format = Plain_text\<rparr>,
     fr_hash = replicate 64 (CHR ''a''), fr_created = 0\<rparr>"

definition chat_start :: chat_db where
  "chat_start =
    \<lparr>ch_households = [chat_hh],
     ch_conversations = [\<lparr>vw_id = chat_conversation, vw_household = chat_hh, vw_channel = Ch_telegram,
        vw_kind = Ck_direct, vw_external = ''42'', vw_thread = [], vw_destination = [], vw_created = 0,
        vw_updated = 0\<rparr>],
     ch_lanes = [], ch_messages = [], ch_deliveries = [], ch_jobs = [], ch_runs = []\<rparr>"

definition chat_run :: "fault list \<Rightarrow> chat_state" where
  "chat_run fs =
    (\<lparr>wdb = chat_start, txn = None, faults = fs, wclock = 0, ticks = [],
      ulids = (\<lambda>n. ''01ARZ3NDEKTSV4RRFFQ69G5FAV'')\<rparr>,
     \<lparr>outcomes = (\<lambda>n. Inr ''m1''), sent = [], abort_in = None\<rparr>)"

definition chat_sha :: "string \<Rightarrow> string" where
  "chat_sha s = replicate 64 (CHR ''b'')"

definition chat_stored :: "delivery_status \<Rightarrow> string option \<Rightarrow> string option \<Rightarrow> nat \<Rightarrow> delivery_record" where
  "chat_stored st m f n =
    (new_delivery ''delivery_01ARZ3NDEKTSV4RRFFQ69G5FAV'' (chat_sha []) chat_response 0)
      \<lparr>dr_status := st, dr_message := m, dr_failure := f, dr_attempts := n\<rparr>"

lemma chat_run_ready: "delivery_ready (chat_run fs)"
  by (simp add: delivery_ready_def chat_run_def chat_start_def unique_on_def)

lemma chat_delivered:
  "fst (deliver (chat_delivery chat_sha None) chat_response (chat_run [])) =
     Inr (Delivered (chat_stored Dl_delivered (Some ''m1'') None 1) True)"
  by code_simp

theorem settled_deliveries_are_final_witness:
  "sent (snd (snd (deliver (chat_delivery chat_sha None) chat_response
       (deliver_all (chat_delivery chat_sha None) [chat_response]
         (snd (deliver (chat_delivery chat_sha None) chat_response (chat_run [])))))))
   = sent (snd (deliver_all (chat_delivery chat_sha None) [chat_response]
         (snd (deliver (chat_delivery chat_sha None) chat_response (chat_run [])))))"
proof -
  obtain s1 where s1: "deliver (chat_delivery chat_sha None) chat_response (chat_run []) =
      (Inr (Delivered (chat_stored Dl_delivered (Some ''m1'') None 1) True), s1)"
    using chat_delivered by (cases "deliver (chat_delivery chat_sha None) chat_response (chat_run [])") auto
  show ?thesis
    using settled_deliveries_are_final [OF chat_run_ready s1 _ refl prod.collapse [symmetric], of "[chat_response]"]
    by (simp add: s1)
qed

theorem only_deliverable_messages_are_sent_witness:
  "\<exists>ms. sent (snd (deliver_all (chat_delivery chat_sha None) [chat_response] (chat_run []))) =
     sent (snd (chat_run [])) @ ms \<and> subseq ms (map message_for (filter deliverable [chat_response]))"
  by (rule only_deliverable_messages_are_sent [OF chat_run_ready])


end
