(* ===== verification/SchedulerRepository.thy ===== *)
theory SchedulerRepository
  imports DeliveryRepository JsonText
begin

text \<open>
  Scheduled work in PostgreSQL: class \<open>PostgresSchedulerRepository\<close> of
  repositories/operations/delivery-scheduler.ts, on the tables \<open>scheduled_jobs\<close> and \<open>scheduled_runs\<close>.
  A run is claimed by inserting it; its key is made of the job, its version and the scheduled time,
  and the unique constraint on keys is what keeps an occurrence from being claimed twice.
\<close>

section \<open>Claims\<close>

record scheduler_claim =
  cl_run :: scheduled_run
  cl_target :: run_target
  cl_timeout :: nat
  cl_retries :: nat
  cl_context_schema :: schema_identity
  cl_context :: json
  cl_behavior :: json
  cl_overlap :: overlap_policy
  cl_missed :: missed_run_policy

definition scheduledRun :: "scheduled_run \<Rightarrow> exn + scheduled_run" where
  "scheduledRun r = (if ScheduledRunSchemaV1 r then Inr r else Inl ZodError)"

definition open_run :: "scheduled_run \<Rightarrow> bool" where
  "open_run r \<longleftrightarrow> sr_status r = Oc_claimed \<or> sr_status r = Oc_running"

definition due_job :: "nat \<Rightarrow> scheduled_run list \<Rightarrow> job_row \<Rightarrow> bool" where
  "due_job now rs j \<longleftrightarrow> jb_enabled j \<and> jb_next j \<le> now
     \<and> (jb_overlap j = Overlap_allow
        \<or> \<not> list_ex (\<lambda>r. sr_household r = jb_household j \<and> sr_job r = jb_id j \<and> open_run r) rs)"

text \<open>The rows stand in the order of their number, and the sort is stable.\<close>

definition sql_due_jobs :: "nat \<Rightarrow> nat \<Rightarrow> (chat_db, job_row list) statement" where
  "sql_due_jobs now limit t db =
    Inr (take limit (sort_key jb_next (filter (due_job now (ch_runs db)) (ch_jobs db))), db)"

definition run_key :: "job_row \<Rightarrow> string" where
  "run_key j = jb_id j @ '':'' @ int_string (jb_version j) @ '':'' @ toISOString (jb_next j)"

definition run_of :: "string \<Rightarrow> string \<Rightarrow> scheduled_run \<Rightarrow> bool" where
  "run_of hh key r \<longleftrightarrow> sr_household r = hh \<and> sr_key r = key"

definition new_run :: "string \<Rightarrow> job_row \<Rightarrow> nat \<Rightarrow> scheduled_run" where
  "new_run occurrence j now =
    \<lparr>sr_occurrence = occurrence, sr_job = jb_id j, sr_version = jb_version j, sr_household = jb_household j,
     sr_key = run_key j, sr_for = jb_next j, sr_status = Oc_claimed, sr_attempts = 1, sr_task = None,
     sr_delivery = None, sr_failure = None, sr_created = now, sr_updated = now\<rparr>"

definition sql_claim_run :: "string \<Rightarrow> job_row \<Rightarrow> (chat_db, scheduled_run option) statement" where
  "sql_claim_run occurrence j now db =
    (if jb_household j \<notin> set (ch_households db) then Inr (None, db)
     else if \<not> opaqueIdentifierSchema Id_occurrence occurrence
     then Inl (check_violation ''scheduled_runs_public_id_format'')
     else if list_ex (run_of (jb_household j) (run_key j)) (ch_runs db) then Inr (None, db)
     else guarded [(occurrence \<notin> sr_occurrence ` set (ch_runs db), unique_violation ''scheduled_runs_public_unique'')]
       (Some (new_run occurrence j now), db\<lparr>ch_runs := ch_runs db @ [new_run occurrence j now]\<rparr>))"

definition claim_of :: "job_row \<Rightarrow> scheduled_run \<Rightarrow> scheduler_claim" where
  "claim_of j r =
    \<lparr>cl_run = r, cl_target = jb_target j, cl_timeout = jb_timeout j, cl_retries = jb_retries j,
     cl_context_schema = jb_context_schema j, cl_context = jb_context j, cl_behavior = jb_behavior j,
     cl_overlap = jb_overlap j, cl_missed = jb_missed j\<rparr>"

text \<open>The loop over the due jobs; occurrence identifiers come from the world's stream of names.\<close>

fun claim_jobs :: "job_row list \<Rightarrow> (chat_db, scheduler_claim list) dbm" where
  "claim_jobs [] = ret []"
| "claim_jobs (j # js) =
    bindM fresh_ulid (\<lambda>occurrence.
    bindM (client_query (sql_claim_run occurrence j)) (\<lambda>inserted.
      case inserted of
        None \<Rightarrow> claim_jobs js
      | Some row \<Rightarrow>
          bindM (liftE (scheduledRun row)) (\<lambda>r.
          bindM (claim_jobs js) (\<lambda>cs. ret (claim_of j r # cs)))))"

definition claimDueRuns :: "nat \<Rightarrow> nat \<Rightarrow> (chat_db, scheduler_claim list) dbm" where
  "claimDueRuns now limit =
    transactionally (bindM (client_query (sql_due_jobs now limit)) claim_jobs)"

section \<open>Completion\<close>

datatype occurrence_outcome = Ro_succeeded | Ro_failed | Ro_timed_out | Ro_cancelled | Ro_skipped

fun outcome_status :: "occurrence_outcome \<Rightarrow> occurrence_status" where
  "outcome_status Ro_succeeded = Oc_succeeded"
| "outcome_status Ro_failed = Oc_failed"
| "outcome_status Ro_timed_out = Oc_timed_out"
| "outcome_status Ro_cancelled = Oc_cancelled"
| "outcome_status Ro_skipped = Oc_skipped"

record run_completion =
  co_household :: string
  co_occurrence :: string
  co_outcome :: occurrence_outcome
  co_task :: "string option"
  co_delivery :: "string option"
  co_failure :: "string option"

definition coalesce :: "'a option \<Rightarrow> 'a option \<Rightarrow> 'a option" where
  "coalesce a b = (case a of None \<Rightarrow> b | Some x \<Rightarrow> Some x)"

definition completed_run :: "run_completion \<Rightarrow> nat \<Rightarrow> scheduled_run \<Rightarrow> scheduled_run" where
  "completed_run c now r =
    r\<lparr>sr_status := outcome_status (co_outcome c), sr_task := coalesce (co_task c) (sr_task r),
      sr_delivery := coalesce (co_delivery c) (sr_delivery r), sr_failure := co_failure c, sr_updated := now\<rparr>"

definition completable :: "run_completion \<Rightarrow> scheduled_run \<Rightarrow> bool" where
  "completable c r \<longleftrightarrow> sr_household r = co_household c \<and> sr_occurrence r = co_occurrence c \<and> open_run r"

definition sql_complete_run :: "run_completion \<Rightarrow> (chat_db, scheduled_run option) statement" where
  "sql_complete_run c now db =
    (case find (completable c) (ch_runs db) of
       None \<Rightarrow> Inr (None, db)
     | Some r \<Rightarrow>
         guarded
           [(optional (opaqueIdentifierSchema Id_task) (co_task c), check_violation ''scheduled_runs_task_id_format''),
            (optional (opaqueIdentifierSchema Id_delivery) (co_delivery c),
               check_violation ''scheduled_runs_delivery_id_format'')]
           (Some (completed_run c now r), db\<lparr>ch_runs := update_where (completable c) (completed_run c now) (ch_runs db)\<rparr>))"

definition completeRun :: "run_completion \<Rightarrow> (chat_db, scheduled_run) dbm" where
  "completeRun c =
    bindM (requireM (opaqueIdentifierSchema Id_household (co_household c)) ZodError) (\<lambda>_.
    bindM (pool_query (sql_complete_run c)) (\<lambda>row.
      case row of
        None \<Rightarrow> raise (plusOne Constraint_violation ''scheduled_run_not_completable'' After_state_resolution False)
      | Some r \<Rightarrow> liftE (scheduledRun r)))"

section \<open>What the statements keep\<close>

text \<open>
  Keys and occurrences are unique; a job that skips overlaps has at most one open run.
\<close>

definition runs_ok :: "chat_db \<Rightarrow> bool" where
  "runs_ok db \<longleftrightarrow>
     unique_on (\<lambda>r. (sr_household r, sr_key r)) (ch_runs db) \<and> unique_on sr_occurrence (ch_runs db)
     \<and> unique_on (\<lambda>j. (jb_household j, jb_id j)) (ch_jobs db)
     \<and> (\<forall>j \<in> set (ch_jobs db). jb_overlap j = Overlap_skip \<longrightarrow>
          length (filter (\<lambda>r. sr_household r = jb_household j \<and> sr_job r = jb_id j \<and> open_run r) (ch_runs db)) \<le> 1)"

text \<open>Runs are only added, and a run that is not open never changes.\<close>

definition run_moved :: "scheduled_run \<Rightarrow> scheduled_run \<Rightarrow> bool" where
  "run_moved r r' \<longleftrightarrow> r' = r
     \<or> open_run r \<and> \<not> open_run r' \<and> sr_household r' = sr_household r \<and> sr_key r' = sr_key r
       \<and> sr_occurrence r' = sr_occurrence r \<and> sr_job r' = sr_job r"

definition runs_step :: "chat_db \<Rightarrow> chat_db \<Rightarrow> bool" where
  "runs_step db db' \<longleftrightarrow> ch_jobs db' = ch_jobs db
     \<and> (\<exists>old new. ch_runs db' = old @ new \<and> list_all2 run_moved (ch_runs db) old)"

text \<open>The same without new runs.\<close>

definition runs_moved :: "chat_db \<Rightarrow> chat_db \<Rightarrow> bool" where
  "runs_moved db db' \<longleftrightarrow> ch_jobs db' = ch_jobs db \<and> list_all2 run_moved (ch_runs db) (ch_runs db')"

lemma runs_moved_step: "runs_moved db db' \<Longrightarrow> runs_step db db'"
  unfolding runs_moved_def runs_step_def by (metis append_Nil2)

lemma list_all2_member: "list_all2 P xs ys \<Longrightarrow> x \<in> set xs \<Longrightarrow> \<exists>y \<in> set ys. P x y"
  by (induction rule: list_all2_induct) auto

lemma run_moved_refl: "list_all2 run_moved rs rs"
  by (simp add: list_all2_refl run_moved_def)

lemma run_moved_trans: "run_moved a b \<Longrightarrow> run_moved b c \<Longrightarrow> run_moved a c"
  by (auto simp: run_moved_def)

interpretation runs_moved: db_relation runs_moved
  by unfold_locales
    (auto simp: runs_moved_def run_moved_refl intro: list_all2_trans [of run_moved run_moved run_moved] run_moved_trans)

interpretation runs_step: db_relation runs_step
proof (unfold_locales, goal_cases)
  case (1 d)
  have "ch_runs d = ch_runs d @ []" by simp
  then show ?case unfolding runs_step_def using run_moved_refl by blast
next
  case (2 d d' d'')
  obtain old new where one: "ch_runs d' = old @ new" "list_all2 run_moved (ch_runs d) old"
    using 2(1) unfolding runs_step_def by blast
  obtain old' new' where two: "ch_runs d'' = old' @ new'" "list_all2 run_moved (old @ new) old'"
    using 2(2) one(1) unfolding runs_step_def by auto
  obtain o1 o2 where o: "old' = o1 @ o2" "list_all2 run_moved old o1"
    using two(2) by (auto simp: list_all2_append1)
  have "list_all2 run_moved (ch_runs d) o1"
    using list_all2_trans [OF _ one(2) o(2)] run_moved_trans by blast
  moreover have "ch_runs d'' = o1 @ (o2 @ new')" using two(1) o(1) by simp
  ultimately show ?case using 2 unfolding runs_step_def by metis
qed

definition keyed :: "scheduled_run \<Rightarrow> bool" where
  "keyed r \<longleftrightarrow> sr_key r = sr_job r @ '':'' @ int_string (sr_version r) @ '':'' @ toISOString (sr_for r)"

lemma new_run_simps [simp]:
  "sr_household (new_run i j t) = jb_household j" "sr_key (new_run i j t) = run_key j"
  "sr_occurrence (new_run i j t) = i" "sr_job (new_run i j t) = jb_id j" "open_run (new_run i j t)"
  "keyed (new_run i j t)"
  by (simp_all add: new_run_def open_run_def keyed_def run_key_def)

lemma claim_of_run [simp]: "cl_run (claim_of j r) = r"
  by (simp add: claim_of_def)

lemma scheduledRun_Inr [simp]: "scheduledRun r = Inr x \<longleftrightarrow> ScheduledRunSchemaV1 r \<and> x = r"
  by (auto simp: scheduledRun_def)

abbreviation open_for_job :: "job_row \<Rightarrow> scheduled_run \<Rightarrow> bool" where
  "open_for_job j r \<equiv> sr_household r = jb_household j \<and> sr_job r = jb_id j \<and> open_run r"

text \<open>What the loop needs of the jobs that are still to be claimed.\<close>

definition claimable :: "job_row list \<Rightarrow> chat_db \<Rightarrow> bool" where
  "claimable js d \<longleftrightarrow> runs_ok d \<and> set js \<subseteq> set (ch_jobs d) \<and> distinct (map (\<lambda>j. (jb_household j, jb_id j)) js)
     \<and> (\<forall>j \<in> set js. jb_overlap j = Overlap_skip \<longrightarrow> filter (open_for_job j) (ch_runs d) = [])"

lemma claimable_insert:
  assumes c: "claimable (j # js) d"
    and ins: "sql_claim_run i j t d = Inr (Some r, d')"
  shows "claimable js d'" and "ch_runs d' = ch_runs d @ [r]" and "r = new_run i j t" and "runs_step d d'"
proof -
  have d': "d' = d\<lparr>ch_runs := ch_runs d @ [new_run i j t]\<rparr>" and r: "r = new_run i j t"
    and fresh: "\<not> list_ex (run_of (jb_household j) (run_key j)) (ch_runs d)" "i \<notin> sr_occurrence ` set (ch_runs d)"
    using ins by (auto simp: sql_claim_run_def split: if_splits)
  show "ch_runs d' = ch_runs d @ [r]" "r = new_run i j t" by (simp_all add: d' r)
  show "runs_step d d'"
    unfolding runs_step_def d' using run_moved_refl by auto
  have j: "j \<in> set (ch_jobs d)" and ok: "runs_ok d" and js: "set js \<subseteq> set (ch_jobs d)"
    and dist: "distinct (map (\<lambda>j. (jb_household j, jb_id j)) (j # js))"
    and free: "\<And>k. k \<in> set (j # js) \<Longrightarrow> jb_overlap k = Overlap_skip \<Longrightarrow> filter (open_for_job k) (ch_runs d) = []"
    using c by (auto simp: claimable_def)
  have same: "k = j" if "k \<in> set (ch_jobs d)" "jb_household k = jb_household j" "jb_id k = jb_id j" for k
    using ok j that by (auto simp: runs_ok_def dest: unique_onD)
  have keys: "unique_on (\<lambda>r. (sr_household r, sr_key r)) (ch_runs d')" "unique_on sr_occurrence (ch_runs d')"
    using ok fresh by (auto simp: d' runs_ok_def unique_on_append run_of_def list_ex_iff)
  have "length (filter (open_for_job k) (ch_runs d')) \<le> 1"
    if k: "k \<in> set (ch_jobs d)" "jb_overlap k = Overlap_skip" for k
  proof (cases "jb_household k = jb_household j \<and> jb_id k = jb_id j")
    case True
    then have "k = j" using same k(1) by blast
    then show ?thesis using free [of j] k(2) by (simp add: d')
  next
    case False
    then have "filter (open_for_job k) (ch_runs d') = filter (open_for_job k) (ch_runs d)"
      by (auto simp: d')
    then have "length (filter (open_for_job k) (ch_runs d')) = length (filter (open_for_job k) (ch_runs d))" by simp
    also have "\<dots> \<le> 1" using ok k by (simp add: runs_ok_def)
    finally show ?thesis .
  qed
  then have "runs_ok d'" using ok keys by (simp add: runs_ok_def d')
  moreover have "filter (open_for_job k) (ch_runs d') = []" if "k \<in> set js" "jb_overlap k = Overlap_skip" for k
  proof -
    have "(jb_household k, jb_id k) \<in> (\<lambda>j. (jb_household j, jb_id j)) ` set js" using that(1) by (rule imageI)
    then have "(jb_household k, jb_id k) \<noteq> (jb_household j, jb_id j)" using dist by auto
    then show ?thesis using free [of k] that by (auto simp: d')
  qed
  ultimately show "claimable js d'" using js dist by (simp add: claimable_def d')
qed

lemma claim_jobs_twp:
  "claimable js d \<Longrightarrow>
   twp (claim_jobs js) (\<lambda>cs d'. runs_ok d' \<and> runs_step d d' \<and> ch_runs d' = ch_runs d @ map cl_run cs
      \<and> list_all keyed (map cl_run cs)) d"
proof (induction js arbitrary: d)
  case Nil
  then show ?case by (auto simp: claimable_def intro: twp_ret runs_step.db_refl)
next
  case (Cons j js)
  have less: "claimable js d" using Cons.prems by (simp add: claimable_def)
  have ulid: "twp fresh_ulid (\<lambda>i d'. d' = d) d"
    by (simp add: twp_def wp_def fresh_ulid_def)
  have "twp (bindM (client_query (sql_claim_run i j)) (\<lambda>inserted.
      case inserted of
        None \<Rightarrow> claim_jobs js
      | Some row \<Rightarrow> bindM (liftE (scheduledRun row)) (\<lambda>r. bindM (claim_jobs js) (\<lambda>cs. ret (claim_of j r # cs)))))
      (\<lambda>cs d'. runs_ok d' \<and> runs_step d d' \<and> ch_runs d' = ch_runs d @ map cl_run cs
      \<and> list_all keyed (map cl_run cs)) d" for i
  proof (intro twp_bindM twp_client_query twp_option twp_liftE)
    fix t x d1
    assume "sql_claim_run i j t d = Inr (x, d1)" and "x = None"
    then have "d1 = d" by (auto simp: sql_claim_run_def split: if_splits)
    then show "twp (claim_jobs js) (\<lambda>cs d'. runs_ok d' \<and> runs_step d d' \<and> ch_runs d' = ch_runs d @ map cl_run cs
      \<and> list_all keyed (map cl_run cs)) d1" using Cons.IH [OF less] by simp
  next
    fix t x d1 row r
    assume ins: "sql_claim_run i j t d = Inr (x, d1)" and "x = Some row" and "scheduledRun row = Inr r"
    then have ins: "sql_claim_run i j t d = Inr (Some r, d1)" by simp
    note step = claimable_insert [OF Cons.prems ins]
    show "twp (claim_jobs js) (\<lambda>cs d'. twp (ret (claim_of j r # cs))
        (\<lambda>cs d'. runs_ok d' \<and> runs_step d d' \<and> ch_runs d' = ch_runs d @ map cl_run cs
      \<and> list_all keyed (map cl_run cs)) d') d1"
      by (rule twp_mono [OF Cons.IH [OF step(1)]])
        (use step runs_step.db_trans [OF step(4)] in \<open>auto intro!: twp_ret\<close>)
  qed
  then show ?case unfolding claim_jobs.simps by (intro twp_bindM [of fresh_ulid] twp_mono [OF ulid]) blast
qed

lemma claim_dwp:
  assumes "runs_ok d"
  shows "dwp (claimDueRuns now limit)
    (\<lambda>cs d'. runs_ok d' \<and> runs_step d d' \<and> ch_runs d' = ch_runs d @ map cl_run cs \<and> list_all keyed (map cl_run cs))
    (\<lambda>e d'. runs_ok d' \<and> runs_step d d') d"
proof -
  have claimable: "claimable (take limit (sort_key jb_next (filter (due_job now (ch_runs d)) (ch_jobs d)))) d"
    (is "claimable ?js d")
  proof -
    have sub: "set ?js \<subseteq> set (filter (due_job now (ch_runs d)) (ch_jobs d))"
      using set_take_subset [of limit "sort_key jb_next (filter (due_job now (ch_runs d)) (ch_jobs d))"] by simp
    have "distinct (map (\<lambda>j. (jb_household j, jb_id j)) (filter (due_job now (ch_runs d)) (ch_jobs d)))"
      using assms by (simp add: runs_ok_def unique_on_def distinct_map_filter)
    then have "distinct (map (\<lambda>j. (jb_household j, jb_id j)) (sort_key jb_next (filter (due_job now (ch_runs d)) (ch_jobs d))))"
      by (simp add: distinct_map)
    then have "distinct (map (\<lambda>j. (jb_household j, jb_id j)) ?js)"
      by (simp add: take_map [symmetric] distinct_take)
    then show ?thesis
      using sub assms
      by (auto simp: claimable_def due_job_def list_ex_iff filter_empty_conv)
  qed
  have "twp (bindM (client_query (sql_due_jobs now limit)) claim_jobs)
    (\<lambda>cs d'. runs_ok d' \<and> runs_step d d' \<and> ch_runs d' = ch_runs d @ map cl_run cs \<and> list_all keyed (map cl_run cs)) d"
    by (intro twp_bindM twp_client_query) (auto simp: sql_due_jobs_def intro: claim_jobs_twp [OF claimable])
  then show ?thesis
    unfolding claimDueRuns_def
    by (rule dwp_mono [OF dwp_transactionally]) (use assms runs_step.db_refl in auto)
qed

lemma completed_simps [simp]:
  "sr_household (completed_run c t r) = sr_household r" "sr_key (completed_run c t r) = sr_key r"
  "sr_occurrence (completed_run c t r) = sr_occurrence r" "sr_job (completed_run c t r) = sr_job r"
  "sr_status (completed_run c t r) = outcome_status (co_outcome c)" "\<not> open_run (completed_run c t r)"
  by (cases "co_outcome c"; simp add: completed_run_def open_run_def)+

lemma completed_delivery: "co_delivery c \<noteq> None \<Longrightarrow> sr_delivery (completed_run c t r) = co_delivery c"
  by (auto simp: completed_run_def coalesce_def)

lemma completed_runs_ok:
  assumes "runs_ok d"
  shows "runs_ok (d\<lparr>ch_runs := update_where (completable c) (completed_run c t) (ch_runs d)\<rparr>)"
proof -
  let ?rs = "update_where (completable c) (completed_run c t) (ch_runs d)"
  have fewer: "length (filter (open_for_job j) (update_where (completable c) (completed_run c t) rs))
      \<le> length (filter (open_for_job j) rs)" for j rs
    by (induction rs) auto
  have "length (filter (open_for_job j) ?rs) \<le> 1" if "j \<in> set (ch_jobs d)" "jb_overlap j = Overlap_skip" for j
  proof -
    have "length (filter (open_for_job j) (ch_runs d)) \<le> 1" using assms that by (simp add: runs_ok_def)
    with fewer show ?thesis by (rule le_trans)
  qed
  then show ?thesis using assms by (simp add: runs_ok_def unique_on_update_where)
qed

lemma completed_runs_moved:
  "runs_moved d (d\<lparr>ch_runs := update_where (completable c) (completed_run c t) (ch_runs d)\<rparr>)"
proof -
  have moved: "list_all2 run_moved rs (update_where (completable c) (completed_run c t) rs)" for rs
    by (induction rs) (simp_all add: run_moved_def completable_def)
  then show ?thesis by (simp add: runs_moved_def)
qed

lemma complete_dwp:
  assumes "runs_ok d"
  shows "dwp (completeRun c)
    (\<lambda>r d'. runs_ok d' \<and> runs_moved d d' \<and> ch_deliveries d' = ch_deliveries d \<and> r \<in> set (ch_runs d') \<and> sr_household r = co_household c
       \<and> sr_occurrence r = co_occurrence c \<and> sr_status r = outcome_status (co_outcome c) \<and> (co_delivery c \<noteq> None \<longrightarrow> sr_delivery r = co_delivery c))
    (\<lambda>e d'. runs_ok d' \<and> runs_moved d d' \<and> ch_deliveries d' = ch_deliveries d) d"
proof -
  have row: "runs_ok d' \<and> runs_moved d d' \<and> ch_deliveries d' = ch_deliveries d \<and> (\<forall>r. x = Some r \<longrightarrow> r \<in> set (ch_runs d') \<and> sr_household r = co_household c
       \<and> sr_occurrence r = co_occurrence c \<and> sr_status r = outcome_status (co_outcome c) \<and> (co_delivery c \<noteq> None \<longrightarrow> sr_delivery r = co_delivery c))"
    if "sql_complete_run c t d = Inr (x, d')" for t x d'
  proof (cases "find (completable c) (ch_runs d)")
    case None
    then show ?thesis using that assms runs_moved.db_refl by (simp add: sql_complete_run_def)
  next
    case (Some r)
    have r: "r \<in> set (ch_runs d)" "completable c r" using find_SomeD [OF Some] by simp_all
    have "x = Some (completed_run c t r)"
      "d' = d\<lparr>ch_runs := update_where (completable c) (completed_run c t) (ch_runs d)\<rparr>"
      using that Some by (auto simp: sql_complete_run_def)
    then show ?thesis
      using r completed_runs_ok [OF assms] completed_runs_moved completed_delivery [of c t r]
      by (auto simp: set_update_where completable_def image_iff intro!: bexI [of _ r])
  qed
  show ?thesis
    unfolding completeRun_def
    by (intro dwp_rules) (use row assms runs_moved.db_refl in \<open>auto dest: row\<close>)
qed

end
