(* ===== verification/Scheduling.thy ===== *)
theory Scheduling
  imports Deliveries SchedulerRepository
begin

text \<open>
  Scheduled work: packages/runtime/src/scheduler/application-scheduler.ts. Due occurrences are claimed
  in one transaction and dispatched one after the other: a target computes a response, the response
  is delivered, and the run is completed with what came of it. The targets are calls to agents: what
  they answer to an attempt for a claim is a parameter, and so is the schema of the team result, which
  the model does not read. Log lines are left out.
\<close>

record scheduler_targets =
  tg_orchestrator :: "scheduler_claim \<Rightarrow> nat \<Rightarrow> thrown + final_response"
  tg_review :: "(scheduler_claim \<Rightarrow> review_context \<Rightarrow> nat \<Rightarrow> thrown + final_response) option"
  tg_team_lead :: "scheduler_claim \<Rightarrow> nat \<Rightarrow> thrown + json"
  tg_team_result :: "json \<Rightarrow> bool"
  tg_reconcile :: "scheduler_claim \<Rightarrow> json \<Rightarrow> nat \<Rightarrow> thrown + final_response"

record 's scheduler_deps =
  sd_claim :: "nat \<Rightarrow> nat \<Rightarrow> ('s, thrown, scheduler_claim list) io"
  sd_complete :: "run_completion \<Rightarrow> ('s, thrown, scheduled_run) io"
  sd_targets :: scheduler_targets
  sd_deliver :: "final_response \<Rightarrow> ('s, thrown, delivery_result) io"

section \<open>Targets\<close>

definition scheduledReviewContext :: "scheduler_claim \<Rightarrow> thrown + review_context option" where
  "scheduledReviewContext c =
    (if sch_name (cl_context_schema c) \<noteq> ''working-memory-review-context'' then Inr None
     else if sch_version (cl_context_schema c) \<noteq> 1 then Inl (Ex (JsError ''Error''))
     else case parse_review_context (cl_context c) of
       None \<Rightarrow> Inl (Ex ZodError)
     | Some x \<Rightarrow> Inr (Some x))"

definition parsed_response :: "thrown + final_response \<Rightarrow> thrown + final_response" where
  "parsed_response a =
    (case a of
       Inl e \<Rightarrow> Inl e
     | Inr r \<Rightarrow> if OrchestratorFinalResponseSchemaV1 r then Inr r else Inl (Ex ZodError))"

text \<open>The body of one attempt.\<close>

definition run_target_attempt :: "scheduler_targets \<Rightarrow> scheduler_claim \<Rightarrow> nat \<Rightarrow> thrown + final_response" where
  "run_target_attempt tg c n =
    (case cl_target c of
       To_orchestrator \<Rightarrow>
         (case scheduledReviewContext c of
            Inl e \<Rightarrow> Inl e
          | Inr (Some x) \<Rightarrow>
              (case tg_review tg of
                 None \<Rightarrow> Inl (Ex (JsError ''Error''))
               | Some f \<Rightarrow> parsed_response (f c x n))
          | Inr None \<Rightarrow> parsed_response (tg_orchestrator tg c n))
     | To_team_lead team \<Rightarrow>
         (case tg_team_lead tg c n of
            Inl e \<Rightarrow> Inl e
          | Inr j \<Rightarrow> if tg_team_result tg j then parsed_response (tg_reconcile tg c j n) else Inl (Ex ZodError)))"

definition timed_out :: "thrown \<Rightarrow> bool" where
  "timed_out e \<longleftrightarrow> e = DomException ''TimeoutError''"

definition last_error :: "thrown \<Rightarrow> thrown" where
  "last_error e = (if e = NotAnError then Ex (JsError ''Error'') else e)"

text \<open>Attempt number \<open>n\<close>, with \<open>k\<close> more attempts allowed after it.\<close>

fun attempts_from :: "scheduler_targets \<Rightarrow> scheduler_claim \<Rightarrow> nat \<Rightarrow> nat \<Rightarrow> thrown + final_response" where
  "attempts_from tg c n k =
    (case run_target_attempt tg c n of
       Inr r \<Rightarrow> Inr r
     | Inl e \<Rightarrow>
         if timed_out e then Inl e
         else (case k of 0 \<Rightarrow> Inl (last_error e) | Suc k' \<Rightarrow> attempts_from tg c (Suc n) k'))"

declare attempts_from.simps [simp del]

definition runWithRetries :: "scheduler_targets \<Rightarrow> scheduler_claim \<Rightarrow> thrown + final_response" where
  "runWithRetries tg c = attempts_from tg c 0 (cl_retries c)"

section \<open>Dispatch\<close>

definition run_completion_of :: "scheduler_claim \<Rightarrow> occurrence_outcome \<Rightarrow> string option \<Rightarrow> string option \<Rightarrow> run_completion" where
  "run_completion_of c outcome delivery failure =
    \<lparr>co_household = sr_household (cl_run c), co_occurrence = sr_occurrence (cl_run c), co_outcome = outcome,
     co_task = None, co_delivery = delivery, co_failure = failure\<rparr>"

fun delivery_failure :: "delivery_result \<Rightarrow> string" where
  "delivery_failure (Blocked p) = ''processor_blocked''"
| "delivery_failure (Not_delivered ambiguous d b) = (if ambiguous then ''delivery_ambiguous'' else ''delivery_failed'')"
| "delivery_failure (Delivered d b) = ''delivery_delivered''"

definition completion_for :: "scheduler_claim \<Rightarrow> delivery_result \<Rightarrow> run_completion" where
  "completion_for c x =
    (case x of
       Delivered d b \<Rightarrow> run_completion_of c Ro_succeeded (Some (dr_id d)) None
     | _ \<Rightarrow> run_completion_of c Ro_failed None (Some (delivery_failure x)))"

definition failure_completion :: "scheduler_claim \<Rightarrow> thrown \<Rightarrow> run_completion" where
  "failure_completion c e =
    (if timed_out e then run_completion_of c Ro_timed_out None (Some ''timeout'')
     else run_completion_of c Ro_failed None
       (Some (if e = Ex ZodError then ''target_schema_validation'' else ''runtime_failure'')))"

definition dispatchClaim :: "'s scheduler_deps \<Rightarrow> scheduler_claim \<Rightarrow> nat \<Rightarrow> ('s, thrown, scheduled_run) io" where
  "dispatchClaim sd c now =
    catchM
      (if cl_missed c = Missed_skip \<and> sr_for (cl_run c) < now
       then sd_complete sd (run_completion_of c Ro_skipped None None)
       else
         bindM (liftE (runWithRetries (sd_targets sd) c)) (\<lambda>response.
         bindM (sd_deliver sd response) (\<lambda>x. sd_complete sd (completion_for c x))))
      (\<lambda>e. sd_complete sd (failure_completion c e))"

fun dispatch_all :: "'s scheduler_deps \<Rightarrow> scheduler_claim list \<Rightarrow> nat \<Rightarrow> ('s, thrown, scheduled_run list) io" where
  "dispatch_all sd [] now = ret []"
| "dispatch_all sd (c # cs) now =
    bindM (dispatchClaim sd c now) (\<lambda>r. bindM (dispatch_all sd cs now) (\<lambda>rs. ret (r # rs)))"

definition dispatchDue :: "'s scheduler_deps \<Rightarrow> nat \<Rightarrow> nat \<Rightarrow> ('s, thrown, scheduled_run list) io" where
  "dispatchDue sd now limit = bindM (sd_claim sd now limit) (\<lambda>cs. dispatch_all sd cs now)"

section \<open>What the scheduler relies on\<close>

locale scheduler_ports =
  fixes sd :: "'s scheduler_deps"
    and db :: "'s \<Rightarrow> chat_db"
    and ready :: "'s \<Rightarrow> bool"
  assumes claim_law: "ready s \<Longrightarrow> runs_ok (db s) \<Longrightarrow>
      wp (sd_claim sd now limit)
        (\<lambda>cs s'. ready s' \<and> runs_ok (db s') \<and> runs_step (db s) (db s')
           \<and> ch_runs (db s') = ch_runs (db s) @ map cl_run cs \<and> list_all keyed (map cl_run cs))
        (\<lambda>e s'. ready s' \<and> runs_ok (db s') \<and> runs_step (db s) (db s')) s"
    and complete_law: "ready s \<Longrightarrow> runs_ok (db s) \<Longrightarrow>
      wp (sd_complete sd co)
        (\<lambda>r s'. ready s' \<and> runs_ok (db s') \<and> runs_moved (db s) (db s') \<and> ch_deliveries (db s') = ch_deliveries (db s)
           \<and> r \<in> set (ch_runs (db s')) \<and> sr_household r = co_household co \<and> sr_occurrence r = co_occurrence co
           \<and> sr_status r = outcome_status (co_outcome co)
           \<and> (co_delivery co \<noteq> None \<longrightarrow> sr_delivery r = co_delivery co))
        (\<lambda>e s'. ready s' \<and> runs_ok (db s') \<and> runs_moved (db s) (db s')) s"
    and deliver_law: "ready s \<Longrightarrow>
      wp (sd_deliver sd response)
        (\<lambda>x s'. ready s' \<and> ch_runs (db s') = ch_runs (db s) \<and> ch_jobs (db s') = ch_jobs (db s)
           \<and> (\<forall>d b. x = Delivered d b \<longrightarrow> d \<in> set (ch_deliveries (db s')) \<and> dr_status d = Dl_delivered))
        (\<lambda>e s'. ready s' \<and> ch_runs (db s') = ch_runs (db s) \<and> ch_jobs (db s') = ch_jobs (db s)) s"
begin

definition good :: "'s \<Rightarrow> bool" where
  "good s \<longleftrightarrow> ready s \<and> runs_ok (db s)"

text \<open>The stored end of the run of a claim, and what success means.\<close>

definition ended :: "scheduler_claim \<Rightarrow> scheduled_run \<Rightarrow> 's \<Rightarrow> bool" where
  "ended c r s \<longleftrightarrow> r \<in> set (ch_runs (db s)) \<and> \<not> open_run r \<and> sr_household r = sr_household (cl_run c)
     \<and> sr_occurrence r = sr_occurrence (cl_run c)"

definition delivered_if_succeeded :: "scheduled_run \<Rightarrow> 's \<Rightarrow> bool" where
  "delivered_if_succeeded r s \<longleftrightarrow> (sr_status r = Oc_succeeded \<longrightarrow>
     (\<exists>d \<in> set (ch_deliveries (db s)). dr_status d = Dl_delivered \<and> sr_delivery r = Some (dr_id d)))"

lemma status_closed: "sr_status r = outcome_status x \<Longrightarrow> \<not> open_run r"
  by (cases x) (simp_all add: open_run_def)

lemma complete_spec:
  assumes "good s" and "runs_moved (db s0) (db s)" and "co_household co = sr_household (cl_run c)"
    and "co_occurrence co = sr_occurrence (cl_run c)"
    and delivered: "co_outcome co = Ro_succeeded \<Longrightarrow>
      \<exists>d \<in> set (ch_deliveries (db s)). dr_status d = Dl_delivered \<and> co_delivery co = Some (dr_id d)"
  shows "wp (sd_complete sd co)
    (\<lambda>r s'. good s' \<and> runs_moved (db s0) (db s') \<and> ended c r s' \<and> delivered_if_succeeded r s')
    (\<lambda>e s'. good s' \<and> runs_moved (db s0) (db s')) s"
proof -
  have s: "ready s" "runs_ok (db s)" using assms(1) by (simp_all add: good_def)
  have succeeded: "co_outcome co = Ro_succeeded" if "outcome_status (co_outcome co) = Oc_succeeded"
    using that by (cases "co_outcome co") simp_all
  show ?thesis
  proof (rule wp_mono [OF complete_law [OF s]], goal_cases)
    case (1 r s')
    then have "delivered_if_succeeded r s'"
      using succeeded delivered by (force simp: delivered_if_succeeded_def)
    then show ?case
      using 1 assms(3,4) runs_moved.db_trans [OF assms(2)] status_closed by (auto simp: good_def ended_def)
  next
    case (2 e s')
    then show ?case using runs_moved.db_trans [OF assms(2)] by (auto simp: good_def)
  qed
qed

lemma dispatch_spec:
  assumes "good s"
  shows "wp (dispatchClaim sd c now)
    (\<lambda>r s'. good s' \<and> runs_moved (db s) (db s') \<and> ended c r s' \<and> delivered_if_succeeded r s')
    (\<lambda>e s'. good s' \<and> runs_moved (db s) (db s')) s"
    (is "wp _ ?Q ?E s")
proof -
  have failed: "wp (sd_complete sd (failure_completion c e)) ?Q ?E s'"
    if "good s' \<and> runs_moved (db s) (db s')" for e s'
    using that by (intro complete_spec) (auto simp: failure_completion_def run_completion_of_def split: if_splits)
  have skip: "wp (sd_complete sd (run_completion_of c Ro_skipped None None)) ?Q ?E s"
    by (rule complete_spec [OF assms runs_moved.db_refl]) (simp_all add: run_completion_of_def)
  have deliver: "wp (bindM (sd_deliver sd response) (\<lambda>x. sd_complete sd (completion_for c x))) ?Q ?E s" for response
    unfolding wp_bindM
  proof (rule wp_mono [OF deliver_law], goal_cases)
    case 1
    then show ?case using assms by (simp add: good_def)
  next
    case (2 x s1)
    then have s1: "good s1" "runs_moved (db s) (db s1)"
      using assms by (auto simp: good_def runs_ok_def runs_moved_def run_moved_refl)
    show ?case
      by (rule complete_spec [OF s1])
        (use 2 in \<open>auto simp: completion_for_def run_completion_of_def split: delivery_result.splits\<close>)
  next
    case (3 e s1)
    then show ?case using assms by (auto simp: good_def runs_ok_def runs_moved_def run_moved_refl)
  qed
  have "wp (if cl_missed c = Missed_skip \<and> sr_for (cl_run c) < now
       then sd_complete sd (run_completion_of c Ro_skipped None None)
       else bindM (liftE (runWithRetries (sd_targets sd) c)) (\<lambda>response.
         bindM (sd_deliver sd response) (\<lambda>x. sd_complete sd (completion_for c x)))) ?Q ?E s"
    using skip deliver assms runs_moved.db_refl
    by (simp add: wp_bindM [of "liftE _"] wp_liftE split: sum.split)
  then show ?thesis
    unfolding dispatchClaim_def wp_catchM by (rule wp_mono) (simp_all add: failed)
qed

lemma ended_later:
  assumes "ended c r s" and "runs_moved (db s) (db s')"
  shows "ended c r s'"
proof -
  have "\<exists>r' \<in> set (ch_runs (db s')). run_moved r r'"
    using assms unfolding ended_def runs_moved_def by (blast dest: list_all2_member)
  then show ?thesis using assms(1) by (auto simp: ended_def run_moved_def)
qed

lemma dispatch_all_spec:
  "good s \<Longrightarrow> wp (dispatch_all sd cs now)
    (\<lambda>rs s'. good s' \<and> runs_moved (db s) (db s') \<and> list_all2 (\<lambda>c r. ended c r s') cs rs)
    (\<lambda>e s'. good s' \<and> runs_moved (db s) (db s')) s"
proof (induction cs arbitrary: s)
  case Nil
  then show ?case by (simp add: wp_simps runs_moved.db_refl)
next
  case (Cons c cs)
  show ?case
    unfolding dispatch_all.simps wp_bindM wp_ret
  proof (rule wp_mono [OF dispatch_spec [OF Cons.prems]], goal_cases)
    case (1 r s1)
    then have s1: "good s1" "runs_moved (db s) (db s1)" "ended c r s1" by simp_all
    show ?case
      by (rule wp_mono [OF Cons.IH [OF s1(1)]])
        (use s1 runs_moved.db_trans [OF s1(2)] ended_later [OF s1(3)] in auto)
  qed simp
qed

text \<open>A whole round.\<close>

definition closed_round :: "scheduled_run list \<Rightarrow> 's \<Rightarrow> 's \<Rightarrow> bool" where
  "closed_round rs s s' \<longleftrightarrow>
     (\<exists>old new. ch_runs (db s') = old @ new \<and> list_all2 run_moved (ch_runs (db s)) old
        \<and> map sr_occurrence new = map sr_occurrence rs \<and> set rs \<subseteq> set (ch_runs (db s'))
        \<and> list_all (\<lambda>r. \<not> open_run r) new)"

lemma round_closed:
  assumes ok: "runs_ok (db s')" and split: "ch_runs (db s1) = ch_runs (db s) @ map cl_run cs"
    and moved: "runs_moved (db s1) (db s')" and all: "list_all2 (\<lambda>c r. ended c r s') cs rs"
  shows "closed_round rs s s'"
proof -
  obtain old new where old: "ch_runs (db s') = old @ new" "list_all2 run_moved (ch_runs (db s)) old"
    and new: "list_all2 run_moved (map cl_run cs) new"
    using moved split by (auto simp: runs_moved_def list_all2_append1)
  have same: "list_all2 (\<lambda>c r. sr_occurrence r = sr_occurrence (cl_run c)) cs new"
    using new by (auto simp: list_all2_map1 run_moved_def elim: list_all2_mono)
  have "map sr_occurrence new = map (\<lambda>c. sr_occurrence (cl_run c)) cs"
    using same by (induction rule: list_all2_induct) simp_all
  moreover have "map sr_occurrence rs = map (\<lambda>c. sr_occurrence (cl_run c)) cs"
    using all by (induction rule: list_all2_induct) (simp_all add: ended_def)
  ultimately have occurrences: "map sr_occurrence new = map sr_occurrence rs" by simp
  have stored: "r \<in> set (ch_runs (db s')) \<and> \<not> open_run r" if "r \<in> set rs" for r
    using all that by (induction rule: list_all2_induct) (auto simp: ended_def)
  have "\<not> open_run x" if x: "x \<in> set new" for x
  proof -
    have "sr_occurrence x \<in> set (map sr_occurrence rs)"
      unfolding occurrences [symmetric] using x by simp
    then obtain r where r: "r \<in> set rs" "sr_occurrence r = sr_occurrence x" by auto
    have "unique_on sr_occurrence (ch_runs (db s'))" using ok by (simp add: runs_ok_def)
    then have "r = x" by (rule unique_onD) (use stored [OF r(1)] r(2) x old(1) in auto)
    then show ?thesis using stored [OF r(1)] by simp
  qed
  then show ?thesis
    unfolding closed_round_def using old occurrences stored by (auto simp: list_all_iff)
qed

lemma dispatchDue_spec:
  assumes "good s"
  shows "wp (dispatchDue sd now limit) (\<lambda>rs s'. good s' \<and> runs_step (db s) (db s') \<and> closed_round rs s s')
    (\<lambda>e s'. good s' \<and> runs_step (db s) (db s')) s"
  unfolding dispatchDue_def wp_bindM
proof (rule wp_mono [OF claim_law], goal_cases)
  case (3 cs s1)
  then have s1: "good s1" "runs_step (db s) (db s1)" "ch_runs (db s1) = ch_runs (db s) @ map cl_run cs"
    by (simp_all add: good_def)
  show ?case
    by (rule wp_mono [OF dispatch_all_spec [OF s1(1)]])
      (use s1 round_closed in \<open>auto simp: good_def intro: runs_step.db_trans [OF s1(2) runs_moved_step]\<close>)
qed (use assms in \<open>simp_all add: good_def\<close>)

end

section \<open>PostgreSQL and the delivery handler provide the ports\<close>

definition chat_scheduler ::
  "(string \<Rightarrow> string) \<Rightarrow> output_processor list option \<Rightarrow> scheduler_targets \<Rightarrow> chat_state scheduler_deps" where
  "chat_scheduler sha ps tg =
    \<lparr>sd_claim = (\<lambda>now limit. on_db (claimDueRuns now limit)), sd_complete = (\<lambda>co. on_db (completeRun co)),
     sd_targets = tg, sd_deliver = deliver (chat_delivery sha ps)\<rparr>"

lemma chat_scheduler_simps [simp]:
  "sd_claim (chat_scheduler sha ps tg) now limit = on_db (claimDueRuns now limit)"
  "sd_complete (chat_scheduler sha ps tg) co = on_db (completeRun co)"
  "sd_targets (chat_scheduler sha ps tg) = tg"
  "sd_deliver (chat_scheduler sha ps tg) = deliver (chat_delivery sha ps)"
  by (simp_all add: chat_scheduler_def)

text \<open>The scheduler's tables and those of the deliveries do not touch each other.\<close>

definition same_deliveries :: "chat_db \<Rightarrow> chat_db \<Rightarrow> bool" where
  "same_deliveries d d' \<longleftrightarrow> ch_deliveries d' = ch_deliveries d"

definition same_schedule :: "chat_db \<Rightarrow> chat_db \<Rightarrow> bool" where
  "same_schedule d d' \<longleftrightarrow> ch_runs d' = ch_runs d \<and> ch_jobs d' = ch_jobs d"

interpretation same_deliveries: db_relation same_deliveries
  by unfold_locales (simp_all add: same_deliveries_def)

interpretation same_schedule: db_relation same_schedule
  by unfold_locales (simp_all add: same_schedule_def)

definition chat_moves :: "(chat_db \<Rightarrow> chat_db \<Rightarrow> bool) \<Rightarrow> chat_state \<Rightarrow> chat_state \<Rightarrow> bool" where
  "chat_moves T s s' \<longleftrightarrow> db_moves T (fst s) (fst s')"

interpretation chat_schedule: step_relation "chat_moves same_schedule"
  by unfold_locales (auto simp: chat_moves_def intro: same_schedule.pool.rel_refl same_schedule.pool.rel_trans)

lemma keeps_on_db: "keeps (db_moves T) m \<Longrightarrow> keeps (chat_moves T) (on_db m)"
  by (auto simp: keeps_def chat_moves_def on_db_def split: prod.splits sum.splits) (metis snd_conv)+

lemma keeps_thenM_schedule:
  assumes "keeps (chat_moves same_schedule) m"
    and "\<And>e. keeps (chat_moves same_schedule) (k e)" and "\<And>x. keeps (chat_moves same_schedule) (f x)"
  shows "keeps (chat_moves same_schedule) (thenM m k f)"
  unfolding keeps_def
proof
  fix s
  obtain y s' where m: "m s = (y, s')" by (rule prod.exhaust)
  have "chat_moves same_schedule s s'" by (rule keeps_result [OF assms(1) m])
  then show "chat_moves same_schedule s (snd (thenM m k f s))"
    using m keepsD [OF assms(2), where s = s'] keepsD [OF assms(3), where s = s']
    by (cases y) (auto simp: thenM_def intro: chat_schedule.rel_trans)
qed

lemma keeps_outside: "keeps (chat_moves same_schedule) (transport_send ch i)"
  "keeps (chat_moves same_schedule) signal_aborted"
  by (auto simp: keeps_def chat_moves_def transport_send_def signal_aborted_def same_schedule.pool.rel_refl)

lemma claimDueRuns_deliveries: "keeps (db_moves same_deliveries) (claimDueRuns now limit)"
proof -
  have "keeps (client_moves same_deliveries) (claim_jobs js)" for js
  proof (induction js)
    case (Cons j js)
    show ?case
      unfolding claim_jobs.simps
      by (intro same_deliveries.keeps_client Cons.IH statement_alongI)
        (auto simp: sql_claim_run_def same_deliveries_def split: if_splits)
  qed (simp add: same_deliveries.keeps_client)
  then show ?thesis
    unfolding claimDueRuns_def transactionally_def
    by (intro same_deliveries.keeps_transactionally same_deliveries.keeps_client statement_alongI)
      (auto simp: sql_due_jobs_def same_deliveries_def)
qed

lemma deliveries_schedule:
  "keeps (db_moves same_schedule) (reserveDelivery i key r)"
  "keeps (db_moves same_schedule) (markDelivered hh i m)"
  "keeps (db_moves same_schedule) (markDeliveryFailed hh i a c)"
  "keeps (db_moves same_schedule) defaultDeliveryIdGenerator"
proof -
  have update: "keeps (db_moves same_schedule) (updateDelivery hh i f)" for hh i f
    unfolding updateDelivery_def
    by (intro same_schedule.keeps_pool statement_alongI)
      (auto simp: sql_update_delivery_def Let_def same_schedule_def)
  show "keeps (db_moves same_schedule) (markDelivered hh i m)"
    "keeps (db_moves same_schedule) (markDeliveryFailed hh i a c)"
    by (simp_all add: markDelivered_def markDeliveryFailed_def update)
  show "keeps (db_moves same_schedule) (reserveDelivery i key r)"
    unfolding reserveDelivery_def find_delivery_by_key_def
    by (intro same_schedule.keeps_pool statement_alongI)
      (auto simp: sql_reserve_delivery_def same_schedule_def split: if_splits)
  show "keeps (db_moves same_schedule) defaultDeliveryIdGenerator"
    unfolding defaultDeliveryIdGenerator_def by (intro same_schedule.keeps_pool)
qed

lemma deliver_schedule: "keeps (chat_moves same_schedule) (deliver (chat_delivery sha ps) r)"
proof -
  let ?K = "keeps (chat_moves same_schedule)" and ?h = "chat_delivery sha ps"
  note rules = chat_schedule.keeps_rules keeps_thenM_schedule keeps_outside keeps_on_db deliveries_schedule
  have aborted: "?K (throwIfAborted ?h)"
    unfolding throwIfAborted_def chat_delivery_simps by (intro rules)
  have abortable: "?K m \<Longrightarrow> ?K (abortable ?h m)" for m :: "(chat_state, thrown, 'b) io"
    unfolding abortable_def chat_delivery_simps by (intro rules) auto
  have settle: "?K (settle_failure ?h r d att e)" for d att e
    unfolding settle_failure_def Let_def chat_delivery_simps by (intro rules)
  have send: "?K (send_reserved ?h r d)" for d
    unfolding send_reserved_def chat_delivery_simps by (intro rules aborted abortable settle)
  show ?thesis
    unfolding deliver_def chat_delivery_simps
    by (intro rules aborted)
      (auto split: sum.split delivery_status.split intro!: rules aborted abortable send)
qed

lemma wp_on_db_keeps:
  assumes "dwp m Q E (wdb (fst s))" and "txn (fst s) = None" and "keeps (db_moves T) m"
    and "\<And>x w'. txn w' = None \<Longrightarrow> Q x (wdb w') \<Longrightarrow> T (wdb (fst s)) (wdb w') \<Longrightarrow> Q' x (w', snd s)"
    and "\<And>e w'. txn w' = None \<Longrightarrow> E e (wdb w') \<Longrightarrow> T (wdb (fst s)) (wdb w') \<Longrightarrow> E' (Ex e) (w', snd s)"
  shows "wp (on_db m) Q' E' s"
  unfolding wp_on_db
  by (rule wp_mono [OF wp_conj [OF dwpD [OF assms(1,2)] keeps_wp [OF assms(3)]]])
    (use assms(2,4,5) in \<open>auto simp: db_moves_def\<close>)

interpretation sched: scheduler_ports "chat_scheduler sha ps tg" "\<lambda>s. wdb (fst s)" delivery_ready for sha ps tg
proof (unfold_locales, goal_cases)
  case (1 s now limit)
  then have "txn (fst s) = None" by (simp add: delivery_ready_def)
  then show ?case
    unfolding chat_scheduler_simps
    by (rule wp_on_db_keeps [OF claim_dwp [OF 1(2)] _ claimDueRuns_deliveries])
      (use 1(1) in \<open>auto simp: same_deliveries_def delivery_ready_def\<close>)
next
  case (2 s co)
  then have "txn (fst s) = None" by (simp add: delivery_ready_def)
  then show ?case
    unfolding chat_scheduler_simps
    by (rule wp_on_db_dwp [OF complete_dwp [OF 2(2)]])
      (use 2(1) in \<open>auto simp: delivery_ready_def\<close>)
next
  case (3 s response)
  have spec: "wp (deliver (chat_delivery sha ps) response) (pg.outcome sha ps response s) (\<lambda>e. pg.step sha ps response s) s"
    using 3 by (intro pg.deliver_spec) (simp_all add: delivery_ready_def)
  have moves: "chat_moves same_schedule s s' \<longleftrightarrow>
      txn (fst s') = None \<and> same_schedule (wdb (fst s)) (wdb (fst s'))" for s'
    using 3 by (simp add: chat_moves_def db_moves_def delivery_ready_def)
  have stored: "d \<in> set (stored_deliveries s') \<and> dr_status d = Dl_delivered"
    if "pg.outcome sha ps response s (Delivered d b) s'" for d b s'
    using that by (auto simp: pg.outcome_def pg.answered_def dest: find_SomeD)
  have ready: "delivery_ready s'" if "pg.step sha ps response s s'" for s'
    using that by (simp add: pg.step_def delivery_step_def delivery_ready_def)
  show ?case
    unfolding chat_scheduler_simps
  proof (rule wp_mono [OF wp_conj [OF spec keeps_wp [OF deliver_schedule]]], goal_cases)
    case (1 x s')
    then have out: "pg.outcome sha ps response s x s'" and moved: "chat_moves same_schedule s s'" by blast+
    have "delivery_ready s'" by (rule ready [OF outcome_step [OF out]])
    moreover have "d \<in> set (stored_deliveries s') \<and> dr_status d = Dl_delivered" if "x = Delivered d b" for d b
      by (rule stored) (use out that in simp)
    ultimately show ?case using moved by (simp add: moves same_schedule_def)
  next
    case (2 e s')
    then have "pg.step sha ps response s s'" and moved: "chat_moves same_schedule s s'" by blast+
    then show ?case using ready moved by (simp add: moves same_schedule_def)
  qed
qed

section \<open>Guarantees\<close>

text \<open>Any calls of the scheduler's repository, and the claims they return.\<close>

datatype schedule_call = Claim_due nat nat | Complete_run run_completion | Dispatch_due nat nat

fun schedule_call_run :: "chat_state scheduler_deps \<Rightarrow> schedule_call \<Rightarrow> chat_state \<Rightarrow> scheduler_claim list \<times> chat_state" where
  "schedule_call_run sd (Claim_due now limit) s =
    (case sd_claim sd now limit s of (Inr cs, s') \<Rightarrow> (cs, s') | (Inl e, s') \<Rightarrow> ([], s'))"
| "schedule_call_run sd (Complete_run co) s = ([], snd (sd_complete sd co s))"
| "schedule_call_run sd (Dispatch_due now limit) s = ([], snd (dispatchDue sd now limit s))"

fun schedule_run :: "chat_state scheduler_deps \<Rightarrow> schedule_call list \<Rightarrow> chat_state \<Rightarrow> scheduler_claim list" where
  "schedule_run sd [] s = []"
| "schedule_run sd (c # cs) s =
    (let (claims, s') = schedule_call_run sd c s in claims @ schedule_run sd cs s')"

definition run_id :: "scheduled_run \<Rightarrow> string \<times> string" where
  "run_id r = (sr_household r, sr_key r)"

definition occurrence_of :: "scheduled_run \<Rightarrow> string \<times> string \<times> int \<times> nat" where
  "occurrence_of r = (sr_household r, sr_job r, sr_version r, sr_for r)"

lemma run_moved_ids: "list_all2 run_moved rs rs' \<Longrightarrow> map run_id rs' = map run_id rs"
  by (induction rule: list_all2_induct) (auto simp: run_moved_def run_id_def)

lemma step_ids: "runs_step d d' \<Longrightarrow> run_id ` set (ch_runs d) \<subseteq> run_id ` set (ch_runs d')"
proof -
  assume "runs_step d d'"
  then obtain old new where o: "ch_runs d' = old @ new" "list_all2 run_moved (ch_runs d) old"
    unfolding runs_step_def by blast
  from run_moved_ids [OF o(2)] have "run_id ` set old = run_id ` set (ch_runs d)"
    by (metis set_map)
  then show ?thesis using o(1) by auto
qed

lemma schedule_call_spec:
  assumes "sched.good s" and call: "schedule_call_run (chat_scheduler sha ps tg) c s = (claims, s')"
  shows "sched.good s' \<and> run_id ` set (ch_runs (wdb (fst s))) \<subseteq> run_id ` set (ch_runs (wdb (fst s')))
    \<and> set (map (run_id \<circ> cl_run) claims) \<subseteq> run_id ` set (ch_runs (wdb (fst s'))) - run_id ` set (ch_runs (wdb (fst s)))
    \<and> distinct (map (run_id \<circ> cl_run) claims) \<and> list_all keyed (map cl_run claims)"
proof (cases c)
  case (Claim_due now limit)
  have s: "delivery_ready s" "runs_ok (wdb (fst s))" using assms(1) by (simp_all add: sched.good_def)
  note law = sched.claim_law [OF s, of sha ps tg now limit]
  show ?thesis
  proof -
    obtain y s1 where Pair: "sd_claim (chat_scheduler sha ps tg) now limit s = (y, s1)" by (rule prod.exhaust)
    show ?thesis
    proof (cases y)
      case (Inl e)
      then have "claims = []" "s' = s1" using call Pair Claim_due by simp_all
      then show ?thesis
        using wp_threw [OF Pair [unfolded Inl] law] step_ids by (auto simp: sched.good_def)
    next
      case (Inr cs)
      then have eq: "claims = cs" "s' = s1" using call Pair Claim_due by simp_all
      have ok: "sched.good s1" "runs_step (wdb (fst s)) (wdb (fst s1))" "list_all keyed (map cl_run cs)"
        and new: "ch_runs (wdb (fst s1)) = ch_runs (wdb (fst s)) @ map cl_run cs"
        using wp_returned [OF Pair [unfolded Inr] law] by (simp_all add: sched.good_def)
      have "distinct (map run_id (ch_runs (wdb (fst s1))))"
        using ok(1) by (simp add: sched.good_def runs_ok_def unique_on_def run_id_def [abs_def])
      then show ?thesis using ok new eq step_ids [OF ok(2)] by (auto simp: list.map_comp)
    qed
  qed
next
  case (Complete_run co)
  have s: "delivery_ready s" "runs_ok (wdb (fst s))" using assms(1) by (simp_all add: sched.good_def)
  have "wp (sd_complete (chat_scheduler sha ps tg) co)
      (\<lambda>r s'. sched.good s' \<and> runs_step (wdb (fst s)) (wdb (fst s')))
      (\<lambda>e s'. sched.good s' \<and> runs_step (wdb (fst s)) (wdb (fst s'))) s"
    by (rule wp_mono [OF sched.complete_law [OF s]]) (auto simp: sched.good_def runs_moved_step)
  from wp_snd [OF this] show ?thesis using call Complete_run step_ids by auto
next
  case (Dispatch_due now limit)
  have "wp (dispatchDue (chat_scheduler sha ps tg) now limit)
      (\<lambda>r s'. sched.good s' \<and> runs_step (wdb (fst s)) (wdb (fst s')))
      (\<lambda>e s'. sched.good s' \<and> runs_step (wdb (fst s)) (wdb (fst s'))) s"
    by (rule wp_mono [OF sched.dispatchDue_spec [OF assms(1)]]) auto
  from wp_snd [OF this] show ?thesis using call Dispatch_due step_ids by auto
qed

lemma schedule_run_spec:
  "sched.good s \<Longrightarrow>
   distinct (map (run_id \<circ> cl_run) (schedule_run (chat_scheduler sha ps tg) calls s))
   \<and> list_all keyed (map cl_run (schedule_run (chat_scheduler sha ps tg) calls s))
   \<and> set (map (run_id \<circ> cl_run) (schedule_run (chat_scheduler sha ps tg) calls s))
       \<inter> run_id ` set (ch_runs (wdb (fst s))) = {}"
proof (induction calls arbitrary: s)
  case (Cons c cs)
  obtain claims s' where call: "schedule_call_run (chat_scheduler sha ps tg) c s = (claims, s')" by (rule prod.exhaust)
  let ?later = "schedule_run (chat_scheduler sha ps tg) cs s'"
  note step = schedule_call_spec [OF Cons.prems call]
  then have "sched.good s'" by blast
  from Cons.IH [OF this] step
  have "distinct (map (run_id \<circ> cl_run) claims)" "distinct (map (run_id \<circ> cl_run) ?later)"
    "set (map (run_id \<circ> cl_run) claims) \<inter> set (map (run_id \<circ> cl_run) ?later) = {}"
    "set (map (run_id \<circ> cl_run) claims) \<inter> run_id ` set (ch_runs (wdb (fst s))) = {}"
    "set (map (run_id \<circ> cl_run) ?later) \<inter> run_id ` set (ch_runs (wdb (fst s))) = {}"
    "list_all keyed (map cl_run claims)" "list_all keyed (map cl_run ?later)" by blast+
  then show ?case by (simp add: call Int_Un_distrib2 comp_def)
qed simp

lemma keyed_occurrence: "keyed r \<Longrightarrow> keyed r' \<Longrightarrow> occurrence_of r = occurrence_of r' \<Longrightarrow> run_id r = run_id r'"
  by (simp add: keyed_def occurrence_of_def run_id_def)


text \<open>
  C35. A round leaves no run behind. When \<open>dispatchDue\<close> returns, whatever the targets and the transport
  have answered, every run it has claimed has ended and is among those it returns, and the runs
  from before have at most been closed.
\<close>

theorem dispatched_rounds_end:
  assumes "delivery_ready s" and "runs_ok (wdb (fst s))"
    and "dispatchDue (chat_scheduler sha ps tg) now limit s = (Inr rs, s')"
  shows "\<exists>old new. ch_runs (wdb (fst s')) = old @ new \<and> list_all2 run_moved (ch_runs (wdb (fst s))) old
     \<and> map sr_occurrence new = map sr_occurrence rs \<and> set rs \<subseteq> set (ch_runs (wdb (fst s')))
     \<and> list_all (\<lambda>r. \<not> open_run r) new"
  using wp_returned [OF assms(3) sched.dispatchDue_spec] assms(1,2)
  by (simp add: sched.good_def sched.closed_round_def)

text \<open>
  C36. Success means delivered. When \<open>dispatchClaim\<close> returns, the run it returns is stored and has
  ended, and if it has succeeded, then a delivered delivery with the recorded identifier is stored.
\<close>

theorem succeeded_runs_were_delivered:
  assumes "delivery_ready s" and "runs_ok (wdb (fst s))"
    and "dispatchClaim (chat_scheduler sha ps tg) c now s = (Inr r, s')"
  shows "r \<in> set (ch_runs (wdb (fst s'))) \<and> \<not> open_run r \<and> sr_occurrence r = sr_occurrence (cl_run c)
     \<and> (sr_status r = Oc_succeeded \<longrightarrow>
          (\<exists>d \<in> set (stored_deliveries s'). dr_status d = Dl_delivered \<and> sr_delivery r = Some (dr_id d)))"
  using wp_returned [OF assms(3) sched.dispatch_spec] assms(1,2)
  by (simp add: sched.good_def sched.ended_def sched.delivered_if_succeeded_def)

text \<open>A job whose occurrence has a run already is due and gets no new run.\<close>

lemma claim_jobs_none:
  "list_all (\<lambda>j. list_ex (run_of (jb_household j) (run_key j)) (ch_runs d)) js \<Longrightarrow>
   twp (claim_jobs js) (\<lambda>cs d'. cs = [] \<and> d' = d) d"
proof (induction js)
  case (Cons j js)
  have query: "twp (client_query (sql_claim_run i j)) (\<lambda>x d'. x = None \<and> d' = d) d" for i
    by (rule twp_client_query) (use Cons.prems in \<open>auto simp: sql_claim_run_def split: if_splits\<close>)
  have "twp (bindM (client_query (sql_claim_run i j)) (\<lambda>inserted.
      case inserted of
        None \<Rightarrow> claim_jobs js
      | Some row \<Rightarrow> bindM (liftE (scheduledRun row)) (\<lambda>r. bindM (claim_jobs js) (\<lambda>cs. ret (claim_of j r # cs)))))
      (\<lambda>cs d'. cs = [] \<and> d' = d) d" for i
    by (rule twp_bindM, rule twp_mono [OF query]) (use Cons in auto)
  moreover have "twp fresh_ulid (\<lambda>i d'. d' = d) d"
    by (simp add: twp_def wp_def fresh_ulid_def)
  ultimately show ?case
    unfolding claim_jobs.simps by (intro twp_bindM [of fresh_ulid]) (auto elim: twp_mono)
qed (simp add: twp_ret)


section \<open>Concrete runs\<close>

definition daily_job :: "string \<Rightarrow> overlap_policy \<Rightarrow> missed_run_policy \<Rightarrow> nat \<Rightarrow> job_row" where
  "daily_job i overlap missed next =
    \<lparr>jb_id = i, jb_household = chat_hh, jb_version = 1, jb_target = To_orchestrator, jb_next = next,
     jb_timeout = 1000, jb_retries = 0, jb_context_schema = \<lparr>sch_name = ''summary'', sch_version = 1\<rparr>,
     jb_context = JNull, jb_behavior = JObj [], jb_overlap = overlap, jb_missed = missed,
     jb_enabled = True\<rparr>"

definition first_job :: string where "first_job = ''job_01ARZ3NDEKTSV4RRFFQ69G5FAV''"
definition second_job :: string where "second_job = ''job_01ARZ3NDEKTSV4RRFFQ69G5FAW''"

definition schedule_start :: "overlap_policy \<Rightarrow> scheduled_run list \<Rightarrow> fault list \<Rightarrow> chat_state" where
  "schedule_start overlap rs fs =
    (\<lparr>wdb = chat_start\<lparr>ch_jobs := [daily_job first_job overlap Missed_skip 0, daily_job second_job overlap Missed_skip 5], ch_runs := rs\<rparr>,
      txn = None, faults = fs, wclock = 0, ticks = [],
      ulids = (\<lambda>n. if n = 0 then ''occurrence_01ARZ3NDEKTSV4RRFFQ69G5FAV''
               else if n = 1 then ''occurrence_01ARZ3NDEKTSV4RRFFQ69G5FAW'' else ''01ARZ3NDEKTSV4RRFFQ69G5FAV'')\<rparr>,
     \<lparr>outcomes = (\<lambda>n. Inr ''m1''), sent = [], abort_in = None\<rparr>)"

definition steady_targets :: scheduler_targets where
  "steady_targets =
    \<lparr>tg_orchestrator = (\<lambda>c n. Inr chat_response), tg_review = None, tg_team_lead = (\<lambda>c n. Inr JNull),
     tg_team_result = (\<lambda>j. True), tg_reconcile = (\<lambda>c j n. Inr chat_response)\<rparr>"

abbreviation sample_scheduler :: "chat_state scheduler_deps" where
  "sample_scheduler \<equiv> chat_scheduler chat_sha (Some []) steady_targets"

lemma jobs_differ: "first_job \<noteq> second_job"
  by (simp add: first_job_def second_job_def)

lemma schedule_start_good:
  "delivery_ready (schedule_start overlap [] fs)" "runs_ok (wdb (fst (schedule_start overlap [] fs)))"
  using jobs_differ
  by (simp_all add: delivery_ready_def schedule_start_def chat_start_def unique_on_def runs_ok_def daily_job_def)


definition first_run :: scheduled_run where
  "first_run = new_run ''occurrence_01ARZ3NDEKTSV4RRFFQ69G5FAV'' (daily_job first_job Overlap_skip Missed_skip 0) 0"

lemma first_run_parses: "scheduledRun first_run = Inr first_run"
  by code_simp

lemma first_run_simps: "sr_status first_run = Oc_claimed" "sr_for first_run = 0" "sr_household first_run = chat_hh"
  "sr_occurrence first_run = ''occurrence_01ARZ3NDEKTSV4RRFFQ69G5FAV''"
  by (simp_all add: first_run_def new_run_def daily_job_def)

lemma occurrence_ok: "opaqueIdentifierSchema Id_occurrence ''occurrence_01ARZ3NDEKTSV4RRFFQ69G5FAV''"
  by code_simp

lemma first_due:
  "sql_due_jobs 9 1 0 (wdb (fst (schedule_start Overlap_skip [] []))) =
    Inr ([daily_job first_job Overlap_skip Missed_skip 0], wdb (fst (schedule_start Overlap_skip [] [])))"
  using jobs_differ by (simp add: sql_due_jobs_def schedule_start_def chat_start_def due_job_def daily_job_def)

lemma first_insert:
  "sql_claim_run ''occurrence_01ARZ3NDEKTSV4RRFFQ69G5FAV'' (daily_job first_job Overlap_skip Missed_skip 0) 0
     (wdb (fst (schedule_start Overlap_skip [] []))) =
    Inr (Some first_run, wdb (fst (schedule_start Overlap_skip [first_run] [])))"
  by (simp add: sql_claim_run_def occurrence_ok first_run_def schedule_start_def chat_start_def daily_job_def guarded_def)

definition after_claim :: "chat_db world" where
  "after_claim = (fst (schedule_start Overlap_skip [first_run] []))\<lparr>ulids := (\<lambda>n. ulids (fst (schedule_start Overlap_skip [] [])) (Suc n))\<rparr>"


lemma schedule_start_fields [simp]:
  "faults (fst (schedule_start v rs fs)) = fs" "ticks (fst (schedule_start v rs fs)) = []"
  "wclock (fst (schedule_start v rs fs)) = 0" "txn (fst (schedule_start v rs fs)) = None"
  "ulids (fst (schedule_start v rs fs)) 0 = ''occurrence_01ARZ3NDEKTSV4RRFFQ69G5FAV''"
  by (simp_all add: schedule_start_def)


definition first_claimed :: scheduler_claim where
  "first_claimed = claim_of (daily_job first_job Overlap_skip Missed_skip 0) first_run"

lemma first_claimed_simps: "cl_run first_claimed = first_run" "cl_missed first_claimed = Missed_skip"
  by (simp_all add: first_claimed_def claim_of_def daily_job_def)

lemma first_claim:
  "claimDueRuns 9 1 (fst (schedule_start Overlap_skip [] [])) =
     (Inr [first_claimed], after_claim)"
proof -
  let ?w = "fst (schedule_start Overlap_skip [] [])" and ?j = "daily_job first_job Overlap_skip Missed_skip 0"
  let ?u = "?w\<lparr>txn := Some (Active (wdb ?w))\<rparr>"
  let ?i = "''occurrence_01ARZ3NDEKTSV4RRFFQ69G5FAV''"
  let ?v = "?u\<lparr>ulids := (\<lambda>n. ulids ?w (Suc n))\<rparr>"
  have due: "client_query (sql_due_jobs 9 1) ?u = (Inr [?j], ?u)"
    by (subst quiet_client_query [where d = "wdb ?w" and x = "[?j]" and d' = "wdb ?w"]) (simp_all add: first_due [simplified])
  have insert: "client_query (sql_claim_run ?i ?j) ?v =
      (Inr (Some first_run), ?v\<lparr>txn := Some (Active (wdb after_claim))\<rparr>)"
    unfolding after_claim_def by (rule quiet_client_query) (simp_all, rule first_insert)
  have "bindM (client_query (sql_due_jobs 9 1)) claim_jobs ?u =
      (Inr [claim_of ?j first_run], ?v\<lparr>txn := Some (Active (wdb after_claim))\<rparr>)"
    by (simp add: bindM_def due [simplified] fresh_ulid_def insert [simplified] liftE_def first_run_parses ret_def)
  then have "claimDueRuns 9 1 ?w = (Inr [claim_of ?j first_run],
      ?v\<lparr>txn := Some (Active (wdb after_claim))\<rparr>\<lparr>wdb := wdb after_claim, txn := None\<rparr>)"
    unfolding claimDueRuns_def by (rule quiet_transaction [rotated 2]) simp_all
  then show ?thesis by (simp add: first_claimed_def after_claim_def schedule_start_def)
qed

lemma first_completion:
  "completeRun (run_completion_of first_claimed Ro_skipped None None) after_claim =
     (Inr (first_run\<lparr>sr_status := Oc_skipped\<rparr>), after_claim\<lparr>wdb := wdb after_claim\<lparr>ch_runs := [first_run\<lparr>sr_status := Oc_skipped\<rparr>]\<rparr>\<rparr>)"
proof -
  let ?co = "run_completion_of first_claimed Ro_skipped None None"
  have "sql_complete_run ?co (wclock after_claim) (wdb after_claim) =
    Inr (Some (first_run\<lparr>sr_status := Oc_skipped\<rparr>), wdb after_claim\<lparr>ch_runs := [first_run\<lparr>sr_status := Oc_skipped\<rparr>]\<rparr>)"
    by (simp add: sql_complete_run_def run_completion_of_def first_claimed_simps first_run_simps after_claim_def schedule_start_def completable_def open_run_def
      guarded_def completed_run_def coalesce_def first_run_def new_run_def update_where_def)
  then have "pool_query (sql_complete_run ?co) after_claim =
    (Inr (Some (first_run\<lparr>sr_status := Oc_skipped\<rparr>)), after_claim\<lparr>wdb := wdb after_claim\<lparr>ch_runs := [first_run\<lparr>sr_status := Oc_skipped\<rparr>]\<rparr>\<rparr>)"
    by (rule quiet_pool_query [rotated 2]) (simp_all add: after_claim_def)
  moreover have "scheduledRun (first_run\<lparr>sr_status := Oc_skipped\<rparr>) = Inr (first_run\<lparr>sr_status := Oc_skipped\<rparr>)"
    by code_simp
  moreover have "opaqueIdentifierSchema Id_household (co_household ?co)"
    by (simp add: run_completion_of_def first_claimed_simps first_run_simps) code_simp
  ultimately show ?thesis
    by (simp add: completeRun_def bindM_def requireM_def ret_def liftE_def)
qed

lemma round_statuses:
  "map_sum (\<lambda>_. ()) (map sr_status) (fst (dispatchDue sample_scheduler 9 1 (schedule_start Overlap_skip [] []))) =
     Inr [Oc_skipped]"
proof -
  obtain w out where s: "schedule_start Overlap_skip [] [] = (w, out)" by (rule prod.exhaust)
  show ?thesis
    using first_claim first_completion
    by (simp add: s dispatchDue_def bindM_def on_db_def dispatchClaim_def catchM_def first_claimed_simps first_run_simps ret_def)
qed

theorem dispatched_rounds_end_witness:
  "\<exists>rs s'. dispatchDue sample_scheduler 9 1 (schedule_start Overlap_skip [] []) = (Inr rs, s')
     \<and> map sr_status rs = [Oc_skipped]
     \<and> (\<exists>old new. ch_runs (wdb (fst s')) = old @ new
        \<and> list_all2 run_moved (ch_runs (wdb (fst (schedule_start Overlap_skip [] [])))) old
        \<and> map sr_occurrence new = map sr_occurrence rs \<and> set rs \<subseteq> set (ch_runs (wdb (fst s')))
        \<and> list_all (\<lambda>r. \<not> open_run r) new)"
proof -
  obtain y s' where run: "dispatchDue sample_scheduler 9 1 (schedule_start Overlap_skip [] []) = (y, s')"
    by (rule prod.exhaust)
  then obtain rs where y: "y = Inr rs" "map sr_status rs = [Oc_skipped]"
    using round_statuses by (cases y) simp_all
  from dispatched_rounds_end [OF schedule_start_good run [unfolded y(1)]] show ?thesis
    using run y by (intro exI [of _ rs], intro exI [of _ s'], intro conjI) simp_all
qed

definition one_claim :: scheduler_claim where
  "one_claim = claim_of (daily_job first_job Overlap_skip Missed_run_once 0)
     (new_run ''occurrence_01ARZ3NDEKTSV4RRFFQ69G5FAV'' (daily_job first_job Overlap_skip Missed_run_once 0) 0)"

definition claimed_state :: chat_state where
  "claimed_state = (let (w, out) = schedule_start Overlap_skip [cl_run one_claim] []
     in (w\<lparr>ulids := (\<lambda>n. ''01ARZ3NDEKTSV4RRFFQ69G5FAV'')\<rparr>, out))"

lemma claimed_state_good: "delivery_ready claimed_state" "runs_ok (wdb (fst claimed_state))"
  using jobs_differ
  by (simp_all add: claimed_state_def one_claim_def delivery_ready_def schedule_start_def chat_start_def
      unique_on_def runs_ok_def daily_job_def)

lemma dispatched_status:
  "map_sum (\<lambda>_. ()) sr_status (fst (dispatchClaim sample_scheduler one_claim 9 claimed_state)) = Inr Oc_succeeded"
  by code_simp

theorem succeeded_runs_were_delivered_witness:
  "\<exists>r s'. dispatchClaim sample_scheduler one_claim 9 claimed_state = (Inr r, s')
     \<and> (\<exists>d \<in> set (stored_deliveries s'). dr_status d = Dl_delivered \<and> sr_delivery r = Some (dr_id d))"
proof -
  obtain y s' where run: "dispatchClaim sample_scheduler one_claim 9 claimed_state = (y, s')"
    by (rule prod.exhaust)
  then obtain r where y: "y = Inr r" "sr_status r = Oc_succeeded"
    using dispatched_status by (cases y) simp_all
  from succeeded_runs_were_delivered [OF claimed_state_good run [unfolded y(1)]] show ?thesis
    using run y by blast
qed

text \<open>The first job has run, the second has not, and there is room for one.\<close>

definition starved :: "chat_db world" where
  "starved = fst (schedule_start Overlap_allow
     [(new_run ''occurrence_01ARZ3NDEKTSV4RRFFQ69G5FAV'' (daily_job first_job Overlap_allow Missed_skip 0) 0)\<lparr>sr_status := Oc_succeeded\<rparr>] [])"


text \<open>Two occurrences that one call of \<open>claimDueRuns\<close> has claimed.\<close>

definition claimed_pair :: "scheduler_claim list" where
  "claimed_pair =
    [claim_of (daily_job first_job Overlap_skip Missed_skip 0)
       (new_run ''occurrence_01ARZ3NDEKTSV4RRFFQ69G5FAV'' (daily_job first_job Overlap_skip Missed_skip 0) 0),
     claim_of (daily_job second_job Overlap_skip Missed_skip 5)
       (new_run ''occurrence_01ARZ3NDEKTSV4RRFFQ69G5FAW'' (daily_job second_job Overlap_skip Missed_skip 5) 0)]"


end
