(* ===== verification/Scripts.thy ===== *)
theory Scripts
  imports CommandRegistry
begin

text \<open>
  Programs of the handlers: sequencing and \<open>try ... catch (error) { throw f(error) }\<close> on scripts,
  and a rule for every construct to prove what a script answers and leaves in the tables.
\<close>

primrec script_bind :: "('q, 'a) script \<Rightarrow> ('a \<Rightarrow> ('q, 'b) script) \<Rightarrow> ('q, 'b) script" where
  "script_bind (Done x) f = f x"
| "script_bind (Throw e) f = Throw e"
| "script_bind (Query q g k) f = Query q g (\<lambda>j. script_bind (k j) f)"

primrec caught :: "(exn \<Rightarrow> exn) \<Rightarrow> ('q, 'a) script \<Rightarrow> ('q, 'a) script" where
  "caught h (Done x) = Done x"
| "caught h (Throw e) = Throw (h e)"
| "caught h (Query q g k) = Query q (\<lambda>e. h (g e)) (\<lambda>j. caught h (k j))"

definition query :: "'q \<Rightarrow> ('q, json) script" where
  "query q = Query q (\<lambda>e. e) Done"

definition demand :: "bool \<Rightarrow> exn \<Rightarrow> ('q, unit) script" where
  "demand b e = (if b then Done () else Throw e)"

text \<open>\<open>for (const x of xs) ...\<close>, collecting the answers.\<close>

fun each :: "('x \<Rightarrow> ('q, 'a) script) \<Rightarrow> 'x list \<Rightarrow> ('q, 'a list) script" where
  "each f [] = Done []"
| "each f (x # xs) = script_bind (f x) (\<lambda>y. script_bind (each f xs) (\<lambda>ys. Done (y # ys)))"

text \<open>Statements of a domain: a query reads its tables, and an error leaves them.\<close>

definition select :: "('d \<Rightarrow> json) \<Rightarrow> ('d, json) statement" where
  "select p t d = Inr (p d, d)"

definition violated :: "string \<Rightarrow> string \<Rightarrow> exn" where
  "violated c k = pg_constraint_failure c k"

text \<open>Constraints, each with its SQLSTATE and name: the first that is violated is the error.\<close>

fun first_violation :: "(bool \<times> string \<times> string) list \<Rightarrow> exn option" where
  "first_violation [] = None"
| "first_violation ((bad, c, k) # cs) = (if bad then Some (violated c k) else first_violation cs)"

definition insert_if :: "(bool \<times> string \<times> string) list \<Rightarrow> json \<Rightarrow> 'd \<Rightarrow> exn + (json \<times> 'd)" where
  "insert_if cs answer d = (case first_violation cs of Some e \<Rightarrow> Inl e | None \<Rightarrow> Inr (answer, d))"

lemma first_violation_None: "first_violation cs = None \<longleftrightarrow> (\<forall>c \<in> set cs. \<not> fst c)"
  by (induction cs rule: first_violation.induct) auto

lemma insert_if_Inr: "insert_if cs answer d = Inr (j, d') \<longleftrightarrow> (\<forall>c \<in> set cs. \<not> fst c) \<and> j = answer \<and> d' = d"
  by (auto simp: insert_if_def first_violation_None [symmetric] split: option.splits)

section \<open>What a script answers\<close>

definition yields :: "(('d, json) statement, 'a) script \<Rightarrow> ('a \<Rightarrow> 'd \<Rightarrow> bool) \<Rightarrow> 'd \<Rightarrow> bool" where
  "yields s Q d \<longleftrightarrow> (\<forall>x d'. script_result s d x d' \<longrightarrow> Q x d')"

inductive_cases script_done_cases: "script_result (Done x) d y d'"
inductive_cases script_throw_cases: "script_result (Throw e) d y d'"
inductive_cases script_query_cases: "script_result (Query q g k) d y d'"

lemma yieldsD: "yields s Q d \<Longrightarrow> script_result s d x d' \<Longrightarrow> Q x d'"
  by (simp add: yields_def)

lemma yields_done: "Q x d \<Longrightarrow> yields (Done x) Q d"
  by (auto simp: yields_def elim: script_done_cases)

lemma yields_throw: "yields (Throw e) Q d"
  by (auto simp: yields_def elim: script_throw_cases)

lemma yields_Query:
  "(\<And>t j d'. q t d = Inr (j, d') \<Longrightarrow> yields (k j) Q d') \<Longrightarrow> yields (Query q g k) Q d"
  by (fastforce simp: yields_def elim: script_query_cases)

lemma yields_query: "(\<And>t j d'. q t d = Inr (j, d') \<Longrightarrow> Q j d') \<Longrightarrow> yields (query q) Q d"
  unfolding query_def by (rule yields_Query, rule yields_done)

lemma yields_select: "Q (p d) d \<Longrightarrow> yields (query (select p)) Q d"
  by (rule yields_query) (simp add: select_def)

lemma yields_mono: "yields s P d \<Longrightarrow> (\<And>x d'. P x d' \<Longrightarrow> Q x d') \<Longrightarrow> yields s Q d"
  by (simp add: yields_def)

lemma yields_demand: "(b \<Longrightarrow> Q () d) \<Longrightarrow> yields (demand b e) Q d"
  by (auto simp: demand_def intro: yields_done yields_throw)

lemma script_bind_result:
  "script_result (script_bind s f) d y d'' \<longleftrightarrow> (\<exists>x d'. script_result s d x d' \<and> script_result (f x) d' y d'')"
proof
  show "script_result (script_bind s f) d y d'' \<Longrightarrow> \<exists>x d'. script_result s d x d' \<and> script_result (f x) d' y d''"
  proof (induction s arbitrary: d)
    case (Query q g k)
    from Query.prems obtain t j d' where
      "q t d = Inr (j, d')" "script_result (script_bind (k j) f) d' y d''"
      by (auto elim: script_query_cases)
    then show ?case using Query.IH [OF rangeI] by (blast intro: script_query)
  qed (auto intro: script_done elim: script_throw_cases)
  show "\<exists>x d'. script_result s d x d' \<and> script_result (f x) d' y d'' \<Longrightarrow> script_result (script_bind s f) d y d''"
  proof (induction s arbitrary: d)
    case (Query q g k)
    then obtain x d' where s: "script_result (Query q g k) d x d'" "script_result (f x) d' y d''" by blast
    from s(1) obtain t j d1 where q: "q t d = Inr (j, d1)" "script_result (k j) d1 x d'"
      by (auto elim: script_query_cases)
    have "script_result (script_bind (k j) f) d1 y d''" using Query.IH [OF rangeI] q(2) s(2) by blast
    with q(1) show ?case unfolding script_bind.simps by (rule script_query)
  qed (auto elim: script_done_cases script_throw_cases)
qed

lemma script_caught_result: "script_result (caught h s) d x d' \<longleftrightarrow> script_result s d x d'"
proof
  show "script_result (caught h s) d x d' \<Longrightarrow> script_result s d x d'"
  proof (induction s arbitrary: d)
    case (Query q g k)
    from Query.prems obtain t j d1 where "q t d = Inr (j, d1)" "script_result (caught h (k j)) d1 x d'"
      by (auto elim: script_query_cases)
    then show ?case using Query.IH [OF rangeI] by (blast intro: script_query)
  qed (auto elim: script_throw_cases)
  show "script_result s d x d' \<Longrightarrow> script_result (caught h s) d x d'"
  proof (induction s arbitrary: d)
    case (Query q g k)
    from Query.prems obtain t j d1 where q: "q t d = Inr (j, d1)" "script_result (k j) d1 x d'"
      by (auto elim: script_query_cases)
    then have "script_result (caught h (k j)) d1 x d'" using Query.IH [OF rangeI] by blast
    with q(1) show ?case unfolding caught.simps by (rule script_query)
  qed (auto elim: script_throw_cases)
qed

lemma yields_bind: "yields s (\<lambda>x. yields (f x) Q) d \<Longrightarrow> yields (script_bind s f) Q d"
  unfolding yields_def script_bind_result by blast

lemma yields_caught: "yields s Q d \<Longrightarrow> yields (caught h s) Q d"
  by (simp add: yields_def script_caught_result)

lemma yields_each:
  assumes "I [] [] d"
    and "\<And>pre x suf ys d'. xs = pre @ x # suf \<Longrightarrow> I pre ys d' \<Longrightarrow> yields (f x) (\<lambda>y. I (pre @ [x]) (ys @ [y])) d'"
  shows "yields (each f xs) (I xs) d"
proof -
  have "yields (each f suf) (\<lambda>zs. I xs (ys @ zs)) d'" if "xs = pre @ suf" "I pre ys d'" for pre suf ys d'
    using that
  proof (induction suf arbitrary: pre ys d')
    case Nil
    then show ?case by (simp add: yields_done)
  next
    case (Cons x suf)
    have "yields (each f suf) (\<lambda>zs. yields (Done (y # zs)) (\<lambda>zs. I xs (ys @ zs))) d2"
      if "I (pre @ [x]) (ys @ [y]) d2" for y d2
      by (rule yields_mono [OF Cons.IH [of "pre @ [x]"]]) (use Cons.prems that in \<open>auto intro: yields_done\<close>)
    moreover have "yields (f x) (\<lambda>y. I (pre @ [x]) (ys @ [y])) d'" using Cons.prems assms(2) by simp
    ultimately show ?case
      unfolding each.simps by (intro yields_bind) (erule yields_mono, rule yields_bind)
  qed
  from this [of "[]" xs "[]"] assms(1) show ?thesis by simp
qed

lemmas yields_rules = yields_done yields_throw yields_bind yields_caught yields_demand yields_select

section \<open>Evaluation\<close>

text \<open>One run without faults at a fixed time.\<close>

primrec play :: "(('d, json) statement, 'a) script \<Rightarrow> nat \<Rightarrow> 'd \<Rightarrow> exn + ('a \<times> 'd)" where
  "play (Done x) t d = Inr (x, d)"
| "play (Throw e) t d = Inl e"
| "play (Query q g k) t d = (case q t d of Inl e \<Rightarrow> Inl (g e) | Inr (j, d') \<Rightarrow> play (k j) t d')"

lemma play_result: "play s t d = Inr (x, d') \<Longrightarrow> script_result s d x d'"
  by (induction s arbitrary: d) (auto intro: script_done script_query split: sum.splits)

lemma play_bind:
  "play (script_bind s f) t d = (case play s t d of Inl e \<Rightarrow> Inl e | Inr (x, d') \<Rightarrow> play (f x) t d')"
  by (induction s arbitrary: d) (auto split: sum.splits)

lemma play_caught: "play (caught h s) t d = (case play s t d of Inl e \<Rightarrow> Inl (h e) | Inr r \<Rightarrow> Inr r)"
  by (induction s arbitrary: d) (auto split: sum.splits)

lemma play_query: "play (query q) t d = q t d"
  by (auto simp: query_def split: sum.splits)

end
