(* ===== verification/Amounts.thy ===== *)
theory Amounts
  imports Contracts Decimals Complex_Main "HOL-Library.Code_Target_Nat"
begin

text \<open>
  Exact decimal arithmetic on strings: packages/accounting/src/amounts.ts. An amount is aligned to
  a common scale, becomes a \<open>BigInt\<close> and is rendered again; the value of a decimal string as a
  rational number is the reference.
\<close>

datatype posting_direction = Debit | Credit

section \<open>The code\<close>

record decimal_parts =
  dp_negative :: bool
  dp_integer :: string
  dp_fraction :: string

text \<open>\<open>replace(/^0+(?=\d)/, '')\<close> on a string of digits.\<close>

fun strip_zeros :: "string \<Rightarrow> string" where
  "strip_zeros (c # d # s) = (if c = CHR ''0'' then strip_zeros (d # s) else c # d # s)"
| "strip_zeros s = s"

text \<open>\<open>/^(-?)(\d+)(?:\.(\d+))?$/\<close>; \<open>None\<close> is the \<open>TypeError\<close>.\<close>

definition decimal_parts_of :: "string \<Rightarrow> decimal_parts option" where
  "decimal_parts_of s =
    (let negative = (case s of c # _ \<Rightarrow> c = CHR ''-'' | [] \<Rightarrow> False);
         body = (if negative then tl s else s);
         digits = takeWhile is_decimal_digit body;
         rest = dropWhile is_decimal_digit body
     in if digits = [] then None
        else (case rest of
            [] \<Rightarrow> Some \<lparr>dp_negative = negative, dp_integer = strip_zeros digits, dp_fraction = []\<rparr>
          | c # f \<Rightarrow>
              if c = CHR ''.'' \<and> f \<noteq> [] \<and> list_all is_decimal_digit f
              then Some \<lparr>dp_negative = negative, dp_integer = strip_zeros digits, dp_fraction = f\<rparr>
              else None))"

definition parts :: "string \<Rightarrow> exn + decimal_parts" where
  "parts s = (case decimal_parts_of s of
      None \<Rightarrow> Inl (JsError ''Expected a canonical decimal string'')
    | Some p \<Rightarrow> Inr p)"

definition aligned_parts :: "nat \<Rightarrow> decimal_parts \<Rightarrow> int" where
  "aligned_parts scale p =
    (let magnitude = int (read_decimal
       (dp_integer p @ dp_fraction p @ replicate (scale - length (dp_fraction p)) (CHR ''0'')))
     in if dp_negative p then - magnitude else magnitude)"

definition aligned :: "string \<Rightarrow> nat \<Rightarrow> exn + int" where
  "aligned s scale = map_sum id (aligned_parts scale) (parts s)"

definition format_decimal :: "int \<Rightarrow> nat \<Rightarrow> string" where
  "format_decimal v scale =
    (let raw = decimal (nat (abs v));
         digits = replicate (scale + 1 - length raw) (CHR ''0'') @ raw;
         cut = length digits - scale;
         rendered = (if scale = 0 then digits else take cut digits @ ''.'' @ drop cut digits)
     in (if v < 0 then ''-'' else []) @ rendered)"

definition compareDecimalStrings :: "string \<Rightarrow> string \<Rightarrow> exn + int" where
  "compareDecimalStrings l r =
    (case (parts l, parts r) of
       (Inr p, Inr q) \<Rightarrow>
         let scale = max (length (dp_fraction p)) (length (dp_fraction q));
             difference = aligned_parts scale p - aligned_parts scale q
         in Inr (if difference < 0 then -1 else if 0 < difference then 1 else 0)
     | (Inl e, _) \<Rightarrow> Inl e
     | (_, Inl e) \<Rightarrow> Inl e)"

definition negateDecimalString :: "string \<Rightarrow> string" where
  "negateDecimalString s = (if take 1 s = ''-'' then drop 1 s else CHR ''-'' # s)"

fun all_parts :: "string list \<Rightarrow> exn + decimal_parts list" where
  "all_parts [] = Inr []"
| "all_parts (s # ss) =
    (case parts s of
       Inl e \<Rightarrow> Inl e
     | Inr p \<Rightarrow> (case all_parts ss of Inl e \<Rightarrow> Inl e | Inr ps \<Rightarrow> Inr (p # ps)))"

fun side_total :: "nat \<Rightarrow> posting_direction \<Rightarrow> (posting_direction \<times> decimal_parts) list \<Rightarrow> int" where
  "side_total scale side [] = 0"
| "side_total scale side ((d, p) # ps) =
    (if d = side then aligned_parts scale p else 0) + side_total scale side ps"

definition sumSignedPostings :: "(posting_direction \<times> string) list \<Rightarrow> exn + (string \<times> string)" where
  "sumSignedPostings ps =
    (case all_parts (map snd ps) of
       Inl e \<Rightarrow> Inl e
     | Inr qs \<Rightarrow>
         let scale = foldl (\<lambda>m q. max m (length (dp_fraction q))) 0 qs;
             sides = zip (map fst ps) qs
         in Inr (format_decimal (side_total scale Debit sides) scale,
                 format_decimal (side_total scale Credit sides) scale))"

section \<open>Values\<close>

definition parts_value :: "decimal_parts \<Rightarrow> rat" where
  "parts_value p =
    (if dp_negative p then -1 else 1) * of_nat (read_decimal (dp_integer p @ dp_fraction p)) / 10 ^ length (dp_fraction p)"

definition is_decimal :: "string \<Rightarrow> bool" where
  "is_decimal s \<longleftrightarrow> decimal_parts_of s \<noteq> None"

definition decimal_value :: "string \<Rightarrow> rat" where
  "decimal_value s = (case decimal_parts_of s of None \<Rightarrow> 0 | Some p \<Rightarrow> parts_value p)"

lemma read_decimal_from: "foldl (\<lambda>n c. 10 * n + digit_value c) a s = a * 10 ^ length s + read_decimal s"
  by (induction s rule: rev_induct) (simp_all add: read_decimal_def)

lemma read_decimal_append: "read_decimal (s @ t) = read_decimal s * 10 ^ length t + read_decimal t"
  using read_decimal_from [of "read_decimal s" t] by (simp add: read_decimal_def)

lemma read_decimal_zeros [simp]: "read_decimal (replicate n (CHR ''0'')) = 0"
  by (induction n) (simp_all add: read_decimal_def digit_value_def)

lemma read_decimal_append_zeros:
  "read_decimal (s @ replicate n (CHR ''0'')) = read_decimal s * 10 ^ n"
  by (simp add: read_decimal_append)

lemma aligned_parts_value:
  assumes "length (dp_fraction p) \<le> scale"
  shows "of_int (aligned_parts scale p) = parts_value p * 10 ^ scale"
proof -
  let ?n = "scale - length (dp_fraction p)"
  have "read_decimal (dp_integer p @ dp_fraction p @ replicate ?n (CHR ''0'')) =
      read_decimal (dp_integer p @ dp_fraction p) * 10 ^ ?n"
    using read_decimal_append_zeros [of "dp_integer p @ dp_fraction p"] by simp
  moreover have "(10::rat) ^ scale = 10 ^ ?n * 10 ^ length (dp_fraction p)"
    using assms by (simp flip: power_add)
  ultimately show ?thesis
    by (simp add: aligned_parts_def parts_value_def Let_def)
qed

lemma strip_zeros_value: "read_decimal (strip_zeros s @ t) = read_decimal (s @ t)"
  by (induction s arbitrary: t rule: strip_zeros.induct) (auto simp: read_decimal_def digit_value_def)

lemma aligned_value:
  assumes "decimal_parts_of s = Some p" and "length (dp_fraction p) \<le> scale"
  shows "of_int (aligned_parts scale p) = decimal_value s * 10 ^ scale"
  using assms aligned_parts_value by (simp add: decimal_value_def)

text \<open>Rendering and reading back.\<close>

lemma decimal_parts_of_digits:
  assumes "list_all is_decimal_digit ds" and "ds \<noteq> []"
    and "f = [] \<or> (\<exists>g. f = CHR ''.'' # g \<and> g \<noteq> [] \<and> list_all is_decimal_digit g)"
  shows "decimal_parts_of ((if b then ''-'' else []) @ ds @ f) =
    Some \<lparr>dp_negative = b, dp_integer = strip_zeros ds, dp_fraction = drop 1 f\<rparr>"
proof -
  obtain c ds' where ds: "ds = c # ds'" using assms(2) by (cases ds) auto
  have "c \<noteq> CHR ''-''" using assms(1) by (auto simp: ds is_decimal_digit_def)
  moreover have all: "\<forall>x \<in> set ds. is_decimal_digit x" using assms(1) by (simp add: list_all_iff)
  moreover have point: "\<not> is_decimal_digit (CHR ''.'')" by (simp add: is_decimal_digit_def)
  have "takeWhile is_decimal_digit (ds @ f) = ds" "dropWhile is_decimal_digit (ds @ f) = f"
    using all point assms(3) by (auto simp: takeWhile_append dropWhile_append)
  ultimately show ?thesis
    using assms(2,3) by (auto simp: decimal_parts_of_def ds)
qed

definition decimal_digits :: "int \<Rightarrow> nat \<Rightarrow> string" where
  "decimal_digits v scale =
    (let raw = decimal (nat (abs v)) in replicate (scale + 1 - length raw) (CHR ''0'') @ raw)"

lemma decimal_digits_props:
  "scale < length (decimal_digits v scale)" "list_all is_decimal_digit (decimal_digits v scale)"
  "read_decimal (decimal_digits v scale) = nat (abs v)"
proof -
  have "is_decimal_digit (CHR ''0'')" by (simp add: is_decimal_digit_def)
  moreover have "decimal (nat (abs v)) \<noteq> []" by simp
  ultimately show "scale < length (decimal_digits v scale)" "list_all is_decimal_digit (decimal_digits v scale)"
    using decimal_digits by (auto simp: decimal_digits_def Let_def list_all_iff)
  show "read_decimal (decimal_digits v scale) = nat (abs v)"
    by (simp add: decimal_digits_def Let_def read_decimal_append)
qed

lemma format_decimal_parts:
  "decimal_parts_of (format_decimal v scale) =
    Some \<lparr>dp_negative = v < 0,
      dp_integer = strip_zeros (take (length (decimal_digits v scale) - scale) (decimal_digits v scale)),
      dp_fraction = drop (length (decimal_digits v scale) - scale) (decimal_digits v scale)\<rparr>"
proof -
  let ?ds = "decimal_digits v scale"
  note ds = decimal_digits_props [where v = v and scale = scale]
  have taken: "list_all is_decimal_digit (take n ?ds)" "list_all is_decimal_digit (drop n ?ds)" for n
    using ds(2) by (auto simp: list_all_iff dest: in_set_takeD in_set_dropD)
  show ?thesis
  proof (cases "scale = 0")
    case True
    then have "format_decimal v scale = (if v < 0 then ''-'' else []) @ ?ds @ []"
      by (simp add: format_decimal_def decimal_digits_def Let_def)
    then show ?thesis
      using decimal_parts_of_digits [of ?ds "[]" "v < 0"] ds True by auto
  next
    case False
    let ?cut = "length ?ds - scale"
    have "format_decimal v scale = (if v < 0 then ''-'' else []) @ take ?cut ?ds @ (CHR ''.'' # drop ?cut ?ds)"
      using False by (simp add: format_decimal_def decimal_digits_def Let_def)
    moreover have "take ?cut ?ds \<noteq> []" "drop ?cut ?ds \<noteq> []" using ds(1) False by auto
    ultimately show ?thesis
      using decimal_parts_of_digits [of "take ?cut ?ds" "CHR ''.'' # drop ?cut ?ds" "v < 0"] taken by auto
  qed
qed

lemma format_decimal_value:
  "is_decimal (format_decimal v scale)" "decimal_value (format_decimal v scale) = of_int v / 10 ^ scale"
proof -
  note ds = decimal_digits_props [where v = v and scale = scale]
  show "is_decimal (format_decimal v scale)" by (simp add: is_decimal_def format_decimal_parts)
  have "(of_nat (nat \<bar>v\<bar>) :: rat) = of_int \<bar>v\<bar>" by simp
  then show "decimal_value (format_decimal v scale) = of_int v / 10 ^ scale"
    using ds(1,3) by (simp add: decimal_value_def format_decimal_parts parts_value_def strip_zeros_value)
qed

section \<open>The arithmetic is exact\<close>

lemma all_parts_Inr:
  "list_all is_decimal ss \<Longrightarrow> \<exists>qs. all_parts ss = Inr qs \<and> list_all2 (\<lambda>s q. decimal_parts_of s = Some q) ss qs"
proof (induction ss)
  case (Cons s ss)
  then obtain p qs where "decimal_parts_of s = Some p" "all_parts ss = Inr qs"
    "list_all2 (\<lambda>s q. decimal_parts_of s = Some q) ss qs"
    by (auto simp: is_decimal_def)
  then show ?case by (auto simp: parts_def)
qed simp

lemma scale_bounds:
  "k \<le> foldl (\<lambda>m q. max m (length (dp_fraction q))) k qs"
  "q \<in> set qs \<Longrightarrow> length (dp_fraction q) \<le> foldl (\<lambda>m q. max m (length (dp_fraction q))) k qs"
proof (induction qs arbitrary: k)
  case (Cons p qs)
  { case 1 show ?case using Cons.IH(1) [of "max k (length (dp_fraction p))"] by simp }
  { case 2 then show ?case
      using Cons.IH(1) [of "max k (length (dp_fraction p))"] Cons.IH(2) [of "max k (length (dp_fraction p))"] by auto }
qed simp_all

lemma side_total_value:
  "list_all2 (\<lambda>s q. decimal_parts_of s = Some q) (map snd ps) qs \<Longrightarrow>
   (\<forall>q \<in> set qs. length (dp_fraction q) \<le> scale) \<Longrightarrow>
   of_int (side_total scale side (zip (map fst ps) qs)) =
     (\<Sum>(d, s) \<leftarrow> ps. if d = side then decimal_value s else 0) * 10 ^ scale"
proof (induction ps arbitrary: qs)
  case (Cons p ps)
  obtain d s where p: "p = (d, s)" by (cases p)
  obtain q qs' where qs: "qs = q # qs'" and q: "decimal_parts_of s = Some q"
    and rest: "list_all2 (\<lambda>s q. decimal_parts_of s = Some q) (map snd ps) qs'"
    using Cons.prems(1) by (auto simp: p list_all2_Cons1)
  have "of_int (aligned_parts scale q) = decimal_value s * 10 ^ scale"
    using q Cons.prems(2) by (intro aligned_value) (auto simp: qs)
  then show ?case
    using Cons.IH [OF rest] Cons.prems(2) by (auto simp: p qs algebra_simps)
qed simp

lemma scaled_sign:
  assumes "(of_int x :: rat) = y * 10 ^ k"
  shows "x < 0 \<longleftrightarrow> y < 0" and "0 < x \<longleftrightarrow> 0 < y"
proof -
  have "(of_int x :: rat) < 0 \<longleftrightarrow> y < 0" "0 < (of_int x :: rat) \<longleftrightarrow> 0 < y"
    unfolding assms by (simp_all add: mult_less_0_iff zero_less_mult_iff)
  then show "x < 0 \<longleftrightarrow> y < 0" "0 < x \<longleftrightarrow> 0 < y" by simp_all
qed

lemma compare_is_exact:
  assumes "is_decimal l" and "is_decimal r"
  shows "compareDecimalStrings l r =
      Inr (if decimal_value l < decimal_value r then -1 else if decimal_value r < decimal_value l then 1 else 0)"
proof -
  obtain p q where pq: "decimal_parts_of l = Some p" "decimal_parts_of r = Some q"
    using assms by (auto simp: is_decimal_def)
  let ?k = "max (length (dp_fraction p)) (length (dp_fraction q))"
  have "of_int (aligned_parts ?k p - aligned_parts ?k q) = (decimal_value l - decimal_value r) * 10 ^ ?k"
    using aligned_value [OF pq(1), of ?k] aligned_value [OF pq(2), of ?k] by (simp add: algebra_simps)
  from scaled_sign [OF this] show ?thesis
    using pq by (simp add: compareDecimalStrings_def parts_def Let_def)
qed

lemma sums_are_exact:
  assumes "list_all (is_decimal \<circ> snd) ps"
  shows "\<exists>d c. sumSignedPostings ps = Inr (d, c) \<and> is_decimal d \<and> is_decimal c
      \<and> decimal_value d = (\<Sum>(side, s) \<leftarrow> ps. if side = Debit then decimal_value s else 0)
      \<and> decimal_value c = (\<Sum>(side, s) \<leftarrow> ps. if side = Credit then decimal_value s else 0)"
proof -
  obtain qs where qs: "all_parts (map snd ps) = Inr qs"
      "list_all2 (\<lambda>s q. decimal_parts_of s = Some q) (map snd ps) qs"
    using all_parts_Inr [of "map snd ps"] assms by (auto simp: list_all_iff)
  let ?k = "foldl (\<lambda>m q. max m (length (dp_fraction q))) 0 qs"
  have "of_int (side_total ?k side (zip (map fst ps) qs)) / 10 ^ ?k =
      (\<Sum>(d, s) \<leftarrow> ps. if d = side then decimal_value s else 0)" for side
    using side_total_value [OF qs(2), of ?k side] scale_bounds(2) [of _ qs 0] by auto
  then show ?thesis
    using qs(1) by (simp add: sumSignedPostings_def Let_def format_decimal_value)
qed



end
