(* ===== verification/AccountingContracts.thy ===== *)
theory AccountingContracts
  imports Amounts Schemas
begin

text \<open>
  The contracts of the ledger: packages/contracts/src/accounting.ts, money.ts and the dates of
  time.ts, and the proposals of packages/accounting/src/team/contracts.ts that the journal handler
  executes. A record is what \<open>parse\<close> returns; its schema is a predicate, and the shape of the JSON is
  a decoder, so that \<open>parse\<close> is the decoder followed by the predicate. Literal fields are checked by
  the decoder and left out of the records.
\<close>

section \<open>Amounts, currencies, dates\<close>

text \<open>\<open>/^-?(?:0|[1-9]\d*)(?:\.\d+)?$/\<close>, and the refinements of accounting.ts.\<close>

definition DecimalStringSchema :: "string \<Rightarrow> bool" where
  "DecimalStringSchema s \<longleftrightarrow>
     (let body = (if take 1 s = ''-'' then drop 1 s else s); digits = takeWhile is_decimal_digit body
      in is_decimal s \<and> (digits = ''0'' \<or> take 1 digits \<noteq> ''0''))"

definition NonNegativeAmountStringSchema :: "string \<Rightarrow> bool" where
  "NonNegativeAmountStringSchema s \<longleftrightarrow> DecimalStringSchema s \<and> take 1 s \<noteq> ''-''"

definition PositiveAmountStringSchema :: "string \<Rightarrow> bool" where
  "PositiveAmountStringSchema s \<longleftrightarrow>
     NonNegativeAmountStringSchema s \<and> \<not> list_all (\<lambda>c. c = CHR ''0'' \<or> c = CHR ''.'') s"

definition CurrencyCodeSchema :: "string \<Rightarrow> bool" where
  "CurrencyCodeSchema s = (case s of [] \<Rightarrow> False
    | c # cs \<Rightarrow> char_in (CHR ''A'') (CHR ''Z'') c \<and> 2 \<le> length cs \<and> length cs \<le> 11
        \<and> list_all (\<lambda>d. char_in (CHR ''A'') (CHR ''Z'') d \<or> is_digit d) cs)"

definition days_in_month :: "nat \<Rightarrow> nat \<Rightarrow> nat" where
  "days_in_month y m =
    (if m = 2 then (if y mod 4 = 0 \<and> (y mod 100 \<noteq> 0 \<or> y mod 400 = 0) then 29 else 28)
     else if m \<in> {4, 6, 9, 11} then 30 else 31)"

text \<open>A real date; \<open>Date.UTC\<close> reads the years below 100 as years of the twentieth century.\<close>

definition LocalDateSchema :: "string \<Rightarrow> bool" where
  "LocalDateSchema s \<longleftrightarrow>
     (let ys = take 4 s; ms = take 2 (drop 5 s); ds = drop 8 s;
          y = read_decimal ys; m = read_decimal ms; d = read_decimal ds
      in length s = 10 \<and> list_all is_decimal_digit (ys @ ms @ ds) \<and> s ! 4 = CHR ''-'' \<and> s ! 7 = CHR ''-''
         \<and> 100 \<le> y \<and> 1 \<le> m \<and> m \<le> 12 \<and> 1 \<le> d \<and> d \<le> days_in_month y m)"

section \<open>Enumerations\<close>

datatype accounting_class = Cl_asset | Cl_liability | Cl_equity | Cl_income | Cl_expense
datatype journal_type =
  Jt_ordinary | Jt_transfer | Jt_reversal | Jt_replacement | Jt_adjustment | Jt_fx_realized
datatype rate_quote = Native_per_transaction | Transaction_per_native

fun direction_name :: "posting_direction \<Rightarrow> string" where
  "direction_name Debit = ''debit''"
| "direction_name Credit = ''credit''"

fun opposite :: "posting_direction \<Rightarrow> posting_direction" where
  "opposite Debit = Credit"
| "opposite Credit = Debit"

fun class_name :: "accounting_class \<Rightarrow> string" where
  "class_name Cl_asset = ''asset''"
| "class_name Cl_liability = ''liability''"
| "class_name Cl_equity = ''equity''"
| "class_name Cl_income = ''income''"
| "class_name Cl_expense = ''expense''"

fun journal_type_name :: "journal_type \<Rightarrow> string" where
  "journal_type_name Jt_ordinary = ''ordinary''"
| "journal_type_name Jt_transfer = ''transfer''"
| "journal_type_name Jt_reversal = ''reversal''"
| "journal_type_name Jt_replacement = ''replacement''"
| "journal_type_name Jt_adjustment = ''adjustment''"
| "journal_type_name Jt_fx_realized = ''fx_realized''"

fun quote_name :: "rate_quote \<Rightarrow> string" where
  "quote_name Native_per_transaction = ''native_per_transaction''"
| "quote_name Transaction_per_native = ''transaction_per_native''"

text \<open>\<open>z.enum\<close>: the value with that name.\<close>

definition by_name :: "('a \<Rightarrow> string) \<Rightarrow> 'a list \<Rightarrow> json \<Rightarrow> 'a option" where
  "by_name name vs j = Option.bind (json_string j) (\<lambda>s. find (\<lambda>v. name v = s) vs)"

definition direction_of :: "json \<Rightarrow> posting_direction option" where
  "direction_of = by_name direction_name [Debit, Credit]"

definition class_of_json :: "json \<Rightarrow> accounting_class option" where
  "class_of_json = by_name class_name [Cl_asset, Cl_liability, Cl_equity, Cl_income, Cl_expense]"

definition journal_type_of :: "json \<Rightarrow> journal_type option" where
  "journal_type_of = by_name journal_type_name
    [Jt_ordinary, Jt_transfer, Jt_reversal, Jt_replacement, Jt_adjustment, Jt_fx_realized]"

definition quote_of :: "json \<Rightarrow> rate_quote option" where
  "quote_of = by_name quote_name [Native_per_transaction, Transaction_per_native]"

lemma names_round_trip [simp]:
  "direction_of (JStr (direction_name d)) = Some d" "class_of_json (JStr (class_name c)) = Some c"
  "journal_type_of (JStr (journal_type_name t)) = Some t" "quote_of (JStr (quote_name q)) = Some q"
  by (cases d; cases c; cases t; cases q;
      simp add: direction_of_def class_of_json_def journal_type_of_def quote_of_def by_name_def json_string_def)+

section \<open>Fields\<close>

definition opt_pair :: "string \<Rightarrow> ('a \<Rightarrow> json) \<Rightarrow> 'a option \<Rightarrow> (string \<times> json) list" where
  "opt_pair k f v = (case v of None \<Rightarrow> [] | Some x \<Rightarrow> [(k, f x)])"

definition need :: "string \<Rightarrow> (json \<Rightarrow> 'a option) \<Rightarrow> json \<Rightarrow> 'a option" where
  "need k p j = Option.bind (json_field k j) p"

definition may :: "string \<Rightarrow> (json \<Rightarrow> 'a option) \<Rightarrow> json \<Rightarrow> 'a option option" where
  "may k p j = (case json_field k j of None \<Rightarrow> Some None | Some v \<Rightarrow> map_option Some (p v))"

text \<open>\<open>.default([])\<close>.\<close>

definition listed :: "string \<Rightarrow> (json \<Rightarrow> 'a option) \<Rightarrow> json \<Rightarrow> 'a list option" where
  "listed k p j = (case json_field k j of None \<Rightarrow> Some [] | Some v \<Rightarrow> json_array p v)"

definition literal :: "string \<Rightarrow> json \<Rightarrow> json \<Rightarrow> unit option" where
  "literal k v j = check_that (json_field k j = Some v)"

lemma map_of_opt_pair [simp]:
  "map_of (opt_pair k f v @ kvs) k' = (if k' = k then (case v of None \<Rightarrow> map_of kvs k' | Some x \<Rightarrow> Some (f x)) else map_of kvs k')"
  "map_of (opt_pair k f v) k' = (if k' = k then map_option f v else None)"
  by (cases v; simp add: opt_pair_def)+

lemma keys_opt_pair [simp]:
  "list_all P (opt_pair k f v) = (case v of None \<Rightarrow> True | Some x \<Rightarrow> P (k, f x))"
  by (cases v; simp add: opt_pair_def)

lemma json_string_JStr [simp]: "json_string (JStr s) = Some s"
  by (simp add: json_string_def)

lemma json_int_JNum [simp]: "json_int (JNum n) = Some n"
  by (simp add: json_int_def)

section \<open>Postings\<close>

record posting_input =
  pt_account :: string
  pt_direction :: posting_direction
  pt_amount :: string
  pt_native :: string
  pt_currency :: string
  pt_rate :: "string option"
  pt_quote :: "rate_quote option"
  pt_rate_date :: "string option"
  pt_rate_source :: "string option"
  pt_memo :: "string option"
  pt_tags :: "string list"
  pt_id :: "string option"

definition rate_fields_agree :: "posting_input \<Rightarrow> bool" where
  "rate_fields_agree p \<longleftrightarrow>
     (pt_rate p \<noteq> None) = (pt_quote p \<noteq> None) \<and> (pt_rate p \<noteq> None) = (pt_rate_date p \<noteq> None)
     \<and> (pt_rate p \<noteq> None) = (pt_rate_source p \<noteq> None)"

definition present :: "('a \<Rightarrow> bool) \<Rightarrow> 'a option \<Rightarrow> bool" where
  "present ok v \<longleftrightarrow> (case v of None \<Rightarrow> True | Some x \<Rightarrow> ok x)"

definition posting_fields :: "posting_input \<Rightarrow> bool" where
  "posting_fields p \<longleftrightarrow>
     opaqueIdentifierSchema Id_account (pt_account p)
     \<and> NonNegativeAmountStringSchema (pt_amount p) \<and> NonNegativeAmountStringSchema (pt_native p)
     \<and> CurrencyCodeSchema (pt_currency p) \<and> present PositiveAmountStringSchema (pt_rate p)
     \<and> present LocalDateSchema (pt_rate_date p) \<and> present (text_between 1 256) (pt_rate_source p)
     \<and> present (text_between 0 2000) (pt_memo p)
     \<and> length (pt_tags p) \<le> 32 \<and> list_all (opaqueIdentifierSchema Id_tag) (pt_tags p)"

definition DraftPostingInputSchemaV1 :: "posting_input \<Rightarrow> bool" where
  "DraftPostingInputSchemaV1 p \<longleftrightarrow> posting_fields p \<and> rate_fields_agree p \<and> pt_id p = None"

text \<open>The postings of \<open>PostJournalInputSchemaV1\<close>, which may carry an identifier.\<close>

definition journal_posting_schema :: "posting_input \<Rightarrow> bool" where
  "journal_posting_schema p \<longleftrightarrow>
     posting_fields p \<and> present (opaqueIdentifierSchema Id_posting) (pt_id p)
     \<and> (pt_id p = None \<longrightarrow> PositiveAmountStringSchema (pt_amount p)) \<and> rate_fields_agree p"

definition posting_json :: "posting_input \<Rightarrow> json" where
  "posting_json p = JObj
     ([(''accountId'', JStr (pt_account p)), (''direction'', JStr (direction_name (pt_direction p))),
       (''transactionAmount'', JStr (pt_amount p)), (''accountNativeAmount'', JStr (pt_native p)),
       (''accountNativeCurrency'', JStr (pt_currency p))]
      @ opt_pair ''exchangeRate'' JStr (pt_rate p)
      @ opt_pair ''exchangeRateQuote'' (\<lambda>q. JStr (quote_name q)) (pt_quote p)
      @ opt_pair ''exchangeRateDate'' JStr (pt_rate_date p)
      @ opt_pair ''exchangeRateSource'' JStr (pt_rate_source p)
      @ opt_pair ''memo'' JStr (pt_memo p)
      @ [(''tagIds'', JArr (map JStr (pt_tags p)))]
      @ opt_pair ''postingId'' JStr (pt_id p))"

definition decode_posting :: "json \<Rightarrow> posting_input option" where
  "decode_posting j = do {
     check_that (strict_object [''accountId'', ''direction'', ''transactionAmount'', ''accountNativeAmount'',
       ''accountNativeCurrency'', ''exchangeRate'', ''exchangeRateQuote'', ''exchangeRateDate'',
       ''exchangeRateSource'', ''memo'', ''tagIds'', ''postingId''] j);
     account \<leftarrow> need ''accountId'' json_string j;
     direction \<leftarrow> need ''direction'' direction_of j;
     amount \<leftarrow> need ''transactionAmount'' json_string j;
     native \<leftarrow> need ''accountNativeAmount'' json_string j;
     currency \<leftarrow> need ''accountNativeCurrency'' json_string j;
     rate \<leftarrow> may ''exchangeRate'' json_string j;
     quote \<leftarrow> may ''exchangeRateQuote'' quote_of j;
     date \<leftarrow> may ''exchangeRateDate'' json_string j;
     source \<leftarrow> may ''exchangeRateSource'' json_string j;
     memo \<leftarrow> may ''memo'' json_string j;
     tags \<leftarrow> listed ''tagIds'' json_string j;
     posting \<leftarrow> may ''postingId'' json_string j;
     Some \<lparr>pt_account = account, pt_direction = direction, pt_amount = amount, pt_native = native,
       pt_currency = currency, pt_rate = rate, pt_quote = quote, pt_rate_date = date,
       pt_rate_source = source, pt_memo = memo, pt_tags = tags, pt_id = posting\<rparr> }"

lemma may_string: "json_field k j = map_option JStr v \<Longrightarrow> may k json_string j = Some v"
  by (cases v) (simp_all add: may_def)

lemma may_quote: "json_field k j = map_option (\<lambda>q. JStr (quote_name q)) v \<Longrightarrow> may k quote_of j = Some v"
  by (cases v) (simp_all add: may_def)

lemma decode_posting_json [simp]: "decode_posting (posting_json p) = Some p"
proof -
  let ?j = "posting_json p"
  have "json_field ''accountId'' ?j = Some (JStr (pt_account p))"
    "json_field ''direction'' ?j = Some (JStr (direction_name (pt_direction p)))"
    "json_field ''transactionAmount'' ?j = Some (JStr (pt_amount p))"
    "json_field ''accountNativeAmount'' ?j = Some (JStr (pt_native p))"
    "json_field ''accountNativeCurrency'' ?j = Some (JStr (pt_currency p))"
    "json_field ''tagIds'' ?j = Some (JArr (map JStr (pt_tags p)))"
    by (simp_all add: json_field_def posting_json_def del: map_of_append split: option.splits)
  moreover have "may ''exchangeRate'' json_string ?j = Some (pt_rate p)"
    "may ''exchangeRateQuote'' quote_of ?j = Some (pt_quote p)"
    "may ''exchangeRateDate'' json_string ?j = Some (pt_rate_date p)"
    "may ''exchangeRateSource'' json_string ?j = Some (pt_rate_source p)"
    "may ''memo'' json_string ?j = Some (pt_memo p)" "may ''postingId'' json_string ?j = Some (pt_id p)"
    by - (rule may_string may_quote; simp add: json_field_def posting_json_def del: map_of_append split: option.splits)+
  moreover have "strict_object [''accountId'', ''direction'', ''transactionAmount'', ''accountNativeAmount'',
       ''accountNativeCurrency'', ''exchangeRate'', ''exchangeRateQuote'', ''exchangeRateDate'',
       ''exchangeRateSource'', ''memo'', ''tagIds'', ''postingId''] ?j"
    by (simp add: strict_object_def posting_json_def split: option.splits)
  ultimately show ?thesis
    by (simp add: decode_posting_def need_def listed_def json_array_def)
qed

section \<open>Journals\<close>

text \<open>The fields that a proposal, a journal and a draft share.\<close>

record journal_body =
  jn_household :: string
  jn_book :: string
  jn_draft :: string
  jn_task :: string
  jn_type :: journal_type
  jn_currency :: string
  jn_occurred :: string
  jn_effective :: string
  jn_settlement :: "string option"
  jn_source :: "string option"
  jn_description :: string
  jn_counterparty :: "string option"
  jn_tags :: "string list"
  jn_postings :: "posting_input list"

definition journal_body_schema :: "journal_body \<Rightarrow> bool" where
  "journal_body_schema b \<longleftrightarrow>
     opaqueIdentifierSchema Id_household (jn_household b) \<and> opaqueIdentifierSchema Id_book (jn_book b)
     \<and> opaqueIdentifierSchema Id_journalDraft (jn_draft b) \<and> opaqueIdentifierSchema Id_task (jn_task b)
     \<and> CurrencyCodeSchema (jn_currency b) \<and> LocalDateSchema (jn_occurred b) \<and> LocalDateSchema (jn_effective b)
     \<and> present LocalDateSchema (jn_settlement b) \<and> present LocalDateSchema (jn_source b)
     \<and> text_between 1 4000 (jn_description b)
     \<and> present (opaqueIdentifierSchema Id_counterparty) (jn_counterparty b)
     \<and> length (jn_tags b) \<le> 32 \<and> list_all (opaqueIdentifierSchema Id_tag) (jn_tags b)"

record journal_proposal =
  jp_body :: journal_body
  jp_journal :: string
  jp_period :: string
  jp_reverses :: "string option"
  jp_replaces :: "string option"

definition proposal_fields :: "journal_proposal \<Rightarrow> bool" where
  "proposal_fields p \<longleftrightarrow>
     journal_body_schema (jp_body p) \<and> opaqueIdentifierSchema Id_journal (jp_journal p)
     \<and> opaqueIdentifierSchema Id_period (jp_period p)
     \<and> present (opaqueIdentifierSchema Id_journal) (jp_reverses p)
     \<and> present (opaqueIdentifierSchema Id_journal) (jp_replaces p)"

definition PostJournalProposalSchemaV1 :: "journal_proposal \<Rightarrow> bool" where
  "PostJournalProposalSchemaV1 p \<longleftrightarrow>
     proposal_fields p \<and> 2 \<le> length (jn_postings (jp_body p))
     \<and> list_all DraftPostingInputSchemaV1 (jn_postings (jp_body p))"

record post_journal =
  pj_proposal :: journal_proposal
  pj_artifact :: string
  pj_hash :: string

abbreviation pj_body :: "post_journal \<Rightarrow> journal_body" where
  "pj_body p \<equiv> jp_body (pj_proposal p)"

definition posted_posting_ok :: "string \<Rightarrow> posting_input \<Rightarrow> bool" where
  "posted_posting_ok currency p \<longleftrightarrow>
     PositiveAmountStringSchema (pt_amount p) \<and> PositiveAmountStringSchema (pt_native p)
     \<and> (pt_currency p \<noteq> currency \<longrightarrow> pt_rate p \<noteq> None) \<and> (pt_currency p = currency \<longrightarrow> pt_rate p = None)"

definition PostJournalInputSchemaV1 :: "post_journal \<Rightarrow> bool" where
  "PostJournalInputSchemaV1 j \<longleftrightarrow>
     proposal_fields (pj_proposal j) \<and> opaqueIdentifierSchema Id_artifact (pj_artifact j) \<and> sha256_hex (pj_hash j)
     \<and> 2 \<le> length (jn_postings (pj_body j)) \<and> list_all journal_posting_schema (jn_postings (pj_body j))
     \<and> list_all (posted_posting_ok (jn_currency (pj_body j))) (jn_postings (pj_body j))
     \<and> (jn_type (pj_body j) = Jt_reversal \<longrightarrow> jp_reverses (pj_proposal j) \<noteq> None)
     \<and> (jn_type (pj_body j) = Jt_replacement \<longrightarrow> jp_replaces (pj_proposal j) \<noteq> None)"

record journal_draft_input =
  di_body :: journal_body
  di_series :: string
  di_version :: int
  di_previous :: "string option"
  di_artifact :: string
  di_hash :: string

definition version_agrees :: "int \<Rightarrow> string option \<Rightarrow> bool" where
  "version_agrees version previous \<longleftrightarrow>
     (version = 1 \<longrightarrow> previous = None) \<and> (1 < version \<longrightarrow> previous \<noteq> None)"

definition JournalDraftInputSchemaV1 :: "journal_draft_input \<Rightarrow> bool" where
  "JournalDraftInputSchemaV1 d \<longleftrightarrow>
     journal_body_schema (di_body d) \<and> opaqueIdentifierSchema Id_draftSeries (di_series d) \<and> 0 < di_version d
     \<and> present (opaqueIdentifierSchema Id_journalDraft) (di_previous d)
     \<and> opaqueIdentifierSchema Id_artifact (di_artifact d) \<and> sha256_hex (di_hash d)
     \<and> jn_postings (di_body d) \<noteq> [] \<and> list_all DraftPostingInputSchemaV1 (jn_postings (di_body d))
     \<and> version_agrees (di_version d) (di_previous d)"

definition ReverseAndReplaceInputSchemaV1 :: "string \<Rightarrow> post_journal \<Rightarrow> post_journal \<Rightarrow> bool" where
  "ReverseAndReplaceInputSchemaV1 original reversal replacement \<longleftrightarrow>
     opaqueIdentifierSchema Id_journal original
     \<and> PostJournalInputSchemaV1 reversal \<and> PostJournalInputSchemaV1 replacement
     \<and> jp_journal (pj_proposal reversal) \<noteq> jp_journal (pj_proposal replacement)
     \<and> jn_type (pj_body reversal) = Jt_reversal \<and> jp_reverses (pj_proposal reversal) = Some original
     \<and> jn_type (pj_body replacement) = Jt_replacement \<and> jp_replaces (pj_proposal replacement) = Some original"

section \<open>Journals as JSON\<close>

definition proposal_pairs :: "journal_proposal \<Rightarrow> (string \<times> json) list" where
  "proposal_pairs p =
    (let b = jp_body p in
     [(''schemaVersion'', JNum 1), (''householdId'', JStr (jn_household b)), (''bookId'', JStr (jn_book b)),
      (''journalId'', JStr (jp_journal p)), (''draftId'', JStr (jn_draft b)), (''periodId'', JStr (jp_period p)),
      (''taskId'', JStr (jn_task b)), (''journalType'', JStr (journal_type_name (jn_type b))),
      (''transactionCurrency'', JStr (jn_currency b)), (''occurredOn'', JStr (jn_occurred b)),
      (''effectiveOn'', JStr (jn_effective b)), (''description'', JStr (jn_description b)),
      (''tagIds'', JArr (map JStr (jn_tags b))), (''postings'', JArr (map posting_json (jn_postings b)))]
     @ opt_pair ''settlementOn'' JStr (jn_settlement b) @ opt_pair ''sourceOn'' JStr (jn_source b)
     @ opt_pair ''counterpartyId'' JStr (jn_counterparty b)
     @ opt_pair ''reversesJournalId'' JStr (jp_reverses p) @ opt_pair ''replacesJournalId'' JStr (jp_replaces p))"

definition proposal_keys :: "string list" where
  "proposal_keys =
    [''schemaVersion'', ''householdId'', ''bookId'', ''journalId'', ''draftId'', ''periodId'', ''taskId'',
     ''journalType'', ''transactionCurrency'', ''occurredOn'', ''effectiveOn'', ''description'', ''tagIds'',
     ''postings'', ''settlementOn'', ''sourceOn'', ''counterpartyId'', ''reversesJournalId'', ''replacesJournalId'']"

definition decode_body :: "json \<Rightarrow> journal_body option" where
  "decode_body j = do {
     household \<leftarrow> need ''householdId'' json_string j;
     book \<leftarrow> need ''bookId'' json_string j;
     draft \<leftarrow> need ''draftId'' json_string j;
     task \<leftarrow> need ''taskId'' json_string j;
     type \<leftarrow> need ''journalType'' journal_type_of j;
     currency \<leftarrow> need ''transactionCurrency'' json_string j;
     occurred \<leftarrow> need ''occurredOn'' json_string j;
     effective \<leftarrow> need ''effectiveOn'' json_string j;
     settlement \<leftarrow> may ''settlementOn'' json_string j;
     source \<leftarrow> may ''sourceOn'' json_string j;
     description \<leftarrow> need ''description'' json_string j;
     counterparty \<leftarrow> may ''counterpartyId'' json_string j;
     tags \<leftarrow> listed ''tagIds'' json_string j;
     postings \<leftarrow> need ''postings'' (json_array decode_posting) j;
     Some \<lparr>jn_household = household, jn_book = book, jn_draft = draft, jn_task = task, jn_type = type,
       jn_currency = currency, jn_occurred = occurred, jn_effective = effective, jn_settlement = settlement,
       jn_source = source, jn_description = description, jn_counterparty = counterparty, jn_tags = tags,
       jn_postings = postings\<rparr> }"

definition decode_proposal :: "json \<Rightarrow> journal_proposal option" where
  "decode_proposal j = do {
     literal ''schemaVersion'' (JNum 1) j;
     body \<leftarrow> decode_body j;
     journal \<leftarrow> need ''journalId'' json_string j;
     period \<leftarrow> need ''periodId'' json_string j;
     reverses \<leftarrow> may ''reversesJournalId'' json_string j;
     replaces \<leftarrow> may ''replacesJournalId'' json_string j;
     Some \<lparr>jp_body = body, jp_journal = journal, jp_period = period, jp_reverses = reverses,
       jp_replaces = replaces\<rparr> }"

definition proposal_json :: "journal_proposal \<Rightarrow> json" where
  "proposal_json p = JObj ((''schemaName'', JStr ''post-journal-proposal'') # proposal_pairs p)"

definition parse_proposal :: "json \<Rightarrow> journal_proposal option" where
  "parse_proposal j = do {
     check_that (strict_object (''schemaName'' # proposal_keys) j);
     literal ''schemaName'' (JStr ''post-journal-proposal'') j;
     p \<leftarrow> decode_proposal j;
     check_that (PostJournalProposalSchemaV1 p);
     Some p }"

definition post_journal_json :: "post_journal \<Rightarrow> json" where
  "post_journal_json j = JObj
     ([(''schemaName'', JStr ''post-journal-input''), (''checkedArtifactId'', JStr (pj_artifact j)),
       (''checkedArtifactHash'', JStr (pj_hash j))] @ proposal_pairs (pj_proposal j))"

definition decode_post_journal :: "json \<Rightarrow> post_journal option" where
  "decode_post_journal j = do {
     check_that (strict_object ([''schemaName'', ''checkedArtifactId'', ''checkedArtifactHash''] @ proposal_keys) j);
     literal ''schemaName'' (JStr ''post-journal-input'') j;
     p \<leftarrow> decode_proposal j;
     artifact \<leftarrow> need ''checkedArtifactId'' json_string j;
     hash \<leftarrow> need ''checkedArtifactHash'' json_string j;
     Some \<lparr>pj_proposal = p, pj_artifact = artifact, pj_hash = hash\<rparr> }"

definition parse_post_journal :: "json \<Rightarrow> post_journal option" where
  "parse_post_journal j = do {
     p \<leftarrow> decode_post_journal j; check_that (PostJournalInputSchemaV1 p); Some p }"

text \<open>The fields are found whatever stands before them under other keys.\<close>

lemma parse_postings [simp]: "parse_list decode_posting (map posting_json ps) = Some ps"
  by (rule parse_list_map) simp

lemma decode_proposal_pairs:
  assumes "set (map fst pre) \<inter> set proposal_keys = {}"
  shows "decode_proposal (JObj (pre @ proposal_pairs p)) = Some p"
proof -
  define j where "j = JObj (pre @ proposal_pairs p)"
  have "map_of pre k = None" if "k \<in> set proposal_keys" for k
    using assms that by (auto simp: map_of_eq_None_iff)
  then have field: "json_field k j = map_of (proposal_pairs p) k" if "k \<in> set proposal_keys" for k
    using that by (simp add: j_def json_field_def map_add_def split: option.splits)
  note fields = field [unfolded proposal_keys_def]
  have "json_field ''householdId'' j = Some (JStr (jn_household (jp_body p)))"
    "json_field ''bookId'' j = Some (JStr (jn_book (jp_body p)))"
    "json_field ''draftId'' j = Some (JStr (jn_draft (jp_body p)))"
    "json_field ''taskId'' j = Some (JStr (jn_task (jp_body p)))"
    "json_field ''journalType'' j = Some (JStr (journal_type_name (jn_type (jp_body p))))"
    "json_field ''transactionCurrency'' j = Some (JStr (jn_currency (jp_body p)))"
    "json_field ''occurredOn'' j = Some (JStr (jn_occurred (jp_body p)))"
    "json_field ''effectiveOn'' j = Some (JStr (jn_effective (jp_body p)))"
    "json_field ''description'' j = Some (JStr (jn_description (jp_body p)))"
    "json_field ''tagIds'' j = Some (JArr (map JStr (jn_tags (jp_body p))))"
    "json_field ''postings'' j = Some (JArr (map posting_json (jn_postings (jp_body p))))"
    "json_field ''journalId'' j = Some (JStr (jp_journal p))"
    "json_field ''periodId'' j = Some (JStr (jp_period p))"
    "json_field ''schemaVersion'' j = Some (JNum 1)"
    by (simp_all add: fields proposal_pairs_def Let_def del: map_of_append)
  moreover have "may ''settlementOn'' json_string j = Some (jn_settlement (jp_body p))"
    "may ''sourceOn'' json_string j = Some (jn_source (jp_body p))"
    "may ''counterpartyId'' json_string j = Some (jn_counterparty (jp_body p))"
    "may ''reversesJournalId'' json_string j = Some (jp_reverses p)"
    "may ''replacesJournalId'' json_string j = Some (jp_replaces p)"
    by - (rule may_string may_quote; simp add: fields proposal_pairs_def Let_def del: map_of_append split: option.splits)+
  ultimately show ?thesis
    unfolding j_def [symmetric]
    by (simp add: decode_proposal_def decode_body_def need_def listed_def json_array_def literal_def)
qed

lemma proposal_pairs_keys: "list_all (\<lambda>kv. fst kv \<in> set proposal_keys) (proposal_pairs p)"
  by (simp add: proposal_pairs_def proposal_keys_def Let_def split: option.splits)

lemma decode_post_journal_json [simp]: "decode_post_journal (post_journal_json j) = Some j"
proof -
  let ?pre = "[(''schemaName'', JStr ''post-journal-input''), (''checkedArtifactId'', JStr (pj_artifact j)),
       (''checkedArtifactHash'', JStr (pj_hash j))]"
  have decoded: "decode_proposal (post_journal_json j) = Some (pj_proposal j)"
    unfolding post_journal_json_def by (rule decode_proposal_pairs) (simp add: proposal_keys_def)
  have "json_field ''schemaName'' (post_journal_json j) = Some (JStr ''post-journal-input'')"
    "json_field ''checkedArtifactId'' (post_journal_json j) = Some (JStr (pj_artifact j))"
    "json_field ''checkedArtifactHash'' (post_journal_json j) = Some (JStr (pj_hash j))"
    by (simp_all add: json_field_def post_journal_json_def)
  moreover have "strict_object ([''schemaName'', ''checkedArtifactId'', ''checkedArtifactHash''] @ proposal_keys) (post_journal_json j)"
    using proposal_pairs_keys [of "pj_proposal j"]
    by (auto simp: strict_object_def post_journal_json_def list_all_iff)
  ultimately show ?thesis
    by (simp add: decode_post_journal_def decoded need_def literal_def)
qed

lemma parse_post_journal_json: "PostJournalInputSchemaV1 j \<Longrightarrow> parse_post_journal (post_journal_json j) = Some j"
  by (simp add: parse_post_journal_def)

lemma parse_proposal_json:
  assumes "PostJournalProposalSchemaV1 p"
  shows "parse_proposal (proposal_json p) = Some p"
proof -
  have decoded: "decode_proposal (proposal_json p) = Some p"
    using decode_proposal_pairs [of "[(''schemaName'', JStr ''post-journal-proposal'')]" p]
    by (simp add: proposal_json_def proposal_keys_def)
  have "json_field ''schemaName'' (proposal_json p) = Some (JStr ''post-journal-proposal'')"
    by (simp add: json_field_def proposal_json_def)
  moreover have "strict_object (''schemaName'' # proposal_keys) (proposal_json p)"
    using proposal_pairs_keys [of p] by (auto simp: strict_object_def proposal_json_def list_all_iff)
  ultimately show ?thesis using assms by (simp add: parse_proposal_def decoded literal_def)
qed

end
