(* ===== verification/Ledger.thy ===== *)
theory Ledger
  imports Scripts AccountingContracts VerificationLedger "HOL-Library.Multiset"
begin

text \<open>
  The tables of the ledger (database/migrations/0004_accounting_ledger.sql, and the current
  balances of 0009_reporting.sql) with the statements that
  packages/accounting/src runs on them. Rows carry public identifiers where the tables carry
  surrogate keys. An amount is a \<open>numeric(38,12)\<close>, held as an integer of units of 10 to the -12, and
  an exchange rate a \<open>numeric(38,18)\<close>; a date is its ISO text, whose order is that of the calendar.
  Time stamps are left out except for whether a row is archived.

  \<open>lg_artifacts\<close> is what the ledger's foreign key and trigger see of the artifacts and verdicts of the
  operations schema. \<open>lg_pending\<close> are the journals for which a deferred constraint trigger is
  queued in the transaction.
\<close>

section \<open>Numbers\<close>

definition round_half :: "nat \<Rightarrow> int \<Rightarrow> int" where
  "round_half k v = sgn v * ((2 * \<bar>v\<bar> + 10 ^ k) div (2 * 10 ^ k))"

definition numeric_units :: "nat \<Rightarrow> decimal_parts \<Rightarrow> int" where
  "numeric_units scale p =
    (let n = length (dp_fraction p)
     in if n \<le> scale then aligned_parts scale p else round_half (n - scale) (aligned_parts n p))"

text \<open>Text becomes \<open>numeric(38, scale)\<close>.\<close>

definition in_range :: "int \<Rightarrow> bool" where
  "in_range v \<longleftrightarrow> \<bar>v\<bar> < 10 ^ 38"

definition numeric_in :: "nat \<Rightarrow> string \<Rightarrow> exn + int" where
  "numeric_in scale s =
    (case decimal_parts_of s of
       None \<Rightarrow> Inl (pg_code_failure ''22P02'')
     | Some p \<Rightarrow>
         if in_range (numeric_units scale p) then Inr (numeric_units scale p)
         else Inl (pg_code_failure ''22003''))"

definition numeric_maybe :: "nat \<Rightarrow> string option \<Rightarrow> exn + int option" where
  "numeric_maybe scale v = (case v of None \<Rightarrow> Inr None | Some s \<Rightarrow> map_sum id Some (numeric_in scale s))"

section \<open>Tables\<close>

record currency_row =
  cu_code :: string
  cu_scale :: nat
  cu_active :: bool

record account_row =
  ac_id :: string
  ac_household :: string
  ac_book :: string
  ac_parent :: "string option"
  ac_name :: string
  ac_purpose :: "string option"
  ac_class :: accounting_class
  ac_normal :: posting_direction
  ac_currency :: string
  ac_label :: "string option"
  ac_archived :: bool

record mapping_row =
  ma_id :: string
  ma_household :: string
  ma_book :: string
  ma_account :: string
  ma_source :: string
  ma_external :: string
  ma_metadata :: json
  ma_archived :: bool

record configuration_row =
  bc_id :: string
  bc_household :: string
  bc_book :: string
  bc_currency :: string
  bc_from :: string

record period_row =
  pe_id :: string
  pe_household :: string
  pe_book :: string
  pe_start :: string
  pe_end :: string
  pe_open :: bool

text \<open>Counterparties and tags.\<close>

record party_row =
  pa_id :: string
  pa_household :: string
  pa_name :: string
  pa_archived :: bool

record artifact_view =
  av_household :: string
  av_task :: string
  av_id :: string
  av_hash :: string
  av_accepted :: bool

text \<open>The columns that a journal shares with its draft.\<close>

record journal_meta =
  mt_household :: string
  mt_book :: string
  mt_task :: string
  mt_artifact :: string
  mt_hash :: string
  mt_type :: journal_type
  mt_currency :: string
  mt_occurred :: string
  mt_effective :: string
  mt_settlement :: "string option"
  mt_source :: "string option"
  mt_description :: string
  mt_counterparty :: "string option"

record draft_row =
  dr_id :: string
  dr_series :: string
  dr_version :: int
  dr_previous :: "string option"
  dr_meta :: journal_meta
  dr_tags :: "string list"

text \<open>The columns that a posting shares with a line of the draft.\<close>

record entry =
  en_account :: string
  en_direction :: posting_direction
  en_amount :: int
  en_native :: int
  en_currency :: string
  en_rate :: "int option"
  en_quote :: "rate_quote option"
  en_rate_date :: "string option"
  en_rate_source :: "string option"
  en_memo :: "string option"

record draft_line =
  dl_household :: string
  dl_draft :: string
  dl_ordinal :: nat
  dl_entry :: entry
  dl_tags :: "string list"

record journal_row =
  jr_id :: string
  jr_period :: string
  jr_draft :: string
  jr_reverses :: "string option"
  jr_replaces :: "string option"
  jr_meta :: journal_meta

record posting_row =
  po_id :: string
  po_household :: string
  po_journal :: string
  po_ordinal :: nat
  po_entry :: entry

record balance_row =
  ba_household :: string
  ba_account :: string
  ba_as_of :: string
  ba_native :: int
  ba_currency :: string
  ba_reporting :: int
  ba_reporting_currency :: string
  ba_journal :: string

record ledger =
  lg_households :: "(string \<times> string) list"
  lg_currencies :: "currency_row list"
  lg_books :: "(string \<times> string) list"
  lg_configurations :: "configuration_row list"
  lg_accounts :: "account_row list"
  lg_mappings :: "mapping_row list"
  lg_periods :: "period_row list"
  lg_counterparties :: "party_row list"
  lg_tags :: "party_row list"
  lg_artifacts :: "artifact_view list"
  lg_drafts :: "draft_row list"
  lg_lines :: "draft_line list"
  lg_journals :: "journal_row list"
  lg_postings :: "posting_row list"
  lg_journal_tags :: "(string \<times> string) list"
  lg_posting_tags :: "(string \<times> string) list"
  lg_balances :: "balance_row list"
  lg_pending :: "string list"

text \<open>Households are listed with their reporting currency, books with their household.\<close>

section \<open>Lookups\<close>

definition account_in :: "ledger \<Rightarrow> string \<Rightarrow> string \<Rightarrow> account_row option" where
  "account_in d hh a = find (\<lambda>r. ac_household r = hh \<and> ac_id r = a) (lg_accounts d)"

definition currency_in :: "ledger \<Rightarrow> string \<Rightarrow> currency_row option" where
  "currency_in d c = find (\<lambda>r. cu_code r = c) (lg_currencies d)"

definition party_in :: "party_row list \<Rightarrow> string \<Rightarrow> string \<Rightarrow> party_row option" where
  "party_in rows hh p = find (\<lambda>r. pa_household r = hh \<and> pa_id r = p) rows"

definition active_party :: "party_row list \<Rightarrow> string \<Rightarrow> string \<Rightarrow> bool" where
  "active_party rows hh p \<longleftrightarrow> (case party_in rows hh p of None \<Rightarrow> False | Some r \<Rightarrow> \<not> pa_archived r)"

definition household_in :: "ledger \<Rightarrow> string \<Rightarrow> bool" where
  "household_in d hh \<longleftrightarrow> hh \<in> fst ` set (lg_households d)"

definition book_in :: "ledger \<Rightarrow> string \<Rightarrow> string \<Rightarrow> bool" where
  "book_in d hh b \<longleftrightarrow> household_in d hh \<and> (b, hh) \<in> set (lg_books d)"

definition draft_in :: "ledger \<Rightarrow> string \<Rightarrow> string \<Rightarrow> draft_row option" where
  "draft_in d hh x = find (\<lambda>r. mt_household (dr_meta r) = hh \<and> dr_id r = x) (lg_drafts d)"

definition journal_in :: "ledger \<Rightarrow> string \<Rightarrow> string \<Rightarrow> journal_row option" where
  "journal_in d hh j = find (\<lambda>r. mt_household (jr_meta r) = hh \<and> jr_id r = j) (lg_journals d)"

definition period_in :: "ledger \<Rightarrow> string \<Rightarrow> string \<Rightarrow> string \<Rightarrow> period_row option" where
  "period_in d hh b p = find (\<lambda>r. pe_household r = hh \<and> pe_book r = b \<and> pe_id r = p) (lg_periods d)"

definition artifact_is :: "ledger \<Rightarrow> journal_meta \<Rightarrow> (artifact_view \<Rightarrow> bool) \<Rightarrow> bool" where
  "artifact_is d m ok \<longleftrightarrow> list_ex (\<lambda>a. av_household a = mt_household m \<and> av_task a = mt_task m
     \<and> av_id a = mt_artifact m \<and> av_hash a = mt_hash m \<and> ok a) (lg_artifacts d)"

definition postings_of :: "ledger \<Rightarrow> string \<Rightarrow> posting_row list" where
  "postings_of d j = filter (\<lambda>p. po_journal p = j) (lg_postings d)"

definition sorted_text :: "string list \<Rightarrow> string list" where
  "sorted_text = sort_by text_le"

definition journal_tags_of :: "ledger \<Rightarrow> string \<Rightarrow> string list" where
  "journal_tags_of d j = sorted_text (map snd (filter (\<lambda>l. fst l = j) (lg_journal_tags d)))"

definition posting_tags_of :: "ledger \<Rightarrow> string \<Rightarrow> string list" where
  "posting_tags_of d p = sorted_text (map snd (filter (\<lambda>l. fst l = p) (lg_posting_tags d)))"

section \<open>The constraint trigger\<close>

text \<open>\<open>operations.amount_matches_currency_scale\<close>: NULL for a currency that is unknown or inactive.\<close>

definition amount_matches_currency_scale :: "ledger \<Rightarrow> int \<Rightarrow> string \<Rightarrow> bool option" where
  "amount_matches_currency_scale d v c =
    (case currency_in d c of
       None \<Rightarrow> None
     | Some r \<Rightarrow> if cu_active r then Some (v mod 10 ^ (12 - cu_scale r) = 0) else None)"

text \<open>\<open>round(amount * rate, scale) <> other\<close>; of an unknown scale it is NULL, which flags nothing.\<close>

definition rounds_apart :: "currency_row option \<Rightarrow> int \<Rightarrow> int \<Rightarrow> int \<Rightarrow> bool" where
  "rounds_apart meta amount rate other =
    (case meta of
       None \<Rightarrow> False
     | Some r \<Rightarrow> round_half (30 - cu_scale r) (amount * rate) * 10 ^ (12 - cu_scale r) \<noteq> other)"

definition entry_flagged :: "ledger \<Rightarrow> journal_meta \<Rightarrow> entry \<Rightarrow> bool" where
  "entry_flagged d m e =
    (case account_in d (mt_household m) (en_account e) of
       None \<Rightarrow> False
     | Some a \<Rightarrow>
         ac_book a \<noteq> mt_book m \<or> en_currency e \<noteq> ac_currency a
         \<or> amount_matches_currency_scale d (en_amount e) (mt_currency m) = Some False
         \<or> amount_matches_currency_scale d (en_native e) (en_currency e) = Some False
         \<or> (ac_currency a = mt_currency m \<and> (en_native e \<noteq> en_amount e \<or> en_rate e \<noteq> None))
         \<or> (ac_currency a \<noteq> mt_currency m \<and>
             (case en_rate e of
                None \<Rightarrow> True
              | Some r \<Rightarrow>
                  (case en_quote e of
                     None \<Rightarrow> True
                   | Some Native_per_transaction \<Rightarrow> rounds_apart (currency_in d (en_currency e)) (en_amount e) r (en_native e)
                   | Some Transaction_per_native \<Rightarrow> rounds_apart (currency_in d (mt_currency m)) (en_native e) r (en_amount e)))))"

definition side_sum :: "posting_direction \<Rightarrow> entry list \<Rightarrow> int" where
  "side_sum side es = sum_list (map en_amount (filter (\<lambda>e. en_direction e = side) es))"

definition posted_entries :: "ledger \<Rightarrow> string \<Rightarrow> (nat \<times> entry \<times> string list) list" where
  "posted_entries d j = map (\<lambda>p. (po_ordinal p, po_entry p, posting_tags_of d (po_id p))) (postings_of d j)"

definition draft_entries :: "ledger \<Rightarrow> string \<Rightarrow> string \<Rightarrow> (nat \<times> entry \<times> string list) list" where
  "draft_entries d hh x = map (\<lambda>l. (dl_ordinal l, dl_entry l, dl_tags l))
     (filter (\<lambda>l. dl_household l = hh \<and> dl_draft l = x) (lg_lines d))"

definition exact_opposite :: "ledger \<Rightarrow> string \<Rightarrow> string \<Rightarrow> bool" where
  "exact_opposite d original j \<longleftrightarrow>
     mset (map (\<lambda>(n, e, ts). (e\<lparr>en_direction := opposite (en_direction e)\<rparr>, ts)) (posted_entries d original))
     = mset (map snd (posted_entries d j))"

text \<open>What the trigger demands of a journal, with the constraint that each failure names.\<close>

definition journal_checks :: "ledger \<Rightarrow> journal_row \<Rightarrow> (bool \<times> string \<times> string) list" where
  "journal_checks d j =
    (let m = jr_meta j; hh = mt_household m; ps = postings_of d (jr_id j); es = map po_entry ps in
     [(list_ex (\<lambda>s. mt_household (dr_meta s) = hh \<and> dr_previous s = Some (jr_draft j)) (lg_drafts d),
         ''23514'', ''journals_latest_draft_only''),
      (\<not> list_ex (\<lambda>s. dr_id s = jr_draft j \<and> dr_meta s = m \<and> dr_tags s = journal_tags_of d (jr_id j)) (lg_drafts d),
         ''23514'', ''journals_exact_draft_metadata''),
      (mset (draft_entries d hh (jr_draft j)) \<noteq> mset (posted_entries d (jr_id j)),
         ''23514'', ''journals_exact_draft_postings''),
      (\<not> artifact_is d m av_accepted, ''23514'', ''journals_accepted_artifact_required''),
      (\<not> list_ex (\<lambda>p. pe_id p = jr_period j \<and> pe_household p = hh \<and> pe_book p = mt_book m \<and> pe_open p
          \<and> text_le (pe_start p) (mt_effective m) \<and> text_le (mt_effective m) (pe_end p)) (lg_periods d),
         ''23514'', ''journals_open_period_required''),
      (length ps < 2, ''23514'', ''journals_two_postings_required''),
      (side_sum Debit es \<noteq> side_sum Credit es, ''23514'', ''journals_transaction_currency_balanced''),
      (list_ex (entry_flagged d m) es, ''23514'', ''postings_currency_and_book_consistent''),
      (mt_type m = Jt_transfer \<and> list_ex (\<lambda>e. case account_in d hh (en_account e) of
           None \<Rightarrow> False | Some a \<Rightarrow> ac_class a \<notin> {Cl_asset, Cl_liability}) es,
         ''23514'', ''transfer_balance_sheet_accounts_only''),
      (mt_type m = Jt_reversal \<and> (case jr_reverses j of
           None \<Rightarrow> ps \<noteq> []
         | Some original \<Rightarrow>
             (case find (\<lambda>r. jr_id r = original) (lg_journals d) of
                None \<Rightarrow> False | Some r \<Rightarrow> mt_currency (jr_meta r) \<noteq> mt_currency m)
             \<or> \<not> exact_opposite d original (jr_id j)),
         ''23514'', ''reversal_exact_opposite'')])"

definition validate_complete_journal :: "ledger \<Rightarrow> string \<Rightarrow> exn option" where
  "validate_complete_journal d target =
    (case find (\<lambda>r. jr_id r = target) (lg_journals d) of
       None \<Rightarrow> None
     | Some j \<Rightarrow> first_violation (journal_checks d j))"

fun validate_all :: "ledger \<Rightarrow> string list \<Rightarrow> exn option" where
  "validate_all d [] = None"
| "validate_all d (j # js) =
    (case validate_complete_journal d j of Some e \<Rightarrow> Some e | None \<Rightarrow> validate_all d js)"

end
