(* ===== verification/LedgerStatements.thy ===== *)
theory LedgerStatements
  imports Ledger
begin

text \<open>
  The statements of packages/accounting/src on the ledger, each with the constraints of
  database/migrations/0004_accounting_ledger.sql that it can violate. The format checks that the
  schemas of the inputs repeat are left out. Statements take the parsed input.
\<close>

section \<open>Rows of an input\<close>

definition meta_of :: "journal_body \<Rightarrow> string \<Rightarrow> string \<Rightarrow> journal_meta" where
  "meta_of b artifact hash =
    \<lparr>mt_household = jn_household b, mt_book = jn_book b, mt_task = jn_task b, mt_artifact = artifact,
     mt_hash = hash, mt_type = jn_type b, mt_currency = jn_currency b, mt_occurred = jn_occurred b,
     mt_effective = jn_effective b, mt_settlement = jn_settlement b, mt_source = jn_source b,
     mt_description = jn_description b, mt_counterparty = jn_counterparty b\<rparr>"

definition entry_of :: "posting_input \<Rightarrow> exn + entry" where
  "entry_of p =
    (case (numeric_in 12 (pt_amount p), numeric_in 12 (pt_native p), numeric_maybe 18 (pt_rate p)) of
       (Inr amount, Inr native, Inr rate) \<Rightarrow>
         Inr \<lparr>en_account = pt_account p, en_direction = pt_direction p, en_amount = amount, en_native = native,
           en_currency = pt_currency p, en_rate = rate, en_quote = pt_quote p, en_rate_date = pt_rate_date p,
           en_rate_source = pt_rate_source p, en_memo = pt_memo p\<rparr>
     | (Inl e, _, _) \<Rightarrow> Inl e
     | (_, Inl e, _) \<Rightarrow> Inl e
     | (_, _, Inl e) \<Rightarrow> Inl e)"

definition draft_row_of :: "journal_draft_input \<Rightarrow> string list \<Rightarrow> draft_row" where
  "draft_row_of i tags =
    \<lparr>dr_id = jn_draft (di_body i), dr_series = di_series i, dr_version = di_version i, dr_previous = di_previous i,
     dr_meta = meta_of (di_body i) (di_artifact i) (di_hash i), dr_tags = tags\<rparr>"

definition journal_row_of :: "post_journal \<Rightarrow> journal_row" where
  "journal_row_of i =
    \<lparr>jr_id = jp_journal (pj_proposal i), jr_period = jp_period (pj_proposal i), jr_draft = jn_draft (pj_body i),
     jr_reverses = jp_reverses (pj_proposal i), jr_replaces = jp_replaces (pj_proposal i),
     jr_meta = meta_of (pj_body i) (pj_artifact i) (pj_hash i)\<rparr>"

section \<open>Checks of a row\<close>

text \<open>\<open>_rate_shape\<close>: a check holds unless it is false, so an absent quote or source passes.\<close>

definition rate_shape_fails :: "entry \<Rightarrow> bool" where
  "rate_shape_fails e \<longleftrightarrow>
     (let blank = (case en_rate_source e of None \<Rightarrow> False | Some s \<Rightarrow> \<not> nonblank s) in
      (case en_rate e of
         None \<Rightarrow> (en_quote e \<noteq> None \<or> en_rate_date e \<noteq> None \<or> en_rate_source e \<noteq> None)
            \<and> (en_rate_date e = None \<or> blank)
       | Some r \<Rightarrow> r \<le> 0 \<or> en_rate_date e = None \<or> blank))"

definition correction_shape :: "journal_row \<Rightarrow> bool" where
  "correction_shape j \<longleftrightarrow>
     (case mt_type (jr_meta j) of
        Jt_reversal \<Rightarrow> jr_reverses j \<noteq> None \<and> jr_replaces j = None
      | Jt_replacement \<Rightarrow> jr_replaces j \<noteq> None \<and> jr_reverses j = None
      | _ \<Rightarrow> jr_reverses j = None \<and> jr_replaces j = None)"

section \<open>Drafts\<close>

definition select_book :: "string \<Rightarrow> string \<Rightarrow> (ledger, json) statement" where
  "select_book hh b = select (\<lambda>d. JBool (book_in d hh b))"

definition select_draft :: "string \<Rightarrow> string \<Rightarrow> (ledger, json) statement" where
  "select_draft hh x = select (\<lambda>d. JBool (draft_in d hh x \<noteq> None))"

definition select_counterparty :: "string \<Rightarrow> string \<Rightarrow> (ledger, json) statement" where
  "select_counterparty hh p = select (\<lambda>d. JBool (active_party (lg_counterparties d) hh p))"

definition select_active_tags :: "string \<Rightarrow> string list \<Rightarrow> (ledger, json) statement" where
  "select_active_tags hh tags = select (\<lambda>d. JNum (int (length (filter
     (\<lambda>r. pa_household r = hh \<and> pa_id r \<in> set tags \<and> \<not> pa_archived r) (lg_tags d)))))"

definition select_account :: "string \<Rightarrow> string \<Rightarrow> (ledger, json) statement" where
  "select_account hh a = select (\<lambda>d. JBool (account_in d hh a \<noteq> None))"

definition previous_exact :: "ledger \<Rightarrow> draft_row \<Rightarrow> bool" where
  "previous_exact d r \<longleftrightarrow>
     (case dr_previous r of
        None \<Rightarrow> False
      | Some x \<Rightarrow>
          (case draft_in d (mt_household (dr_meta r)) x of
             None \<Rightarrow> False
           | Some s \<Rightarrow> mt_book (dr_meta s) = mt_book (dr_meta r) \<and> dr_series s = dr_series r
               \<and> dr_version s = dr_version r - 1))"

definition draft_violations :: "ledger \<Rightarrow> draft_row \<Rightarrow> (bool \<times> string \<times> string) list" where
  "draft_violations d r =
    (let m = dr_meta r; hh = mt_household m in
     [(dr_version r \<noteq> 1 \<and> \<not> previous_exact d r, ''23514'', ''journal_drafts_previous_version_exact''),
      (dr_version r \<le> 0, ''23514'', ''journal_drafts_version_positive''),
      (\<not> nonblank (mt_description m), ''23514'', ''journal_drafts_description_nonempty''),
      (\<not> (dr_version r = 1 \<and> dr_previous r = None \<or> 1 < dr_version r \<and> dr_previous r \<noteq> None),
         ''23514'', ''journal_drafts_version_link_shape''),
      (dr_id r \<in> dr_id ` set (lg_drafts d), ''23505'', ''journal_drafts_public_id_unique''),
      (list_ex (\<lambda>s. mt_household (dr_meta s) = hh \<and> dr_series s = dr_series r \<and> dr_version s = dr_version r) (lg_drafts d),
         ''23505'', ''journal_drafts_series_version_unique''),
      (list_ex (\<lambda>s. mt_household (dr_meta s) = hh \<and> mt_artifact (dr_meta s) = mt_artifact m
          \<and> mt_hash (dr_meta s) = mt_hash m) (lg_drafts d),
         ''23505'', ''journal_drafts_artifact_once''),
      (currency_in d (mt_currency m) = None, ''23503'', ''journal_drafts_transaction_currency_fkey''),
      (\<not> book_in d hh (mt_book m), ''23503'', ''journal_drafts_book_fk''),
      (\<not> artifact_is d m (\<lambda>_. True), ''23503'', ''journal_drafts_artifact_fk'')])"

definition insert_draft :: "journal_draft_input \<Rightarrow> string list \<Rightarrow> (ledger, json) statement" where
  "insert_draft i tags t d =
    (let r = draft_row_of i tags in
     if 2147483647 < di_version i then Inl (pg_code_failure ''22003'')
     else insert_if (draft_violations d r) (JStr (dr_id r)) (d\<lparr>lg_drafts := lg_drafts d @ [r]\<rparr>))"

definition insert_draft_posting ::
  "string \<Rightarrow> string \<Rightarrow> nat \<Rightarrow> posting_input \<Rightarrow> string list \<Rightarrow> (ledger, json) statement" where
  "insert_draft_posting hh x n p tags t d =
    (case entry_of p of
       Inl e \<Rightarrow> Inl e
     | Inr e \<Rightarrow>
         insert_if
          [(en_amount e < 0, ''23514'', ''draft_postings_transaction_nonnegative''),
           (en_native e < 0, ''23514'', ''draft_postings_native_nonnegative''),
           (rate_shape_fails e, ''23514'', ''draft_postings_rate_shape''),
           (list_ex (\<lambda>l. dl_household l = hh \<and> dl_draft l = x \<and> dl_ordinal l = n) (lg_lines d),
              ''23505'', ''draft_postings_ordinal_unique''),
           (draft_in d hh x = None, ''23503'', ''draft_postings_draft_fk''),
           (account_in d hh (en_account e) = None, ''23503'', ''draft_postings_account_fk'')]
          (JNum 1)
          (d\<lparr>lg_lines := lg_lines d @
             [\<lparr>dl_household = hh, dl_draft = x, dl_ordinal = n, dl_entry = e, dl_tags = tags\<rparr>]\<rparr>))"

section \<open>Journals\<close>

text \<open>The outer joins of \<open>resolveJournal\<close>: no row, or whether each optional reference was found.\<close>

definition found :: "('a \<Rightarrow> bool) \<Rightarrow> 'a option \<Rightarrow> json" where
  "found p v = JBool (case v of None \<Rightarrow> False | Some x \<Rightarrow> p x)"

definition select_references :: "post_journal \<Rightarrow> (ledger, json) statement" where
  "select_references i = select (\<lambda>d.
     (let b = pj_body i; p = pj_proposal i; hh = jn_household b in
      if book_in d hh (jn_book b) \<and> period_in d hh (jn_book b) (jp_period p) \<noteq> None
         \<and> list_ex (\<lambda>r. dr_id r = jn_draft b \<and> mt_household (dr_meta r) = hh \<and> mt_book (dr_meta r) = jn_book b
             \<and> mt_task (dr_meta r) = jn_task b \<and> mt_artifact (dr_meta r) = pj_artifact i
             \<and> mt_hash (dr_meta r) = pj_hash i) (lg_drafts d)
      then JObj
        [(''counterparty_id'', found (\<lambda>c. party_in (lg_counterparties d) hh c \<noteq> None) (jn_counterparty b)),
         (''reverses_journal_id'', found (\<lambda>j. journal_in d hh j \<noteq> None) (jp_reverses p)),
         (''replaces_journal_id'', found (\<lambda>j. journal_in d hh j \<noteq> None) (jp_replaces p))]
      else JNull))"

definition journal_violations :: "ledger \<Rightarrow> journal_row \<Rightarrow> (bool \<times> string \<times> string) list" where
  "journal_violations d r =
    (let m = jr_meta r; hh = mt_household m in
     [(\<not> nonblank (mt_description m), ''23514'', ''journals_description_nonempty''),
      (\<not> correction_shape r, ''23514'', ''journals_correction_shape''),
      (jr_reverses r = Some (jr_id r) \<or> jr_replaces r = Some (jr_id r), ''23514'', ''journals_not_self_correction''),
      (jr_id r \<in> jr_id ` set (lg_journals d), ''23505'', ''journals_public_id_unique''),
      (list_ex (\<lambda>s. mt_household (jr_meta s) = hh \<and> jr_draft s = jr_draft r) (lg_journals d),
         ''23505'', ''journals_draft_posted_once''),
      (jr_reverses r \<noteq> None \<and> list_ex (\<lambda>s. mt_household (jr_meta s) = hh \<and> jr_reverses s = jr_reverses r) (lg_journals d),
         ''23505'', ''journals_one_reversal_per_original''),
      (jr_replaces r \<noteq> None \<and> list_ex (\<lambda>s. mt_household (jr_meta s) = hh \<and> jr_replaces s = jr_replaces r) (lg_journals d),
         ''23505'', ''journals_one_replacement_per_original''),
      (currency_in d (mt_currency m) = None, ''23503'', ''journals_transaction_currency_fkey''),
      (draft_in d hh (jr_draft r) = None, ''23503'', ''journals_exact_draft_fk'')])"

definition insert_journal :: "post_journal \<Rightarrow> (ledger, json) statement" where
  "insert_journal i t d =
    (let r = journal_row_of i in
     insert_if (journal_violations d r) (JStr (jr_id r))
       (d\<lparr>lg_journals := lg_journals d @ [r], lg_pending := lg_pending d @ [jr_id r]\<rparr>))"

definition select_active_accounts :: "string \<Rightarrow> string list \<Rightarrow> (ledger, json) statement" where
  "select_active_accounts hh ids = select (\<lambda>d. JNum (int (length (filter
     (\<lambda>a. ac_household a = hh \<and> ac_id a \<in> set ids \<and> \<not> ac_archived a) (lg_accounts d)))))"

definition insert_posting ::
  "string \<Rightarrow> string \<Rightarrow> nat \<Rightarrow> string \<Rightarrow> posting_input \<Rightarrow> (ledger, json) statement" where
  "insert_posting hh j n pid p t d =
    (case entry_of p of
       Inl e \<Rightarrow> Inl e
     | Inr e \<Rightarrow>
         insert_if
          [(en_amount e \<le> 0, ''23514'', ''postings_transaction_positive''),
           (en_native e \<le> 0, ''23514'', ''postings_native_positive''),
           (rate_shape_fails e, ''23514'', ''postings_rate_shape''),
           (pid \<in> po_id ` set (lg_postings d), ''23505'', ''postings_public_id_unique''),
           (list_ex (\<lambda>q. po_household q = hh \<and> po_journal q = j \<and> po_ordinal q = n) (lg_postings d),
              ''23505'', ''postings_journal_ordinal_unique''),
           (journal_in d hh j = None, ''23503'', ''postings_journal_fk''),
           (account_in d hh (en_account e) = None, ''23503'', ''postings_account_fk'')]
          (JStr pid)
          (d\<lparr>lg_postings := lg_postings d @
               [\<lparr>po_id = pid, po_household = hh, po_journal = j, po_ordinal = n, po_entry = e\<rparr>],
             lg_pending := lg_pending d @ [j]\<rparr>))"

text \<open>\<open>INSERT ... SELECT id FROM accounting.tags\<close> answers how many rows it inserted.\<close>

definition insert_posting_tag :: "string \<Rightarrow> string \<Rightarrow> string \<Rightarrow> (ledger, json) statement" where
  "insert_posting_tag hh pid tag t d =
    (if active_party (lg_tags d) hh tag
     then insert_if [((pid, tag) \<in> set (lg_posting_tags d), ''23505'', ''posting_tags_pkey'')] (JNum 1)
       (d\<lparr>lg_posting_tags := lg_posting_tags d @ [(pid, tag)]\<rparr>)
     else Inr (JNum 0, d))"

definition insert_journal_tag :: "string \<Rightarrow> string \<Rightarrow> string \<Rightarrow> (ledger, json) statement" where
  "insert_journal_tag hh j tag t d =
    (if active_party (lg_tags d) hh tag
     then insert_if [((j, tag) \<in> set (lg_journal_tags d), ''23505'', ''journal_tags_pkey'')] (JNum 1)
       (d\<lparr>lg_journal_tags := lg_journal_tags d @ [(j, tag)]\<rparr>)
     else Inr (JNum 0, d))"

definition constraints_immediate :: "(ledger, json) statement" where
  "constraints_immediate t d =
    (case validate_all d (lg_pending d) of
       Some e \<Rightarrow> Inl e
     | None \<Rightarrow> Inr (JNull, d\<lparr>lg_pending := []\<rparr>))"

definition constraints_deferred :: "(ledger, json) statement" where
  "constraints_deferred = select (\<lambda>d. JNull)"

text \<open>The executor's transaction: read-write, SERIALIZABLE.\<close>

definition session_settings :: "(ledger, json) statement" where
  "session_settings = select (\<lambda>d. JObj
     [(''transaction_isolation'', JStr ''serializable''), (''transaction_read_only'', JStr ''off'')])"

section \<open>Balances\<close>

definition signed_native :: "account_row \<Rightarrow> entry \<Rightarrow> int" where
  "signed_native a e = (if en_direction e = ac_normal a then en_native e else - en_native e)"

definition delta :: "account_row \<Rightarrow> posting_row list \<Rightarrow> int" where
  "delta a ps = sum_list (map (\<lambda>p. signed_native a (po_entry p))
     (filter (\<lambda>p. po_household p = ac_household a \<and> en_account (po_entry p) = ac_id a) ps))"

definition later :: "string \<Rightarrow> string \<Rightarrow> string" where
  "later s t = (if text_le s t then t else s)"

text \<open>\<open>ON CONFLICT (household_id, account_id) DO UPDATE\<close>, for one account.\<close>

definition upsert_balance :: "balance_row \<Rightarrow> balance_row list \<Rightarrow> balance_row list" where
  "upsert_balance b rows =
    (if list_ex (\<lambda>r. ba_household r = ba_household b \<and> ba_account r = ba_account b) rows
     then update_where (\<lambda>r. ba_household r = ba_household b \<and> ba_account r = ba_account b)
       (\<lambda>r. r\<lparr>ba_as_of := later (ba_as_of r) (ba_as_of b), ba_native := ba_native r + ba_native b,
          ba_reporting := ba_reporting r + ba_reporting b, ba_journal := ba_journal b\<rparr>) rows
     else rows @ [b])"

definition balance_rows :: "ledger \<Rightarrow> string \<Rightarrow> string \<Rightarrow> string list \<Rightarrow> string \<Rightarrow> balance_row list" where
  "balance_rows d hh j pids effective =
    (case map_of (lg_households d) hh of
       None \<Rightarrow> []
     | Some reporting \<Rightarrow>
         let ps = filter (\<lambda>p. po_household p = hh \<and> po_journal p = j \<and> po_id p \<in> set pids) (lg_postings d);
             accounts = filter (\<lambda>a. ac_household a = hh \<and> list_ex (\<lambda>p. en_account (po_entry p) = ac_id a) ps) (lg_accounts d)
         in map (\<lambda>a.
              \<lparr>ba_household = hh, ba_account = ac_id a, ba_as_of = effective, ba_native = delta a ps,
               ba_currency = ac_currency a,
               ba_reporting = (if ac_currency a \<noteq> reporting then 0 else delta a ps),
               ba_reporting_currency = reporting, ba_journal = j\<rparr>) accounts)"

definition upsert_balances ::
  "string \<Rightarrow> string \<Rightarrow> string list \<Rightarrow> string \<Rightarrow> (ledger, json) statement" where
  "upsert_balances hh j pids effective t d =
    (let new = foldl (\<lambda>rows b. upsert_balance b rows) (lg_balances d) (balance_rows d hh j pids effective) in
     if list_all (\<lambda>b. in_range (ba_native b) \<and> in_range (ba_reporting b)) (balance_rows d hh j pids effective @ new)
     then Inr (JNull, d\<lparr>lg_balances := new\<rparr>)
     else Inl (pg_code_failure ''22003''))"

text \<open>\<open>accountNativeBalance\<close>; a sum over no counted posting is the integer 0, which has no decimals.\<close>

definition counted :: "ledger \<Rightarrow> account_row \<Rightarrow> string \<Rightarrow> posting_row list" where
  "counted d a asOf = filter (\<lambda>p. list_ex (\<lambda>j. jr_id j = po_journal p
       \<and> text_le (mt_effective (jr_meta j)) asOf) (lg_journals d))
     (filter (\<lambda>p. po_household p = ac_household a \<and> en_account (po_entry p) = ac_id a) (lg_postings d))"

definition select_balance :: "string \<Rightarrow> string \<Rightarrow> string \<Rightarrow> (ledger, json) statement" where
  "select_balance hh aid asOf = select (\<lambda>d.
     (case account_in d hh aid of
        None \<Rightarrow> JNull
      | Some a \<Rightarrow> JObj
         [(''currency'', JStr (ac_currency a)),
          (''amount'', JStr (if counted d a asOf = [] then ''0''
             else format_decimal (delta a (counted d a asOf)) 12))]))"

section \<open>Read-back\<close>

text \<open>
  The two queries of \<open>readPostedJournal\<close>: the journal's columns and its postings in the order of
  their ordinals, as the JSON of the records.
\<close>

definition rendered :: "ledger \<Rightarrow> posting_row \<Rightarrow> posting_input" where
  "rendered d p =
    (let e = po_entry p in
     \<lparr>pt_account = en_account e, pt_direction = en_direction e, pt_amount = format_decimal (en_amount e) 12,
      pt_native = format_decimal (en_native e) 12, pt_currency = en_currency e,
      pt_rate = map_option (\<lambda>r. format_decimal r 18) (en_rate e), pt_quote = en_quote e,
      pt_rate_date = en_rate_date e, pt_rate_source = en_rate_source e, pt_memo = en_memo e,
      pt_tags = posting_tags_of d (po_id p), pt_id = Some (po_id p)\<rparr>)"

definition posted_header :: "ledger \<Rightarrow> journal_row \<Rightarrow> post_journal" where
  "posted_header d r =
    (let m = jr_meta r in
     \<lparr>pj_proposal =
        \<lparr>jp_body =
           \<lparr>jn_household = mt_household m, jn_book = mt_book m, jn_draft = jr_draft r, jn_task = mt_task m,
            jn_type = mt_type m, jn_currency = mt_currency m, jn_occurred = mt_occurred m,
            jn_effective = mt_effective m, jn_settlement = mt_settlement m, jn_source = mt_source m,
            jn_description = mt_description m, jn_counterparty = mt_counterparty m,
            jn_tags = journal_tags_of d (jr_id r), jn_postings = []\<rparr>,
         jp_journal = jr_id r, jp_period = jr_period r, jp_reverses = jr_reverses r, jp_replaces = jr_replaces r\<rparr>,
      pj_artifact = mt_artifact m, pj_hash = mt_hash m\<rparr>)"

definition select_journal :: "string \<Rightarrow> string \<Rightarrow> (ledger, json) statement" where
  "select_journal hh j = select (\<lambda>d.
     (case journal_in d hh j of None \<Rightarrow> JNull | Some r \<Rightarrow> post_journal_json (posted_header d r)))"

definition select_postings :: "string \<Rightarrow> string \<Rightarrow> (ledger, json) statement" where
  "select_postings hh j = select (\<lambda>d. JArr (map (\<lambda>p. posting_json (rendered d p))
     (sort_by (\<lambda>p q. po_ordinal p \<le> po_ordinal q) (filter (\<lambda>p. po_household p = hh) (postings_of d j)))))"

end
