(* ===== verification/JournalPosting.thy ===== *)
theory JournalPosting
  imports LedgerStatements
begin

text \<open>
  Writing drafts and journals: packages/accounting/src/errors.ts, transactions.ts,
  repositories/journal-draft-repository.ts, posting/journal-posting-service.ts and
  posting/corrections.ts, with ProjectionWriter of packages/reporting/src/projection-writer.ts.
  The random bytes of the posting identifiers are a parameter.
\<close>

section \<open>Errors and the transaction\<close>

definition normalizeAccountingError :: "exn \<Rightarrow> exn" where
  "normalizeAccountingError e =
    (if is_plus_one e then e
     else
       let p = pg_of e; check = (pg_code p = Some ''23514'') in
       if check \<and> pg_constraint p = Some ''journals_open_period_required''
       then PlusOneError Period_closed ''journal_period_closed'' After_state_resolution False (Some e)
       else if check \<and> constraint_among p [''journals_latest_draft_only'', ''journals_accepted_artifact_required'',
           ''journals_exact_draft_metadata'', ''journals_exact_draft_postings'']
       then PlusOneError Checker_rejected ''checked_draft_mismatch'' Never False (Some e)
       else if pg_code p = Some ''55000'' \<and> pg_constraint p = Some ''accounts_posted_identity_immutable''
       then PlusOneError Constraint_violation ''posted_account_financial_identity_immutable'' Never False (Some e)
       else if pg_code p = Some ''23505'' \<and> pg_constraint p = Some ''account_source_mappings_active_identity''
       then PlusOneError Duplicate_replay ''active_account_source_mapping_exists'' After_state_resolution False (Some e)
       else normalizeDatabaseError False e)"

definition referenceError :: "string \<Rightarrow> exn" where
  "referenceError code = plusOne Validation_rejected code Never False"

definition assertSerializableTransaction :: "((ledger, json) statement, unit) script" where
  "assertSerializableTransaction =
    script_bind (query session_settings) (\<lambda>s.
      demand (json_field ''transaction_isolation'' s = Some (JStr ''serializable'')
          \<and> json_field ''transaction_read_only'' s = Some (JStr ''off''))
        (plusOne Constraint_violation ''serializable_transaction_required'' Never False))"

section \<open>Drafts\<close>

definition bookDbId :: "string \<Rightarrow> string \<Rightarrow> ((ledger, json) statement, unit) script" where
  "bookDbId hh b = script_bind (query (select_book hh b)) (\<lambda>r.
     demand (r = JBool True) (referenceError ''accounting_book_not_found''))"

definition resolveDraft :: "string \<Rightarrow> string \<Rightarrow> ((ledger, json) statement, unit) script" where
  "resolveDraft hh x = script_bind (query (select_draft hh x)) (\<lambda>r.
     demand (r = JBool True) (referenceError ''previous_draft_not_found''))"

definition resolveCounterparty :: "string \<Rightarrow> string \<Rightarrow> ((ledger, json) statement, unit) script" where
  "resolveCounterparty hh p = script_bind (query (select_counterparty hh p)) (\<lambda>r.
     demand (r = JBool True) (referenceError ''counterparty_not_found''))"

definition if_given :: "('x \<Rightarrow> ('q, unit) script) \<Rightarrow> 'x option \<Rightarrow> ('q, unit) script" where
  "if_given f v = (case v of None \<Rightarrow> Done () | Some x \<Rightarrow> f x)"

definition validateTags :: "string \<Rightarrow> string list \<Rightarrow> ((ledger, json) statement, string list) script" where
  "validateTags hh tags =
    (let parsed = sorted_text (remdups tags) in
     if parsed = [] then Done []
     else script_bind (query (select_active_tags hh parsed)) (\<lambda>n.
       script_bind (demand (n = JNum (int (length parsed))) (referenceError ''draft_tag_not_found'')) (\<lambda>_.
       Done parsed)))"

definition insertDraftPosting ::
  "string \<Rightarrow> string \<Rightarrow> nat \<times> posting_input \<Rightarrow> ((ledger, json) statement, unit) script" where
  "insertDraftPosting hh x = (\<lambda>(index, p).
     script_bind (query (select_account hh (pt_account p))) (\<lambda>a.
     script_bind (demand (a = JBool True) (referenceError ''draft_account_not_found'')) (\<lambda>_.
     script_bind (validateTags hh (pt_tags p)) (\<lambda>tags.
     script_bind (query (insert_draft_posting hh x (index + 1) p tags)) (\<lambda>_. Done ())))))"

definition insertVersion :: "journal_draft_input \<Rightarrow> ((ledger, json) statement, unit) script" where
  "insertVersion i =
    (let b = di_body i; hh = jn_household b in
     if \<not> JournalDraftInputSchemaV1 i then Throw ZodError
     else caught normalizeAccountingError
      (script_bind (bookDbId hh (jn_book b)) (\<lambda>_.
       script_bind (if_given (resolveDraft hh) (di_previous i)) (\<lambda>_.
       script_bind (if_given (resolveCounterparty hh) (jn_counterparty b)) (\<lambda>_.
       script_bind (validateTags hh (jn_tags b)) (\<lambda>tags.
       script_bind (query (insert_draft i tags)) (\<lambda>_.
       script_bind (each (insertDraftPosting hh (jn_draft b)) (enumerate 0 (jn_postings b))) (\<lambda>_.
       Done ()))))))))"

section \<open>Identifiers of postings\<close>

definition CROCKFORD :: string where
  "CROCKFORD = ''0123456789ABCDEFGHJKMNPQRSTVWXYZ''"

text \<open>Each byte gives two characters, one of its high and one of its low nibble.\<close>

definition nibble :: "nat list \<Rightarrow> nat \<Rightarrow> nat" where
  "nibble bytes i =
    (let byte = (if i div 2 < length bytes then bytes ! (i div 2) else 0)
     in if i mod 2 = 0 then byte div 16 mod 16 else byte mod 16)"

definition ulidLike26 :: "nat list \<Rightarrow> string" where
  "ulidLike26 bytes = map (\<lambda>i. CROCKFORD ! nibble bytes i) [0..<26]"

definition newPostingId :: "nat list \<Rightarrow> string" where
  "newPostingId bytes = ''posting_'' @ ulidLike26 bytes"

section \<open>Journals\<close>

definition resolveJournal :: "post_journal \<Rightarrow> ((ledger, json) statement, unit) script" where
  "resolveJournal i =
    script_bind (query (select_references i)) (\<lambda>r.
    script_bind (demand (r \<noteq> JNull) (referenceError ''journal_reference_not_found'')) (\<lambda>_.
    script_bind (demand (jn_counterparty (pj_body i) = None \<or> json_field ''counterparty_id'' r = Some (JBool True))
       (referenceError ''counterparty_not_found'')) (\<lambda>_.
    script_bind (demand (jp_reverses (pj_proposal i) = None \<or> json_field ''reverses_journal_id'' r = Some (JBool True))
       (referenceError ''reversed_journal_not_found'')) (\<lambda>_.
    demand (jp_replaces (pj_proposal i) = None \<or> json_field ''replaces_journal_id'' r = Some (JBool True))
       (referenceError ''replaced_journal_not_found'')))))"

definition resolveAccounts :: "string \<Rightarrow> string list \<Rightarrow> ((ledger, json) statement, unit) script" where
  "resolveAccounts hh ids =
    script_bind (query (select_active_accounts hh ids)) (\<lambda>n.
    demand (n = JNum (int (card (set ids)))) (referenceError ''posting_account_not_found''))"

definition insertPostingTag :: "string \<Rightarrow> string \<Rightarrow> string \<Rightarrow> ((ledger, json) statement, unit) script" where
  "insertPostingTag hh pid tag = script_bind (query (insert_posting_tag hh pid tag)) (\<lambda>n.
     demand (n = JNum 1) (referenceError ''posting_tag_not_found''))"

definition insertJournalTag :: "string \<Rightarrow> string \<Rightarrow> string \<Rightarrow> ((ledger, json) statement, unit) script" where
  "insertJournalTag hh j tag = script_bind (query (insert_journal_tag hh j tag)) (\<lambda>n.
     demand (n = JNum 1) (referenceError ''journal_tag_not_found''))"

definition insertPosting ::
  "(nat \<Rightarrow> nat list) \<Rightarrow> string \<Rightarrow> string \<Rightarrow> nat \<times> posting_input \<Rightarrow> ((ledger, json) statement, string) script" where
  "insertPosting rand hh j = (\<lambda>(index, p).
     let pid = newPostingId (rand index) in
     if \<not> opaqueIdentifierSchema Id_posting pid then Throw ZodError
     else
       script_bind (query (insert_posting hh j (index + 1) pid p)) (\<lambda>_.
       script_bind (each (insertPostingTag hh pid) (pt_tags p)) (\<lambda>_.
       Done pid)))"

text \<open>The projection is \<open>ProjectionWriter.applyJournal\<close>, or absent.\<close>

definition updateCurrentProjection ::
  "bool \<Rightarrow> post_journal \<Rightarrow> string list \<Rightarrow> ((ledger, json) statement, unit) script" where
  "updateCurrentProjection projection i pids =
    (if projection
     then script_bind (query (upsert_balances (jn_household (pj_body i)) (jp_journal (pj_proposal i)) pids
         (jn_effective (pj_body i)))) (\<lambda>_. Done ())
     else Done ())"

definition insertPostings ::
  "(nat \<Rightarrow> nat list) \<Rightarrow> post_journal \<Rightarrow> ((ledger, json) statement, string list) script" where
  "insertPostings rand i =
    each (insertPosting rand (jn_household (pj_body i)) (jp_journal (pj_proposal i)))
      (enumerate 0 (jn_postings (pj_body i)))"

definition postInTransaction ::
  "(string \<Rightarrow> nat \<Rightarrow> nat list) \<Rightarrow> bool \<Rightarrow> post_journal \<Rightarrow>
   ((ledger, json) statement, string \<times> string list) script" where
  "postInTransaction rand projection i =
    (let b = pj_body i; hh = jn_household b; j = jp_journal (pj_proposal i) in
     if \<not> PostJournalInputSchemaV1 i then Throw ZodError
     else script_bind assertSerializableTransaction (\<lambda>_.
      caught normalizeAccountingError
       (script_bind (resolveJournal i) (\<lambda>_.
        script_bind (query (insert_journal i)) (\<lambda>_.
        script_bind (resolveAccounts hh (map pt_account (jn_postings b))) (\<lambda>_.
        script_bind (insertPostings (rand j) i) (\<lambda>pids.
        script_bind (each (insertJournalTag hh j) (jn_tags b)) (\<lambda>_.
        script_bind (updateCurrentProjection projection i pids) (\<lambda>_.
        script_bind (query constraints_immediate) (\<lambda>_.
        script_bind (query constraints_deferred) (\<lambda>_.
        Done (j, pids))))))))))))"

section \<open>Corrections\<close>

definition buildExactReversalPostings :: "(nat \<Rightarrow> string) \<Rightarrow> posting_input list \<Rightarrow> posting_input list option" where
  "buildExactReversalPostings next ps =
    (if list_all (\<lambda>i. opaqueIdentifierSchema Id_posting (next i)) [0..<length ps]
     then Some (map (\<lambda>(i, p). p\<lparr>pt_id := Some (next i), pt_direction := opposite (pt_direction p)\<rparr>) (enumerate 0 ps))
     else None)"

definition select_original :: "string \<Rightarrow> string \<Rightarrow> (ledger, json) statement" where
  "select_original hh j = select (\<lambda>d. JBool (household_in d hh \<and> journal_in d hh j \<noteq> None))"

definition reverseAndReplaceInTransaction ::
  "(string \<Rightarrow> nat \<Rightarrow> nat list) \<Rightarrow> bool \<Rightarrow> string \<Rightarrow> post_journal \<Rightarrow> post_journal \<Rightarrow>
   ((ledger, json) statement, (string \<times> string list) \<times> (string \<times> string list)) script" where
  "reverseAndReplaceInTransaction rand projection original reversal replacement =
    (if \<not> ReverseAndReplaceInputSchemaV1 original reversal replacement then Throw ZodError
     else script_bind assertSerializableTransaction (\<lambda>_.
      script_bind (query (select_original (jn_household (pj_body reversal)) original)) (\<lambda>r.
      script_bind (demand (r = JBool True) (JsError ''Original journal was not found'')) (\<lambda>_.
      script_bind (postInTransaction rand projection reversal) (\<lambda>x.
      script_bind (postInTransaction rand projection replacement) (\<lambda>y.
      Done (x, y)))))))"

end
