(* ===== verification/ChartRepository.thy ===== *)
theory ChartRepository
  imports JournalPosting
begin

text \<open>
  The books, accounts, source mappings, periods, counterparties and tags of a household:
  packages/accounting/src/repositories/accounting-repository.ts, with the constraints and triggers of
  database/migrations/0004_accounting_ledger.sql on these tables.
\<close>

section \<open>Inputs\<close>

record account_fields =
  cf_household :: string
  cf_book :: string
  cf_account :: string
  cf_parent :: "string option"
  cf_name :: string
  cf_purpose :: "string option"
  cf_class :: accounting_class
  cf_normal :: posting_direction
  cf_currency :: string
  cf_label :: "string option"

record mapping_fields =
  mf_household :: string
  mf_book :: string
  mf_mapping :: string
  mf_account :: string
  mf_source :: string
  mf_external :: string
  mf_metadata :: "(string \<times> json) list"

definition account_row_of :: "account_fields \<Rightarrow> bool \<Rightarrow> account_row" where
  "account_row_of f archived =
    \<lparr>ac_id = cf_account f, ac_household = cf_household f, ac_book = cf_book f, ac_parent = cf_parent f,
     ac_name = cf_name f, ac_purpose = cf_purpose f, ac_class = cf_class f, ac_normal = cf_normal f,
     ac_currency = cf_currency f, ac_label = cf_label f, ac_archived = archived\<rparr>"

section \<open>Accounts\<close>

text \<open>
  The ancestors that \<open>validate_account_hierarchy\<close> walks up to; a walk through a table without
  cycles takes fewer steps than there are accounts.
\<close>

fun climbs_to :: "ledger \<Rightarrow> string \<Rightarrow> string \<Rightarrow> string \<Rightarrow> nat \<Rightarrow> string option \<Rightarrow> bool" where
  "climbs_to d hh b target 0 x = False"
| "climbs_to d hh b target (Suc n) x =
    (case x of
       None \<Rightarrow> False
     | Some y \<Rightarrow>
         (case find (\<lambda>a. ac_household a = hh \<and> ac_book a = b \<and> ac_id a = y) (lg_accounts d) of
            None \<Rightarrow> False
          | Some a \<Rightarrow> y = target \<or> climbs_to d hh b target n (ac_parent a)))"

definition account_violations :: "ledger \<Rightarrow> account_row \<Rightarrow> (bool \<times> string \<times> string) list" where
  "account_violations d a =
    [(\<not> nonblank (ac_name a), ''23514'', ''accounts_name_nonempty''),
     (currency_in d (ac_currency a) = None, ''23503'', ''accounts_native_currency_fkey''),
     (case ac_parent a of None \<Rightarrow> False
      | Some p \<Rightarrow> \<not> list_ex (\<lambda>r. ac_household r = ac_household a \<and> ac_book r = ac_book a \<and> ac_id r = p) (lg_accounts d),
        ''23503'', ''accounts_parent_fk'')]"

text \<open>The row of a new account is no ancestor yet.\<close>

definition hierarchy_violations :: "ledger \<Rightarrow> account_row \<Rightarrow> (bool \<times> string \<times> string) list" where
  "hierarchy_violations d a =
    [(climbs_to d (ac_household a) (ac_book a) (ac_id a) (Suc (length (lg_accounts d))) (ac_parent a),
        ''23514'', ''accounts_hierarchy_acyclic''),
     (ac_parent a = Some (ac_id a), ''23514'', ''accounts_not_own_parent'')]"

definition insert_account :: "account_fields \<Rightarrow> (ledger, json) statement" where
  "insert_account f t d =
    (let a = account_row_of f False in
     insert_if
       (account_violations d a @
        [(ac_id a \<in> ac_id ` set (lg_accounts d), ''23505'', ''accounts_public_id_unique''),
         (\<not> book_in d (ac_household a) (ac_book a), ''23503'', ''accounts_book_fk'')])
       (JNum 1) (d\<lparr>lg_accounts := lg_accounts d @ [a]\<rparr>))"

text \<open>\<open>guard_account_history\<close>: the financial identity of an account with postings does not change.\<close>

definition has_postings :: "ledger \<Rightarrow> account_row \<Rightarrow> bool" where
  "has_postings d a \<longleftrightarrow>
     list_ex (\<lambda>p. po_household p = ac_household a \<and> en_account (po_entry p) = ac_id a) (lg_postings d)"

definition identity_changes :: "account_row \<Rightarrow> account_row \<Rightarrow> bool" where
  "identity_changes a b \<longleftrightarrow>
     ac_household b \<noteq> ac_household a \<or> ac_book b \<noteq> ac_book a \<or> ac_id b \<noteq> ac_id a
     \<or> ac_currency b \<noteq> ac_currency a \<or> ac_class b \<noteq> ac_class a \<or> ac_normal b \<noteq> ac_normal a"

definition update_account :: "account_fields \<Rightarrow> (ledger, json) statement" where
  "update_account f t d =
    (let new = account_row_of f False;
         hit = (\<lambda>a. ac_household a = cf_household f \<and> ac_book a = cf_book f \<and> ac_id a = cf_account f
           \<and> \<not> ac_archived a)
     in insert_if
       (if list_ex hit (lg_accounts d)
        then (list_ex (\<lambda>a. hit a \<and> has_postings d a \<and> identity_changes a new) (lg_accounts d),
               ''55000'', ''accounts_posted_identity_immutable'')
          # hierarchy_violations d new @ account_violations d new
        else [])
       (JNum (int (count_where hit (lg_accounts d))))
       (d\<lparr>lg_accounts := update_where hit (\<lambda>a. new) (lg_accounts d)\<rparr>))"

definition archive_account :: "string \<Rightarrow> string \<Rightarrow> (ledger, json) statement" where
  "archive_account hh x t d =
    (let hit = (\<lambda>a. household_in d hh \<and> ac_household a = hh \<and> ac_id a = x \<and> \<not> ac_archived a)
     in Inr (JNum (int (count_where hit (lg_accounts d))),
          d\<lparr>lg_accounts := update_where hit (\<lambda>a. a\<lparr>ac_archived := True\<rparr>) (lg_accounts d)\<rparr>))"

section \<open>Source mappings\<close>

definition insert_mapping :: "mapping_fields \<Rightarrow> (ledger, json) statement" where
  "insert_mapping f t d =
    insert_if
     [(\<not> nonblank (mf_source f), ''23514'', ''account_source_mappings_source_nonempty''),
      (\<not> nonblank (mf_external f), ''23514'', ''account_source_mappings_external_nonempty''),
      (mf_mapping f \<in> ma_id ` set (lg_mappings d), ''23505'', ''account_source_mappings_public_id_unique''),
      (list_ex (\<lambda>m. ma_household m = mf_household f \<and> ma_source m = mf_source f
          \<and> ma_external m = mf_external f \<and> \<not> ma_archived m) (lg_mappings d),
         ''23505'', ''account_source_mappings_active_identity''),
      (\<not> list_ex (\<lambda>a. ac_household a = mf_household f \<and> ac_book a = mf_book f \<and> ac_id a = mf_account f) (lg_accounts d),
         ''23503'', ''account_source_mappings_account_fk'')]
     (JNum 1)
     (d\<lparr>lg_mappings := lg_mappings d @
        [\<lparr>ma_id = mf_mapping f, ma_household = mf_household f, ma_book = mf_book f, ma_account = mf_account f,
          ma_source = mf_source f, ma_external = mf_external f, ma_metadata = JObj (mf_metadata f),
          ma_archived = False\<rparr>]\<rparr>)"

definition archive_mapping :: "string \<Rightarrow> string \<Rightarrow> (ledger, json) statement" where
  "archive_mapping hh x t d =
    (let hit = (\<lambda>m. household_in d hh \<and> ma_household m = hh \<and> ma_id m = x \<and> \<not> ma_archived m)
     in Inr (JNum (int (count_where hit (lg_mappings d))),
          d\<lparr>lg_mappings := update_where hit (\<lambda>m. m\<lparr>ma_archived := True\<rparr>) (lg_mappings d)\<rparr>))"

section \<open>Books, periods, counterparties, tags\<close>

definition select_household :: "string \<Rightarrow> (ledger, json) statement" where
  "select_household hh = select (\<lambda>d. JBool (household_in d hh))"

definition insert_book :: "string \<Rightarrow> string \<Rightarrow> string \<Rightarrow> (ledger, json) statement" where
  "insert_book b hh name t d =
    insert_if
     [(\<not> nonblank name, ''23514'', ''books_name_nonempty''),
      (b \<in> fst ` set (lg_books d), ''23505'', ''books_public_id_unique''),
      (hh \<in> snd ` set (lg_books d), ''23505'', ''books_one_per_household'')]
     (JStr b) (d\<lparr>lg_books := lg_books d @ [(b, hh)]\<rparr>)"

definition insert_configuration :: "configuration_row \<Rightarrow> (ledger, json) statement" where
  "insert_configuration r t d =
    insert_if
     [(bc_id r \<in> bc_id ` set (lg_configurations d), ''23505'', ''book_configurations_public_id_unique''),
      (list_ex (\<lambda>c. bc_household c = bc_household r \<and> bc_book c = bc_book r \<and> bc_from c = bc_from r) (lg_configurations d),
         ''23505'', ''book_configurations_effective_unique''),
      (currency_in d (bc_currency r) = None, ''23503'', ''book_configurations_reporting_currency_fkey''),
      ((bc_book r, bc_household r) \<notin> set (lg_books d), ''23503'', ''book_configurations_book_fk'')]
     (JNum 1) (d\<lparr>lg_configurations := lg_configurations d @ [r]\<rparr>)"

text \<open>\<open>periods_calendar_month\<close>: the first and the last day of one month.\<close>

definition calendar_month :: "string \<Rightarrow> string \<Rightarrow> bool" where
  "calendar_month s e \<longleftrightarrow>
     drop 8 s = ''01'' \<and> take 8 e = take 8 s
     \<and> read_decimal (drop 8 e) = days_in_month (read_decimal (take 4 s)) (read_decimal (take 2 (drop 5 s)))"

definition insert_period :: "period_row \<Rightarrow> (ledger, json) statement" where
  "insert_period r t d =
    insert_if
     [(\<not> calendar_month (pe_start r) (pe_end r), ''23514'', ''periods_calendar_month''),
      (pe_id r \<in> pe_id ` set (lg_periods d), ''23505'', ''periods_public_id_unique''),
      (list_ex (\<lambda>p. pe_household p = pe_household r \<and> pe_book p = pe_book r \<and> pe_start p = pe_start r) (lg_periods d),
         ''23505'', ''periods_month_unique'')]
     (JNum 1) (d\<lparr>lg_periods := lg_periods d @ [r]\<rparr>)"

definition update_period_state :: "string \<Rightarrow> string \<Rightarrow> bool \<Rightarrow> bool \<Rightarrow> (ledger, json) statement" where
  "update_period_state hh x expected to t d =
    (let hit = (\<lambda>p. household_in d hh \<and> pe_household p = hh \<and> pe_id p = x \<and> pe_open p = expected)
     in Inr (JNum (int (count_where hit (lg_periods d))),
          d\<lparr>lg_periods := update_where hit (\<lambda>p. p\<lparr>pe_open := to\<rparr>) (lg_periods d)\<rparr>))"

text \<open>Without the household its subquery is NULL.\<close>

definition insert_party :: "bool \<Rightarrow> string \<Rightarrow> string \<Rightarrow> string \<Rightarrow> (ledger, json) statement" where
  "insert_party tag hh x name t d =
    (let rows = (if tag then lg_tags d else lg_counterparties d);
         row = \<lparr>pa_id = x, pa_household = hh, pa_name = name, pa_archived = False\<rparr>
     in if \<not> household_in d hh then Inl (pg_code_failure ''23502'')
        else insert_if
         [(\<not> nonblank name, ''23514'', if tag then ''tags_name_nonempty'' else ''counterparties_name_nonempty''),
          (x \<in> pa_id ` set rows, ''23505'', if tag then ''tags_public_id_unique'' else ''counterparties_public_id_unique''),
          (tag \<and> list_ex (\<lambda>r. pa_household r = hh \<and> pa_name r = name) rows, ''23505'', ''tags_household_name_unique'')]
         (JNum 1)
         (if tag then d\<lparr>lg_tags := lg_tags d @ [row]\<rparr> else d\<lparr>lg_counterparties := lg_counterparties d @ [row]\<rparr>))"

definition archive_party :: "bool \<Rightarrow> string \<Rightarrow> string \<Rightarrow> (ledger, json) statement" where
  "archive_party tag hh x t d =
    (let hit = (\<lambda>r. household_in d hh \<and> pa_household r = hh \<and> pa_id r = x \<and> \<not> pa_archived r);
         close = update_where hit (\<lambda>r. r\<lparr>pa_archived := True\<rparr>)
     in Inr (JNum (int (count_where hit (if tag then lg_tags d else lg_counterparties d))),
          if tag then d\<lparr>lg_tags := close (lg_tags d)\<rparr> else d\<lparr>lg_counterparties := close (lg_counterparties d)\<rparr>))"

section \<open>The repository\<close>

type_synonym 'a ledger_script = "((ledger, json) statement, 'a) script"

definition householdDbId :: "string \<Rightarrow> unit ledger_script" where
  "householdDbId hh = script_bind (query (select_household hh)) (\<lambda>r.
     demand (r = JBool True) (referenceError ''household_not_found''))"

definition accountDbId :: "string \<Rightarrow> string \<Rightarrow> unit ledger_script" where
  "accountDbId hh x = script_bind (query (select_account hh x)) (\<lambda>r.
     demand (r = JBool True) (referenceError ''account_not_found''))"

definition one_row :: "exn \<Rightarrow> json \<Rightarrow> unit ledger_script" where
  "one_row e n = demand (n = JNum 1) e"

definition createBookWithConfiguration :: "string \<Rightarrow> configuration_row \<Rightarrow> unit ledger_script" where
  "createBookWithConfiguration name r =
    caught normalizeAccountingError
     (script_bind (householdDbId (bc_household r)) (\<lambda>_.
      script_bind (query (insert_book (bc_book r) (bc_household r) name)) (\<lambda>_.
      script_bind (query (insert_configuration r)) (\<lambda>_. Done ()))))"

definition createAccount :: "account_fields \<Rightarrow> unit ledger_script" where
  "createAccount f =
    caught normalizeAccountingError
     (script_bind (bookDbId (cf_household f) (cf_book f)) (\<lambda>_.
      script_bind (if_given (accountDbId (cf_household f)) (cf_parent f)) (\<lambda>_.
      script_bind (query (insert_account f)) (\<lambda>_. Done ()))))"

definition updateAccount :: "account_fields \<Rightarrow> unit ledger_script" where
  "updateAccount f =
    caught normalizeAccountingError
     (script_bind (bookDbId (cf_household f) (cf_book f)) (\<lambda>_.
      script_bind (accountDbId (cf_household f) (cf_account f)) (\<lambda>_.
      script_bind (if_given (accountDbId (cf_household f)) (cf_parent f)) (\<lambda>_.
      script_bind (query (update_account f)) (one_row (referenceError ''active_account_not_found''))))))"

definition createAccountSourceMapping :: "mapping_fields \<Rightarrow> unit ledger_script" where
  "createAccountSourceMapping f =
    caught normalizeAccountingError
     (script_bind (bookDbId (mf_household f) (mf_book f)) (\<lambda>_.
      script_bind (accountDbId (mf_household f) (mf_account f)) (\<lambda>_.
      script_bind (query (insert_mapping f)) (\<lambda>_. Done ()))))"

definition archiveAccountSourceMapping :: "string \<Rightarrow> string \<Rightarrow> unit ledger_script" where
  "archiveAccountSourceMapping hh x =
    caught normalizeAccountingError
     (script_bind (query (archive_mapping hh x)) (one_row (referenceError ''active_account_source_mapping_not_found'')))"

definition archiveAccount :: "string \<Rightarrow> string \<Rightarrow> unit ledger_script" where
  "archiveAccount hh x =
    caught normalizeAccountingError
     (script_bind (query (archive_account hh x)) (one_row (referenceError ''active_account_not_found'')))"

definition createPeriod :: "string \<Rightarrow> string \<Rightarrow> string \<Rightarrow> string \<Rightarrow> string \<Rightarrow> unit ledger_script" where
  "createPeriod hh b x s e =
    caught normalizeAccountingError
     (script_bind (bookDbId hh b) (\<lambda>_.
      script_bind (query (insert_period
        \<lparr>pe_id = x, pe_household = hh, pe_book = b, pe_start = s, pe_end = e, pe_open = True\<rparr>)) (\<lambda>_. Done ())))"

definition addBookConfiguration :: "configuration_row \<Rightarrow> unit ledger_script" where
  "addBookConfiguration r =
    caught normalizeAccountingError
     (script_bind (bookDbId (bc_household r) (bc_book r)) (\<lambda>_.
      script_bind (query (insert_configuration r)) (\<lambda>_. Done ())))"

definition createCounterparty :: "string \<Rightarrow> string \<Rightarrow> string \<Rightarrow> unit ledger_script" where
  "createCounterparty hh x name =
    caught normalizeAccountingError (script_bind (query (insert_party False hh x name)) (\<lambda>_. Done ()))"

definition createTag :: "string \<Rightarrow> string \<Rightarrow> string \<Rightarrow> unit ledger_script" where
  "createTag hh x name =
    caught normalizeAccountingError (script_bind (query (insert_party True hh x name)) (\<lambda>_. Done ()))"

definition archiveCounterparty :: "string \<Rightarrow> string \<Rightarrow> unit ledger_script" where
  "archiveCounterparty hh x =
    caught normalizeAccountingError
     (script_bind (query (archive_party False hh x)) (one_row (referenceError ''active_counterparty_not_found'')))"

definition archiveTag :: "string \<Rightarrow> string \<Rightarrow> unit ledger_script" where
  "archiveTag hh x =
    caught normalizeAccountingError
     (script_bind (query (archive_party True hh x)) (one_row (referenceError ''active_tag_not_found'')))"

definition transitionPeriod :: "string \<Rightarrow> string \<Rightarrow> bool \<Rightarrow> bool \<Rightarrow> unit ledger_script" where
  "transitionPeriod hh x expected to =
    caught normalizeAccountingError
     (script_bind (query (update_period_state hh x expected to))
       (one_row (plusOne Serialization_conflict ''period_state_conflict'' After_state_resolution False)))"

end
