(* ===== verification/JournalFacts.thy ===== *)
theory JournalFacts
  imports JournalPosting
begin

text \<open>
  What posting a journal and inserting a draft do to the tables: every run that returns has
  appended exactly the rows of its input, and the constraint trigger has passed.
\<close>

section \<open>Loops\<close>

definition tag_links :: "string \<Rightarrow> string list \<Rightarrow> (string \<times> string) list" where
  "tag_links x tags = map (Pair x) tags"

lemma insert_posting_tags:
  "yields (each (insertPostingTag hh pid) tags)
     (\<lambda>_ d'. d' = d\<lparr>lg_posting_tags := lg_posting_tags d @ tag_links pid tags\<rparr>) d"
proof (rule yields_each)
  show "d = d\<lparr>lg_posting_tags := lg_posting_tags d @ tag_links pid []\<rparr>" by (simp add: tag_links_def)
next
  fix pre tag suf and ys :: "unit list" and d'
  assume d': "d' = d\<lparr>lg_posting_tags := lg_posting_tags d @ tag_links pid pre\<rparr>"
  show "yields (insertPostingTag hh pid tag)
      (\<lambda>_ d''. d'' = d\<lparr>lg_posting_tags := lg_posting_tags d @ tag_links pid (pre @ [tag])\<rparr>) d'"
    unfolding insertPostingTag_def
    by (intro yields_bind yields_query yields_demand)
      (auto simp: insert_posting_tag_def insert_if_Inr d' tag_links_def split: if_splits)
qed

lemma insert_journal_tags:
  "yields (each (insertJournalTag hh j) tags)
     (\<lambda>_ d'. d' = d\<lparr>lg_journal_tags := lg_journal_tags d @ tag_links j tags\<rparr>) d"
proof (rule yields_each)
  show "d = d\<lparr>lg_journal_tags := lg_journal_tags d @ tag_links j []\<rparr>" by (simp add: tag_links_def)
next
  fix pre tag suf and ys :: "unit list" and d'
  assume d': "d' = d\<lparr>lg_journal_tags := lg_journal_tags d @ tag_links j pre\<rparr>"
  show "yields (insertJournalTag hh j tag)
      (\<lambda>_ d''. d'' = d\<lparr>lg_journal_tags := lg_journal_tags d @ tag_links j (pre @ [tag])\<rparr>) d'"
    unfolding insertJournalTag_def
    by (intro yields_bind yields_query yields_demand)
      (auto simp: insert_journal_tag_def insert_if_Inr d' tag_links_def split: if_splits)
qed

text \<open>The row that the posting with an index becomes.\<close>

definition posting_row_for ::
  "(nat \<Rightarrow> nat list) \<Rightarrow> string \<Rightarrow> string \<Rightarrow> nat \<times> posting_input \<Rightarrow> posting_row \<Rightarrow> bool" where
  "posting_row_for rand hh j = (\<lambda>(n, p) r.
     po_id r = newPostingId (rand n) \<and> po_household r = hh \<and> po_journal r = j \<and> po_ordinal r = n + 1
     \<and> entry_of p = Inr (po_entry r) \<and> 0 < en_amount (po_entry r) \<and> 0 < en_native (po_entry r))"

definition links_of :: "(nat \<times> posting_input) list \<Rightarrow> posting_row list \<Rightarrow> (string \<times> string) list" where
  "links_of ps rows = concat (map2 (\<lambda>p r. tag_links (po_id r) (pt_tags (snd p))) ps rows)"

definition with_postings ::
  "(nat \<times> posting_input) list \<Rightarrow> posting_row list \<Rightarrow> string \<Rightarrow> ledger \<Rightarrow> ledger" where
  "with_postings ps rows j d =
    d\<lparr>lg_postings := lg_postings d @ rows, lg_posting_tags := lg_posting_tags d @ links_of ps rows,
      lg_pending := lg_pending d @ replicate (length rows) j\<rparr>"

definition fresh_rows :: "ledger \<Rightarrow> posting_row list \<Rightarrow> bool" where
  "fresh_rows d rows \<longleftrightarrow> distinct (map po_id rows) \<and> po_id ` set rows \<inter> po_id ` set (lg_postings d) = {}
     \<and> (\<forall>r \<in> set rows. account_in d (po_household r) (en_account (po_entry r)) \<noteq> None)"

lemma insert_posting_row:
  assumes rows: "list_all2 (posting_row_for rand hh j) pre rows" "fresh_rows d rows"
  shows "yields (insertPosting rand hh j x)
    (\<lambda>y d'. \<exists>r. y = po_id r \<and> d' = with_postings (pre @ [x]) (rows @ [r]) j d
       \<and> posting_row_for rand hh j x r \<and> fresh_rows d (rows @ [r])) (with_postings pre rows j d)"
proof -
  obtain n p where x: "x = (n, p)" by fastforce
  let ?pid = "newPostingId (rand n)"
  have len: "length pre = length rows" using rows(1) by (rule list_all2_lengthD)
  have step: "yields (script_bind (each (insertPostingTag hh ?pid) (pt_tags p)) (\<lambda>_. Done ?pid))
      (\<lambda>y d'. \<exists>r. y = po_id r \<and> d' = with_postings (pre @ [x]) (rows @ [r]) j d
         \<and> posting_row_for rand hh j x r \<and> fresh_rows d (rows @ [r])) d1"
    if ins: "insert_posting hh j (n + 1) ?pid p t (with_postings pre rows j d) = Inr (a, d1)" for t a d1
  proof -
    obtain e where e: "entry_of p = Inr e" using ins by (auto simp: insert_posting_def split: sum.splits)
    define r where "r = \<lparr>po_id = ?pid, po_household = hh, po_journal = j, po_ordinal = n + 1, po_entry = e\<rparr>"
    have d1: "d1 = (with_postings pre rows j d)\<lparr>lg_postings := lg_postings d @ rows @ [r],
          lg_pending := lg_pending d @ replicate (length rows) j @ [j]\<rparr>"
      and ok: "0 < en_amount e" "0 < en_native e" "?pid \<notin> po_id ` set (lg_postings d @ rows)"
        "account_in d hh (en_account e) \<noteq> None"
      using ins by (auto simp: insert_posting_def e insert_if_Inr with_postings_def r_def account_in_def)
    have "posting_row_for rand hh j x r" using e ok by (simp add: posting_row_for_def x r_def)
    moreover have "fresh_rows d (rows @ [r])"
      using rows(2) ok by (auto simp: fresh_rows_def r_def)
    moreover have "d1\<lparr>lg_posting_tags := lg_posting_tags d1 @ tag_links ?pid (pt_tags p)\<rparr>
        = with_postings (pre @ [x]) (rows @ [r]) j d"
      using len by (simp add: d1 with_postings_def links_of_def x r_def replicate_append_same)
    moreover have "?pid = po_id r" by (simp add: r_def)
    ultimately show ?thesis
      by (intro yields_bind yields_mono [OF insert_posting_tags] yields_done) metis
  qed
  show ?thesis
  proof (cases "opaqueIdentifierSchema Id_posting ?pid")
    case True
    then have eq: "insertPosting rand hh j x =
        script_bind (query (insert_posting hh j (n + 1) ?pid p)) (\<lambda>_.
        script_bind (each (insertPostingTag hh ?pid) (pt_tags p)) (\<lambda>_. Done ?pid))"
      by (simp add: insertPosting_def x Let_def)
    show ?thesis unfolding eq by (rule yields_bind, rule yields_query, rule step)
  qed (simp add: insertPosting_def x yields_throw)
qed

lemma insert_postings:
  "yields (insertPostings rand i)
    (\<lambda>ys d'. \<exists>rows. ys = map po_id rows
       \<and> d' = with_postings (enumerate 0 (jn_postings (pj_body i))) rows (jp_journal (pj_proposal i)) d
       \<and> list_all2 (posting_row_for rand (jn_household (pj_body i)) (jp_journal (pj_proposal i)))
           (enumerate 0 (jn_postings (pj_body i))) rows
       \<and> fresh_rows d rows) d"
  unfolding insertPostings_def
proof (rule yields_each)
  let ?hh = "jn_household (pj_body i)" and ?j = "jp_journal (pj_proposal i)"
  show "\<exists>rows. [] = map po_id rows \<and> d = with_postings [] rows ?j d
      \<and> list_all2 (posting_row_for rand ?hh ?j) [] rows \<and> fresh_rows d rows"
    by (rule exI [of _ "[]"]) (simp add: with_postings_def links_of_def fresh_rows_def)
  fix pre x suf ys d'
  assume "\<exists>rows. ys = map po_id rows \<and> d' = with_postings pre rows ?j d
      \<and> list_all2 (posting_row_for rand ?hh ?j) pre rows \<and> fresh_rows d rows"
  then obtain rows where rows: "ys = map po_id rows" "d' = with_postings pre rows ?j d"
      "list_all2 (posting_row_for rand ?hh ?j) pre rows" "fresh_rows d rows" by blast
  show "yields (insertPosting rand ?hh ?j x)
     (\<lambda>y d''. \<exists>rs. ys @ [y] = map po_id rs \<and> d'' = with_postings (pre @ [x]) rs ?j d
        \<and> list_all2 (posting_row_for rand ?hh ?j) (pre @ [x]) rs \<and> fresh_rows d rs) d'"
    unfolding rows(2)
  proof (rule yields_mono [OF insert_posting_row [OF rows(3,4)]], elim exE conjE)
    fix y d'' r
    assume "y = po_id r" "d'' = with_postings (pre @ [x]) (rows @ [r]) ?j d"
      "posting_row_for rand ?hh ?j x r" "fresh_rows d (rows @ [r])"
    with rows show "\<exists>rs. ys @ [y] = map po_id rs \<and> d'' = with_postings (pre @ [x]) rs ?j d
        \<and> list_all2 (posting_row_for rand ?hh ?j) (pre @ [x]) rs \<and> fresh_rows d rs"
      by (intro exI [of _ "rows @ [r]"]) (simp add: list_all2_appendI)
  qed
qed

section \<open>Scripts that only read\<close>

lemma yields_asserted: "Q () d \<Longrightarrow> yields assertSerializableTransaction Q d"
  unfolding assertSerializableTransaction_def session_settings_def
  by (intro yields_bind yields_select yields_demand)

lemma yields_resolveJournal:
  "(book_in d (jn_household (pj_body i)) (jn_book (pj_body i)) \<Longrightarrow> Q () d) \<Longrightarrow> yields (resolveJournal i) Q d"
  unfolding resolveJournal_def select_references_def Let_def
  by (intro yields_bind yields_select yields_demand) (simp split: if_splits)

lemma yields_resolveAccounts: "Q () d \<Longrightarrow> yields (resolveAccounts hh ids) Q d"
  unfolding resolveAccounts_def select_active_accounts_def by (intro yields_bind yields_select yields_demand)

lemma yields_bookDbId: "Q () d \<Longrightarrow> yields (bookDbId hh b) Q d"
  unfolding bookDbId_def select_book_def by (intro yields_bind yields_select yields_demand)

lemma yields_resolveDraft: "Q () d \<Longrightarrow> yields (resolveDraft hh x) Q d"
  unfolding resolveDraft_def select_draft_def by (intro yields_bind yields_select yields_demand)

lemma yields_resolveCounterparty: "Q () d \<Longrightarrow> yields (resolveCounterparty hh x) Q d"
  unfolding resolveCounterparty_def select_counterparty_def by (intro yields_bind yields_select yields_demand)

lemma yields_if_given: "Q () d \<Longrightarrow> (\<And>x. v = Some x \<Longrightarrow> yields (f x) Q d) \<Longrightarrow> yields (if_given f v) Q d"
  by (cases v) (auto simp: if_given_def intro: yields_done)

lemma yields_validateTags: "Q (sorted_text (remdups tags)) d \<Longrightarrow> yields (validateTags hh tags) Q d"
  unfolding validateTags_def Let_def select_active_tags_def
  by (auto intro!: yields_bind yields_select yields_demand yields_done)

section \<open>Posting a journal\<close>

text \<open>The tables after a journal was posted with some rows, and what was checked on the way.\<close>

definition posted_tables :: "post_journal \<Rightarrow> posting_row list \<Rightarrow> ledger \<Rightarrow> ledger" where
  "posted_tables i rows d =
    d\<lparr>lg_journals := lg_journals d @ [journal_row_of i],
      lg_postings := lg_postings d @ rows,
      lg_posting_tags := lg_posting_tags d @ links_of (enumerate 0 (jn_postings (pj_body i))) rows,
      lg_journal_tags := lg_journal_tags d @ tag_links (jp_journal (pj_proposal i)) (jn_tags (pj_body i))\<rparr>"

definition projected :: "bool \<Rightarrow> post_journal \<Rightarrow> posting_row list \<Rightarrow> ledger \<Rightarrow> balance_row list" where
  "projected projection i rows d =
    (if projection
     then foldl (\<lambda>bs b. upsert_balance b bs) (lg_balances d)
       (balance_rows (posted_tables i rows d) (jn_household (pj_body i)) (jp_journal (pj_proposal i))
         (map po_id rows) (jn_effective (pj_body i)))
     else lg_balances d)"

definition posted ::
  "(string \<Rightarrow> nat \<Rightarrow> nat list) \<Rightarrow> bool \<Rightarrow> post_journal \<Rightarrow> posting_row list \<Rightarrow> ledger \<Rightarrow> ledger \<Rightarrow> bool" where
  "posted rand projection i rows d d' \<longleftrightarrow>
     d' = (posted_tables i rows d)\<lparr>lg_balances := projected projection i rows d, lg_pending := []\<rparr>
     \<and> list_all2 (posting_row_for (rand (jp_journal (pj_proposal i))) (jn_household (pj_body i)) (jp_journal (pj_proposal i)))
         (enumerate 0 (jn_postings (pj_body i))) rows
     \<and> fresh_rows d rows \<and> book_in d (jn_household (pj_body i)) (jn_book (pj_body i))
     \<and> (\<forall>c \<in> set (journal_violations d (journal_row_of i)). \<not> fst c)
     \<and> (\<forall>c \<in> set (journal_checks d' (journal_row_of i)). \<not> fst c)
     \<and> PostJournalInputSchemaV1 i"

lemma yields_constraints_immediate:
  assumes "validate_all d (lg_pending d) = None \<Longrightarrow> Q JNull (d\<lparr>lg_pending := []\<rparr>)"
  shows "yields (query constraints_immediate) Q d"
  by (rule yields_query) (use assms in \<open>auto simp: constraints_immediate_def split: option.splits\<close>)

lemma validate_all_None: "validate_all d js = None \<longleftrightarrow> (\<forall>j \<in> set js. validate_complete_journal d j = None)"
  by (induction js) (auto split: option.splits)

text \<open>The trigger does not read the queue of triggers, or the balances.\<close>

lemma entry_flagged_cong:
  assumes "lg_accounts d' = lg_accounts d" and "lg_currencies d' = lg_currencies d"
  shows "entry_flagged d' = entry_flagged d"
  unfolding entry_flagged_def amount_matches_currency_scale_def account_in_def currency_in_def assms
  by (rule refl)

lemma posted_entries_cong:
  assumes "lg_postings d' = lg_postings d" and "lg_posting_tags d' = lg_posting_tags d"
  shows "posted_entries d' = posted_entries d"
  unfolding posted_entries_def postings_of_def posting_tags_of_def assms by (rule refl)

lemma journal_checks_cong:
  assumes "lg_accounts d' = lg_accounts d" "lg_currencies d' = lg_currencies d" "lg_postings d' = lg_postings d"
    "lg_posting_tags d' = lg_posting_tags d" "lg_journal_tags d' = lg_journal_tags d" "lg_drafts d' = lg_drafts d"
    "lg_lines d' = lg_lines d" "lg_journals d' = lg_journals d" "lg_periods d' = lg_periods d"
    "lg_artifacts d' = lg_artifacts d"
  shows "journal_checks d' = journal_checks d"
  unfolding journal_checks_def exact_opposite_def entry_flagged_cong [OF assms(1,2)]
    posted_entries_cong [OF assms(3,4)] draft_entries_def postings_of_def journal_tags_of_def artifact_is_def
    account_in_def assms
  by (rule refl)

lemma balance_rows_cong:
  assumes "lg_accounts d' = lg_accounts d" "lg_households d' = lg_households d" "lg_postings d' = lg_postings d"
  shows "balance_rows d' = balance_rows d"
  unfolding balance_rows_def delta_def assms by (rule refl)

lemma new_journal_id:
  assumes "\<forall>c \<in> set (journal_violations d (journal_row_of i)). \<not> fst c"
  shows "find (\<lambda>r. jr_id r = jp_journal (pj_proposal i)) (lg_journals d) = None"
proof -
  have "jp_journal (pj_proposal i) \<notin> jr_id ` set (lg_journals d)"
    using assms by (simp add: journal_violations_def journal_row_of_def Let_def)
  then show ?thesis by (force simp: find_None_iff)
qed

lemma post_yields:
  assumes "lg_pending d = []"
  shows "yields (postInTransaction rand projection i)
    (\<lambda>out d'. \<exists>rows. out = (jp_journal (pj_proposal i), map po_id rows) \<and> posted rand projection i rows d d') d"
proof -
  let ?j = "jp_journal (pj_proposal i)" and ?hh = "jn_household (pj_body i)" and ?b = "pj_body i"
  let ?Q = "\<lambda>out d'. \<exists>rows. out = (?j, map po_id rows) \<and> posted rand projection i rows d d'"
  define d1 where "d1 = d\<lparr>lg_journals := lg_journals d @ [journal_row_of i], lg_pending := [?j]\<rparr>"
  have inserted: "yields (query (insert_journal i)) (\<lambda>_ d'. d' = d1
      \<and> (\<forall>c \<in> set (journal_violations d (journal_row_of i)). \<not> fst c)) d"
    by (rule yields_query)
      (auto simp: insert_journal_def insert_if_Inr Let_def d1_def journal_row_of_def assms)
  {
    fix rows
    assume schema: "PostJournalInputSchemaV1 i" and book: "book_in d ?hh (jn_book ?b)"
      and new: "\<forall>c \<in> set (journal_violations d (journal_row_of i)). \<not> fst c"
      and rows: "list_all2 (posting_row_for (rand ?j) ?hh ?j) (enumerate 0 (jn_postings ?b)) rows"
        "fresh_rows d1 rows"
    define d2 where "d2 = with_postings (enumerate 0 (jn_postings ?b)) rows ?j d1"
    define d3 where "d3 = d2\<lparr>lg_journal_tags := lg_journal_tags d2 @ tag_links ?j (jn_tags ?b)\<rparr>"
    have fresh: "fresh_rows d rows" using rows(2) by (simp add: fresh_rows_def d1_def account_in_def)
    have d3: "d3 = (posted_tables i rows d)\<lparr>lg_pending := ?j # replicate (length rows) ?j\<rparr>"
      by (simp add: d3_def d2_def d1_def with_postings_def posted_tables_def)
    define d4 where "d4 = d3\<lparr>lg_balances := projected projection i rows d\<rparr>"
    have balances: "yields (updateCurrentProjection projection i (map po_id rows)) (\<lambda>_ d'. d' = d4) d3"
    proof -
      have rows_eq: "balance_rows d3 = balance_rows (posted_tables i rows d)"
        by (rule balance_rows_cong) (simp_all add: d3)
      have "lg_balances d3 = lg_balances d" by (simp add: d3 posted_tables_def)
      then have "d' = d4" if "projection"
        "upsert_balances ?hh ?j (map po_id rows) (jn_effective ?b) t d3 = Inr (a, d')" for t a d'
        using that unfolding upsert_balances_def Let_def rows_eq d4_def projected_def
        by (simp split: if_splits)
      moreover have "d4 = d3" if "\<not> projection" using that by (simp add: d4_def projected_def d3 posted_tables_def)
      ultimately show ?thesis
        unfolding updateCurrentProjection_def
        by (cases projection) (simp_all add: yields_bind yields_query yields_done)
    qed
    have finish: "yields (query constraints_immediate) (\<lambda>_ d'. posted rand projection i rows d d') d4"
    proof (rule yields_constraints_immediate)
      assume "validate_all d4 (lg_pending d4) = None"
      moreover have "?j \<in> set (lg_pending d4)" by (simp add: d4_def d3)
      ultimately have "validate_complete_journal d4 ?j = None" unfolding validate_all_None by blast
      moreover have "find (\<lambda>r. jr_id r = ?j) (lg_journals d4) = Some (journal_row_of i)"
        using new_journal_id [OF new] by (simp add: d4_def d3 posted_tables_def find_append journal_row_of_def)
      ultimately have "\<forall>c \<in> set (journal_checks d4 (journal_row_of i)). \<not> fst c"
        by (simp add: validate_complete_journal_def first_violation_None)
      moreover have "journal_checks (d4\<lparr>lg_pending := []\<rparr>) = journal_checks d4"
        by (rule journal_checks_cong) simp_all
      ultimately show "posted rand projection i rows d (d4\<lparr>lg_pending := []\<rparr>)"
        using rows(1) fresh schema new book by (simp add: posted_def d4_def d3)
    qed
    have "yields (script_bind (each (insertJournalTag ?hh ?j) (jn_tags ?b)) (\<lambda>_.
        script_bind (updateCurrentProjection projection i (map po_id rows)) (\<lambda>_.
        script_bind (query constraints_immediate) (\<lambda>_.
        script_bind (query constraints_deferred) (\<lambda>_.
        Done (?j, map po_id rows)))))) ?Q d2"
      by (intro yields_bind yields_mono [OF insert_journal_tags])
        (auto simp: constraints_deferred_def d3_def [symmetric]
          intro!: yields_bind yields_mono [OF balances] yields_mono [OF finish] yields_select yields_done)
  } note after = this
  show ?thesis
  proof (cases "PostJournalInputSchemaV1 i")
    case True
    have "yields (insertPostings (rand ?j) i) (\<lambda>pids. yields
        (script_bind (each (insertJournalTag ?hh ?j) (jn_tags ?b)) (\<lambda>_.
         script_bind (updateCurrentProjection projection i pids) (\<lambda>_.
         script_bind (query constraints_immediate) (\<lambda>_.
         script_bind (query constraints_deferred) (\<lambda>_. Done (?j, pids)))))) ?Q) d1"
      if "book_in d ?hh (jn_book ?b)" "\<forall>c \<in> set (journal_violations d (journal_row_of i)). \<not> fst c"
      by (rule yields_mono [OF insert_postings]) (use after [OF True that] in blast)
    then show ?thesis
      using True unfolding postInTransaction_def Let_def
      by (auto intro!: yields_bind yields_asserted yields_caught yields_resolveJournal
          yields_resolveAccounts yields_mono [OF inserted])
  qed (simp add: postInTransaction_def yields_throw)
qed

section \<open>Inserting a draft\<close>

definition draft_line_for :: "string \<Rightarrow> string \<Rightarrow> nat \<times> posting_input \<Rightarrow> draft_line \<Rightarrow> bool" where
  "draft_line_for hh x = (\<lambda>(n, p) l.
     dl_household l = hh \<and> dl_draft l = x \<and> dl_ordinal l = n + 1 \<and> entry_of p = Inr (dl_entry l)
     \<and> dl_tags l = sorted_text (remdups (pt_tags p)))"

definition drafted :: "journal_draft_input \<Rightarrow> draft_line list \<Rightarrow> ledger \<Rightarrow> ledger \<Rightarrow> bool" where
  "drafted i ls d d' \<longleftrightarrow>
     (let r = draft_row_of i (sorted_text (remdups (jn_tags (di_body i)))) in
      d' = d\<lparr>lg_drafts := lg_drafts d @ [r], lg_lines := lg_lines d @ ls\<rparr>
      \<and> (\<forall>c \<in> set (draft_violations d r). \<not> fst c)
      \<and> list_all2 (draft_line_for (jn_household (di_body i)) (jn_draft (di_body i)))
          (enumerate 0 (jn_postings (di_body i))) ls
      \<and> JournalDraftInputSchemaV1 i)"

lemma insert_draft_lines:
  "yields (each (insertDraftPosting hh x) ps)
     (\<lambda>_ d'. \<exists>ls. d' = d\<lparr>lg_lines := lg_lines d @ ls\<rparr> \<and> list_all2 (draft_line_for hh x) ps ls) d"
proof (rule yields_each)
  show "\<exists>ls. d = d\<lparr>lg_lines := lg_lines d @ ls\<rparr> \<and> list_all2 (draft_line_for hh x) [] ls" by simp
next
  fix pre suf and y :: "nat \<times> posting_input" and ys :: "unit list" and d'
  assume "\<exists>ls. d' = d\<lparr>lg_lines := lg_lines d @ ls\<rparr> \<and> list_all2 (draft_line_for hh x) pre ls"
  then obtain ls where ls: "d' = d\<lparr>lg_lines := lg_lines d @ ls\<rparr>" "list_all2 (draft_line_for hh x) pre ls" by blast
  obtain n p where y: "y = (n, p)" by fastforce
  have step: "\<exists>ls. d2 = d\<lparr>lg_lines := lg_lines d @ ls\<rparr> \<and> list_all2 (draft_line_for hh x) (pre @ [y]) ls"
    if ins: "insert_draft_posting hh x (n + 1) p (sorted_text (remdups (pt_tags p))) t d' = Inr (a, d2)" for t a d2
  proof -
    obtain e where e: "entry_of p = Inr e" using ins by (auto simp: insert_draft_posting_def split: sum.splits)
    define l where "l = \<lparr>dl_household = hh, dl_draft = x, dl_ordinal = n + 1, dl_entry = e,
        dl_tags = sorted_text (remdups (pt_tags p))\<rparr>"
    have "d2 = d\<lparr>lg_lines := lg_lines d @ ls @ [l]\<rparr>" "draft_line_for hh x y l"
      using ins by (auto simp: insert_draft_posting_def e insert_if_Inr ls l_def draft_line_for_def y)
    with ls(2) show ?thesis by (blast intro: list_all2_appendI)
  qed
  show "yields (insertDraftPosting hh x y) (\<lambda>_ d''. \<exists>ls. d'' = d\<lparr>lg_lines := lg_lines d @ ls\<rparr>
      \<and> list_all2 (draft_line_for hh x) (pre @ [y]) ls) d'"
    unfolding insertDraftPosting_def y prod.case select_account_def
    by (intro yields_bind yields_select yields_demand yields_validateTags yields_query yields_done)
      (rule step [unfolded y])
qed

lemma insertVersion_yields: "yields (insertVersion i) (\<lambda>_ d'. \<exists>ls. drafted i ls d d') d"
proof (cases "JournalDraftInputSchemaV1 i")
  case True
  let ?r = "draft_row_of i (sorted_text (remdups (jn_tags (di_body i))))"
  define d1 where "d1 = d\<lparr>lg_drafts := lg_drafts d @ [?r]\<rparr>"
  have inserted: "yields (query (insert_draft i (sorted_text (remdups (jn_tags (di_body i))))))
      (\<lambda>_ d'. d' = d1 \<and> (\<forall>c \<in> set (draft_violations d ?r). \<not> fst c)) d"
    by (rule yields_query) (auto simp: insert_draft_def insert_if_Inr Let_def d1_def split: if_splits)
  have lines: "yields (each (insertDraftPosting (jn_household (di_body i)) (jn_draft (di_body i)))
        (enumerate 0 (jn_postings (di_body i)))) (\<lambda>_. yields (Done ()) (\<lambda>_ d'. \<exists>ls. drafted i ls d d')) d1"
    if "\<forall>c \<in> set (draft_violations d ?r). \<not> fst c"
    by (rule yields_mono [OF insert_draft_lines], rule yields_done)
      (use that True in \<open>auto simp: drafted_def d1_def Let_def\<close>)
  show ?thesis
    using True unfolding insertVersion_def Let_def
    by (auto intro!: yields_caught yields_bind yields_bookDbId yields_if_given yields_resolveDraft
        yields_resolveCounterparty yields_validateTags yields_mono [OF inserted] lines)
qed (simp add: insertVersion_def yields_throw)

end
