(* ===== verification/LedgerInvariant.thy ===== *)
theory LedgerInvariant
  imports JournalFacts
begin

text \<open>
  The invariant of the ledger: references point at rows, every journal is what a checker accepted
  and balances, and the projection of the current balances is the sum of the postings. Posting a
  journal and inserting a draft keep it.
\<close>

section \<open>The invariant\<close>

definition refs_ok :: "ledger \<Rightarrow> bool" where
  "refs_ok d \<longleftrightarrow>
     unique_on ac_id (lg_accounts d) \<and> unique_on jr_id (lg_journals d) \<and> unique_on po_id (lg_postings d)
     \<and> unique_on dr_id (lg_drafts d)
     \<and> (\<forall>j \<in> set (lg_journals d). jr_draft j \<in> dr_id ` set (lg_drafts d))
     \<and> (\<forall>l \<in> set (lg_lines d). dl_draft l \<in> dr_id ` set (lg_drafts d))
     \<and> (\<forall>p \<in> set (lg_postings d).
         (\<exists>j \<in> set (lg_journals d). jr_id j = po_journal p \<and> mt_household (jr_meta j) = po_household p)
         \<and> account_in d (po_household p) (en_account (po_entry p)) \<noteq> None)
     \<and> (\<forall>l \<in> set (lg_posting_tags d). fst l \<in> po_id ` set (lg_postings d))
     \<and> (\<forall>l \<in> set (lg_journal_tags d). fst l \<in> jr_id ` set (lg_journals d))"

text \<open>An entry fits the account it is posted to.\<close>

definition entry_fits :: "ledger \<Rightarrow> journal_meta \<Rightarrow> entry \<Rightarrow> bool" where
  "entry_fits d m e \<longleftrightarrow>
     0 < en_amount e \<and> 0 < en_native e
     \<and> (\<exists>a. account_in d (mt_household m) (en_account e) = Some a \<and> ac_book a = mt_book m
         \<and> en_currency e = ac_currency a
         \<and> (ac_currency a = mt_currency m \<longrightarrow> en_native e = en_amount e \<and> en_rate e = None)
         \<and> (ac_currency a \<noteq> mt_currency m \<longrightarrow> en_rate e \<noteq> None)
         \<and> (mt_type m = Jt_transfer \<longrightarrow> ac_class a \<in> {Cl_asset, Cl_liability}))"

definition sound_journal :: "ledger \<Rightarrow> journal_row \<Rightarrow> bool" where
  "sound_journal d j \<longleftrightarrow>
     (let m = jr_meta j; es = map po_entry (postings_of d (jr_id j)) in
      (\<exists>s \<in> set (lg_drafts d). dr_id s = jr_draft j \<and> dr_meta s = m \<and> dr_tags s = journal_tags_of d (jr_id j))
      \<and> mset (draft_entries d (mt_household m) (jr_draft j)) = mset (posted_entries d (jr_id j))
      \<and> artifact_is d m av_accepted
      \<and> 2 \<le> length es \<and> side_sum Debit es = side_sum Credit es
      \<and> (\<forall>e \<in> set es. entry_fits d m e)
      \<and> (mt_type m = Jt_reversal \<longrightarrow>
          (\<exists>original. jr_reverses j = Some original \<and> exact_opposite d original (jr_id j))))"

definition native_balance :: "balance_row list \<Rightarrow> account_row \<Rightarrow> int" where
  "native_balance rows a =
    (case find (\<lambda>b. ba_household b = ac_household a \<and> ba_account b = ac_id a) rows of
       None \<Rightarrow> 0 | Some b \<Rightarrow> ba_native b)"

definition balances_agree :: "ledger \<Rightarrow> bool" where
  "balances_agree d \<longleftrightarrow>
     (\<forall>a \<in> set (lg_accounts d). native_balance (lg_balances d) a = delta a (lg_postings d))
     \<and> (\<forall>b \<in> set (lg_balances d). account_in d (ba_household b) (ba_account b) \<noteq> None)"

definition books_ok :: "ledger \<Rightarrow> bool" where
  "books_ok d \<longleftrightarrow>
     refs_ok d \<and> lg_pending d = [] \<and> list_all (sound_journal d) (lg_journals d) \<and> balances_agree d"

section \<open>Growing tables\<close>

text \<open>What may happen to the tables without touching a posted journal.\<close>

definition account_kept :: "ledger \<Rightarrow> ledger \<Rightarrow> string \<Rightarrow> string \<Rightarrow> bool" where
  "account_kept d d' hh x \<longleftrightarrow>
     (\<forall>a. account_in d hh x = Some a \<longrightarrow>
       (\<exists>a'. account_in d' hh x = Some a' \<and> ac_book a' = ac_book a \<and> ac_currency a' = ac_currency a
          \<and> ac_class a' = ac_class a))"

definition grows :: "ledger \<Rightarrow> ledger \<Rightarrow> bool" where
  "grows d d' \<longleftrightarrow>
     (\<exists>xs. lg_drafts d' = lg_drafts d @ xs)
     \<and> (\<exists>ls. lg_lines d' = lg_lines d @ ls \<and> (\<forall>l \<in> set ls. dl_draft l \<notin> dr_id ` set (lg_drafts d)))
     \<and> (\<exists>ps. lg_postings d' = lg_postings d @ ps \<and> (\<forall>p \<in> set ps. po_journal p \<notin> jr_id ` set (lg_journals d)))
     \<and> (\<exists>ts. lg_posting_tags d' = lg_posting_tags d @ ts \<and> (\<forall>t \<in> set ts. fst t \<notin> po_id ` set (lg_postings d)))
     \<and> (\<exists>ts. lg_journal_tags d' = lg_journal_tags d @ ts \<and> (\<forall>t \<in> set ts. fst t \<notin> jr_id ` set (lg_journals d)))
     \<and> lg_artifacts d' = lg_artifacts d
     \<and> (\<forall>p \<in> set (lg_postings d). account_kept d d' (po_household p) (en_account (po_entry p)))"

lemma filter_none: "(\<And>x. x \<in> set xs \<Longrightarrow> \<not> p x) \<Longrightarrow> filter p xs = []"
  by (simp add: filter_empty_conv)

lemma posted_entries_grows:
  assumes "grows d d'" and "j \<in> jr_id ` set (lg_journals d)"
  shows "postings_of d' j = postings_of d j" "posted_entries d' j = posted_entries d j"
    "journal_tags_of d' j = journal_tags_of d j"
proof -
  obtain ps ts js where g: "lg_postings d' = lg_postings d @ ps" "\<forall>p \<in> set ps. po_journal p \<notin> jr_id ` set (lg_journals d)"
    "lg_posting_tags d' = lg_posting_tags d @ ts" "\<forall>t \<in> set ts. fst t \<notin> po_id ` set (lg_postings d)"
    "lg_journal_tags d' = lg_journal_tags d @ js" "\<forall>t \<in> set js. fst t \<notin> jr_id ` set (lg_journals d)"
    using assms(1) by (auto simp: grows_def)
  show same: "postings_of d' j = postings_of d j"
    using g(2) assms(2) by (auto simp: postings_of_def g(1) intro!: filter_none)
  show "journal_tags_of d' j = journal_tags_of d j"
    using g(6) assms(2) by (auto simp: journal_tags_of_def g(5) intro!: arg_cong [where f = sorted_text] filter_none)
  have "posting_tags_of d' (po_id p) = posting_tags_of d (po_id p)" if "p \<in> set (postings_of d j)" for p
  proof -
    have "filter (\<lambda>l. fst l = po_id p) ts = []"
      by (rule filter_none) (use g(4) that in \<open>auto simp: postings_of_def\<close>)
    then show ?thesis by (simp add: posting_tags_of_def g(3))
  qed
  then show "posted_entries d' j = posted_entries d j"
    by (simp add: posted_entries_def same)
qed

lemma draft_entries_grows:
  assumes "grows d d'" and "x \<in> dr_id ` set (lg_drafts d)"
  shows "draft_entries d' hh x = draft_entries d hh x"
proof -
  obtain ls where ls: "lg_lines d' = lg_lines d @ ls" "\<forall>l \<in> set ls. dl_draft l \<notin> dr_id ` set (lg_drafts d)"
    using assms(1) by (auto simp: grows_def)
  have "filter (\<lambda>l. dl_household l = hh \<and> dl_draft l = x) ls = []"
    by (rule filter_none) (use ls(2) assms(2) in auto)
  then show ?thesis by (simp add: draft_entries_def ls(1))
qed

lemma entry_fits_kept:
  assumes "account_kept d d' (mt_household m) (en_account e)" and "entry_fits d m e"
  shows "entry_fits d' m e"
  using assms by (fastforce simp: entry_fits_def account_kept_def)

lemma exact_opposite_posted: "exact_opposite d original j \<Longrightarrow> postings_of d j \<noteq> [] \<Longrightarrow> postings_of d original \<noteq> []"
  by (auto simp: exact_opposite_def posted_entries_def)

lemma refs_posting:
  assumes "refs_ok d" and "p \<in> set (lg_postings d)"
  shows "po_journal p \<in> jr_id ` set (lg_journals d)"
  using assms unfolding refs_ok_def by (metis imageI)

lemma posting_household:
  assumes "refs_ok d" and "j \<in> set (lg_journals d)" and "p \<in> set (postings_of d (jr_id j))"
  shows "po_household p = mt_household (jr_meta j)"
proof -
  have p: "p \<in> set (lg_postings d)" "po_journal p = jr_id j" using assms(3) by (simp_all add: postings_of_def)
  then obtain k where k: "k \<in> set (lg_journals d)" "jr_id k = jr_id j" "mt_household (jr_meta k) = po_household p"
    using assms(1) unfolding refs_ok_def by metis
  have "unique_on jr_id (lg_journals d)" using assms(1) by (simp add: refs_ok_def)
  from unique_onD [OF this k(1) assms(2) k(2)] k(3) show ?thesis by simp
qed

text \<open>A sound journal stays sound.\<close>

lemma sound_grows:
  assumes refs: "refs_ok d" and grows: "grows d d'" and j: "j \<in> set (lg_journals d)" and sound: "sound_journal d j"
  shows "sound_journal d' j"
proof -
  let ?m = "jr_meta j" and ?es = "map po_entry (postings_of d (jr_id j))"
  have id: "jr_id j \<in> jr_id ` set (lg_journals d)" using j by blast
  note posted = posted_entries_grows [OF grows id]
  have hh: "\<forall>p \<in> set (postings_of d (jr_id j)). po_household p = mt_household (jr_meta j)"
    using posting_household [OF refs j] by blast
  have drafts: "set (lg_drafts d) \<subseteq> set (lg_drafts d')" using grows by (auto simp: grows_def)
  have draft: "jr_draft j \<in> dr_id ` set (lg_drafts d)" using refs j by (simp add: refs_ok_def)
  have s: "\<exists>s \<in> set (lg_drafts d). dr_id s = jr_draft j \<and> dr_meta s = ?m \<and> dr_tags s = journal_tags_of d (jr_id j)"
    "mset (draft_entries d (mt_household ?m) (jr_draft j)) = mset (posted_entries d (jr_id j))"
    "artifact_is d ?m av_accepted" "2 \<le> length ?es" "side_sum Debit ?es = side_sum Credit ?es"
    "\<forall>e \<in> set ?es. entry_fits d ?m e"
    "mt_type ?m = Jt_reversal \<Longrightarrow> \<exists>original. jr_reverses j = Some original \<and> exact_opposite d original (jr_id j)"
    using sound by (simp_all add: sound_journal_def Let_def)
  have "entry_fits d' ?m e" if "e \<in> set ?es" for e
  proof (rule entry_fits_kept)
    show "entry_fits d ?m e" using s(6) that by blast
    from that obtain p where p: "p \<in> set (lg_postings d)" "e = po_entry p" "po_household p = mt_household ?m"
      using hh by (auto simp: postings_of_def)
    then have "account_kept d d' (po_household p) (en_account (po_entry p))"
      using grows by (auto simp: grows_def)
    then show "account_kept d d' (mt_household ?m) (en_account e)" by (simp add: p)
  qed
  moreover have "exact_opposite d' original (jr_id j)" if opposite: "exact_opposite d original (jr_id j)" for original
  proof -
    have "postings_of d (jr_id j) \<noteq> []" using s(4) by auto
    then obtain p where "p \<in> set (lg_postings d)" "po_journal p = original"
      using exact_opposite_posted [OF opposite] by (fastforce simp: postings_of_def filter_empty_conv)
    then have "original \<in> jr_id ` set (lg_journals d)" using refs_posting [OF refs] by blast
    then show ?thesis using opposite posted posted_entries_grows [OF grows] by (simp add: exact_opposite_def)
  qed
  moreover have "artifact_is d' ?m av_accepted" using s(3) grows by (simp add: artifact_is_def grows_def)
  ultimately show ?thesis
    using s drafts by (auto simp: sound_journal_def Let_def posted draft_entries_grows [OF grows draft] subset_iff)
qed

section \<open>A new journal\<close>

lemma posting_rows_shape:
  assumes "list_all2 (posting_row_for rand hh j) ps rows" and "r \<in> set rows"
  shows "po_household r = hh \<and> po_journal r = j \<and> 0 < en_amount (po_entry r) \<and> 0 < en_native (po_entry r)"
proof -
  obtain n where "n < length rows" "r = rows ! n" using assms(2) by (auto simp: in_set_conv_nth)
  then show ?thesis using list_all2_nthD2 [OF assms(1)] by (fastforce simp: posting_row_for_def split: prod.splits)
qed

lemma posted_tables_simps [simp]:
  "lg_accounts (posted_tables i rows d) = lg_accounts d"
  "lg_households (posted_tables i rows d) = lg_households d"
  "lg_currencies (posted_tables i rows d) = lg_currencies d"
  "lg_drafts (posted_tables i rows d) = lg_drafts d" "lg_lines (posted_tables i rows d) = lg_lines d"
  "lg_artifacts (posted_tables i rows d) = lg_artifacts d"
  "lg_postings (posted_tables i rows d) = lg_postings d @ rows"
  "lg_journals (posted_tables i rows d) = lg_journals d @ [journal_row_of i]"
  "lg_posting_tags (posted_tables i rows d) = lg_posting_tags d @ links_of (enumerate 0 (jn_postings (pj_body i))) rows"
  "lg_journal_tags (posted_tables i rows d) = lg_journal_tags d @ tag_links (jp_journal (pj_proposal i)) (jn_tags (pj_body i))"
  by (simp_all add: posted_tables_def)

lemma journal_row_simps [simp]:
  "jr_id (journal_row_of i) = jp_journal (pj_proposal i)"
  "jr_draft (journal_row_of i) = jn_draft (pj_body i)"
  "jr_reverses (journal_row_of i) = jp_reverses (pj_proposal i)"
  "jr_meta (journal_row_of i) = meta_of (pj_body i) (pj_artifact i) (pj_hash i)"
  "mt_household (meta_of b a h) = jn_household b"
  by (simp_all add: journal_row_of_def meta_of_def)

lemma links_of_ids: "l \<in> set (links_of ps rows) \<Longrightarrow> fst l \<in> po_id ` set rows"
  by (auto simp: links_of_def tag_links_def dest!: set_zip_rightD)

lemma account_in_cong: "lg_accounts d' = lg_accounts d \<Longrightarrow> account_in d' = account_in d"
  by (intro ext) (simp add: account_in_def)

lemma posted_table:
  assumes posted: "posted rand projection i rows d d'" and refs: "refs_ok d"
  shows "lg_accounts d' = lg_accounts d" "lg_drafts d' = lg_drafts d" "lg_lines d' = lg_lines d"
  "lg_artifacts d' = lg_artifacts d" "lg_pending d' = []"
  "lg_postings d' = lg_postings d @ rows" "lg_journals d' = lg_journals d @ [journal_row_of i]"
  "lg_posting_tags d' = lg_posting_tags d @ links_of (enumerate 0 (jn_postings (pj_body i))) rows"
  "lg_journal_tags d' = lg_journal_tags d @ tag_links (jp_journal (pj_proposal i)) (jn_tags (pj_body i))"
  "lg_balances d' = projected projection i rows d"
  using posted by (simp_all add: posted_def)

lemma posted_rows:
  assumes posted: "posted rand projection i rows d d'" and refs: "refs_ok d"
  shows "r \<in> set rows \<Longrightarrow> po_household r = jn_household (pj_body i) \<and> po_journal r = jp_journal (pj_proposal i)
     \<and> 0 < en_amount (po_entry r) \<and> 0 < en_native (po_entry r)"
  using posted posting_rows_shape by (fastforce simp: posted_def)

lemma posted_new_journal:
  assumes posted: "posted rand projection i rows d d'" and refs: "refs_ok d"
  shows "jp_journal (pj_proposal i) \<notin> jr_id ` set (lg_journals d)"
  using posted by (simp add: posted_def journal_violations_def Let_def)

lemma posted_draft:
  assumes posted: "posted rand projection i rows d d'" and refs: "refs_ok d"
  shows "jn_draft (pj_body i) \<in> dr_id ` set (lg_drafts d)"
proof -
  have "draft_in d (jn_household (pj_body i)) (jn_draft (pj_body i)) \<noteq> None"
    using posted by (simp add: posted_def journal_violations_def Let_def)
  then show ?thesis by (force simp: draft_in_def dest: find_SomeD)
qed

lemma posted_refs:
  assumes posted: "posted rand projection i rows d d'" and refs: "refs_ok d"
  shows "refs_ok d'"
proof -
  note posted_table = posted_table [OF posted refs]
    and posted_rows = posted_rows [OF posted refs]
    and posted_new_journal = posted_new_journal [OF posted refs]
    and posted_draft = posted_draft [OF posted refs]
  have fresh: "fresh_rows d rows" using posted by (simp add: posted_def)
  then have "unique_on po_id (lg_postings d @ rows)"
    using refs by (auto simp: unique_on_def refs_ok_def fresh_rows_def)
  moreover have "unique_on jr_id (lg_journals d @ [journal_row_of i])"
    using refs posted_new_journal by (simp add: unique_on_append refs_ok_def)
  moreover have "\<forall>r \<in> set rows. account_in d (po_household r) (en_account (po_entry r)) \<noteq> None"
    using fresh by (simp add: fresh_rows_def)
  moreover have "account_in d' = account_in d" by (rule account_in_cong) (rule posted_table)
  ultimately show ?thesis
    using refs posted_draft links_of_ids posted_rows
    by (fastforce simp: refs_ok_def posted_table tag_links_def)
qed

lemma posted_grows:
  assumes posted: "posted rand projection i rows d d'" and refs: "refs_ok d"
  shows "grows d d'"
proof -
  note posted_table = posted_table [OF posted refs]
    and posted_rows = posted_rows [OF posted refs]
    and posted_new_journal = posted_new_journal [OF posted refs]
  have "account_kept d d' hh x" for hh x
    by (simp add: account_kept_def account_in_cong [OF posted_table(1)])
  moreover have "\<forall>p \<in> set rows. po_journal p \<notin> jr_id ` set (lg_journals d)"
    using posted_rows posted_new_journal by simp
  moreover have "fst t \<notin> po_id ` set (lg_postings d)"
    if "t \<in> set (links_of (enumerate 0 (jn_postings (pj_body i))) rows)" for t
    using links_of_ids [OF that] posted by (auto simp: posted_def fresh_rows_def)
  moreover have "\<forall>t \<in> set (tag_links (jp_journal (pj_proposal i)) (jn_tags (pj_body i))). fst t \<notin> jr_id ` set (lg_journals d)"
    using posted_new_journal by (auto simp: tag_links_def)
  ultimately show ?thesis by (simp add: grows_def posted_table)
qed

lemma posted_entries_new:
  assumes posted: "posted rand projection i rows d d'" and refs: "refs_ok d"
  shows "postings_of d' (jp_journal (pj_proposal i)) = rows"
proof -
  note posted_table = posted_table [OF posted refs]
    and posted_rows = posted_rows [OF posted refs]
    and posted_new_journal = posted_new_journal [OF posted refs]
  have "filter (\<lambda>p. po_journal p = jp_journal (pj_proposal i)) (lg_postings d) = []"
    by (rule filter_none) (metis refs_posting [OF refs] posted_new_journal)
  moreover have "filter (\<lambda>p. po_journal p = jp_journal (pj_proposal i)) rows = rows"
    using posted_rows by simp
  ultimately show ?thesis by (simp add: postings_of_def posted_table)
qed

lemma posted_sound:
  assumes posted: "posted rand projection i rows d d'" and refs: "refs_ok d"
  shows "sound_journal d' (journal_row_of i)"
proof -
  note posted_table = posted_table [OF posted refs]
    and posted_rows = posted_rows [OF posted refs]
    and posted_entries_new = posted_entries_new [OF posted refs]
  let ?m = "jr_meta (journal_row_of i)" and ?j = "jp_journal (pj_proposal i)"
  have checks: "\<forall>c \<in> set (journal_checks d' (journal_row_of i)). \<not> fst c"
    using posted by (simp add: posted_def)
  have "entry_fits d' ?m (po_entry r)" if r: "r \<in> set rows" for r
  proof -
    have "account_in d (po_household r) (en_account (po_entry r)) \<noteq> None"
      using posted r by (simp add: posted_def fresh_rows_def)
    then obtain a where a: "account_in d' (mt_household ?m) (en_account (po_entry r)) = Some a"
      using posted_rows [OF r] by (auto simp: account_in_cong [OF posted_table(1)])
    have "\<not> entry_flagged d' ?m (po_entry r)"
      using checks r by (simp add: journal_checks_def Let_def posted_entries_new list_ex_iff)
    moreover have "\<not> (mt_type ?m = Jt_transfer \<and> ac_class a \<notin> {Cl_asset, Cl_liability})"
      using checks r a by (auto simp: journal_checks_def Let_def posted_entries_new list_ex_iff)
    ultimately show ?thesis
      using a posted_rows [OF r] by (simp add: entry_fits_def entry_flagged_def split: option.splits)
  qed
  moreover have "\<exists>original. jp_reverses (pj_proposal i) = Some original \<and> exact_opposite d' original ?j"
    if "mt_type ?m = Jt_reversal"
    using checks that by (auto simp: journal_checks_def Let_def posted_entries_new split: option.splits)
  ultimately show ?thesis
    using checks by (auto simp: sound_journal_def journal_checks_def Let_def posted_entries_new list_ex_iff)
qed

section \<open>The projection\<close>

definition balance_key :: "balance_row \<Rightarrow> account_row \<Rightarrow> bool" where
  "balance_key b a \<longleftrightarrow> ba_household b = ac_household a \<and> ba_account b = ac_id a"

lemma native_upsert:
  "native_balance (upsert_balance b rows) a = native_balance rows a + (if balance_key b a then ba_native b else 0)"
proof -
  let ?p = "\<lambda>r. ba_household r = ac_household a \<and> ba_account r = ac_id a"
  let ?q = "\<lambda>r. ba_household r = ba_household b \<and> ba_account r = ba_account b"
  show ?thesis
  proof (cases "list_ex ?q rows")
    case True
    let ?f = "\<lambda>r. r\<lparr>ba_as_of := later (ba_as_of r) (ba_as_of b), ba_native := ba_native r + ba_native b,
          ba_reporting := ba_reporting r + ba_reporting b, ba_journal := ba_journal b\<rparr>"
    have "find ?p (update_where ?q ?f rows) = map_option (\<lambda>r. if ?q r then ?f r else r) (find ?p rows)"
      by (rule find_update_where_same) simp
    moreover have "find ?p rows \<noteq> None" if "balance_key b a"
      using True that by (auto simp: find_None_iff list_ex_iff balance_key_def)
    ultimately show ?thesis
      using True by (auto simp: native_balance_def upsert_balance_def balance_key_def
          split: option.split dest!: find_SomeD)
  next
    case False
    then have "find ?p rows = None" if "balance_key b a"
      using that by (auto simp: find_None_iff list_ex_iff balance_key_def)
    with False show ?thesis
      by (auto simp: native_balance_def upsert_balance_def balance_key_def find_append split: option.split)
  qed
qed

lemma native_upserts:
  "native_balance (foldl (\<lambda>rows b. upsert_balance b rows) rows bs) a =
    native_balance rows a + sum_list (map (\<lambda>b. if balance_key b a then ba_native b else 0) bs)"
  by (induction bs arbitrary: rows) (simp_all add: native_upsert)

lemma upsert_keys:
  "x \<in> set (foldl (\<lambda>rows b. upsert_balance b rows) rows bs) \<Longrightarrow>
    \<exists>b \<in> set rows \<union> set bs. ba_household x = ba_household b \<and> ba_account x = ba_account b"
proof (induction bs arbitrary: rows)
  case (Cons b bs)
  then obtain y where y: "y \<in> set (upsert_balance b rows) \<union> set bs"
      "ba_household x = ba_household y" "ba_account x = ba_account y" by fastforce
  moreover have "\<exists>z \<in> set rows \<union> {b}. ba_household y = ba_household z \<and> ba_account y = ba_account z"
    if "y \<in> set (upsert_balance b rows)"
    using that by (auto simp: upsert_balance_def set_update_where split: if_splits)
  ultimately show ?case by fastforce
qed auto

lemma sum_list_unique:
  assumes "unique_on key xs" and "x \<in> set xs"
  shows "sum_list (map (\<lambda>y. if key y = key x then f y else 0) xs) = (f x :: int)"
  using assms
proof (induction xs)
  case (Cons y ys)
  have "sum_list (map (\<lambda>z. if key z = key x then f z else 0) ys) = 0" if "key x \<notin> key ` set ys"
    using that by (induction ys) auto
  with Cons show ?case by (auto simp: unique_on_def)
qed simp

lemma delta_append: "delta a (ps @ qs) = delta a ps + delta a qs"
  by (simp add: delta_def)

lemma delta_none: "\<forall>p \<in> set ps. \<not> (po_household p = ac_household a \<and> en_account (po_entry p) = ac_id a) \<Longrightarrow> delta a ps = 0"
  by (simp add: delta_def filter_none)

lemma account_in_unique:
  "unique_on ac_id (lg_accounts d) \<Longrightarrow> a \<in> set (lg_accounts d) \<Longrightarrow> account_in d (ac_household a) (ac_id a) = Some a"
proof -
  assume u: "unique_on ac_id (lg_accounts d)" and a: "a \<in> set (lg_accounts d)"
  have "find (\<lambda>r. ac_household r = ac_household a \<and> ac_id r = ac_id a) (lg_accounts d)
      = find (\<lambda>r. ac_id r = ac_id a) (lg_accounts d)"
    by (rule find_cong2) (use unique_onD [OF u _ a] in auto)
  also have "\<dots> = Some a" by (rule find_unique [OF u a refl])
  finally show ?thesis by (simp add: account_in_def)
qed

text \<open>The rows that a posting upserts move each account by its new postings.\<close>

lemma balance_rows_move:
  assumes posted: "posted rand projection i rows d d'" and refs: "refs_ok d" and a: "a \<in> set (lg_accounts d)"
  shows "sum_list (map (\<lambda>b. if balance_key b a then ba_native b else 0)
      (balance_rows (posted_tables i rows d) (jn_household (pj_body i)) (jp_journal (pj_proposal i))
        (map po_id rows) (jn_effective (pj_body i)))) = delta a rows"
proof -
  let ?hh = "jn_household (pj_body i)" and ?j = "jp_journal (pj_proposal i)"
  note rows = posted_rows [OF posted refs]
  have "filter (\<lambda>p. po_household p = ?hh \<and> po_journal p = ?j \<and> po_id p \<in> set (map po_id rows)) (lg_postings d) = []"
    by (rule filter_none) (metis refs_posting [OF refs] posted_new_journal [OF posted refs])
  then have ps: "filter (\<lambda>p. po_household p = ?hh \<and> po_journal p = ?j \<and> po_id p \<in> set (map po_id rows))
      (lg_postings (posted_tables i rows d)) = rows"
    using rows by simp
  obtain reporting where household: "map_of (lg_households d) ?hh = Some reporting"
    using posted by (auto simp: posted_def book_in_def household_in_def dest!: weak_map_of_SomeI)
  let ?used = "\<lambda>a. ac_household a = ?hh \<and> list_ex (\<lambda>p. en_account (po_entry p) = ac_id a) rows"
  have unique: "unique_on ac_id (filter ?used (lg_accounts d))"
    using refs by (simp add: refs_ok_def unique_on_def distinct_map_filter)
  have same: "x = a" if "x \<in> set (lg_accounts d)" "ac_id x = ac_id a" for x
    using unique_onD [of ac_id "lg_accounts d" x a] refs a that by (simp add: refs_ok_def)
  have "sum_list (map (\<lambda>x. if ?hh = ac_household a \<and> ac_id x = ac_id a then delta x rows else 0)
      (filter ?used (lg_accounts d)))
    = sum_list (map (\<lambda>x. if ac_id x = ac_id a then delta x rows else 0) (filter ?used (lg_accounts d)))"
    by (intro arg_cong [where f = sum_list] map_cong) (auto dest: same)
  also have "\<dots> = delta a rows"
  proof (cases "?used a")
    case True
    then show ?thesis using sum_list_unique [OF unique, of a] a by simp
  next
    case False
    then have "sum_list (map (\<lambda>x. if ac_id x = ac_id a then delta x rows else 0) (filter ?used (lg_accounts d)))
        = sum_list (map (\<lambda>x. 0) (filter ?used (lg_accounts d)))"
      by (intro arg_cong [where f = sum_list] map_cong) (auto dest: same)
    moreover have "delta a rows = 0"
      by (rule delta_none) (use False rows in \<open>auto simp: list_ex_iff\<close>)
    ultimately show ?thesis by simp
  qed
  finally show ?thesis
    by (simp add: balance_rows_def household ps [simplified] balance_key_def o_def Let_def cong: if_cong)
qed

lemma posted_agree:
  assumes posted: "posted rand True i rows d d'" and refs: "refs_ok d" and agree: "balances_agree d"
  shows "balances_agree d'"
proof -
  have "native_balance (lg_balances d') a = delta a (lg_postings d')" if "a \<in> set (lg_accounts d')" for a
    using that agree balance_rows_move [OF posted refs, of a]
    by (simp add: posted_table [OF posted refs] projected_def native_upserts delta_append balances_agree_def)
  moreover have "account_in d' (ba_household b) (ba_account b) \<noteq> None" if "b \<in> set (lg_balances d')" for b
  proof -
    let ?rows = "balance_rows (posted_tables i rows d) (jn_household (pj_body i)) (jp_journal (pj_proposal i))
        (map po_id rows) (jn_effective (pj_body i))"
    have "b \<in> set (foldl (\<lambda>rows b. upsert_balance b rows) (lg_balances d) ?rows)"
      using that by (simp add: posted_table [OF posted refs] projected_def)
    from upsert_keys [OF this] obtain x where
      x: "x \<in> set (lg_balances d) \<union> set ?rows" "ba_household b = ba_household x" "ba_account b = ba_account x"
      by blast
    have "account_in d (ba_household x) (ba_account x) \<noteq> None" if "x \<in> set ?rows"
      using that account_in_unique refs
      by (fastforce simp: balance_rows_def Let_def refs_ok_def split: option.splits)
    then show ?thesis
      using x agree by (auto simp: balances_agree_def account_in_cong [OF posted_table(1) [OF posted refs]])
  qed
  ultimately show ?thesis by (simp add: balances_agree_def)
qed

lemma posted_books_ok:
  assumes posted: "posted rand True i rows d d'" and ok: "books_ok d"
  shows "books_ok d'"
proof -
  have refs: "refs_ok d" and agree: "balances_agree d" and sound: "\<forall>j \<in> set (lg_journals d). sound_journal d j"
    using ok by (simp_all add: books_ok_def list_all_iff)
  have "\<forall>j \<in> set (lg_journals d). sound_journal d' j"
    using sound sound_grows [OF refs posted_grows [OF posted refs]] by blast
  then show ?thesis
    using posted_refs [OF posted refs] posted_agree [OF posted refs agree] posted_sound [OF posted refs]
    by (simp add: books_ok_def posted_table [OF posted refs] list_all_iff)
qed

section \<open>A new draft\<close>

lemma draft_lines_shape:
  assumes "list_all2 (draft_line_for hh x) ps ls" and "l \<in> set ls"
  shows "dl_household l = hh \<and> dl_draft l = x"
proof -
  obtain n where "n < length ls" "l = ls ! n" using assms(2) by (metis in_set_conv_nth)
  then show ?thesis using list_all2_nthD2 [OF assms(1)] by (fastforce simp: draft_line_for_def split: prod.splits)
qed

lemma drafted_books_ok:
  assumes drafted: "drafted i ls d d'" and ok: "books_ok d"
  shows "books_ok d'"
proof -
  have refs: "refs_ok d" using ok by (simp add: books_ok_def)
  let ?r = "draft_row_of i (sorted_text (remdups (jn_tags (di_body i))))"
  have d': "d' = d\<lparr>lg_drafts := lg_drafts d @ [?r], lg_lines := lg_lines d @ ls\<rparr>"
    using drafted by (simp add: drafted_def Let_def)
  have new: "dr_id ?r \<notin> dr_id ` set (lg_drafts d)"
    using drafted by (simp add: drafted_def draft_violations_def Let_def)
  have "list_all2 (draft_line_for (jn_household (di_body i)) (jn_draft (di_body i)))
      (enumerate 0 (jn_postings (di_body i))) ls"
    using drafted by (simp add: drafted_def Let_def)
  then have lines: "dl_draft l = dr_id ?r" if "l \<in> set ls" for l
    using draft_lines_shape that by (simp add: draft_row_of_def)
  have grows: "grows d d'"
    using new lines by (auto simp: grows_def d' account_kept_def account_in_def)
  have "account_in d' = account_in d" by (rule account_in_cong) (simp add: d')
  moreover have "refs_ok d'"
    using refs new lines by (auto simp: refs_ok_def d' unique_on_append account_in_def)
  moreover have "\<forall>j \<in> set (lg_journals d). sound_journal d' j"
    using ok sound_grows [OF refs grows] by (simp add: books_ok_def list_all_iff)
  ultimately show ?thesis
    using ok by (simp add: books_ok_def d' list_all_iff balances_agree_def)
qed

end
