(* ===== verification/ChartFacts.thy ===== *)
theory ChartFacts
  imports ChartRepository LedgerInvariant
begin

text \<open>
  The operations of the repository keep the invariant of the ledger: none of them touches what a
  posted journal depends on. The financial identity of an account with postings is what the guard
  of the accounts table protects.
\<close>

section \<open>Frames\<close>

lemma books_ok_frame:
  assumes "lg_accounts d' = lg_accounts d" "lg_journals d' = lg_journals d" "lg_postings d' = lg_postings d"
    "lg_drafts d' = lg_drafts d" "lg_lines d' = lg_lines d" "lg_posting_tags d' = lg_posting_tags d"
    "lg_journal_tags d' = lg_journal_tags d" "lg_artifacts d' = lg_artifacts d" "lg_pending d' = lg_pending d"
    "lg_balances d' = lg_balances d" and ok: "books_ok d"
  shows "books_ok d'"
proof -
  note acc = account_in_cong [OF assms(1)]
  have refs: "refs_ok d" using ok by (simp add: books_ok_def)
  have "grows d d'" by (simp add: grows_def account_kept_def assms(1-10) acc)
  then have "\<forall>j \<in> set (lg_journals d). sound_journal d' j"
    using ok sound_grows [OF refs] by (simp add: books_ok_def list_all_iff)
  then show ?thesis
    using ok by (simp add: books_ok_def refs_ok_def balances_agree_def list_all_iff assms(1-10) acc)
qed

lemma delta_cong:
  "ac_household a' = ac_household a \<Longrightarrow> ac_id a' = ac_id a \<Longrightarrow> ac_normal a' = ac_normal a \<Longrightarrow> delta a' ps = delta a ps"
  by (simp add: delta_def signed_native_def)

lemma native_balance_cong:
  "ac_household a' = ac_household a \<Longrightarrow> ac_id a' = ac_id a \<Longrightarrow> native_balance bs a' = native_balance bs a"
  by (simp add: native_balance_def)

lemma delta_unposted: "\<not> has_postings d a \<Longrightarrow> delta a (lg_postings d) = 0"
  by (rule delta_none) (auto simp: has_postings_def list_ex_iff)

text \<open>The accounts change: what must stay of the ones with postings.\<close>

definition account_follows :: "ledger \<Rightarrow> account_row \<Rightarrow> account_row \<Rightarrow> bool" where
  "account_follows d a a' \<longleftrightarrow>
     ac_household a' = ac_household a \<and> ac_id a' = ac_id a
     \<and> (has_postings d a \<longrightarrow> ac_book a' = ac_book a \<and> ac_currency a' = ac_currency a
          \<and> ac_class a' = ac_class a \<and> ac_normal a' = ac_normal a)"

lemma find_map: "find p (map f xs) = map_option f (find (\<lambda>x. p (f x)) xs)"
  by (induction xs) auto

lemma books_ok_accounts:
  assumes ok: "books_ok d"
    and follow: "\<And>a. a \<in> set (lg_accounts d) \<Longrightarrow> account_follows d a (f a)"
    and new: "\<And>a. a \<in> set as \<Longrightarrow> ac_id a \<notin> ac_id ` set (lg_accounts d)" and u: "unique_on ac_id as"
  shows "books_ok (d\<lparr>lg_accounts := map f (lg_accounts d) @ as\<rparr>)"
proof -
  let ?d = "d\<lparr>lg_accounts := map f (lg_accounts d) @ as\<rparr>"
  have refs: "refs_ok d" and agree: "balances_agree d" using ok by (simp_all add: books_ok_def)
  have ids: "map (\<lambda>a. ac_id (f a)) (lg_accounts d) = map ac_id (lg_accounts d)"
    by (rule map_cong [OF refl]) (use follow in \<open>simp add: account_follows_def\<close>)
  have "unique_on ac_id (lg_accounts ?d)"
  proof -
    have eq: "map ac_id (lg_accounts ?d) = map ac_id (lg_accounts d) @ map ac_id as" by (simp add: o_def ids)
    have "ac_id ` set (lg_accounts d) \<inter> ac_id ` set as = {}" by (auto dest!: new) (metis imageI)
    moreover have "distinct (map ac_id (lg_accounts d))" "distinct (map ac_id as)"
      using refs u by (simp_all add: refs_ok_def unique_on_def)
    ultimately have "distinct (map ac_id (lg_accounts d) @ map ac_id as)"
      by (simp only: distinct_append set_map simp_thms)
    then show ?thesis unfolding unique_on_def eq .
  qed
  have kept: "\<exists>a'. account_in ?d hh x = Some a' \<and> account_follows d a a'" if "account_in d hh x = Some a" for hh x a
  proof -
    have same: "find (\<lambda>r. ac_household (f r) = hh \<and> ac_id (f r) = x) (lg_accounts d)
        = find (\<lambda>r. ac_household r = hh \<and> ac_id r = x) (lg_accounts d)"
      by (rule find_cong2) (use follow in \<open>simp add: account_follows_def\<close>)
    have "a \<in> set (lg_accounts d)" using that by (auto simp: account_in_def dest: find_SomeD)
    then show ?thesis
      using that follow by (simp add: account_in_def find_append find_map same)
  qed
  have "account_kept d ?d (po_household p) (en_account (po_entry p))" if "p \<in> set (lg_postings d)" for p
  proof -
    have "has_postings d a" if "account_in d (po_household p) (en_account (po_entry p)) = Some a" for a
    proof -
      have "ac_household a = po_household p" "ac_id a = en_account (po_entry p)"
        using find_SomeD [OF that [unfolded account_in_def]] by simp_all
      then show ?thesis using \<open>p \<in> set (lg_postings d)\<close> by (auto simp: has_postings_def list_ex_iff)
    qed
    then show ?thesis using kept by (fastforce simp: account_kept_def account_follows_def)
  qed
  then have grows: "grows d ?d" by (simp add: grows_def)
  have "\<forall>j \<in> set (lg_journals d). sound_journal ?d j"
    using ok sound_grows [OF refs grows] by (simp add: books_ok_def list_all_iff)
  moreover have "refs_ok ?d"
    using refs kept \<open>unique_on ac_id (lg_accounts ?d)\<close> by (fastforce simp: refs_ok_def)
  moreover have "native_balance (lg_balances d) a = delta a (lg_postings d)" if a: "a \<in> set (lg_accounts ?d)" for a
  proof (cases "a \<in> set as")
    case True
    have "ac_id r \<noteq> ac_id a" if "r \<in> set (lg_accounts d)" for r
      using new [OF True] that by (metis imageI)
    then have none: "account_in d hh (ac_id a) = None" for hh
      by (simp add: account_in_def find_None_iff)
    have "delta a (lg_postings d) = 0"
      by (rule delta_none) (use refs none in \<open>auto simp: refs_ok_def\<close>)
    moreover have "find (\<lambda>b. ba_household b = ac_household a \<and> ba_account b = ac_id a) (lg_balances d) = None"
      using agree none by (auto simp: balances_agree_def find_None_iff)
    ultimately show ?thesis by (simp add: native_balance_def)
  next
    case False
    with a obtain b where b: "b \<in> set (lg_accounts d)" "a = f b" by auto
    have f: "account_follows d b a" using follow [OF b(1)] b(2) by simp
    have "native_balance (lg_balances d) a = native_balance (lg_balances d) b"
      by (rule native_balance_cong) (use f in \<open>simp_all add: account_follows_def\<close>)
    also have "\<dots> = delta b (lg_postings d)" using agree b(1) by (simp add: balances_agree_def)
    also have "\<dots> = delta a (lg_postings d)"
    proof (cases "has_postings d b")
      case True
      show ?thesis by (rule delta_cong) (use f True in \<open>simp_all add: account_follows_def\<close>)
    next
      case False
      moreover have "\<not> has_postings d a" using f False by (simp add: account_follows_def has_postings_def)
      ultimately show ?thesis by (simp add: delta_unposted)
    qed
    finally show ?thesis .
  qed
  moreover have "\<forall>b \<in> set (lg_balances d). account_in ?d (ba_household b) (ba_account b) \<noteq> None"
    using agree kept by (fastforce simp: balances_agree_def)
  ultimately show ?thesis using ok by (simp add: books_ok_def balances_agree_def list_all_iff)
qed

section \<open>Statements\<close>

definition statement_keeps :: "(ledger \<Rightarrow> bool) \<Rightarrow> (ledger, json) statement \<Rightarrow> bool" where
  "statement_keeps P q \<longleftrightarrow> (\<forall>t d j d'. P d \<longrightarrow> q t d = Inr (j, d') \<longrightarrow> P d')"

lemma keeps_insert_account: "statement_keeps books_ok (insert_account f)"
proof -
  have "books_ok (d\<lparr>lg_accounts := lg_accounts d @ [account_row_of f False]\<rparr>)"
    if "books_ok d" "ac_id (account_row_of f False) \<notin> ac_id ` set (lg_accounts d)" for d
    using books_ok_accounts [OF that(1), of "\<lambda>a. a" "[account_row_of f False]"] that(2)
    by (simp add: account_follows_def unique_on_def)
  then show ?thesis
    by (auto simp: statement_keeps_def insert_account_def Let_def insert_if_Inr)
qed

lemma keeps_update_account: "statement_keeps books_ok (update_account f)"
proof -
  let ?new = "account_row_of f False"
  let ?hit = "\<lambda>a. ac_household a = cf_household f \<and> ac_book a = cf_book f \<and> ac_id a = cf_account f \<and> \<not> ac_archived a"
  have "books_ok (d\<lparr>lg_accounts := update_where ?hit (\<lambda>a. ?new) (lg_accounts d)\<rparr>)"
    if ok: "books_ok d" and guard: "\<not> list_ex (\<lambda>a. ?hit a \<and> has_postings d a \<and> identity_changes a ?new) (lg_accounts d)" for d
  proof -
    have "account_follows d a (if ?hit a then ?new else a)" if "a \<in> set (lg_accounts d)" for a
      using guard that
      by (auto simp: account_follows_def identity_changes_def list_ex_iff account_row_of_def)
    from books_ok_accounts [OF ok this, of "[]"] show ?thesis
      by (simp add: update_where_def unique_on_def)
  qed
  note guarded = this
  have unhit: "update_where ?hit (\<lambda>a. ?new) (lg_accounts d) = lg_accounts d" if "\<not> list_ex ?hit (lg_accounts d)" for d
    by (rule update_where_none) (use that in \<open>simp add: list_ex_iff\<close>)
  have "books_ok d'" if ok: "books_ok d" and upd: "update_account f t d = Inr (j, d')" for t d j d'
  proof (cases "list_ex ?hit (lg_accounts d)")
    case True
    then show ?thesis
      using upd guarded [OF ok] by (simp add: update_account_def Let_def insert_if_Inr)
  next
    case False
    then show ?thesis
      using upd unhit [OF False] ok by (simp add: update_account_def Let_def insert_if_Inr)
  qed
  then show ?thesis by (simp add: statement_keeps_def)
qed

lemma keeps_archive_account: "statement_keeps books_ok (archive_account hh x)"
proof -
  have "books_ok (d\<lparr>lg_accounts := update_where p (\<lambda>a. a\<lparr>ac_archived := True\<rparr>) (lg_accounts d)\<rparr>)"
    if "books_ok d" for d p
    using books_ok_accounts [OF that, of "\<lambda>a. if p a then a\<lparr>ac_archived := True\<rparr> else a" "[]"]
    by (simp add: account_follows_def update_where_def unique_on_def)
  then show ?thesis by (simp add: statement_keeps_def archive_account_def Let_def)
qed

lemma books_ok_updates:
  assumes "books_ok d"
  shows "books_ok (d\<lparr>lg_mappings := x1\<rparr>)" "books_ok (d\<lparr>lg_books := x2\<rparr>)" "books_ok (d\<lparr>lg_configurations := x3\<rparr>)"
    "books_ok (d\<lparr>lg_periods := x4\<rparr>)" "books_ok (d\<lparr>lg_tags := x5\<rparr>)" "books_ok (d\<lparr>lg_counterparties := x6\<rparr>)"
  by (rule books_ok_frame [OF _ _ _ _ _ _ _ _ _ _ assms]; simp)+

lemma keeps_frames:
  "statement_keeps books_ok (insert_mapping f)" "statement_keeps books_ok (archive_mapping hh x)" "statement_keeps books_ok (insert_book b hh name)"
  "statement_keeps books_ok (insert_configuration r)" "statement_keeps books_ok (insert_period p)"
  "statement_keeps books_ok (update_period_state hh x old new)" "statement_keeps books_ok (insert_party tag hh x name)"
  "statement_keeps books_ok (archive_party tag hh x)"
  by (simp_all add: statement_keeps_def insert_mapping_def archive_mapping_def insert_book_def insert_configuration_def
      insert_period_def update_period_state_def insert_party_def archive_party_def Let_def insert_if_Inr books_ok_updates)

section \<open>Operations\<close>

lemma yields_keeps: "statement_keeps P q \<Longrightarrow> P d \<Longrightarrow> (\<And>j d'. P d' \<Longrightarrow> Q j d') \<Longrightarrow> yields (query q) Q d"
  by (rule yields_query) (auto simp: statement_keeps_def)

lemma yields_householdDbId: "Q () d \<Longrightarrow> yields (householdDbId hh) Q d"
  unfolding householdDbId_def select_household_def by (intro yields_bind yields_select yields_demand)

lemma yields_accountDbId: "Q () d \<Longrightarrow> yields (accountDbId hh x) Q d"
  unfolding accountDbId_def select_account_def by (intro yields_bind yields_select yields_demand)

lemma yields_one_row: "Q () d \<Longrightarrow> yields (one_row e n) Q d"
  unfolding one_row_def by (intro yields_demand)

lemmas repository_rules = yields_caught yields_bind yields_done yields_bookDbId yields_householdDbId
  yields_accountDbId yields_if_given yields_one_row

lemmas repository_defs = createBookWithConfiguration_def createAccount_def updateAccount_def
  createAccountSourceMapping_def archiveAccountSourceMapping_def archiveAccount_def createPeriod_def
  addBookConfiguration_def createCounterparty_def createTag_def archiveCounterparty_def archiveTag_def
  transitionPeriod_def

definition repository_statements :: "(ledger \<Rightarrow> bool) \<Rightarrow> bool" where
  "repository_statements P \<longleftrightarrow>
     (\<forall>f. statement_keeps P (insert_account f)) \<and> (\<forall>f. statement_keeps P (update_account f)) \<and> (\<forall>hh x. statement_keeps P (archive_account hh x))
     \<and> (\<forall>f. statement_keeps P (insert_mapping f)) \<and> (\<forall>hh x. statement_keeps P (archive_mapping hh x))
     \<and> (\<forall>b hh name. statement_keeps P (insert_book b hh name)) \<and> (\<forall>r. statement_keeps P (insert_configuration r))
     \<and> (\<forall>p. statement_keeps P (insert_period p)) \<and> (\<forall>hh x old new. statement_keeps P (update_period_state hh x old new))
     \<and> (\<forall>tag hh x name. statement_keeps P (insert_party tag hh x name)) \<and> (\<forall>tag hh x. statement_keeps P (archive_party tag hh x))"

lemma repository_keeps:
  assumes "repository_statements P" and "P d"
  shows "yields (createBookWithConfiguration name r) (\<lambda>_. P) d"
    "yields (createAccount f) (\<lambda>_. P) d" "yields (updateAccount f) (\<lambda>_. P) d"
    "yields (createAccountSourceMapping m) (\<lambda>_. P) d"
    "yields (archiveAccountSourceMapping hh x) (\<lambda>_. P) d" "yields (archiveAccount hh x) (\<lambda>_. P) d"
    "yields (createPeriod hh b x s e) (\<lambda>_. P) d" "yields (addBookConfiguration r) (\<lambda>_. P) d"
    "yields (createCounterparty hh x name) (\<lambda>_. P) d" "yields (createTag hh x name) (\<lambda>_. P) d"
    "yields (archiveCounterparty hh x) (\<lambda>_. P) d" "yields (archiveTag hh x) (\<lambda>_. P) d"
    "yields (transitionPeriod hh x old new) (\<lambda>_. P) d"
  unfolding repository_defs using assms unfolding repository_statements_def
  by (auto intro!: repository_rules yields_keeps [where P = P])

lemma repository_books: "repository_statements books_ok"
  by (simp add: repository_statements_def keeps_insert_account keeps_update_account keeps_archive_account keeps_frames)

lemma repository_journals: "repository_statements (\<lambda>d. lg_journals d = js \<and> lg_postings d = ps)"
  by (auto simp: repository_statements_def statement_keeps_def insert_account_def update_account_def archive_account_def
      insert_mapping_def archive_mapping_def insert_book_def insert_configuration_def
      insert_period_def update_period_state_def insert_party_def archive_party_def Let_def insert_if_Inr
      split: if_splits)

end
