(* ===== verification/JournalHandler.thy ===== *)
theory JournalHandler
  imports JournalPosting
begin

text \<open>
  The journal handler: packages/accounting/src/mutations/accounting-journal-handler.ts with the
  proposals of team/contracts.ts that it executes and the read-back of
  repositories/ledger-readback.ts. The handler is parametric in the random bytes of the posting
  identifiers.
\<close>

section \<open>Proposals\<close>

record checked_draft =
  cd_series :: string
  cd_version :: int
  cd_previous :: "string option"
  cd_journal :: journal_proposal

definition CheckedJournalDraftProposalSchemaV1 :: "checked_draft \<Rightarrow> bool" where
  "CheckedJournalDraftProposalSchemaV1 c \<longleftrightarrow>
     opaqueIdentifierSchema Id_draftSeries (cd_series c) \<and> 0 < cd_version c
     \<and> present (opaqueIdentifierSchema Id_journalDraft) (cd_previous c)
     \<and> PostJournalProposalSchemaV1 (cd_journal c)
     \<and> (if cd_version c = 1 then cd_previous c = None else cd_previous c \<noteq> None)"

definition checked_draft_json :: "checked_draft \<Rightarrow> json" where
  "checked_draft_json c = JObj
     ([(''draftSeriesId'', JStr (cd_series c)), (''version'', JNum (cd_version c)),
       (''journal'', proposal_json (cd_journal c))] @ opt_pair ''previousDraftId'' JStr (cd_previous c))"

definition parse_checked_draft :: "json \<Rightarrow> checked_draft option" where
  "parse_checked_draft j = do {
     check_that (strict_object [''draftSeriesId'', ''version'', ''previousDraftId'', ''journal''] j);
     series \<leftarrow> need ''draftSeriesId'' json_string j;
     version \<leftarrow> need ''version'' json_int j;
     previous \<leftarrow> may ''previousDraftId'' json_string j;
     journal \<leftarrow> need ''journal'' parse_proposal j;
     let c = \<lparr>cd_series = series, cd_version = version, cd_previous = previous, cd_journal = journal\<rparr>;
     check_that (CheckedJournalDraftProposalSchemaV1 c);
     Some c }"

datatype journal_mutation =
    Post_mutation checked_draft
  | Correction_mutation string checked_draft checked_draft

definition correction_agrees :: "string \<Rightarrow> journal_proposal \<Rightarrow> journal_proposal \<Rightarrow> bool" where
  "correction_agrees original reversal replacement \<longleftrightarrow>
     (let r = jp_body reversal; s = jp_body replacement in
      jn_household r = jn_household s \<and> jn_book r = jn_book s \<and> jn_task r = jn_task s
      \<and> jp_journal reversal \<noteq> jp_journal replacement \<and> jn_draft r \<noteq> jn_draft s
      \<and> jn_type r = Jt_reversal \<and> jp_reverses reversal = Some original
      \<and> jn_type s = Jt_replacement \<and> jp_replaces replacement = Some original)"

definition mutation_head :: "string \<Rightarrow> (string \<times> json) list" where
  "mutation_head operation =
    [(''schemaName'', JStr ''accounting-journal-mutation-proposal''), (''schemaVersion'', JNum 1),
     (''operation'', JStr operation)]"

fun mutation_json :: "journal_mutation \<Rightarrow> json" where
  "mutation_json (Post_mutation c) = JObj (mutation_head ''post'' @ [(''draft'', checked_draft_json c)])"
| "mutation_json (Correction_mutation original r s) = JObj (mutation_head ''reverse_replace'' @
     [(''originalJournalId'', JStr original), (''reversal'', checked_draft_json r), (''replacement'', checked_draft_json s)])"

definition parse_post_mutation :: "json \<Rightarrow> journal_mutation option" where
  "parse_post_mutation j = do {
     check_that (strict_object [''schemaName'', ''schemaVersion'', ''operation'', ''draft''] j);
     draft \<leftarrow> need ''draft'' parse_checked_draft j;
     Some (Post_mutation draft) }"

definition parse_correction_mutation :: "json \<Rightarrow> journal_mutation option" where
  "parse_correction_mutation j = do {
     check_that (strict_object
       [''schemaName'', ''schemaVersion'', ''operation'', ''originalJournalId'', ''reversal'', ''replacement''] j);
     original \<leftarrow> need ''originalJournalId'' json_string j;
     check_that (opaqueIdentifierSchema Id_journal original);
     r \<leftarrow> need ''reversal'' parse_checked_draft j;
     s \<leftarrow> need ''replacement'' parse_checked_draft j;
     check_that (correction_agrees original (cd_journal r) (cd_journal s));
     Some (Correction_mutation original r s) }"

definition parse_journal_mutation :: "json \<Rightarrow> journal_mutation option" where
  "parse_journal_mutation j = do {
     literal ''schemaName'' (JStr ''accounting-journal-mutation-proposal'') j;
     literal ''schemaVersion'' (JNum 1) j;
     operation \<leftarrow> need ''operation'' json_string j;
     (if operation = ''post'' then parse_post_mutation j
      else if operation = ''reverse_replace'' then parse_correction_mutation j
      else None) }"

definition clarification_fields :: "string list" where
  "clarification_fields =
    [''amount'', ''payment_account'', ''currency'', ''occurred_on'', ''category'', ''exchange_rate'']"

definition is_clarification :: "json \<Rightarrow> bool" where
  "is_clarification j \<longleftrightarrow>
     strict_object [''schemaName'', ''schemaVersion'', ''missingFields'', ''questions'', ''reason''] j
     \<and> json_field ''schemaName'' j = Some (JStr ''accounting-clarification'')
     \<and> json_field ''schemaVersion'' j = Some (JNum 1)
     \<and> (case need ''missingFields'' (json_array json_string) j of
          None \<Rightarrow> False | Some fs \<Rightarrow> fs \<noteq> [] \<and> set fs \<subseteq> set clarification_fields)
     \<and> (case need ''questions'' (json_array json_string) j of
          None \<Rightarrow> False | Some qs \<Rightarrow> qs \<noteq> [] \<and> list_all (text_between 1 4000) qs)
     \<and> (case need ''reason'' json_string j of None \<Rightarrow> False | Some r \<Rightarrow> text_between 1 4000 r)"

text \<open>\<open>AccountingWorkResultSchemaV1.parse\<close>, as the JSON of what it returns.\<close>

definition AccountingWorkResultSchemaV1 :: "json \<Rightarrow> json option" where
  "AccountingWorkResultSchemaV1 j =
    (case parse_journal_mutation j of
       Some m \<Rightarrow> Some (mutation_json m)
     | None \<Rightarrow> if is_clarification j then Some j else None)"

section \<open>Binding a draft\<close>

definition bindDraft :: "checked_draft \<Rightarrow> execution_context \<Rightarrow> exn + (post_journal \<times> journal_draft_input)" where
  "bindDraft c ctx =
    (let journal = \<lparr>pj_proposal = cd_journal c, pj_artifact = ec_ctx_proposal ctx, pj_hash = ec_ctx_proposal_hash ctx\<rparr>;
         draft = \<lparr>di_body = jp_body (cd_journal c), di_series = cd_series c, di_version = cd_version c,
           di_previous = cd_previous c, di_artifact = ec_ctx_proposal ctx, di_hash = ec_ctx_proposal_hash ctx\<rparr>
     in if PostJournalInputSchemaV1 journal \<and> JournalDraftInputSchemaV1 draft
        then Inr (journal, draft) else Inl ZodError)"

fun bind_all :: "checked_draft list \<Rightarrow> execution_context \<Rightarrow> exn + (post_journal \<times> journal_draft_input) list" where
  "bind_all [] ctx = Inr []"
| "bind_all (c # cs) ctx =
    (case bindDraft c ctx of
       Inl e \<Rightarrow> Inl e
     | Inr b \<Rightarrow> (case bind_all cs ctx of Inl e \<Rightarrow> Inl e | Inr bs \<Rightarrow> Inr (b # bs)))"

fun drafts_of :: "journal_mutation \<Rightarrow> checked_draft list" where
  "drafts_of (Post_mutation c) = [c]"
| "drafts_of (Correction_mutation original r s) = [r, s]"

section \<open>Balances\<close>

record account_balance =
  ab_account :: string
  ab_currency :: string
  ab_amount :: string

definition balance_answer :: "string \<Rightarrow> json \<Rightarrow> account_balance option" where
  "balance_answer aid j = do {
     currency \<leftarrow> need ''currency'' json_string j;
     amount \<leftarrow> need ''amount'' json_string j;
     Some \<lparr>ab_account = aid, ab_currency = currency, ab_amount = amount\<rparr> }"

definition accountNativeBalance ::
  "string \<Rightarrow> string \<Rightarrow> string \<Rightarrow> ((ledger, json) statement, account_balance) script" where
  "accountNativeBalance hh asOf aid =
    (if \<not> (opaqueIdentifierSchema Id_household hh \<and> opaqueIdentifierSchema Id_account aid \<and> LocalDateSchema asOf)
     then Throw ZodError
     else script_bind (query (select_balance hh aid asOf)) (\<lambda>r.
       (case balance_answer aid r of
          None \<Rightarrow> Throw (referenceError ''account_not_found'')
        | Some b \<Rightarrow> Done b)))"

text \<open>\<open>journals.map((entry) => entry.effectiveOn).sort().at(-1)\<close>.\<close>

definition latest_effective :: "post_journal list \<Rightarrow> string" where
  "latest_effective js = last (sorted_text (map (\<lambda>j. jn_effective (pj_body j)) js))"

definition touched_accounts :: "post_journal list \<Rightarrow> string list" where
  "touched_accounts js =
    sorted_text (remdups (concat (map (\<lambda>j. map pt_account (jn_postings (pj_body j))) js)))"

section \<open>The expected state\<close>

record journal_expectation =
  je_journals :: "post_journal list"
  je_balances :: "account_balance list"

definition JournalExpectedStateSchema :: "journal_expectation \<Rightarrow> bool" where
  "JournalExpectedStateSchema x \<longleftrightarrow>
     je_journals x \<noteq> [] \<and> length (je_journals x) \<le> 2 \<and> list_all PostJournalInputSchemaV1 (je_journals x)
     \<and> list_all (\<lambda>b. ab_account b \<noteq> [] \<and> CurrencyCodeSchema (ab_currency b) \<and> DecimalStringSchema (ab_amount b))
         (je_balances x)"

definition balance_json :: "account_balance \<Rightarrow> json" where
  "balance_json b = JObj [(''accountId'', JStr (ab_account b)), (''currency'', JStr (ab_currency b)),
     (''amount'', JStr (ab_amount b))]"

definition decode_balance :: "json \<Rightarrow> account_balance option" where
  "decode_balance j = do {
     check_that (strict_object [''accountId'', ''currency'', ''amount''] j);
     account \<leftarrow> need ''accountId'' json_string j;
     balance_answer account j }"

definition expectation_json :: "journal_expectation \<Rightarrow> json" where
  "expectation_json x = JObj [(''journals'', JArr (map post_journal_json (je_journals x))),
     (''balances'', JArr (map balance_json (je_balances x)))]"

definition parse_expectation :: "json \<Rightarrow> journal_expectation option" where
  "parse_expectation j = do {
     check_that (strict_object [''journals'', ''balances''] j);
     journals \<leftarrow> need ''journals'' (json_array decode_post_journal) j;
     balances \<leftarrow> need ''balances'' (json_array decode_balance) j;
     let x = \<lparr>je_journals = journals, je_balances = balances\<rparr>;
     check_that (JournalExpectedStateSchema x);
     Some x }"

lemma parse_expectation_json: "JournalExpectedStateSchema x \<Longrightarrow> parse_expectation (expectation_json x) = Some x"
proof -
  assume ok: "JournalExpectedStateSchema x"
  have "decode_balance (balance_json b) = Some b" for b
    by (simp add: decode_balance_def balance_json_def balance_answer_def need_def json_field_def strict_object_def)
  then have "parse_list decode_balance (map balance_json bs) = Some bs"
    "parse_list decode_post_journal (map post_journal_json js) = Some js" for bs js
    by (simp_all add: parse_list_map)
  with ok show ?thesis
    by (cases x) (simp add: parse_expectation_def expectation_json_def need_def json_field_def strict_object_def json_array_def Let_def)
qed

section \<open>Execution\<close>

definition posted_records :: "string \<times> string list \<Rightarrow> committed_record list" where
  "posted_records = (\<lambda>(j, pids). \<lparr>cr_type = ''accounting.journal'', cr_id = j\<rparr>
     # map (\<lambda>p. \<lparr>cr_type = ''accounting.posting'', cr_id = p\<rparr>) pids)"

fun post_mutation ::
  "(string \<Rightarrow> nat \<Rightarrow> nat list) \<Rightarrow> journal_mutation \<Rightarrow> post_journal list \<Rightarrow>
   ((ledger, json) statement, (string \<times> string list) list) script" where
  "post_mutation rand (Post_mutation c) js =
    script_bind (postInTransaction rand True (js ! 0)) (\<lambda>x. Done [x])"
| "post_mutation rand (Correction_mutation original r s) js =
    script_bind (reverseAndReplaceInTransaction rand True original (js ! 0) (js ! 1)) (\<lambda>(x, y). Done [x, y])"

definition journal_execute ::
  "(string \<Rightarrow> nat \<Rightarrow> nat list) \<Rightarrow> json \<Rightarrow> execution_context \<Rightarrow>
   ((ledger, json) statement, execution_output) script" where
  "journal_execute rand input ctx =
    (case parse_journal_mutation input of
       None \<Rightarrow>
         if is_clarification input
         then Throw (plusOne Validation_rejected ''accounting_clarification_not_executable'' Never False)
         else Throw ZodError
     | Some m \<Rightarrow>
         (case bind_all (drafts_of m) ctx of
            Inl e \<Rightarrow> Throw e
          | Inr bound \<Rightarrow>
              (let js = map fst bound in
               script_bind (each insertVersion (map snd bound)) (\<lambda>_.
               script_bind (post_mutation rand m js) (\<lambda>out.
               script_bind (each (accountNativeBalance (jn_household (pj_body (js ! 0))) (latest_effective js))
                  (touched_accounts js)) (\<lambda>balances.
               (let x = \<lparr>je_journals = js, je_balances = balances\<rparr> in
                if JournalExpectedStateSchema x
                then Done \<lparr>eo_records = concat (map posted_records out), eo_expected = expectation_json x\<rparr>
                else Throw ZodError)))))))"

section \<open>Read-back\<close>

definition read_statement :: "(ledger, json) statement \<Rightarrow> nat \<Rightarrow> ledger \<Rightarrow> exn + json" where
  "read_statement q t d = map_sum id fst (q t d)"

primrec reading ::
  "((ledger, json) statement, 'a) script \<Rightarrow> (nat \<Rightarrow> ledger \<Rightarrow> exn + json, 'a) script" where
  "reading (Done x) = Done x"
| "reading (Throw e) = Throw e"
| "reading (Query q g k) = Query (read_statement q) g (\<lambda>j. reading (k j))"

definition readPostedJournal ::
  "string \<Rightarrow> string \<Rightarrow> ((ledger, json) statement, post_journal option) script" where
  "readPostedJournal hh j =
    (if \<not> (opaqueIdentifierSchema Id_household hh \<and> opaqueIdentifierSchema Id_journal j) then Throw ZodError
     else script_bind (query (select_journal hh j)) (\<lambda>r.
       (case decode_post_journal r of
          None \<Rightarrow> Done None
        | Some header \<Rightarrow>
            script_bind (query (select_postings hh j)) (\<lambda>ps.
            Done (Some (header\<lparr>pj_proposal := (pj_proposal header)\<lparr>jp_body := (pj_body header)
              \<lparr>jn_postings := (case json_array decode_posting ps of None \<Rightarrow> [] | Some qs \<Rightarrow> qs)\<rparr>\<rparr>\<rparr>))))))"

text \<open>The names of the fields that differ.\<close>

definition differing :: "(string \<times> bool) list \<Rightarrow> string list" where
  "differing fs = map fst (filter (\<lambda>f. \<not> snd f) fs)"

definition header_fields :: "post_journal \<Rightarrow> post_journal \<Rightarrow> (string \<times> bool) list" where
  "header_fields actual wanted =
    (let a = pj_body actual; w = pj_body wanted; p = pj_proposal actual; q = pj_proposal wanted in
     [(''book_id'', jn_book a = jn_book w), (''period_id'', jp_period p = jp_period q),
      (''draft_id'', jn_draft a = jn_draft w), (''task_id'', jn_task a = jn_task w),
      (''checked_artifact_id'', pj_artifact actual = pj_artifact wanted),
      (''checked_artifact_hash'', pj_hash actual = pj_hash wanted),
      (''journal_type'', jn_type a = jn_type w), (''transaction_currency'', jn_currency a = jn_currency w),
      (''occurred_on'', jn_occurred a = jn_occurred w), (''effective_on'', jn_effective a = jn_effective w),
      (''settlement_on'', jn_settlement a = jn_settlement w), (''source_on'', jn_source a = jn_source w),
      (''description'', jn_description a = jn_description w),
      (''counterparty_id'', jn_counterparty a = jn_counterparty w),
      (''reverses_journal_id'', jp_reverses p = jp_reverses q),
      (''replaces_journal_id'', jp_replaces p = jp_replaces q),
      (''tag_ids'', jn_tags a = sorted_text (jn_tags w))])"

text \<open>\<open>compareDecimalStrings(...) !== 0\<close>; of parsed values it does not throw.\<close>

definition same_decimal :: "string \<Rightarrow> string \<Rightarrow> bool" where
  "same_decimal s t \<longleftrightarrow> compareDecimalStrings s t = Inr 0"

definition same_rate :: "string option \<Rightarrow> string option \<Rightarrow> bool" where
  "same_rate s t = (case (s, t) of (None, None) \<Rightarrow> True | (Some a, Some b) \<Rightarrow> same_decimal a b | _ \<Rightarrow> False)"

definition posting_mismatches :: "nat \<Rightarrow> posting_input \<Rightarrow> posting_input \<Rightarrow> string list" where
  "posting_mismatches index a w =
    (let prefix = ''postings['' @ decimal index @ ''].'' in
     map (\<lambda>f. prefix @ f) (differing
      [(''account_id'', pt_account a = pt_account w), (''direction'', pt_direction a = pt_direction w),
       (''account_native_currency'', pt_currency a = pt_currency w),
       (''exchange_rate_quote'', pt_quote a = pt_quote w), (''exchange_rate_date'', pt_rate_date a = pt_rate_date w),
       (''exchange_rate_source'', pt_rate_source a = pt_rate_source w), (''memo'', pt_memo a = pt_memo w),
       (''tag_ids'', pt_tags a = sorted_text (pt_tags w)),
       (''transaction_amount'', same_decimal (pt_amount a) (pt_amount w)),
       (''account_native_amount'', same_decimal (pt_native a) (pt_native w)),
       (''exchange_rate'', same_rate (pt_rate a) (pt_rate w))]))"

definition journal_mismatches :: "post_journal \<Rightarrow> post_journal \<Rightarrow> string list" where
  "journal_mismatches actual wanted =
    (let observed = jn_postings (pj_body actual); expected = jn_postings (pj_body wanted) in
     differing (header_fields actual wanted)
     @ (if length observed \<noteq> length expected then [''posting_count''] else [])
     @ concat (map (\<lambda>(n, a, w). posting_mismatches n a w) (enumerate 0 (zip observed expected))))"

definition verifyPostedJournal ::
  "post_journal \<Rightarrow> ((ledger, json) statement, string list) script" where
  "verifyPostedJournal wanted =
    (if \<not> PostJournalInputSchemaV1 wanted then Throw ZodError
     else script_bind (readPostedJournal (jn_household (pj_body wanted)) (jp_journal (pj_proposal wanted))) (\<lambda>r.
       Done (case r of None \<Rightarrow> [''journal_missing''] | Some actual \<Rightarrow> journal_mismatches actual wanted)))"

definition journal_named :: "post_journal \<Rightarrow> string list \<Rightarrow> string list" where
  "journal_named j ms = map (\<lambda>m. jp_journal (pj_proposal j) @ ''.'' @ m) ms"

definition flagged_check :: "check_kind \<Rightarrow> bool \<Rightarrow> string \<Rightarrow> readback_check" where
  "flagged_check k failed code =
    \<lparr>rc_kind = k, rc_status = (if failed then Check_failed else Check_passed),
     rc_detail = (if failed then Some code else None)\<rparr>"

definition artifact_mismatch :: "string \<Rightarrow> bool" where
  "artifact_mismatch m \<longleftrightarrow> ends_with ''.checked_artifact_id'' m \<or> ends_with ''.checked_artifact_hash'' m"

definition identifier_mismatch :: "string \<Rightarrow> bool" where
  "identifier_mismatch m \<longleftrightarrow> ends_with ''.journal_missing'' m \<or> ends_with ''.posting_id'' m"

definition journal_checks_output :: "nat \<Rightarrow> string list \<Rightarrow> readback_output" where
  "journal_checks_output n mismatches =
    \<lparr>ro_checks =
       [flagged_check Ck_identifiers (list_ex identifier_mismatch mismatches) ''journal_identifier_mismatch'',
        flagged_check Ck_row_values (list_ex (\<lambda>m. \<not> starts_with ''balance.'' m \<and> \<not> identifier_mismatch m
           \<and> \<not> artifact_mismatch m) mismatches) ''journal_row_mismatch'',
        flagged_check Ck_balances (list_ex (starts_with ''balance.'') mismatches) ''balance_mismatch'',
        \<lparr>rc_kind = Ck_source_links, rc_status = Check_not_applicable, rc_detail = None\<rparr>,
        flagged_check Ck_artifact_links (list_ex artifact_mismatch mismatches) ''artifact_link_mismatch''],
     ro_mismatches = mismatches,
     ro_observed = JObj [(''journalCount'', JNum (int n)), (''mismatches'', JArr (map JStr mismatches))]\<rparr>"

definition balance_mismatch :: "string \<Rightarrow> string \<Rightarrow> account_balance \<Rightarrow> ((ledger, json) statement, string list) script" where
  "balance_mismatch hh asOf wanted =
    script_bind (accountNativeBalance hh asOf (ab_account wanted)) (\<lambda>b.
    Done (if b = wanted then [] else [''balance.'' @ ab_account wanted]))"

definition journal_readback :: "mutation_receipt \<Rightarrow> ((ledger, json) statement, readback_output) script" where
  "journal_readback receipt =
    (case parse_expectation (mr_expected receipt) of
       None \<Rightarrow> Throw ZodError
     | Some x \<Rightarrow>
         let js = je_journals x in
         script_bind (each (\<lambda>j. script_bind (verifyPostedJournal j) (\<lambda>ms. Done (journal_named j ms))) js) (\<lambda>ms.
         script_bind (each (balance_mismatch (jn_household (pj_body (js ! 0))) (latest_effective js)) (je_balances x)) (\<lambda>bs.
         Done (journal_checks_output (length js) (concat ms @ concat bs)))))"

section \<open>The handler\<close>

definition createAccountingJournalMutationHandler :: "(string \<Rightarrow> nat \<Rightarrow> nat list) \<Rightarrow> ledger handler" where
  "createAccountingJournalMutationHandler rand =
    \<lparr>h_type = ''apply_accounting_journal_mutation'', h_role = Role_accounting,
     h_parse = AccountingWorkResultSchemaV1,
     h_schema = \<lparr>sch_name = ''accounting-journal-mutation-proposal'', sch_version = 1\<rparr>,
     h_confirmation = Confirm_optional,
     h_required = [Ck_identifiers, Ck_row_values, Ck_balances, Ck_artifact_links, Ck_idempotency_receipt],
     h_execute = journal_execute rand,
     h_readback = (\<lambda>input receipt. reading (journal_readback receipt))\<rparr>"

end
