(* ===== verification/ChartHandler.thy ===== *)
theory ChartHandler
  imports ChartRepository JournalHandler
begin

text \<open>
  The chart handler: packages/accounting/src/mutations/chart-handler.ts with the proposals of
  team/contracts.ts that it executes.
\<close>

section \<open>Proposals\<close>

datatype chart_proposal =
    Create_account account_fields
  | Update_account account_fields
  | Archive_account string string string
  | Create_source_mapping mapping_fields
  | Replace_source_mapping string mapping_fields

definition accountFields :: "account_fields \<Rightarrow> bool" where
  "accountFields f \<longleftrightarrow>
     opaqueIdentifierSchema Id_household (cf_household f) \<and> opaqueIdentifierSchema Id_book (cf_book f)
     \<and> opaqueIdentifierSchema Id_account (cf_account f) \<and> present (opaqueIdentifierSchema Id_account) (cf_parent f)
     \<and> text_between 1 4000 (cf_name f) \<and> present (text_between 1 2000) (cf_purpose f)
     \<and> CurrencyCodeSchema (cf_currency f) \<and> present (text_between 1 2000) (cf_label f)"

definition mappingFields :: "mapping_fields \<Rightarrow> bool" where
  "mappingFields f \<longleftrightarrow>
     opaqueIdentifierSchema Id_household (mf_household f) \<and> opaqueIdentifierSchema Id_book (mf_book f)
     \<and> opaqueIdentifierSchema Id_accountSourceMapping (mf_mapping f) \<and> opaqueIdentifierSchema Id_account (mf_account f)
     \<and> text_between 1 128 (mf_source f) \<and> text_between 1 512 (mf_external f)"

fun ChartOfAccountsProposalSchemaV1 :: "chart_proposal \<Rightarrow> bool" where
  "ChartOfAccountsProposalSchemaV1 (Create_account f) = accountFields f"
| "ChartOfAccountsProposalSchemaV1 (Update_account f) = accountFields f"
| "ChartOfAccountsProposalSchemaV1 (Archive_account hh b x) =
    (opaqueIdentifierSchema Id_household hh \<and> opaqueIdentifierSchema Id_book b \<and> opaqueIdentifierSchema Id_account x)"
| "ChartOfAccountsProposalSchemaV1 (Create_source_mapping f) = mappingFields f"
| "ChartOfAccountsProposalSchemaV1 (Replace_source_mapping x f) =
    (opaqueIdentifierSchema Id_accountSourceMapping x \<and> mappingFields f)"

definition chart_head :: "string \<Rightarrow> (string \<times> json) list" where
  "chart_head action =
    [(''schemaName'', JStr ''chart-of-accounts-proposal''), (''schemaVersion'', JNum 1), (''action'', JStr action)]"

definition account_pairs :: "account_fields \<Rightarrow> (string \<times> json) list" where
  "account_pairs f =
    [(''householdId'', JStr (cf_household f)), (''bookId'', JStr (cf_book f)), (''accountId'', JStr (cf_account f)),
     (''name'', JStr (cf_name f)), (''accountingClass'', JStr (class_name (cf_class f))),
     (''normalBalance'', JStr (direction_name (cf_normal f))), (''nativeCurrency'', JStr (cf_currency f))]
    @ opt_pair ''parentAccountId'' JStr (cf_parent f) @ opt_pair ''purpose'' JStr (cf_purpose f)
    @ opt_pair ''ownershipLabel'' JStr (cf_label f)"

definition mapping_pairs :: "mapping_fields \<Rightarrow> (string \<times> json) list" where
  "mapping_pairs f =
    [(''householdId'', JStr (mf_household f)), (''bookId'', JStr (mf_book f)), (''mappingId'', JStr (mf_mapping f)),
     (''accountId'', JStr (mf_account f)), (''sourceSystem'', JStr (mf_source f)),
     (''externalAccountId'', JStr (mf_external f)), (''metadata'', JObj (mf_metadata f))]"

fun chart_json :: "chart_proposal \<Rightarrow> json" where
  "chart_json (Create_account f) = JObj (chart_head ''create_account'' @ account_pairs f)"
| "chart_json (Update_account f) = JObj (chart_head ''update_account'' @ account_pairs f)"
| "chart_json (Archive_account hh b x) = JObj (chart_head ''archive_account'' @
     [(''householdId'', JStr hh), (''bookId'', JStr b), (''accountId'', JStr x)])"
| "chart_json (Create_source_mapping f) = JObj (chart_head ''create_source_mapping'' @ mapping_pairs f)"
| "chart_json (Replace_source_mapping x f) = JObj (chart_head ''replace_source_mapping'' @
     (''archivedMappingId'', JStr x) # mapping_pairs f)"

definition chart_keys :: "string list \<Rightarrow> string list" where
  "chart_keys ks = [''schemaName'', ''schemaVersion'', ''action''] @ ks"

definition account_keys :: "string list" where
  "account_keys = [''householdId'', ''bookId'', ''accountId'', ''name'', ''accountingClass'', ''normalBalance'',
     ''nativeCurrency'', ''parentAccountId'', ''purpose'', ''ownershipLabel'']"

definition mapping_keys :: "string list" where
  "mapping_keys = [''householdId'', ''bookId'', ''mappingId'', ''accountId'', ''sourceSystem'',
     ''externalAccountId'', ''metadata'']"

definition json_members :: "json \<Rightarrow> (string \<times> json) list option" where
  "json_members j = (case j of JObj kvs \<Rightarrow> Some kvs | _ \<Rightarrow> None)"

definition decode_account_fields :: "json \<Rightarrow> account_fields option" where
  "decode_account_fields j = do {
     check_that (strict_object (chart_keys account_keys) j);
     household \<leftarrow> need ''householdId'' json_string j;
     book \<leftarrow> need ''bookId'' json_string j;
     account \<leftarrow> need ''accountId'' json_string j;
     parent \<leftarrow> may ''parentAccountId'' json_string j;
     name \<leftarrow> need ''name'' json_string j;
     purpose \<leftarrow> may ''purpose'' json_string j;
     class \<leftarrow> need ''accountingClass'' class_of_json j;
     normal \<leftarrow> need ''normalBalance'' direction_of j;
     currency \<leftarrow> need ''nativeCurrency'' json_string j;
     label \<leftarrow> may ''ownershipLabel'' json_string j;
     Some \<lparr>cf_household = household, cf_book = book, cf_account = account, cf_parent = parent, cf_name = name,
       cf_purpose = purpose, cf_class = class, cf_normal = normal, cf_currency = currency, cf_label = label\<rparr> }"

definition decode_mapping_fields :: "json \<Rightarrow> mapping_fields option" where
  "decode_mapping_fields j = do {
     household \<leftarrow> need ''householdId'' json_string j;
     book \<leftarrow> need ''bookId'' json_string j;
     mapping \<leftarrow> need ''mappingId'' json_string j;
     account \<leftarrow> need ''accountId'' json_string j;
     source \<leftarrow> need ''sourceSystem'' json_string j;
     external \<leftarrow> need ''externalAccountId'' json_string j;
     metadata \<leftarrow> need ''metadata'' json_members j;
     Some \<lparr>mf_household = household, mf_book = book, mf_mapping = mapping, mf_account = account,
       mf_source = source, mf_external = external, mf_metadata = metadata\<rparr> }"

definition decode_chart :: "json \<Rightarrow> chart_proposal option" where
  "decode_chart j = do {
     literal ''schemaName'' (JStr ''chart-of-accounts-proposal'') j;
     literal ''schemaVersion'' (JNum 1) j;
     action \<leftarrow> need ''action'' json_string j;
     (if action = ''create_account'' then map_option Create_account (decode_account_fields j)
      else if action = ''update_account'' then map_option Update_account (decode_account_fields j)
      else if action = ''archive_account'' then do {
        check_that (strict_object (chart_keys [''householdId'', ''bookId'', ''accountId'']) j);
        household \<leftarrow> need ''householdId'' json_string j;
        book \<leftarrow> need ''bookId'' json_string j;
        account \<leftarrow> need ''accountId'' json_string j;
        Some (Archive_account household book account) }
      else if action = ''create_source_mapping'' then do {
        check_that (strict_object (chart_keys mapping_keys) j);
        map_option Create_source_mapping (decode_mapping_fields j) }
      else if action = ''replace_source_mapping'' then do {
        check_that (strict_object (chart_keys (''archivedMappingId'' # mapping_keys)) j);
        archived \<leftarrow> need ''archivedMappingId'' json_string j;
        map_option (Replace_source_mapping archived) (decode_mapping_fields j) }
      else None) }"

definition parse_chart :: "json \<Rightarrow> chart_proposal option" where
  "parse_chart j = do { p \<leftarrow> decode_chart j; check_that (ChartOfAccountsProposalSchemaV1 p); Some p }"

section \<open>Execution\<close>

fun chart_change :: "chart_proposal \<Rightarrow> unit ledger_script" where
  "chart_change (Create_account f) = createAccount f"
| "chart_change (Update_account f) = updateAccount f"
| "chart_change (Archive_account hh b x) = archiveAccount hh x"
| "chart_change (Create_source_mapping f) = createAccountSourceMapping f"
| "chart_change (Replace_source_mapping x f) =
    script_bind (archiveAccountSourceMapping (mf_household f) x) (\<lambda>_. createAccountSourceMapping f)"

definition account_record :: "string \<Rightarrow> committed_record" where
  "account_record x = \<lparr>cr_type = ''accounting.account'', cr_id = x\<rparr>"

definition mapping_record :: "string \<Rightarrow> committed_record" where
  "mapping_record x = \<lparr>cr_type = ''accounting.account_source_mapping'', cr_id = x\<rparr>"

fun chart_records :: "chart_proposal \<Rightarrow> committed_record list" where
  "chart_records (Create_account f) = [account_record (cf_account f)]"
| "chart_records (Update_account f) = [account_record (cf_account f)]"
| "chart_records (Archive_account hh b x) = [account_record x]"
| "chart_records (Create_source_mapping f) = [mapping_record (mf_mapping f)]"
| "chart_records (Replace_source_mapping x f) = [mapping_record x, mapping_record (mf_mapping f)]"

definition chart_execute :: "json \<Rightarrow> execution_context \<Rightarrow> execution_output ledger_script" where
  "chart_execute input ctx =
    (case parse_chart input of
       None \<Rightarrow> Throw ZodError
     | Some p \<Rightarrow>
         script_bind (chart_change p) (\<lambda>_.
         Done \<lparr>eo_records = chart_records p, eo_expected = chart_json p\<rparr>))"

section \<open>Read-back\<close>

definition nullable :: "string option \<Rightarrow> json" where
  "nullable v = (case v of None \<Rightarrow> JNull | Some s \<Rightarrow> JStr s)"

definition select_mapping_row :: "string \<Rightarrow> string \<Rightarrow> (ledger, json) statement" where
  "select_mapping_row hh x = select (\<lambda>d.
     (case find (\<lambda>m. household_in d hh \<and> ma_household m = hh \<and> ma_id m = x
         \<and> list_ex (\<lambda>a. ac_id a = ma_account m) (lg_accounts d)) (lg_mappings d) of
        None \<Rightarrow> JNull
      | Some m \<Rightarrow> JObj
         [(''mapping_id'', JStr (ma_id m)), (''account_id'', JStr (ma_account m)), (''source_system'', JStr (ma_source m)),
          (''external_account_id'', JStr (ma_external m)), (''metadata'', ma_metadata m), (''archived'', JBool (ma_archived m))]))"

definition account_row_pairs :: "account_row \<Rightarrow> (string \<times> json) list" where
  "account_row_pairs a =
    [(''account_id'', JStr (ac_id a)), (''name'', JStr (ac_name a)), (''purpose'', nullable (ac_purpose a)),
     (''accounting_class'', JStr (class_name (ac_class a))), (''normal_balance'', JStr (direction_name (ac_normal a))),
     (''native_currency'', JStr (ac_currency a)), (''ownership_label'', nullable (ac_label a)),
     (''parent_account_id'', nullable (ac_parent a)), (''archived'', JBool (ac_archived a))]"

definition select_account_row :: "string \<Rightarrow> string \<Rightarrow> (ledger, json) statement" where
  "select_account_row hh x = select (\<lambda>d.
     (case find (\<lambda>a. household_in d hh \<and> ac_household a = hh \<and> ac_id a = x) (lg_accounts d) of
        None \<Rightarrow> JNull | Some a \<Rightarrow> JObj (account_row_pairs a)))"

definition select_mapping_archived :: "string \<Rightarrow> string \<Rightarrow> (ledger, json) statement" where
  "select_mapping_archived hh x = select (\<lambda>d.
     (case find (\<lambda>m. household_in d hh \<and> ma_household m = hh \<and> ma_id m = x) (lg_mappings d) of
        None \<Rightarrow> JNull | Some m \<Rightarrow> JBool (ma_archived m)))"

text \<open>A field of the row differs from what is expected.\<close>

definition differs :: "json \<Rightarrow> (string \<times> json) \<Rightarrow> bool" where
  "differs row kv \<longleftrightarrow> json_field (fst kv) row \<noteq> Some (snd kv)"

definition mapping_differs :: "hashing \<Rightarrow> mapping_fields \<Rightarrow> json \<Rightarrow> bool" where
  "mapping_differs h f row \<longleftrightarrow>
     list_ex (differs row)
       [(''account_id'', JStr (mf_account f)), (''source_system'', JStr (mf_source f)),
        (''external_account_id'', JStr (mf_external f)), (''archived'', JBool False)]
     \<or> map_option (canonicalizeJson h) (json_field ''metadata'' row) \<noteq> Some (canonicalizeJson h (JObj (mf_metadata f)))"

definition account_differs :: "account_fields \<Rightarrow> json \<Rightarrow> bool" where
  "account_differs f row \<longleftrightarrow> list_ex (differs row) (account_row_pairs (account_row_of f False))"

definition chart_output :: "bool \<Rightarrow> mutation_receipt \<Rightarrow> json \<Rightarrow> bool \<Rightarrow> readback_output" where
  "chart_output mapping receipt row mismatch =
    (let missing = (row = JNull); rowMismatch = (\<not> missing \<and> mismatch);
         artifactOk = (mr_proposal receipt \<noteq> [] \<and> length (mr_proposal_hash receipt) = 64) in
     \<lparr>ro_checks =
        [flagged_check Ck_identifiers missing ''record_missing'',
         flagged_check Ck_row_values rowMismatch ''chart_row_mismatch'',
         \<lparr>rc_kind = Ck_balances, rc_status = Check_not_applicable, rc_detail = None\<rparr>,
         \<lparr>rc_kind = Ck_source_links, rc_status = (if mapping then Check_passed else Check_not_applicable), rc_detail = None\<rparr>,
         flagged_check Ck_artifact_links (\<not> artifactOk) ''receipt_artifact_missing''],
      ro_mismatches = (if missing then [''record_missing''] else []) @ (if rowMismatch then [''row_values''] else []),
      ro_observed = row\<rparr>)"

fun chart_compare :: "hashing \<Rightarrow> mutation_receipt \<Rightarrow> chart_proposal \<Rightarrow> readback_output ledger_script" where
  "chart_compare h receipt (Create_account f) =
    script_bind (query (select_account_row (cf_household f) (cf_account f))) (\<lambda>row.
    Done (chart_output False receipt row (account_differs f row)))"
| "chart_compare h receipt (Update_account f) =
    script_bind (query (select_account_row (cf_household f) (cf_account f))) (\<lambda>row.
    Done (chart_output False receipt row (account_differs f row)))"
| "chart_compare h receipt (Archive_account hh b x) =
    script_bind (query (select_account_row hh x)) (\<lambda>row.
    Done (chart_output False receipt row
      (list_ex (differs row) [(''account_id'', JStr x), (''archived'', JBool True)])))"
| "chart_compare h receipt (Create_source_mapping f) =
    script_bind (query (select_mapping_row (mf_household f) (mf_mapping f))) (\<lambda>row.
    Done (chart_output True receipt row (mapping_differs h f row)))"
| "chart_compare h receipt (Replace_source_mapping x f) =
    script_bind (query (select_mapping_row (mf_household f) (mf_mapping f))) (\<lambda>row.
    script_bind (query (select_mapping_archived (mf_household f) x)) (\<lambda>old.
    Done (chart_output True receipt row (mapping_differs h f row \<or> old \<noteq> JBool True))))"

definition chart_readback :: "hashing \<Rightarrow> mutation_receipt \<Rightarrow> readback_output ledger_script" where
  "chart_readback h receipt =
    (case parse_chart (mr_expected receipt) of
       None \<Rightarrow> Throw ZodError
     | Some p \<Rightarrow> chart_compare h receipt p)"

section \<open>The handler\<close>

definition createChartOfAccountsMutationHandler :: "hashing \<Rightarrow> ledger handler" where
  "createChartOfAccountsMutationHandler h =
    \<lparr>h_type = ''apply_chart_of_accounts_change'', h_role = Role_accounting,
     h_parse = (\<lambda>j. map_option chart_json (parse_chart j)),
     h_schema = \<lparr>sch_name = ''chart-of-accounts-proposal'', sch_version = 1\<rparr>,
     h_confirmation = Confirm_required,
     h_required = [Ck_identifiers, Ck_row_values, Ck_artifact_links, Ck_idempotency_receipt],
     h_execute = chart_execute,
     h_readback = (\<lambda>input receipt. reading (chart_readback h receipt))\<rparr>"

text \<open>The handlers that the engine registers (apps/engine/src/team-runtime.ts).\<close>

definition accounting_handlers :: "hashing \<Rightarrow> (string \<Rightarrow> nat \<Rightarrow> nat list) \<Rightarrow> ledger handler list" where
  "accounting_handlers h rand =
    [createAccountingJournalMutationHandler rand, createChartOfAccountsMutationHandler h]"

text \<open>
  The adapters that turn a checked result into a command (command-adapters.ts): the input is a command
  whose type is still open.
\<close>

definition typed_command :: "checked_command \<Rightarrow> string \<Rightarrow> json \<Rightarrow> exn + checked_command" where
  "typed_command input type payload =
    (let c = input\<lparr>cc_type := type, cc_payload := payload\<rparr>
     in if CheckedCommandSchemaV1 c then Inr c else Inl ZodError)"

definition accountingJournalCommand :: "checked_command \<Rightarrow> exn + checked_command" where
  "accountingJournalCommand input =
    (case AccountingWorkResultSchemaV1 (cc_payload input) of
       None \<Rightarrow> Inl ZodError
     | Some payload \<Rightarrow>
         if is_clarification payload
         then Inl (plusOne Validation_rejected ''accounting_clarification_not_executable'' Never False)
         else typed_command input ''apply_accounting_journal_mutation'' payload)"

definition chartOfAccountsCommand :: "checked_command \<Rightarrow> exn + checked_command" where
  "chartOfAccountsCommand input =
    (case parse_chart (cc_payload input) of
       None \<Rightarrow> Inl ZodError
     | Some p \<Rightarrow> typed_command input ''apply_chart_of_accounts_change'' (chart_json p))"

end
