(* ===== verification/Bookkeeping.thy ===== *)
theory Bookkeeping
  imports ChartFacts ChartHandler CheckedMutations
begin

text \<open>
  The ledger under the checked mutation executor: whatever commands are executed under whatever
  faults, the handlers that the engine registers keep the books.
\<close>

section \<open>Invariants of handlers\<close>

text \<open>
  A property that every registered handler keeps, and a relation that every run of one respects,
  hold of what the executor does to the domain.
\<close>

locale kept_by_handlers =
  fixes reg :: "'d registry" and I :: "'d \<Rightarrow> bool" and R :: "'d \<Rightarrow> 'd \<Rightarrow> bool"
  assumes kept: "reg ty = Some hn \<Longrightarrow> I d \<Longrightarrow> script_result (h_execute hn input ctx) d x d' \<Longrightarrow> I d' \<and> R d d'"
    and reflexive: "R d d"
    and transitive: "R d d' \<Longrightarrow> R d' d'' \<Longrightarrow> R d d''"
begin

lemma replayed_kept: "replayed le reg cs rs d d' \<Longrightarrow> I d \<Longrightarrow> I d' \<and> R d d'"
proof (induction rs arbitrary: d)
  case Nil
  then show ?case by (simp add: reflexive)
next
  case (Cons r rs)
  then obtain y where y: "executed_as le reg cs r d y" "replayed le reg cs rs y d'" by auto
  from y(1) Cons.prems(2) have "I y \<and> R d y" unfolding executed_as_def using kept by blast
  with Cons.IH [OF y(2)] show ?case using transitive by blast
qed

lemma executor_keeps:
  assumes "system_ok (wdb w)" and "txn w = None" and "I (domain (wdb w))"
  shows "I (domain (wdb (execute_all h p le reg cs w)))
    \<and> R (domain (wdb w)) (domain (wdb (execute_all h p le reg cs w)))"
  using execute_all_history [OF assms(1,2), of h p le reg cs] replayed_kept assms(3)
  by (auto simp: history_def)

end

section \<open>The handlers of the ledger\<close>

definition accounting_registry :: "hashing \<Rightarrow> (string \<Rightarrow> nat \<Rightarrow> nat list) \<Rightarrow> ledger registry" where
  "accounting_registry h rand =
    (case commandRegistry (accounting_handlers h rand) of Inl e \<Rightarrow> Map.empty | Inr reg \<Rightarrow> reg)"

lemma accounting_registry_handler:
  assumes "accounting_registry h rand ty = Some hn"
  shows "hn = createAccountingJournalMutationHandler rand \<or> hn = createChartOfAccountsMutationHandler h"
  using assms registry_handler [of "accounting_handlers h rand" _ ty hn]
  by (auto simp: accounting_registry_def accounting_handlers_def split: sum.splits)

text \<open>Rows are only appended, and to a posted journal nothing is.\<close>

definition appends :: "ledger \<Rightarrow> ledger \<Rightarrow> bool" where
  "appends d d' \<longleftrightarrow>
     (\<exists>js ps. lg_journals d' = lg_journals d @ js \<and> lg_postings d' = lg_postings d @ ps
        \<and> (\<forall>p \<in> set ps. po_journal p \<notin> jr_id ` set (lg_journals d)))"

lemma appends_refl: "appends d d"
  by (simp add: appends_def)

lemma appends_trans:
  assumes "appends d d'" and "appends d' d''"
  shows "appends d d''"
proof -
  obtain js ps where a: "lg_journals d' = lg_journals d @ js" "lg_postings d' = lg_postings d @ ps"
    "\<forall>p \<in> set ps. po_journal p \<notin> jr_id ` set (lg_journals d)"
    using assms(1) by (auto simp: appends_def)
  obtain ks qs where b: "lg_journals d'' = lg_journals d' @ ks" "lg_postings d'' = lg_postings d' @ qs"
    "\<forall>p \<in> set qs. po_journal p \<notin> jr_id ` set (lg_journals d')"
    using assms(2) by (auto simp: appends_def)
  have "\<forall>p \<in> set (ps @ qs). po_journal p \<notin> jr_id ` set (lg_journals d)"
    using a b(3) by auto
  then show ?thesis using a(1,2) b(1,2) unfolding appends_def by (intro exI [of _ "js @ ks"] exI [of _ "ps @ qs"]) simp
qed

lemma posted_appends:
  assumes "posted rand projection i rows d d'" and "refs_ok d"
  shows "appends d d'"
  unfolding appends_def
  using posted_table [OF assms] posted_rows [OF assms] posted_new_journal [OF assms]
  by (intro exI [of _ "[journal_row_of i]"] exI [of _ rows]) auto

section \<open>The journal handler\<close>

text \<open>An invariant of posting and drafting is one of the handler's execution.\<close>

lemma yields_accountNativeBalance:
  assumes "\<And>b. (\<exists>a. account_in d hh aid = Some a \<and> b = \<lparr>ab_account = aid, ab_currency = ac_currency a,
      ab_amount = (if counted d a asOf = [] then ''0'' else format_decimal (delta a (counted d a asOf)) 12)\<rparr>) \<Longrightarrow> Q b d"
  shows "yields (accountNativeBalance hh asOf aid) Q d"
  unfolding accountNativeBalance_def select_balance_def
  by (auto intro!: yields_throw yields_bind yields_select yields_done assms
      simp: balance_answer_def need_def json_field_def split: option.splits)

lemma yields_each_keeps:
  assumes "P d" and "\<And>x d. x \<in> set xs \<Longrightarrow> P d \<Longrightarrow> yields (f x) (\<lambda>_. P) d"
  shows "yields (each f xs) (\<lambda>_. P) d"
  by (rule yields_each [where I = "\<lambda>_ _. P"]) (use assms in auto)

lemma journal_execute_keeps:
  assumes start: "P d"
    and draft: "\<And>i ls d d'. P d \<Longrightarrow> drafted i ls d d' \<Longrightarrow> P d'"
    and post: "\<And>i rows d d'. P d \<Longrightarrow> posted rand True i rows d d' \<Longrightarrow> P d'"
    and pending: "\<And>d. P d \<Longrightarrow> lg_pending d = []"
  shows "yields (journal_execute rand input ctx) (\<lambda>_. P) d"
proof -
  have posting: "yields (postInTransaction rand True i) (\<lambda>_. P) d" if "P d" for i d
    by (rule yields_mono [OF post_yields [OF pending [OF that]]]) (use post [OF that] in blast)
  have drafting: "yields (insertVersion i) (\<lambda>_. P) d" if "P d" for i d
    by (rule yields_mono [OF insertVersion_yields]) (use draft [OF that] in blast)
  have correcting: "yields (reverseAndReplaceInTransaction rand True original r s) (\<lambda>_. P) d" if "P d" for original r s d
    unfolding reverseAndReplaceInTransaction_def select_original_def
    by (auto intro!: yields_throw yields_bind yields_asserted yields_select yields_demand yields_done that
        yields_mono [OF posting])
  have mutation: "yields (post_mutation rand m js) (\<lambda>_. P) d" if "P d" for m js d
    by (cases m) (auto intro!: yields_bind yields_done yields_mono [OF posting [OF that]] yields_mono [OF correcting [OF that]])
  have drafts: "yields (each insertVersion is) (\<lambda>_. P) d" for "is"
    by (rule yields_each_keeps [where P = P]) (use start drafting in auto)
  have balances: "yields (each (accountNativeBalance hh asOf) xs) (\<lambda>_. P) d" if "P d" for hh asOf xs d
    by (rule yields_each_keeps [where P = P]) (use that in \<open>auto intro: yields_accountNativeBalance\<close>)
  show ?thesis
    unfolding journal_execute_def Let_def
    by (auto intro!: yields_throw yields_bind yields_done yields_mono [OF drafts]
        yields_mono [OF mutation] yields_mono [OF balances] split: option.split sum.split)
qed

lemma chart_execute_keeps:
  assumes "repository_statements P" and "P d"
  shows "yields (chart_execute input ctx) (\<lambda>_. P) d"
proof -
  note repo = repository_keeps [OF assms(1)]
  have "yields (chart_change p) (\<lambda>_. P) d" for p
  proof (cases p)
    case (Replace_source_mapping x f)
    then show ?thesis by (simp add: yields_bind yields_mono [OF repo(5) [OF assms(2)]] repo(4))
  qed (simp_all add: repo assms(2))
  then show ?thesis
    unfolding chart_execute_def
    by (cases "parse_chart input") (auto intro!: yields_throw yields_bind yields_done intro: yields_mono [where P = "\<lambda>_. P"])
qed

lemma accounting_execute_keeps:
  assumes "accounting_registry h rand ty = Some hn" and "repository_statements P" and "P d"
    and "\<And>i ls d d'. P d \<Longrightarrow> drafted i ls d d' \<Longrightarrow> P d'"
    and "\<And>i rows d d'. P d \<Longrightarrow> posted rand True i rows d d' \<Longrightarrow> P d'"
    and "\<And>d. P d \<Longrightarrow> lg_pending d = []"
    and "script_result (h_execute hn input ctx) d x d'"
  shows "P d'"
  using accounting_registry_handler [OF assms(1)] assms(7)
    yieldsD [OF journal_execute_keeps [where P = P, OF assms(3-6)]] yieldsD [OF chart_execute_keeps [OF assms(2,3)]]
  by (auto simp: createAccountingJournalMutationHandler_def createChartOfAccountsMutationHandler_def)

lemma appends_repository: "repository_statements (\<lambda>d. books_ok d \<and> appends d0 d)"
proof -
  have books: "statement_keeps books_ok q \<Longrightarrow> (\<And>js ps. statement_keeps (\<lambda>d. lg_journals d = js \<and> lg_postings d = ps) q)
      \<Longrightarrow> statement_keeps (\<lambda>d. books_ok d \<and> appends d0 d) q" for q
    by (fastforce simp: statement_keeps_def appends_def)
  show ?thesis
    using repository_books repository_journals unfolding repository_statements_def by (auto intro!: books)
qed

lemma drafted_appends: "drafted i ls d d' \<Longrightarrow> appends d d'"
  by (simp add: drafted_def Let_def appends_def)

interpretation books: kept_by_handlers "accounting_registry h rand" books_ok appends for h rand
proof
  fix ty hn input ctx x d d'
  assume hn: "accounting_registry h rand ty = Some hn" and ok: "books_ok d"
    and run: "script_result (h_execute hn input ctx) d x d'"
  let ?P = "\<lambda>d'. books_ok d' \<and> appends d d'"
  show "?P d'"
  proof (rule accounting_execute_keeps [where P = ?P, OF hn appends_repository _ _ _ _ run])
    show "?P d" using ok by (simp add: appends_refl)
    show "?P d2" if "?P d1" "drafted i ls d1 d2" for i ls d1 d2
      using that by (blast intro: drafted_books_ok drafted_appends appends_trans)
    show "?P d2" if "?P d1" "posted rand True i rows d1 d2" for i rows d1 d2
    proof -
      have "refs_ok d1" using that(1) by (simp add: books_ok_def)
      with that show ?thesis using posted_books_ok posted_appends appends_trans by metis
    qed
    show "lg_pending d1 = []" if "?P d1" for d1 using that by (simp add: books_ok_def)
  qed
qed (auto intro: appends_refl appends_trans)

section \<open>Typed rows\<close>

lemma crockford_nibble: "n < 16 \<Longrightarrow> crockford (CROCKFORD ! n)"
proof -
  have "list_all crockford (take 16 CROCKFORD)" "length CROCKFORD = 32" by code_simp+
  moreover assume "n < 16"
  ultimately show ?thesis by (simp add: list_all_length)
qed

text \<open>Whatever the random bytes, a posting gets an identifier that its schema accepts.\<close>

lemma newPostingId_ok: "opaqueIdentifierSchema Id_posting (newPostingId bytes)"
proof -
  have "nibble bytes i < 16" for i by (simp add: nibble_def Let_def)
  then have "list_all crockford (ulidLike26 bytes)"
    by (simp add: ulidLike26_def list_all_iff crockford_nibble)
  moreover have "length (ulidLike26 bytes) = 26" by (simp add: ulidLike26_def)
  ultimately show ?thesis by (simp add: opaqueIdentifierSchema_def newPostingId_def identifier_max_suffix_def)
qed

definition typed_entry :: "entry \<Rightarrow> bool" where
  "typed_entry e \<longleftrightarrow>
     opaqueIdentifierSchema Id_account (en_account e) \<and> 0 < en_amount e \<and> in_range (en_amount e)
     \<and> 0 < en_native e \<and> in_range (en_native e) \<and> CurrencyCodeSchema (en_currency e)
     \<and> present in_range (en_rate e) \<and> present LocalDateSchema (en_rate_date e)
     \<and> (en_rate e \<noteq> None) = (en_quote e \<noteq> None) \<and> (en_rate e \<noteq> None) = (en_rate_date e \<noteq> None)"

definition typed_posting :: "posting_row \<Rightarrow> bool" where
  "typed_posting p \<longleftrightarrow>
     opaqueIdentifierSchema Id_posting (po_id p) \<and> opaqueIdentifierSchema Id_household (po_household p)
     \<and> opaqueIdentifierSchema Id_journal (po_journal p) \<and> 0 < po_ordinal p \<and> typed_entry (po_entry p)"

definition typed_journal :: "journal_row \<Rightarrow> bool" where
  "typed_journal j \<longleftrightarrow>
     (let m = jr_meta j in
      opaqueIdentifierSchema Id_journal (jr_id j) \<and> opaqueIdentifierSchema Id_period (jr_period j)
      \<and> opaqueIdentifierSchema Id_journalDraft (jr_draft j) \<and> opaqueIdentifierSchema Id_household (mt_household m)
      \<and> opaqueIdentifierSchema Id_artifact (mt_artifact m) \<and> sha256_hex (mt_hash m)
      \<and> CurrencyCodeSchema (mt_currency m) \<and> LocalDateSchema (mt_occurred m) \<and> LocalDateSchema (mt_effective m)
      \<and> (mt_type m = Jt_reversal) = (jr_reverses j \<noteq> None)
      \<and> (mt_type m = Jt_replacement) = (jr_replaces j \<noteq> None))"

definition typed_rows :: "ledger \<Rightarrow> bool" where
  "typed_rows d \<longleftrightarrow> list_all typed_journal (lg_journals d) \<and> list_all typed_posting (lg_postings d)"

lemma numeric_in_range: "numeric_in n s = Inr v \<Longrightarrow> in_range v"
  by (auto simp: numeric_in_def split: option.splits if_splits)

lemma numeric_maybe_range: "numeric_maybe n s = Inr v \<Longrightarrow> present in_range v \<and> (v \<noteq> None) = (s \<noteq> None)"
  by (auto simp: numeric_maybe_def present_def map_sum_def split: option.splits sum.splits dest: numeric_in_range)

lemma entry_of_typed:
  assumes "entry_of p = Inr e" and "journal_posting_schema p" and "0 < en_amount e" and "0 < en_native e"
  shows "typed_entry e"
proof -
  obtain rate where parts: "numeric_in 12 (pt_amount p) = Inr (en_amount e)"
    "numeric_in 12 (pt_native p) = Inr (en_native e)" "numeric_maybe 18 (pt_rate p) = Inr rate"
    and e: "en_rate e = rate" "en_account e = pt_account p" "en_currency e = pt_currency p"
      "en_rate_date e = pt_rate_date p" "en_quote e = pt_quote p"
    using assms(1) by (auto simp: entry_of_def split: sum.splits)
  show ?thesis
    using assms(2-4) e numeric_in_range [OF parts(1)] numeric_in_range [OF parts(2)] numeric_maybe_range [OF parts(3)]
    by (auto simp: typed_entry_def journal_posting_schema_def posting_fields_def rate_fields_agree_def)
qed

lemma posted_typed:
  assumes posted: "posted rand projection i rows d d'" and typed: "typed_rows d"
  shows "typed_rows d'"
proof -
  let ?p = "pj_proposal i" and ?b = "pj_body i"
  have schema: "PostJournalInputSchemaV1 i" using posted by (simp add: posted_def)
  have "correction_shape (journal_row_of i)"
    using posted by (simp add: posted_def journal_violations_def Let_def)
  then have "typed_journal (journal_row_of i)"
    using schema
    by (cases "jn_type ?b")
      (simp_all add: typed_journal_def journal_row_of_def meta_of_def PostJournalInputSchemaV1_def proposal_fields_def
        journal_body_schema_def correction_shape_def Let_def)
  moreover have "typed_posting r" if new: "r \<in> set rows" for r
  proof -
    obtain n where n: "n < length rows" "r = rows ! n" using new by (metis in_set_conv_nth)
    have rows: "list_all2 (posting_row_for (rand (jp_journal ?p)) (jn_household ?b) (jp_journal ?p))
        (enumerate 0 (jn_postings ?b)) rows"
      using posted by (simp add: posted_def)
    have len: "length rows = length (jn_postings ?b)" using list_all2_lengthD [OF rows] by simp
    have r: "po_id r = newPostingId (rand (jp_journal ?p) n)" "po_household r = jn_household ?b"
      "po_journal r = jp_journal ?p" "po_ordinal r = n + 1" "entry_of (jn_postings ?b ! n) = Inr (po_entry r)"
      "0 < en_amount (po_entry r)" "0 < en_native (po_entry r)"
      using list_all2_nthD2 [OF rows n(1)] n len by (simp_all add: posting_row_for_def nth_enumerate_eq)
    have "journal_posting_schema (jn_postings ?b ! n)"
      using schema n(1) len by (simp add: PostJournalInputSchemaV1_def list_all_length)
    from entry_of_typed [OF r(5) this r(6,7)] show ?thesis
      using schema by (simp add: typed_posting_def r(1-4) newPostingId_ok PostJournalInputSchemaV1_def
          proposal_fields_def journal_body_schema_def)
  qed
  ultimately show ?thesis
    using typed posted by (auto simp: typed_rows_def posted_def list_all_iff)
qed

section \<open>A household\<close>

text \<open>A household with two accounts, an open month and an accepted proposal to post an expense.\<close>

definition crockford_id :: "string \<Rightarrow> string" where
  "crockford_id c = replicate 25 (CHR ''0'') @ c"

definition expense_posting :: "string \<Rightarrow> posting_direction \<Rightarrow> posting_input" where
  "expense_posting account direction =
    \<lparr>pt_account = account, pt_direction = direction, pt_amount = ''12.50'', pt_native = ''12.5'',
     pt_currency = ''EUR'', pt_rate = None, pt_quote = None, pt_rate_date = None, pt_rate_source = None,
     pt_memo = None, pt_tags = [], pt_id = None\<rparr>"

definition cash_account :: account_row where
  "cash_account =
    \<lparr>ac_id = ''account_'' @ crockford_id ''1'', ac_household = sample_hh, ac_book = ''book_'' @ crockford_id ''1'',
     ac_parent = None, ac_name = ''Cash'', ac_purpose = None, ac_class = Cl_asset, ac_normal = Debit,
     ac_currency = ''EUR'', ac_label = None, ac_archived = False\<rparr>"

definition food_account :: account_row where
  "food_account = cash_account
    \<lparr>ac_id := ''account_'' @ crockford_id ''2'', ac_name := ''Food'', ac_class := Cl_expense\<rparr>"

definition sample_ledger :: ledger where
  "sample_ledger =
    \<lparr>lg_households = [(sample_hh, ''EUR'')], lg_currencies = [\<lparr>cu_code = ''EUR'', cu_scale = 2, cu_active = True\<rparr>],
     lg_books = [(ac_book cash_account, sample_hh)], lg_configurations = [],
     lg_accounts = [cash_account, food_account], lg_mappings = [],
     lg_periods = [\<lparr>pe_id = ''period_'' @ crockford_id ''1'', pe_household = sample_hh, pe_book = ac_book cash_account,
        pe_start = ''2025-03-01'', pe_end = ''2025-03-31'', pe_open = True\<rparr>],
     lg_counterparties = [], lg_tags = [],
     lg_artifacts = [\<lparr>av_household = sample_hh, av_task = sample_task_id, av_id = maker_id,
        av_hash = replicate 64 (CHR ''b''), av_accepted = True\<rparr>],
     lg_drafts = [], lg_lines = [], lg_journals = [], lg_postings = [], lg_journal_tags = [], lg_posting_tags = [],
     lg_balances = [], lg_pending = []\<rparr>"

definition expense_proposal :: journal_proposal where
  "expense_proposal =
    \<lparr>jp_body =
       \<lparr>jn_household = sample_hh, jn_book = ac_book cash_account, jn_draft = ''draft_'' @ crockford_id ''1'',
        jn_task = sample_task_id, jn_type = Jt_ordinary, jn_currency = ''EUR'', jn_occurred = ''2025-03-14'',
        jn_effective = ''2025-03-14'', jn_settlement = None, jn_source = None, jn_description = ''Lunch'',
        jn_counterparty = None, jn_tags = [],
        jn_postings = [expense_posting (ac_id food_account) Debit, expense_posting (ac_id cash_account) Credit]\<rparr>,
     jp_journal = ''journal_'' @ crockford_id ''1'', jp_period = ''period_'' @ crockford_id ''1'',
     jp_reverses = None, jp_replaces = None\<rparr>"

definition expense_mutation :: journal_mutation where
  "expense_mutation = Post_mutation
    \<lparr>cd_series = ''draftseries_'' @ crockford_id ''1'', cd_version = 1, cd_previous = None, cd_journal = expense_proposal\<rparr>"

text \<open>Bytes that differ from posting to posting.\<close>

definition sample_bytes :: "string \<Rightarrow> nat \<Rightarrow> nat list" where
  "sample_bytes j n = replicate 20 n"

definition expense_context :: execution_context where
  "expense_context = \<lparr>ec_ctx_household = sample_hh, ec_ctx_task = sample_task_id,
     ec_ctx_command = ''command_'' @ crockford_id ''1'', ec_ctx_proposal = maker_id,
     ec_ctx_proposal_hash = replicate 64 (CHR ''b''), ec_ctx_idem = ''idem_'' @ crockford_id ''1''\<rparr>"

text \<open>A checker has accepted the proposal, and its command asks for it.\<close>

definition journal_schema :: schema_identity where
  "journal_schema = \<lparr>sch_name = ''accounting-journal-mutation-proposal'', sch_version = 1\<rparr>"

definition journal_maker :: artifact where
  "journal_maker = entry_maker\<lparr>ar_payload := JObj
     [(''schemaName'', JStr ''maker-artifact''), (''schemaVersion'', JNum 1),
      (''outputSchema'', JObj [(''schemaName'', JStr (sch_name journal_schema)), (''schemaVersion'', JNum 1)]),
      (''output'', mutation_json expense_mutation), (''claims'', JArr []), (''assumptions'', JArr []),
      (''uncertainty'', JArr [])]\<rparr>"

definition accounting_db :: "ledger opsdb" where
  "accounting_db = (empty_db sample_ledger)
    \<lparr>tasks := [(new_task_row sample_create 0)\<lparr>t_status := Checker_validated, t_maker := Some maker_id,
        t_maker_hash := Some (replicate 64 (CHR ''b'')), t_checker := Some checker_id\<rparr>],
     artifacts := [\<lparr>af_artifact = journal_maker, af_canonical = ''b''\<rparr>,
        \<lparr>af_artifact = entry_checker, af_canonical = ''b''\<rparr>],
     verdicts := [\<lparr>vd_household = sample_hh, vd_task = sample_task_id, vd_checker = checker_id,
        vd_covered = maker_id, vd_hash = replicate 64 (CHR ''b''), vd_verdict = V_accepted\<rparr>]\<rparr>"

definition journal_command :: checked_command where
  "journal_command = entry_command\<lparr>cc_type := ''apply_accounting_journal_mutation'', cc_schema := journal_schema,
     cc_payload := mutation_json expense_mutation\<rparr>"

lemma accounting_db_ok: "system_ok accounting_db"
  by code_simp

lemma accounting_db_domain [simp]: "domain accounting_db = sample_ledger"
  by (simp add: accounting_db_def empty_db_def)

lemma sample_books_ok: "books_ok sample_ledger"
  by (simp add: books_ok_def refs_ok_def sample_ledger_def balances_agree_def native_balance_def delta_def
      unique_on_def food_account_def cash_account_def crockford_id_def)

text \<open>The expense can be posted.\<close>

definition expense_posted :: ledger where
  "expense_posted =
    (case play (journal_execute sample_bytes (mutation_json expense_mutation) expense_context) 0 sample_ledger of
       Inl e \<Rightarrow> sample_ledger | Inr (out, d) \<Rightarrow> d)"

lemma expense_run:
  "\<exists>out. script_result (journal_execute sample_bytes (mutation_json expense_mutation) expense_context)
     sample_ledger out expense_posted"
  "map (\<lambda>j. mt_effective (jr_meta j)) (lg_journals expense_posted) = [''2025-03-14''] \<and> map ba_native (lg_balances expense_posted) = [-12500000000000, 12500000000000]"
proof -
  have "case play (journal_execute sample_bytes (mutation_json expense_mutation) expense_context) 0 sample_ledger of
      Inl e \<Rightarrow> False | Inr (out, d) \<Rightarrow>
        map (\<lambda>j. mt_effective (jr_meta j)) (lg_journals d) = [''2025-03-14''] \<and> map ba_native (lg_balances d) = [-12500000000000, 12500000000000]"
    by code_simp
  then obtain out d where
    run: "play (journal_execute sample_bytes (mutation_json expense_mutation) expense_context) 0 sample_ledger = Inr (out, d)"
    and d: "map (\<lambda>j. mt_effective (jr_meta j)) (lg_journals d) = [''2025-03-14''] \<and> map ba_native (lg_balances d) = [-12500000000000, 12500000000000]"
    by (auto split: sum.splits prod.splits)
  have "expense_posted = d" by (simp add: expense_posted_def run)
  with play_result [OF run] d show
    "\<exists>out. script_result (journal_execute sample_bytes (mutation_json expense_mutation) expense_context)
       sample_ledger out expense_posted"
    "map (\<lambda>j. mt_effective (jr_meta j)) (lg_journals expense_posted) = [''2025-03-14''] \<and> map ba_native (lg_balances expense_posted) = [-12500000000000, 12500000000000]"
    by auto
qed

lemma expense_posted_ok: "books_ok expense_posted"
proof -
  have "accounting_registry ledger_hashing sample_bytes ''apply_accounting_journal_mutation'' =
      Some (createAccountingJournalMutationHandler sample_bytes)"
    by (simp add: accounting_registry_def accounting_handlers_def commandRegistry_def
        createAccountingJournalMutationHandler_def createChartOfAccountsMutationHandler_def)
  with expense_run(1) sample_books_ok show ?thesis
    by (auto dest!: books.kept [where h = ledger_hashing and rand = sample_bytes] simp: createAccountingJournalMutationHandler_def)
qed

lemma expense_accounts: "lg_accounts expense_posted = lg_accounts sample_ledger"
proof -
  have "yields (journal_execute sample_bytes (mutation_json expense_mutation) expense_context)
      (\<lambda>_ d. lg_accounts d = lg_accounts sample_ledger \<and> lg_pending d = []) sample_ledger"
    by (rule journal_execute_keeps [where P = "\<lambda>d. lg_accounts d = lg_accounts sample_ledger \<and> lg_pending d = []"])
      (auto simp: drafted_def posted_def Let_def sample_ledger_def)
  then show ?thesis using expense_run(1) by (auto dest: yieldsD)
qed

end
