(* ===== verification/LedgerReadback.thy ===== *)
theory LedgerReadback
  imports LedgerInvariant JournalHandler
begin

text \<open>
  Reading a posted journal back: what \<open>verifyPostedJournal\<close> finds in the tables that
  \<open>postInTransaction\<close> has left, and what becomes of amounts that the columns cannot hold exactly.
\<close>

section \<open>Amounts\<close>

text \<open>The column has a digit for every digit of the text.\<close>

definition fits_scale :: "nat \<Rightarrow> string \<Rightarrow> bool" where
  "fits_scale scale s \<longleftrightarrow> (case decimal_parts_of s of None \<Rightarrow> False | Some p \<Rightarrow> length (dp_fraction p) \<le> scale)"

definition posting_fits :: "posting_input \<Rightarrow> bool" where
  "posting_fits p \<longleftrightarrow> fits_scale 12 (pt_amount p) \<and> fits_scale 12 (pt_native p) \<and> present (fits_scale 18) (pt_rate p)"

lemma numeric_in_exact:
  assumes "numeric_in scale s = Inr v" and "fits_scale scale s"
  shows "same_decimal (format_decimal v scale) s"
proof -
  obtain p where p: "decimal_parts_of s = Some p" "length (dp_fraction p) \<le> scale"
    using assms(2) by (auto simp: fits_scale_def split: option.splits)
  then have v: "v = aligned_parts scale p"
    using assms(1) by (simp add: numeric_in_def numeric_units_def Let_def split: if_splits)
  have "of_int v = decimal_value s * 10 ^ scale" unfolding v by (rule aligned_value [OF p])
  then have "decimal_value (format_decimal v scale) = decimal_value s" by (simp add: format_decimal_value)
  moreover have "is_decimal s" using p by (simp add: is_decimal_def)
  ultimately show ?thesis by (simp add: same_decimal_def compare_is_exact format_decimal_value)
qed

lemma numeric_maybe_exact:
  assumes "numeric_maybe scale s = Inr v" and "present (fits_scale scale) s"
  shows "same_rate (map_option (\<lambda>r. format_decimal r scale) v) s"
  using assms by (cases s) (auto simp: numeric_maybe_def same_rate_def present_def map_sum_def numeric_in_exact
      split: sum.splits)

section \<open>Rows\<close>

lemma sort_by_sorted: "sorted_wrt le xs \<Longrightarrow> sort_by le xs = xs"
proof (induction xs)
  case (Cons x xs)
  then have "insert_by le x xs = x # xs" by (cases xs) auto
  with Cons show ?case by (simp add: sort_by_def)
qed (simp add: sort_by_def)

lemma rendered_matches:
  assumes "entry_of p = Inr (po_entry r)" and "posting_tags_of d (po_id r) = sorted_text (pt_tags p)" and "posting_fits p"
  shows "posting_mismatches n (rendered d r) p = []"
proof -
  obtain amount native rate where parts: "numeric_in 12 (pt_amount p) = Inr amount"
    "numeric_in 12 (pt_native p) = Inr native" "numeric_maybe 18 (pt_rate p) = Inr rate"
    and e: "po_entry r = \<lparr>en_account = pt_account p, en_direction = pt_direction p, en_amount = amount, en_native = native,
           en_currency = pt_currency p, en_rate = rate, en_quote = pt_quote p, en_rate_date = pt_rate_date p,
           en_rate_source = pt_rate_source p, en_memo = pt_memo p\<rparr>"
    using assms(1) by (auto simp: entry_of_def split: sum.splits)
  have fits: "fits_scale 12 (pt_amount p)" "fits_scale 12 (pt_native p)" "present (fits_scale 18) (pt_rate p)"
    using assms(3) by (simp_all add: posting_fits_def)
  show ?thesis
    using numeric_in_exact [OF parts(1) fits(1)] numeric_in_exact [OF parts(2) fits(2)]
      numeric_maybe_exact [OF parts(3) fits(3)] assms(2)
    by (simp add: posting_mismatches_def differing_def rendered_def e)
qed

lemma links_of_one:
  assumes "length ps = length rows" and "distinct (map po_id rows)" and "k < length rows"
  shows "filter (\<lambda>l. fst l = po_id (rows ! k)) (links_of ps rows) = tag_links (po_id (rows ! k)) (pt_tags (snd (ps ! k)))"
  using assms
proof (induction ps rows arbitrary: k rule: list_induct2)
  case (Cons p ps r rows)
  have links: "links_of (p # ps) (r # rows) = tag_links (po_id r) (pt_tags (snd p)) @ links_of ps rows"
    by (simp add: links_of_def)
  have own: "filter (\<lambda>l. fst l = x) (tag_links y ts) = (if x = y then tag_links y ts else [])" for x y ts
    by (auto simp: tag_links_def filter_empty_conv)
  show ?case
  proof (cases k)
    case 0
    have "filter (\<lambda>l. fst l = po_id r) (links_of ps rows) = []"
      using Cons.prems(1) links_of_ids by (fastforce simp: filter_empty_conv)
    then show ?thesis by (simp add: 0 links own)
  next
    case (Suc n)
    have "rows ! n \<in> set rows" using Cons.prems(2) Suc by simp
    then have "po_id (rows ! n) \<noteq> po_id r" using Cons.prems(1) by (metis distinct.simps(2) image_eqI list.simps(9) set_map)
    then show ?thesis using Cons by (simp add: Suc links own)
  qed
qed simp

section \<open>A journal reads back\<close>

lemma posted_list:
  assumes posted: "posted rand projection i rows d d'" and refs: "refs_ok d"
  shows "list_all2 (posting_row_for (rand (jp_journal (pj_proposal i))) (jn_household (pj_body i))
    (jp_journal (pj_proposal i))) (enumerate 0 (jn_postings (pj_body i))) rows"
  using posted by (simp add: posted_def)

lemma posted_length:
  assumes posted: "posted rand projection i rows d d'" and refs: "refs_ok d"
  shows "length rows = length (jn_postings (pj_body i))"
  using list_all2_lengthD [OF posted_list [OF posted refs]] by simp

lemma posted_nth:
  assumes posted: "posted rand projection i rows d d'" and refs: "refs_ok d" and k: "k < length rows"
  shows "entry_of (jn_postings (pj_body i) ! k) = Inr (po_entry (rows ! k))" "po_ordinal (rows ! k) = k + 1"
  using list_all2_nthD2 [OF posted_list [OF posted refs] k] k posted_length [OF posted refs]
  by (simp_all add: posting_row_for_def nth_enumerate_eq)

lemma posted_posting_tags:
  assumes posted: "posted rand projection i rows d d'" and refs: "refs_ok d" and k: "k < length rows"
  shows "posting_tags_of d' (po_id (rows ! k)) = sorted_text (pt_tags (jn_postings (pj_body i) ! k))"
proof -
  note posted_length = posted_length [OF posted refs]
  have fresh: "fresh_rows d rows" using posted by (simp add: posted_def)
  have "rows ! k \<in> set rows" using k by simp
  then have "po_id (rows ! k) \<notin> po_id ` set (lg_postings d)"
    using fresh unfolding fresh_rows_def by (metis disjoint_iff imageI)
  then have "filter (\<lambda>l. fst l = po_id (rows ! k)) (lg_posting_tags d) = []"
    using refs by (auto simp: refs_ok_def filter_empty_conv)
  moreover have "filter (\<lambda>l. fst l = po_id (rows ! k)) (links_of (enumerate 0 (jn_postings (pj_body i))) rows)
      = tag_links (po_id (rows ! k)) (pt_tags (jn_postings (pj_body i) ! k))"
    using links_of_one [of "enumerate 0 (jn_postings (pj_body i))" rows k] fresh k posted_length
    by (simp add: fresh_rows_def nth_enumerate_eq)
  ultimately show ?thesis
    by (simp add: posting_tags_of_def posted_table [OF posted refs] tag_links_def o_def)
qed

lemma posted_journal_tags:
  assumes posted: "posted rand projection i rows d d'" and refs: "refs_ok d"
  shows "journal_tags_of d' (jp_journal (pj_proposal i)) = sorted_text (jn_tags (pj_body i))"
proof -
  have "filter (\<lambda>l. fst l = jp_journal (pj_proposal i)) (lg_journal_tags d) = []"
    using refs posted_new_journal [OF posted refs] by (auto simp: refs_ok_def filter_empty_conv)
  then show ?thesis
    by (simp add: journal_tags_of_def posted_table [OF posted refs] tag_links_def o_def filter_map)
qed

lemma posted_sorted:
  assumes posted: "posted rand projection i rows d d'" and refs: "refs_ok d"
  shows "sort_by (\<lambda>p q. po_ordinal p \<le> po_ordinal q)
     (filter (\<lambda>p. po_household p = jn_household (pj_body i)) (postings_of d' (jp_journal (pj_proposal i)))) = rows"
proof -
  note posted_nth = posted_nth [OF posted refs]
  have "filter (\<lambda>p. po_household p = jn_household (pj_body i)) rows = rows"
    using posted_rows [OF posted refs] by simp
  moreover have "sorted_wrt (\<lambda>p q. po_ordinal p \<le> po_ordinal q) rows"
    by (simp add: sorted_wrt_iff_nth_less posted_nth)
  ultimately show ?thesis by (simp add: posted_entries_new [OF posted refs] sort_by_sorted)
qed

lemma posted_found:
  assumes posted: "posted rand projection i rows d d'" and refs: "refs_ok d"
  shows "journal_in d' (jn_household (pj_body i)) (jp_journal (pj_proposal i)) = Some (journal_row_of i)"
proof -
  have "find (\<lambda>r. mt_household (jr_meta r) = jn_household (pj_body i) \<and> jr_id r = jp_journal (pj_proposal i)) (lg_journals d) = None"
    using posted_new_journal [OF posted refs] by (force simp: find_None_iff)
  then show ?thesis by (simp add: journal_in_def posted_table [OF posted refs] find_append)
qed

lemma posted_reads_back:
  assumes posted: "posted rand projection i rows d d'" and refs: "refs_ok d" and fits: "list_all posting_fits (jn_postings (pj_body i))"
  shows "play (verifyPostedJournal i) t d' = Inr ([], d')"
proof -
  note posted_length = posted_length [OF posted refs]
    and posted_nth = posted_nth [OF posted refs]
    and posted_posting_tags = posted_posting_tags [OF posted refs]
    and posted_journal_tags = posted_journal_tags [OF posted refs]
    and posted_sorted = posted_sorted [OF posted refs]
    and posted_found = posted_found [OF posted refs]
  let ?hh = "jn_household (pj_body i)" and ?j = "jp_journal (pj_proposal i)"
  let ?header = "posted_header d' (journal_row_of i)"
  define actual where "actual = ?header\<lparr>pj_proposal := (pj_proposal ?header)
      \<lparr>jp_body := (pj_body ?header)\<lparr>jn_postings := map (rendered d') rows\<rparr>\<rparr>\<rparr>"
  have schema: "PostJournalInputSchemaV1 i" using posted by (simp add: posted_def)
  then have ids: "opaqueIdentifierSchema Id_household ?hh" "opaqueIdentifierSchema Id_journal ?j"
    by (simp_all add: PostJournalInputSchemaV1_def proposal_fields_def journal_body_schema_def)
  have "json_array decode_posting (JArr (map (\<lambda>p. posting_json (rendered d' p)) rows)) = Some (map (rendered d') rows)"
    using parse_postings [of "map (rendered d') rows"] by (simp add: json_array_def o_def)
  then have read: "play (readPostedJournal ?hh ?j) t d' = Inr (Some actual, d')"
    by (simp add: readPostedJournal_def ids play_bind play_query select_journal_def select_postings_def select_def
        posted_found posted_sorted actual_def)
  have "differing (header_fields actual i) = []"
    by (simp add: differing_def header_fields_def Let_def actual_def posted_header_def journal_row_of_def meta_of_def
        posted_journal_tags)
  moreover have "posting_mismatches n a w = []"
    if "(n, a, w) \<in> set (enumerate 0 (zip (map (rendered d') rows) (jn_postings (pj_body i))))" for n a w
  proof -
    from that obtain k where k: "k < length rows" "a = rendered d' (rows ! k)" "w = jn_postings (pj_body i) ! k"
      using posted_length by (auto simp: in_set_enumerate_eq)
    have "posting_fits (jn_postings (pj_body i) ! k)" using fits k(1) posted_length by (simp add: list_all_length)
    then show ?thesis
      unfolding k(2,3) by (rule rendered_matches [OF posted_nth(1) [OF k(1)] posted_posting_tags [OF k(1)]])
  qed
  moreover have "jn_postings (pj_body actual) = map (rendered d') rows" by (simp add: actual_def)
  ultimately have "journal_mismatches actual i = []"
    using posted_length by (auto simp: journal_mismatches_def Let_def)
  then show ?thesis by (simp add: verifyPostedJournal_def schema play_bind read)
qed

end
