(* ===== verification/Books.thy ===== *)
theory Books
  imports Bookkeeping LedgerReadback
begin

text \<open>
  What the books promise: the properties of the ledger and its handlers.
\<close>

section \<open>The books\<close>

text \<open>
  C3. Checked commands keep the books. Execute any sequence of checked commands with the accounting
  handlers, let any round trip of them fail, or succeed without an answer: every journal of the
  ledger reached has at least two postings, its debits equal its credits, it is entry by entry the
  draft of an artifact that a checker accepted, and every posting is in the currency and book of its
  account; the projection of the current balances is the sum of the postings; and of the journals and
  postings that were there before none has changed and none has got a new posting.
\<close>

theorem books_always_balance:
  assumes "system_ok (wdb w)" and "txn w = None" and "books_ok (domain (wdb w))"
    and d': "d' = domain (wdb (execute_all h p le (accounting_registry hs rand) cs w))"
  shows "list_all (\<lambda>j. sound_journal d' j) (lg_journals d') \<and> balances_agree d' \<and> lg_pending d' = []
    \<and> refs_ok d' \<and> appends (domain (wdb w)) d'"
  using books.executor_keeps [OF assms(1-3), of h p le hs rand cs] by (simp add: d' books_ok_def)

abbreviation (input) books_after :: "checked_command list \<Rightarrow> fault list \<Rightarrow> ledger" where
  "books_after cs fs \<equiv> domain (wdb (execute_all ledger_hashing eager_policy text_le
     (accounting_registry ledger_hashing sample_bytes) cs (sample_world accounting_db fs)))"

theorem books_always_balance_witness:
  "let d = books_after [journal_command, journal_command] lost_commit in
   list_all (\<lambda>j. sound_journal d j) (lg_journals d) \<and> appends sample_ledger d"
  using books_always_balance [OF _ _ _ refl, of "sample_world accounting_db lost_commit" ledger_hashing eager_policy
    text_le ledger_hashing sample_bytes "[journal_command, journal_command]"]
  by (simp add: accounting_db_ok sample_books_ok Let_def)

text \<open>
  C5. The two ways to read a balance agree. In books that are kept, an account's native balance as of
  any day on or after the last journal, which the code sums from the postings, is the amount that the
  projection of the current balances holds for it, in the currency of the account.
\<close>

theorem projection_is_the_ledger:
  assumes "books_ok d" and "account_in d hh aid = Some a"
    and "list_all (\<lambda>j. text_le (mt_effective (jr_meta j)) asOf) (lg_journals d)"
    and "script_result (accountNativeBalance hh asOf aid) d b d'"
  shows "ab_currency b = ac_currency a \<and> is_decimal (ab_amount b)
    \<and> decimal_value (ab_amount b) = of_int (native_balance (lg_balances d) a) / 10 ^ 12"
proof -
  let ?ps = "filter (\<lambda>p. po_household p = ac_household a \<and> en_account (po_entry p) = ac_id a) (lg_postings d)"
  have a: "a \<in> set (lg_accounts d)" "ac_household a = hh" "ac_id a = aid"
    using assms(2) by (auto simp: account_in_def dest: find_SomeD)
  have "list_ex (\<lambda>j. jr_id j = po_journal p \<and> text_le (mt_effective (jr_meta j)) asOf) (lg_journals d)"
    if "p \<in> set (lg_postings d)" for p
    using refs_posting [of d p] assms(1,3) that by (auto simp: books_ok_def list_all_iff list_ex_iff)
  then have counted: "counted d a asOf = ?ps" by (auto simp: counted_def intro: filter_cong)
  have "delta a ?ps = delta a (lg_postings d)" by (simp add: delta_def)
  also have "\<dots> = native_balance (lg_balances d) a" using assms(1) a(1) by (simp add: books_ok_def balances_agree_def)
  finally have delta: "delta a ?ps = native_balance (lg_balances d) a" .
  have "b = \<lparr>ab_account = aid, ab_currency = ac_currency a,
      ab_amount = (if ?ps = [] then ''0'' else format_decimal (delta a ?ps) 12)\<rparr>"
    by (rule yieldsD [OF yields_accountNativeBalance assms(4)]) (use assms(2) counted in auto)
  moreover have "is_decimal ''0''" "decimal_value ''0'' = 0"
    by (simp_all add: is_decimal_def decimal_value_def decimal_parts_of_def is_decimal_digit_def parts_value_def
        read_decimal_def digit_value_def)
  moreover have "native_balance (lg_balances d) a = 0" if "?ps = []"
    using delta by (simp add: that delta_def)
  ultimately show ?thesis
    by (simp add: format_decimal_value delta)
qed

lemma accountNativeBalance_reads: "script_result (accountNativeBalance hh asOf aid) d b d' \<Longrightarrow> d' = d"
  by (rule yieldsD [where Q = "\<lambda>_ d'. d' = d", OF yields_accountNativeBalance]) simp

theorem projection_is_the_ledger_witness:
  "\<exists>b. script_result (accountNativeBalance sample_hh ''2025-03-31'' (ac_id cash_account)) expense_posted b expense_posted
    \<and> ab_amount b = ''-12.500000000000''
    \<and> decimal_value (ab_amount b) = of_int (native_balance (lg_balances expense_posted) cash_account) / 10 ^ 12"
proof -
  have "case play (accountNativeBalance sample_hh ''2025-03-31'' (ac_id cash_account)) 0 expense_posted of
      Inl e \<Rightarrow> False | Inr (b, d) \<Rightarrow> ab_amount b = ''-12.500000000000''"
    by code_simp
  then obtain b d where
    run: "play (accountNativeBalance sample_hh ''2025-03-31'' (ac_id cash_account)) 0 expense_posted = Inr (b, d)"
    and b: "ab_amount b = ''-12.500000000000''"
    by (auto split: sum.splits prod.splits)
  have result: "script_result (accountNativeBalance sample_hh ''2025-03-31'' (ac_id cash_account)) expense_posted b expense_posted"
    using play_result [OF run] accountNativeBalance_reads [OF play_result [OF run]] by simp
  have "account_in expense_posted sample_hh (ac_id cash_account) = Some cash_account"
    by (simp add: account_in_def expense_accounts) (simp add: sample_ledger_def cash_account_def)
  moreover have "list_all (\<lambda>j. text_le j ''2025-03-31'') (map (\<lambda>j. mt_effective (jr_meta j)) (lg_journals expense_posted))"
    unfolding conjunct1 [OF expense_run(2)] by code_simp
  then have "list_all (\<lambda>j. text_le (mt_effective (jr_meta j)) ''2025-03-31'') (lg_journals expense_posted)"
    by (simp add: list_all_iff)
  ultimately show ?thesis
    using projection_is_the_ledger [OF expense_posted_ok _ _ result] result b by blast
qed

lemma one_draft_per_artifact:
  assumes "drafted i ls d d1" and "drafted k ks d1 d2"
    and "jn_household (di_body k) = jn_household (di_body i)" "di_artifact k = di_artifact i" "di_hash k = di_hash i"
  shows False
proof -
  have "draft_row_of i (sorted_text (remdups (jn_tags (di_body i)))) \<in> set (lg_drafts d1)"
    using assms(1) by (simp add: drafted_def Let_def)
  moreover have "\<not> list_ex (\<lambda>s. mt_household (dr_meta s) = jn_household (di_body k)
      \<and> mt_artifact (dr_meta s) = di_artifact k \<and> mt_hash (dr_meta s) = di_hash k) (lg_drafts d1)"
    using assms(2) by (simp add: drafted_def Let_def draft_violations_def draft_row_of_def meta_of_def)
  ultimately show False
    using assms(3-5) by (auto simp: list_ex_iff draft_row_of_def meta_of_def)
qed

lemma two_drafts_fail:
  assumes "jn_household (di_body k) = jn_household (di_body i)" "di_artifact k = di_artifact i" "di_hash k = di_hash i"
  shows "yields (each insertVersion [i, k]) Q d"
  unfolding each.simps
  by (intro yields_bind yields_mono [OF insertVersion_yields]; elim exE)
    (use one_draft_per_artifact [OF _ _ assms] in blast)

text \<open>
  C4. A correction is never carried out. Whatever the ledger holds, the execution of a
  \<open>reverse_replace\<close> proposal does not return: both of its drafts are bound to the one artifact that was
  checked, and the ledger admits one draft for an artifact.
\<close>

theorem correction_never_executes:
  assumes "json_field ''operation'' input = Some (JStr ''reverse_replace'')"
  shows "\<not> script_result (journal_execute rand input ctx) d out d'"
proof -
  have "yields (journal_execute rand input ctx) (\<lambda>_ _. False) d"
  proof (cases "parse_journal_mutation input")
    case None
    then show ?thesis by (simp add: journal_execute_def yields_throw)
  next
    case (Some m)
    then have "parse_correction_mutation input = Some m"
      using assms by (auto simp: parse_journal_mutation_def need_def json_string_def split: bind_splits option.splits)
    then obtain original r s where m: "m = Correction_mutation original r s"
      and agree: "correction_agrees original (cd_journal r) (cd_journal s)"
      by (auto simp: parse_correction_mutation_def split: bind_splits)
    show ?thesis
    proof (cases "bind_all [r, s] ctx")
      case (Inl e)
      then show ?thesis by (simp add: journal_execute_def Some m yields_throw)
    next
      case (Inr bound)
      then obtain j1 i1 j2 i2 where bound: "bound = [(j1, i1), (j2, i2)]"
          "bindDraft r ctx = Inr (j1, i1)" "bindDraft s ctx = Inr (j2, i2)"
        by (auto split: sum.splits)
      have "jn_household (di_body i2) = jn_household (di_body i1)" "di_artifact i2 = di_artifact i1" "di_hash i2 = di_hash i1"
        using bound(2,3) agree by (auto simp: bindDraft_def Let_def correction_agrees_def split: if_splits)
      from two_drafts_fail [OF this] show ?thesis
        unfolding journal_execute_def Some m option.case drafts_of.simps Inr sum.case bound(1) Let_def list.map fst_conv snd_conv
        by (rule yields_bind)
    qed
  qed
  then show ?thesis by (auto dest: yieldsD)
qed

definition sample_correction :: journal_mutation where
  "sample_correction =
    (let original = ''journal_'' @ crockford_id ''1'';
         body = jp_body expense_proposal;
         draft = (\<lambda>n p. \<lparr>cd_series = ''draftseries_'' @ crockford_id n, cd_version = 1, cd_previous = None, cd_journal = p\<rparr>)
     in Correction_mutation original
       (draft ''2'' \<lparr>jp_body = body\<lparr>jn_draft := ''draft_'' @ crockford_id ''2'', jn_type := Jt_reversal,
            jn_postings := map (\<lambda>p. p\<lparr>pt_direction := opposite (pt_direction p)\<rparr>) (jn_postings body)\<rparr>,
          jp_journal = ''journal_'' @ crockford_id ''2'', jp_period = jp_period expense_proposal,
          jp_reverses = Some original, jp_replaces = None\<rparr>)
       (draft ''3'' \<lparr>jp_body = body\<lparr>jn_draft := ''draft_'' @ crockford_id ''3'', jn_type := Jt_replacement\<rparr>,
          jp_journal = ''journal_'' @ crockford_id ''3'', jp_period = jp_period expense_proposal,
          jp_reverses = None, jp_replaces = Some original\<rparr>))"

text \<open>A well-formed correction of the expense.\<close>

theorem correction_never_executes_witness:
  "parse_journal_mutation (mutation_json sample_correction) = Some sample_correction
   \<and> (\<nexists>out d'. script_result (journal_execute sample_bytes (mutation_json sample_correction) expense_context)
         expense_posted out d')"
proof -
  have "json_field ''operation'' (mutation_json sample_correction) = Some (JStr ''reverse_replace'')"
    by (simp add: sample_correction_def Let_def mutation_head_def json_field_def)
  moreover have "parse_journal_mutation (mutation_json sample_correction) = Some sample_correction"
    by code_simp
  ultimately show ?thesis using correction_never_executes by blast
qed

section \<open>Types of the rows\<close>

lemma typed_repository: "repository_statements (\<lambda>d. books_ok d \<and> typed_rows d)"
proof -
  have both: "statement_keeps books_ok q \<Longrightarrow> (\<And>js ps. statement_keeps (\<lambda>d. lg_journals d = js \<and> lg_postings d = ps) q)
      \<Longrightarrow> statement_keeps (\<lambda>d. books_ok d \<and> typed_rows d) q" for q
    by (fastforce simp: statement_keeps_def typed_rows_def)
  show ?thesis
    using repository_books repository_journals unfolding repository_statements_def by (auto intro!: both)
qed

interpretation typed: kept_by_handlers "accounting_registry h rand" "\<lambda>d. books_ok d \<and> typed_rows d" "\<lambda>_ _. True" for h rand
proof
  fix ty hn input ctx x d d'
  assume hn: "accounting_registry h rand ty = Some hn" and ok: "books_ok d \<and> typed_rows d"
    and run: "script_result (h_execute hn input ctx) d x d'"
  let ?P = "\<lambda>d. books_ok d \<and> typed_rows d"
  have "?P d'"
  proof (rule accounting_execute_keeps [where P = ?P, OF hn typed_repository ok _ _ _ run])
    show "?P d2" if "?P d1" "drafted i ls d1 d2" for i ls d1 d2
      using that by (auto simp: typed_rows_def drafted_def Let_def intro: drafted_books_ok [unfolded drafted_def Let_def])
    show "?P d2" if "?P d1" "posted rand True i rows d1 d2" for i rows d1 d2
      using that posted_typed posted_books_ok by blast
    show "lg_pending d1 = []" if "?P d1" for d1 using that by (simp add: books_ok_def)
  qed
  then show "?P d' \<and> True" by simp
qed auto



section \<open>Reading back\<close>


definition expense_journal :: post_journal where
  "expense_journal = \<lparr>pj_proposal = expense_proposal, pj_artifact = maker_id, pj_hash = replicate 64 (CHR ''b'')\<rparr>"

definition expense_draft :: journal_draft_input where
  "expense_draft = \<lparr>di_body = jp_body expense_proposal, di_series = ''draftseries_'' @ crockford_id ''1'',
     di_version = 1, di_previous = None, di_artifact = maker_id, di_hash = replicate 64 (CHR ''b'')\<rparr>"


text \<open>An amount of more decimals is accepted by the schema, stored rounded and then reported as a mismatch.\<close>

lemma long_amounts_are_rounded:
  "PositiveAmountStringSchema ''0.0000000000014'' \<and> numeric_in 12 ''0.0000000000014'' = Inr 1
   \<and> \<not> same_decimal (format_decimal 1 12) ''0.0000000000014''"
  by code_simp

end
