(* ===== verification/WorkCells.thy ===== *)
theory WorkCells
  imports MutationExecutor
begin

text \<open>
  What a team of agents is made of: the roles, invocations and failures of contracts/src/invocations.ts,
  the work cells of runtime/src/teams/definitions.ts, the registries of skills, tools and execution
  strategies, the contexts of runtime/src/context/role-context-builder.ts, and the failures of
  runtime/src/execution/execution-failure.ts.

  The schemas that a work cell brings (of the maker's input and output), and its stop condition, are
  fields of the cell. Of a prompt the model keeps who may be prompted, about what, and with which tools;
  its wording is left out.
\<close>

section \<open>Contracts\<close>

record role_identity =
  ro_name :: string
  ro_version :: int

definition RoleIdentitySchemaV1 :: "role_identity \<Rightarrow> bool" where
  "RoleIdentitySchemaV1 r \<longleftrightarrow> kebab_name (ro_name r) \<and> 0 < ro_version r"

record stop_condition =
  so_code :: string
  so_description :: string

definition StopConditionSchemaV1 :: "stop_condition \<Rightarrow> bool" where
  "StopConditionSchemaV1 s \<longleftrightarrow> kebab_name (so_code s) \<and> text_between 1 2000 (so_description s)"

text \<open>\<open>z.string().min(1)\<close> for each of at most 32 labels.\<close>

definition policy_labels_ok :: "string list \<Rightarrow> bool" where
  "policy_labels_ok ls \<longleftrightarrow> length ls \<le> 32 \<and> list_all (\<lambda>l. l \<noteq> []) ls"

record maker_invocation =
  mi_household :: string
  mi_task :: string
  mi_team :: string
  mi_role :: role_identity
  mi_skill :: skill_identity
  mi_input_schema :: schema_identity
  mi_output_schema :: schema_identity
  mi_input :: json
  mi_evidence :: "artifact list"
  mi_labels :: "string list"
  mi_stop :: stop_condition

definition MakerInvocationSchemaV1 :: "maker_invocation \<Rightarrow> bool" where
  "MakerInvocationSchemaV1 i \<longleftrightarrow>
     opaqueIdentifierSchema Id_household (mi_household i) \<and> opaqueIdentifierSchema Id_task (mi_task i)
     \<and> kebab_name (mi_team i) \<and> RoleIdentitySchemaV1 (mi_role i) \<and> SkillIdentitySchemaV1 (mi_skill i)
     \<and> SchemaIdentitySchemaV1 (mi_input_schema i) \<and> SchemaIdentitySchemaV1 (mi_output_schema i)
     \<and> list_all ArtifactEnvelopeSchemaV1 (mi_evidence i) \<and> policy_labels_ok (mi_labels i)
     \<and> StopConditionSchemaV1 (mi_stop i)"

record checker_rubric =
  cb_name :: string
  cb_version :: int
  cb_instructions :: "string list"

definition CheckerRubricSchemaV1 :: "checker_rubric \<Rightarrow> bool" where
  "CheckerRubricSchemaV1 r \<longleftrightarrow> kebab_name (cb_name r) \<and> 0 < cb_version r
     \<and> cb_instructions r \<noteq> [] \<and> list_all (text_between 1 2000) (cb_instructions r)"

record verification_task =
  vt_household :: string
  vt_task :: string
  vt_role :: role_identity
  vt_artifact :: artifact
  vt_input :: json
  vt_evidence :: "artifact list"
  vt_skill :: skill_identity
  vt_rubric :: checker_rubric
  vt_labels :: "string list"

text \<open>The refinement: the artifact is of the task, and its claims cite permitted evidence only.\<close>

definition cites_permitted :: "artifact list \<Rightarrow> maker_artifact \<Rightarrow> bool" where
  "cites_permitted evidence m \<longleftrightarrow>
     list_all (\<lambda>c. list_all (\<lambda>e. e \<in> ar_id ` set evidence) (mk_evidence c)) (mk_claims m)"

definition VerificationTaskSchemaV1 :: "verification_task \<Rightarrow> bool" where
  "VerificationTaskSchemaV1 v \<longleftrightarrow>
     opaqueIdentifierSchema Id_household (vt_household v) \<and> opaqueIdentifierSchema Id_task (vt_task v)
     \<and> RoleIdentitySchemaV1 (vt_role v) \<and> ArtifactEnvelopeSchemaV1 (vt_artifact v)
     \<and> list_all ArtifactEnvelopeSchemaV1 (vt_evidence v) \<and> SkillIdentitySchemaV1 (vt_skill v)
     \<and> CheckerRubricSchemaV1 (vt_rubric v) \<and> policy_labels_ok (vt_labels v)
     \<and> ar_household (vt_artifact v) = vt_household v \<and> ar_task (vt_artifact v) = vt_task v
     \<and> (case MakerArtifactSchemaV1 (ar_payload (vt_artifact v)) of
          None \<Rightarrow> False | Some m \<Rightarrow> cites_permitted (vt_evidence v) m)"

section \<open>Failures\<close>

datatype failure_phase =
    Phase_lead_planning | Phase_maker_generation | Phase_maker_validation | Phase_checker_generation
  | Phase_checker_validation | Phase_checker_rejection | Phase_execution

text \<open>Issues are pairs of a path and a code; those of a schema failure are the library's, and left out.\<close>

record lead_failure =
  lf_phase :: failure_phase
  lf_role :: role_identity
  lf_category :: error_category
  lf_code :: string
  lf_retry :: retry_directive
  lf_issues :: "(string \<times> string) list"

definition failure_code_text :: "string \<Rightarrow> bool" where
  "failure_code_text s = (case s of [] \<Rightarrow> False
    | c # cs \<Rightarrow> is_lower c \<and> 1 \<le> length cs \<and> length cs \<le> 127
        \<and> list_all (\<lambda>d. is_lower d \<or> is_digit d \<or> d = CHR ''_'') cs)"

definition LeadExecutionFailureSchemaV1 :: "lead_failure \<Rightarrow> bool" where
  "LeadExecutionFailureSchemaV1 f \<longleftrightarrow>
     RoleIdentitySchemaV1 (lf_role f) \<and> failure_code_text (lf_code f) \<and> length (lf_issues f) \<le> 16
     \<and> list_all (\<lambda>(path, code). text_between 1 256 path \<and> failure_code_text code) (lf_issues f)"

definition parsed_failure :: "lead_failure \<Rightarrow> exn + lead_failure" where
  "parsed_failure f = (if LeadExecutionFailureSchemaV1 f then Inr f else Inl ZodError)"

definition to_lower :: "char \<Rightarrow> char" where
  "to_lower c = (if is_upper c then char_of ((of_char c :: nat) + 32) else c)"

definition code_letter :: "char \<Rightarrow> bool" where
  "code_letter c \<longleftrightarrow> is_lower c \<or> is_digit c \<or> c = CHR ''_''"

text \<open>\<open>replace(/[^a-z0-9_]+/g, '_')\<close>; the flag says that the last character has been replaced.\<close>

fun replace_runs :: "bool \<Rightarrow> string \<Rightarrow> string" where
  "replace_runs b [] = []"
| "replace_runs b (c # cs) =
    (if code_letter c then c # replace_runs False cs
     else if b then replace_runs True cs else CHR ''_'' # replace_runs True cs)"

definition strip_underscores :: "string \<Rightarrow> string" where
  "strip_underscores s =
    (let bar = (\<lambda>c. c = CHR ''_'') in rev (dropWhile bar (rev (dropWhile bar s))))"

text \<open>
  \<open>trim()\<close> needs no counterpart: leading and trailing white space becomes underscores, which are
  stripped.
\<close>

definition normalizeErrorCode :: "string \<Rightarrow> string" where
  "normalizeErrorCode value =
    (let s = strip_underscores (replace_runs False (map to_lower value))
     in if s \<noteq> [] \<and> is_lower (hd s) then take 128 s else ''execution_failed'')"

definition genericAgentCodes :: "string list" where
  "genericAgentCodes = [''agent_model_failed'', ''agent_tool_failed'']"

text \<open>The first of the program's errors on the chain of causes, or the last with a specific code.\<close>

fun mostSpecificPlusOneError :: "exn option \<Rightarrow> exn \<Rightarrow> exn option" where
  "mostSpecificPlusOneError selected (PlusOneError cat c retry lookup cause) =
    (let e = PlusOneError cat c retry lookup cause;
         next = (if selected = None \<or> c \<notin> set genericAgentCodes then Some e else selected)
     in case cause of None \<Rightarrow> next | Some e' \<Rightarrow> mostSpecificPlusOneError next e')"
| "mostSpecificPlusOneError selected e = selected"

definition normalizeExecutionFailure ::
  "exn \<Rightarrow> failure_phase \<Rightarrow> role_identity \<Rightarrow> exn + lead_failure" where
  "normalizeExecutionFailure e phase role =
    (case mostSpecificPlusOneError None e of
       Some p \<Rightarrow> parsed_failure \<lparr>lf_phase = phase, lf_role = role, lf_category = e_category p,
           lf_code = normalizeErrorCode (e_code p), lf_retry = e_retry p, lf_issues = []\<rparr>
     | None \<Rightarrow>
         if e = ZodError
         then parsed_failure \<lparr>lf_phase = phase, lf_role = role, lf_category = Validation_rejected,
           lf_code = ''agent_output_schema_failed'', lf_retry = Safe, lf_issues = []\<rparr>
         else parsed_failure \<lparr>lf_phase = phase, lf_role = role, lf_category = Runtime_failure,
           lf_code = ''execution_failed'', lf_retry = After_backoff, lf_issues = []\<rparr>)"

definition normalizeCheckerFailure :: "checker_verdict \<Rightarrow> role_identity \<Rightarrow> exn + lead_failure" where
  "normalizeCheckerFailure v role =
    (let revision = (cv_verdict v = V_revision_requested) in
     parsed_failure \<lparr>lf_phase = Phase_checker_rejection, lf_role = role, lf_category = Checker_rejected,
       lf_code = (if revision then ''checker_revision_requested'' else ''checker_rejected''),
       lf_retry = (if revision then Safe else Never),
       lf_issues = map (\<lambda>(n, f). (''checker.findings.'' @ decimal n, normalizeErrorCode (fd_code f)))
         (enumerate 0 (take 16 (cv_findings v)))\<rparr>)"

section \<open>Registries\<close>

definition policy_rejected :: "string \<Rightarrow> exn" where
  "policy_rejected c = plusOne Policy_rejected c Never False"

record skill_registration =
  sg_identity :: skill_identity
  sg_content :: string
  sg_teams :: "string list"
  sg_roles :: "string list"
  sg_maker :: "string list"
  sg_rubric :: "string list"

type_synonym skill_registry = "(string \<times> skill_registration) list"

definition skill_hash :: "hashing \<Rightarrow> string \<Rightarrow> string list \<Rightarrow> string list \<Rightarrow> string" where
  "skill_hash h content maker rubric = hashArtifact h (JObj
     [(''content'', JStr content), (''makerInstructions'', JArr (map JStr maker)),
      (''checkerRubric'', JArr (map JStr rubric))])"

definition createSkillRegistration :: "hashing \<Rightarrow> string \<Rightarrow> int \<Rightarrow> string \<Rightarrow> string list \<Rightarrow> string list \<Rightarrow>
    string list \<Rightarrow> string list \<Rightarrow> exn + skill_registration" where
  "createSkillRegistration h name version content teams roles maker rubric =
    (let i = \<lparr>sk_name = name, sk_version = version, sk_hash = skill_hash h content maker rubric\<rparr>
     in if SkillIdentitySchemaV1 i
        then Inr \<lparr>sg_identity = i, sg_content = content, sg_teams = teams, sg_roles = roles,
          sg_maker = maker, sg_rubric = rubric\<rparr>
        else Inl ZodError)"

definition skill_key :: "skill_identity \<Rightarrow> string" where
  "skill_key i = sk_name i @ '':'' @ int_string (sk_version i)"

definition register_skill :: "hashing \<Rightarrow> skill_registration \<Rightarrow> skill_registry \<Rightarrow> exn + skill_registry" where
  "register_skill h r reg =
    (case createSkillRegistration h (sk_name (sg_identity r)) (sk_version (sg_identity r)) (sg_content r)
        (sg_teams r) (sg_roles r) (sg_maker r) (sg_rubric r) of
       Inl e \<Rightarrow> Inl e
     | Inr expected \<Rightarrow>
         if sk_hash (sg_identity expected) \<noteq> sk_hash (sg_identity r)
         then Inl (policy_rejected ''skill_content_hash_mismatch'')
         else if map_of reg (skill_key (sg_identity r)) \<noteq> None
         then Inl (policy_rejected ''duplicate_skill_version'')
         else Inr (reg @ [(skill_key (sg_identity r), r)]))"

fun SkillRegistry :: "hashing \<Rightarrow> skill_registration list \<Rightarrow> skill_registry \<Rightarrow> exn + skill_registry" where
  "SkillRegistry h [] reg = Inr reg"
| "SkillRegistry h (r # rs) reg =
    (case register_skill h r reg of Inl e \<Rightarrow> Inl e | Inr reg' \<Rightarrow> SkillRegistry h rs reg')"

definition resolve_skill :: "skill_registry \<Rightarrow> skill_identity \<Rightarrow> exn + skill_registration" where
  "resolve_skill reg i =
    (if \<not> SkillIdentitySchemaV1 i then Inl ZodError
     else (case map_of reg (skill_key i) of
        None \<Rightarrow> Inl (policy_rejected ''skill_not_registered'') | Some r \<Rightarrow> Inr r))"

definition skill_allowed :: "skill_registry \<Rightarrow> skill_identity \<Rightarrow> string \<Rightarrow> string \<Rightarrow> exn + skill_registration" where
  "skill_allowed reg i team role =
    (case resolve_skill reg i of
       Inl e \<Rightarrow> Inl e
     | Inr s \<Rightarrow> if team \<in> set (sg_teams s) \<and> role \<in> set (sg_roles s) then Inr s
         else Inl (policy_rejected ''skill_not_allowed_for_role''))"

record tool_permission =
  tp_team :: string
  tp_role :: role_identity
  tp_tools :: "string list"

type_synonym tool_registry = "(string \<times> string list) list"

text \<open>\<open>/^[A-Za-z0-9_-]{1,64}$/\<close>.\<close>

definition provider_tool_id :: "string \<Rightarrow> bool" where
  "provider_tool_id s \<longleftrightarrow> text_between 1 64 s
     \<and> list_all (\<lambda>c. is_lower c \<or> is_upper c \<or> is_digit c \<or> c = CHR ''_'' \<or> c = CHR ''-'') s"

definition tool_key :: "string \<Rightarrow> role_identity \<Rightarrow> string" where
  "tool_key team r = team @ '':'' @ ro_name r @ '':'' @ int_string (ro_version r)"

fun ToolPermissionRegistry :: "tool_permission list \<Rightarrow> tool_registry \<Rightarrow> exn + tool_registry" where
  "ToolPermissionRegistry [] reg = Inr reg"
| "ToolPermissionRegistry (p # ps) reg =
    (if \<not> list_all provider_tool_id (tp_tools p)
     then Inl (plusOne Validation_rejected ''provider_tool_id_invalid'' Never False)
     else if map_of reg (tool_key (tp_team p) (tp_role p)) \<noteq> None
     then Inl (policy_rejected ''duplicate_tool_permission'')
     else ToolPermissionRegistry ps (reg @ [(tool_key (tp_team p) (tp_role p), tp_tools p)]))"

definition resolve_tools :: "tool_registry \<Rightarrow> string \<Rightarrow> role_identity \<Rightarrow> exn + string list" where
  "resolve_tools reg team r =
    (case map_of reg (tool_key team r) of
       None \<Rightarrow> Inl (policy_rejected ''tool_permission_denied'') | Some ts \<Rightarrow> Inr ts)"

record strategy =
  st_name :: string
  st_parallel :: bool
  st_reconciles :: bool

definition REQUIRED_STRATEGIES :: "strategy list" where
  "REQUIRED_STRATEGIES =
    [\<lparr>st_name = ''verified-factual-lookup'', st_parallel = False, st_reconciles = False\<rparr>,
     \<lparr>st_name = ''single-maker-checker'', st_parallel = False, st_reconciles = False\<rparr>,
     \<lparr>st_name = ''parallel-independent-makers'', st_parallel = True, st_reconciles = False\<rparr>,
     \<lparr>st_name = ''adversarial-analysis-reconciliation'', st_parallel = True, st_reconciles = True\<rparr>]"

fun ExecutionStrategyRegistry :: "strategy list \<Rightarrow> strategy list \<Rightarrow> exn + strategy list" where
  "ExecutionStrategyRegistry [] reg = Inr reg"
| "ExecutionStrategyRegistry (s # ss) reg =
    (if list_ex (\<lambda>r. st_name r = st_name s) reg
     then Inl (policy_rejected ''duplicate_execution_strategy'')
     else ExecutionStrategyRegistry ss (reg @ [s]))"

definition strategy_allowed :: "strategy list \<Rightarrow> string \<Rightarrow> string list \<Rightarrow> nat \<Rightarrow> exn + strategy" where
  "strategy_allowed reg name names n =
    (case find (\<lambda>s. st_name s = name) reg of
       None \<Rightarrow> Inl (policy_rejected ''execution_strategy_not_registered'')
     | Some s \<Rightarrow>
         if name \<notin> set names then Inl (policy_rejected ''execution_strategy_not_allowed'')
         else if st_parallel s \<and> n < 2 then Inl (policy_rejected ''parallel_strategy_requires_multiple_work'')
         else if \<not> st_parallel s \<and> n \<noteq> 1 then Inl (policy_rejected ''single_strategy_requires_one_work'')
         else Inr s)"

section \<open>Roles, contexts and work cells\<close>

datatype role_kind = Kind_lead | Kind_maker | Kind_checker

record agent_role =
  al_identity :: role_identity
  al_kind :: role_kind
  al_agent :: string
  al_policy :: policy_identity

text \<open>
  A contractual context: the tools, and the contract the prompt is made of. Parent messages, memory and
  tool history are always empty.
\<close>

datatype contract_subject =
  About_maker maker_invocation skill_registration | About_checker verification_task skill_registration

record role_context =
  rx_subject :: contract_subject
  rx_tools :: "string list"

record role_registries =
  rr_skills :: skill_registry
  rr_tools :: tool_registry

definition assertRoleAndSkill :: "string \<Rightarrow> role_identity \<Rightarrow> skill_identity \<Rightarrow> string \<Rightarrow> role_identity \<Rightarrow>
    skill_identity \<Rightarrow> exn + unit" where
  "assertRoleAndSkill team role skill team' role' skill' =
    (if team' \<noteq> team \<or> ro_name role' \<noteq> ro_name role \<or> ro_version role' \<noteq> ro_version role
        \<or> sk_name skill' \<noteq> sk_name skill \<or> sk_version skill' \<noteq> sk_version skill
        \<or> sk_hash skill' \<noteq> sk_hash skill
     then Inl (policy_rejected ''role_context_contract_mismatch'') else Inr ())"

definition allowed_context :: "role_registries \<Rightarrow> string \<Rightarrow> role_identity \<Rightarrow> skill_identity \<Rightarrow>
    (skill_registration \<Rightarrow> contract_subject) \<Rightarrow> exn + role_context" where
  "allowed_context rr team role skill subject =
    (case skill_allowed (rr_skills rr) skill team (ro_name role) of
       Inl e \<Rightarrow> Inl e
     | Inr s \<Rightarrow>
         (case resolve_tools (rr_tools rr) team role of
            Inl e \<Rightarrow> Inl e
          | Inr ts \<Rightarrow> Inr \<lparr>rx_subject = subject s, rx_tools = ts\<rparr>))"

definition forMaker :: "role_registries \<Rightarrow> string \<Rightarrow> role_identity \<Rightarrow> skill_identity \<Rightarrow>
    maker_invocation \<Rightarrow> exn + role_context" where
  "forMaker rr team role skill i =
    (if \<not> MakerInvocationSchemaV1 i then Inl ZodError
     else (case assertRoleAndSkill team role skill (mi_team i) (mi_role i) (mi_skill i) of
        Inl e \<Rightarrow> Inl e
      | Inr _ \<Rightarrow> allowed_context rr team role skill (About_maker i)))"

definition forChecker :: "role_registries \<Rightarrow> string \<Rightarrow> role_identity \<Rightarrow> skill_identity \<Rightarrow>
    verification_task \<Rightarrow> exn + role_context" where
  "forChecker rr team role skill v =
    (if \<not> VerificationTaskSchemaV1 v then Inl ZodError
     else (case assertRoleAndSkill team role skill team (vt_role v) (vt_skill v) of
        Inl e \<Rightarrow> Inl e
      | Inr _ \<Rightarrow> allowed_context rr team role skill (About_checker v)))"

datatype effect_policy = No_effect | Proposals "(schema_identity \<times> confirmation_rule) list"

datatype effect_requirement = Effect_none | Effect_mutation schema_identity confirmation_rule

record evaluation =
  ev_status :: team_result_status
  ev_reason :: string
  ev_outstanding :: "string list"

record work_cell =
  wc_id :: string
  wc_maker :: agent_role
  wc_checker :: agent_role
  wc_input_ok :: "json \<Rightarrow> bool"
  wc_output_parse :: "json \<Rightarrow> json option"
  wc_input_schema :: schema_identity
  wc_output_schema :: schema_identity
  wc_effects :: effect_policy
  wc_rubric :: checker_rubric
  wc_skills :: "string list"
  wc_evaluate :: "stop_condition \<Rightarrow> maker_artifact \<Rightarrow> checker_verdict \<Rightarrow> artifact list \<Rightarrow> exn + evaluation"

datatype completion_state = Terminal | Mutation_pending

datatype mutation_state =
    Prepared checked_command
  | Unresolved string
  | Persisted mutation_receipt readback_result

text \<open>
  The result of a work cell. The completion reason of a failure is the message of its error, which the
  model does not carry: \<open>None\<close>.
\<close>

record cell_result =
  cl_household :: string
  cl_task :: string
  cl_team :: string
  cl_cell :: string
  cl_status :: team_result_status
  cl_state :: completion_state
  cl_effect :: effect_requirement
  cl_mutation :: "mutation_state option"
  cl_makers :: "artifact list"
  cl_verdicts :: "checker_verdict list"
  cl_accepted :: "maker_artifact option"
  cl_failure :: "lead_failure option"
  cl_reason :: "string option"
  cl_outstanding :: "string list"

definition assertMakerOutputSchemaIdentity :: "schema_identity \<Rightarrow> schema_identity \<Rightarrow> exn + unit" where
  "assertMakerOutputSchemaIdentity actual expected =
    (if same_schema actual expected then Inr ()
     else Inl (plusOne Validation_rejected ''maker_output_schema_identity_mismatch'' Never False))"

section \<open>Maker artifacts as JSON\<close>

definition claim_json :: "maker_claim \<Rightarrow> json" where
  "claim_json c = JObj [(''claimId'', JStr (mk_claim_id c)), (''text'', JStr (mk_text c)),
     (''evidenceArtifactIds'', JArr (map JStr (mk_evidence c)))]"

definition schema_json :: "schema_identity \<Rightarrow> json" where
  "schema_json s = JObj [(''schemaName'', JStr (sch_name s)), (''schemaVersion'', JNum (sch_version s))]"

definition maker_artifact_json :: "maker_artifact \<Rightarrow> json" where
  "maker_artifact_json m = JObj
     [(''schemaName'', JStr ''maker-artifact''), (''schemaVersion'', JNum 1),
      (''outputSchema'', schema_json (mk_output_schema m)), (''output'', mk_output m),
      (''claims'', JArr (map claim_json (mk_claims m))),
      (''assumptions'', JArr (map JStr (mk_assumptions m))),
      (''uncertainty'', JArr (map JStr (mk_uncertainty m)))]"

definition maker_artifact_ok :: "maker_artifact \<Rightarrow> bool" where
  "maker_artifact_ok m \<longleftrightarrow> SchemaIdentitySchemaV1 (mk_output_schema m)
     \<and> list_all MakerClaimSchemaV1 (mk_claims m)
     \<and> list_all (text_between 1 2000) (mk_assumptions m)
     \<and> list_all (text_between 1 2000) (mk_uncertainty m)"

lemma parse_claim_json: "parse_claim (claim_json c) = (if MakerClaimSchemaV1 c then Some c else None)"
  by (cases c)
    (simp add: parse_claim_def claim_json_def strict_object_def json_field_def json_string_def
      json_array_def)

lemma parse_claims_json:
  "parse_list parse_claim (map claim_json cs) = (if list_all MakerClaimSchemaV1 cs then Some cs else None)"
  by (induction cs) (simp_all add: parse_claim_json)

lemma parse_schema_json:
  "parse_schema_identity (schema_json s) = (if SchemaIdentitySchemaV1 s then Some s else None)"
  by (cases s)
    (simp add: parse_schema_identity_def schema_json_def strict_object_def json_field_def
      json_string_def json_int_def check_that_def)

lemma parse_maker_json:
  "MakerArtifactSchemaV1 (maker_artifact_json m) = (if maker_artifact_ok m then Some m else None)"
proof -
  have strict: "strict_object [''schemaName'', ''schemaVersion'', ''outputSchema'', ''output'', ''claims'',
      ''assumptions'', ''uncertainty''] (maker_artifact_json m)"
    by (simp add: strict_object_def maker_artifact_json_def)
  have fields: "json_field ''schemaName'' (maker_artifact_json m) = Some (JStr ''maker-artifact'')"
    "json_field ''schemaVersion'' (maker_artifact_json m) = Some (JNum 1)"
    "json_field ''outputSchema'' (maker_artifact_json m) = Some (schema_json (mk_output_schema m))"
    "json_field ''output'' (maker_artifact_json m) = Some (mk_output m)"
    "json_field ''claims'' (maker_artifact_json m) = Some (JArr (map claim_json (mk_claims m)))"
    "json_field ''assumptions'' (maker_artifact_json m) = Some (JArr (map JStr (mk_assumptions m)))"
    "json_field ''uncertainty'' (maker_artifact_json m) = Some (JArr (map JStr (mk_uncertainty m)))"
    by (simp_all add: json_field_def maker_artifact_json_def)
  show ?thesis
    unfolding MakerArtifactSchemaV1_def
    by (simp add: strict fields json_array_def parse_schema_json parse_claims_json maker_artifact_ok_def
        check_that_def)
qed

lemma required_strategies_register: "ExecutionStrategyRegistry REQUIRED_STRATEGIES [] = Inr REQUIRED_STRATEGIES"
  by code_simp

end
