(* ===== verification/AgentInvocations.thy ===== *)
theory AgentInvocations
  imports WorkCells
begin

text \<open>
  One call of an agent: packages/runtime/src/execution/agent-invocation-runner.ts, with the registry of
  runtime/src/agents/agent-registry.ts. The runner records a run and an attempt around the call, and
  classifies whatever fails.

  The agent itself (\<open>StructuredAgentPort.generate\<close>) is a parameter: what it answers to a call, an error or
  a JSON value, and what the caller's abort signal says when a failure is classified. A value reaches the
  caller through the output schema of the call. Log lines are left out.
\<close>

section \<open>The registry of agents\<close>

record agent_registration =
  an_agent :: string
  an_model :: string
  an_kind :: role_kind
  an_memory :: bool

type_synonym agent_registry = "(string \<times> agent_registration) list"

definition agent_key :: "string \<Rightarrow> string \<Rightarrow> string" where
  "agent_key agent model = agent @ '':'' @ model"

definition register_agent :: "agent_registration \<Rightarrow> agent_registry \<Rightarrow> exn + agent_registry" where
  "register_agent r reg =
    (if an_kind r = Kind_checker \<and> an_memory r then Inl (policy_rejected ''checker_memory_forbidden'')
     else if map_of reg (agent_key (an_agent r) (an_model r)) \<noteq> None
     then Inl (policy_rejected ''duplicate_agent_registration'')
     else Inr (reg @ [(agent_key (an_agent r) (an_model r), r)]))"

definition resolve_agent :: "agent_registry \<Rightarrow> string \<Rightarrow> string \<Rightarrow> role_kind \<Rightarrow> exn + agent_registration" where
  "resolve_agent reg agent model kind =
    (case map_of reg (agent_key agent model) of
       None \<Rightarrow> Inl (policy_rejected ''agent_not_registered'')
     | Some r \<Rightarrow> if an_kind r \<noteq> kind then Inl (policy_rejected ''agent_not_registered'') else Inr r)"

section \<open>Calls and their failures\<close>

datatype signal_state = Signal_clear | Signal_timeout | Signal_cancelled

record agent_call =
  ac_run :: string
  ac_agent :: string
  ac_model :: string
  ac_kind :: role_kind
  ac_context :: role_context
  ac_policy :: runtime_policy

record agents =
  ag_generate :: "agent_call \<Rightarrow> exn + json"
  ag_signal :: "agent_call \<Rightarrow> signal_state"

fun retry_name :: "retry_directive \<Rightarrow> string" where
  "retry_name Never = ''never''"
| "retry_name Safe = ''safe''"
| "retry_name After_backoff = ''after_backoff''"
| "retry_name After_state_resolution = ''after_state_resolution''"

record call_failure =
  kf_outcome :: attempt_outcome
  kf_run :: run_status
  kf_category :: string
  kf_error :: error_category
  kf_code :: string
  kf_retry :: retry_directive

text \<open>A \<open>DOMException\<close> is a \<open>JsError\<close> by its name.\<close>

definition classifyFailure :: "exn \<Rightarrow> signal_state \<Rightarrow> call_failure" where
  "classifyFailure e signal =
    (if signal = Signal_timeout then
       \<lparr>kf_outcome = At_timed_out, kf_run = Run_timed_out, kf_category = ''team_deadline'',
        kf_error = Timeout, kf_code = ''agent_call_timed_out'', kf_retry = After_backoff\<rparr>
     else if signal = Signal_cancelled then
       \<lparr>kf_outcome = At_cancelled, kf_run = Run_cancelled, kf_category = ''cancelled'',
        kf_error = Runtime_failure, kf_code = ''agent_call_cancelled'', kf_retry = Never\<rparr>
     else (case e of
       ZodError \<Rightarrow>
         \<lparr>kf_outcome = At_schema_failed, kf_run = Run_failed, kf_category = ''schema_validation'',
          kf_error = Validation_rejected, kf_code = ''agent_output_schema_failed'', kf_retry = Safe\<rparr>
     | PlusOneError cat c retry lookup cause \<Rightarrow>
         \<lparr>kf_outcome = (if cat = Validation_rejected then At_schema_failed
             else if starts_with ''tool_'' c then At_tool_failed else At_model_failed),
          kf_run = Run_failed, kf_category = category_name cat, kf_error = cat, kf_code = c,
          kf_retry = retry\<rparr>
     | _ \<Rightarrow>
         if e = JsError ''TimeoutError'' \<or> e = JsError ''AbortError'' then
           \<lparr>kf_outcome = At_timed_out, kf_run = Run_timed_out, kf_category = ''call_deadline'',
            kf_error = Timeout, kf_code = ''agent_call_timed_out'', kf_retry = After_backoff\<rparr>
         else
           \<lparr>kf_outcome = At_model_failed, kf_run = Run_failed, kf_category = ''model_failure'',
            kf_error = Runtime_failure, kf_code = ''agent_model_failed'', kf_retry = After_backoff\<rparr>))"

definition wrapped_failure :: "call_failure \<Rightarrow> exn \<Rightarrow> exn" where
  "wrapped_failure f e = PlusOneError (kf_error f) (kf_code f) (kf_retry f) False (Some e)"

section \<open>A run\<close>

record run_input =
  ri_household :: string
  ri_task :: string
  ri_role :: agent_role
  ri_ordinal :: int
  ri_context :: role_context

definition policy_models :: "runtime_policy \<Rightarrow> string list" where
  "policy_models p = rp_primary p # rp_fallbacks p"

definition model_for :: "runtime_policy \<Rightarrow> int \<Rightarrow> string" where
  "model_for p n = policy_models p ! nat ((n - 1) mod int (length (policy_models p)))"

definition start_of :: "run_input \<Rightarrow> runtime_policy \<Rightarrow> string \<Rightarrow> start_run" where
  "start_of i p rid =
    \<lparr>sr_household = ri_household i, sr_task = ri_task i, sr_run = rid,
     sr_role = ro_name (al_identity (ri_role i)), sr_role_version = ro_version (al_identity (ri_role i)),
     sr_model = model_for p (ri_ordinal i), sr_policy = p\<rparr>"

definition attempt_of :: "run_input \<Rightarrow> runtime_policy \<Rightarrow> string \<Rightarrow> start_attempt" where
  "attempt_of i p rid =
    \<lparr>sa_household = ri_household i, sa_task = ri_task i, sa_run = rid,
     sa_role = ro_name (al_identity (ri_role i)), sa_ordinal = ri_ordinal i,
     sa_limit = rp_max_attempts p, sa_resumable = True\<rparr>"

definition finish_of :: "run_input \<Rightarrow> attempt_outcome \<Rightarrow> string option \<Rightarrow> string option \<Rightarrow> string option \<Rightarrow>
    bool \<Rightarrow> finish_attempt" where
  "finish_of i outcome category c retry resumable =
    \<lparr>fa_household = ri_household i, fa_task = ri_task i,
     fa_role = ro_name (al_identity (ri_role i)), fa_ordinal = ri_ordinal i, fa_outcome = outcome,
     fa_retry_category = category, fa_code = c, fa_retry = retry, fa_resumable = resumable\<rparr>"

definition call_of :: "run_input \<Rightarrow> runtime_policy \<Rightarrow> string \<Rightarrow> agent_call" where
  "call_of i p rid =
    \<lparr>ac_run = rid, ac_agent = al_agent (ri_role i), ac_model = model_for p (ri_ordinal i),
     ac_kind = al_kind (ri_role i), ac_context = ri_context i, ac_policy = p\<rparr>"

text \<open>What the call answers, through the schema of its output.\<close>

definition generated :: "agents \<Rightarrow> agent_call \<Rightarrow> (json \<Rightarrow> 'a option) \<Rightarrow> exn + 'a" where
  "generated ag c schema =
    (case ag_generate ag c of
       Inl e \<Rightarrow> Inl e
     | Inr j \<Rightarrow> (case schema j of None \<Rightarrow> Inl ZodError | Some x \<Rightarrow> Inr x))"

definition start_attempt_or_fail :: "'s ledger_port \<Rightarrow> run_input \<Rightarrow> runtime_policy \<Rightarrow> string \<Rightarrow>
    ('s, exn, unit) io" where
  "start_attempt_or_fail lp i p rid =
    catchM (lp_start_attempt lp (attempt_of i p rid))
      (\<lambda>e. bindM (lp_finish_run lp rid Run_failed (Some ''attempt_start_failed'')
           (Some ''attempt_start_failed'') (Some ''after_state_resolution'')) (\<lambda>_.
         raise (PlusOneError Storage_unavailable ''attempt_start_failed'' After_state_resolution False
           (Some e))))"

definition call_agent :: "'s ledger_port \<Rightarrow> agents \<Rightarrow> run_input \<Rightarrow> runtime_policy \<Rightarrow> string \<Rightarrow>
    (json \<Rightarrow> 'a option) \<Rightarrow> ('s, exn, 'a) io" where
  "call_agent lp ag i p rid schema =
    catchM
      (bindM (liftE (generated ag (call_of i p rid) schema)) (\<lambda>x.
       bindM (lp_finish_attempt lp (finish_of i At_succeeded None None None False)) (\<lambda>_.
       bindM (lp_finish_run lp rid Run_succeeded None None None) (\<lambda>_.
       ret x))))
      (\<lambda>e. let f = classifyFailure e (ag_signal ag (call_of i p rid)) in
         bindM (lp_finish_attempt lp (finish_of i (kf_outcome f) (Some (kf_category f)) (Some (kf_code f))
           (Some (retry_name (kf_retry f))) (kf_outcome f \<noteq> At_cancelled))) (\<lambda>_.
         bindM (lp_finish_run lp rid (kf_run f) (Some (kf_category f)) (Some (kf_code f))
           (Some (retry_name (kf_retry f)))) (\<lambda>_.
         raise (wrapped_failure f e))))"

definition run_agent :: "'s runtime \<Rightarrow> agents \<Rightarrow> run_input \<Rightarrow> (json \<Rightarrow> 'a option) \<Rightarrow>
    ('s, exn, 'a) io" where
  "run_agent rt ag i schema =
    bindM (liftE (resolve (rd_policies rt) (al_policy (ri_role i)))) (\<lambda>p.
    bindM (requireM (\<not> (ri_ordinal i < 1 \<or> rp_max_attempts p < ri_ordinal i))
      (policy_rejected ''agent_attempt_limit_exceeded'')) (\<lambda>_.
    bindM (rd_ulid rt) (\<lambda>u.
    let rid = ''run_'' @ u in
    bindM (lp_start_run (rd_ledger rt) (start_of i p rid)) (\<lambda>_.
    bindM (start_attempt_or_fail (rd_ledger rt) i p rid) (\<lambda>_.
    call_agent (rd_ledger rt) ag i p rid schema)))))"

lemma model_for_policy: "model_for p n \<in> set (policy_models p)"
proof -
  have "0 < int (length (policy_models p))" by (simp add: policy_models_def)
  then have "nat ((n - 1) mod int (length (policy_models p))) < length (policy_models p)"
    by (simp add: nat_less_iff)
  then show ?thesis unfolding model_for_def by (rule nth_mem)
qed

end
