(* ===== verification/TeamExecution.thy ===== *)
theory TeamExecution
  imports AgentInvocations
begin

text \<open>
  The team executor: packages/runtime/src/execution/team-executor.ts. One work cell is a maker, whose
  artifact is stored, and a checker, whose verdict is bound to that artifact; the task the two work on is
  moved by the verification runtime. The attempt limit of the source is the constant one, so each of its
  two loops makes a single turn.

  Deadlines are part of the task; the signals that enforce them belong to the agents.
\<close>

section \<open>Maker output\<close>

text \<open>
  \<open>MakerArtifactSchemaV1.extend\<close> with the output schema and identity of the cell. The extension does not
  check that the identity itself is well formed, which the invocation has done before.
\<close>

definition makerArtifactSchema :: "work_cell \<Rightarrow> json \<Rightarrow> maker_artifact option" where
  "makerArtifactSchema cell j =
    (case MakerArtifactSchemaV1 j of
       None \<Rightarrow> None
     | Some m \<Rightarrow>
         if same_schema (mk_output_schema m) (wc_output_schema cell)
         then (case wc_output_parse cell (mk_output m) of
             None \<Rightarrow> None | Some out \<Rightarrow> Some (m\<lparr>mk_output := out\<rparr>))
         else None)"

text \<open>\<open>QueryResultSchemaV1\<close>: the relation and the number of rows of a query result.\<close>

definition reporting_relation :: "string \<Rightarrow> bool" where
  "reporting_relation s \<longleftrightarrow> take 10 s = ''reporting.'' \<and> drop 10 s \<noteq> []
     \<and> list_all (\<lambda>c. is_lower c \<or> c = CHR ''_'') (drop 10 s)"

definition json_object :: "json \<Rightarrow> json option" where
  "json_object j = (case j of JObj kvs \<Rightarrow> Some j | _ \<Rightarrow> None)"

definition texts_ok :: "nat \<Rightarrow> nat \<Rightarrow> nat \<Rightarrow> nat \<Rightarrow> string list \<Rightarrow> bool" where
  "texts_ok low high lo hi xs \<longleftrightarrow> low \<le> length xs \<and> length xs \<le> high \<and> list_all (text_between lo hi) xs"

definition QueryResultSchemaV1 :: "json \<Rightarrow> (string \<times> nat) option" where
  "QueryResultSchemaV1 j = do {
     check_that (strict_object [''schemaName'', ''schemaVersion'', ''relationName'', ''grain'', ''rows'',
       ''fieldDefinitions'', ''sourceReferences'', ''freshness'', ''coverageWarnings''] j);
     check_that (json_field ''schemaName'' j = Some (JStr ''query-result''));
     check_that (json_field ''schemaVersion'' j = Some (JNum 1));
     r \<leftarrow> Option.bind (json_field ''relationName'' j) json_string;
     check_that (reporting_relation r);
     gs \<leftarrow> Option.bind (json_field ''grain'' j) (json_array json_string);
     check_that (texts_ok 1 16 1 128 gs);
     rows \<leftarrow> Option.bind (json_field ''rows'' j) (json_array json_object);
     check_that (length rows \<le> 500);
     ds \<leftarrow> Option.bind (json_field ''fieldDefinitions'' j) (json_array json_string);
     check_that (1 \<le> length ds \<and> list_all (text_between 1 1000) ds);
     ss \<leftarrow> Option.bind (json_field ''sourceReferences'' j) (json_array json_string);
     check_that (1 \<le> length ss \<and> list_all (text_between 1 512) ss);
     f \<leftarrow> Option.bind (json_field ''freshness'' j) json_string;
     check_that (text_between 1 1000 f);
     ws \<leftarrow> Option.bind (json_field ''coverageWarnings'' j) (json_array json_string);
     check_that (list_all (text_between 1 1000) ws);
     Some (r, length rows) }"

definition synthesizeClaimsIfNeeded :: "maker_artifact \<Rightarrow> string \<Rightarrow> maker_artifact" where
  "synthesizeClaimsIfNeeded m name =
    (if mk_claims m \<noteq> [] \<or> name \<noteq> ''query-result'' then m
     else (case QueryResultSchemaV1 (mk_output m) of
        None \<Rightarrow> m
      | Some (r, n) \<Rightarrow>
          m\<lparr>mk_claims := [\<lparr>mk_claim_id = ''query-result-summary'',
             mk_text = ''Query result from '' @ r @ '' returned '' @ decimal n
               @ (if n = 1 then '' row.'' else '' rows.''),
             mk_evidence = []\<rparr>]\<rparr>))"

definition retainPermittedMakerClaimEvidence :: "maker_artifact \<Rightarrow> artifact list \<Rightarrow> maker_artifact" where
  "retainPermittedMakerClaimEvidence m evidence =
    m\<lparr>mk_claims := map (\<lambda>c. c\<lparr>mk_evidence := filter (\<lambda>e. e \<in> ar_id ` set evidence) (mk_evidence c)\<rparr>)
       (mk_claims m)\<rparr>"

definition assertMakerClaimsUsePermittedEvidence :: "maker_artifact \<Rightarrow> artifact list \<Rightarrow> exn + unit" where
  "assertMakerClaimsUsePermittedEvidence m evidence =
    (if concat (map (\<lambda>c. filter (\<lambda>e. e \<notin> ar_id ` set evidence) (mk_evidence c)) (mk_claims m)) = []
     then Inr ()
     else Inl (plusOne Validation_rejected ''maker_claim_evidence_not_permitted'' Safe False))"

text \<open>The validation phase of the maker's output.\<close>

definition validated_output :: "work_cell \<Rightarrow> artifact list \<Rightarrow> maker_artifact \<Rightarrow> exn + maker_artifact" where
  "validated_output cell evidence m =
    (let m' = retainPermittedMakerClaimEvidence
           (synthesizeClaimsIfNeeded m (sch_name (wc_output_schema cell))) evidence
     in case assertMakerOutputSchemaIdentity (mk_output_schema m') (wc_output_schema cell) of
          Inl e \<Rightarrow> Inl e
        | Inr _ \<Rightarrow>
            if wc_output_parse cell (mk_output m') = None then Inl ZodError
            else (case assertMakerClaimsUsePermittedEvidence m' evidence of
                Inl e \<Rightarrow> Inl e | Inr _ \<Rightarrow> Inr m'))"

section \<open>The checker's decision\<close>

definition CheckerDecisionSchemaV1 :: "json \<Rightarrow> (verdict_kind \<times> checker_finding list) option" where
  "CheckerDecisionSchemaV1 j = do {
     k \<leftarrow> Option.bind (Option.bind (json_field ''verdict'' j) json_string) parse_verdict_kind;
     fs \<leftarrow> Option.bind (json_field ''findings'' j) (json_array parse_finding);
     Some (k, fs) }"

definition bound_verdict :: "verdict_kind \<times> checker_finding list \<Rightarrow> artifact \<Rightarrow> exn + checker_verdict" where
  "bound_verdict decision a =
    (let v = \<lparr>cv_verdict = fst decision, cv_artifact = ar_id a, cv_hash = ar_hash a,
        cv_findings = snd decision\<rparr>
     in if CheckerVerdictSchemaV1 v then Inr v else Inl ZodError)"

section \<open>The stop condition\<close>

definition acceptedClarification :: "json \<Rightarrow> evaluation option" where
  "acceptedClarification out =
    (case Option.bind (json_field ''schemaName'' out) json_string of
       None \<Rightarrow> None
     | Some name \<Rightarrow>
         if \<not> ends_with ''clarification'' name then None
         else
           let reason = (case Option.bind (json_field ''reason'' out) json_string of
                 None \<Rightarrow> ''Maker requested clarification.'' | Some r \<Rightarrow> r);
               questions = (case json_field ''questions'' out of
                 Some (JArr qs) \<Rightarrow> List.map_filter json_string qs | _ \<Rightarrow> [])
           in Some \<lparr>ev_status = TR_insufficient_evidence, ev_reason = reason,
                ev_outstanding = (if questions = [] then [reason] else questions)\<rparr>)"

definition terminalFor :: "checker_verdict \<Rightarrow> evaluation" where
  "terminalFor v =
    (let outstanding = map fd_message (cv_findings v) in
     if cv_verdict v = V_insufficient_evidence then
       \<lparr>ev_status = TR_insufficient_evidence,
        ev_reason = ''The checker found required evidence absent or too weak.'', ev_outstanding = outstanding\<rparr>
     else if cv_verdict v = V_conflicted then
       \<lparr>ev_status = TR_conflicted,
        ev_reason = ''The checker found irreconcilable checked evidence.'', ev_outstanding = outstanding\<rparr>
     else
       \<lparr>ev_status = TR_failed,
        ev_reason = ''The checker rejected the artifact or revision attempts were exhausted.'',
        ev_outstanding = outstanding\<rparr>)"

definition evaluated :: "work_cell \<Rightarrow> stop_condition \<Rightarrow> artifact list \<Rightarrow> maker_artifact \<Rightarrow>
    checker_verdict \<Rightarrow> exn + evaluation" where
  "evaluated cell stop evidence m v =
    (if cv_verdict v = V_accepted
     then (case acceptedClarification (mk_output m) of
         Some x \<Rightarrow> Inr x
       | None \<Rightarrow> wc_evaluate cell stop m v evidence)
     else Inr (terminalFor v))"

definition verified_stop_without_claims :: exn where
  "verified_stop_without_claims =
    plusOne Validation_rejected ''verified_stop_without_claims'' Never False"

definition terminal_evaluation :: "work_cell \<Rightarrow> stop_condition \<Rightarrow> artifact list \<Rightarrow> maker_artifact \<Rightarrow>
    checker_verdict \<Rightarrow> exn + evaluation" where
  "terminal_evaluation cell stop evidence m v =
    (case evaluated cell stop evidence m v of
       Inl e \<Rightarrow> Inl e
     | Inr x \<Rightarrow>
         if ev_reason x = [] \<or> [] \<in> set (ev_outstanding x) then Inl ZodError
         else if ev_status x = TR_verified \<and> mk_claims m = [] then Inl verified_stop_without_claims
         else Inr x)"

definition effectRequirementFor :: "work_cell \<Rightarrow> json \<Rightarrow> effect_requirement" where
  "effectRequirementFor cell out =
    (case wc_effects cell of
       No_effect \<Rightarrow> Effect_none
     | Proposals ps \<Rightarrow>
         (case embedded_schema out of
            None \<Rightarrow> Effect_none
          | Some s \<Rightarrow>
              (case find (\<lambda>p. same_schema (fst p) s) ps of
                 None \<Rightarrow> Effect_none | Some (schema, rule) \<Rightarrow> Effect_mutation schema rule)))"

section \<open>A work cell\<close>

record cell_input =
  ci_household :: string
  ci_task :: string
  ci_parent :: "string option"
  ci_team :: string
  ci_cell :: work_cell
  ci_skill :: skill_identity
  ci_input :: json
  ci_evidence :: "artifact list"
  ci_labels :: "string list"
  ci_stop :: stop_condition

definition failedResult :: "cell_input \<Rightarrow> artifact list \<Rightarrow> checker_verdict list \<Rightarrow> exn \<Rightarrow> failure_phase \<Rightarrow>
    role_identity \<Rightarrow> exn + cell_result" where
  "failedResult i makers vs e phase role =
    (case normalizeExecutionFailure e phase role of
       Inl e' \<Rightarrow> Inl e'
     | Inr f \<Rightarrow> Inr
         \<lparr>cl_household = ci_household i, cl_task = ci_task i, cl_team = ci_team i,
          cl_cell = wc_id (ci_cell i), cl_status = TR_failed, cl_state = Terminal,
          cl_effect = Effect_none, cl_mutation = None, cl_makers = makers, cl_verdicts = vs,
          cl_accepted = None, cl_failure = Some f,
          cl_reason = (if is_plus_one e then None else Some ''Work cell execution failed.''),
          cl_outstanding = (if is_plus_one e then [e_code e] else [])\<rparr>)"

text \<open>The two catch blocks: a cancelled call is rethrown, everything else is a failed result.\<close>

definition is_cancelled :: "exn \<Rightarrow> bool" where
  "is_cancelled e \<longleftrightarrow> is_plus_one e \<and> e_code e = ''agent_call_cancelled''"

definition cell_failed :: "'s runtime \<Rightarrow> cell_input \<Rightarrow> task_status \<Rightarrow> artifact list \<Rightarrow> failure_phase \<Rightarrow>
    role_identity \<Rightarrow> exn \<Rightarrow> ('s, exn, cell_result) io" where
  "cell_failed rt i from makers phase role e =
    (if is_cancelled e
     then bindM (fail_task rt (ci_household i) (ci_task i) from ''cancelled'' False) (\<lambda>_. raise e)
     else bindM (fail_task rt (ci_household i) (ci_task i) from ''runtime_failure'' False) (\<lambda>_.
       liftE (failedResult i makers [] e phase role)))"

definition maker_invocation_of :: "cell_input \<Rightarrow> maker_invocation" where
  "maker_invocation_of i =
    \<lparr>mi_household = ci_household i, mi_task = ci_task i, mi_team = ci_team i,
     mi_role = al_identity (wc_maker (ci_cell i)), mi_skill = ci_skill i,
     mi_input_schema = wc_input_schema (ci_cell i), mi_output_schema = wc_output_schema (ci_cell i),
     mi_input = ci_input i, mi_evidence = ci_evidence i, mi_labels = ci_labels i, mi_stop = ci_stop i\<rparr>"

definition verification_task_of :: "cell_input \<Rightarrow> artifact \<Rightarrow> verification_task" where
  "verification_task_of i a =
    \<lparr>vt_household = ci_household i, vt_task = ci_task i, vt_role = al_identity (wc_checker (ci_cell i)),
     vt_artifact = a, vt_input = ci_input i, vt_evidence = ci_evidence i, vt_skill = ci_skill i,
     vt_rubric = wc_rubric (ci_cell i), vt_labels = ci_labels i\<rparr>"

definition cell_run :: "cell_input \<Rightarrow> agent_role \<Rightarrow> role_context \<Rightarrow> run_input" where
  "cell_run i role context =
    \<lparr>ri_household = ci_household i, ri_task = ci_task i, ri_role = role, ri_ordinal = 1,
     ri_context = context\<rparr>"

definition run_maker :: "'s runtime \<Rightarrow> agents \<Rightarrow> role_registries \<Rightarrow> cell_input \<Rightarrow>
    ('s, exn, maker_artifact) io" where
  "run_maker rt ag rr i =
    (let cell = ci_cell i; role = wc_maker cell; invocation = maker_invocation_of i in
     bindM (requireM (MakerInvocationSchemaV1 invocation) ZodError) (\<lambda>_.
     bindM (liftE (forMaker rr (ci_team i) (al_identity role) (ci_skill i) invocation)) (\<lambda>context.
     run_agent rt ag (cell_run i role context) (makerArtifactSchema cell))))"

definition run_checker :: "'s runtime \<Rightarrow> agents \<Rightarrow> role_registries \<Rightarrow> cell_input \<Rightarrow> artifact \<Rightarrow>
    ('s, exn, checker_verdict) io" where
  "run_checker rt ag rr i a =
    (let cell = ci_cell i; role = wc_checker cell in
     bindM (liftE (forChecker rr (ci_team i) (al_identity role) (ci_skill i) (verification_task_of i a))) (\<lambda>context.
     bindM (run_agent rt ag (cell_run i role context) CheckerDecisionSchemaV1) (\<lambda>decision.
     liftE (bound_verdict decision a))))"

definition cell_completion :: "team_result_status \<Rightarrow> completion" where
  "cell_completion s = (case s of
       TR_verified \<Rightarrow> Complete_verified | TR_partial \<Rightarrow> Complete_partial
     | TR_insufficient_evidence \<Rightarrow> Complete_insufficient_evidence
     | TR_conflicted \<Rightarrow> Complete_conflicted | TR_failed \<Rightarrow> Complete_failed)"

definition next_artifact_id :: "'s runtime \<Rightarrow> ('s, exn, string) io" where
  "next_artifact_id rt = bindM (rd_ulid rt) (\<lambda>u. ret (''artifact_'' @ u))"

definition effect_of :: "cell_input \<Rightarrow> maker_artifact \<Rightarrow> checker_verdict \<Rightarrow> evaluation \<Rightarrow> effect_requirement" where
  "effect_of i m v x =
    (if cv_verdict v = V_accepted \<and> ev_status x = TR_verified
     then effectRequirementFor (ci_cell i) (mk_output m) else Effect_none)"

text \<open>What follows the terminal evaluation.\<close>

definition finish_cell :: "'s runtime \<Rightarrow> cell_input \<Rightarrow> maker_artifact \<Rightarrow> artifact \<Rightarrow> checker_verdict \<Rightarrow>
    evaluation \<Rightarrow> ('s, exn, cell_result) io" where
  "finish_cell rt i m a v x =
    (let effect = effect_of i m v x; terminal = (effect = Effect_none) in
     bindM (if terminal
       then bindM (complete rt (ci_household i) (ci_task i) (cell_completion (ev_status x))) (\<lambda>_. ret ())
       else ret ()) (\<lambda>_.
     bindM (if ev_status x = TR_failed
       then bindM (liftE (normalizeCheckerFailure v (al_identity (wc_checker (ci_cell i))))) (\<lambda>f. ret (Some f))
       else ret None) (\<lambda>failure.
     ret \<lparr>cl_household = ci_household i, cl_task = ci_task i, cl_team = ci_team i,
          cl_cell = wc_id (ci_cell i), cl_status = ev_status x,
          cl_state = (if terminal then Terminal else Mutation_pending), cl_effect = effect,
          cl_mutation = None, cl_makers = [a], cl_verdicts = [v],
          cl_accepted = (if cv_verdict v = V_accepted then Some m else None), cl_failure = failure,
          cl_reason = Some (ev_reason x), cl_outstanding = ev_outstanding x\<rparr>)))"

definition checker_not_covering :: exn where
  "checker_not_covering = plusOne Checker_rejected ''checker_coverage_mismatch'' Never False"

text \<open>With a verdict in hand.\<close>

definition settle_verdict :: "'s runtime \<Rightarrow> cell_input \<Rightarrow> maker_artifact \<Rightarrow> artifact \<Rightarrow> checker_verdict \<Rightarrow>
    ('s, exn, cell_result) io" where
  "settle_verdict rt i m a v =
    (if cv_artifact v \<noteq> ar_id a \<or> cv_hash v \<noteq> ar_hash a
     then bindM (fail_task rt (ci_household i) (ci_task i) Checker_running ''checker_rejected'' False)
       (\<lambda>_. raise checker_not_covering)
     else
       bindM (next_artifact_id rt) (\<lambda>cid.
       bindM (validateChecker rt (ci_household i) (ci_task i) cid v) (\<lambda>_.
       case terminal_evaluation (ci_cell i) (ci_stop i) (ci_evidence i) m v of
         Inl e \<Rightarrow> bindM (complete rt (ci_household i) (ci_task i) Complete_failed) (\<lambda>_. raise e)
       | Inr x \<Rightarrow> finish_cell rt i m a v x)))"

text \<open>With a validated maker output in hand.\<close>

definition check_output :: "'s runtime \<Rightarrow> agents \<Rightarrow> role_registries \<Rightarrow> cell_input \<Rightarrow> maker_artifact \<Rightarrow>
    ('s, exn, cell_result) io" where
  "check_output rt ag rr i m =
    bindM (next_artifact_id rt) (\<lambda>aid.
    bindM (validateMaker rt (ci_household i) (ci_task i) aid
      \<lparr>sch_name = ''maker-artifact'', sch_version = 1\<rparr> (maker_artifact_json m)) (\<lambda>a.
    bindM (beginChecker rt (ci_household i) (ci_task i)) (\<lambda>_.
    bindM (requireM (VerificationTaskSchemaV1 (verification_task_of i a)) ZodError) (\<lambda>_.
    thenM (run_checker rt ag rr i a)
      (cell_failed rt i Checker_running [a] Phase_checker_generation (al_identity (wc_checker (ci_cell i))))
      (settle_verdict rt i m a)))))"

definition make_and_check :: "'s runtime \<Rightarrow> agents \<Rightarrow> role_registries \<Rightarrow> cell_input \<Rightarrow>
    ('s, exn, cell_result) io" where
  "make_and_check rt ag rr i =
    (let role = al_identity (wc_maker (ci_cell i)) in
     thenM (run_maker rt ag rr i)
       (cell_failed rt i Maker_running [] Phase_maker_generation role)
       (\<lambda>m. case validated_output (ci_cell i) (ci_evidence i) m of
          Inl e \<Rightarrow> cell_failed rt i Maker_running [] Phase_maker_validation role e
        | Inr m' \<Rightarrow> check_output rt ag rr i m'))"

definition cell_task :: "cell_input \<Rightarrow> int \<Rightarrow> nat \<Rightarrow> create_task" where
  "cell_task i limit deadline =
    \<lparr>ct_household = ci_household i, ct_task = ci_task i, ct_parent = ci_parent i, ct_team = ci_team i,
     ct_attempt_limit = limit, ct_deadline = Some deadline\<rparr>"

definition executeWorkCell :: "'s runtime \<Rightarrow> agents \<Rightarrow> role_registries \<Rightarrow> cell_input \<Rightarrow>
    ('s, exn, cell_result) io" where
  "executeWorkCell rt ag rr i =
    (let cell = ci_cell i in
     bindM (requireM (sk_name (ci_skill i) \<in> set (wc_skills cell))
       (policy_rejected ''work_cell_skill_not_allowed'')) (\<lambda>_.
     bindM (liftE (resolve (rd_policies rt) (al_policy (wc_maker cell)))) (\<lambda>mp.
     bindM (liftE (resolve (rd_policies rt) (al_policy (wc_checker cell)))) (\<lambda>cp.
     bindM (rd_clock rt) (\<lambda>now.
     bindM (requireM (wc_input_ok cell (ci_input i)) ZodError) (\<lambda>_.
     bindM (runtime_createTask rt
       (cell_task i 1 (now + nat (min (rp_team_deadline mp) (rp_team_deadline cp))))) (\<lambda>_.
     bindM (selectContract rt (ci_household i) (ci_task i) (ci_skill i) (wc_input_schema cell)
       (wc_output_schema cell) (rp_identity mp)) (\<lambda>_.
     bindM (beginMaker rt (ci_household i) (ci_task i)) (\<lambda>_.
     make_and_check rt ag rr i)))))))))"

end
