(* ===== verification/TeamSafety.thy ===== *)
theory TeamSafety
  imports TeamExecution MutationSafety
begin

text \<open>
  What a work cell guarantees, for every fault schedule of the database and whatever the agents answer:
  every step keeps the invariant of the whole system; the answer is the state the task was left in; and
  an answer with an accepting verdict means that the verdict is recorded for the stored artifact of
  exactly the maker output the answer carries.
\<close>

section \<open>Every step is steady\<close>

lemma steady_holds:
  assumes "keeps (db_moves quiet) m" and "\<And>d. work_ok d \<Longrightarrow> holds m d"
  shows "keeps (db_moves steady) m"
proof (rule keeps_steady [OF assms(1)], rule keeps_dwp)
  fix d
  show "dwp m (\<lambda>_. preserves work_ok d) (\<lambda>_. preserves work_ok d) d"
  proof (cases "work_ok d")
    case True
    then show ?thesis by (intro dwp_mono [OF assms(2)]) (auto simp: preserves_def)
  next
    case False
    then show ?thesis
      by (intro dwp_mono [OF keeps_dwp_rel [OF assms(1)]]) (auto simp: preserves_def)
  qed
qed

lemma quiet_runs:
  "statement_along quiet (sql_insert_run ri)" "statement_along quiet (sql_finish_run rid s f c r)"
  "statement_along quiet (sql_insert_attempt ai)" "statement_along quiet (sql_finish_attempt fi)"
  by (rule statement_alongI, rule quiet_tables;
      auto simp: sql_insert_run_def sql_finish_run_def sql_insert_attempt_def sql_finish_attempt_def
        Let_def split: if_splits)+

lemma core_runs:
  "statement_along core (sql_insert_run ri)" "statement_along core (sql_finish_run rid s f c r)"
  "statement_along core (sql_insert_attempt ai)" "statement_along core (sql_finish_attempt fi)"
  by (rule statement_alongI;
      auto simp: core_def sql_insert_run_def sql_finish_run_def sql_insert_attempt_def
        sql_finish_attempt_def Let_def split: if_splits)+

lemma steady_runs:
  "keeps (db_moves steady) (startRun ri)" "keeps (db_moves steady) (finishRun rid s f c r)"
  "keeps (db_moves steady) (startAttempt ai)" "keeps (db_moves steady) (finishAttempt fi)"
  by (rule steady_core;
      unfold startRun_def finishRun_def startAttempt_def finishAttempt_def requireId_def;
      intro quiet.keeps_pool core.keeps_pool quiet_runs core_runs)+

lemma postgres_ledger_runs [simp]:
  "lp_start_run postgres_ledger = startRun" "lp_finish_run postgres_ledger = finishRun"
  "lp_start_attempt postgres_ledger = startAttempt" "lp_finish_attempt postgres_ledger = finishAttempt"
  by (simp_all add: postgres_ledger_def)

lemma steady_run_agent: "keeps (db_moves steady) (run_agent (postgres_runtime ps h) ag i schema)"
  unfolding run_agent_def start_attempt_or_fail_def call_agent_def Let_def postgres_runtime_simps
    postgres_ledger_runs
  by (intro steady.keeps_pool steady_runs)

lemma quiet_move: "keeps (db_moves quiet) (move (postgres_runtime ps h) hh task from to r t f b)"
  unfolding move_def by (intro quiet.keeps_pool) (simp add: quiet_transition)

lemma quiet_requireTask: "keeps (db_moves quiet) (requireTask (postgres_runtime ps h) hh task)"
  unfolding requireTask_def by (intro quiet.keeps_pool) (simp add: quiet_find_task)

lemma quiet_requireStatus: "keeps (db_moves quiet) (requireStatus (postgres_runtime ps h) hh task s)"
  unfolding requireStatus_def by (intro quiet.keeps_pool quiet_requireTask)

lemma quiet_save: "keeps (db_moves quiet) (save h postgres_artifacts a)"
  unfolding save_def postgres_artifacts_def artifact_repo.simps findByTaskAndHash_def findWhere_def
  by (intro quiet.keeps_pool quiet_artifacts read_only_along)

lemma quiet_newEnvelope:
  "keeps (db_moves quiet) (newEnvelope (postgres_runtime ps h) hh task aid ty schema payload)"
  unfolding newEnvelope_def createArtifactEnvelope_def requireId_def Let_def postgres_runtime_simps
  by (intro quiet.keeps_pool)

lemmas quiet_steps = quiet_move quiet_requireTask quiet_requireStatus quiet_save quiet_newEnvelope
  quiet_contract quiet_verdict quiet_latest quiet_find_task quiet_create

lemma steady_create: "keeps (db_moves steady) (createTask i)"
  by (rule steady_holds [OF quiet_create holds_create])

lemma steady_select:
  "keeps (db_moves steady) (selectContract (postgres_runtime ps h) hh task skill input out policy)"
  by (rule steady_holds [OF _ holds_select_contract])
    (unfold selectContract_def postgres_runtime_simps postgres_ledger_simps,
     intro quiet.keeps_pool quiet_steps)

lemma steady_begin_maker: "keeps (db_moves steady) (beginMaker (postgres_runtime ps h) hh task)"
  by (rule steady_holds [OF _ holds_begin_maker])
    (unfold beginMaker_def moveFromCurrent_def, intro quiet.keeps_pool quiet_steps)

lemma steady_validate_maker:
  "keeps (db_moves steady) (validateMaker (postgres_runtime ps h) hh task aid schema payload)"
  by (rule steady_holds [OF _ holds_validateMaker])
    (unfold validateMaker_def postgres_runtime_simps postgres_ledger_simps,
     intro quiet.keeps_pool quiet_steps)

lemma steady_begin_checker: "keeps (db_moves steady) (beginChecker (postgres_runtime ps h) hh task)"
  unfolding beginChecker_def by (rule steady_holds [OF quiet_move holds_move]) auto

lemma steady_validate_checker:
  "keeps (db_moves steady) (validateChecker (postgres_runtime ps h) hh task aid v)"
  by (rule steady_holds [OF _ holds_validateChecker])
    (unfold validateChecker_def postgres_runtime_simps postgres_ledger_simps,
     intro quiet.keeps_pool quiet_steps)

lemma steady_complete: "keeps (db_moves steady) (complete (postgres_runtime ps h) hh task c)"
  by (rule steady_holds [OF _ holds_complete])
    (unfold complete_def postgres_runtime_simps postgres_ledger_simps,
     intro quiet.keeps_pool quiet_steps)

lemma steady_fail:
  "keeps (db_moves steady) (fail_task (postgres_runtime ps h) hh task from category resumable)"
  unfolding fail_task_def by (rule steady_holds [OF quiet_move holds_move]) auto

lemmas steady_steps = steady_run_agent steady_create steady_select steady_begin_maker
  steady_validate_maker steady_begin_checker steady_validate_checker steady_complete steady_fail

text \<open>Then the whole work cell is.\<close>

lemma steady_sum:
  "(\<And>e. r = Inl e \<Longrightarrow> keeps (db_moves steady) (f e)) \<Longrightarrow> (\<And>x. r = Inr x \<Longrightarrow> keeps (db_moves steady) (g x)) \<Longrightarrow>
   keeps (db_moves steady) (case r of Inl e \<Rightarrow> f e | Inr x \<Rightarrow> g x)"
  by (cases r) auto

lemma steady_thenM:
  fixes m :: "('d opsdb, 'a) dbm"
  assumes "keeps (db_moves steady) m" "\<And>e. keeps (db_moves steady) (h e)" "\<And>x. keeps (db_moves steady) (k x)"
  shows "keeps (db_moves steady) (thenM m h k)"
  by (rule keeps_dwp, rule dwp_thenM, rule dwp_mono [OF keeps_dwp_rel [OF assms(1)]])
    (auto intro!: dwp_mono [OF keeps_dwp_rel [OF assms(2)]] dwp_mono [OF keeps_dwp_rel [OF assms(3)]]
      intro: steady.db_trans)

lemma steady_finish_cell: "keeps (db_moves steady) (finish_cell (postgres_runtime ps h) i m a v x)"
  unfolding finish_cell_def Let_def by (intro steady.keeps_pool steady_steps)

lemma steady_settle_verdict: "keeps (db_moves steady) (settle_verdict (postgres_runtime ps h) i m a v)"
  unfolding settle_verdict_def next_artifact_id_def postgres_runtime_simps
  by (intro steady.keeps_pool steady_steps steady_sum steady_finish_cell)

lemma steady_cell_failed:
  "keeps (db_moves steady) (cell_failed (postgres_runtime ps h) i from makers phase role e)"
  unfolding cell_failed_def by (intro steady.keeps_pool steady_steps)

lemma steady_check_output: "keeps (db_moves steady) (check_output (postgres_runtime ps h) ag rr i m)"
  unfolding check_output_def run_checker_def Let_def next_artifact_id_def postgres_runtime_simps
  by (intro steady.keeps_pool steady_steps steady_thenM steady_cell_failed steady_settle_verdict)

lemma steady_execute_cell: "keeps (db_moves steady) (executeWorkCell (postgres_runtime ps h) ag rr i)"
  unfolding executeWorkCell_def make_and_check_def run_maker_def Let_def runtime_createTask_def
    postgres_runtime_simps postgres_ledger_simps
  by (intro steady.keeps_pool steady_steps steady_thenM steady_cell_failed steady_sum steady_check_output)

section \<open>What the steps answer\<close>

text \<open>Only what a method answers matters here; the state after an error is steady anyway.\<close>

abbreviation answers :: "('d opsdb, 'a) dbm \<Rightarrow> ('a \<Rightarrow> 'd opsdb \<Rightarrow> bool) \<Rightarrow> 'd opsdb \<Rightarrow> bool" where
  "answers m Q d \<equiv> dwp m Q (\<lambda>_ _. True) d"

lemma answers_steady:
  assumes "keeps (db_moves steady) m" and "\<And>x d'. steady d d' \<Longrightarrow> Q x d'"
  shows "answers m Q d"
  by (rule dwp_mono [OF keeps_dwp_rel [OF assms(1)]]) (auto intro: assms(2))

text \<open>A steady step with a known answer.\<close>

lemma answers_step:
  assumes "keeps (db_moves steady) m" and "system_ok d" and "answers m Q' d"
    and "\<And>x d'. Q' x d' \<Longrightarrow> steady d d' \<Longrightarrow> system_ok d' \<Longrightarrow> Q x d'"
  shows "answers m Q d"
  by (rule dwp_mono [OF dwp_conj [OF assms(3) keeps_dwp_rel [OF assms(1)]]])
    (auto intro: assms(4) steady_system [OF _ assms(2)])

lemma answers_any: "keeps (db_moves steady) m \<Longrightarrow> answers m (\<lambda>_ _. True) d"
  by (rule answers_steady) auto

lemma quiet_artifacts_kept: "quiet d d' \<Longrightarrow> set (artifact_rows d) \<subseteq> set (artifact_rows d')"
  by (auto simp: quiet_def extends_def artifact_rows_def)

lemma quiet_verdicts_kept: "quiet d d' \<Longrightarrow> set (verdicts d) \<subseteq> set (verdicts d')"
  by (auto simp: quiet_def extends_def)

definition status_in :: "string \<Rightarrow> string \<Rightarrow> task_status \<Rightarrow> 'd opsdb \<Rightarrow> bool" where
  "status_in hh task s d \<longleftrightarrow> map_option t_status (find_task_row hh task d) = Some s"

lemma answers_move:
  assumes "households_ok d"
  shows "answers (move (postgres_runtime ps h) hh task from to r t f b)
    (\<lambda>_ d'. status_in hh task to d' \<and> quiet d d') d"
proof -
  have "dwp (move (postgres_runtime ps h) hh task from to r t f b)
      (\<lambda>_. status_in hh task to) (\<lambda>_ _. True) d"
    unfolding move_def
    by (intro dwp_bindM dwp_liftE, simp, rule dwp_mono [OF transition_dwp [OF assms]])
      (auto simp: status_in_def dest: transition_effect_status(3) [where hh = hh and task = task])
  from dwp_conj [OF this keeps_dwp_rel [OF quiet_move]] show ?thesis by (rule dwp_mono) auto
qed

lemma answers_fail:
  assumes "system_ok d"
  shows "answers (fail_task (postgres_runtime ps h) hh task from category resumable)
    (\<lambda>_. status_in hh task Failed) d"
  unfolding fail_task_def
  by (rule dwp_mono [OF answers_move [OF system_households [OF assms]]]) auto

lemma answers_complete:
  assumes "system_ok d"
  shows "answers (complete (postgres_runtime ps h) hh task c)
    (\<lambda>_. status_in hh task (completion_status c)) d"
  unfolding complete_def postgres_runtime_simps postgres_ledger_simps
  by (intro dwp_bindM dwp_requireTask dwp_latest dwp_requireM)
    (auto intro!: dwp_mono [OF answers_move [OF system_households [OF assms]]])

lemma answers_save:
  "answers (save h postgres_artifacts a)
    (\<lambda>b d'. b \<in> set (artifact_rows d') \<and> ar_household b = ar_household a \<and> ar_task b = ar_task a
       \<and> ar_hash b = hashArtifact h (ar_payload a) \<and> quiet d d') d"
proof -
  have "dwp (save h postgres_artifacts a)
      (\<lambda>b d'. b \<in> set (artifact_rows d') \<and> ar_household b = ar_household a \<and> ar_task b = ar_task a
         \<and> ar_hash b = hashArtifact h (ar_payload a)) (\<lambda>_ _. True) d"
  proof (rule dwpI)
    fix w :: "'a opsdb world"
    assume "wdb w = d" "txn w = None"
    then show "wp (save h postgres_artifacts a)
        (\<lambda>x w'. txn w' = None \<and> x \<in> set (artifact_rows (wdb w')) \<and> ar_household x = ar_household a
           \<and> ar_task x = ar_task a \<and> ar_hash x = hashArtifact h (ar_payload a))
        (\<lambda>e w'. txn w' = None \<and> True) w"
      by (intro wp_mono [OF pg.save_spec]) (auto simp: no_transaction_def stored_artifacts_def)
  qed
  from dwp_conj [OF this keeps_dwp_rel [OF quiet_save]] show ?thesis by (rule dwp_mono) auto
qed

definition envelope_for :: "string \<Rightarrow> string \<Rightarrow> json \<Rightarrow> artifact \<Rightarrow> bool" where
  "envelope_for hh task payload a \<longleftrightarrow>
     ar_household a = hh \<and> ar_task a = task \<and> ar_payload a = payload"

lemma answers_newEnvelope:
  "answers (newEnvelope (postgres_runtime ps h) hh task aid ty schema payload)
    (\<lambda>a d'. envelope_for hh task payload a \<and> d' = d) d"
  unfolding newEnvelope_def createArtifactEnvelope_def requireId_def Let_def
  by (simp, intro dwp_rules) (auto simp: envelope_for_def)

text \<open>The stored artifact of a payload.\<close>

definition stored_as :: "hashing \<Rightarrow> string \<Rightarrow> string \<Rightarrow> json \<Rightarrow> artifact \<Rightarrow> 'd opsdb \<Rightarrow> bool" where
  "stored_as h hh task payload a d \<longleftrightarrow> a \<in> set (artifact_rows d) \<and> ar_household a = hh \<and> ar_task a = task
     \<and> ar_hash a = hashArtifact h payload"

lemma stored_as_quiet: "stored_as h hh task payload a d \<Longrightarrow> quiet d d' \<Longrightarrow> stored_as h hh task payload a d'"
  using quiet_artifacts_kept by (fastforce simp: stored_as_def)

lemma steady_quiet: "steady d d' \<Longrightarrow> quiet d d'"
  by (simp add: steady_def)

lemma answers_validateMaker:
  "answers (validateMaker (postgres_runtime ps h) hh task aid schema payload)
    (\<lambda>a. stored_as h hh task payload a) d"
  unfolding validateMaker_def
proof (intro dwp_bindM dwp_requireStatus, rule dwp_mono [OF answers_newEnvelope], goal_cases)
  case (1 t a d1)
  then have a: "envelope_for hh task payload a" "d1 = d" by simp_all
  show ?case
    unfolding a(2)
  proof (rule dwp_bindM, simp, rule dwp_mono [OF answers_save], goal_cases)
    case (1 b d2)
    then have b: "stored_as h hh task payload b d2"
      using a(1) by (simp add: stored_as_def envelope_for_def)
    show ?case
      by (intro dwp_bindM dwp_mono [OF keeps_dwp_rel [OF quiet_contract(2)]] TrueI
          dwp_mono [OF keeps_dwp_rel [OF quiet_move]] dwp_ret)
        (use b in \<open>auto intro: stored_as_quiet\<close>)
  qed auto
qed auto

definition verdict_recorded :: "string \<Rightarrow> string \<Rightarrow> checker_verdict \<Rightarrow> 'd opsdb \<Rightarrow> bool" where
  "verdict_recorded hh task v d \<longleftrightarrow>
     (\<exists>r \<in> set (verdicts d). vd_household r = hh \<and> vd_task r = task \<and> same_verdict v r)"

lemma verdict_recorded_quiet: "verdict_recorded hh task v d \<Longrightarrow> quiet d d' \<Longrightarrow> verdict_recorded hh task v d'"
  using quiet_verdicts_kept by (fastforce simp: verdict_recorded_def)

lemma insert_verdict_recorded:
  assumes "sql_insert_verdict hh task aid v now d = Inr (n, d')"
  shows "n = 0 \<and> d' = d \<or> verdict_recorded hh task v d'"
  using assms by (auto simp: sql_insert_verdict_def verdict_recorded_def same_verdict_def split: if_splits)

lemma find_verdict_recorded:
  "find (verdict_of hh task aid) (verdicts d) = Some r \<Longrightarrow> same_verdict v r \<Longrightarrow> verdict_recorded hh task v d"
  unfolding verdict_recorded_def by (rule bexI [of _ r]) (auto simp: verdict_of_def dest: find_SomeD)

lemma link_checker_recorded:
  "sql_link_checker hh task aid now d = Inr (u, d') \<Longrightarrow> verdict_recorded hh task v d \<Longrightarrow>
   verdict_recorded hh task v d'"
  by (auto simp: sql_link_checker_def verdict_recorded_def split: if_splits)

lemma answers_record_verdict:
  "answers (recordCheckerVerdict hh task aid v) (\<lambda>_. verdict_recorded hh task v) d"
  unfolding recordCheckerVerdict_def
proof (rule dwp_mono [OF dwp_transactionally])
  show "twp (recordCheckerVerdict_body hh task aid v) (\<lambda>_. verdict_recorded hh task v) d"
    unfolding recordCheckerVerdict_body_def requireId_def
    by (intro twp_rules loadTask_twp)
      (auto simp: read_only_def split: option.splits
        dest: insert_verdict_recorded find_verdict_recorded link_checker_recorded)
qed auto

lemma steady_save: "keeps (db_moves steady) (save h postgres_artifacts a)"
  by (rule steady_holds [OF quiet_save holds_save])

lemma steady_record_verdict: "keeps (db_moves steady) (recordCheckerVerdict hh task aid v)"
  by (rule steady_holds [OF quiet_verdict holds_verdict])

lemma answers_validateChecker:
  assumes "system_ok d"
  shows "answers (validateChecker (postgres_runtime ps h) hh task aid v)
    (\<lambda>_ d'. verdict_recorded hh task v d' \<and> status_in hh task Checker_validated d') d"
  unfolding validateChecker_def
proof (intro dwp_bindM dwp_requireStatus dwp_requireM, rule dwp_mono [OF answers_newEnvelope], goal_cases)
  case (1 t a d1)
  then have d1: "d1 = d" by simp
  show ?case
    unfolding d1
  proof (rule dwp_bindM, simp, rule answers_step [OF steady_save assms answers_save], goal_cases)
    case (1 b d2)
    show ?case
    proof (rule dwp_bindM, rule answers_step [OF steady_record_verdict 1(3) answers_record_verdict], goal_cases)
      case (1 u d3)
      show ?case
        by (rule dwp_bindM, rule dwp_mono [OF answers_move [OF system_households [OF 1(3)]]])
          (auto intro!: dwp_ret verdict_recorded_quiet [OF 1(1)])
    qed
  qed
qed auto

section \<open>The answer of a work cell\<close>

definition left_status :: "cell_result \<Rightarrow> task_status" where
  "left_status r = (if cl_state r = Mutation_pending then Checker_validated
     else completion_status (cell_completion (cl_status r)))"

text \<open>A maker output the cell admits.\<close>

definition admitted_output :: "cell_input \<Rightarrow> maker_artifact \<Rightarrow> bool" where
  "admitted_output i m \<longleftrightarrow>
     same_schema (mk_output_schema m) (wc_output_schema (ci_cell i))
     \<and> wc_output_parse (ci_cell i) (mk_output m) \<noteq> None \<and> cites_permitted (ci_evidence i) m"

text \<open>The output was stored, and the verdict on exactly the stored artifact is accepting and recorded.\<close>

definition checked_output :: "hashing \<Rightarrow> cell_input \<Rightarrow> artifact \<Rightarrow> checker_verdict \<Rightarrow> maker_artifact \<Rightarrow>
    'd opsdb \<Rightarrow> bool" where
  "checked_output h i a v m d \<longleftrightarrow>
     admitted_output i m \<and> stored_as h (ci_household i) (ci_task i) (maker_artifact_json m) a d
     \<and> cv_verdict v = V_accepted \<and> cv_artifact v = ar_id a \<and> cv_hash v = ar_hash a
     \<and> verdict_recorded (ci_household i) (ci_task i) v d"

definition work_done :: "hashing \<Rightarrow> cell_input \<Rightarrow> cell_result \<Rightarrow> 'd opsdb \<Rightarrow> bool" where
  "work_done h i r d \<longleftrightarrow>
     cl_household r = ci_household i \<and> cl_task r = ci_task i \<and> cl_mutation r = None
     \<and> status_in (ci_household i) (ci_task i) (left_status r) d
     \<and> (cl_state r = Mutation_pending \<longleftrightarrow> cl_effect r \<noteq> Effect_none)
     \<and> (cl_effect r \<noteq> Effect_none \<longrightarrow> cl_status r = TR_verified)
     \<and> (cl_status r = TR_verified \<longrightarrow> (\<exists>m. cl_accepted r = Some m \<and> mk_claims m \<noteq> []))
     \<and> (\<forall>m. cl_accepted r = Some m \<longrightarrow>
          (\<exists>a v. cl_makers r = [a] \<and> cl_verdicts r = [v] \<and> checked_output h i a v m d))"

lemma validated_output_admitted:
  assumes "validated_output (ci_cell i) (ci_evidence i) m = Inr m'"
  shows "admitted_output i m'"
proof -
  have cites: "concat (map (\<lambda>c. filter (\<lambda>e. e \<notin> ar_id ` set es) (mk_evidence c)) (mk_claims x)) = []
      \<Longrightarrow> cites_permitted es x" for es x
    by (auto simp: cites_permitted_def list_all_iff filter_empty_conv)
  from assms show ?thesis
    by (auto simp: validated_output_def Let_def admitted_output_def assertMakerOutputSchemaIdentity_def
        assertMakerClaimsUsePermittedEvidence_def split: sum.splits if_splits intro!: cites)
qed

lemma terminal_evaluation_verified:
  assumes "terminal_evaluation cell stop es m v = Inr x" and "ev_status x = TR_verified"
  shows "cv_verdict v = V_accepted \<and> mk_claims m \<noteq> []"
  using assms
  by (auto simp: terminal_evaluation_def evaluated_def terminalFor_def Let_def split: sum.splits if_splits)

lemma answers_cell_failed:
  assumes "system_ok d"
  shows "answers (cell_failed (postgres_runtime ps h) i from makers phase role e) (work_done h i) d"
  unfolding cell_failed_def
  by (intro dwp_if dwp_bindM dwp_mono [OF answers_fail [OF assms]])
    (auto intro!: dwp_raise dwp_liftE
      simp: failedResult_def work_done_def left_status_def cell_completion_def split: sum.splits)

lemma answers_finish_cell:
  assumes ok: "system_ok d" and x: "terminal_evaluation (ci_cell i) (ci_stop i) (ci_evidence i) m v = Inr x"
    and out: "cv_verdict v = V_accepted \<Longrightarrow> checked_output h i a v m d"
    and status: "status_in (ci_household i) (ci_task i) Checker_validated d"
  shows "answers (finish_cell (postgres_runtime ps h) i m a v x) (work_done h i) d"
proof -
  let ?effect = "effect_of i m v x"
  have verified: "?effect \<noteq> Effect_none \<Longrightarrow> ev_status x = TR_verified"
    by (simp add: effect_of_def split: if_splits)
  have kept: "checked_output h i a v m d'" if "steady d d'" "cv_verdict v = V_accepted" for d'
    using out [OF that(2)] steady_quiet [OF that(1)]
    by (auto simp: checked_output_def intro: stored_as_quiet verdict_recorded_quiet)
  have moved: "answers (if ?effect = Effect_none
        then bindM (complete (postgres_runtime ps h) (ci_household i) (ci_task i) (cell_completion (ev_status x)))
          (\<lambda>_. ret ()) else ret ())
      (\<lambda>_ d'. steady d d' \<and> status_in (ci_household i) (ci_task i)
         (if ?effect = Effect_none then completion_status (cell_completion (ev_status x)) else Checker_validated) d') d"
    by (intro dwp_if dwp_bindM answers_step [OF steady_complete ok answers_complete [OF ok]])
      (auto intro!: dwp_ret simp: status steady.db_refl)
  show ?thesis
    unfolding finish_cell_def Let_def
    by (rule dwp_bindM, rule dwp_mono [OF moved])
      (auto intro!: dwp_bindM dwp_if dwp_liftE dwp_ret
        simp: work_done_def left_status_def kept verified terminal_evaluation_verified [OF x])
qed

lemma answers_settle_verdict:
  assumes ok: "system_ok d" and m: "admitted_output i m"
    and a: "stored_as h (ci_household i) (ci_task i) (maker_artifact_json m) a d"
  shows "answers (settle_verdict (postgres_runtime ps h) i m a v) (work_done h i) d"
  unfolding settle_verdict_def next_artifact_id_def postgres_runtime_simps
proof (intro dwp_if dwp_bindM answers_any steady_fail dwp_ulid dwp_ret
    dwp_mono [OF answers_any [OF steady_fail]] dwp_raise TrueI, goal_cases)
  case (1 u)
  then have covers: "cv_artifact v = ar_id a" "cv_hash v = ar_hash a" by simp_all
  show ?case
  proof (rule answers_step [OF steady_validate_checker ok answers_validateChecker [OF ok]], goal_cases)
    case (1 b d1)
    note d1 = 1
    show ?case
    proof (cases "terminal_evaluation (ci_cell i) (ci_stop i) (ci_evidence i) m v")
      case (Inl e)
      then show ?thesis
        by (auto intro!: dwp_bindM dwp_mono [OF answers_any [OF steady_complete]] dwp_raise)
    next
      case (Inr x)
      have "checked_output h i a v m d1" if "cv_verdict v = V_accepted"
        using that d1 m covers stored_as_quiet [OF a steady_quiet [OF d1(2)]]
        by (simp add: checked_output_def)
      then have "answers (finish_cell (postgres_runtime ps h) i m a v x) (work_done h i) d1"
        using d1 by (intro answers_finish_cell [OF _ Inr]) auto
      with Inr show ?thesis by simp
    qed
  qed
qed

lemma answers_check_output:
  assumes ok: "system_ok d" and m: "admitted_output i m"
  shows "answers (check_output (postgres_runtime ps h) ag rr i m) (work_done h i) d"
  unfolding check_output_def next_artifact_id_def postgres_runtime_simps
proof (intro dwp_bindM dwp_ulid dwp_ret, rule answers_step [OF steady_validate_maker ok answers_validateMaker], goal_cases)
  case (1 u a d1)
  note a = 1(1)
  show ?case
  proof (rule dwp_bindM, rule answers_step [OF steady_begin_checker 1(3) answers_any [OF steady_begin_checker]], goal_cases)
    case (1 b d2)
    note a2 = stored_as_quiet [OF a steady_quiet [OF 1(2)]]
    have run: "keeps (db_moves steady) (run_checker (postgres_runtime ps h) ag rr i a)"
      unfolding run_checker_def Let_def by (intro steady.keeps_pool steady_run_agent)
    show ?case
    proof (intro dwp_bindM dwp_requireM TrueI dwp_thenM, rule dwp_mono [OF keeps_dwp_rel [OF run]], goal_cases)
      case (1 v d3)
      show ?case
        by (rule answers_settle_verdict [OF _ m])
          (use \<open>system_ok d2\<close> 1 a2 in \<open>auto intro: steady_system stored_as_quiet steady_quiet\<close>)
    next
      case (2 e d3)
      show ?case
        by (rule answers_cell_failed) (use \<open>system_ok d2\<close> 2 in \<open>auto intro: steady_system\<close>)
    qed
  qed
qed

lemma answers_make_and_check:
  assumes ok: "system_ok d"
  shows "answers (make_and_check (postgres_runtime ps h) ag rr i) (work_done h i) d"
proof -
  have run: "keeps (db_moves steady) (run_maker (postgres_runtime ps h) ag rr i)"
    unfolding run_maker_def Let_def by (intro steady.keeps_pool steady_run_agent)
  have ok': "system_ok d'" if "steady d d'" for d' using that ok by (rule steady_system)
  show ?thesis
    unfolding make_and_check_def Let_def
  proof (rule dwp_thenM, rule dwp_mono [OF keeps_dwp_rel [OF run]], goal_cases)
    case (1 m d1)
    then show ?case
      by (auto split: sum.split intro!: answers_cell_failed answers_check_output ok'
          validated_output_admitted)
  qed (auto intro: answers_cell_failed ok')
qed

lemma execute_cell_answers:
  assumes ok: "system_ok d"
  shows "answers (executeWorkCell (postgres_runtime ps h) ag rr i) (work_done h i) d"
proof -
  have step: "answers (bindM m f) (work_done h i) d'"
    if "keeps (db_moves steady) m" "system_ok d'"
      "\<And>x d''. system_ok d'' \<Longrightarrow> answers (f x) (work_done h i) d''" for m f d'
    by (rule dwp_bindM, rule answers_step [OF that(1,2) answers_any [OF that(1)]]) (rule that(3))
  show ?thesis
    unfolding executeWorkCell_def Let_def runtime_createTask_def postgres_runtime_simps
      postgres_ledger_simps
    by (intro step steady.keeps_pool steady_steps ok answers_make_and_check)
qed

end
