(* ===== verification/MutationCoordinator.thy ===== *)
theory MutationCoordinator
  imports TeamExecution
begin

text \<open>
  The link between checked work and checked mutations:
  packages/mutations/src/checked-mutation-work-cell-coordinator.ts. A work cell whose output is a
  proposal leaves its task at \<open>checker_validated\<close>; the coordinator makes the proposal a command, has
  the mutation executor run it, and completes the task once the read-back has proved it.

  The adapter that chooses the type of the command is a parameter; the coordinator rejects one that
  changes anything else.
\<close>

record build_input =
  bi_command :: string
  bi_idem :: string
  bi_confirmation :: "string option"
  bi_household :: string
  bi_task :: string
  bi_proposal :: string
  bi_hash :: string
  bi_schema :: schema_identity
  bi_payload :: json

type_synonym command_adapter = "build_input \<Rightarrow> exn + checked_command"

datatype preparation = Not_a_mutation cell_result | Prepared_mutation cell_result checked_command

definition isTerminalNonMutationResult :: "cell_result \<Rightarrow> bool" where
  "isTerminalNonMutationResult r \<longleftrightarrow> cl_state r = Terminal \<and> cl_effect r = Effect_none"

definition checked_mutation_result_invalid :: exn where
  "checked_mutation_result_invalid =
    plusOne Constraint_violation ''checked_mutation_result_invalid'' Never False"

text \<open>The one artifact, the accepted output and the proposal schema of a deferred result.\<close>

definition deferred_proposal :: "hashing \<Rightarrow> cell_result \<Rightarrow> exn + (artifact \<times> maker_artifact \<times> schema_identity)" where
  "deferred_proposal h r =
    (case (cl_effect r, cl_accepted r) of
       (Effect_mutation schema rule, Some m) \<Rightarrow>
         if cl_status r \<noteq> TR_verified \<or> cl_state r \<noteq> Mutation_pending \<or> cl_makers r = []
            \<or> canonicalizeJson h (ar_payload (last (cl_makers r))) \<noteq> canonicalizeJson h (maker_artifact_json m)
         then Inl checked_mutation_result_invalid
         else Inr (last (cl_makers r), m, schema)
     | _ \<Rightarrow> Inl checked_mutation_result_invalid)"

definition unchanged_command :: "hashing \<Rightarrow> build_input \<Rightarrow> checked_command \<Rightarrow> bool" where
  "unchanged_command h common c \<longleftrightarrow>
     cc_id c = bi_command common \<and> cc_idem c = bi_idem common \<and> cc_household c = bi_household common
     \<and> cc_task c = bi_task common \<and> cc_proposal c = bi_proposal common
     \<and> cc_proposal_hash c = bi_hash common
     \<and> canonicalizeJson h (schema_json (cc_schema c)) = canonicalizeJson h (schema_json (bi_schema common))
     \<and> canonicalizeJson h (cc_payload c) = canonicalizeJson h (bi_payload common)
     \<and> cc_confirmation c = bi_confirmation common"

definition assertUnchangedCheckedCommand :: "hashing \<Rightarrow> build_input \<Rightarrow> checked_command \<Rightarrow> exn + unit" where
  "assertUnchangedCheckedCommand h common c =
    (if unchanged_command h common c then Inr ()
     else Inl (plusOne Validation_rejected ''mutation_adapter_changed_checked_identity'' Never False))"

definition common_of :: "cell_result \<Rightarrow> string \<Rightarrow> string \<Rightarrow> artifact \<Rightarrow> maker_artifact \<Rightarrow> schema_identity \<Rightarrow>
    build_input" where
  "common_of r cid idem a m schema =
    \<lparr>bi_command = cid, bi_idem = idem, bi_confirmation = None, bi_household = cl_household r,
     bi_task = cl_task r, bi_proposal = ar_id a, bi_hash = ar_hash a, bi_schema = schema,
     bi_payload = mk_output m\<rparr>"

definition build_checked :: "hashing \<Rightarrow> command_adapter \<Rightarrow> build_input \<Rightarrow> exn + checked_command" where
  "build_checked h adapter common =
    (case adapter common of
       Inl e \<Rightarrow> Inl e
     | Inr c \<Rightarrow>
         if \<not> CheckedCommandSchemaV1 c then Inl ZodError
         else (case assertUnchangedCheckedCommand h common c of Inl e \<Rightarrow> Inl e | Inr _ \<Rightarrow> Inr c))"

definition prepare_work :: "hashing \<Rightarrow> 'd opsdb world runtime \<Rightarrow> agents \<Rightarrow> role_registries \<Rightarrow> cell_input \<Rightarrow>
    string \<Rightarrow> string \<Rightarrow> command_adapter \<Rightarrow> ('d opsdb, preparation) dbm" where
  "prepare_work h rt ag rr i cid idem adapter =
    bindM (executeWorkCell rt ag rr i) (\<lambda>r.
      if isTerminalNonMutationResult r then ret (Not_a_mutation r)
      else
        bindM (liftE (deferred_proposal h r)) (\<lambda>(a, m, schema).
        bindM (liftE (build_checked h adapter (common_of r cid idem a m schema))) (\<lambda>c.
        ret (Prepared_mutation (r\<lparr>cl_mutation := Some (Prepared c)\<rparr>) c))))"

definition finalize_mutation :: "'d opsdb world runtime \<Rightarrow> checked_command \<Rightarrow> ('d opsdb, unit) dbm" where
  "finalize_mutation rt c =
    bindM (lp_find_task (rd_ledger rt) (cc_household c) (cc_task c)) (\<lambda>t.
      if map_option ts_status t = Some Verified then ret ()
      else
        bindM (requireM (map_option ts_status t = Some Readback_verified)
          (plusOne Constraint_violation ''mutation_readback_not_verified'' After_state_resolution True)) (\<lambda>_.
        bindM (complete rt (cc_household c) (cc_task c) Complete_verified) (\<lambda>_. ret ())))"

definition effect_rule :: "effect_requirement \<Rightarrow> confirmation_rule option" where
  "effect_rule e = (case e of Effect_none \<Rightarrow> None | Effect_mutation schema rule \<Rightarrow> Some rule)"

definition run_and_finalize :: "hashing \<Rightarrow> 'd opsdb world runtime \<Rightarrow> mutation_policy \<Rightarrow> locale_order \<Rightarrow>
    'd registry \<Rightarrow> checked_command \<Rightarrow> ('d opsdb, verified_mutation) dbm" where
  "run_and_finalize h rt p le reg c =
    bindM (requireM (CheckedCommandSchemaV1 c) ZodError) (\<lambda>_.
    bindM (execute_mutation h p le reg c) (\<lambda>x.
    bindM (finalize_mutation rt c) (\<lambda>_. ret x)))"

definition with_confirmation :: "string option \<Rightarrow> checked_command \<Rightarrow> checked_command" where
  "with_confirmation confirmation c =
    (case confirmation of None \<Rightarrow> c | Some i \<Rightarrow> c\<lparr>cc_confirmation := Some i\<rparr>)"

definition executePrepared :: "hashing \<Rightarrow> 'd opsdb world runtime \<Rightarrow> mutation_policy \<Rightarrow> locale_order \<Rightarrow>
    'd registry \<Rightarrow> cell_result \<Rightarrow> checked_command \<Rightarrow> string option \<Rightarrow> ('d opsdb, cell_result) dbm" where
  "executePrepared h rt p le reg r c confirmation =
    bindM (requireM (\<not> (effect_rule (cl_effect r) = Some Confirm_required \<and> confirmation = None))
      (plusOne Confirmation_required ''external_confirmation_required'' After_state_resolution False)) (\<lambda>_.
    bindM (run_and_finalize h rt p le reg (with_confirmation confirmation c)) (\<lambda>x.
    ret (r\<lparr>cl_state := Terminal, cl_mutation := Some (Persisted (vm_receipt x) (vm_readback x))\<rparr>)))"

definition coordinate_mutation :: "hashing \<Rightarrow> 'd opsdb world runtime \<Rightarrow> mutation_policy \<Rightarrow> locale_order \<Rightarrow>
    'd registry \<Rightarrow> agents \<Rightarrow> role_registries \<Rightarrow> cell_input \<Rightarrow> string \<Rightarrow> string \<Rightarrow> string option \<Rightarrow>
    command_adapter \<Rightarrow> ('d opsdb, cell_result) dbm" where
  "coordinate_mutation h rt p le reg ag rr i cid idem confirmation adapter =
    bindM (prepare_work h rt ag rr i cid idem adapter) (\<lambda>prepared.
      case prepared of
        Not_a_mutation r \<Rightarrow> raise checked_mutation_result_invalid
      | Prepared_mutation r c \<Rightarrow> executePrepared h rt p le reg r c confirmation)"

definition resume_mutation :: "hashing \<Rightarrow> 'd opsdb world runtime \<Rightarrow> mutation_policy \<Rightarrow> locale_order \<Rightarrow>
    'd registry \<Rightarrow> checked_command \<Rightarrow> ('d opsdb, verified_mutation) dbm" where
  "resume_mutation h rt p le reg c = run_and_finalize h rt p le reg c"

end
