(* ===== verification/CheckedTeams.thy ===== *)
theory CheckedTeams
  imports TeamSafety MutationCoordinator CheckedMutations
begin

text \<open>
  The guarantees of the team layer, stated for whole calls of the team executor and of the mutation
  coordinator on the PostgreSQL model, with concrete runs that satisfy their hypotheses.
\<close>

section \<open>Checked work\<close>

text \<open>
  C9. Work that is answered for was checked. Run any work cell against any agents, on a database whose
  round trips may fail at any point. Whatever happens, the invariant of the system is kept. If the
  executor answers, the task is in the status the answer reports (or in \<open>checker_validated\<close>, when a
  checked mutation is still to run); an answer that is verified carries an accepted maker output with at
  least one claim; and an accepted maker output satisfies the schema of the cell, cites permitted
  evidence only, was stored under the hash of its content, and has a recorded accepting verdict for
  exactly that artifact and hash.
\<close>

theorem executed_work_is_checked:
  assumes "txn w = None" and "system_ok (wdb w)"
    and "executeWorkCell (postgres_runtime policies h) ag rr i w = (answer, w')"
  shows "txn w' = None \<and> system_ok (wdb w')
    \<and> (\<forall>r. answer = Inr r \<longrightarrow> work_done h i r (wdb w'))"
proof -
  have "dwp (executeWorkCell (postgres_runtime policies h) ag rr i)
      (\<lambda>r d'. work_done h i r d' \<and> steady (wdb w) d') (\<lambda>_ d'. True \<and> steady (wdb w) d') (wdb w)"
    by (rule dwp_conj [OF execute_cell_answers [OF assms(2)] keeps_dwp_rel [OF steady_execute_cell]])
  from dwpD [OF this assms(1)] assms(3) show ?thesis
    by (cases answer) (auto simp: wp_def intro: steady_system [OF _ assms(2)])
qed


text \<open>A cell that proposes an entry, and agents that make and accept one.\<close>

definition team_hashing :: hashing where
  "team_hashing =
    \<lparr>canonicalize = (\<lambda>j. if json_field ''verdict'' j = None then ''b'' else ''c''),
     sha256 = (\<lambda>s. replicate 64 (hd s))\<rparr>"

definition team_skill :: skill_registration where
  "team_skill =
    \<lparr>sg_identity = \<lparr>sk_name = ''post'', sk_version = 1, sk_hash = replicate 64 (CHR ''b'')\<rparr>,
     sg_content = ''Post entries'', sg_teams = [''accounting''],
     sg_roles = [''entry-maker'', ''entry-checker''], sg_maker = [], sg_rubric = []\<rparr>"

definition team_role :: "role_kind \<Rightarrow> string \<Rightarrow> agent_role" where
  "team_role kind name =
    \<lparr>al_identity = \<lparr>ro_name = name, ro_version = 1\<rparr>, al_kind = kind, al_agent = name,
     al_policy = \<lparr>pi_name = ''maker'', pi_version = 12\<rparr>\<rparr>"

definition team_registries :: role_registries where
  "team_registries =
    \<lparr>rr_skills = [(skill_key (sg_identity team_skill), team_skill)],
     rr_tools = [(''accounting:entry-maker:1'', []), (''accounting:entry-checker:1'', [])]\<rparr>"

lemma team_registries_register:
  "SkillRegistry team_hashing [team_skill] [] = Inr (rr_skills team_registries)"
  "ToolPermissionRegistry
     [\<lparr>tp_team = ''accounting'', tp_role = \<lparr>ro_name = ''entry-maker'', ro_version = 1\<rparr>, tp_tools = []\<rparr>,
      \<lparr>tp_team = ''accounting'', tp_role = \<lparr>ro_name = ''entry-checker'', ro_version = 1\<rparr>, tp_tools = []\<rparr>]
     [] = Inr (rr_tools team_registries)"
  by code_simp+

definition entry_cell :: work_cell where
  "entry_cell =
    \<lparr>wc_id = ''entry'', wc_maker = team_role Kind_maker ''entry-maker'',
     wc_checker = team_role Kind_checker ''entry-checker'', wc_input_ok = (\<lambda>j. True),
     wc_output_parse = Some, wc_input_schema = \<lparr>sch_name = ''entry-request'', sch_version = 1\<rparr>,
     wc_output_schema = entry_schema, wc_effects = Proposals [(entry_schema, Confirm_forbidden)],
     wc_rubric = \<lparr>cb_name = ''entry-rubric'', cb_version = 1, cb_instructions = [''Check the entry'']\<rparr>,
     wc_skills = [''post''],
     wc_evaluate = (\<lambda>stop m v evidence.
       Inr \<lparr>ev_status = TR_verified, ev_reason = ''accepted'', ev_outstanding = []\<rparr>)\<rparr>"

definition entry_output :: maker_artifact where
  "entry_output =
    \<lparr>mk_output_schema = entry_schema, mk_output = entry_payload,
     mk_claims = [\<lparr>mk_claim_id = ''c1'', mk_text = ''One entry'', mk_evidence = []\<rparr>],
     mk_assumptions = [], mk_uncertainty = []\<rparr>"

definition entry_agents :: agents where
  "entry_agents =
    \<lparr>ag_generate = (\<lambda>c. Inr (if ac_kind c = Kind_maker then maker_artifact_json entry_output
        else JObj [(''verdict'', JStr ''accepted''), (''findings'', JArr [])])),
     ag_signal = (\<lambda>c. Signal_clear)\<rparr>"

definition entry_input :: cell_input where
  "entry_input =
    \<lparr>ci_household = sample_hh, ci_task = sample_task_id, ci_parent = None, ci_team = ''accounting'',
     ci_cell = entry_cell, ci_skill = sg_identity team_skill, ci_input = JNull, ci_evidence = [],
     ci_labels = [], ci_stop = \<lparr>so_code = ''done'', so_description = ''One entry''\<rparr>\<rparr>"

text \<open>A supply of distinct identifiers.\<close>

definition team_world :: "fault list \<Rightarrow> nat opsdb world" where
  "team_world fs = (sample_world (empty_db 0) fs)
    \<lparr>ulids := (\<lambda>n. replicate 25 (CHR ''0'') @ [''0123456789ABCDEFGHJK'' ! n])\<rparr>"

abbreviation team_runtime :: "nat opsdb world runtime" where
  "team_runtime \<equiv> postgres_runtime [(''maker@12'', sample_policy)] team_hashing"

text \<open>An agent whose answer is no maker artifact: the cell fails, and the task with it.\<close>

definition idle_agents :: agents where
  "idle_agents = \<lparr>ag_generate = (\<lambda>c. Inr JNull), ag_signal = (\<lambda>c. Signal_clear)\<rparr>"

abbreviation idle_run :: "(exn + cell_result) \<times> nat opsdb world" where
  "idle_run \<equiv> executeWorkCell team_runtime idle_agents team_registries entry_input (team_world [])"

lemma idle_run_fails:
  "case fst idle_run of Inl e \<Rightarrow> False
   | Inr r \<Rightarrow> cl_state r = Terminal \<and> cl_effect r = Effect_none \<and> cl_status r = TR_failed
       \<and> cl_outstanding r = [''agent_output_schema_failed'']"
  by code_simp

lemma team_world_ok: "txn (team_world []) = None" "system_ok (wdb (team_world []))"
  by code_simp+

theorem executed_work_is_checked_witness:
  "system_ok (wdb (snd idle_run))
   \<and> (\<exists>r. fst idle_run = Inr r \<and> cl_status r = TR_failed \<and> work_done team_hashing entry_input r (wdb (snd idle_run)))"
proof -
  obtain r where "fst idle_run = Inr r" "cl_status r = TR_failed"
    using idle_run_fails by (auto split: sum.splits)
  with executed_work_is_checked [OF team_world_ok prod.collapse [symmetric]] show ?thesis by simp
qed

section \<open>Coordinated mutations\<close>

lemma deferred_proposal_Inr:
  assumes "deferred_proposal h r = Inr (a, m, schema)"
  shows "cl_accepted r = Some m \<and> cl_makers r \<noteq> [] \<and> a = last (cl_makers r) \<and> cl_status r = TR_verified"
  using assms by (auto simp: deferred_proposal_def split: effect_requirement.splits option.splits if_splits)

lemma build_checked_Inr:
  "build_checked h adapter common = Inr c \<Longrightarrow> unchanged_command h common c"
  by (auto simp: build_checked_def assertUnchangedCheckedCommand_def split: sum.splits if_splits)

text \<open>What the coordinator proves of a command before it answers.\<close>

definition mutation_proved :: "locale_order \<Rightarrow> checked_command \<Rightarrow> verified_mutation \<Rightarrow> 'd opsdb \<Rightarrow> bool" where
  "mutation_proved le c x d \<longleftrightarrow>
     status_in (cc_household c) (cc_task c) Verified d
     \<and> registered_as le c d
     \<and> stored_receipt (cc_household c) (cc_id c) d = Some (vm_receipt x)
     \<and> stored_readback (cc_household c) (cc_id c) d = Some (vm_readback x)
     \<and> rb_ok (vm_readback x)"

lemma mutation_proved_receipt:
  assumes "mutation_proved le c x d"
  shows "mr_proposal (vm_receipt x) = cc_proposal c" "mr_proposal_hash (vm_receipt x) = cc_proposal_hash c"
proof -
  obtain row where row: "find_command_row (cc_household c) (cc_id c) d = Some row" "row_matches c row"
    using assms by (auto simp: mutation_proved_def registered_as_def)
  then obtain k where "receipt_of row k = vm_receipt x"
    using assms by (auto simp: mutation_proved_def stored_receipt_def split: option.splits)
  from this [symmetric] row(2) show "mr_proposal (vm_receipt x) = cc_proposal c"
    "mr_proposal_hash (vm_receipt x) = cc_proposal_hash c"
    by (simp_all add: receipt_of_def row_matches_def)
qed

lemma finalize_dwp:
  assumes ready: "ready le reg c d0 d" and outcome: "verified_outcome c x d"
  shows "dwp (finalize_mutation (postgres_runtime ps h) c)
    (\<lambda>_ d'. safe le reg c d0 d' \<and> mutation_proved le c x d') (\<lambda>_. safe le reg c d0) d"
proof -
  have ok: "system_ok d" and safe: "safe le reg c d0 d" using ready by (simp_all add: ready_def safe_def)
  have proved: "mutation_proved le c x d'"
    if "steady d d'" "status_in (cc_household c) (cc_task c) Verified d'" for d'
    using that outcome ready quiet_stored_receipt [OF steady_quiet [OF that(1)]]
      quiet_stored_readback [OF steady_quiet [OF that(1)]]
      registered_extends [OF _ steady_extends [OF that(1)]]
    by (auto simp: mutation_proved_def verified_outcome_def ready_def)
  have completed: "dwp (complete (postgres_runtime ps h) (cc_household c) (cc_task c) Complete_verified)
      (\<lambda>_ d'. safe le reg c d0 d' \<and> mutation_proved le c x d') (\<lambda>_. safe le reg c d0) d"
    by (rule dwp_mono [OF dwp_conj [OF answers_complete [OF ok] keeps_dwp_rel [OF steady_complete]]])
      (auto intro: proved safe_steady [OF safe])
  show ?thesis
    unfolding finalize_mutation_def postgres_runtime_simps postgres_ledger_simps
  proof (rule dwp_bindM, rule dwp_mono [OF findTask_dwp], goal_cases)
    case (1 t d1)
    then have t: "map_option ts_status t = Some Verified \<Longrightarrow> status_in (cc_household c) (cc_task c) Verified d"
      by (auto simp: status_in_def taskRecord_def option.map_comp comp_def)
    have "dwp (if map_option ts_status t = Some Verified then ret ()
        else bindM (requireM (map_option ts_status t = Some Readback_verified)
          (plusOne Constraint_violation ''mutation_readback_not_verified'' After_state_resolution True)) (\<lambda>_.
        bindM (complete (postgres_runtime ps h) (cc_household c) (cc_task c) Complete_verified) (\<lambda>_. ret ())))
      (\<lambda>_ d'. safe le reg c d0 d' \<and> mutation_proved le c x d') (\<lambda>_. safe le reg c d0) d"
      by (intro dwp_if dwp_bindM dwp_requireM dwp_ret conjI safe proved [OF steady.db_refl] t
          dwp_mono [OF completed]) auto
    with 1 show ?case by simp
  qed (use safe in auto)
qed

lemma run_and_finalize_dwp:
  assumes "system_ok d"
  shows "dwp (run_and_finalize h (postgres_runtime ps h) p le reg c)
    (\<lambda>x d'. safe le reg c d d' \<and> mutation_proved le c x d') (\<lambda>_. safe le reg c d) d"
  unfolding run_and_finalize_def
  by (intro dwp_bindM dwp_requireM dwp_mono [OF execute_ready [OF assms]])
    (auto simp: safe_def own_refl assms intro!: dwp_ret dwp_mono [OF finalize_dwp])

lemma checked_output_extends:
  assumes "checked_output h i a v m d" and "extends d d'"
  shows "checked_output h i a v m d'"
proof -
  have "set (artifact_rows d) \<subseteq> set (artifact_rows d')" "set (verdicts d) \<subseteq> set (verdicts d')"
    using assms(2) by (auto simp: extends_def artifact_rows_def)
  with assms(1) show ?thesis
    by (auto simp: checked_output_def stored_as_def verdict_recorded_def)
qed

lemma safe_extends: "safe le reg c d d' \<Longrightarrow> extends d d'"
  by (simp add: safe_def own_def history_def)

text \<open>A prepared command is the deferred proposal.\<close>

definition prepared_from :: "hashing \<Rightarrow> cell_input \<Rightarrow> string \<Rightarrow> cell_result \<Rightarrow> checked_command \<Rightarrow> 'd opsdb \<Rightarrow> bool" where
  "prepared_from h i cid r c d \<longleftrightarrow>
     cc_id c = cid \<and> cc_household c = ci_household i \<and> cc_task c = ci_task i \<and> cl_status r = TR_verified
     \<and> cl_mutation r = Some (Prepared c)
     \<and> (\<exists>a v m. cl_makers r = [a] \<and> cl_verdicts r = [v] \<and> cl_accepted r = Some m
          \<and> checked_output h i a v m d \<and> cc_proposal c = ar_id a \<and> cc_proposal_hash c = ar_hash a
          \<and> canonicalizeJson h (cc_payload c) = canonicalizeJson h (mk_output m))"

lemma prepare_dwp:
  assumes ok: "system_ok d"
  shows "dwp (prepare_work h (postgres_runtime ps h) ag rr i cid idem adapter)
    (\<lambda>q d'. steady d d' \<and> (\<forall>r c. q = Prepared_mutation r c \<longrightarrow> prepared_from h i cid r c d'))
    (\<lambda>_ d'. steady d d') d"
  unfolding prepare_work_def
proof (rule dwp_bindM, rule dwp_mono [OF dwp_conj [OF execute_cell_answers [OF ok] keeps_dwp_rel [OF steady_execute_cell]]],
    goal_cases)
  case (1 r d')
  have built: "prepared_from h i cid (r\<lparr>cl_mutation := Some (Prepared c)\<rparr>) c d'"
    if "deferred_proposal h r = Inr (a, m, schema)"
      "build_checked h adapter (common_of r cid idem a m schema) = Inr c" for a m schema c
    using 1 deferred_proposal_Inr [OF that(1)] build_checked_Inr [OF that(2)]
    by (auto simp: work_done_def prepared_from_def unchanged_command_def common_of_def)
  show ?case
    by (intro dwp_if dwp_ret dwp_bindM dwp_liftE)
      (use 1 built in \<open>auto intro!: dwp_bindM dwp_liftE dwp_ret split: prod.split\<close>)
qed auto

definition mutation_answer :: "hashing \<Rightarrow> cell_input \<Rightarrow> string \<Rightarrow> cell_result \<Rightarrow> 'd opsdb \<Rightarrow> bool" where
  "mutation_answer h i cid r d \<longleftrightarrow>
     status_in (ci_household i) (ci_task i) Verified d \<and> cl_status r = TR_verified \<and> cl_state r = Terminal
     \<and> (\<exists>a v m receipt readback. cl_makers r = [a] \<and> cl_verdicts r = [v] \<and> cl_accepted r = Some m
          \<and> checked_output h i a v m d \<and> cl_mutation r = Some (Persisted receipt readback)
          \<and> stored_receipt (ci_household i) cid d = Some receipt
          \<and> stored_readback (ci_household i) cid d = Some readback \<and> rb_ok readback
          \<and> mr_proposal receipt = ar_id a \<and> mr_proposal_hash receipt = ar_hash a)"

lemma with_confirmation_simps [simp]:
  "cc_id (with_confirmation x c) = cc_id c" "cc_household (with_confirmation x c) = cc_household c"
  "cc_task (with_confirmation x c) = cc_task c" "cc_proposal (with_confirmation x c) = cc_proposal c"
  "cc_proposal_hash (with_confirmation x c) = cc_proposal_hash c"
  by (simp_all add: with_confirmation_def split: option.split)

lemma executePrepared_dwp:
  assumes ok: "system_ok d" and prep: "prepared_from h i cid r c d"
  shows "dwp (executePrepared h (postgres_runtime ps h) p le reg r c confirmation)
    (\<lambda>r d'. history le reg d d' \<and> system_ok d' \<and> mutation_answer h i cid r d')
    (\<lambda>_ d'. history le reg d d' \<and> system_ok d') d"
proof -
  let ?c = "with_confirmation confirmation c"
  have hist: "history le reg d d' \<and> system_ok d'" if "safe le reg ?c d d'" for d'
    using that by (simp add: safe_def own_def)
  have answer: "mutation_answer h i cid
      (r\<lparr>cl_state := Terminal, cl_mutation := Some (Persisted (vm_receipt x) (vm_readback x))\<rparr>) d'"
    if "safe le reg ?c d d'" "mutation_proved le ?c x d'" for x d'
    using prep that(2) mutation_proved_receipt [OF that(2)]
      checked_output_extends [OF _ safe_extends [OF that(1)]]
    by (auto simp: prepared_from_def mutation_answer_def mutation_proved_def)
  show ?thesis
    unfolding executePrepared_def
    by (intro dwp_bindM dwp_requireM dwp_mono [OF run_and_finalize_dwp [OF ok, of _ _ _ le reg ?c]])
      (use hist answer ok in \<open>auto intro!: dwp_ret intro: history_refl\<close>)
qed

text \<open>
  A resumed mutation is proved. Resume any checked command on a database whose round trips may fail
  at any point. The invariant of the system is kept, and the domain only runs the registered handlers
  of new receipts. If \<open>resume\<close> answers, the task of the command is verified, and the receipt and the
  positive read-back it answers with are the stored ones, for the proposal the command names.
\<close>

theorem resumed_mutation_is_proved:
  assumes "txn w = None" and "system_ok (wdb w)"
    and "resume_mutation h (postgres_runtime policies h) p le reg c w = (answer, w')"
  shows "system_ok (wdb w') \<and> history le reg (wdb w) (wdb w')
    \<and> (\<forall>x. answer = Inr x \<longrightarrow> mutation_proved le c x (wdb w')
         \<and> mr_proposal (vm_receipt x) = cc_proposal c \<and> mr_proposal_hash (vm_receipt x) = cc_proposal_hash c)"
proof -
  have "dwp (resume_mutation h (postgres_runtime policies h) p le reg c)
      (\<lambda>x d'. safe le reg c (wdb w) d' \<and> mutation_proved le c x d') (\<lambda>_. safe le reg c (wdb w)) (wdb w)"
    unfolding resume_mutation_def by (rule run_and_finalize_dwp [OF assms(2)])
  from dwpD [OF this assms(1)] assms(3) show ?thesis
    by (cases answer) (auto simp: wp_def safe_def own_def mutation_proved_receipt)
qed

text \<open>A command whose read-back is stored, and whose task still has to be completed.\<close>

definition readback_db :: "nat opsdb" where
  "readback_db = booked_db
    \<lparr>tasks := map (\<lambda>t. t\<lparr>t_status := Readback_verified\<rparr>) (tasks booked_db),
     commands := [entry_row Cmd_readback_verified],
     receipts := map (\<lambda>r. r\<lparr>rt_id := receipt_id_for (cc_id entry_command)\<rparr>) (receipts booked_db),
     readbacks := [\<lparr>rk_household = sample_hh, rk_command = cc_id entry_command,
        rk_receipt = receipt_id_for (cc_id entry_command), rk_id = ''readback_00000000000000000000000001'', rk_ok = True,
        rk_checks = [\<lparr>rc_kind = Ck_row_values, rc_status = Check_passed, rc_detail = None\<rparr>],
        rk_mismatches = [], rk_hash = replicate 64 (CHR ''b'')\<rparr>]\<rparr>"

abbreviation resumed_run :: "(exn + verified_mutation) \<times> nat opsdb world" where
  "resumed_run \<equiv> resume_mutation ledger_hashing (postgres_runtime [] ledger_hashing) eager_policy text_le
     entry_registry entry_command (sample_world readback_db [])"

lemma readback_ok: "system_ok readback_db"
  by code_simp

lemma resumed_run_answers: "case fst resumed_run of Inl e \<Rightarrow> False | Inr x \<Rightarrow> rb_ok (vm_readback x)"
  by code_simp

theorem resumed_mutation_is_proved_witness:
  "system_ok (wdb (snd resumed_run))
   \<and> (\<exists>x. fst resumed_run = Inr x \<and> mutation_proved text_le entry_command x (wdb (snd resumed_run)))"
proof -
  obtain x where x: "fst resumed_run = Inr x"
    using resumed_run_answers by (auto split: sum.splits)
  have "txn (sample_world readback_db []) = None" "system_ok (wdb (sample_world readback_db []))"
    by (simp_all add: readback_ok)
  from resumed_mutation_is_proved [OF this prod.collapse [symmetric]] x show ?thesis by simp
qed

text \<open>
  C8. A coordinated mutation is proved. Run a work cell through the coordinator, against any agents, with
  any adapter, confirmation, registry of handlers and fault schedule. The invariant of the system is
  kept, and the domain only runs the registered handlers of new receipts. If the coordinator answers, the
  work was checked (as \<open>executed_work_is_checked\<close> says), the task is verified, and the answer carries the
  stored receipt and the stored positive read-back of a command for exactly the artifact and the hash the
  checker accepted.
\<close>

theorem coordinated_mutation_is_proved:
  assumes "txn w = None" and "system_ok (wdb w)"
    and "coordinate_mutation h (postgres_runtime policies h) p le reg ag rr i cid idem confirmation adapter w
      = (answer, w')"
  shows "system_ok (wdb w') \<and> history le reg (wdb w) (wdb w')
    \<and> (\<forall>r. answer = Inr r \<longrightarrow> mutation_answer h i cid r (wdb w'))"
proof -
  have "dwp (coordinate_mutation h (postgres_runtime policies h) p le reg ag rr i cid idem confirmation adapter)
      (\<lambda>r d'. history le reg (wdb w) d' \<and> system_ok d' \<and> mutation_answer h i cid r d')
      (\<lambda>_ d'. history le reg (wdb w) d' \<and> system_ok d') (wdb w)"
    unfolding coordinate_mutation_def
  proof (rule dwp_bindM, rule dwp_mono [OF prepare_dwp [OF assms(2)]], goal_cases)
    case (1 q d)
    have h: "history le reg (wdb w) d" "system_ok d"
      using 1 assms(2) by (auto intro: quiet_history [OF steady_quiet] steady_system)
    show ?case
    proof (cases q)
      case (Not_a_mutation r)
      with h show ?thesis by (auto intro: dwp_raise)
    next
      case (Prepared_mutation r c)
      then have "prepared_from h i cid r c d" using 1 by simp
      from executePrepared_dwp [OF h(2) this] show ?thesis
        unfolding Prepared_mutation preparation.case
        by (rule dwp_mono) (auto intro: history_trans [OF h(1)])
    qed
  next
    case (2 e d)
    then show ?case using assms(2) by (auto intro: quiet_history [OF steady_quiet] steady_system)
  qed
  from dwpD [OF this assms(1)] assms(3) show ?thesis by (cases answer) (auto simp: wp_def)
qed

text \<open>The failed cell makes no command.\<close>

definition entry_adapter :: command_adapter where
  "entry_adapter b = Inr
     \<lparr>cc_id = bi_command b, cc_household = bi_household b, cc_task = bi_task b, cc_proposal = bi_proposal b,
      cc_proposal_hash = bi_hash b, cc_type = ''post_entry'', cc_idem = bi_idem b,
      cc_confirmation = bi_confirmation b, cc_schema = bi_schema b, cc_payload = bi_payload b\<rparr>"

abbreviation coordinated_run :: "(exn + cell_result) \<times> nat opsdb world" where
  "coordinated_run \<equiv> coordinate_mutation team_hashing team_runtime eager_policy text_le entry_registry
     idle_agents team_registries entry_input (cc_id entry_command) (cc_idem entry_command) None
     entry_adapter (team_world [])"

theorem coordinated_mutation_is_proved_witness:
  "fst coordinated_run = Inl checked_mutation_result_invalid \<and> system_ok (wdb (snd coordinated_run))
   \<and> history text_le entry_registry (wdb (team_world [])) (wdb (snd coordinated_run))"
proof -
  obtain r w' where run: "idle_run = (Inr r, w')" "isTerminalNonMutationResult r"
    using idle_run_fails by (cases idle_run) (auto simp: isTerminalNonMutationResult_def split: sum.splits)
  then have "fst coordinated_run = Inl checked_mutation_result_invalid"
    by (simp add: coordinate_mutation_def prepare_work_def bindM_def ret_def raise_def)
  with coordinated_mutation_is_proved [OF team_world_ok prod.collapse [symmetric]] show ?thesis by simp
qed

end
