(* ===== verification/WorkingMemory.thy ===== *)
theory WorkingMemory
  imports JsonText Channels "HOL-Library.AList"
begin

text \<open>
  Working memory, what the assistant remembers of a household: its schemas
  (packages/contracts/src/working-memory.ts), the comparison of values
  (apps/engine/src/memory/working-memory-taxonomy.ts) and the operations on a document
  (apps/engine/src/memory/working-memory-document.ts).

  A document is an object of entries: a list of pairs with distinct keys, in which a new property comes
  last and an existing one keeps its place. Instants are numbers, inside JSON as well. A schema that trims
  texts is a function to what it parses.
\<close>

section \<open>Values\<close>

definition DANGEROUS_WORKING_MEMORY_KEYS :: "string list" where
  "DANGEROUS_WORKING_MEMORY_KEYS = [''__proto__'', ''prototype'', ''constructor'']"

definition memory_key :: "string \<Rightarrow> bool" where
  "memory_key k \<longleftrightarrow> length k \<le> 128 \<and> k \<notin> set DANGEROUS_WORKING_MEMORY_KEYS"

fun validateWorkingMemoryValue :: "nat \<Rightarrow> json \<Rightarrow> bool" where
  "validateWorkingMemoryValue n (JStr s) \<longleftrightarrow> n \<le> 6 \<and> length s \<le> 500"
| "validateWorkingMemoryValue n (JArr js) \<longleftrightarrow>
     n \<le> 6 \<and> length js \<le> 20 \<and> list_all (validateWorkingMemoryValue (Suc n)) js"
| "validateWorkingMemoryValue n (JObj kvs) \<longleftrightarrow>
     n \<le> 6 \<and> length kvs \<le> 50
     \<and> list_all (\<lambda>(k, j). memory_key k \<and> validateWorkingMemoryValue (Suc n) j) kvs"
| "validateWorkingMemoryValue n j \<longleftrightarrow> n \<le> 6"

text \<open>
  The separate search for dangerous keys at any depth finds none where the bounded one passes.
\<close>

definition WorkingMemoryValueSchema :: "json \<Rightarrow> bool" where
  "WorkingMemoryValueSchema j \<longleftrightarrow> validateWorkingMemoryValue 0 j"

text \<open>\<open>Object.keys(value).sort()\<close>, on every level.\<close>

fun text_less :: "string \<Rightarrow> string \<Rightarrow> bool" where
  "text_less s [] \<longleftrightarrow> False"
| "text_less [] (c # cs) \<longleftrightarrow> True"
| "text_less (a # as) (c # cs) \<longleftrightarrow> (if a = c then text_less as cs else char_le a c)"

fun insert_key :: "string \<times> json \<Rightarrow> (string \<times> json) list \<Rightarrow> (string \<times> json) list" where
  "insert_key kv [] = [kv]"
| "insert_key kv (x # xs) = (if text_less (fst x) (fst kv) then x # insert_key kv xs else kv # x # xs)"

fun canonicalizeWorkingMemoryValue :: "json \<Rightarrow> json" where
  "canonicalizeWorkingMemoryValue (JArr js) = JArr (map canonicalizeWorkingMemoryValue js)"
| "canonicalizeWorkingMemoryValue (JObj kvs) =
     JObj (foldr insert_key (map (\<lambda>(k, j). (k, canonicalizeWorkingMemoryValue j)) kvs) [])"
| "canonicalizeWorkingMemoryValue j = j"

section \<open>Entries and documents\<close>

datatype memory_kind =
    Mem_goal | Mem_saving_preference | Mem_communication_preference | Mem_convention
  | Mem_member_context | Mem_other

fun kind_name :: "memory_kind \<Rightarrow> string" where
  "kind_name Mem_goal = ''goal''"
| "kind_name Mem_saving_preference = ''saving_preference''"
| "kind_name Mem_communication_preference = ''communication_preference''"
| "kind_name Mem_convention = ''convention''"
| "kind_name Mem_member_context = ''member_context''"
| "kind_name Mem_other = ''other''"

definition all_kinds :: "memory_kind list" where
  "all_kinds = [Mem_goal, Mem_saving_preference, Mem_communication_preference, Mem_convention,
     Mem_member_context, Mem_other]"

definition parse_kind :: "string \<Rightarrow> memory_kind option" where
  "parse_kind s = find (\<lambda>k. kind_name k = s) all_kinds"

datatype memory_scope = Scope_household | Scope_member

fun scope_name :: "memory_scope \<Rightarrow> string" where
  "scope_name Scope_household = ''household''"
| "scope_name Scope_member = ''member''"

definition parse_scope :: "string \<Rightarrow> memory_scope option" where
  "parse_scope s = find (\<lambda>k. scope_name k = s) [Scope_household, Scope_member]"

record memory_lifecycle =
  lc_created :: nat
  lc_updated :: nat
  lc_reviewed :: "nat option"
  lc_expires :: "nat option"

record memory_entry =
  me_kind :: memory_kind
  me_summary :: string
  me_scope :: memory_scope
  me_owner :: "string option"
  me_value :: json
  me_lifecycle :: "memory_lifecycle option"

definition WorkingMemoryEntrySchema :: "memory_entry \<Rightarrow> memory_entry option" where
  "WorkingMemoryEntrySchema e =
    (let s = trim (me_summary e) in
     if text_between 1 500 s \<and> optional (text_between 1 512) (me_owner e)
        \<and> WorkingMemoryValueSchema (me_value e) \<and> ((me_scope e = Scope_member) = (me_owner e \<noteq> None))
     then Some (e\<lparr>me_summary := s\<rparr>) else None)"

type_synonym memory_document = "(string \<times> memory_entry) list"

text \<open>An entry as JSON, with a rendering of instants.\<close>

definition field_if :: "string \<Rightarrow> ('a \<Rightarrow> json) \<Rightarrow> 'a option \<Rightarrow> (string \<times> json) list" where
  "field_if k f v = (case v of None \<Rightarrow> [] | Some x \<Rightarrow> [(k, f x)])"

definition lifecycle_json :: "(nat \<Rightarrow> json) \<Rightarrow> memory_lifecycle \<Rightarrow> json" where
  "lifecycle_json f l = JObj
     ([(''createdAt'', f (lc_created l)), (''updatedAt'', f (lc_updated l))]
      @ field_if ''lastReviewedAt'' f (lc_reviewed l) @ field_if ''expiresAt'' f (lc_expires l))"

definition entry_json :: "(nat \<Rightarrow> json) \<Rightarrow> memory_entry \<Rightarrow> json" where
  "entry_json f e = JObj
     ([(''kind'', JStr (kind_name (me_kind e))), (''summary'', JStr (me_summary e)),
       (''scope'', JStr (scope_name (me_scope e)))]
      @ field_if ''ownerPrincipalRef'' JStr (me_owner e)
      @ [(''value'', me_value e)]
      @ field_if ''lifecycle'' (lifecycle_json f) (me_lifecycle e))"

definition document_json :: "(nat \<Rightarrow> json) \<Rightarrow> memory_document \<Rightarrow> json" where
  "document_json f d = JObj
     [(''version'', JNum 1), (''entries'', JObj (map (\<lambda>(i, e). (i, entry_json f e)) d))]"

definition instant_json :: "nat \<Rightarrow> json" where
  "instant_json t = JNum (int t)"

text \<open>\<open>new TextEncoder().encode(s).byteLength\<close>.\<close>

definition utf8_length :: "string \<Rightarrow> nat" where
  "utf8_length s = sum_list (map (\<lambda>c. if char_le c (CHR 0x7F) then 1 else 2) s)"

definition document_bytes :: "memory_document \<Rightarrow> nat" where
  "document_bytes d = utf8_length (json_stringify (document_json (\<lambda>t. JStr (toISOString t)) d))"

definition validateWorkingMemoryDocumentBounds :: "memory_document \<Rightarrow> bool" where
  "validateWorkingMemoryDocumentBounds d \<longleftrightarrow> length d \<le> 50 \<and> document_bytes d \<le> 64 * 1024"

fun parse_entries :: "memory_document \<Rightarrow> memory_document option" where
  "parse_entries [] = Some []"
| "parse_entries ((i, e) # d) =
    (if \<not> opaqueIdentifierSchema Id_workingMemoryEntry i then None
     else (case WorkingMemoryEntrySchema e of
        None \<Rightarrow> None
      | Some e' \<Rightarrow> (case parse_entries d of None \<Rightarrow> None | Some d' \<Rightarrow> Some ((i, e') # d'))))"

definition FlexibleWorkingMemorySchema :: "memory_document \<Rightarrow> memory_document option" where
  "FlexibleWorkingMemorySchema d =
    (case parse_entries d of
       None \<Rightarrow> None
     | Some d' \<Rightarrow> if validateWorkingMemoryDocumentBounds d' then Some d' else None)"

section \<open>Mutations and proposals\<close>

datatype memory_mutation =
    Mem_create string memory_entry
  | Mem_replace string memory_entry
  | Mem_delete string
  | Mem_clear

definition ResolvedWorkingMemoryMutationSchema :: "memory_mutation \<Rightarrow> memory_mutation option" where
  "ResolvedWorkingMemoryMutationSchema m =
    (case m of
       Mem_create i e \<Rightarrow>
         if opaqueIdentifierSchema Id_workingMemoryEntry i
         then map_option (Mem_create i) (WorkingMemoryEntrySchema e) else None
     | Mem_replace i e \<Rightarrow>
         if opaqueIdentifierSchema Id_workingMemoryEntry i
         then map_option (Mem_replace i) (WorkingMemoryEntrySchema e) else None
     | Mem_delete i \<Rightarrow> if opaqueIdentifierSchema Id_workingMemoryEntry i then Some m else None
     | Mem_clear \<Rightarrow> Some m)"

record pending_mutation =
  pm_id :: string
  pm_household :: string
  pm_conversation :: string
  pm_speaker :: string
  pm_mutation :: memory_mutation
  pm_revision :: string
  pm_created :: nat
  pm_expires :: nat

definition PendingWorkingMemoryMutationSchema :: "pending_mutation \<Rightarrow> pending_mutation option" where
  "PendingWorkingMemoryMutationSchema p =
    (case ResolvedWorkingMemoryMutationSchema (pm_mutation p) of
       None \<Rightarrow> None
     | Some m \<Rightarrow>
         if opaqueIdentifierSchema Id_workingMemoryProposal (pm_id p)
            \<and> opaqueIdentifierSchema Id_household (pm_household p)
            \<and> opaqueIdentifierSchema Id_conversation (pm_conversation p)
            \<and> text_between 1 512 (pm_speaker p) \<and> sha256_hex (pm_revision p)
            \<and> pm_created p < pm_expires p \<and> pm_expires p \<le> pm_created p + 15 * 60000
         then Some (p\<lparr>pm_mutation := m\<rparr>) else None)"

text \<open>What the tool is called with: \<open>WorkingMemoryMutationToolInputSchema\<close>.\<close>

datatype memory_operation = Op_create | Op_replace | Op_delete | Op_clear

record tool_draft =
  td_operation :: memory_operation
  td_revision :: string
  td_entry :: "string option"
  td_kind :: "memory_kind option"
  td_summary :: "string option"
  td_scope :: "memory_scope option"
  td_value :: "json option"

datatype mutation_draft =
    Draft_create memory_kind string memory_scope json
  | Draft_replace string memory_kind string json
  | Draft_delete string
  | Draft_clear

definition memory_summary :: "string \<Rightarrow> string option" where
  "memory_summary s = (if text_between 1 500 (trim s) then Some (trim s) else None)"

text \<open>\<open>WorkingMemoryMutationDraftSchema\<close>: the fields of the operation, all of them and no others.\<close>

definition WorkingMemoryMutationDraftSchema :: "tool_draft \<Rightarrow> (string \<times> mutation_draft) option" where
  "WorkingMemoryMutationDraftSchema t = do {
     check_that (text_between 1 128 (trim (td_revision t)));
     case td_operation t of
       Op_create \<Rightarrow> do {
         check_that (td_entry t = None);
         k \<leftarrow> td_kind t; s \<leftarrow> Option.bind (td_summary t) memory_summary; sc \<leftarrow> td_scope t;
         v \<leftarrow> td_value t; check_that (WorkingMemoryValueSchema v);
         Some (trim (td_revision t), Draft_create k s sc v) }
     | Op_replace \<Rightarrow> do {
         check_that (td_scope t = None);
         i \<leftarrow> td_entry t; check_that (opaqueIdentifierSchema Id_workingMemoryEntry i);
         k \<leftarrow> td_kind t; s \<leftarrow> Option.bind (td_summary t) memory_summary;
         v \<leftarrow> td_value t; check_that (WorkingMemoryValueSchema v);
         Some (trim (td_revision t), Draft_replace i k s v) }
     | Op_delete \<Rightarrow> do {
         check_that (td_kind t = None \<and> td_summary t = None \<and> td_scope t = None \<and> td_value t = None);
         i \<leftarrow> td_entry t; check_that (opaqueIdentifierSchema Id_workingMemoryEntry i);
         Some (trim (td_revision t), Draft_delete i) }
     | Op_clear \<Rightarrow> do {
         check_that (td_entry t = None \<and> td_kind t = None \<and> td_summary t = None \<and> td_scope t = None
           \<and> td_value t = None);
         Some (trim (td_revision t), Draft_clear) } }"

section \<open>Operations on documents\<close>

definition workingMemoryRevision :: "hashing \<Rightarrow> memory_document \<Rightarrow> string" where
  "workingMemoryRevision h d = hashArtifact h (document_json instant_json d)"

definition canAccessWorkingMemoryEntry :: "memory_entry \<Rightarrow> string \<Rightarrow> bool" where
  "canAccessWorkingMemoryEntry e speaker \<longleftrightarrow>
     me_scope e = Scope_household \<or> me_owner e = Some speaker"

definition visibleWorkingMemoryEntries :: "memory_document \<Rightarrow> string \<Rightarrow> memory_document" where
  "visibleWorkingMemoryEntries d speaker = filter (\<lambda>(i, e). canAccessWorkingMemoryEntry e speaker) d"

definition workingMemoryLifecycleForMutation :: "memory_lifecycle option \<Rightarrow> nat \<Rightarrow> memory_lifecycle" where
  "workingMemoryLifecycleForMutation existing now =
    (case existing of
       None \<Rightarrow> \<lparr>lc_created = now, lc_updated = now, lc_reviewed = None, lc_expires = None\<rparr>
     | Some l \<Rightarrow> l\<lparr>lc_updated := now\<rparr>)"

definition withMutationLifecycle :: "memory_entry \<Rightarrow> memory_lifecycle option \<Rightarrow> nat \<Rightarrow> memory_entry" where
  "withMutationLifecycle e existing now =
    e\<lparr>me_lifecycle := Some (workingMemoryLifecycleForMutation existing now)\<rparr>"

text \<open>The document and the mutation with the revision it is based on, or a code.\<close>

definition write_rejected :: string where
  "write_rejected = ''working_memory_write_rejected''"

definition entry_forbidden :: string where
  "entry_forbidden = ''working_memory_entry_forbidden''"

definition entry_not_found :: string where
  "entry_not_found = ''working_memory_entry_not_found''"

definition accepted_document :: "memory_document \<Rightarrow> string + memory_document" where
  "accepted_document d =
    (case FlexibleWorkingMemorySchema d of None \<Rightarrow> Inl write_rejected | Some d' \<Rightarrow> Inr d')"

definition applyResolvedWorkingMemoryMutation ::
  "memory_document \<Rightarrow> memory_mutation \<Rightarrow> string \<Rightarrow> nat \<Rightarrow> string + memory_document" where
  "applyResolvedWorkingMemoryMutation d mutation speaker now =
    (case ResolvedWorkingMemoryMutationSchema mutation of
       None \<Rightarrow> Inl ''working_memory_mutation_invalid''
     | Some Mem_clear \<Rightarrow> Inr []
     | Some (Mem_create i e) \<Rightarrow>
         if map_of d i \<noteq> None then Inl write_rejected
         else if \<not> canAccessWorkingMemoryEntry e speaker then Inl entry_forbidden
         else accepted_document (AList.update i (withMutationLifecycle e None now) d)
     | Some (Mem_delete i) \<Rightarrow>
         (case map_of d i of
            None \<Rightarrow> Inl entry_not_found
          | Some existing \<Rightarrow>
              if \<not> canAccessWorkingMemoryEntry existing speaker then Inl entry_forbidden
              else accepted_document (AList.delete i d))
     | Some (Mem_replace i e) \<Rightarrow>
         (case map_of d i of
            None \<Rightarrow> Inl entry_not_found
          | Some existing \<Rightarrow>
              if \<not> canAccessWorkingMemoryEntry existing speaker then Inl entry_forbidden
              else if me_scope existing \<noteq> me_scope e \<or> me_owner existing \<noteq> me_owner e
              then Inl entry_forbidden
              else accepted_document (AList.update i (withMutationLifecycle e (me_lifecycle existing) now) d)))"

text \<open>Two texts of JSON are equal when the values are.\<close>

definition comparableWorkingMemoryEntry :: "memory_entry \<Rightarrow> json" where
  "comparableWorkingMemoryEntry e =
    canonicalizeWorkingMemoryValue (entry_json instant_json (e\<lparr>me_lifecycle := None\<rparr>))"

definition has_comparable :: "memory_document \<Rightarrow> string \<Rightarrow> memory_entry \<Rightarrow> bool" where
  "has_comparable d i e \<longleftrightarrow>
    (case map_of d i of
       None \<Rightarrow> False
     | Some x \<Rightarrow> comparableWorkingMemoryEntry x = comparableWorkingMemoryEntry e)"

fun workingMemoryMutationEffectIsPresent :: "memory_document \<Rightarrow> memory_mutation \<Rightarrow> bool" where
  "workingMemoryMutationEffectIsPresent d (Mem_create i e) \<longleftrightarrow> has_comparable d i e"
| "workingMemoryMutationEffectIsPresent d (Mem_replace i e) \<longleftrightarrow> has_comparable d i e"
| "workingMemoryMutationEffectIsPresent d (Mem_delete i) \<longleftrightarrow> map_of d i = None"
| "workingMemoryMutationEffectIsPresent d Mem_clear \<longleftrightarrow> d = []"

fun verifyWorkingMemoryReadback :: "memory_document \<Rightarrow> memory_document \<Rightarrow> memory_mutation \<Rightarrow> bool" where
  "verifyWorkingMemoryReadback before after (Mem_create i e) \<longleftrightarrow>
     has_comparable after i e \<and> map_of before i = None"
| "verifyWorkingMemoryReadback before after (Mem_replace i e) \<longleftrightarrow>
     map_of before i \<noteq> None \<and> \<not> has_comparable before i e \<and> has_comparable after i e"
| "verifyWorkingMemoryReadback before after (Mem_delete i) \<longleftrightarrow>
     map_of before i \<noteq> None \<and> map_of after i = None"
| "verifyWorkingMemoryReadback before after Mem_clear \<longleftrightarrow> after = [] \<and> before \<noteq> []"

definition proposalExpired :: "nat \<Rightarrow> nat \<Rightarrow> bool" where
  "proposalExpired expires now \<longleftrightarrow> expires \<le> now"

lemma verified_effect:
  "verifyWorkingMemoryReadback before after m \<Longrightarrow> workingMemoryMutationEffectIsPresent after m"
  by (cases m) auto

end
