(* ===== verification/MemoryDocuments.thy ===== *)
theory MemoryDocuments
  imports WorkingMemory World
begin

text \<open>
  Stored documents: reading what is stored as JSON, the migration of an older format, and the making of
  mutations out of drafts (apps/engine/src/memory/working-memory-document.ts and the legacy schema of
  packages/contracts/src/working-memory.ts).
\<close>

section \<open>Documents in JSON\<close>

fun parse_pairs :: "(json \<Rightarrow> 'a option) \<Rightarrow> (string \<times> json) list \<Rightarrow> (string \<times> 'a) list option" where
  "parse_pairs p [] = Some []"
| "parse_pairs p ((k, j) # kvs) =
    (case p j of
       None \<Rightarrow> None
     | Some x \<Rightarrow> (case parse_pairs p kvs of None \<Rightarrow> None | Some xs \<Rightarrow> Some ((k, x) # xs)))"

definition parse_object :: "(json \<Rightarrow> 'a option) \<Rightarrow> json \<Rightarrow> (string \<times> 'a) list option" where
  "parse_object p j = (case j of JObj kvs \<Rightarrow> parse_pairs p kvs | _ \<Rightarrow> None)"

text \<open>An optional field: absent, or present and well formed.\<close>

definition optional_field :: "(json \<Rightarrow> 'a option) \<Rightarrow> string \<Rightarrow> json \<Rightarrow> 'a option option" where
  "optional_field p k j = (case json_field k j of None \<Rightarrow> Some None | Some v \<Rightarrow> map_option Some (p v))"

definition json_instant :: "json \<Rightarrow> nat option" where
  "json_instant j = (case j of JNum n \<Rightarrow> if 0 \<le> n then Some (nat n) else None | _ \<Rightarrow> None)"

definition parse_lifecycle :: "json \<Rightarrow> memory_lifecycle option" where
  "parse_lifecycle j = do {
     check_that (strict_object [''createdAt'', ''updatedAt'', ''lastReviewedAt'', ''expiresAt''] j);
     c \<leftarrow> Option.bind (json_field ''createdAt'' j) json_instant;
     u \<leftarrow> Option.bind (json_field ''updatedAt'' j) json_instant;
     r \<leftarrow> optional_field json_instant ''lastReviewedAt'' j;
     e \<leftarrow> optional_field json_instant ''expiresAt'' j;
     Some \<lparr>lc_created = c, lc_updated = u, lc_reviewed = r, lc_expires = e\<rparr> }"

definition parse_entry :: "json \<Rightarrow> memory_entry option" where
  "parse_entry j = do {
     check_that (strict_object [''kind'', ''summary'', ''scope'', ''ownerPrincipalRef'', ''value'', ''lifecycle''] j);
     k \<leftarrow> Option.bind (Option.bind (json_field ''kind'' j) json_string) parse_kind;
     s \<leftarrow> Option.bind (json_field ''summary'' j) json_string;
     sc \<leftarrow> Option.bind (Option.bind (json_field ''scope'' j) json_string) parse_scope;
     ow \<leftarrow> optional_field json_string ''ownerPrincipalRef'' j;
     v \<leftarrow> json_field ''value'' j;
     l \<leftarrow> optional_field parse_lifecycle ''lifecycle'' j;
     Some \<lparr>me_kind = k, me_summary = s, me_scope = sc, me_owner = ow, me_value = v, me_lifecycle = l\<rparr> }"

definition parse_document :: "json \<Rightarrow> memory_document option" where
  "parse_document j = do {
     check_that (strict_object [''version'', ''entries''] j);
     check_that (json_field ''version'' j = Some (JNum 1));
     d \<leftarrow> Option.bind (json_field ''entries'' j) (parse_object parse_entry);
     FlexibleWorkingMemorySchema d }"

lemma parse_kind_name [simp]: "parse_kind (kind_name k) = Some k"
  by (cases k) (simp_all add: parse_kind_def all_kinds_def)

lemma parse_scope_name [simp]: "parse_scope (scope_name k) = Some k"
  by (cases k) (simp_all add: parse_scope_def)

lemma json_instant_json [simp]: "json_instant (instant_json t) = Some t"
  by (simp add: json_instant_def instant_json_def)

lemma parse_lifecycle_json: "parse_lifecycle (lifecycle_json instant_json l) = Some l"
  by (cases l)
    (auto simp: parse_lifecycle_def lifecycle_json_def strict_object_def json_field_def field_if_def
      optional_field_def split: option.split)

lemma parse_entry_json: "parse_entry (entry_json instant_json e) = Some e"
  by (cases e)
    (auto simp: parse_entry_def entry_json_def strict_object_def json_field_def field_if_def
      optional_field_def json_string_def parse_lifecycle_json split: option.split)

lemma parse_document_json: "parse_document (document_json instant_json d) = FlexibleWorkingMemorySchema d"
proof -
  have "parse_pairs parse_entry (map (\<lambda>(i, e). (i, entry_json instant_json e)) d) = Some d"
    by (induction d) (auto simp: parse_entry_json)
  then show ?thesis
    by (simp add: parse_document_def document_json_def strict_object_def json_field_def parse_object_def)
qed

section \<open>The legacy format\<close>

text \<open>
  A schema of the legacy format is the function to the JSON of what it parses. An object has its fields
  in the order of the schema.
\<close>

definition legacy_text :: "json \<Rightarrow> json option" where
  "legacy_text j = map_option JStr (Option.bind (json_string j) memory_summary)"

definition legacy_choice :: "string list \<Rightarrow> json \<Rightarrow> json option" where
  "legacy_choice xs j =
    (case json_string j of None \<Rightarrow> None | Some s \<Rightarrow> if s \<in> set xs then Some j else None)"

definition legacy_list :: "json \<Rightarrow> json option" where
  "legacy_list j =
    (case json_array legacy_text j of
       None \<Rightarrow> None | Some xs \<Rightarrow> if length xs \<le> 20 then Some (JArr xs) else None)"

type_synonym legacy_field = "string \<times> bool \<times> (json \<Rightarrow> json option)"

fun legacy_fields :: "legacy_field list \<Rightarrow> json \<Rightarrow> (string \<times> json) list option" where
  "legacy_fields [] j = Some []"
| "legacy_fields ((k, needed, p) # fs) j =
    (case optional_field p k j of
       None \<Rightarrow> None
     | Some v \<Rightarrow>
         if v = None \<and> needed then None
         else map_option (\<lambda>kvs. field_if k (\<lambda>x. x) v @ kvs) (legacy_fields fs j))"

definition legacy_object :: "legacy_field list \<Rightarrow> json \<Rightarrow> json option" where
  "legacy_object fs j =
    (if strict_object (map fst fs) j then map_option JObj (legacy_fields fs j) else None)"

text \<open>\<open>workingMemoryKey\<close>: \<open>/^[A-Za-z0-9:_./-]+$/\<close>, trimmed.\<close>

definition legacy_key :: "string \<Rightarrow> bool" where
  "legacy_key k \<longleftrightarrow> text_between 1 128 k
     \<and> list_all (\<lambda>c. is_lower c \<or> is_upper c \<or> is_digit c \<or> c \<in> set '':_./-'') k"

definition boundedRecord :: "(json \<Rightarrow> json option) \<Rightarrow> json \<Rightarrow> json option" where
  "boundedRecord p j =
    (case parse_object p j of
       None \<Rightarrow> None
     | Some kvs \<Rightarrow>
         let r = fold (\<lambda>(k, v). AList.update (trim k) v) kvs []
         in if list_all (\<lambda>(k, v). legacy_key k) r \<and> length r \<le> 50 then Some (JObj r) else None)"

definition legacy_goal :: "json \<Rightarrow> json option" where
  "legacy_goal = legacy_object [(''summary'', True, legacy_text), (''horizon'', False, legacy_text),
     (''priority'', False, legacy_choice [''low'', ''medium'', ''high''])]"

definition legacy_savings :: "json \<Rightarrow> json option" where
  "legacy_savings = legacy_object
     [(''style'', False, legacy_choice [''aggressive'', ''balanced'', ''conservative'']),
      (''priorities'', False, legacy_list), (''cadence'', False, legacy_text),
      (''constraints'', False, legacy_list)]"

definition legacy_communication :: "json \<Rightarrow> json option" where
  "legacy_communication = legacy_object [(''tone'', False, legacy_text), (''detail'', False, legacy_text),
     (''reminders'', False, legacy_text)]"

definition legacy_member :: "json \<Rightarrow> json option" where
  "legacy_member = legacy_object [(''nickname'', False, legacy_text), (''preferredName'', False, legacy_text),
     (''communication'', False,
        legacy_object [(''tone'', False, legacy_text), (''detail'', False, legacy_text)])]"

definition legacy_schema :: "legacy_field list" where
  "legacy_schema =
    [(''goals'', False, boundedRecord legacy_goal), (''savingPreferences'', False, legacy_savings),
     (''communication'', False, legacy_communication),
     (''conventions'', False, boundedRecord legacy_text), (''members'', False, boundedRecord legacy_member)]"

definition knownKeys :: "string list" where
  "knownKeys = [''goals'', ''savingPreferences'', ''communication'', ''conventions'', ''members'']"

definition legacy_entry :: "memory_lifecycle \<Rightarrow> memory_kind \<Rightarrow> string \<Rightarrow> string option \<Rightarrow> json \<Rightarrow> memory_entry" where
  "legacy_entry l k s owner v =
    \<lparr>me_kind = k, me_summary = s, me_scope = (if owner = None then Scope_household else Scope_member),
     me_owner = owner, me_value = v, me_lifecycle = Some l\<rparr>"

definition object_pairs :: "json option \<Rightarrow> (string \<times> json) list" where
  "object_pairs v = (case v of Some (JObj kvs) \<Rightarrow> kvs | _ \<Rightarrow> [])"

definition text_of :: "json option \<Rightarrow> string option" where
  "text_of v = Option.bind v json_string"

definition text_or :: "string \<Rightarrow> string option \<Rightarrow> string" where
  "text_or s v = (case v of None \<Rightarrow> s | Some x \<Rightarrow> x)"

definition goal_entries :: "memory_lifecycle \<Rightarrow> json \<Rightarrow> memory_entry list" where
  "goal_entries l legacy =
    map (\<lambda>(k, g). legacy_entry l Mem_goal (text_or [] (text_of (json_field ''summary'' g))) None g)
      (object_pairs (json_field ''goals'' legacy))"

definition preference_entries :: "memory_lifecycle \<Rightarrow> json \<Rightarrow> memory_entry list" where
  "preference_entries l legacy =
    (case json_field ''savingPreferences'' legacy of
       None \<Rightarrow> [] | Some v \<Rightarrow> [legacy_entry l Mem_saving_preference ''Saving preferences'' None v])
    @ (case json_field ''communication'' legacy of
       None \<Rightarrow> [] | Some v \<Rightarrow> [legacy_entry l Mem_communication_preference ''Communication preferences'' None v])"

definition convention_entries :: "memory_lifecycle \<Rightarrow> json \<Rightarrow> memory_entry list" where
  "convention_entries l legacy =
    map (\<lambda>(k, c). legacy_entry l Mem_convention (text_or [] (json_string c)) None
        (JObj [(''key'', JStr k), (''convention'', c)]))
      (object_pairs (json_field ''conventions'' legacy))"

definition member_entries :: "memory_lifecycle \<Rightarrow> json \<Rightarrow> memory_entry list" where
  "member_entries l legacy =
    map (\<lambda>(ref, m). legacy_entry l Mem_member_context
        (text_or (text_or (''Member '' @ ref) (text_of (json_field ''nickname'' m)))
          (text_of (json_field ''preferredName'' m))) (Some ref) m)
      (object_pairs (json_field ''members'' legacy))"

text \<open>The entries of a legacy document in their order; what no schema knows becomes one more entry.\<close>

definition legacy_entries :: "memory_lifecycle \<Rightarrow> json \<Rightarrow> memory_entry list option" where
  "legacy_entries l raw =
    (case raw of
       JObj kvs \<Rightarrow>
         (case legacy_object legacy_schema (JObj (filter (\<lambda>kv. fst kv \<in> set knownKeys) kvs)) of
            None \<Rightarrow> None
          | Some legacy \<Rightarrow>
              let others = filter (\<lambda>kv. fst kv \<notin> set knownKeys) kvs;
                  entries = goal_entries l legacy @ preference_entries l legacy
                    @ convention_entries l legacy @ member_entries l legacy
              in if others = [] then Some entries
                 else if WorkingMemoryValueSchema (JObj others)
                 then Some (entries @ [legacy_entry l Mem_other ''Legacy working memory'' None (JObj others)])
                 else None)
     | _ \<Rightarrow> None)"

section \<open>Decoding\<close>

text \<open>
  \<open>while (entries[entryId] !== undefined)\<close>: of as many distinct identifiers as there are entries and one
  more, one is unused.
\<close>

fun fresh_entry_id :: "nat \<Rightarrow> memory_document \<Rightarrow> ('db, string) dbm" where
  "fresh_entry_id 0 d = raise (JsError ''Error'')"
| "fresh_entry_id (Suc n) d =
    bindM fresh_ulid (\<lambda>u.
    let i = ''wme_'' @ u in
    bindM (requireM (opaqueIdentifierSchema Id_workingMemoryEntry i) ZodError) (\<lambda>_.
    if map_of d i \<noteq> None then fresh_entry_id n d else ret i))"

definition nextEntryId :: "('db, string) dbm" where
  "nextEntryId = fresh_entry_id 1 []"

fun add_entries :: "memory_entry list \<Rightarrow> memory_document \<Rightarrow> ('db, memory_document) dbm" where
  "add_entries [] d = ret d"
| "add_entries (e # es) d =
    bindM (fresh_entry_id (Suc (length d)) d) (\<lambda>i.
    case WorkingMemoryEntrySchema e of
      None \<Rightarrow> raise ZodError
    | Some e' \<Rightarrow> add_entries es (AList.update i e' d))"

definition dated_entry :: "memory_lifecycle \<Rightarrow> string \<times> memory_entry \<Rightarrow> string \<times> memory_entry" where
  "dated_entry l ie = (fst ie,
     if me_lifecycle (snd ie) = None then (snd ie)\<lparr>me_lifecycle := Some l\<rparr> else snd ie)"

text \<open>
  What is stored is nothing, a text that is not JSON (\<open>Some None\<close>), or JSON. The answer is the document
  and whether it was migrated; no answer stands for the failed status.
\<close>

type_synonym stored_memory = "json option option"

definition decodeStoredWorkingMemory :: "nat \<Rightarrow> stored_memory \<Rightarrow> ('db, (memory_document \<times> bool) option) dbm" where
  "decodeStoredWorkingMemory now stored =
    (let l = workingMemoryLifecycleForMutation None now in
     case stored of
       None \<Rightarrow> ret (Some ([], False))
     | Some None \<Rightarrow> ret None
     | Some (Some raw) \<Rightarrow>
         (case parse_document raw of
            Some d \<Rightarrow>
              (case FlexibleWorkingMemorySchema (map (dated_entry l) d) of
                 None \<Rightarrow> raise ZodError
               | Some d' \<Rightarrow> ret (Some (d', list_ex (\<lambda>(i, e). me_lifecycle e = None) d)))
          | None \<Rightarrow>
              (case legacy_entries l raw of
                 None \<Rightarrow> ret None
               | Some es \<Rightarrow>
                   bindM (add_entries es []) (\<lambda>d.
                   ret (map_option (\<lambda>d'. (d', True)) (FlexibleWorkingMemorySchema d))))))"

section \<open>Drafts\<close>

definition draft_entry :: "memory_kind \<Rightarrow> string \<Rightarrow> memory_scope \<Rightarrow> string option \<Rightarrow> json \<Rightarrow> memory_entry" where
  "draft_entry k s sc owner v =
    \<lparr>me_kind = k, me_summary = s, me_scope = sc, me_owner = owner, me_value = v, me_lifecycle = None\<rparr>"

text \<open>A mutation and whether it has to be confirmed, or a code.\<close>

definition resolveWorkingMemoryMutation :: "hashing \<Rightarrow> string \<Rightarrow> mutation_draft \<Rightarrow> memory_document \<Rightarrow> string \<Rightarrow>
    ('db, string + (memory_mutation \<times> bool)) dbm" where
  "resolveWorkingMemoryMutation h based draft d speaker =
    (if based \<noteq> workingMemoryRevision h d then ret (Inl ''working_memory_revision_conflict'')
     else (case draft of
       Draft_create k s sc v \<Rightarrow>
         bindM nextEntryId (\<lambda>i.
         ret (Inr (Mem_create i (draft_entry k s sc (if sc = Scope_member then Some speaker else None) v),
           list_ex (\<lambda>(i, e). me_kind e = k) (visibleWorkingMemoryEntries d speaker))))
     | Draft_clear \<Rightarrow> ret (Inr (Mem_clear, True))
     | Draft_delete i \<Rightarrow>
         (case map_of d i of
            None \<Rightarrow> ret (Inl entry_not_found)
          | Some e \<Rightarrow>
              if \<not> canAccessWorkingMemoryEntry e speaker then ret (Inl entry_forbidden)
              else ret (Inr (Mem_delete i, True)))
     | Draft_replace i k s v \<Rightarrow>
         (case map_of d i of
            None \<Rightarrow> ret (Inl entry_not_found)
          | Some e \<Rightarrow>
              if \<not> canAccessWorkingMemoryEntry e speaker then ret (Inl entry_forbidden)
              else ret (Inr (Mem_replace i (draft_entry k s (me_scope e)
                (if me_scope e = Scope_member then me_owner e else None) v), True)))))"

end
