(* ===== verification/PendingInteractions.thy ===== *)
theory PendingInteractions
  imports MemoryDocuments
begin

text \<open>
  Proposed changes of working memory that wait for a decision: the contract
  (packages/contracts/src/pending-interaction.ts) and class
  \<open>PostgresPendingInteractionRepository\<close> of repositories/operations/pending-interactions.ts, on the table
  of database/migrations/0023 and 0024. A row is read through the schema, so what a method answers
  satisfies it. JSON in the table keeps its value, not the order of its keys.
\<close>

section \<open>Interactions\<close>

datatype interaction_status =
    Is_pending | Is_resolving | Is_applied | Is_rejected | Is_expired | Is_stale | Is_failed

datatype decision = Approve | Reject

record pending_interaction =
  in_id :: string
  in_household :: string
  in_conversation :: string
  in_speaker :: string
  in_mutation :: pending_mutation
  in_status :: interaction_status
  in_version :: nat
  in_message :: "string option"
  in_decision :: "decision option"
  in_code :: "string option"
  in_response :: "final_response option"
  in_created :: nat
  in_expires :: nat
  in_resolved :: "nat option"

text \<open>\<open>/^[a-z0-9_]{1,160}$/\<close>.\<close>

definition resolution_code :: "string \<Rightarrow> bool" where
  "resolution_code s \<longleftrightarrow> text_between 1 160 s
     \<and> list_all (\<lambda>c. is_lower c \<or> is_digit c \<or> c = CHR ''_'') s"

definition open_interaction :: "pending_interaction \<Rightarrow> bool" where
  "open_interaction i \<longleftrightarrow> in_status i = Is_pending \<or> in_status i = Is_resolving"

text \<open>What a status requires of the evidence of a resolution.\<close>

definition resolution_evidence :: "pending_interaction \<Rightarrow> bool" where
  "resolution_evidence i \<longleftrightarrow>
    (case in_status i of
       Is_pending \<Rightarrow> in_message i = None \<and> in_decision i = None \<and> in_code i = None \<and> in_response i = None
         \<and> in_resolved i = None
     | Is_resolving \<Rightarrow> in_message i \<noteq> None \<and> in_code i = None \<and> in_response i = None \<and> in_resolved i = None
     | _ \<Rightarrow> in_message i \<noteq> None \<and> in_code i \<noteq> None \<and> in_response i \<noteq> None \<and> in_resolved i \<noteq> None)"

definition matches_proposal :: "pending_interaction \<Rightarrow> bool" where
  "matches_proposal i \<longleftrightarrow>
     (let p = in_mutation i in
      in_id i = pm_id p \<and> in_household i = pm_household p \<and> in_conversation i = pm_conversation p
      \<and> in_speaker i = pm_speaker p \<and> in_created i = pm_created p \<and> in_expires i = pm_expires p)"

definition PendingInteractionSchemaV1 :: "pending_interaction \<Rightarrow> pending_interaction option" where
  "PendingInteractionSchemaV1 i =
    (case PendingWorkingMemoryMutationSchema (in_mutation i) of
       None \<Rightarrow> None
     | Some p \<Rightarrow>
         if opaqueIdentifierSchema Id_workingMemoryProposal (in_id i)
            \<and> opaqueIdentifierSchema Id_household (in_household i)
            \<and> opaqueIdentifierSchema Id_conversation (in_conversation i)
            \<and> text_between 1 512 (in_speaker i)
            \<and> optional (text_between 1 512) (in_message i) \<and> optional resolution_code (in_code i)
            \<and> optional OrchestratorFinalResponseSchemaV1 (in_response i)
            \<and> matches_proposal i \<and> resolution_evidence i
         then Some (i\<lparr>in_mutation := p\<rparr>) else None)"

definition mapPendingInteraction :: "pending_interaction \<Rightarrow> exn + pending_interaction" where
  "mapPendingInteraction i =
    (case PendingInteractionSchemaV1 i of None \<Rightarrow> Inl ZodError | Some x \<Rightarrow> Inr x)"

section \<open>The database\<close>

text \<open>
  The households, the interactions, what the memory store holds for a resource, and the counts of
  successful mutations that the process keeps.
\<close>

record memory_db =
  md_households :: "string list"
  md_interactions :: "pending_interaction list"
  md_memory :: "(string \<times> json option) list"
  md_successes :: "(string \<times> nat) list"

definition in_scope :: "string \<Rightarrow> string \<Rightarrow> string \<Rightarrow> pending_interaction \<Rightarrow> bool" where
  "in_scope hh conversation speaker i \<longleftrightarrow>
     in_household i = hh \<and> in_conversation i = conversation \<and> in_speaker i = speaker"

definition identified :: "string \<Rightarrow> string \<Rightarrow> pending_interaction \<Rightarrow> bool" where
  "identified hh iid i \<longleftrightarrow> in_household i = hh \<and> in_id i = iid"

definition resolved_by :: "string \<Rightarrow> string \<Rightarrow> string \<Rightarrow> pending_interaction \<Rightarrow> bool" where
  "resolved_by hh conversation message i \<longleftrightarrow>
     in_household i = hh \<and> in_conversation i = conversation \<and> in_message i = Some message"

definition inserted_interaction :: "pending_interaction \<Rightarrow> pending_interaction" where
  "inserted_interaction i =
    i\<lparr>in_message := None, in_decision := None, in_code := None, in_response := None, in_resolved := None\<rparr>"

text \<open>\<open>ON CONFLICT (interaction_id) DO NOTHING\<close>; an open interaction of the same scope is an error.\<close>

definition sql_insert_interaction :: "pending_interaction \<Rightarrow> (memory_db, pending_interaction option) statement" where
  "sql_insert_interaction i t d =
    (if in_household i \<notin> set (md_households d) then Inr (None, d)
     else if in_id i \<in> in_id ` set (md_interactions d) then Inr (None, d)
     else if open_interaction i
        \<and> list_ex (\<lambda>x. open_interaction x \<and> in_scope (in_household i) (in_conversation i) (in_speaker i) x)
            (md_interactions d)
     then Inl (pg_constraint_failure ''23505'' ''pending_interactions_open_scope_unique'')
     else let row = inserted_interaction i in
       Inr (Some row, d\<lparr>md_interactions := md_interactions d @ [row]\<rparr>))"

definition sql_find_open :: "string \<Rightarrow> string \<Rightarrow> string \<Rightarrow> (memory_db, pending_interaction option) statement" where
  "sql_find_open hh conversation speaker t d =
    Inr (find (\<lambda>i. in_scope hh conversation speaker i \<and> open_interaction i \<and> t < in_expires i)
      (rev (md_interactions d)), d)"

definition sql_find_expired :: "string \<Rightarrow> string \<Rightarrow> string \<Rightarrow> (memory_db, pending_interaction option) statement" where
  "sql_find_expired hh conversation speaker t d =
    Inr (find (\<lambda>i. in_scope hh conversation speaker i \<and> open_interaction i \<and> in_expires i \<le> t)
      (rev (md_interactions d)), d)"

definition sql_find_interaction :: "string \<Rightarrow> string \<Rightarrow> (memory_db, pending_interaction option) statement" where
  "sql_find_interaction hh iid t d = Inr (find (identified hh iid) (md_interactions d), d)"

definition sql_find_resolution :: "string \<Rightarrow> string \<Rightarrow> string \<Rightarrow> (memory_db, pending_interaction option) statement" where
  "sql_find_resolution hh conversation message t d =
    Inr (find (resolved_by hh conversation message) (md_interactions d), d)"

text \<open>
  An update of the one row that a condition selects, with the unique index on resolving messages and the
  check on resolution codes.
\<close>

definition message_taken :: "pending_interaction \<Rightarrow> pending_interaction list \<Rightarrow> bool" where
  "message_taken row rows \<longleftrightarrow>
    (case in_message row of
       None \<Rightarrow> False
     | Some m \<Rightarrow>
         list_ex (\<lambda>x. in_id x \<noteq> in_id row \<and> resolved_by (in_household row) (in_conversation row) m x) rows)"

definition sql_update_interaction :: "(pending_interaction \<Rightarrow> bool) \<Rightarrow>
    (pending_interaction \<Rightarrow> pending_interaction) \<Rightarrow> (memory_db, pending_interaction option) statement" where
  "sql_update_interaction p f t d =
    (case find p (md_interactions d) of
       None \<Rightarrow> Inr (None, d)
     | Some i \<Rightarrow>
         let row = f i in
         if \<not> optional resolution_code (in_code row) then Inl (pg_code_failure ''23514'')
         else if message_taken row (md_interactions d)
         then Inl (pg_constraint_failure ''23505'' ''pending_interactions_resolution_message_unique'')
         else Inr (Some row, d\<lparr>md_interactions := update_where p f (md_interactions d)\<rparr>))"

definition claimed_interaction :: "string \<Rightarrow> decision \<Rightarrow> pending_interaction \<Rightarrow> pending_interaction" where
  "claimed_interaction message dc i =
    i\<lparr>in_status := Is_resolving, in_version := Suc (in_version i), in_message := Some message,
      in_decision := Some dc\<rparr>"

definition claimable_interaction :: "string \<Rightarrow> string \<Rightarrow> nat \<Rightarrow> pending_interaction \<Rightarrow> bool" where
  "claimable_interaction hh iid version i \<longleftrightarrow>
     identified hh iid i \<and> in_status i = Is_pending \<and> in_version i = version"

definition resolved_interaction :: "interaction_status \<Rightarrow> string \<Rightarrow> final_response \<Rightarrow> nat \<Rightarrow>
    pending_interaction \<Rightarrow> pending_interaction" where
  "resolved_interaction s code response t i =
    i\<lparr>in_status := s, in_version := Suc (in_version i), in_code := Some code,
      in_response := Some response, in_resolved := Some t\<rparr>"

definition completable_interaction :: "string \<Rightarrow> string \<Rightarrow> nat \<Rightarrow> pending_interaction \<Rightarrow> bool" where
  "completable_interaction hh iid version i \<longleftrightarrow>
     identified hh iid i \<and> in_status i = Is_resolving \<and> in_version i = version"

definition expired_interaction :: "string \<Rightarrow> string \<Rightarrow> final_response \<Rightarrow> nat \<Rightarrow>
    pending_interaction \<Rightarrow> pending_interaction" where
  "expired_interaction message code response t i =
    (resolved_interaction Is_expired code response t i)
      \<lparr>in_message := (case in_message i of None \<Rightarrow> Some message | Some m \<Rightarrow> Some m)\<rparr>"

definition expirable_interaction :: "string \<Rightarrow> string \<Rightarrow> nat \<Rightarrow> nat \<Rightarrow> pending_interaction \<Rightarrow> bool" where
  "expirable_interaction hh iid version now i \<longleftrightarrow>
     identified hh iid i \<and> open_interaction i \<and> in_version i = version \<and> in_expires i \<le> now"

definition sql_expire :: "string \<Rightarrow> string \<Rightarrow> nat \<Rightarrow> (pending_interaction \<Rightarrow> pending_interaction) \<Rightarrow>
    (memory_db, pending_interaction option) statement" where
  "sql_expire hh iid version f t d = sql_update_interaction (expirable_interaction hh iid version t) f t d"

section \<open>The repository\<close>

definition map_row :: "pending_interaction option \<Rightarrow> exn + pending_interaction option" where
  "map_row row =
    (case row of
       None \<Rightarrow> Inr None
     | Some i \<Rightarrow> (case mapPendingInteraction i of Inl e \<Rightarrow> Inl e | Inr x \<Rightarrow> Inr (Some x)))"

definition findOpen :: "string \<Rightarrow> string \<Rightarrow> string \<Rightarrow> (memory_db, pending_interaction option) dbm" where
  "findOpen hh conversation speaker =
    bindM (pool_query (sql_find_open hh conversation speaker)) (\<lambda>row. liftE (map_row row))"

definition findExpired :: "string \<Rightarrow> string \<Rightarrow> string \<Rightarrow> (memory_db, pending_interaction option) dbm" where
  "findExpired hh conversation speaker =
    bindM (pool_query (sql_find_expired hh conversation speaker)) (\<lambda>row. liftE (map_row row))"

definition findInteraction :: "string \<Rightarrow> string \<Rightarrow> (memory_db, pending_interaction option) dbm" where
  "findInteraction hh iid =
    bindM (pool_query (sql_find_interaction hh iid)) (\<lambda>row. liftE (map_row row))"

definition findByResolutionMessage :: "string \<Rightarrow> string \<Rightarrow> string \<Rightarrow> (memory_db, pending_interaction option) dbm" where
  "findByResolutionMessage hh conversation message =
    bindM (pool_query (sql_find_resolution hh conversation message)) (\<lambda>row. liftE (map_row row))"

definition idempotencyConflict :: exn where
  "idempotencyConflict = plusOne Duplicate_replay ''pending_interaction_idempotency_conflict'' Never True"

definition householdNotFound :: exn where
  "householdNotFound = plusOne Validation_rejected ''pending_interaction_household_not_found'' Never False"

definition interactionNotFound :: exn where
  "interactionNotFound = plusOne Validation_rejected ''pending_interaction_not_found'' Never False"

definition stateConflict :: exn where
  "stateConflict =
    plusOne Serialization_conflict ''pending_interaction_state_conflict'' After_state_resolution True"

definition scope_conflict :: "exn \<Rightarrow> exn" where
  "scope_conflict e =
    PlusOneError Serialization_conflict ''pending_interaction_scope_conflict'' After_state_resolution True (Some e)"

definition open_scope_violation :: "exn \<Rightarrow> bool" where
  "open_scope_violation e \<longleftrightarrow>
    (case e of
       PgFailure p \<Rightarrow> pg_code p = Some ''23505''
         \<and> pg_constraint p = Some ''pending_interactions_open_scope_unique''
     | _ \<Rightarrow> False)"

text \<open>\<open>stableJson\<close> forgets the order of keys.\<close>

definition stable_mutation :: "memory_mutation \<Rightarrow> memory_mutation" where
  "stable_mutation m =
    (let stable = (\<lambda>e. e\<lparr>me_value := canonicalizeWorkingMemoryValue (me_value e)\<rparr>) in
     case m of
       Mem_create i e \<Rightarrow> Mem_create i (stable e) | Mem_replace i e \<Rightarrow> Mem_replace i (stable e)
     | _ \<Rightarrow> m)"

definition stable_interaction :: "pending_interaction \<Rightarrow> pending_interaction" where
  "stable_interaction i =
    i\<lparr>in_mutation := (in_mutation i)\<lparr>pm_mutation := stable_mutation (pm_mutation (in_mutation i))\<rparr>\<rparr>"

definition create_interaction :: "pending_interaction \<Rightarrow> (memory_db, pending_interaction) dbm" where
  "create_interaction candidate =
    bindM (liftE (mapPendingInteraction candidate)) (\<lambda>i.
    catchM
      (bindM (pool_query (sql_insert_interaction i)) (\<lambda>inserted.
       case inserted of
         Some row \<Rightarrow> liftE (mapPendingInteraction row)
       | None \<Rightarrow>
           bindM (findInteraction (in_household i) (in_id i)) (\<lambda>existing.
           case existing of
             None \<Rightarrow> raise householdNotFound
           | Some x \<Rightarrow>
               if stable_interaction x = stable_interaction i then ret x else raise idempotencyConflict)))
      (\<lambda>e. raise (if open_scope_violation e then scope_conflict e else e)))"

datatype claim_result = Claimed_now pending_interaction | Claim_replay pending_interaction

definition claim_interaction :: "string \<Rightarrow> string \<Rightarrow> string \<Rightarrow> decision \<Rightarrow> nat \<Rightarrow> (memory_db, claim_result) dbm" where
  "claim_interaction hh iid message dc version =
    bindM (pool_query (sql_update_interaction (claimable_interaction hh iid version)
      (claimed_interaction message dc))) (\<lambda>claimed.
    case claimed of
      Some row \<Rightarrow> bindM (liftE (mapPendingInteraction row)) (\<lambda>i. ret (Claimed_now i))
    | None \<Rightarrow>
        bindM (findInteraction hh iid) (\<lambda>existing.
        case existing of
          None \<Rightarrow> raise interactionNotFound
        | Some i \<Rightarrow> if in_message i = Some message then ret (Claim_replay i) else raise stateConflict))"

definition updated_or_conflict :: "pending_interaction option \<Rightarrow> exn + pending_interaction" where
  "updated_or_conflict row =
    (case row of None \<Rightarrow> Inl stateConflict | Some i \<Rightarrow> mapPendingInteraction i)"

definition expire_interaction :: "string \<Rightarrow> string \<Rightarrow> string \<Rightarrow> nat \<Rightarrow> string \<Rightarrow> final_response \<Rightarrow> nat \<Rightarrow>
    (memory_db, pending_interaction) dbm" where
  "expire_interaction hh iid message version code response t =
    bindM (requireM (OrchestratorFinalResponseSchemaV1 response) ZodError) (\<lambda>_.
    bindM (pool_query (sql_expire hh iid version (expired_interaction message code response t))) (\<lambda>row.
    liftE (updated_or_conflict row)))"

definition complete_interaction :: "string \<Rightarrow> string \<Rightarrow> nat \<Rightarrow> interaction_status \<Rightarrow> string \<Rightarrow>
    final_response \<Rightarrow> nat \<Rightarrow> (memory_db, pending_interaction) dbm" where
  "complete_interaction hh iid version s code response t =
    bindM (requireM (OrchestratorFinalResponseSchemaV1 response) ZodError) (\<lambda>_.
    bindM (pool_query (sql_update_interaction (completable_interaction hh iid version)
      (resolved_interaction s code response t))) (\<lambda>row.
    liftE (updated_or_conflict row)))"

end
