(* ===== verification/SessionMemory.thy ===== *)
theory SessionMemory
  imports PendingInteractions
begin

text \<open>
  The memory of a session: class \<open>OrchestratorSessionMemory\<close> of
  apps/engine/src/memory/orchestrator-session-memory.ts, over the store of the Mastra framework, which
  keeps one text for each resource (a household) in PostgreSQL. The mutex per resource makes each method
  one step. Of a review the model has what it reads and writes; its report, the prompts and the log lines
  are left out.
\<close>

section \<open>The store\<close>

definition sql_get_memory :: "string \<Rightarrow> (memory_db, stored_memory) statement" where
  "sql_get_memory resource t d = Inr (map_of (md_memory d) resource, d)"

definition sql_put_memory :: "string \<Rightarrow> json \<Rightarrow> (memory_db, unit) statement" where
  "sql_put_memory resource j t d = Inr ((), d\<lparr>md_memory := AList.update resource (Some j) (md_memory d)\<rparr>)"

definition updateWorkingMemory :: "string \<Rightarrow> memory_document \<Rightarrow> (memory_db, unit) dbm" where
  "updateWorkingMemory resource d = pool_query (sql_put_memory resource (document_json instant_json d))"

section \<open>Outcomes\<close>

record memory_failure =
  mf_code :: string
  mf_category :: error_category
  mf_retry :: retry_directive

definition memory_failed :: "string \<Rightarrow> error_category \<Rightarrow> retry_directive \<Rightarrow> memory_failure" where
  "memory_failed c cat retry = \<lparr>mf_code = c, mf_category = cat, mf_retry = retry\<rparr>"

definition mutationFailureCategory :: "string \<Rightarrow> error_category" where
  "mutationFailureCategory c = (if c = entry_forbidden then Policy_rejected else Validation_rejected)"

definition revision_stale :: memory_failure where
  "revision_stale = memory_failed ''working_memory_revision_stale'' Serialization_conflict After_state_resolution"

definition readback_mismatch :: memory_failure where
  "readback_mismatch = memory_failed ''working_memory_readback_mismatch'' Readback_mismatch After_backoff"

definition write_failed :: memory_failure where
  "write_failed = memory_failed ''working_memory_write_failed'' Storage_unavailable After_backoff"

text \<open>\<open>try { m } catch { return failure }\<close>.\<close>

definition attemptM :: "('s, 'e, 'a) io \<Rightarrow> 'f \<Rightarrow> ('s, 'e, 'f + 'a) io" where
  "attemptM m failure = catchM (bindM m (\<lambda>x. ret (Inr x))) (\<lambda>_. ret (Inl failure))"

text \<open>Go on unless it failed.\<close>

definition unless_failed :: "('s, 'e, 'f + 'a) io \<Rightarrow> ('a \<Rightarrow> ('s, 'e, 'f + 'b) io) \<Rightarrow> ('s, 'e, 'f + 'b) io" where
  "unless_failed m f = bindM m (\<lambda>r. case r of Inl x \<Rightarrow> ret (Inl x) | Inr y \<Rightarrow> f y)"

section \<open>The operations\<close>

definition loadFlexibleWorkingMemory :: "string \<Rightarrow> (memory_db, memory_failure + (memory_document \<times> bool)) dbm" where
  "loadFlexibleWorkingMemory resource =
    unless_failed
      (attemptM (pool_query (sql_get_memory resource))
        (memory_failed ''working_memory_read_failed'' Storage_unavailable After_backoff))
      (\<lambda>stored.
        bindM now_ms (\<lambda>now.
        bindM (decodeStoredWorkingMemory now stored) (\<lambda>decoded.
        ret (case decoded of
            None \<Rightarrow> Inl (memory_failed ''working_memory_read_failed'' Validation_rejected Never)
          | Some x \<Rightarrow> Inr x))))"

definition persistAndVerifyMigration :: "hashing \<Rightarrow> string \<Rightarrow> memory_document \<Rightarrow>
    (memory_db, memory_failure + memory_document) dbm" where
  "persistAndVerifyMigration h resource d =
    unless_failed (attemptM (updateWorkingMemory resource d) write_failed) (\<lambda>_.
      bindM (loadFlexibleWorkingMemory resource) (\<lambda>after.
      ret (case after of
          Inr (d', False) \<Rightarrow>
            if workingMemoryRevision h d' = workingMemoryRevision h d then Inr d' else Inl readback_mismatch
        | _ \<Rightarrow> Inl readback_mismatch)))"

definition loadCurrentFlexibleWorkingMemory :: "hashing \<Rightarrow> string \<Rightarrow>
    (memory_db, memory_failure + memory_document) dbm" where
  "loadCurrentFlexibleWorkingMemory h resource =
    unless_failed (loadFlexibleWorkingMemory resource) (\<lambda>(d, migrated).
      if migrated then persistAndVerifyMigration h resource d else ret (Inr d))"

text \<open>\<open>inspectWorkingMemory\<close> answers the document with its revision and the entries the speaker may see.\<close>

record memory_inspection =
  mn_document :: memory_document
  mn_revision :: string
  mn_visible :: memory_document

definition inspectWorkingMemory :: "hashing \<Rightarrow> string \<Rightarrow> string \<Rightarrow>
    (memory_db, memory_failure + memory_inspection) dbm" where
  "inspectWorkingMemory h resource speaker =
    unless_failed (loadCurrentFlexibleWorkingMemory h resource) (\<lambda>d.
      ret (Inr \<lparr>mn_document = d, mn_revision = workingMemoryRevision h d,
        mn_visible = visibleWorkingMemoryEntries d speaker\<rparr>))"

text \<open>What validation and application have in common: the current document, and the one that follows.\<close>

definition mutated_document :: "hashing \<Rightarrow> string \<Rightarrow> string \<Rightarrow> string \<Rightarrow> memory_mutation \<Rightarrow>
    (memory_db, memory_failure + (memory_document \<times> memory_document)) dbm" where
  "mutated_document h resource speaker based mutation =
    unless_failed (loadCurrentFlexibleWorkingMemory h resource) (\<lambda>d.
      if workingMemoryRevision h d \<noteq> based then ret (Inl revision_stale)
      else
        bindM now_ms (\<lambda>now.
        ret (case applyResolvedWorkingMemoryMutation d mutation speaker now of
            Inl c \<Rightarrow> Inl (memory_failed c (mutationFailureCategory c) Never)
          | Inr d' \<Rightarrow> Inr (d, d'))))"

definition validateWorkingMemoryMutation :: "hashing \<Rightarrow> string \<Rightarrow> string \<Rightarrow> string \<Rightarrow> memory_mutation \<Rightarrow>
    (memory_db, memory_failure + memory_document) dbm" where
  "validateWorkingMemoryMutation h resource speaker based mutation =
    unless_failed (mutated_document h resource speaker based mutation) (\<lambda>(d, d'). ret (Inr d'))"

definition applyWorkingMemoryMutation :: "hashing \<Rightarrow> string \<Rightarrow> string \<Rightarrow> string \<Rightarrow> memory_mutation \<Rightarrow>
    (memory_db, memory_failure + memory_document) dbm" where
  "applyWorkingMemoryMutation h resource speaker based mutation =
    unless_failed (mutated_document h resource speaker based mutation) (\<lambda>(d, d').
    unless_failed (attemptM (updateWorkingMemory resource d') write_failed) (\<lambda>_.
      bindM (loadFlexibleWorkingMemory resource) (\<lambda>after.
      ret (case after of
          Inr (d'', False) \<Rightarrow>
            if verifyWorkingMemoryReadback d d'' mutation then Inr d'' else Inl readback_mismatch
        | _ \<Rightarrow> Inl readback_mismatch))))"

definition WORKING_MEMORY_REVIEW_AFTER_MUTATIONS :: nat where
  "WORKING_MEMORY_REVIEW_AFTER_MUTATIONS = 3"

definition successes :: "string \<Rightarrow> memory_db \<Rightarrow> nat" where
  "successes resource d = (case map_of (md_successes d) resource of None \<Rightarrow> 0 | Some n \<Rightarrow> n)"

text \<open>Operations on the memory of the process.\<close>

definition local_step :: "('db \<Rightarrow> 'a \<times> 'db) \<Rightarrow> ('db, 'a) dbm" where
  "local_step f w = (let (x, d) = f (wdb w) in (Inr x, w\<lparr>wdb := d\<rparr>))"

definition noteWorkingMemoryMutationSuccess :: "string \<Rightarrow> (memory_db, bool) dbm" where
  "noteWorkingMemoryMutationSuccess resource = local_step (\<lambda>d.
    let n = Suc (successes resource d)
    in (WORKING_MEMORY_REVIEW_AFTER_MUTATIONS \<le> n,
        d\<lparr>md_successes := AList.update resource n (md_successes d)\<rparr>))"

definition acknowledgeWorkingMemoryReview :: "string \<Rightarrow> (memory_db, unit) dbm" where
  "acknowledgeWorkingMemoryReview resource = local_step (\<lambda>d.
    ((), d\<lparr>md_successes := AList.delete resource (md_successes d)\<rparr>))"

definition reviewWorkingMemory :: "hashing \<Rightarrow> string \<Rightarrow> (memory_db, memory_failure + unit) dbm" where
  "reviewWorkingMemory h resource =
    unless_failed (loadCurrentFlexibleWorkingMemory h resource) (\<lambda>d.
      bindM (acknowledgeWorkingMemoryReview resource) (\<lambda>_. ret (Inr ())))"

lemma dwp_local_step: "(\<And>x d'. f d = (x, d') \<Longrightarrow> Q x d') \<Longrightarrow> dwp (local_step f) Q E d"
  by (auto simp: dwp_def wp_def local_step_def split: prod.split)

end
