(* ===== verification/MemoryTools.thy ===== *)
theory MemoryTools
  imports SessionMemory
begin

text \<open>
  The tools with which the orchestrator's agent works on the memory: \<open>inspectWorkingMemory\<close>,
  \<open>reviewWorkingMemory\<close>, \<open>mutateWorkingMemory\<close> and \<open>proposeWorkingMemory\<close> of apps/engine/src/tools/working-memory.ts, the candidates
  of apps/engine/src/memory/working-memory-candidates.ts, and the policies on scopes of
  working-memory-taxonomy.ts. The tool that shows the memory does to it what the inspection does; the
  abort of a call, which throws before it has an effect, is left out.
\<close>

section \<open>Candidates\<close>

fun preferredScopes :: "memory_kind \<Rightarrow> memory_scope list" where
  "preferredScopes Mem_member_context = [Scope_member]"
| "preferredScopes Mem_communication_preference = [Scope_member, Scope_household]"
| "preferredScopes Mem_saving_preference = [Scope_member, Scope_household]"
| "preferredScopes Mem_goal = [Scope_member, Scope_household]"
| "preferredScopes Mem_convention = [Scope_household]"
| "preferredScopes Mem_other = [Scope_household, Scope_member]"

text \<open>\<open>summary.trim().replace(/\s+/g, ' ')\<close>; the flag says that the last character was white.\<close>

fun collapse_white :: "bool \<Rightarrow> string \<Rightarrow> string" where
  "collapse_white b [] = []"
| "collapse_white b (c # cs) =
    (if \<not> white c then c # collapse_white False cs
     else if b then collapse_white True cs else CHR '' '' # collapse_white True cs)"

definition normalizeWorkingMemorySummary :: "string \<Rightarrow> string" where
  "normalizeWorkingMemorySummary s = collapse_white False (trim s)"

datatype candidate_signal = Explicit_request | Preference_signal | Correction_signal | Review_finding

datatype candidate_subject = About_self | About_household

record candidate_draft =
  cd_kind :: memory_kind
  cd_summary :: string
  cd_value :: json
  cd_signal :: candidate_signal
  cd_subject :: candidate_subject
  cd_target :: "(memory_kind \<times> string) option"

definition WorkingMemoryCandidateInputSchema :: "candidate_draft \<Rightarrow> candidate_draft option" where
  "WorkingMemoryCandidateInputSchema c = do {
     s \<leftarrow> memory_summary (cd_summary c);
     check_that (WorkingMemoryValueSchema (cd_value c));
     case cd_target c of
       None \<Rightarrow> Some (c\<lparr>cd_summary := s\<rparr>)
     | Some (k, t) \<Rightarrow> do { t' \<leftarrow> memory_summary t; Some (c\<lparr>cd_summary := s, cd_target := Some (k, t')\<rparr>) } }"

definition candidate_scope :: "candidate_draft \<Rightarrow> memory_scope" where
  "candidate_scope c = (if cd_subject c = About_self then Scope_member else Scope_household)"

definition correction_matches :: "candidate_draft \<Rightarrow> memory_document \<Rightarrow> string list" where
  "correction_matches c visible =
    (case cd_target c of
       None \<Rightarrow> []
     | Some (k, s) \<Rightarrow> map fst (filter (\<lambda>(i, e). me_kind e = k
         \<and> normalizeWorkingMemorySummary (me_summary e) = normalizeWorkingMemorySummary s) visible))"

text \<open>A draft of a mutation for a candidate, or a code.\<close>

definition createWorkingMemoryCandidate :: "candidate_draft \<Rightarrow> memory_document \<Rightarrow> string + mutation_draft" where
  "createWorkingMemoryCandidate c visible =
    (let s = normalizeWorkingMemorySummary (cd_summary c) in
     if candidate_scope c \<notin> set (preferredScopes (cd_kind c))
     then Inl ''working_memory_candidate_scope_invalid''
     else if cd_signal c \<noteq> Correction_signal
     then Inr (Draft_create (cd_kind c) s (candidate_scope c) (cd_value c))
     else (case correction_matches c visible of
         [] \<Rightarrow> Inl ''working_memory_candidate_target_not_found''
       | [i] \<Rightarrow> Inr (Draft_replace i (cd_kind c) s (cd_value c))
       | _ \<Rightarrow> Inl ''working_memory_candidate_target_ambiguous''))"

section \<open>Tool calls\<close>

text \<open>What a turn of the agent remembers: the last inspection and the last proposal.\<close>

record memory_turn =
  mt_inspection :: "memory_inspection option"
  mt_pending :: "pending_mutation option"

definition fresh_turn :: memory_turn where
  "fresh_turn = \<lparr>mt_inspection = None, mt_pending = None\<rparr>"

datatype memory_call = Call_inspect | Call_review | Call_mutate tool_draft | Call_propose candidate_draft

datatype tool_answer =
    Tool_inspected memory_inspection
  | Tool_reviewed
  | Tool_applied bool
  | Tool_confirmation
  | Tool_rejected memory_failure

definition tool_rejected :: "string \<Rightarrow> error_category \<Rightarrow> tool_answer" where
  "tool_rejected c cat = Tool_rejected (memory_failed c cat Never)"

definition inspect_tool :: "hashing \<Rightarrow> inbound_message \<Rightarrow> memory_turn \<Rightarrow>
    (memory_db, tool_answer \<times> memory_turn) dbm" where
  "inspect_tool h m turn =
    catchM
      (bindM (inspectWorkingMemory h (im_household m) (im_principal m)) (\<lambda>r.
       ret (case r of
           Inl f \<Rightarrow> (Tool_rejected f, turn)
         | Inr x \<Rightarrow> (Tool_inspected x, turn\<lparr>mt_inspection := Some x\<rparr>))))
      (\<lambda>e. ret (tool_rejected ''working_memory_inspection_failed'' Runtime_failure, turn))"

definition review_tool :: "hashing \<Rightarrow> inbound_message \<Rightarrow> memory_turn \<Rightarrow>
    (memory_db, tool_answer \<times> memory_turn) dbm" where
  "review_tool h m turn =
    catchM
      (bindM (reviewWorkingMemory h (im_household m)) (\<lambda>r.
       ret (case r of Inl f \<Rightarrow> Tool_rejected f | Inr _ \<Rightarrow> Tool_reviewed, turn)))
      (\<lambda>e. ret (tool_rejected ''working_memory_review_failed'' Runtime_failure, turn))"

definition proposal_of :: "inbound_message \<Rightarrow> string \<Rightarrow> memory_mutation \<Rightarrow> string \<Rightarrow> nat \<Rightarrow> pending_mutation" where
  "proposal_of m pid mutation revision now =
    \<lparr>pm_id = pid, pm_household = im_household m, pm_conversation = im_conversation m,
     pm_speaker = im_principal m, pm_mutation = mutation, pm_revision = revision, pm_created = now,
     pm_expires = now + 15 * 60000\<rparr>"

text \<open>Validate a mutation and make it the pending proposal of the turn.\<close>

definition propose_mutation :: "hashing \<Rightarrow> inbound_message \<Rightarrow> memory_inspection \<Rightarrow> memory_mutation \<Rightarrow>
    memory_turn \<Rightarrow> (memory_db, tool_answer \<times> memory_turn) dbm" where
  "propose_mutation h m inspection mutation turn =
    bindM (validateWorkingMemoryMutation h (im_household m) (im_principal m) (mn_revision inspection) mutation)
      (\<lambda>validated.
      case validated of
        Inl f \<Rightarrow> ret (Tool_rejected f, turn)
      | Inr d \<Rightarrow>
          bindM now_ms (\<lambda>now.
          bindM fresh_ulid (\<lambda>u.
          case PendingWorkingMemoryMutationSchema
              (proposal_of m (''wmproposal_'' @ u) mutation (mn_revision inspection) now) of
            None \<Rightarrow> raise ZodError
          | Some p \<Rightarrow> ret (Tool_confirmation, turn\<lparr>mt_pending := Some p\<rparr>))))"

definition apply_now :: "hashing \<Rightarrow> inbound_message \<Rightarrow> memory_inspection \<Rightarrow> memory_mutation \<Rightarrow>
    memory_turn \<Rightarrow> (memory_db, tool_answer \<times> memory_turn) dbm" where
  "apply_now h m inspection mutation turn =
    bindM (applyWorkingMemoryMutation h (im_household m) (im_principal m) (mn_revision inspection) mutation)
      (\<lambda>applied.
      case applied of
        Inl f \<Rightarrow> ret (Tool_rejected f, turn)
      | Inr d \<Rightarrow>
          bindM (noteWorkingMemoryMutationSuccess (im_household m)) (\<lambda>due. ret (Tool_applied due, turn)))"

text \<open>The revision of the inspection replaces the one that the agent passed.\<close>

definition mutate_tool :: "hashing \<Rightarrow> inbound_message \<Rightarrow> tool_draft \<Rightarrow> memory_turn \<Rightarrow>
    (memory_db, tool_answer \<times> memory_turn) dbm" where
  "mutate_tool h m raw turn =
    (case WorkingMemoryMutationDraftSchema raw of
       None \<Rightarrow> ret (tool_rejected ''working_memory_mutation_invalid'' Validation_rejected, turn)
     | Some (based, draft) \<Rightarrow>
         (case mt_inspection turn of
            None \<Rightarrow> ret (tool_rejected ''working_memory_inspection_required'' Validation_rejected, turn)
          | Some inspection \<Rightarrow>
              bindM (resolveWorkingMemoryMutation h (mn_revision inspection) draft (mn_document inspection)
                (im_principal m)) (\<lambda>resolved.
              case resolved of
                Inl c \<Rightarrow> ret (tool_rejected c (mutationFailureCategory c), turn)
              | Inr (mutation, confirm) \<Rightarrow>
                  if confirm then propose_mutation h m inspection mutation turn
                  else apply_now h m inspection mutation turn)))"

definition propose_tool :: "hashing \<Rightarrow> inbound_message \<Rightarrow> candidate_draft \<Rightarrow> memory_turn \<Rightarrow>
    (memory_db, tool_answer \<times> memory_turn) dbm" where
  "propose_tool h m raw turn =
    (case WorkingMemoryCandidateInputSchema raw of
       None \<Rightarrow> ret (tool_rejected ''working_memory_candidate_invalid'' Validation_rejected, turn)
     | Some c \<Rightarrow>
         (case mt_inspection turn of
            None \<Rightarrow> ret (tool_rejected ''working_memory_inspection_required'' Validation_rejected, turn)
          | Some inspection \<Rightarrow>
              (case createWorkingMemoryCandidate c (mn_visible inspection) of
                 Inl code \<Rightarrow> ret (tool_rejected code Validation_rejected, turn)
               | Inr draft \<Rightarrow>
                   bindM (resolveWorkingMemoryMutation h (mn_revision inspection) draft
                     (mn_document inspection) (im_principal m)) (\<lambda>resolved.
                   case resolved of
                     Inl code \<Rightarrow> ret (tool_rejected code Validation_rejected, turn)
                   | Inr (mutation, confirm) \<Rightarrow> propose_mutation h m inspection mutation turn))))"

definition memory_tool :: "hashing \<Rightarrow> inbound_message \<Rightarrow> memory_call \<Rightarrow> memory_turn \<Rightarrow>
    (memory_db, tool_answer \<times> memory_turn) dbm" where
  "memory_tool h m call turn =
    (case call of
       Call_inspect \<Rightarrow> inspect_tool h m turn
     | Call_review \<Rightarrow> review_tool h m turn
     | Call_mutate raw \<Rightarrow> mutate_tool h m raw turn
     | Call_propose raw \<Rightarrow> propose_tool h m raw turn)"

text \<open>
  The calls of a turn, one after the other, whichever the agent makes. An error that a tool throws is an
  answer to the agent.
\<close>

fun memory_calls :: "hashing \<Rightarrow> inbound_message \<Rightarrow> memory_call list \<Rightarrow> memory_turn \<Rightarrow>
    (memory_db, memory_turn) dbm" where
  "memory_calls h m [] turn = ret turn"
| "memory_calls h m (call # calls) turn =
    bindM (catchM (bindM (memory_tool h m call turn) (\<lambda>(answer, turn'). ret turn')) (\<lambda>e. ret turn))
      (memory_calls h m calls)"

end
