(* ===== verification/ConfirmationTurns.thy ===== *)
theory ConfirmationTurns
  imports MemoryTools
begin

text \<open>
  Turns of a conversation in which a change of working memory is proposed, approved, declined, or left
  open: apps/engine/src/workflows/conversation-turn-router.ts with the methods of
  apps/engine/src/agents/orchestrator.ts it calls, and how orchestrator-loop.ts stores a proposal.

  What the language model answers is a parameter: its reading of a message, twice, and the text of a
  reply. A signal is the caller's, or one that the agent makes for itself.
\<close>

section \<open>The language model\<close>

datatype disposition = Dp_resolve decision | Dp_new_intent | Dp_ambiguous

text \<open>A reading of a message: an answer, a failure, or a failure once the signal had aborted.\<close>

datatype reading = Answered disposition | Gave_up exn | Stopped exn

datatype event_kind = Ev_confirmation | Ev_applied | Ev_rejected | Ev_failed

record synthesis_event =
  se_kind :: event_kind
  se_mutation :: memory_mutation
  se_directive :: string

record turn_agent =
  ta_primary :: "inbound_message \<Rightarrow> pending_mutation \<Rightarrow> reading"
  ta_checker :: "inbound_message \<Rightarrow> pending_mutation \<Rightarrow> reading"
  ta_reply :: "inbound_message \<Rightarrow> synthesis_event \<Rightarrow> exn + final_response"
  ta_calls :: "inbound_message \<Rightarrow> memory_call list"
  ta_answer :: "inbound_message \<Rightarrow> exn + final_response"
  ta_memory :: bool
  ta_signal :: bool

definition adjudicatePendingDisposition :: "disposition \<Rightarrow> disposition \<Rightarrow> disposition" where
  "adjudicatePendingDisposition primary checker =
    (case (primary, checker) of
       (Dp_new_intent, _) \<Rightarrow> primary
     | (Dp_resolve a, Dp_resolve b) \<Rightarrow> if a = b then primary else Dp_ambiguous
     | (Dp_ambiguous, Dp_new_intent) \<Rightarrow> checker
     | _ \<Rightarrow> Dp_ambiguous)"

definition classifyPendingWorkingMemoryInput :: "turn_agent \<Rightarrow> inbound_message \<Rightarrow> pending_mutation \<Rightarrow>
    exn + disposition" where
  "classifyPendingWorkingMemoryInput ta m p =
    (case ta_primary ta m p of
       Stopped e \<Rightarrow> Inl e
     | Gave_up e \<Rightarrow> Inr Dp_ambiguous
     | Answered Dp_new_intent \<Rightarrow> Inr Dp_new_intent
     | Answered primary \<Rightarrow>
         (case ta_checker ta m p of
            Stopped e \<Rightarrow> Inl e
          | Gave_up e \<Rightarrow> Inr Dp_ambiguous
          | Answered checker \<Rightarrow> Inr (adjudicatePendingDisposition primary checker)))"

text \<open>The router's \<open>try\<close>: only an abort of the caller's signal is thrown again.\<close>

definition disposition_of :: "turn_agent \<Rightarrow> inbound_message \<Rightarrow> pending_mutation \<Rightarrow> exn + disposition" where
  "disposition_of ta m p =
    (case classifyPendingWorkingMemoryInput ta m p of
       Inl e \<Rightarrow> if ta_signal ta then Inl e else Inr Dp_ambiguous
     | Inr d \<Rightarrow> Inr d)"

section \<open>Resolutions\<close>

text \<open>The status \<open>pending\<close> stands for a question that is asked again.\<close>

record resolution =
  rs_status :: interaction_status
  rs_code :: string
  rs_response :: final_response

definition resolved_as :: "turn_agent \<Rightarrow> inbound_message \<Rightarrow> pending_mutation \<Rightarrow> interaction_status \<Rightarrow>
    string \<Rightarrow> event_kind \<Rightarrow> string \<Rightarrow> exn + resolution" where
  "resolved_as ta m p s code kind directive =
    (case ta_reply ta m \<lparr>se_kind = kind, se_mutation = pm_mutation p, se_directive = directive\<rparr> of
       Inl e \<Rightarrow> Inl e
     | Inr r \<Rightarrow> Inr \<lparr>rs_status = s, rs_code = code, rs_response = r\<rparr>)"

definition finalizePendingWorkingMemoryResolution :: "turn_agent \<Rightarrow> inbound_message \<Rightarrow> pending_mutation \<Rightarrow>
    interaction_status \<Rightarrow> string \<Rightarrow> string \<Rightarrow> exn + resolution" where
  "finalizePendingWorkingMemoryResolution ta m p s code directive =
    resolved_as ta m p s code
      (if s = Is_applied then Ev_applied else if s = Is_rejected then Ev_rejected else Ev_failed) directive"

definition confirmation_directive :: string where
  "confirmation_directive =
    ''Explain the proposed change and ask the user to approve or decline it. Do not say it has been completed.''"

text \<open>The result of applying the change, or the code of an error that was thrown.\<close>

definition attempted_application :: "hashing \<Rightarrow> inbound_message \<Rightarrow> pending_mutation \<Rightarrow>
    (memory_db, string + (memory_failure + memory_document)) dbm" where
  "attempted_application h m p =
    catchM
      (bindM (applyWorkingMemoryMutation h (im_household m) (im_principal m) (pm_revision p) (pm_mutation p))
        (\<lambda>r. ret (Inr r)))
      (\<lambda>e. ret (Inl (if is_plus_one e then e_code e else ''working_memory_mutation_failed'')))"

definition failed_application :: "turn_agent \<Rightarrow> inbound_message \<Rightarrow> pending_mutation \<Rightarrow> string \<Rightarrow> exn + resolution" where
  "failed_application ta m p code =
    (if code = ''working_memory_revision_stale''
     then finalizePendingWorkingMemoryResolution ta m p Is_stale code
       ''The context changed before approval. Do not say the change was completed; ask the user to request a fresh review.''
     else finalizePendingWorkingMemoryResolution ta m p Is_failed code
       ''Do not say the change was completed because storage did not verify it.'')"

definition apply_approved :: "hashing \<Rightarrow> turn_agent \<Rightarrow> inbound_message \<Rightarrow> pending_mutation \<Rightarrow>
    (memory_db, resolution) dbm" where
  "apply_approved h ta m p =
    bindM (attempted_application h m p) (\<lambda>applied.
    case applied of
      Inl code \<Rightarrow> liftE (finalizePendingWorkingMemoryResolution ta m p Is_failed code
        ''The change could not be verified. Do not say it was completed.'')
    | Inr (Inl f) \<Rightarrow> liftE (failed_application ta m p (mf_code f))
    | Inr (Inr d) \<Rightarrow>
        bindM (noteWorkingMemoryMutationSuccess (im_household m)) (\<lambda>due.
        bindM (if due then bindM (reviewWorkingMemory h (im_household m)) (\<lambda>_. ret ()) else ret ()) (\<lambda>_.
        liftE (resolved_as ta m p Is_applied ''working_memory_mutation_succeeded'' Ev_applied
          ''Confirm that the change was verified and completed.''))))"

definition pending_mismatch :: exn where
  "pending_mismatch = plusOne Validation_rejected ''working_memory_pending_mismatch'' Never False"

definition resolvePendingWorkingMemoryMutation :: "hashing \<Rightarrow> turn_agent \<Rightarrow> inbound_message \<Rightarrow>
    pending_mutation \<Rightarrow> decision option \<Rightarrow> (memory_db, resolution) dbm" where
  "resolvePendingWorkingMemoryMutation h ta m pending dc =
    (case PendingWorkingMemoryMutationSchema pending of
       None \<Rightarrow> raise ZodError
     | Some p \<Rightarrow>
         bindM (requireM (pm_household p = im_household m \<and> pm_conversation p = im_conversation m
           \<and> pm_speaker p = im_principal m) pending_mismatch) (\<lambda>_.
         bindM now_ms (\<lambda>now.
         if proposalExpired (pm_expires p) now
         then liftE (resolved_as ta m p Is_expired ''working_memory_proposal_expired'' Ev_failed
           ''The proposal expired before it was approved.'')
         else (case dc of
             Some Reject \<Rightarrow>
               liftE (resolved_as ta m p Is_rejected ''working_memory_mutation_rejected'' Ev_rejected
                 ''Do not make this change.'')
           | None \<Rightarrow>
               liftE (resolved_as ta m p Is_pending ''working_memory_confirmation_required'' Ev_confirmation
                 confirmation_directive)
           | Some Approve \<Rightarrow>
               if ta_memory ta then apply_approved h ta m p
               else liftE (finalizePendingWorkingMemoryResolution ta m p Is_failed
                 ''working_memory_storage_unavailable''
                 ''The change could not be stored. Do not say it was completed.'')))))"

section \<open>The router\<close>

definition stored_response :: "pending_interaction option \<Rightarrow> final_response option" where
  "stored_response i = Option.bind i in_response"

text \<open>The \<open>try\<close> and the \<open>catch\<close> of \<open>completeIfTerminal\<close>.\<close>

definition store_resolution :: "inbound_message \<Rightarrow> pending_interaction \<Rightarrow> resolution \<Rightarrow>
    (memory_db, final_response) dbm" where
  "store_resolution m i r =
    bindM (if rs_status r = Is_expired
       then expire_interaction (in_household i) (in_id i) (im_external m) (in_version i) (rs_code r)
         (rs_response r) (im_received m)
       else complete_interaction (in_household i) (in_id i) (in_version i) (rs_status r) (rs_code r)
         (rs_response r) (im_received m)) (\<lambda>completed.
    ret (case in_response completed of None \<Rightarrow> rs_response r | Some x \<Rightarrow> x))"

definition stored_or_rethrown :: "inbound_message \<Rightarrow> pending_interaction \<Rightarrow> exn \<Rightarrow>
    (memory_db, final_response) dbm" where
  "stored_or_rethrown m i e =
    bindM (findByResolutionMessage (in_household i) (in_conversation i)
      (case in_message i of None \<Rightarrow> im_external m | Some x \<Rightarrow> x)) (\<lambda>replay.
    case stored_response replay of
      Some x \<Rightarrow> ret x
    | None \<Rightarrow>
        bindM (findInteraction (in_household i) (in_id i)) (\<lambda>current.
        case stored_response current of Some x \<Rightarrow> ret x | None \<Rightarrow> raise e))"

definition completeIfTerminal :: "inbound_message \<Rightarrow> pending_interaction \<Rightarrow> resolution \<Rightarrow>
    (memory_db, final_response) dbm" where
  "completeIfTerminal m i r =
    (if rs_status r = Is_pending then ret (rs_response r)
     else catchM (store_resolution m i r) (stored_or_rethrown m i))"

definition finalize_and_store :: "turn_agent \<Rightarrow> inbound_message \<Rightarrow> pending_interaction \<Rightarrow>
    interaction_status \<Rightarrow> string \<Rightarrow> string \<Rightarrow> (memory_db, final_response) dbm" where
  "finalize_and_store ta m i s code directive =
    bindM (liftE (finalizePendingWorkingMemoryResolution ta m (in_mutation i) s code directive))
      (completeIfTerminal m i)"

definition resolve_and_store :: "hashing \<Rightarrow> turn_agent \<Rightarrow> inbound_message \<Rightarrow> pending_interaction \<Rightarrow>
    decision option \<Rightarrow> (memory_db, final_response) dbm" where
  "resolve_and_store h ta m i dc =
    bindM (resolvePendingWorkingMemoryMutation h ta m (in_mutation i) dc) (completeIfTerminal m i)"

definition expired_directive :: string where
  "expired_directive = ''The proposal expired before it was approved. Do not say it was completed.''"

definition unrecovered_directive :: string where
  "unrecovered_directive = ''The change could not be recovered. Do not say it was completed.''"

definition recover_approved :: "hashing \<Rightarrow> turn_agent \<Rightarrow> inbound_message \<Rightarrow> pending_interaction \<Rightarrow>
    (memory_db, final_response) dbm" where
  "recover_approved h ta m i =
    bindM (attemptM (inspectWorkingMemory h (in_household i) (in_speaker i)) ()) (\<lambda>inspected.
    case inspected of
      Inr (Inr x) \<Rightarrow>
        if workingMemoryMutationEffectIsPresent (mn_document x) (pm_mutation (in_mutation i))
        then finalize_and_store ta m i Is_applied ''working_memory_mutation_recovered''
          ''Confirm that the change was already verified and completed. Do not apply it again.''
        else if mn_revision x \<noteq> pm_revision (in_mutation i)
        then finalize_and_store ta m i Is_stale ''working_memory_revision_stale''
          ''The context changed before recovery. Do not say the change was completed; ask the user to request a fresh review.''
        else resolve_and_store h ta m i (Some Approve)
    | _ \<Rightarrow> finalize_and_store ta m i Is_failed ''working_memory_storage_unavailable'' unrecovered_directive)"

definition recoverResolvingInteraction :: "hashing \<Rightarrow> turn_agent \<Rightarrow> inbound_message \<Rightarrow> pending_interaction \<Rightarrow>
    (memory_db, final_response) dbm" where
  "recoverResolvingInteraction h ta m i =
    bindM now_ms (\<lambda>now.
    if proposalExpired (in_expires i) now
    then finalize_and_store ta m i Is_expired ''working_memory_proposal_expired'' expired_directive
    else (case in_decision i of
        Some Reject \<Rightarrow> resolve_and_store h ta m i (Some Reject)
      | None \<Rightarrow> finalize_and_store ta m i Is_failed ''working_memory_resolution_decision_missing''
          ''The change could not be recovered because the original decision was not recorded. Do not say it was completed; ask the user to review the proposal again.''
      | Some Approve \<Rightarrow>
          if ta_memory ta then recover_approved h ta m i
          else finalize_and_store ta m i Is_failed ''working_memory_storage_unavailable'' unrecovered_directive))"

definition claim_and_resolve :: "hashing \<Rightarrow> turn_agent \<Rightarrow> inbound_message \<Rightarrow> pending_interaction \<Rightarrow>
    decision \<Rightarrow> (memory_db, final_response) dbm" where
  "claim_and_resolve h ta m i dc =
    bindM (claim_interaction (in_household i) (in_id i) (im_external m) dc (in_version i)) (\<lambda>claimed.
    case claimed of
      Claimed_now x \<Rightarrow> resolve_and_store h ta m x (Some dc)
    | Claim_replay x \<Rightarrow>
        (case in_response x of
           Some r \<Rightarrow> ret r
         | None \<Rightarrow>
             if in_status x = Is_resolving then recoverResolvingInteraction h ta m x
             else resolve_and_store h ta m x (Some dc)))"

definition settle_expired :: "hashing \<Rightarrow> turn_agent \<Rightarrow> (inbound_message \<Rightarrow> (memory_db, final_response) dbm) \<Rightarrow>
    inbound_message \<Rightarrow> pending_interaction \<Rightarrow> disposition \<Rightarrow> (memory_db, final_response) dbm" where
  "settle_expired h ta normal m i d =
    (case d of
       Dp_new_intent \<Rightarrow>
         bindM (finalize_and_store ta m i Is_expired ''working_memory_proposal_expired'' expired_directive)
           (\<lambda>_. normal m)
     | Dp_resolve dc \<Rightarrow> resolve_and_store h ta m i (Some dc)
     | Dp_ambiguous \<Rightarrow> resolve_and_store h ta m i None)"

definition settle_open :: "hashing \<Rightarrow> turn_agent \<Rightarrow> (inbound_message \<Rightarrow> (memory_db, final_response) dbm) \<Rightarrow>
    inbound_message \<Rightarrow> pending_interaction \<Rightarrow> disposition \<Rightarrow> (memory_db, final_response) dbm" where
  "settle_open h ta normal m i d =
    (case d of
       Dp_new_intent \<Rightarrow> normal m
     | Dp_ambiguous \<Rightarrow> resolve_and_store h ta m i None
     | Dp_resolve dc \<Rightarrow> claim_and_resolve h ta m i dc)"

definition route_waiting :: "hashing \<Rightarrow> turn_agent \<Rightarrow> (inbound_message \<Rightarrow> (memory_db, final_response) dbm) \<Rightarrow>
    inbound_message \<Rightarrow> (memory_db, final_response) dbm" where
  "route_waiting h ta normal m =
    bindM (findOpen (im_household m) (im_conversation m) (im_principal m)) (\<lambda>waiting.
    case waiting of
      Some i \<Rightarrow>
        if in_status i = Is_resolving then recoverResolvingInteraction h ta m i
        else (case in_response i of
            Some r \<Rightarrow> ret r
          | None \<Rightarrow> bindM (liftE (disposition_of ta m (in_mutation i))) (settle_open h ta normal m i))
    | None \<Rightarrow>
        bindM (findExpired (im_household m) (im_conversation m) (im_principal m)) (\<lambda>expired.
        case expired of
          None \<Rightarrow> normal m
        | Some i \<Rightarrow>
            (case in_response i of
               Some r \<Rightarrow> ret r
             | None \<Rightarrow> bindM (liftE (disposition_of ta m (in_mutation i))) (settle_expired h ta normal m i))))"

definition runConversationTurn :: "hashing \<Rightarrow> turn_agent \<Rightarrow> (inbound_message \<Rightarrow> (memory_db, final_response) dbm) \<Rightarrow>
    inbound_message \<Rightarrow> (memory_db, final_response) dbm" where
  "runConversationTurn h ta normal m =
    bindM (requireM (InboundChannelMessageSchemaV1 m) ZodError) (\<lambda>_.
    bindM (findByResolutionMessage (im_household m) (im_conversation m) (im_external m)) (\<lambda>replay.
    case stored_response replay of
      Some r \<Rightarrow> ret r
    | None \<Rightarrow>
        (case replay of
           Some i \<Rightarrow>
             if in_status i = Is_resolving then recoverResolvingInteraction h ta m i
             else route_waiting h ta normal m
         | None \<Rightarrow> route_waiting h ta normal m)))"

section \<open>Normal turns\<close>

definition interaction_for :: "pending_mutation \<Rightarrow> pending_interaction" where
  "interaction_for p =
    \<lparr>in_id = pm_id p, in_household = pm_household p, in_conversation = pm_conversation p,
     in_speaker = pm_speaker p, in_mutation = p, in_status = Is_pending, in_version = 0,
     in_message = None, in_decision = None, in_code = None, in_response = None,
     in_created = pm_created p, in_expires = pm_expires p, in_resolved = None\<rparr>"

definition persistPendingWorkingMemoryInteraction :: "pending_mutation \<Rightarrow> (memory_db, pending_interaction) dbm" where
  "persistPendingWorkingMemoryInteraction p =
    bindM (liftE (mapPendingInteraction (interaction_for p))) (\<lambda>i.
    catchM (create_interaction i)
      (\<lambda>e.
        if \<not> (is_plus_one e \<and> e_code e = ''pending_interaction_scope_conflict'') then raise e
        else
          bindM (findOpen (pm_household p) (pm_conversation p) (pm_speaker p)) (\<lambda>existing.
          case existing of None \<Rightarrow> raise e | Some x \<Rightarrow> ret x)))"

definition confirmation_reply :: "turn_agent \<Rightarrow> inbound_message \<Rightarrow> pending_mutation \<Rightarrow> exn + final_response" where
  "confirmation_reply ta m p =
    ta_reply ta m \<lparr>se_kind = Ev_confirmation, se_mutation = pm_mutation p, se_directive = confirmation_directive\<rparr>"

text \<open>The agent works on the memory, and answers; a proposal that it has made is stored.\<close>

definition normal_turn :: "hashing \<Rightarrow> turn_agent \<Rightarrow> inbound_message \<Rightarrow> (memory_db, final_response) dbm" where
  "normal_turn h ta m =
    bindM (memory_calls h m (ta_calls ta m) fresh_turn) (\<lambda>turn.
    case mt_pending turn of
      None \<Rightarrow> liftE (ta_answer ta m)
    | Some p \<Rightarrow>
        bindM (liftE (confirmation_reply ta m p)) (\<lambda>response.
        bindM (persistPendingWorkingMemoryInteraction p) (\<lambda>persisted.
        if in_id persisted \<noteq> pm_id p then liftE (confirmation_reply ta m (in_mutation persisted))
        else ret response)))"

definition memory_turn_of :: "hashing \<Rightarrow> turn_agent \<Rightarrow> inbound_message \<Rightarrow> (memory_db, final_response) dbm" where
  "memory_turn_of h ta m = runConversationTurn h ta (normal_turn h ta) m"

end
