(* ===== verification/MemoryFacts.thy ===== *)
theory MemoryFacts
  imports ConfirmationTurns
begin

text \<open>
  What the operations on working memory do. A schema leaves what it has parsed as it is, so a document
  reads back from its JSON. The entries of a saved document are compared without their lifecycles
  (\<open>content\<close>), which loading a document may add. Then, operation by operation, what the session memory
  does to the saved document of a household.
\<close>

section \<open>Schemas are idempotent\<close>

lemma dropWhile_idem: "dropWhile p (dropWhile p xs) = dropWhile p xs"
  by (induction xs) auto

lemma hd_dropWhile_keeps: "xs = [] \<or> \<not> p (hd xs) \<Longrightarrow> dropWhile p xs = xs"
  by (cases xs) auto

lemma trim_idem [simp]: "trim (trim s) = trim s"
proof -
  define u where "u = dropWhile white s"
  define v where "v = dropWhile white (rev u)"
  have u: "u = [] \<or> \<not> white (hd u)"
    using hd_dropWhile[of white s] by (auto simp: u_def)
  obtain ws where ws: "rev u = ws @ v"
    unfolding v_def by (metis takeWhile_dropWhile_id)
  then have "u = rev v @ rev ws"
    by (metis rev_append rev_rev_ident)
  then have "rev v = [] \<or> \<not> white (hd (rev v))"
    using u by (cases "rev v") auto
  then have "dropWhile white (rev v) = rev v"
    by (rule hd_dropWhile_keeps)
  moreover have "dropWhile white v = v"
    by (simp add: v_def dropWhile_idem)
  ultimately show ?thesis
    by (simp add: trim_def flip: u_def v_def)
qed

lemma WorkingMemoryEntrySchema_idem:
  "WorkingMemoryEntrySchema e = Some e' \<Longrightarrow> WorkingMemoryEntrySchema e' = Some e'"
  by (auto simp: WorkingMemoryEntrySchema_def Let_def split: if_splits)

lemma WorkingMemoryEntrySchema_keeps:
  assumes "WorkingMemoryEntrySchema e = Some e'"
  shows "me_kind e' = me_kind e" "me_scope e' = me_scope e" "me_owner e' = me_owner e"
    "me_value e' = me_value e" "me_lifecycle e' = me_lifecycle e"
  using assms by (auto simp: WorkingMemoryEntrySchema_def Let_def split: if_splits)

lemma parse_entries_idem: "parse_entries d = Some d' \<Longrightarrow> parse_entries d' = Some d'"
  by (induction d arbitrary: d' rule: parse_entries.induct)
    (auto simp: WorkingMemoryEntrySchema_idem split: if_splits option.splits)

lemma FlexibleWorkingMemorySchema_idem:
  "FlexibleWorkingMemorySchema d = Some d' \<Longrightarrow> FlexibleWorkingMemorySchema d' = Some d'"
  by (auto simp: FlexibleWorkingMemorySchema_def parse_entries_idem split: option.splits if_splits)

lemma ResolvedWorkingMemoryMutationSchema_idem:
  "ResolvedWorkingMemoryMutationSchema m = Some m' \<Longrightarrow> ResolvedWorkingMemoryMutationSchema m' = Some m'"
  by (auto simp: ResolvedWorkingMemoryMutationSchema_def WorkingMemoryEntrySchema_idem
      split: memory_mutation.splits if_splits)

lemma PendingWorkingMemoryMutationSchema_idem:
  "PendingWorkingMemoryMutationSchema p = Some p' \<Longrightarrow> PendingWorkingMemoryMutationSchema p' = Some p'"
  by (auto simp: PendingWorkingMemoryMutationSchema_def ResolvedWorkingMemoryMutationSchema_idem
      split: option.splits if_splits)

section \<open>Entries\<close>

definition content :: "memory_entry \<Rightarrow> memory_entry" where
  "content e = e\<lparr>me_lifecycle := None\<rparr>"

definition same_content :: "memory_entry \<Rightarrow> memory_entry \<Rightarrow> bool" where
  "same_content e e' \<longleftrightarrow> content e' = content e"

lemma same_content_refl [simp]: "same_content e e"
  by (simp add: same_content_def)

lemma same_content_trans: "same_content a b \<Longrightarrow> same_content b c \<Longrightarrow> same_content a c"
  by (simp add: same_content_def)

lemma same_content_access:
  assumes "same_content e e'"
  shows "canAccessWorkingMemoryEntry e' s = canAccessWorkingMemoryEntry e s"
  using assms
  by (cases e; cases e') (simp add: same_content_def content_def canAccessWorkingMemoryEntry_def)

lemma same_content_comparable:
  "same_content e e' \<Longrightarrow> comparableWorkingMemoryEntry e' = comparableWorkingMemoryEntry e"
  by (simp add: same_content_def content_def comparableWorkingMemoryEntry_def)

lemma same_content_dated: "same_content (snd ie) (snd (dated_entry l ie))"
  by (simp add: same_content_def content_def dated_entry_def)

text \<open>The document that follows has the entries of the first, but for those that \<open>touched\<close> admits.\<close>

definition kept_entries :: "(string \<Rightarrow> memory_entry \<Rightarrow> bool) \<Rightarrow> memory_document \<Rightarrow> memory_document \<Rightarrow> bool" where
  "kept_entries touched d d' \<longleftrightarrow>
    (\<forall>i e. map_of d i = Some e \<longrightarrow> touched i e \<or> (\<exists>e'. map_of d' i = Some e' \<and> same_content e e'))"

lemma kept_entriesD:
  "kept_entries t d d' \<Longrightarrow> map_of d i = Some e \<Longrightarrow> \<not> t i e \<Longrightarrow>
     \<exists>e'. map_of d' i = Some e' \<and> same_content e e'"
  by (auto simp: kept_entries_def)

lemma kept_entries_refl [simp]: "kept_entries t d d"
  by (auto simp: kept_entries_def)

lemma parse_entries_map_of:
  assumes "parse_entries d = Some d'"
  shows "map_of d' i = Option.bind (map_of d i) WorkingMemoryEntrySchema"
  using assms
  by (induction d arbitrary: d' rule: parse_entries.induct) (auto split: if_splits option.splits)

lemma valid_document_entries:
  assumes "FlexibleWorkingMemorySchema d = Some d" and "map_of d i = Some e"
  shows "WorkingMemoryEntrySchema e = Some e"
proof -
  have "parse_entries d = Some d"
    using assms(1) by (auto simp: FlexibleWorkingMemorySchema_def split: option.splits if_splits)
  then show ?thesis
    using parse_entries_map_of[of d d i] assms(2) by simp
qed

lemma FlexibleWorkingMemorySchema_map_of:
  "FlexibleWorkingMemorySchema d = Some d' \<Longrightarrow> map_of d' i = Option.bind (map_of d i) WorkingMemoryEntrySchema"
  by (auto simp: FlexibleWorkingMemorySchema_def parse_entries_map_of split: option.splits if_splits)

text \<open>A schema-valid document with lifecycles added.\<close>

definition redated :: "memory_document \<Rightarrow> memory_document \<Rightarrow> bool" where
  "redated d d' \<longleftrightarrow> FlexibleWorkingMemorySchema d' = Some d'
     \<and> (\<forall>i. rel_option same_content (map_of d i) (map_of d' i))"

lemma redated_refl: "FlexibleWorkingMemorySchema d = Some d \<Longrightarrow> redated d d"
  by (simp add: redated_def option.rel_refl)

lemma redated_trans: "redated a b \<Longrightarrow> redated b c \<Longrightarrow> redated a c"
  unfolding redated_def
  by (smt (verit, best) option.rel_sel same_content_trans)

lemma redated_kept: "redated d d' \<Longrightarrow> kept_entries t d d'"
  unfolding redated_def kept_entries_def by (metis option.rel_sel option.sel option.distinct(1) option.exhaust)

lemma dated_document:
  assumes d: "FlexibleWorkingMemorySchema d = Some d"
    and d': "FlexibleWorkingMemorySchema (map (dated_entry l) d) = Some d'"
  shows "redated d d'"
proof -
  have dated: "map_of (map (dated_entry l) d) i = map_option (\<lambda>e. snd (dated_entry l (i, e))) (map_of d i)" for i
    by (induction d) (auto simp: dated_entry_def)
  have "rel_option same_content (map_of d i) (map_of d' i)" for i
  proof (cases "map_of d i")
    case None
    then show ?thesis
      using FlexibleWorkingMemorySchema_map_of[OF d', of i] by (simp add: dated)
  next
    case (Some e)
    then have "WorkingMemoryEntrySchema e = Some e"
      using d valid_document_entries by blast
    then have "WorkingMemoryEntrySchema (snd (dated_entry l (i, e))) = Some (snd (dated_entry l (i, e)))"
      by (auto simp: WorkingMemoryEntrySchema_def dated_entry_def Let_def split: if_splits)
        (metis (no_types, lifting) memory_entry.surjective memory_entry.update_convs(2,6) memory_entry.select_convs)+
    then show ?thesis
      using FlexibleWorkingMemorySchema_map_of[OF d', of i] Some same_content_dated[of "(i, e)" l]
      by (simp add: dated)
  qed
  then show ?thesis
    using d' by (simp add: redated_def FlexibleWorkingMemorySchema_idem)
qed


section \<open>The effect of a mutation\<close>

text \<open>The entries that a mutation made for a speaker may change.\<close>

definition touches :: "memory_mutation \<Rightarrow> string \<Rightarrow> string \<Rightarrow> memory_entry \<Rightarrow> bool" where
  "touches m speaker i e \<longleftrightarrow>
    (case m of
       Mem_create k x \<Rightarrow> False
     | Mem_replace k x \<Rightarrow> k = i \<and> canAccessWorkingMemoryEntry e speaker
     | Mem_delete k \<Rightarrow> k = i \<and> canAccessWorkingMemoryEntry e speaker
     | Mem_clear \<Rightarrow> True)"

lemma touches_content: "same_content e e' \<Longrightarrow> touches m s i e' = touches m s i e"
  by (simp add: touches_def same_content_access split: memory_mutation.split)

lemma touches_schema:
  "ResolvedWorkingMemoryMutationSchema m = Some m' \<Longrightarrow> touches m' s i e = touches m s i e"
  by (auto simp: ResolvedWorkingMemoryMutationSchema_def touches_def
      split: memory_mutation.splits if_splits)

lemma kept_entries_trans:
  assumes "kept_entries t a b" "kept_entries t b c"
    and "\<And>i e e'. same_content e e' \<Longrightarrow> t i e' = t i e"
  shows "kept_entries t a c"
  using assms unfolding kept_entries_def by (meson same_content_trans)

lemma kept_touched_trans:
  "kept_entries (touches m s) a b \<Longrightarrow> kept_entries (touches m s) b c \<Longrightarrow> kept_entries (touches m s) a c"
  by (rule kept_entries_trans) (auto simp: touches_content)

lemma empty_document_valid [simp]: "FlexibleWorkingMemorySchema [] = Some []"
  by (simp add: FlexibleWorkingMemorySchema_def validateWorkingMemoryDocumentBounds_def document_bytes_def
      document_json_def json_quote_def json_escape_def utf8_length_def int_string_def decimal.simps
      digit_char_def)

lemma accepted_document_Inr:
  assumes "accepted_document x = Inr d'"
  shows "FlexibleWorkingMemorySchema d' = Some d'"
    and "map_of d' i = Option.bind (map_of x i) WorkingMemoryEntrySchema"
  using assms FlexibleWorkingMemorySchema_idem FlexibleWorkingMemorySchema_map_of
  by (auto simp: accepted_document_def split: option.splits)

lemma kept_accepted:
  assumes x: "accepted_document x = Inr d'" and d: "FlexibleWorkingMemorySchema d = Some d"
    and same: "\<And>i e. map_of d i = Some e \<Longrightarrow> t i e \<or> map_of x i = Some e"
  shows "kept_entries t d d'"
  unfolding kept_entries_def
proof (intro allI impI)
  fix i e
  assume e: "map_of d i = Some e"
  then have "WorkingMemoryEntrySchema e = Some e"
    using d valid_document_entries by blast
  then show "t i e \<or> (\<exists>e'. map_of d' i = Some e' \<and> same_content e e')"
    using same[OF e] accepted_document_Inr(2)[OF x, of i] by auto
qed

lemma apply_keeps_entries:
  assumes "applyResolvedWorkingMemoryMutation d m speaker now = Inr d'"
    and "FlexibleWorkingMemorySchema d = Some d"
  shows "FlexibleWorkingMemorySchema d' = Some d'" and "kept_entries (touches m speaker) d d'"
proof -
  obtain m' where m': "ResolvedWorkingMemoryMutationSchema m = Some m'"
    using assms(1) by (auto simp: applyResolvedWorkingMemoryMutation_def split: option.splits)
  have t: "touches m' speaker = touches m speaker"
    using touches_schema[OF m'] by (intro ext)
  have "FlexibleWorkingMemorySchema d' = Some d' \<and> kept_entries (touches m' speaker) d d'"
    using assms m'
    by (auto simp: applyResolvedWorkingMemoryMutation_def touches_def update_conv' delete_conv'
        kept_entries_def[of _ d "[]"] split: option.splits memory_mutation.splits if_splits
        intro: accepted_document_Inr(1) elim!: kept_accepted)
  then show "FlexibleWorkingMemorySchema d' = Some d'" "kept_entries (touches m speaker) d d'"
    by (simp_all add: t)
qed

lemma redated_effect:
  assumes "redated d d'" "workingMemoryMutationEffectIsPresent d m"
  shows "workingMemoryMutationEffectIsPresent d' m"
proof -
  have rel: "rel_option same_content (map_of d i) (map_of d' i)" for i
    using assms(1) by (simp add: redated_def)
  show ?thesis
  proof (cases m)
    case Mem_clear
    then have "map_of d' = Map.empty"
      using assms(2) rel by (auto simp: fun_eq_iff)
    then show ?thesis
      using Mem_clear by simp
  next
    case (Mem_delete i)
    then show ?thesis
      using assms(2) rel[of i] by simp
  next
    case (Mem_create i e)
    then show ?thesis
      using assms(2) rel[of i]
      by (auto simp: has_comparable_def same_content_comparable option_rel_Some1 split: option.splits)
  next
    case (Mem_replace i e)
    then show ?thesis
      using assms(2) rel[of i]
      by (auto simp: has_comparable_def same_content_comparable option_rel_Some1 split: option.splits)
  qed
qed

section \<open>The saved document\<close>

text \<open>Where nothing is stored the document is empty; what is stored in another format is none.\<close>

definition saved_memory :: "memory_db \<Rightarrow> string \<Rightarrow> memory_document option" where
  "saved_memory d hh =
    (case map_of (md_memory d) hh of
       None \<Rightarrow> Some [] | Some None \<Rightarrow> None | Some (Some j) \<Rightarrow> parse_document j)"

lemma saved_memory_valid: "saved_memory d hh = Some doc \<Longrightarrow> FlexibleWorkingMemorySchema doc = Some doc"
  by (auto simp: saved_memory_def parse_document_def bind_eq_Some_conv FlexibleWorkingMemorySchema_idem
      split: option.splits)

lemma saved_memory_put:
  assumes "FlexibleWorkingMemorySchema doc = Some doc"
  shows "saved_memory (d\<lparr>md_memory := AList.update hh (Some (document_json instant_json doc)) (md_memory d)\<rparr>) x
    = (if x = hh then Some doc else saved_memory d x)"
  using assms by (simp add: saved_memory_def update_conv' parse_document_json)

lemma saved_memory_other [simp]:
  "saved_memory (d\<lparr>md_interactions := xs\<rparr>) hh = saved_memory d hh"
  "saved_memory (d\<lparr>md_successes := ns\<rparr>) hh = saved_memory d hh"
  by (simp_all add: saved_memory_def)

text \<open>A step that at most rewrites the document of one household, along a relation.\<close>

type_synonym document_step = "memory_document option \<Rightarrow> memory_document option \<Rightarrow> bool"

definition rewritten :: "string \<Rightarrow> document_step \<Rightarrow> memory_db \<Rightarrow> memory_db \<Rightarrow> bool" where
  "rewritten hh P d d' \<longleftrightarrow> md_households d' = md_households d \<and> md_interactions d' = md_interactions d
     \<and> (\<forall>x. x \<noteq> hh \<longrightarrow> saved_memory d' x = saved_memory d x) \<and> P (saved_memory d hh) (saved_memory d' hh)"

definition only_dated :: document_step where
  "only_dated v v' \<longleftrightarrow> (\<forall>doc. v = Some doc \<longrightarrow> (\<exists>doc'. v' = Some doc' \<and> redated doc doc'))"

definition only_touched :: "memory_mutation \<Rightarrow> string \<Rightarrow> document_step" where
  "only_touched m speaker v v' \<longleftrightarrow>
    (\<forall>doc. v = Some doc \<longrightarrow> (\<exists>doc'. v' = Some doc' \<and> kept_entries (touches m speaker) doc doc'))"

lemma only_dated_refl: "(\<And>doc. v = Some doc \<Longrightarrow> FlexibleWorkingMemorySchema doc = Some doc) \<Longrightarrow> only_dated v v"
  by (auto simp: only_dated_def intro: redated_refl)

lemma only_dated_trans: "only_dated u v \<Longrightarrow> only_dated v x \<Longrightarrow> only_dated u x"
  by (cases u; cases v) (auto simp: only_dated_def intro: redated_trans)

lemma only_dated_touched:
  assumes "only_dated u v" and "only_touched m s v x"
  shows "only_touched m s u x"
  using assms
  by (cases u; cases v)
    (auto simp: only_dated_def only_touched_def intro: kept_touched_trans[OF redated_kept])

lemma only_dated_is_touched: "only_dated u v \<Longrightarrow> only_touched m s u v"
  by (cases u) (auto simp: only_dated_def only_touched_def intro: redated_kept)

lemma rewritten_refl [simp]: "rewritten hh only_dated d d"
  by (simp add: rewritten_def only_dated_refl saved_memory_valid)

lemma rewritten_trans:
  assumes "rewritten hh P a b" "rewritten hh Q b c" and "\<And>u v x. P u v \<Longrightarrow> Q v x \<Longrightarrow> R u x"
  shows "rewritten hh R a c"
  using assms unfolding rewritten_def by metis

lemma rewritten_mono: "rewritten hh P a b \<Longrightarrow> (\<And>u v. P u v \<Longrightarrow> Q u v) \<Longrightarrow> rewritten hh Q a b"
  by (simp add: rewritten_def)

lemma rewritten_put:
  assumes "FlexibleWorkingMemorySchema doc = Some doc" and "P (saved_memory d hh) (Some doc)"
  shows "rewritten hh P d (d\<lparr>md_memory := AList.update hh (Some (document_json instant_json doc)) (md_memory d)\<rparr>)"
  using assms by (simp add: rewritten_def saved_memory_put)

section \<open>The session memory\<close>

lemma dwp_attemptM:
  "dwp m (\<lambda>x d'. Q (Inr x) d') (\<lambda>_ d'. Q (Inl f) d') d \<Longrightarrow> dwp (attemptM m f) Q E d"
  unfolding attemptM_def
  by (intro dwp_catchM dwp_bindM) (auto elim!: dwp_mono intro: dwp_ret)

lemma dwp_unless_failed:
  "dwp m (\<lambda>r d'. (\<forall>x. r = Inl x \<longrightarrow> Q (Inl x) d') \<and> (\<forall>y. r = Inr y \<longrightarrow> dwp (f y) Q E d')) E d \<Longrightarrow>
   dwp (unless_failed m f) Q E d"
  unfolding unless_failed_def
  by (rule dwp_bindM, erule dwp_mono) (auto intro!: dwp_ret split: sum.split)

lemma dwp_fresh_entry_id:
  "(\<And>x. Q x d) \<Longrightarrow> (\<And>e. E e d) \<Longrightarrow> dwp (fresh_entry_id n doc) Q E d"
  by (induction n) (auto simp: Let_def intro!: dwp_rules)

lemma dwp_add_entries:
  "(\<And>x. Q x d) \<Longrightarrow> (\<And>e. E e d) \<Longrightarrow> dwp (add_entries es doc) Q E d"
  by (induction es arbitrary: doc)
    (auto simp del: fresh_entry_id.simps intro!: dwp_ret dwp_bindM dwp_option dwp_raise dwp_fresh_entry_id)

text \<open>What a load has found, and whether it has to be written back.\<close>

definition found_memory :: "memory_document option \<Rightarrow> memory_document \<times> bool \<Rightarrow> bool" where
  "found_memory v x \<longleftrightarrow>
     FlexibleWorkingMemorySchema (fst x) = Some (fst x)
     \<and> (\<forall>doc. v = Some doc \<longrightarrow> redated doc (fst x) \<and> (\<not> snd x \<longrightarrow> doc = fst x))
     \<and> (v = None \<longrightarrow> snd x)"

lemma undated_same: "\<not> list_ex (\<lambda>(i, e). me_lifecycle e = None) d \<Longrightarrow> map (dated_entry l) d = d"
  by (induction d) (auto simp: dated_entry_def)

lemma found_current:
  assumes "parse_document j = Some d"
    and "FlexibleWorkingMemorySchema (map (dated_entry l) d) = Some d'"
  shows "found_memory (Some d) (d', list_ex (\<lambda>(i, e). me_lifecycle e = None) d)"
proof -
  have d: "FlexibleWorkingMemorySchema d = Some d"
    using assms(1) saved_memory_valid[of "undefined\<lparr>md_memory := [([], Some j)]\<rparr>" "[]" d]
    by (simp add: saved_memory_def)
  moreover have "redated d d'"
    using d assms(2) by (rule dated_document)
  moreover have "d = d'" if "\<not> list_ex (\<lambda>(i, e). me_lifecycle e = None) d"
    using undated_same[OF that, of l] assms(2) d by simp
  ultimately show ?thesis
    using FlexibleWorkingMemorySchema_idem[OF assms(2)] by (simp add: found_memory_def)
qed

lemma dwp_decode:
  assumes found: "\<And>x. found_memory (saved_memory d hh) x \<Longrightarrow> Q (Some x) d"
    and "Q None d" and "\<And>e. E e d"
  shows "dwp (decodeStoredWorkingMemory now (map_of (md_memory d) hh)) Q E d"
proof (cases "map_of (md_memory d) hh")
  case None
  then show ?thesis
    using found[of "([], False)"]
    by (simp add: decodeStoredWorkingMemory_def found_memory_def saved_memory_def Let_def dwp_ret redated_refl)
next
  case (Some v)
  show ?thesis
  proof (cases v)
    case None
    then show ?thesis
      using Some assms by (simp add: decodeStoredWorkingMemory_def dwp_ret Let_def)
  next
    case (Some j)
    with \<open>map_of (md_memory d) hh = Some v\<close> have v: "map_of (md_memory d) hh = Some (Some j)"
      by simp
    show ?thesis
    proof (cases "parse_document j")
      case None
      then have "saved_memory d hh = None"
        using v by (simp add: saved_memory_def)
      then have "Q (map_option (\<lambda>d'. (d', True)) (FlexibleWorkingMemorySchema doc)) d" for doc
        using assms FlexibleWorkingMemorySchema_idem[of doc]
        by (cases "FlexibleWorkingMemorySchema doc") (auto simp: found_memory_def)
      then show ?thesis
        using v None assms
        by (auto simp: decodeStoredWorkingMemory_def Let_def intro!: dwp_option dwp_bindM dwp_ret dwp_add_entries)
    next
      case (Some doc)
      then have "saved_memory d hh = Some doc"
        using v by (simp add: saved_memory_def)
      then show ?thesis
        using v Some assms found_current[OF Some]
        by (auto simp: decodeStoredWorkingMemory_def Let_def intro!: dwp_option dwp_ret dwp_raise)
    qed
  qed
qed

lemma dwp_load:
  assumes "\<And>x. found_memory (saved_memory d hh) x \<Longrightarrow> Q (Inr x) d" and "\<And>f. Q (Inl f) d" and "\<And>e. E e d"
  shows "dwp (loadFlexibleWorkingMemory hh) Q E d"
  unfolding loadFlexibleWorkingMemory_def
  by (rule dwp_unless_failed, rule dwp_attemptM, rule dwp_pool_query)
    (auto simp: sql_get_memory_def assms intro!: dwp_bindM dwp_now dwp_decode dwp_ret)

text \<open>Writing a document: it may have happened, and has when the call returns.\<close>

lemma dwp_update_memory:
  assumes "FlexibleWorkingMemorySchema doc = Some doc"
    and "\<And>d' r. rewritten hh (\<lambda>_ v. v = Some doc) d d' \<Longrightarrow> Q r d'" and "\<And>f. Q (Inl f) d"
  shows "dwp (attemptM (updateWorkingMemory hh doc) f) Q E d"
  unfolding updateWorkingMemory_def
  by (rule dwp_attemptM, rule dwp_pool_query)
    (auto simp: sql_put_memory_def intro!: assms rewritten_put)

definition known_memory :: "memory_document option \<Rightarrow> memory_document \<Rightarrow> bool" where
  "known_memory v doc \<longleftrightarrow> FlexibleWorkingMemorySchema doc = Some doc \<and> v = Some doc"

lemma dwp_persistAndVerifyMigration:
  assumes found: "found_memory (saved_memory d hh) (doc, True)"
    and "\<And>d' r. rewritten hh only_dated d d' \<Longrightarrow> (\<And>x. r = Inr x \<Longrightarrow> known_memory (saved_memory d' hh) x) \<Longrightarrow> Q r d'"
    and "\<And>d' e. rewritten hh only_dated d d' \<Longrightarrow> E e d'"
  shows "dwp (persistAndVerifyMigration h hh doc) Q E d"
proof -
  have doc: "FlexibleWorkingMemorySchema doc = Some doc"
    using found by (simp add: found_memory_def)
  have dated: "rewritten hh only_dated d d'" "saved_memory d' hh = Some doc"
    if "rewritten hh (\<lambda>_ v. v = Some doc) d d'" for d'
    using that found by (auto simp: rewritten_def only_dated_def found_memory_def)
  show ?thesis
    unfolding persistAndVerifyMigration_def
    by (rule dwp_unless_failed, rule dwp_update_memory[OF doc])
      (auto simp: dated known_memory_def found_memory_def intro!: assms dwp_bindM dwp_load dwp_ret
        split: sum.splits prod.splits bool.splits if_splits)
qed

lemma known_found: "found_memory v (doc, False) \<Longrightarrow> known_memory v doc"
  by (cases v) (auto simp: found_memory_def known_memory_def)

lemma dwp_loadCurrent:
  assumes "\<And>d' r. rewritten hh only_dated d d' \<Longrightarrow> (\<And>x. r = Inr x \<Longrightarrow> known_memory (saved_memory d' hh) x) \<Longrightarrow> Q r d'"
    and "\<And>d' e. rewritten hh only_dated d d' \<Longrightarrow> E e d'"
  shows "dwp (loadCurrentFlexibleWorkingMemory h hh) Q E d"
  unfolding loadCurrentFlexibleWorkingMemory_def
  by (rule dwp_unless_failed, rule dwp_load)
    (auto simp: known_found intro!: dwp_if dwp_persistAndVerifyMigration dwp_ret assms)

lemma dwp_inspect:
  assumes "\<And>d' r. rewritten hh only_dated d d' \<Longrightarrow>
      (\<And>x. r = Inr x \<Longrightarrow> known_memory (saved_memory d' hh) (mn_document x)
        \<and> mn_revision x = workingMemoryRevision h (mn_document x)
        \<and> mn_visible x = visibleWorkingMemoryEntries (mn_document x) speaker) \<Longrightarrow> Q r d'"
    and "\<And>d' e. rewritten hh only_dated d d' \<Longrightarrow> E e d'"
  shows "dwp (inspectWorkingMemory h hh speaker) Q E d"
  unfolding inspectWorkingMemory_def
  by (rule dwp_unless_failed, rule dwp_loadCurrent) (auto intro!: assms dwp_ret)

lemma rewritten_successes:
  "rewritten hh P d d' \<Longrightarrow> rewritten hh P d (d'\<lparr>md_successes := ns\<rparr>)"
  by (simp add: rewritten_def)

lemma dwp_review:
  assumes "\<And>d' r. rewritten hh only_dated d d' \<Longrightarrow> Q r d'" and "\<And>d' e. rewritten hh only_dated d d' \<Longrightarrow> E e d'"
  shows "dwp (reviewWorkingMemory h hh) Q E d"
  unfolding reviewWorkingMemory_def acknowledgeWorkingMemoryReview_def
  by (rule dwp_unless_failed, rule dwp_loadCurrent)
    (auto intro!: assms dwp_bindM dwp_local_step dwp_ret rewritten_successes)

lemma dwp_note_success:
  assumes "\<And>b ns. Q b (d\<lparr>md_successes := ns\<rparr>)"
  shows "dwp (noteWorkingMemoryMutationSuccess hh) Q E d"
  unfolding noteWorkingMemoryMutationSuccess_def
  by (rule dwp_local_step) (auto simp: Let_def assms)

lemma dwp_mutated_document:
  assumes "\<And>d' r. rewritten hh only_dated d d' \<Longrightarrow>
      (\<And>doc doc'. r = Inr (doc, doc') \<Longrightarrow> known_memory (saved_memory d' hh) doc
        \<and> workingMemoryRevision h doc = based
        \<and> (\<exists>now. applyResolvedWorkingMemoryMutation doc m speaker now = Inr doc')) \<Longrightarrow> Q r d'"
    and "\<And>d' e. rewritten hh only_dated d d' \<Longrightarrow> E e d'"
  shows "dwp (mutated_document h hh speaker based m) Q E d"
  unfolding mutated_document_def
  by (rule dwp_unless_failed, rule dwp_loadCurrent)
    (auto intro!: assms dwp_if dwp_bindM dwp_now dwp_ret split: sum.splits)

lemma dwp_validate:
  assumes "\<And>d' r. rewritten hh only_dated d d' \<Longrightarrow> Q r d'" and "\<And>d' e. rewritten hh only_dated d d' \<Longrightarrow> E e d'"
  shows "dwp (validateWorkingMemoryMutation h hh speaker based m) Q E d"
  unfolding validateWorkingMemoryMutation_def
  by (rule dwp_unless_failed, rule dwp_mutated_document) (auto intro!: assms dwp_ret)

lemma known_touched:
  assumes "known_memory v doc" and "applyResolvedWorkingMemoryMutation doc m speaker now = Inr doc'"
  shows "FlexibleWorkingMemorySchema doc' = Some doc'" and "only_touched m speaker v (Some doc')"
  using assms apply_keeps_entries[OF assms(2)] by (auto simp: known_memory_def only_touched_def)

definition effect_saved :: "memory_db \<Rightarrow> string \<Rightarrow> memory_mutation \<Rightarrow> bool" where
  "effect_saved d hh m \<longleftrightarrow>
    (case saved_memory d hh of None \<Rightarrow> False | Some doc \<Rightarrow> workingMemoryMutationEffectIsPresent doc m)"

lemma effect_saved_dated:
  assumes "effect_saved d hh m" "rewritten x only_dated d d'"
  shows "effect_saved d' hh m"
  using assms redated_effect
  by (cases "x = hh") (force simp: effect_saved_def rewritten_def only_dated_def split: option.splits)+

lemma dwp_applyMutation:
  assumes "\<And>d' r. rewritten hh (only_touched m speaker) d d' \<Longrightarrow>
      (\<And>x. r = Inr x \<Longrightarrow> effect_saved d' hh m) \<Longrightarrow> Q r d'"
    and "\<And>d' e. rewritten hh (only_touched m speaker) d d' \<Longrightarrow> E e d'"
  shows "dwp (applyWorkingMemoryMutation h hh speaker based m) Q E d"
proof -
  have dated: "rewritten hh (only_touched m speaker) d d'" if "rewritten hh only_dated d d'" for d'
    using that only_dated_is_touched by (rule rewritten_mono)
  have written: "rewritten hh (only_touched m speaker) d d''" "saved_memory d'' hh = Some doc'"
    if "rewritten hh only_dated d d'" "known_memory (saved_memory d' hh) doc"
      "applyResolvedWorkingMemoryMutation doc m speaker now = Inr doc'"
      "rewritten hh (\<lambda>_ v. v = Some doc') d' d''" for d' d'' doc doc' now
  proof -
    have "rewritten hh (only_touched m speaker) d' d''"
      using that(4) known_touched(2)[OF that(2,3)] by (auto simp: rewritten_def)
    then show "rewritten hh (only_touched m speaker) d d''"
      using that(1) by (blast intro: rewritten_trans only_dated_touched)
    show "saved_memory d'' hh = Some doc'"
      using that(4) by (simp add: rewritten_def)
  qed
  show ?thesis
    unfolding applyWorkingMemoryMutation_def
    apply (rule dwp_unless_failed, rule dwp_mutated_document)
     apply (auto simp: dated intro!: assms)
    apply (rule dwp_unless_failed, rule dwp_update_memory)
      apply (auto simp: dated written intro!: assms dwp_bindM dwp_load dwp_ret intro: known_touched)
    apply (auto simp: effect_saved_def written found_memory_def split: bool.splits if_splits
        intro: verified_effect)
    done
qed

end
