(* ===== verification/ConfirmationSafety.thy ===== *)
theory ConfirmationSafety
  imports MemoryFacts
begin

text \<open>
  What a turn does to the saved documents and to the interactions. Locale \<open>consented\<close> follows the steps
  of a turn that started in \<open>d0\<close>: until it stores a result, entries are kept or an interaction to which
  somebody has consented changes them, and no interaction becomes applied (\<open>before\<close>); when it stores
  the status applied, the change is in the saved document (\<open>after\<close>).
\<close>

section \<open>Steps\<close>

definition interaction_key ::
  "pending_interaction \<Rightarrow> string \<times> string \<times> string \<times> string \<times> pending_mutation \<times> nat \<times> nat" where
  "interaction_key i = (in_id i, in_household i, in_conversation i, in_speaker i, in_mutation i,
     in_created i, in_expires i)"

definition interaction_moved :: "(pending_interaction \<Rightarrow> bool) \<Rightarrow> pending_interaction \<Rightarrow> pending_interaction \<Rightarrow> bool" where
  "interaction_moved A r r' \<longleftrightarrow> interaction_key r' = interaction_key r
     \<and> (in_decision r = Some Approve \<longrightarrow> in_decision r' = Some Approve)
     \<and> (in_decision r' = Some Approve \<longrightarrow> in_decision r = Some Approve \<or> A r)"

definition interactions_moved :: "(pending_interaction \<Rightarrow> bool) \<Rightarrow> pending_interaction list \<Rightarrow>
    pending_interaction list \<Rightarrow> bool" where
  "interactions_moved A rows rows' \<longleftrightarrow>
     (\<forall>r \<in> set rows. \<exists>r' \<in> set rows'. interaction_moved A r r')
     \<and> (\<forall>r' \<in> set rows'. (\<exists>r \<in> set rows. interaction_moved A r r') \<or> (in_decision r' = Some Approve \<longrightarrow> A r'))"

definition entry_at :: "memory_db \<Rightarrow> string \<Rightarrow> string \<Rightarrow> memory_entry option" where
  "entry_at d hh i = Option.bind (saved_memory d hh) (\<lambda>doc. map_of doc i)"

text \<open>An interaction that changes an entry of its household, made for its speaker.\<close>

definition changes :: "pending_interaction \<Rightarrow> string \<Rightarrow> string \<Rightarrow> memory_entry \<Rightarrow> bool" where
  "changes x hh i e \<longleftrightarrow> in_household x = hh \<and> touches (pm_mutation (in_mutation x)) (in_speaker x) i e"

definition entries_kept :: "(pending_interaction \<Rightarrow> bool) \<Rightarrow> memory_db \<Rightarrow> memory_db \<Rightarrow> bool" where
  "entries_kept A d d' \<longleftrightarrow>
    (\<forall>hh i e. entry_at d hh i = Some e \<longrightarrow>
       (\<exists>e'. entry_at d' hh i = Some e' \<and> same_content e e')
       \<or> (\<exists>x \<in> set (md_interactions d'). changes x hh i e \<and> (in_decision x = Some Approve \<or> A x)))"

definition turn_step :: "(pending_interaction \<Rightarrow> bool) \<Rightarrow> memory_db \<Rightarrow> memory_db \<Rightarrow> bool" where
  "turn_step A d d' \<longleftrightarrow> unique_on in_id (md_interactions d')
     \<and> interactions_moved A (md_interactions d) (md_interactions d') \<and> entries_kept A d d'"

definition was_applied :: "memory_db \<Rightarrow> pending_interaction \<Rightarrow> bool" where
  "was_applied d r \<longleftrightarrow> list_ex (\<lambda>x. in_id x = in_id r \<and> in_status x = Is_applied) (md_interactions d)"

definition nothing_applied :: "memory_db \<Rightarrow> memory_db \<Rightarrow> bool" where
  "nothing_applied d d' \<longleftrightarrow>
    (\<forall>r \<in> set (md_interactions d'). in_status r = Is_applied \<longrightarrow> was_applied d r)"

definition effect_of_interaction :: "memory_db \<Rightarrow> pending_interaction \<Rightarrow> bool" where
  "effect_of_interaction d r \<longleftrightarrow>
    (case PendingWorkingMemoryMutationSchema (in_mutation r) of
       None \<Rightarrow> False | Some p \<Rightarrow> effect_saved d (in_household r) (pm_mutation p))"

definition applied_present :: "memory_db \<Rightarrow> memory_db \<Rightarrow> bool" where
  "applied_present d d' \<longleftrightarrow>
    (\<forall>r \<in> set (md_interactions d').
       in_status r = Is_applied \<longrightarrow> was_applied d r \<or> effect_of_interaction d' r)"

lemma interaction_moved_refl [simp]: "interaction_moved A r r"
  by (simp add: interaction_moved_def)

lemma interactions_moved_refl [simp]: "interactions_moved A rows rows"
  by (auto simp: interactions_moved_def intro: interaction_moved_refl)

lemma entries_kept_same: "(\<And>hh. saved_memory d' hh = saved_memory d hh) \<Longrightarrow> entries_kept A d d'"
  by (auto simp: entries_kept_def entry_at_def)

lemma changes_key: "interaction_key x' = interaction_key x \<Longrightarrow> changes x' hh i e = changes x hh i e"
  by (simp add: changes_def interaction_key_def)

lemma nothing_applied_trans: "nothing_applied a b \<Longrightarrow> nothing_applied b c \<Longrightarrow> nothing_applied a c"
  unfolding nothing_applied_def was_applied_def list_ex_iff by metis

lemma nothing_then_present: "nothing_applied a b \<Longrightarrow> applied_present b c \<Longrightarrow> applied_present a c"
  unfolding nothing_applied_def applied_present_def was_applied_def list_ex_iff by metis

lemma nothing_is_present: "nothing_applied a b \<Longrightarrow> applied_present a b"
  by (auto simp: nothing_applied_def applied_present_def)

lemma nothing_applied_same [simp]: "md_interactions d' = md_interactions d \<Longrightarrow> nothing_applied d d'"
  by (auto simp: nothing_applied_def was_applied_def list_ex_iff)

section \<open>What a reader holds\<close>

text \<open>An interaction as it was read: a row of the table, through the schema.\<close>

definition held :: "memory_db \<Rightarrow> pending_interaction \<Rightarrow> bool" where
  "held d i \<longleftrightarrow> (\<exists>r \<in> set (md_interactions d). PendingInteractionSchemaV1 r = Some i)"

lemma held_same: "md_interactions d' = md_interactions d \<Longrightarrow> held d' i = held d i"
  by (simp add: held_def)

lemma resolution_evidence_mutation [simp]:
  "resolution_evidence (r\<lparr>in_mutation := p\<rparr>) = resolution_evidence r"
  by (cases "in_status r") (simp_all add: resolution_evidence_def)

lemma proposal_fields:
  assumes "PendingWorkingMemoryMutationSchema p = Some p'"
  shows "pm_household p' = pm_household p" "pm_conversation p' = pm_conversation p"
    "pm_speaker p' = pm_speaker p" "pm_revision p' = pm_revision p" "pm_expires p' = pm_expires p"
    "ResolvedWorkingMemoryMutationSchema (pm_mutation p) = Some (pm_mutation p')"
  using assms by (auto simp: PendingWorkingMemoryMutationSchema_def split: option.splits if_splits)

lemma schema_row:
  assumes "PendingInteractionSchemaV1 r = Some i"
  shows "PendingWorkingMemoryMutationSchema (in_mutation r) = Some (in_mutation i)"
    and "i = r\<lparr>in_mutation := in_mutation i\<rparr>" and "resolution_evidence i" and "matches_proposal r"
  using assms
  by (auto simp: PendingInteractionSchemaV1_def split: option.splits if_splits)

lemma schema_fields:
  assumes "PendingInteractionSchemaV1 r = Some i"
  shows "in_id i = in_id r" "in_household i = in_household r" "in_conversation i = in_conversation r"
    "in_speaker i = in_speaker r" "in_status i = in_status r" "in_decision i = in_decision r"
    "in_response i = in_response r" "in_message i = in_message r"
  using assms by (auto simp: PendingInteractionSchemaV1_def split: option.splits if_splits)

lemma schema_parties:
  assumes "PendingInteractionSchemaV1 r = Some i"
  shows "pm_household (in_mutation i) = in_household r" "pm_speaker (in_mutation i) = in_speaker r"
  using proposal_fields[OF schema_row(1)[OF assms]] schema_row(4)[OF assms]
  by (simp_all add: matches_proposal_def Let_def)

lemma schema_touches:
  assumes "PendingInteractionSchemaV1 r = Some i"
  shows "touches (pm_mutation (in_mutation i)) = touches (pm_mutation (in_mutation r))"
  using proposal_fields(6)[OF schema_row(1)[OF assms]] by (intro ext) (simp add: touches_schema)

lemma map_row_Inr: "map_row row = Inr (Some i) \<longleftrightarrow> (\<exists>r. row = Some r \<and> PendingInteractionSchemaV1 r = Some i)"
  by (auto simp: map_row_def mapPendingInteraction_def split: option.splits sum.splits)

lemma mapPending_Inr: "mapPendingInteraction r = Inr i \<longleftrightarrow> PendingInteractionSchemaV1 r = Some i"
  by (simp add: mapPendingInteraction_def split: option.splits)

text \<open>The four reads.\<close>

lemma dwp_find_row:
  assumes "\<And>t x d'. f t d = Inr (x, d') \<Longrightarrow> d' = d \<and> (\<forall>r. x = Some r \<longrightarrow> r \<in> set (md_interactions d) \<and> P t r)"
    and "\<And>t e. f t d \<noteq> Inl e" and "Q None d"
    and "\<And>t r i. r \<in> set (md_interactions d) \<Longrightarrow> P t r \<Longrightarrow> PendingInteractionSchemaV1 r = Some i \<Longrightarrow> Q (Some i) d"
    and "\<And>e. E e d"
  shows "dwp (bindM (pool_query f) (\<lambda>row. liftE (map_row row))) Q E d"
proof (intro dwp_bindM dwp_pool_query dwp_liftE)
  fix t x d' v
  assume f: "f t d = Inr (x, d')" and v: "map_row x = Inr v"
  show "Q v d'"
    using assms(1)[OF f] v assms(3,4)
    by (cases v) (auto simp: map_row_Inr)
qed (use assms in blast)+

lemma dwp_findResolution:
  assumes "Q None d" and "\<And>e. E e d"
    and "\<And>i. held d i \<Longrightarrow> in_scope hh conversation (in_speaker i) i \<Longrightarrow> in_message i = Some message \<Longrightarrow> Q (Some i) d"
  shows "dwp (findByResolutionMessage hh conversation message) Q E d"
  unfolding findByResolutionMessage_def
  by (rule dwp_find_row[where P = "\<lambda>_. resolved_by hh conversation message"])
    (auto simp: sql_find_resolution_def resolved_by_def in_scope_def held_def schema_fields
      dest!: find_SomeD intro!: assms)

lemma dwp_findInteraction:
  assumes "Q None d" and "\<And>e. E e d"
    and "\<And>i. held d i \<Longrightarrow> in_id i = iid \<Longrightarrow> in_household i = hh \<Longrightarrow> Q (Some i) d"
  shows "dwp (findInteraction hh iid) Q E d"
  unfolding findInteraction_def
  by (rule dwp_find_row[where P = "\<lambda>_. identified hh iid"])
    (auto simp: sql_find_interaction_def identified_def held_def schema_fields
      dest!: find_SomeD intro!: assms)

lemma dwp_findOpen:
  assumes "Q None d" and "\<And>e. E e d"
    and "\<And>i. held d i \<Longrightarrow> in_scope hh conversation speaker i \<Longrightarrow> open_interaction i \<Longrightarrow> Q (Some i) d"
  shows "dwp (findOpen hh conversation speaker) Q E d"
  unfolding findOpen_def
  by (rule dwp_find_row[where P = "\<lambda>_ i. in_scope hh conversation speaker i \<and> open_interaction i"])
    (auto simp: sql_find_open_def held_def in_scope_def open_interaction_def schema_fields
      dest!: find_SomeD intro!: assms)

lemma dwp_findExpired:
  assumes "Q None d" and "\<And>e. E e d"
    and "\<And>i. held d i \<Longrightarrow> in_scope hh conversation speaker i \<Longrightarrow> open_interaction i \<Longrightarrow> Q (Some i) d"
  shows "dwp (findExpired hh conversation speaker) Q E d"
  unfolding findExpired_def
  by (rule dwp_find_row[where P = "\<lambda>_ i. in_scope hh conversation speaker i \<and> open_interaction i"])
    (auto simp: sql_find_expired_def held_def in_scope_def open_interaction_def schema_fields
      dest!: find_SomeD intro!: assms)

section \<open>Steps of a turn\<close>

definition before :: "(pending_interaction \<Rightarrow> bool) \<Rightarrow> memory_db \<Rightarrow> memory_db \<Rightarrow> bool" where
  "before A d d' \<longleftrightarrow> turn_step A d d' \<and> nothing_applied d d'"

definition after :: "(pending_interaction \<Rightarrow> bool) \<Rightarrow> memory_db \<Rightarrow> memory_db \<Rightarrow> bool" where
  "after A d d' \<longleftrightarrow> turn_step A d d' \<and> applied_present d d'"

lemma before_is_after: "before A d d' \<Longrightarrow> after A d d'"
  by (simp add: before_def after_def nothing_is_present)

lemma before_refl: "unique_on in_id (md_interactions d) \<Longrightarrow> before A d d"
  by (simp add: before_def turn_step_def entries_kept_same)

lemma before_unique: "before A d d' \<Longrightarrow> unique_on in_id (md_interactions d')"
  by (simp add: before_def turn_step_def)

lemma rewritten_entry:
  assumes "rewritten hh P d d'" and "x \<noteq> hh"
  shows "entry_at d' x i = entry_at d x i"
  using assms by (simp add: entry_at_def rewritten_def)

lemma rewritten_before:
  assumes "unique_on in_id (md_interactions d)" and r: "rewritten hh (only_touched m s) d d'"
    and x: "\<And>i e. touches m s i e \<Longrightarrow>
      \<exists>x \<in> set (md_interactions d). changes x hh i e \<and> (in_decision x = Some Approve \<or> A x)"
  shows "before A d d'"
proof -
  have same: "md_interactions d' = md_interactions d"
    using r by (simp add: rewritten_def)
  have "entries_kept A d d'"
    unfolding entries_kept_def
  proof (intro allI impI)
    fix hh' i e
    assume e: "entry_at d hh' i = Some e"
    show "(\<exists>e'. entry_at d' hh' i = Some e' \<and> same_content e e')
      \<or> (\<exists>x \<in> set (md_interactions d'). changes x hh' i e \<and> (in_decision x = Some Approve \<or> A x))"
    proof (cases "hh' = hh")
      case True
      then obtain doc doc' where "saved_memory d hh = Some doc" "map_of doc i = Some e"
          "saved_memory d' hh = Some doc'" "kept_entries (touches m s) doc doc'"
        using e r by (auto simp: entry_at_def bind_eq_Some_conv rewritten_def only_touched_def)
      then show ?thesis
        using x[of i e] True same by (auto simp: entry_at_def kept_entries_def)
    next
      case False
      then show ?thesis
        using rewritten_entry[OF r False, of i] e by simp
    qed
  qed
  then show ?thesis
    using assms(1) same by (simp add: before_def turn_step_def)
qed

lemma dated_before:
  assumes "unique_on in_id (md_interactions d)" and "rewritten hh only_dated d d'"
  shows "before A d d'"
proof -
  have "rewritten hh (only_touched (Mem_create [] undefined) []) d d'"
    using assms(2) only_dated_is_touched by (rule rewritten_mono)
  from rewritten_before[OF assms(1) this] show ?thesis
    by (simp add: touches_def)
qed

lemma successes_before:
  "unique_on in_id (md_interactions d) \<Longrightarrow> before A d (d\<lparr>md_successes := ns\<rparr>)"
  by (simp add: before_def turn_step_def entries_kept_same)

definition updated_rows :: "(pending_interaction \<Rightarrow> bool) \<Rightarrow> (pending_interaction \<Rightarrow> pending_interaction) \<Rightarrow>
    memory_db \<Rightarrow> memory_db" where
  "updated_rows p f d = d\<lparr>md_interactions := update_where p f (md_interactions d)\<rparr>"

lemma update_step:
  assumes "unique_on in_id (md_interactions d)"
    and m: "\<And>r. r \<in> set (md_interactions d) \<Longrightarrow> p r \<Longrightarrow> interaction_moved A r (f r)"
  shows "turn_step A d (updated_rows p f d)"
proof -
  have "in_id (if p r then f r else r) = in_id r" if "r \<in> set (md_interactions d)" for r
    using m[OF that] by (simp add: interaction_moved_def interaction_key_def)
  then have "map in_id (update_where p f (md_interactions d)) = map in_id (md_interactions d)"
    unfolding update_where_def by (simp add: map_eq_conv)
  then have "unique_on in_id (update_where p f (md_interactions d))"
    using assms(1) by (simp add: unique_on_def)
  moreover have "interactions_moved A (md_interactions d) (update_where p f (md_interactions d))"
  proof -
    have "\<exists>r' \<in> set (update_where p f (md_interactions d)). interaction_moved A r r'"
      if r: "r \<in> set (md_interactions d)" for r
      using m[OF r] r unfolding set_update_where by (cases "p r") (auto intro: interaction_moved_refl)
    then show ?thesis
      using m unfolding interactions_moved_def set_update_where by (auto intro: interaction_moved_refl)
  qed
  ultimately show ?thesis
    by (simp add: turn_step_def entries_kept_same updated_rows_def)
qed

lemma updated_row: "r' \<in> set (md_interactions (updated_rows p f d)) \<Longrightarrow>
    r' \<in> set (md_interactions d) \<or> (\<exists>r \<in> set (md_interactions d). p r \<and> r' = f r)"
  by (auto simp: updated_rows_def set_update_where)

lemma nothing_applied_update:
  assumes "\<And>r. r \<in> set (md_interactions d) \<Longrightarrow> p r \<Longrightarrow> in_status (f r) \<noteq> Is_applied"
  shows "nothing_applied d (updated_rows p f d)"
  unfolding nothing_applied_def
proof (intro ballI impI)
  fix r'
  assume "r' \<in> set (md_interactions (updated_rows p f d))" "in_status r' = Is_applied"
  then have "r' \<in> set (md_interactions d)"
    using updated_row[of r' p f d] assms by auto
  then show "was_applied d r'"
    using \<open>in_status r' = Is_applied\<close> by (auto simp: was_applied_def list_ex_iff)
qed

lemma effect_updated [simp]:
  "effect_saved (updated_rows p f d) hh m = effect_saved d hh m"
  by (simp add: updated_rows_def effect_saved_def)

lemma dwp_update_rows:
  assumes "Q None d" "\<And>e. E e d" and "\<And>t e. E e (updated_rows (p t) f d)"
    and "\<And>t r. r \<in> set (md_interactions d) \<Longrightarrow> p t r \<Longrightarrow> Q (Some (f r)) (updated_rows (p t) f d)"
  shows "dwp (pool_query (\<lambda>t. sql_update_interaction (p t) f t)) Q E d"
  by (rule dwp_pool_query)
    (auto simp: sql_update_interaction_def Let_def updated_rows_def[symmetric] assms
      dest!: find_SomeD split: option.splits if_splits)

lemma dwp_updated_or_conflict:
  assumes "\<And>e. E e d" and "\<And>t e. E e (updated_rows (p t) f d)" and "\<And>t x. Q x (updated_rows (p t) f d)"
  shows "dwp (bindM (pool_query (\<lambda>t. sql_update_interaction (p t) f t)) (\<lambda>row. liftE (updated_or_conflict row))) Q E d"
  by (rule dwp_bindM, rule dwp_update_rows, rule_tac[!] assms dwp_liftE)
    (simp_all add: updated_or_conflict_def assms)

lemma resolved_row:
  "interaction_key (resolved_interaction s c x t r) = interaction_key r
   \<and> in_decision (resolved_interaction s c x t r) = in_decision r
   \<and> in_status (resolved_interaction s c x t r) = s"
  by (simp add: resolved_interaction_def interaction_key_def)

lemma expired_row:
  "interaction_key (expired_interaction msg c x t r) = interaction_key r
   \<and> in_decision (expired_interaction msg c x t r) = in_decision r
   \<and> in_status (expired_interaction msg c x t r) = Is_expired"
  by (simp add: expired_interaction_def resolved_interaction_def interaction_key_def)

lemma completable_id: "completable_interaction hh iid v r \<Longrightarrow> in_id r = iid"
  by (simp add: completable_interaction_def identified_def)

lemma expirable_id: "expirable_interaction hh iid v now r \<Longrightarrow> in_id r = iid"
  by (simp add: expirable_interaction_def identified_def)

locale consented =
  fixes A :: "pending_interaction \<Rightarrow> bool" and d0 :: memory_db
  assumes A_key: "interaction_key r' = interaction_key r \<Longrightarrow> A r' = A r"
    and A_schema: "PendingInteractionSchemaV1 r = Some i \<Longrightarrow> A i = A r"
begin

lemma interaction_moved_trans: "interaction_moved A a b \<Longrightarrow> interaction_moved A b c \<Longrightarrow> interaction_moved A a c"
  using A_key[of b a] by (auto simp: interaction_moved_def)

lemma interactions_moved_trans:
  assumes "interactions_moved A a b" "interactions_moved A b c"
  shows "interactions_moved A a c"
proof -
  have "(\<exists>r \<in> set a. interaction_moved A r z) \<or> (in_decision z = Some Approve \<longrightarrow> A z)" if "z \<in> set c" for z
  proof (cases "\<exists>y \<in> set b. interaction_moved A y z")
    case True
    then obtain y where y: "y \<in> set b" "interaction_moved A y z" by blast
    have "(\<exists>r \<in> set a. interaction_moved A r y) \<or> (in_decision y = Some Approve \<longrightarrow> A y)"
      using assms(1) y(1) by (simp add: interactions_moved_def)
    then show ?thesis
      using interaction_moved_trans[OF _ y(2)] A_key[of z y] y(2) by (auto simp: interaction_moved_def)
  next
    case False
    then show ?thesis using assms(2) that by (auto simp: interactions_moved_def)
  qed
  moreover have "\<exists>z \<in> set c. interaction_moved A r z" if "r \<in> set a" for r
    using assms that interaction_moved_trans unfolding interactions_moved_def by meson
  ultimately show ?thesis by (simp add: interactions_moved_def)
qed

lemma moved_consent:
  assumes "interactions_moved A (md_interactions b) (md_interactions c)" and "x \<in> set (md_interactions b)"
    and "changes x hh i e" "in_decision x = Some Approve \<or> A x"
  shows "\<exists>z \<in> set (md_interactions c). changes z hh i e \<and> (in_decision z = Some Approve \<or> A z)"
proof -
  obtain z where "z \<in> set (md_interactions c)" "interaction_moved A x z"
    using assms(1,2) by (auto simp: interactions_moved_def)
  moreover have "interaction_key z = interaction_key x" "in_decision x = Some Approve \<longrightarrow> in_decision z = Some Approve"
    using \<open>interaction_moved A x z\<close> by (simp_all add: interaction_moved_def)
  ultimately show ?thesis
    using assms(3,4) changes_key[of z x] A_key[of z x] by auto
qed

lemma entries_kept_trans:
  assumes "entries_kept A a b" "entries_kept A b c"
    and "interactions_moved A (md_interactions b) (md_interactions c)"
  shows "entries_kept A a c"
  unfolding entries_kept_def
proof (intro allI impI)
  fix hh i e
  assume "entry_at a hh i = Some e"
  then consider (kept) e' where "entry_at b hh i = Some e'" "same_content e e'"
    | (changed) x where "x \<in> set (md_interactions b)" "changes x hh i e" "in_decision x = Some Approve \<or> A x"
    using assms(1) unfolding entries_kept_def by meson
  then show "(\<exists>e'. entry_at c hh i = Some e' \<and> same_content e e')
    \<or> (\<exists>x \<in> set (md_interactions c). changes x hh i e \<and> (in_decision x = Some Approve \<or> A x))"
  proof cases
    case kept
    then have same: "changes x hh i e' = changes x hh i e" for x
      by (simp add: changes_def touches_content)
    have "(\<exists>e''. entry_at c hh i = Some e'' \<and> same_content e' e'')
        \<or> (\<exists>x \<in> set (md_interactions c). changes x hh i e' \<and> (in_decision x = Some Approve \<or> A x))"
      using assms(2) kept(1) unfolding entries_kept_def by blast
    then show ?thesis
      unfolding same using same_content_trans[OF kept(2)] by blast
  next
    case changed
    then show ?thesis using moved_consent[OF assms(3)] by blast
  qed
qed

lemma turn_step_trans: "turn_step A a b \<Longrightarrow> turn_step A b c \<Longrightarrow> turn_step A a c"
  unfolding turn_step_def using interactions_moved_trans entries_kept_trans by blast

lemma before_trans: "before A a b \<Longrightarrow> before A b c \<Longrightarrow> before A a c"
  unfolding before_def using turn_step_trans nothing_applied_trans by blast

lemma before_then_after: "before A a b \<Longrightarrow> after A b c \<Longrightarrow> after A a c"
  unfolding before_def after_def using turn_step_trans nothing_then_present by blast

lemma before_dated: "before A d0 d \<Longrightarrow> rewritten hh only_dated d d' \<Longrightarrow> before A d0 d'"
  using before_trans dated_before before_unique by blast

lemma before_successes: "before A d0 d \<Longrightarrow> before A d0 (d\<lparr>md_successes := ns\<rparr>)"
  using before_trans successes_before before_unique by blast

lemma held_row:
  assumes "before A d0 d" "held d i" "r \<in> set (md_interactions d)" "in_id r = in_id i"
  shows "PendingInteractionSchemaV1 r = Some i"
proof -
  obtain x where x: "x \<in> set (md_interactions d)" "PendingInteractionSchemaV1 x = Some i"
    using assms(2) by (auto simp: held_def)
  then have "r = x"
    using before_unique[OF assms(1)] assms(3,4) schema_fields(1) unique_onD by metis
  then show ?thesis using x by simp
qed

text \<open>Claiming an interaction.\<close>

lemma claim_before:
  assumes b: "before A d0 d" and i: "held d i" "in_decision i = None" "dc = Approve \<Longrightarrow> A i"
  shows "before A d0 (updated_rows (claimable_interaction (in_household i) (in_id i) v) (claimed_interaction msg dc) d)"
proof -
  have "interaction_moved A r (claimed_interaction msg dc r)"
    if "r \<in> set (md_interactions d)" "claimable_interaction (in_household i) (in_id i) v r" for r
  proof -
    have "PendingInteractionSchemaV1 r = Some i"
      using held_row[OF b i(1) that(1)] that(2) by (simp add: claimable_interaction_def identified_def)
    then show ?thesis
      using A_schema i schema_fields(6) by (auto simp: interaction_moved_def interaction_key_def claimed_interaction_def)
  qed
  then have "turn_step A d (updated_rows (claimable_interaction (in_household i) (in_id i) v) (claimed_interaction msg dc) d)"
    by (rule update_step[OF before_unique[OF b]])
  moreover have "nothing_applied d (updated_rows (claimable_interaction (in_household i) (in_id i) v) (claimed_interaction msg dc) d)"
    by (rule nothing_applied_update) (simp add: claimed_interaction_def)
  ultimately have "before A d (updated_rows (claimable_interaction (in_household i) (in_id i) v) (claimed_interaction msg dc) d)"
    by (simp add: before_def)
  with b show ?thesis
    by (rule before_trans)
qed

lemma claimed_held:
  assumes "r \<in> set (md_interactions d)" "p r" "PendingInteractionSchemaV1 (f r) = Some i"
  shows "held (updated_rows p f d) i"
  using assms by (auto simp: held_def updated_rows_def set_update_where)

lemma dwp_claim:
  assumes b: "before A d0 d" and i: "held d i" "in_decision i = None" "dc = Approve \<Longrightarrow> A i"
    and now: "\<And>x d'. before A d0 d' \<Longrightarrow> held d' x \<Longrightarrow> in_decision x = Some dc \<Longrightarrow> Q (Claimed_now x) d'"
    and replay: "\<And>x d'. before A d0 d' \<Longrightarrow> held d' x \<Longrightarrow> in_message x = Some msg \<Longrightarrow> Q (Claim_replay x) d'"
    and E: "\<And>e d'. before A d0 d' \<Longrightarrow> E e d'"
  shows "dwp (claim_interaction (in_household i) (in_id i) msg dc v) Q E d"
  unfolding claim_interaction_def
proof (rule dwp_bindM, rule dwp_update_rows[where p = "\<lambda>_. claimable_interaction (in_household i) (in_id i) v"],
    goal_cases)
  case 1
  show ?case
    by (simp, rule dwp_bindM, rule dwp_findInteraction) (auto intro!: dwp_raise dwp_ret E replay b)
next
  case (2 e)
  show ?case by (rule E[OF b])
next
  case (3 t e)
  show ?case by (rule E[OF claim_before[OF b i]])
next
  case (4 t r)
  have "dwp (bindM (liftE (mapPendingInteraction (claimed_interaction msg dc r))) (\<lambda>i. ret (Claimed_now i))) Q E
      (updated_rows (claimable_interaction (in_household i) (in_id i) v) (claimed_interaction msg dc) d)"
  proof (intro dwp_bindM dwp_liftE dwp_ret)
    fix x
    assume "mapPendingInteraction (claimed_interaction msg dc r) = Inr x"
    then have x: "PendingInteractionSchemaV1 (claimed_interaction msg dc r) = Some x"
      by (simp add: mapPending_Inr)
    have "held (updated_rows (claimable_interaction (in_household i) (in_id i) v) (claimed_interaction msg dc) d) x"
      using claimed_held[where r = r and d = d and i = x and p = "claimable_interaction (in_household i) (in_id i) v"
          and f = "claimed_interaction msg dc"] 4 x by simp
    moreover have "in_decision x = Some dc"
      using schema_fields(6)[OF x] by (simp add: claimed_interaction_def)
    ultimately show "Q (Claimed_now x) (updated_rows (claimable_interaction (in_household i) (in_id i) v) (claimed_interaction msg dc) d)"
      using now[OF claim_before[OF b i]] by blast
  qed (rule E[OF claim_before[OF b i]])
  then show ?case by simp
qed

text \<open>Applying a change that the interaction of the change has been approved for.\<close>

lemma consented_rewrite:
  assumes b: "before A d0 d" and i: "held d i" "in_decision i = Some Approve \<or> A i"
    and r: "rewritten (in_household i) (only_touched (pm_mutation (in_mutation i)) (in_speaker i)) d d'"
  shows "before A d0 d'"
proof -
  obtain x where x: "x \<in> set (md_interactions d)" "PendingInteractionSchemaV1 x = Some i"
    using i(1) by (auto simp: held_def)
  have "changes x (in_household i) k e" if "touches (pm_mutation (in_mutation i)) (in_speaker i) k e" for k e
    using that schema_touches[OF x(2)] schema_fields[OF x(2)] by (simp add: changes_def)
  then have "before A d d'"
    using rewritten_before[OF before_unique[OF b] r] x i(2) A_schema schema_fields(6) by metis
  then show ?thesis
    using b before_trans by blast
qed

lemma held_rewritten: "held d i \<Longrightarrow> rewritten hh P d d' \<Longrightarrow> held d' i"
  by (simp add: held_def rewritten_def)

lemma held_successes [simp]: "held (d\<lparr>md_successes := ns\<rparr>) i = held d i"
  by (simp add: held_def)

definition effect_held :: "memory_db \<Rightarrow> pending_interaction \<Rightarrow> bool" where
  "effect_held d i \<longleftrightarrow> effect_saved d (in_household i) (pm_mutation (in_mutation i))"

lemma effect_successes [simp]: "effect_saved (d\<lparr>md_successes := ns\<rparr>) hh m = effect_saved d hh m"
  by (simp add: effect_saved_def)

text \<open>What a resolution promises before it is stored.\<close>

definition resolving :: "pending_interaction \<Rightarrow> resolution \<Rightarrow> memory_db \<Rightarrow> bool" where
  "resolving i r d \<longleftrightarrow> before A d0 d \<and> held d i \<and> (rs_status r = Is_applied \<longrightarrow> effect_held d i)"

lemma resolved_as_status: "resolved_as ta m p s c k dir = Inr r \<Longrightarrow> rs_status r = s"
  by (auto simp: resolved_as_def split: sum.splits)

lemma finalized_status:
  "finalizePendingWorkingMemoryResolution ta m p s c dir = Inr r \<Longrightarrow> rs_status r = s"
  by (auto simp: finalizePendingWorkingMemoryResolution_def dest: resolved_as_status)

lemma failed_status: "failed_application ta m p c = Inr r \<Longrightarrow> rs_status r \<noteq> Is_applied"
  by (auto simp: failed_application_def dest!: finalized_status split: if_splits)

lemma dwp_attempted:
  assumes b: "before A d0 d" "held d i" "in_decision i = Some Approve \<or> A i"
    and who: "im_household m = in_household i" "im_principal m = in_speaker i"
    and Q: "\<And>r d'. before A d0 d' \<Longrightarrow> held d' i \<Longrightarrow> (\<And>x. r = Inr (Inr x) \<Longrightarrow> effect_held d' i) \<Longrightarrow> Q r d'"
  shows "dwp (attempted_application h m (in_mutation i)) Q E d"
  unfolding attempted_application_def who
  by (rule dwp_catchM, rule dwp_bindM, rule dwp_applyMutation)
    (auto intro!: dwp_ret Q consented_rewrite[OF b] held_rewritten[OF b(2)] simp: effect_held_def)

lemma reviewed:
  assumes "before A d0 d" "held d i" "effect_held d i" "rewritten hh only_dated (d\<lparr>md_successes := ns\<rparr>) d'"
  shows "before A d0 d'" "held d' i" "effect_held d' i"
  using assms effect_saved_dated[OF _ assms(4)] before_dated[OF before_successes assms(4)]
    held_rewritten[OF _ assms(4)]
  by (simp_all add: effect_held_def)

lemma dwp_reviewed:
  assumes b: "before A d0 d" "held d i" "effect_held d i"
    and F: "\<And>d'. before A d0 d' \<Longrightarrow> held d' i \<Longrightarrow> effect_held d' i \<Longrightarrow> dwp F Q E d'"
    and E: "\<And>e d'. before A d0 d' \<Longrightarrow> E e d'"
  shows "dwp (bindM (noteWorkingMemoryMutationSuccess hh) (\<lambda>due.
      bindM (if due then bindM (reviewWorkingMemory h hh) (\<lambda>_. ret ()) else ret ()) (\<lambda>_. F))) Q E d"
proof (intro dwp_bindM dwp_note_success)
  fix due ns
  have "before A d0 (d\<lparr>md_successes := ns\<rparr>)" "held (d\<lparr>md_successes := ns\<rparr>) i" "effect_held (d\<lparr>md_successes := ns\<rparr>) i"
    using b before_successes by (simp_all add: effect_held_def)
  note same = this
  have "dwp (bindM (reviewWorkingMemory h hh) (\<lambda>_. ret ())) (\<lambda>_. dwp F Q E) E (d\<lparr>md_successes := ns\<rparr>)"
    by (rule dwp_bindM, rule dwp_review) (rule dwp_ret F E reviewed[OF b] | assumption)+
  then show "dwp (if due then bindM (reviewWorkingMemory h hh) (\<lambda>_. ret ()) else ret ()) (\<lambda>_. dwp F Q E) E
      (d\<lparr>md_successes := ns\<rparr>)"
    using F[OF same] by (auto intro: dwp_ret)
qed

lemma dwp_apply_approved:
  assumes b: "before A d0 d" "held d i" "in_decision i = Some Approve \<or> A i"
    and who: "im_household m = in_household i" "im_principal m = in_speaker i"
    and Q: "\<And>r d'. resolving i r d' \<Longrightarrow> Q r d'" and E: "\<And>e d'. before A d0 d' \<Longrightarrow> E e d'"
  shows "dwp (apply_approved h ta m (in_mutation i)) Q E d"
  unfolding apply_approved_def
  apply (rule dwp_bindM, rule dwp_attempted[OF b who])
  subgoal premises prems for r d'
  proof (cases r)
    case (Inl code)
    then show ?thesis
      using prems(1,2) by (auto intro!: dwp_liftE Q E dest!: finalized_status simp: resolving_def)
  next
    case (Inr v)
    then show ?thesis
    proof (cases v)
      case (Inl f)
      then show ?thesis
        using Inr prems(1,2) by (auto intro!: dwp_liftE Q E dest!: failed_status simp: resolving_def)
    next
      case (Inr doc)
      have "effect_held d' i"
        using prems(3) Inr \<open>r = Inr v\<close> by simp
      then have "dwp (bindM (noteWorkingMemoryMutationSuccess (im_household m)) (\<lambda>due.
          bindM (if due then bindM (reviewWorkingMemory h (im_household m)) (\<lambda>_. ret ()) else ret ()) (\<lambda>_.
          liftE (resolved_as ta m (in_mutation i) Is_applied c Ev_applied dir)))) Q E d'" for c dir
        by (rule dwp_reviewed[OF prems(1,2)])
          (auto intro!: dwp_liftE Q E dest!: resolved_as_status simp: resolving_def)
      then show ?thesis
        using \<open>r = Inr v\<close> Inr by simp
    qed
  qed
  done

lemma dwp_resolvePending:
  assumes b: "before A d0 d" "held d i" "dc = Some Approve \<Longrightarrow> in_decision i = Some Approve \<or> A i"
    and Q: "\<And>r d'. resolving i r d' \<Longrightarrow> Q r d'" and E: "\<And>e d'. before A d0 d' \<Longrightarrow> E e d'"
  shows "dwp (resolvePendingWorkingMemoryMutation h ta m (in_mutation i) dc) Q E d"
proof -
  obtain x where x: "PendingInteractionSchemaV1 x = Some i"
    using b(2) by (auto simp: held_def)
  have p: "PendingWorkingMemoryMutationSchema (in_mutation i) = Some (in_mutation i)"
    using schema_row(1)[OF x] by (rule PendingWorkingMemoryMutationSchema_idem)
  have lifted: "dwp (liftE v) Q E d" if "\<And>r. v = Inr r \<Longrightarrow> rs_status r \<noteq> Is_applied" for v
    using that b(1,2) by (auto intro!: dwp_liftE Q E simp: resolving_def)
  have who: "im_household m = in_household i" "im_principal m = in_speaker i"
    if "pm_household (in_mutation i) = im_household m" "pm_speaker (in_mutation i) = im_principal m"
    using that schema_parties[OF x] schema_fields[OF x] by simp_all
  show ?thesis
    unfolding resolvePendingWorkingMemoryMutation_def p option.case
    by (intro dwp_bindM dwp_requireM dwp_now)
      (auto intro!: E b lifted dwp_apply_approved who Q dest!: resolved_as_status finalized_status
        split: option.split decision.split)
qed

text \<open>Storing a result.\<close>

lemma stored_step:
  assumes b: "before A d0 d" "held d i"
    and f: "\<And>r. interaction_key (f r) = interaction_key r \<and> in_decision (f r) = in_decision r \<and> in_status (f r) = s"
    and p: "\<And>r. p r \<Longrightarrow> in_id r = in_id i" and effect: "s = Is_applied \<Longrightarrow> effect_held d i"
  shows "after A d0 (updated_rows p f d)" and "s \<noteq> Is_applied \<Longrightarrow> before A d0 (updated_rows p f d)"
proof -
  have step: "turn_step A d (updated_rows p f d)"
    by (rule update_step[OF before_unique[OF b(1)]]) (simp add: interaction_moved_def f)
  have "was_applied d r' \<or> effect_of_interaction (updated_rows p f d) r'"
    if r': "r' \<in> set (md_interactions (updated_rows p f d))" and a: "in_status r' = Is_applied" for r'
    using updated_row[OF r']
  proof (elim disjE bexE conjE)
    assume "r' \<in> set (md_interactions d)"
    then show ?thesis using a by (auto simp: was_applied_def list_ex_iff)
  next
    fix r
    assume r: "r \<in> set (md_interactions d)" "p r" "r' = f r"
    then have x: "PendingInteractionSchemaV1 r = Some i"
      using held_row[OF b] p by blast
    have "in_mutation r' = in_mutation r" "in_household r' = in_household r"
      using f[of r] r(3) by (simp_all add: interaction_key_def)
    then show ?thesis
      using effect f[of r] r(3) a schema_row(1)[OF x] schema_fields(2)[OF x]
      by (simp add: effect_of_interaction_def effect_held_def)
  qed
  then have "applied_present d (updated_rows p f d)"
    by (simp add: applied_present_def)
  then show "after A d0 (updated_rows p f d)"
    using step before_then_after[OF b(1)] by (simp add: after_def)
  show "before A d0 (updated_rows p f d)" if "s \<noteq> Is_applied"
  proof -
    have "nothing_applied d (updated_rows p f d)"
      using f that by (intro nothing_applied_update) simp
    then show ?thesis
      using step before_trans[OF b(1)] by (simp add: before_def)
  qed
qed

definition stored :: "resolution \<Rightarrow> memory_db \<Rightarrow> bool" where
  "stored r d \<longleftrightarrow> after A d0 d \<and> (rs_status r \<noteq> Is_applied \<longrightarrow> before A d0 d)"

lemma resolving_stored: "resolving i r d \<Longrightarrow> stored r d"
  by (simp add: resolving_def stored_def before_is_after)

lemma dwp_store_resolution:
  assumes r: "resolving i r d" and Q: "\<And>x d'. stored r d' \<Longrightarrow> Q x d'" and E: "\<And>e d'. stored r d' \<Longrightarrow> E e d'"
  shows "dwp (store_resolution m i r) Q E d"
proof -
  have b: "before A d0 d" "held d i" "rs_status r = Is_applied \<Longrightarrow> effect_held d i"
    using r by (simp_all add: resolving_def)
  have completed: "stored r (updated_rows (completable_interaction hh (in_id i) v) (resolved_interaction (rs_status r) c x t) d)"
    for hh v c x t
    using stored_step(1)[OF b(1,2) resolved_row completable_id b(3)]
      stored_step(2)[OF b(1,2) resolved_row completable_id b(3)]
    unfolding stored_def by (intro conjI impI)
  have expired: "stored r (updated_rows (expirable_interaction hh (in_id i) v now) (expired_interaction msg c x t) d)"
    if "rs_status r = Is_expired" for hh v now msg c x t
    using stored_step(1)[OF b(1,2) expired_row expirable_id] stored_step(2)[OF b(1,2) expired_row expirable_id]
    unfolding stored_def by simp
  have sql: "sql_expire hh iid v f = (\<lambda>t. sql_update_interaction (expirable_interaction hh iid v t) f t)" for hh iid v f
    by (intro ext) (simp add: sql_expire_def)
  have now: "stored r d"
    using r by (rule resolving_stored)
  have "dwp (expire_interaction hh (in_id i) msg v c x t) (\<lambda>_. stored r) (\<lambda>_. stored r) d"
    if "rs_status r = Is_expired" for hh msg v c x t
    unfolding expire_interaction_def sql
    by (rule dwp_bindM, rule dwp_requireM, rule dwp_updated_or_conflict) (simp_all add: now expired[OF that])
  moreover have "dwp (complete_interaction hh (in_id i) v (rs_status r) c x t) (\<lambda>_. stored r) (\<lambda>_. stored r) d"
    for hh v c x t
    unfolding complete_interaction_def
    by (rule dwp_bindM, rule dwp_requireM, rule dwp_updated_or_conflict) (simp_all add: now completed)
  ultimately have "dwp (if rs_status r = Is_expired
       then expire_interaction (in_household i) (in_id i) (im_external m) (in_version i) (rs_code r)
         (rs_response r) (im_received m)
       else complete_interaction (in_household i) (in_id i) (in_version i) (rs_status r) (rs_code r)
         (rs_response r) (im_received m)) (\<lambda>_. stored r) (\<lambda>_. stored r) d"
    by simp
  then show ?thesis
    unfolding store_resolution_def
    by (intro dwp_bindM) (auto elim!: dwp_mono intro!: dwp_ret Q E)
qed

lemma dwp_stored_or_rethrown:
  assumes "\<And>x. Q x d" and "\<And>e. E e d"
  shows "dwp (stored_or_rethrown m i e) Q E d"
  unfolding stored_or_rethrown_def
  by (rule dwp_bindM, rule dwp_findResolution)
    (auto simp: stored_response_def intro!: assms dwp_option dwp_ret dwp_raise dwp_bindM dwp_findInteraction)

lemma dwp_completeIfTerminal:
  assumes r: "resolving i r d" and Q: "\<And>x d'. stored r d' \<Longrightarrow> Q x d'" and E: "\<And>e d'. stored r d' \<Longrightarrow> E e d'"
  shows "dwp (completeIfTerminal m i r) Q E d"
  unfolding completeIfTerminal_def
  by (intro dwp_if dwp_catchM dwp_ret dwp_store_resolution[OF r])
    (auto intro!: Q E dwp_stored_or_rethrown resolving_stored[OF r])

lemma stored_after: "stored r d \<Longrightarrow> after A d0 d"
  by (simp add: stored_def)

lemma dwp_finalize_and_store:
  assumes b: "before A d0 d" "held d i" "s = Is_applied \<Longrightarrow> effect_held d i"
    and Q: "\<And>x d'. after A d0 d' \<Longrightarrow> (s \<noteq> Is_applied \<Longrightarrow> before A d0 d') \<Longrightarrow> Q x d'"
    and E: "\<And>e d'. after A d0 d' \<Longrightarrow> E e d'"
  shows "dwp (finalize_and_store ta m i s c dir) Q E d"
  unfolding finalize_and_store_def
proof (intro dwp_bindM dwp_liftE)
  fix r
  assume "finalizePendingWorkingMemoryResolution ta m (in_mutation i) s c dir = Inr r"
  then have r: "rs_status r = s"
    by (rule finalized_status)
  then have "resolving i r d"
    using b by (simp add: resolving_def)
  then show "dwp (completeIfTerminal m i r) Q E d"
    by (rule dwp_completeIfTerminal) (simp_all add: Q E stored_def r)
qed (simp add: E before_is_after[OF b(1)])

lemma dwp_resolve_and_store:
  assumes b: "before A d0 d" "held d i" "dc = Some Approve \<Longrightarrow> in_decision i = Some Approve \<or> A i"
    and Q: "\<And>x d'. after A d0 d' \<Longrightarrow> Q x d'" and E: "\<And>e d'. after A d0 d' \<Longrightarrow> E e d'"
  shows "dwp (resolve_and_store h ta m i dc) Q E d"
  unfolding resolve_and_store_def
  by (rule dwp_bindM, rule dwp_resolvePending[OF b], assumption, rule dwp_completeIfTerminal)
    (auto intro: Q E before_is_after stored_after)

lemma dwp_recover_approved:
  assumes b: "before A d0 d" "held d i" "in_decision i = Some Approve"
    and Q: "\<And>x d'. after A d0 d' \<Longrightarrow> Q x d'" and E: "\<And>e d'. after A d0 d' \<Longrightarrow> E e d'"
  shows "dwp (recover_approved h ta m i) Q E d"
  unfolding recover_approved_def
proof (rule dwp_bindM, rule dwp_attemptM, rule dwp_inspect, goal_cases)
  case (1 d' r)
  have d': "before A d0 d'" "held d' i"
    using before_dated[OF b(1) 1(1)] held_rewritten[OF b(2) 1(1)] by simp_all
  note rules = dwp_finalize_and_store[OF d'] dwp_resolve_and_store[OF d']
  show ?case
  proof (cases r)
    case (Inl f)
    then show ?thesis by (auto intro!: rules Q E)
  next
    case (Inr x)
    then have "saved_memory d' (in_household i) = Some (mn_document x)"
      using 1(2) by (simp add: known_memory_def)
    then show ?thesis
      using Inr b(3) by (auto intro!: rules Q E simp: effect_held_def effect_saved_def)
  qed
next
  case (2 d' e)
  then show ?case
    using before_dated[OF b(1)] held_rewritten[OF b(2)] by (auto intro!: dwp_finalize_and_store Q E)
qed

lemma dwp_recover:
  assumes b: "before A d0 d" "held d i"
    and Q: "\<And>x d'. after A d0 d' \<Longrightarrow> Q x d'" and E: "\<And>e d'. after A d0 d' \<Longrightarrow> E e d'"
  shows "dwp (recoverResolvingInteraction h ta m i) Q E d"
  unfolding recoverResolvingInteraction_def
  by (rule dwp_bindM, rule dwp_now)
    (auto intro!: dwp_finalize_and_store[OF b] dwp_resolve_and_store[OF b] dwp_recover_approved[OF b] Q E
      split: option.split decision.split)

lemma held_evidence: "held d i \<Longrightarrow> resolution_evidence i"
  using schema_row(3) by (auto simp: held_def)

lemma open_undecided:
  "held d i \<Longrightarrow> open_interaction i \<Longrightarrow> in_status i \<noteq> Is_resolving \<Longrightarrow> in_decision i = None"
  by (drule held_evidence) (auto simp: open_interaction_def resolution_evidence_def)

lemma answered_resolved:
  "held d i \<Longrightarrow> in_message i \<noteq> None \<Longrightarrow> in_response i = None \<Longrightarrow> in_status i = Is_resolving"
  by (drule held_evidence) (cases "in_status i"; simp add: resolution_evidence_def)

lemma dwp_claim_and_resolve:
  assumes b: "before A d0 d" "held d i" "in_decision i = None" "dc = Approve \<Longrightarrow> A i"
    and Q: "\<And>x d'. after A d0 d' \<Longrightarrow> Q x d'" and E: "\<And>e d'. after A d0 d' \<Longrightarrow> E e d'"
  shows "dwp (claim_and_resolve h ta m i dc) Q E d"
  unfolding claim_and_resolve_def
proof (rule dwp_bindM, rule dwp_claim[OF b], goal_cases)
  case (2 x d')
  then show ?case by (auto intro!: dwp_resolve_and_store Q E)
next
  case (3 x d')
  then show ?case
    using answered_resolved[OF 3(2)]
    by (auto intro!: dwp_option dwp_recover Q E dwp_ret before_is_after)
next
  case (4 e d')
  then show ?case by (simp add: E before_is_after)
qed

text \<open>Normal turns: what the tools change needs no consent.\<close>

lemma dwp_resolve_mutation:
  assumes Q: "\<And>r. (\<And>mutation. r = Inr (mutation, False) \<Longrightarrow> \<exists>k e. mutation = Mem_create k e) \<Longrightarrow> Q r d"
    and E: "\<And>e. E e d"
  shows "dwp (resolveWorkingMemoryMutation h based draft doc speaker) Q E d"
  unfolding resolveWorkingMemoryMutation_def nextEntryId_def
  by (auto intro!: dwp_if dwp_ret dwp_bindM dwp_fresh_entry_id Q E split: mutation_draft.split option.split
      simp del: fresh_entry_id.simps)

lemma created_before:
  assumes "before A d0 d" "rewritten hh (only_touched (Mem_create k e) speaker) d d'"
  shows "before A d0 d'"
  using before_trans[OF assms(1)] rewritten_before[OF before_unique[OF assms(1)] assms(2)]
  by (simp add: touches_def)

lemma dwp_propose:
  assumes b: "before A d0 d" and Q: "\<And>x d'. before A d0 d' \<Longrightarrow> Q x d'" and E: "\<And>e d'. before A d0 d' \<Longrightarrow> E e d'"
  shows "dwp (propose_mutation h m inspection mutation turn) Q E d"
  unfolding propose_mutation_def
  by (rule dwp_bindM, rule dwp_validate)
    (auto intro!: Q E dwp_ret dwp_raise dwp_bindM dwp_now dwp_ulid before_dated[OF b] split: sum.split option.split)

lemma dwp_apply_now:
  assumes b: "before A d0 d" and Q: "\<And>x d'. before A d0 d' \<Longrightarrow> Q x d'" and E: "\<And>e d'. before A d0 d' \<Longrightarrow> E e d'"
  shows "dwp (apply_now h m inspection (Mem_create k x) turn) Q E d"
  unfolding apply_now_def
  by (rule dwp_bindM, rule dwp_applyMutation)
    (auto intro!: Q E dwp_ret dwp_bindM dwp_note_success split: sum.split
      intro: before_successes created_before[OF b])

lemma dwp_memory_tool:
  assumes b: "before A d0 d" and Q: "\<And>x d'. before A d0 d' \<Longrightarrow> Q x d'" and E: "\<And>e d'. before A d0 d' \<Longrightarrow> E e d'"
  shows "dwp (memory_tool h m call turn) Q E d"
proof (cases call)
  case Call_inspect
  then show ?thesis
    unfolding memory_tool_def inspect_tool_def
    by simp (rule dwp_catchM, rule dwp_bindM, rule dwp_inspect; auto intro!: dwp_ret Q before_dated[OF b])
next
  case Call_review
  then show ?thesis
    unfolding memory_tool_def review_tool_def
    by simp (rule dwp_catchM, rule dwp_bindM, rule dwp_review; auto intro!: dwp_ret Q before_dated[OF b])
next
  case (Call_mutate raw)
  have "dwp (mutate_tool h m raw turn) Q E d"
    unfolding mutate_tool_def
    by (auto intro!: dwp_ret dwp_bindM dwp_resolve_mutation dwp_propose[OF b] Q E b dwp_apply_now[OF b]
        split: option.split sum.split)
  then show ?thesis
    using Call_mutate by (simp add: memory_tool_def)
next
  case (Call_propose raw)
  have "dwp (propose_tool h m raw turn) Q E d"
    unfolding propose_tool_def
    by (auto intro!: dwp_ret dwp_bindM dwp_resolve_mutation dwp_propose[OF b] Q E b
        split: option.split sum.split)
  then show ?thesis
    using Call_propose by (simp add: memory_tool_def)
qed

lemma dwp_memory_calls:
  assumes "before A d0 d" and Q: "\<And>x d'. before A d0 d' \<Longrightarrow> Q x d'" and E: "\<And>e d'. before A d0 d' \<Longrightarrow> E e d'"
  shows "dwp (memory_calls h m calls turn) Q E d"
  using assms(1)
proof (induction calls arbitrary: turn d)
  case Nil
  then show ?case by (auto intro: dwp_ret Q)
next
  case (Cons call calls)
  have "dwp (memory_tool h m call turn) (\<lambda>x d'. before A d0 d') (\<lambda>e d'. before A d0 d') d"
    by (rule dwp_memory_tool) (simp_all add: Cons.prems)
  then show ?case
    by (auto intro!: dwp_bindM dwp_catchM dwp_ret Cons.IH elim!: dwp_mono)
qed

lemma insert_before:
  assumes b: "before A d0 d" and row: "in_id row \<notin> in_id ` set (md_interactions d)" "in_decision row = None"
    "in_status row \<noteq> Is_applied"
  shows "before A d0 (d\<lparr>md_interactions := md_interactions d @ [row]\<rparr>)"
proof -
  have "interactions_moved A (md_interactions d) (md_interactions d @ [row])"
    using row(2) by (auto simp: interactions_moved_def intro: interaction_moved_refl)
  moreover have "unique_on in_id (md_interactions d @ [row])"
    using before_unique[OF b] row(1) by (simp add: unique_on_append)
  ultimately have "before A d (d\<lparr>md_interactions := md_interactions d @ [row]\<rparr>)"
    using row(3) by (auto simp: before_def turn_step_def entries_kept_same nothing_applied_def was_applied_def list_ex_iff)
  then show ?thesis
    by (rule before_trans[OF b])
qed

lemma dwp_create_interaction:
  assumes b: "before A d0 d" "in_status candidate \<noteq> Is_applied"
    and Q: "\<And>x d'. before A d0 d' \<Longrightarrow> Q x d'" and E: "\<And>e d'. before A d0 d' \<Longrightarrow> E e d'"
  shows "dwp (create_interaction candidate) Q E d"
  unfolding create_interaction_def
proof (rule dwp_bindM, rule dwp_liftE)
  fix i
  assume i: "mapPendingInteraction candidate = Inr i"
  then have "in_status i \<noteq> Is_applied"
    using b(2) schema_fields(5) by (simp add: mapPending_Inr)
  then have new: "before A d0 (d\<lparr>md_interactions := md_interactions d @ [inserted_interaction i]\<rparr>)"
    if "in_id i \<notin> in_id ` set (md_interactions d)"
    using insert_before[OF b(1)] that by (simp add: inserted_interaction_def)
  show "dwp (catchM
      (bindM (pool_query (sql_insert_interaction i)) (\<lambda>inserted.
       case inserted of
         None \<Rightarrow>
           bindM (findInteraction (in_household i) (in_id i)) (\<lambda>existing.
           case existing of
             None \<Rightarrow> raise householdNotFound
           | Some x \<Rightarrow>
               if stable_interaction x = stable_interaction i then ret x else raise idempotencyConflict)
       | Some row \<Rightarrow> liftE (mapPendingInteraction row)))
      (\<lambda>e. raise (if open_scope_violation e then scope_conflict e else e))) Q E d"
    by (rule dwp_catchM, rule dwp_bindM, rule dwp_pool_query)
      (auto simp: sql_insert_interaction_def Let_def split: if_splits
        intro!: Q E new b(1) dwp_raise dwp_liftE dwp_ret dwp_bindM dwp_findInteraction)
qed (rule E[OF b(1)])

lemma dwp_persist:
  assumes b: "before A d0 d" and Q: "\<And>x d'. before A d0 d' \<Longrightarrow> Q x d'" and E: "\<And>e d'. before A d0 d' \<Longrightarrow> E e d'"
  shows "dwp (persistPendingWorkingMemoryInteraction p) Q E d"
  unfolding persistPendingWorkingMemoryInteraction_def
proof (rule dwp_bindM, rule dwp_liftE)
  fix i
  assume "mapPendingInteraction (interaction_for p) = Inr i"
  then have "in_status i \<noteq> Is_applied"
    using schema_fields(5)[of "interaction_for p" i] by (simp add: mapPending_Inr interaction_for_def)
  then show "dwp (catchM (create_interaction i)
      (\<lambda>e.
        if \<not> (is_plus_one e \<and> e_code e = ''pending_interaction_scope_conflict'') then raise e
        else
          bindM (findOpen (pm_household p) (pm_conversation p) (pm_speaker p)) (\<lambda>existing.
          case existing of None \<Rightarrow> raise e | Some x \<Rightarrow> ret x))) Q E d"
    by (intro dwp_catchM dwp_create_interaction[OF b])
      (auto intro!: Q E dwp_raise dwp_ret dwp_bindM dwp_findOpen dwp_if)
qed (rule E[OF b])

lemma dwp_normal_turn:
  assumes b: "before A d0 d" and Q: "\<And>x d'. before A d0 d' \<Longrightarrow> Q x d'" and E: "\<And>e d'. before A d0 d' \<Longrightarrow> E e d'"
  shows "dwp (normal_turn h ta m) Q E d"
  unfolding normal_turn_def
  by (rule dwp_bindM, rule dwp_memory_calls[OF b])
    (auto intro!: Q E dwp_liftE dwp_ret dwp_bindM dwp_persist dwp_if split: option.split)

text \<open>A whole turn.\<close>

definition consents :: "turn_agent \<Rightarrow> inbound_message \<Rightarrow> bool" where
  "consents ta m \<longleftrightarrow>
    (\<forall>r i. PendingInteractionSchemaV1 r = Some i \<longrightarrow>
       in_scope (im_household m) (im_conversation m) (im_principal m) i \<longrightarrow>
       disposition_of ta m (in_mutation i) = Inr (Dp_resolve Approve) \<longrightarrow> A i)"

lemma dwp_settle_open:
  assumes b: "before A d0 d" "held d i" "in_decision i = None" "dd = Dp_resolve Approve \<Longrightarrow> A i"
    and n: "\<And>d. before A d0 d \<Longrightarrow> dwp (normal m) Q E d"
    and Q: "\<And>x d'. after A d0 d' \<Longrightarrow> Q x d'" and E: "\<And>e d'. after A d0 d' \<Longrightarrow> E e d'"
  shows "dwp (settle_open h ta normal m i dd) Q E d"
  unfolding settle_open_def
  using b by (cases dd) (auto intro!: n dwp_resolve_and_store dwp_claim_and_resolve Q E)

lemma dwp_settle_expired:
  assumes b: "before A d0 d" "held d i" "dd = Dp_resolve Approve \<Longrightarrow> A i"
    and n: "\<And>d. before A d0 d \<Longrightarrow> dwp (normal m) Q E d"
    and Q: "\<And>x d'. after A d0 d' \<Longrightarrow> Q x d'" and E: "\<And>e d'. after A d0 d' \<Longrightarrow> E e d'"
  shows "dwp (settle_expired h ta normal m i dd) Q E d"
  unfolding settle_expired_def
  using b by (cases dd)
    (auto intro!: dwp_bindM dwp_finalize_and_store n dwp_resolve_and_store Q E)

lemma consents_held:
  assumes "consents ta m" "held d i" "in_scope (im_household m) (im_conversation m) (im_principal m) i"
    and "disposition_of ta m (in_mutation i) = Inr (Dp_resolve Approve)"
  shows "A i"
  using assms by (auto simp: consents_def held_def)

lemma dwp_route_waiting:
  assumes c: "consents ta m" and b: "before A d0 d" and n: "\<And>d. before A d0 d \<Longrightarrow> dwp (normal m) Q E d"
    and Q: "\<And>x d'. after A d0 d' \<Longrightarrow> Q x d'" and E: "\<And>e d'. after A d0 d' \<Longrightarrow> E e d'"
  shows "dwp (route_waiting h ta normal m) Q E d"
  unfolding route_waiting_def
  by (rule dwp_bindM, rule dwp_findOpen)
    (auto intro!: dwp_bindM dwp_findExpired dwp_if dwp_recover dwp_option dwp_ret dwp_liftE
        dwp_settle_open dwp_settle_expired n Q E b before_is_after[OF b] dest: consents_held[OF c] open_undecided)

lemma dwp_turn:
  assumes c: "consents ta m" and b: "before A d0 d" and n: "\<And>d. before A d0 d \<Longrightarrow> dwp (normal m) Q E d"
    and Q: "\<And>x d'. after A d0 d' \<Longrightarrow> Q x d'" and E: "\<And>e d'. after A d0 d' \<Longrightarrow> E e d'"
  shows "dwp (runConversationTurn h ta normal m) Q E d"
  unfolding runConversationTurn_def
  by (rule dwp_bindM, rule dwp_requireM, rule dwp_bindM, rule dwp_findResolution)
    (auto simp: stored_response_def intro!: dwp_if dwp_recover dwp_option dwp_ret
        dwp_route_waiting[OF c] n Q E b before_is_after[OF b])

lemma memory_turn_after:
  assumes "consents ta m" "unique_on in_id (md_interactions d0)"
  shows "dwp (memory_turn_of h ta m) (\<lambda>_. after A d0) (\<lambda>_. after A d0) d0"
  unfolding memory_turn_of_def
  by (rule dwp_turn[OF assms(1) before_refl[OF assms(2)]])
    (auto intro!: dwp_normal_turn before_is_after)

end

end
