(* ===== verification/InteractionInvariant.thy ===== *)
theory InteractionInvariant
  imports ConfirmationTurns
begin

text \<open>
  The invariant of the table of interactions: an identifier, an open interaction for each scope, and a
  resolution for each message, at most once. Every statement keeps it and leaves closed rows as they are
  (\<open>consistent\<close>), so every method does.
\<close>

definition interactions_ok :: "memory_db \<Rightarrow> bool" where
  "interactions_ok d \<longleftrightarrow> unique_on in_id (md_interactions d)
     \<and> (\<forall>x \<in> set (md_interactions d). \<forall>y \<in> set (md_interactions d).
          open_interaction x \<and> open_interaction y
          \<and> in_scope (in_household x) (in_conversation x) (in_speaker x) y \<longrightarrow> in_id y = in_id x)
     \<and> (\<forall>x \<in> set (md_interactions d). \<forall>y \<in> set (md_interactions d). \<forall>m.
          in_message x = Some m \<and> resolved_by (in_household x) (in_conversation x) m y \<longrightarrow> in_id y = in_id x)"

lemma interactions_okI:
  assumes "unique_on in_id (md_interactions d)"
    and "\<And>x y. x \<in> set (md_interactions d) \<Longrightarrow> y \<in> set (md_interactions d) \<Longrightarrow> open_interaction x \<Longrightarrow>
      open_interaction y \<Longrightarrow> in_scope (in_household x) (in_conversation x) (in_speaker x) y \<Longrightarrow> in_id y = in_id x"
    and "\<And>x y m. x \<in> set (md_interactions d) \<Longrightarrow> y \<in> set (md_interactions d) \<Longrightarrow> in_message x = Some m \<Longrightarrow>
      resolved_by (in_household x) (in_conversation x) m y \<Longrightarrow> in_id y = in_id x"
  shows "interactions_ok d"
  unfolding interactions_ok_def using assms by (intro conjI ballI allI impI; (elim conjE)?) blast+

lemma interactions_ok_unique: "interactions_ok d \<Longrightarrow> unique_on in_id (md_interactions d)"
  by (simp add: interactions_ok_def)

lemma interactions_ok_scope:
  "interactions_ok d \<Longrightarrow> x \<in> set (md_interactions d) \<Longrightarrow> y \<in> set (md_interactions d) \<Longrightarrow> open_interaction x \<Longrightarrow>
   open_interaction y \<Longrightarrow> in_scope (in_household x) (in_conversation x) (in_speaker x) y \<Longrightarrow> in_id y = in_id x"
  unfolding interactions_ok_def by blast

lemma interactions_ok_message:
  "interactions_ok d \<Longrightarrow> x \<in> set (md_interactions d) \<Longrightarrow> y \<in> set (md_interactions d) \<Longrightarrow> in_message x = Some m \<Longrightarrow>
   resolved_by (in_household x) (in_conversation x) m y \<Longrightarrow> in_id y = in_id x"
  unfolding interactions_ok_def by blast

definition closed_kept :: "memory_db \<Rightarrow> memory_db \<Rightarrow> bool" where
  "closed_kept d d' \<longleftrightarrow>
    (\<forall>r \<in> set (md_interactions d). \<not> open_interaction r \<longrightarrow> r \<in> set (md_interactions d'))"

definition consistent :: "memory_db \<Rightarrow> memory_db \<Rightarrow> bool" where
  "consistent d d' \<longleftrightarrow> (interactions_ok d \<longrightarrow> interactions_ok d') \<and> closed_kept d d'"

interpretation rows: db_relation consistent
  by unfold_locales (auto simp: consistent_def closed_kept_def)

lemma consistent_same: "md_interactions d' = md_interactions d \<Longrightarrow> consistent d d'"
  by (simp add: consistent_def closed_kept_def interactions_ok_def)

section \<open>Statements\<close>

text \<open>A row that takes the place of an open one, in the same scope, with a message nobody else has.\<close>

definition replaces :: "pending_interaction \<Rightarrow> pending_interaction \<Rightarrow> bool" where
  "replaces r r' \<longleftrightarrow> open_interaction r \<and> in_id r' = in_id r \<and> in_household r' = in_household r
     \<and> in_conversation r' = in_conversation r \<and> in_speaker r' = in_speaker r"

lemma consistent_update:
  assumes one: "\<And>r. p r \<Longrightarrow> in_id r = iid \<and> replaces r (f r)"
    and free: "\<And>r. r \<in> set (md_interactions d) \<Longrightarrow> p r \<Longrightarrow> \<not> message_taken (f r) (md_interactions d)"
  shows "consistent d (d\<lparr>md_interactions := update_where p f (md_interactions d)\<rparr>)"
proof -
  let ?g = "\<lambda>r. if p r then f r else r" and ?rows = "md_interactions d"
  have rows: "set (update_where p f ?rows) = ?g ` set ?rows"
    by (simp add: update_where_def)
  have g: "in_id (?g r) = in_id r" "in_household (?g r) = in_household r"
      "in_conversation (?g r) = in_conversation r" "in_speaker (?g r) = in_speaker r" for r
    using one[of r] by (simp_all add: replaces_def)
  have opened: "open_interaction r" if "open_interaction (?g r)" for r
    using that one[of r] by (auto simp: replaces_def split: if_splits)
  have "interactions_ok (d\<lparr>md_interactions := update_where p f ?rows\<rparr>)" if ok: "interactions_ok d"
  proof -
    have u: "unique_on in_id (update_where p f ?rows)"
    proof -
      have "map in_id (update_where p f ?rows) = map in_id ?rows"
        using g(1) by (simp add: update_where_def)
      then show ?thesis
        using ok by (simp add: unique_on_def interactions_ok_def)
    qed
    have s: "in_id (?g b) = in_id (?g a)"
      if ab: "a \<in> set ?rows" "b \<in> set ?rows" "open_interaction (?g a)" "open_interaction (?g b)"
        "in_scope (in_household (?g a)) (in_conversation (?g a)) (in_speaker (?g a)) (?g b)" for a b
    proof -
      have "in_scope (in_household a) (in_conversation a) (in_speaker a) b"
        using ab(5) unfolding in_scope_def g .
      then have "in_id b = in_id a"
        using interactions_ok_scope[OF ok ab(1,2) opened opened] ab(3,4) by blast
      then show ?thesis by (simp only: g)
    qed
    have m: "in_id (?g b) = in_id (?g a)"
      if ab: "a \<in> set ?rows" "b \<in> set ?rows" "in_message (?g a) = Some m"
        "resolved_by (in_household (?g a)) (in_conversation (?g a)) m (?g b)" for a b m
    proof -
      have y: "in_household b = in_household a" "in_conversation b = in_conversation a" "in_message (?g b) = Some m"
        using ab(4) unfolding resolved_by_def g by simp_all
      have "in_id b = in_id a"
      proof (cases "p a"; cases "p b")
        assume "\<not> p a" "\<not> p b"
        then show ?thesis
          using interactions_ok_message[OF ok ab(1,2)] ab(3) y by (simp add: resolved_by_def)
      next
        assume "p a" "p b"
        then show ?thesis using one[of a] one[of b] by simp
      next
        assume pa: "p a" "\<not> p b"
        show ?thesis
        proof (rule ccontr)
          assume "in_id b \<noteq> in_id a"
          then have "message_taken (f a) ?rows"
            using pa ab(2,3) y one[of a]
            by (auto simp: message_taken_def list_ex_iff resolved_by_def replaces_def intro!: bexI[of _ b])
          then show False using free ab(1) pa by blast
        qed
      next
        assume pb: "\<not> p a" "p b"
        show ?thesis
        proof (rule ccontr)
          assume "in_id b \<noteq> in_id a"
          then have "message_taken (f b) ?rows"
            using pb ab(1,3) y one[of b]
            by (auto simp: message_taken_def list_ex_iff resolved_by_def replaces_def intro!: bexI[of _ a])
          then show False using free ab(2) pb by blast
        qed
      qed
      then show ?thesis by (simp only: g)
    qed
    have same: "md_interactions (d\<lparr>md_interactions := update_where p f ?rows\<rparr>) = update_where p f ?rows"
      by simp
    show ?thesis
      by (rule interactions_okI; unfold same rows; (elim imageE)?) (use u s m in \<open>simp_all only:\<close>)
  qed
  moreover have "closed_kept d (d\<lparr>md_interactions := update_where p f ?rows\<rparr>)"
    using one by (auto simp: closed_kept_def replaces_def update_where_def image_iff)
  ultimately show ?thesis
    by (simp add: consistent_def)
qed

lemma along_update:
  assumes one: "\<And>t r. p t r \<Longrightarrow> in_id r = iid \<and> replaces r (f r)"
  shows "statement_along consistent (\<lambda>t. sql_update_interaction (p t) f t)"
proof (rule statement_alongI)
  fix t d x d'
  assume "sql_update_interaction (p t) f t d = Inr (x, d')"
  then consider "d' = d"
    | i where "find (p t) (md_interactions d) = Some i" "\<not> message_taken (f i) (md_interactions d)"
        "d' = d\<lparr>md_interactions := update_where (p t) f (md_interactions d)\<rparr>"
    by (auto simp: sql_update_interaction_def Let_def split: option.splits if_splits)
  then show "consistent d d'"
  proof cases
    case 1
    then show ?thesis by (simp add: consistent_same)
  next
    case (2 i)
    show ?thesis
    proof (cases "interactions_ok d")
      case True
      have "r = i" if "r \<in> set (md_interactions d)" "p t r" for r
        using that True find_SomeD[OF 2(1)] one unique_onD
        by (metis interactions_ok_def)
      then show ?thesis
        unfolding 2(3) using one 2(2) by (intro consistent_update) auto
    next
      case False
      then show ?thesis
        using one unfolding 2(3)
        by (auto simp: consistent_def closed_kept_def update_where_def replaces_def image_iff)
    qed
  qed
qed

lemma along_insert: "statement_along consistent (sql_insert_interaction i)"
proof (rule statement_alongI)
  fix t d x d'
  assume ins: "sql_insert_interaction i t d = Inr (x, d')"
  define row where "row = inserted_interaction i"
  show "consistent d d'"
  proof (cases "d' = d")
    case True
    then show ?thesis by (simp add: consistent_same)
  next
    case False
    then have new: "in_id i \<notin> in_id ` set (md_interactions d)"
      and none: "open_interaction i \<Longrightarrow> \<not> list_ex (\<lambda>x. open_interaction x
          \<and> in_scope (in_household i) (in_conversation i) (in_speaker i) x) (md_interactions d)"
      and d': "d' = d\<lparr>md_interactions := md_interactions d @ [row]\<rparr>"
      using ins by (auto simp: sql_insert_interaction_def row_def Let_def split: if_splits)
    have row: "in_id row = in_id i" "in_household row = in_household i" "in_conversation row = in_conversation i"
        "in_speaker row = in_speaker i" "open_interaction row = open_interaction i" "in_message row = None"
      by (simp_all add: row_def inserted_interaction_def open_interaction_def)
    have "interactions_ok d'" if ok: "interactions_ok d"
    proof (rule interactions_okI)
      show "unique_on in_id (md_interactions d')"
        using interactions_ok_unique[OF ok] new by (simp add: d' unique_on_append row)
    next
      fix x y
      assume "x \<in> set (md_interactions d')" "y \<in> set (md_interactions d')" "open_interaction x"
        "open_interaction y" "in_scope (in_household x) (in_conversation x) (in_speaker x) y"
      then show "in_id y = in_id x"
        using interactions_ok_scope[OF ok, of x y] none
        by (auto simp: d' row in_scope_def list_ex_iff)
    next
      fix x y m
      assume "x \<in> set (md_interactions d')" "y \<in> set (md_interactions d')" "in_message x = Some m"
        "resolved_by (in_household x) (in_conversation x) m y"
      then show "in_id y = in_id x"
        using interactions_ok_message[OF ok, of x y m] by (auto simp: d' row resolved_by_def)
    qed
    then show ?thesis
      by (auto simp: consistent_def closed_kept_def d')
  qed
qed

section \<open>Methods\<close>

lemma along_read: "(\<And>t d x d'. f t d = Inr (x, d') \<Longrightarrow> md_interactions d' = md_interactions d) \<Longrightarrow> statement_along consistent f"
  by (rule statement_alongI) (simp add: consistent_same)

lemma consistent_reads:
  "keeps (db_moves consistent) (findOpen hh c s)" "keeps (db_moves consistent) (findExpired hh c s)"
  "keeps (db_moves consistent) (findInteraction hh i)" "keeps (db_moves consistent) (findByResolutionMessage hh c m)"
  unfolding findOpen_def findExpired_def findInteraction_def findByResolutionMessage_def
  by (intro rows.keeps_pool along_read;
      simp add: sql_find_open_def sql_find_expired_def sql_find_interaction_def sql_find_resolution_def)+

lemma consistent_claim: "keeps (db_moves consistent) (claim_interaction hh i m dc v)"
proof -
  have "statement_along consistent (sql_update_interaction (claimable_interaction hh i v) (claimed_interaction m dc))"
    by (rule along_update[where p = "\<lambda>_. claimable_interaction hh i v" and iid = i])
      (simp add: claimable_interaction_def identified_def replaces_def open_interaction_def claimed_interaction_def)
  then show ?thesis
    unfolding claim_interaction_def by (intro rows.keeps_pool consistent_reads)
qed

lemma consistent_expire: "keeps (db_moves consistent) (expire_interaction hh i m v c x t)"
proof -
  have "sql_expire hh i v f = (\<lambda>t. sql_update_interaction (expirable_interaction hh i v t) f t)" for f
    by (intro ext) (simp add: sql_expire_def)
  moreover have "statement_along consistent
      (\<lambda>now. sql_update_interaction (expirable_interaction hh i v now) (expired_interaction m c x t) now)"
    by (rule along_update[where iid = i])
      (simp add: expirable_interaction_def identified_def replaces_def expired_interaction_def resolved_interaction_def)
  ultimately show ?thesis
    unfolding expire_interaction_def by (intro rows.keeps_pool) simp
qed

lemma consistent_complete: "keeps (db_moves consistent) (complete_interaction hh i v s c x t)"
proof -
  have "statement_along consistent (sql_update_interaction (completable_interaction hh i v) (resolved_interaction s c x t))"
    by (rule along_update[where p = "\<lambda>_. completable_interaction hh i v" and iid = i])
      (simp add: completable_interaction_def identified_def replaces_def open_interaction_def resolved_interaction_def)
  then show ?thesis
    unfolding complete_interaction_def by (intro rows.keeps_pool)
qed

lemma consistent_create: "keeps (db_moves consistent) (create_interaction i)"
  unfolding create_interaction_def
  by (intro rows.keeps_pool consistent_reads along_insert)

lemma consistent_persist: "keeps (db_moves consistent) (persistPendingWorkingMemoryInteraction p)"
  unfolding persistPendingWorkingMemoryInteraction_def
  by (intro rows.keeps_pool consistent_reads consistent_create)

text \<open>The session memory does not touch the table.\<close>

lemma consistent_local: "(\<And>d. md_interactions (snd (f d)) = md_interactions d) \<Longrightarrow> keeps (db_moves consistent) (local_step f)"
  by (auto simp: keeps_def local_step_def db_moves_def split: prod.split intro!: consistent_same) (metis snd_conv)

lemma consistent_attempt: "keeps (db_moves consistent) m \<Longrightarrow> keeps (db_moves consistent) (attemptM m f)"
  unfolding attemptM_def by (intro rows.keeps_pool)

lemma consistent_sum:
  "(\<And>x. v = Inl x \<Longrightarrow> keeps R (f x)) \<Longrightarrow> (\<And>y. v = Inr y \<Longrightarrow> keeps R (g y)) \<Longrightarrow>
   keeps R (case v of Inl x \<Rightarrow> f x | Inr y \<Rightarrow> g y)"
  by (cases v) auto

lemma consistent_pair: "(\<And>x y. v = (x, y) \<Longrightarrow> keeps R (f x y)) \<Longrightarrow> keeps R (case v of (x, y) \<Rightarrow> f x y)"
  by (cases v) auto

lemma consistent_unless: "keeps (db_moves consistent) m \<Longrightarrow> (\<And>y. keeps (db_moves consistent) (f y)) \<Longrightarrow>
    keeps (db_moves consistent) (unless_failed m f)"
  unfolding unless_failed_def by (intro rows.keeps_pool consistent_sum)

lemma consistent_entry_id: "keeps (db_moves consistent) (fresh_entry_id n d)"
  by (induction n) (simp_all add: Let_def rows.keeps_pool)

lemma consistent_add_entries: "keeps (db_moves consistent) (add_entries es d)"
  by (induction es arbitrary: d) (auto intro!: rows.keeps_pool consistent_entry_id simp del: fresh_entry_id.simps)

lemma consistent_decode: "keeps (db_moves consistent) (decodeStoredWorkingMemory now stored)"
  unfolding decodeStoredWorkingMemory_def Let_def
  by (intro rows.keeps_pool consistent_add_entries)

lemma consistent_load: "keeps (db_moves consistent) (loadFlexibleWorkingMemory hh)"
  unfolding loadFlexibleWorkingMemory_def
  by (intro consistent_unless consistent_attempt rows.keeps_pool consistent_decode along_read) (simp add: sql_get_memory_def)

lemma consistent_store: "keeps (db_moves consistent) (attemptM (updateWorkingMemory hh d) f)"
  unfolding updateWorkingMemory_def
  by (intro consistent_attempt rows.keeps_pool along_read) (auto simp: sql_put_memory_def)

lemma consistent_current: "keeps (db_moves consistent) (loadCurrentFlexibleWorkingMemory h hh)"
  unfolding loadCurrentFlexibleWorkingMemory_def persistAndVerifyMigration_def
  by (intro consistent_unless consistent_load consistent_store consistent_pair rows.keeps_pool)

lemma consistent_inspect: "keeps (db_moves consistent) (inspectWorkingMemory h hh s)"
  unfolding inspectWorkingMemory_def by (intro consistent_unless consistent_current rows.keeps_pool)

lemma consistent_review: "keeps (db_moves consistent) (reviewWorkingMemory h hh)"
  unfolding reviewWorkingMemory_def acknowledgeWorkingMemoryReview_def
  by (intro consistent_unless consistent_current rows.keeps_pool consistent_local) simp

lemma consistent_note: "keeps (db_moves consistent) (noteWorkingMemoryMutationSuccess hh)"
  unfolding noteWorkingMemoryMutationSuccess_def by (intro consistent_local) (simp add: Let_def)

lemma consistent_mutated: "keeps (db_moves consistent) (mutated_document h hh s b m)"
  unfolding mutated_document_def by (intro consistent_unless consistent_current rows.keeps_pool)

lemma consistent_validate: "keeps (db_moves consistent) (validateWorkingMemoryMutation h hh s b m)"
  unfolding validateWorkingMemoryMutation_def by (intro consistent_unless consistent_mutated consistent_pair rows.keeps_pool)

lemma consistent_apply: "keeps (db_moves consistent) (applyWorkingMemoryMutation h hh s b m)"
  unfolding applyWorkingMemoryMutation_def
  by (intro consistent_unless consistent_mutated consistent_store consistent_load consistent_pair rows.keeps_pool)

lemmas consistent_memory = consistent_reads consistent_claim consistent_expire consistent_complete consistent_persist consistent_inspect
  consistent_review consistent_note consistent_validate consistent_apply consistent_sum consistent_pair rows.keeps_pool

lemma consistent_resolve_mutation: "keeps (db_moves consistent) (resolveWorkingMemoryMutation h b draft d s)"
  unfolding resolveWorkingMemoryMutation_def nextEntryId_def
  by (cases draft) (auto intro!: rows.keeps_pool consistent_entry_id simp del: fresh_entry_id.simps)

lemma consistent_tool: "keeps (db_moves consistent) (memory_tool h m call turn)"
proof -
  have propose: "keeps (db_moves consistent) (propose_mutation h m i x t)" for i x t
    unfolding propose_mutation_def by (intro consistent_memory)
  have apply_it: "keeps (db_moves consistent) (apply_now h m i x t)" for i x t
    unfolding apply_now_def by (intro consistent_memory)
  show ?thesis
    unfolding memory_tool_def inspect_tool_def review_tool_def mutate_tool_def propose_tool_def
    by (cases call) (auto intro!: consistent_memory consistent_resolve_mutation propose apply_it)
qed

lemma consistent_calls: "keeps (db_moves consistent) (memory_calls h m calls turn)"
  by (induction calls arbitrary: turn) (auto intro!: rows.keeps_pool consistent_tool consistent_pair)

lemma consistent_normal_turn: "keeps (db_moves consistent) (normal_turn h ta m)"
  unfolding normal_turn_def by (intro consistent_calls consistent_memory)

lemma consistent_resolve_pending: "keeps (db_moves consistent) (resolvePendingWorkingMemoryMutation h ta m p dc)"
proof -
  have "keeps (db_moves consistent) (attempted_application h m p)" for p
    unfolding attempted_application_def by (intro consistent_memory)
  then have approved: "keeps (db_moves consistent) (apply_approved h ta m p)" for p
    unfolding apply_approved_def by (intro consistent_memory)
  show ?thesis
    unfolding resolvePendingWorkingMemoryMutation_def
    by (auto intro!: consistent_memory approved split: option.split decision.split)
qed

lemma consistent_finish: "keeps (db_moves consistent) (completeIfTerminal m i r)"
  unfolding completeIfTerminal_def store_resolution_def stored_or_rethrown_def
  by (intro consistent_memory)

lemma consistent_finalize: "keeps (db_moves consistent) (finalize_and_store ta m i s c dir)"
  unfolding finalize_and_store_def by (intro consistent_memory consistent_finish)

lemma consistent_resolve: "keeps (db_moves consistent) (resolve_and_store h ta m i dc)"
  unfolding resolve_and_store_def by (intro consistent_memory consistent_resolve_pending consistent_finish)

lemma consistent_recover: "keeps (db_moves consistent) (recoverResolvingInteraction h ta m i)"
  unfolding recoverResolvingInteraction_def recover_approved_def
  by (auto intro!: consistent_memory consistent_finalize consistent_resolve consistent_attempt
      split: option.split decision.split sum.split)

lemma consistent_turn: "keeps (db_moves consistent) (memory_turn_of h ta m)"
proof -
  have claim: "keeps (db_moves consistent) (claim_and_resolve h ta m i dc)" for i dc
    unfolding claim_and_resolve_def
    by (auto intro!: consistent_memory consistent_resolve consistent_recover split: claim_result.split option.split)
  have "keeps (db_moves consistent) (settle_open h ta (normal_turn h ta) m i d)" for i d
    unfolding settle_open_def by (cases d) (auto intro!: claim consistent_normal_turn consistent_resolve)
  moreover have "keeps (db_moves consistent) (settle_expired h ta (normal_turn h ta) m i d)" for i d
    unfolding settle_expired_def
    by (cases d) (auto intro!: consistent_memory consistent_finalize consistent_normal_turn consistent_resolve)
  ultimately have "keeps (db_moves consistent) (route_waiting h ta (normal_turn h ta) m)"
    unfolding route_waiting_def by (intro consistent_memory consistent_recover consistent_normal_turn)
  then show ?thesis
    unfolding memory_turn_of_def runConversationTurn_def
    by (intro consistent_memory consistent_recover)
qed

end
