(* ===== verification/ConfirmedMemory.thy ===== *)
theory ConfirmedMemory
  imports ConfirmationSafety InteractionInvariant Deliveries Artifacts
begin

text \<open>
  The guarantees of working memory, over sequences of turns: any messages, any answers of the language
  model, any faults. A turn that throws is followed by the next one.
\<close>

section \<open>Sequences of turns\<close>

type_synonym memory_turns = "(turn_agent \<times> inbound_message) list"

fun run_turns :: "hashing \<Rightarrow> memory_turns \<Rightarrow> memory_db world \<Rightarrow> (exn + final_response) list \<times> memory_db world" where
  "run_turns h [] w = ([], w)"
| "run_turns h ((ta, m) # ts) w =
    (let (r, w1) = memory_turn_of h ta m w; (rs, w2) = run_turns h ts w1 in (r # rs, w2))"

text \<open>In one of the turns both readings of a message of the speaker approve the change.\<close>

definition agreed :: "memory_turns \<Rightarrow> pending_interaction \<Rightarrow> bool" where
  "agreed ts x \<longleftrightarrow>
    (case PendingWorkingMemoryMutationSchema (in_mutation x) of
       None \<Rightarrow> False
     | Some p \<Rightarrow> list_ex (\<lambda>(ta, m).
         in_scope (im_household m) (im_conversation m) (im_principal m) x
         \<and> ta_primary ta m p = Answered (Dp_resolve Approve)
         \<and> ta_checker ta m p = Answered (Dp_resolve Approve)) ts)"

definition decided_before :: "memory_db \<Rightarrow> pending_interaction \<Rightarrow> bool" where
  "decided_before d x \<longleftrightarrow>
    list_ex (\<lambda>y. in_id y = in_id x \<and> in_decision y = Some Approve) (md_interactions d)"

interpretation turns: consented "agreed ts" d for ts d
proof unfold_locales
  show "agreed ts r' = agreed ts r" if "interaction_key r' = interaction_key r" for r r'
    using that by (simp add: agreed_def interaction_key_def in_scope_def split: option.split)
  show "agreed ts i = agreed ts r" if i: "PendingInteractionSchemaV1 r = Some i" for r i
    using schema_row(1)[OF i] PendingWorkingMemoryMutationSchema_idem[OF schema_row(1)[OF i]] schema_fields[OF i]
    by (simp add: agreed_def in_scope_def split: option.split)
qed

lemma approved_twice:
  assumes "disposition_of ta m p = Inr (Dp_resolve Approve)"
  shows "ta_primary ta m p = Answered (Dp_resolve Approve)" "ta_checker ta m p = Answered (Dp_resolve Approve)"
  using assms
  by (auto simp: disposition_of_def classifyPendingWorkingMemoryInput_def adjudicatePendingDisposition_def
      split: sum.splits if_splits reading.splits disposition.splits)

lemma turn_consents:
  assumes "(ta, m) \<in> set ts"
  shows "turns.consents ts ta m"
  unfolding turns.consents_def
proof (intro allI impI)
  fix r i
  assume i: "PendingInteractionSchemaV1 r = Some i"
    and "in_scope (im_household m) (im_conversation m) (im_principal m) i"
    and "disposition_of ta m (in_mutation i) = Inr (Dp_resolve Approve)"
  then show "agreed ts i"
    using assms approved_twice[of ta m "in_mutation i"]
      PendingWorkingMemoryMutationSchema_idem[OF schema_row(1)[OF i]]
    by (auto simp: agreed_def list_ex_iff intro!: bexI[of _ "(ta, m)"])
qed

lemma dwp_ends:
  assumes "dwp m Q E (wdb w)" "txn w = None" "m w = (r, w')"
  shows "txn w' = None \<and> (case r of Inl e \<Rightarrow> E e (wdb w') | Inr x \<Rightarrow> Q x (wdb w'))"
  using dwp_returned[OF assms(1,2)] dwp_threw[OF assms(1,2)] assms(3) by (cases r) auto

lemma turn_after:
  assumes "(ta, m) \<in> set ts" "unique_on in_id (md_interactions (wdb w))" "txn w = None"
    and "memory_turn_of h ta m w = (r, w')"
  shows "after (agreed ts) (wdb w) (wdb w') \<and> txn w' = None"
proof -
  have "dwp (memory_turn_of h ta m) (\<lambda>_. after (agreed ts) (wdb w)) (\<lambda>_. after (agreed ts) (wdb w)) (wdb w)"
    using turns.memory_turn_after[OF turn_consents[OF assms(1)] assms(2)] .
  from dwp_ends[OF this assms(3,4)] show ?thesis
    by (auto split: sum.splits)
qed

lemma run_turns_step:
  assumes "set ts \<subseteq> set all" "unique_on in_id (md_interactions (wdb w))" "txn w = None"
    and "run_turns h ts w = (rs, w')"
  shows "turn_step (agreed all) (wdb w) (wdb w') \<and> txn w' = None"
  using assms
proof (induction ts arbitrary: w rs)
  case Nil
  then show ?case by (auto simp: turn_step_def entries_kept_same)
next
  case (Cons t ts)
  obtain ta m where t: "t = (ta, m)" by (cases t)
  obtain r w1 rs1 where w1: "memory_turn_of h ta m w = (r, w1)" and ts: "run_turns h ts w1 = (rs1, w')"
    using Cons.prems(4) t by (auto split: prod.splits)
  have one: "turn_step (agreed all) (wdb w) (wdb w1)" "txn w1 = None"
    using turn_after[OF _ Cons.prems(2,3) w1, of all] Cons.prems(1) t by (auto simp: after_def)
  then have "turn_step (agreed all) (wdb w1) (wdb w') \<and> txn w' = None"
    using Cons.IH[OF _ _ _ ts] Cons.prems(1) by (simp add: turn_step_def)
  then show ?case
    using turns.turn_step_trans one(1) by blast
qed

lemma step_decision:
  assumes "turn_step (agreed ts) d d'" "x \<in> set (md_interactions d')" "in_decision x = Some Approve"
  shows "decided_before d x \<or> agreed ts x"
proof -
  have "(\<exists>r \<in> set (md_interactions d). interaction_moved (agreed ts) r x)
      \<or> (in_decision x = Some Approve \<longrightarrow> agreed ts x)"
    using assms(1,2) by (simp add: turn_step_def interactions_moved_def)
  then show ?thesis
  proof (elim disjE bexE)
    fix r
    assume r: "r \<in> set (md_interactions d)" "interaction_moved (agreed ts) r x"
    then have "in_id r = in_id x" "agreed ts x = agreed ts r"
      using turns.A_key[of x r] by (auto simp: interaction_moved_def interaction_key_def)
    then show ?thesis
      using r assms(3) by (auto simp: interaction_moved_def decided_before_def list_ex_iff)
  qed (use assms(3) in blast)
qed


text \<open>
  C11. An interaction that a turn records as applied has its change in the saved document of its household
  when the turn ends.
\<close>

theorem applied_changes_are_present:
  assumes "unique_on in_id (md_interactions (wdb w))" "txn w = None"
    and "memory_turn_of h ta m w = (r, w')"
    and "x \<in> set (md_interactions (wdb w'))" "in_status x = Is_applied"
  shows "was_applied (wdb w) x \<or> effect_of_interaction (wdb w') x"
  using turn_after[of ta m "[(ta, m)]", OF _ assms(1-3)] assms(4,5)
  by (auto simp: after_def applied_present_def)

text \<open>
  C25. A message that has resolved an interaction is not handled again: its turn changes nothing, and if it
  answers, it answers what was stored.
\<close>

theorem replayed_turns_are_inert:
  assumes "txn w = None" "memory_turn_of h ta m w = (r, w')"
    and x: "find (resolved_by (im_household m) (im_conversation m) (im_external m)) (md_interactions (wdb w)) = Some x"
    and "in_response x = Some y"
  shows "wdb w' = wdb w \<and> (r = Inr y \<or> (\<exists>e. r = Inl e))"
proof -
  have "dwp (memory_turn_of h ta m) (\<lambda>z d'. d' = wdb w \<and> z = y) (\<lambda>_ d'. d' = wdb w) (wdb w)"
    unfolding memory_turn_of_def runConversationTurn_def findByResolutionMessage_def
    by (rule dwp_bindM, rule dwp_requireM, rule dwp_bindM, rule dwp_bindM, rule dwp_pool_query)
      (auto simp: sql_find_resolution_def x stored_response_def map_row_def mapPendingInteraction_def
        schema_fields assms(4) intro!: dwp_liftE dwp_ret split: option.splits)
  from dwp_ends[OF this assms(1,2)] show ?thesis
    by (auto split: sum.splits)
qed

text \<open>
  C26. The table of interactions keeps its invariant over any turns under any faults: each identifier once,
  one open interaction for a speaker in a conversation, and each message resolves one interaction. An
  interaction that is closed stays as it is.
\<close>

theorem interactions_stay_consistent:
  assumes "interactions_ok (wdb w)" "txn w = None" "run_turns h ts w = (rs, w')"
  shows "interactions_ok (wdb w') \<and> closed_kept (wdb w) (wdb w')"
proof -
  have "txn w' = None \<and> consistent (wdb w) (wdb w')"
    using assms(2,3)
  proof (induction ts arbitrary: w rs)
    case Nil
    then show ?case by (simp add: rows.db_refl)
  next
    case (Cons t ts)
    obtain ta m where t: "t = (ta, m)" by (cases t)
    obtain r w1 rs1 where w1: "memory_turn_of h ta m w = (r, w1)" and ts: "run_turns h ts w1 = (rs1, w')"
      using Cons.prems(2) t by (auto split: prod.splits)
    have "txn w1 = None \<and> consistent (wdb w) (wdb w1)"
      using keeps_result[OF consistent_turn w1] Cons.prems(1) by (simp add: db_moves_def)
    then show ?case
      using Cons.IH[OF _ ts] rows.db_trans by blast
  qed
  then show ?thesis
    using assms(1) by (simp add: consistent_def)
qed


section \<open>Examples\<close>

definition goal_id :: string where "goal_id = ''wme_01ARZ3NDEKTSV4RRFFQ69G5FAV''"

definition goal_entry :: memory_entry where
  "goal_entry =
    \<lparr>me_kind = Mem_goal, me_summary = ''Save for a house'', me_scope = Scope_household, me_owner = None,
     me_value = JStr ''house'', me_lifecycle = None\<rparr>"

definition deletion :: pending_mutation where
  "deletion =
    \<lparr>pm_id = ''wmproposal_01ARZ3NDEKTSV4RRFFQ69G5FAV'', pm_household = chat_hh,
     pm_conversation = chat_conversation, pm_speaker = ''ana'', pm_mutation = Mem_delete goal_id,
     pm_revision = replicate 64 (CHR ''0''), pm_created = 0, pm_expires = 1000\<rparr>"

text \<open>The deletion was approved, and the turn of the message \<open>yes\<close> ended before its result was stored.\<close>

definition claimed_deletion :: pending_interaction where
  "claimed_deletion = claimed_interaction ''yes'' Approve (interaction_for deletion)"

definition ana_says :: "string \<Rightarrow> inbound_message" where
  "ana_says s =
    \<lparr>im_conversation = chat_conversation, im_household = chat_hh, im_channel = Ch_telegram, im_external = s,
     im_received = 10, im_principal = ''ana'', im_display = None, im_body = s, im_attachments = [],
     im_metadata = []\<rparr>"

definition clearing_agent :: turn_agent where
  "clearing_agent =
    \<lparr>ta_primary = (\<lambda>_ _. Gave_up (JsError ''Error'')), ta_checker = (\<lambda>_ _. Gave_up (JsError ''Error'')),
     ta_reply = (\<lambda>_ _. Inr chat_response),
     ta_calls = (\<lambda>_. [Call_inspect, Call_mutate
       \<lparr>td_operation = Op_clear, td_revision = ''0'', td_entry = None, td_kind = None, td_summary = None,
        td_scope = None, td_value = None\<rparr>]),
     ta_answer = (\<lambda>_. Inr chat_response), ta_memory = True, ta_signal = False\<rparr>"

definition memory_world :: "fault list \<Rightarrow> (string \<times> json option) list \<Rightarrow> pending_interaction list \<Rightarrow> memory_db world" where
  "memory_world fs memory rows =
    \<lparr>wdb = \<lparr>md_households = [chat_hh], md_interactions = rows, md_memory = memory, md_successes = []\<rparr>,
     txn = None, faults = fs, wclock = 0, ticks = [], ulids = (\<lambda>n. ''01ARZ3NDEKTSV4RRFFQ69G5FAV'')\<rparr>"

definition applied_deletion :: pending_interaction where
  "applied_deletion =
    resolved_interaction Is_applied ''working_memory_mutation_recovered'' chat_response 10 claimed_deletion"

lemma goal_document: "FlexibleWorkingMemorySchema [(goal_id, goal_entry)] = Some [(goal_id, goal_entry)]"
proof -
  have "opaqueIdentifierSchema Id_workingMemoryEntry goal_id" "trim (me_summary goal_entry) = me_summary goal_entry"
    by code_simp+
  then show ?thesis
    by (simp add: FlexibleWorkingMemorySchema_def WorkingMemoryEntrySchema_def goal_entry_def text_between_def
        WorkingMemoryValueSchema_def validateWorkingMemoryDocumentBounds_def document_bytes_def document_json_def
        entry_json_def field_if_def goal_id_def json_quote_def json_escape_def utf8_length_def int_string_def
        decimal.simps digit_char_def Let_def)
qed

lemma recovered_deletion:
  "md_interactions (wdb (snd (memory_turn_of sample_hashing clearing_agent (ana_says ''yes'')
     (memory_world [] [] [claimed_deletion])))) = [applied_deletion]"
  by code_simp

definition goal_world :: "memory_db world" where
  "goal_world = memory_world [] [(chat_hh, Some (document_json instant_json [(goal_id, goal_entry)]))] []"

lemma goal_saved: "entry_at (wdb goal_world) chat_hh goal_id = Some goal_entry"
  by (simp add: entry_at_def saved_memory_def goal_world_def memory_world_def parse_document_json goal_document)

lemma clearing_agrees_nothing: "\<not> agreed [(clearing_agent, m)] x"
  by (simp add: agreed_def clearing_agent_def split: option.split)


theorem applied_changes_are_present_witness:
  "effect_of_interaction (wdb (snd (memory_turn_of sample_hashing clearing_agent (ana_says ''yes'')
     (memory_world [] [] [claimed_deletion])))) applied_deletion"
proof -
  have "\<not> was_applied (wdb (memory_world [] [] [claimed_deletion])) applied_deletion"
    "unique_on in_id (md_interactions (wdb (memory_world [] [] [claimed_deletion])))"
    "txn (memory_world [] [] [claimed_deletion]) = None"
    by (simp_all add: memory_world_def was_applied_def claimed_deletion_def claimed_interaction_def unique_on_def)
  then show ?thesis
    using applied_changes_are_present[where w = "memory_world [] [] [claimed_deletion]" and h = sample_hashing
        and ta = clearing_agent and m = "ana_says ''yes''" and x = applied_deletion,
        OF _ _ prod.collapse[symmetric]] recovered_deletion
    by (simp add: applied_deletion_def resolved_interaction_def)
qed

theorem replayed_turns_are_inert_witness:
  "wdb (snd (memory_turn_of sample_hashing clearing_agent (ana_says ''yes'') (memory_world [] [] [applied_deletion])))
     = wdb (memory_world [] [] [applied_deletion])"
proof -
  let ?w = "memory_world [] [] [applied_deletion]" and ?m = "ana_says ''yes''"
  have "txn ?w = None" "find (resolved_by (im_household ?m) (im_conversation ?m) (im_external ?m))
      (md_interactions (wdb ?w)) = Some applied_deletion" "in_response applied_deletion = Some chat_response"
    by (simp_all add: memory_world_def ana_says_def applied_deletion_def claimed_deletion_def claimed_interaction_def
        resolved_interaction_def interaction_for_def deletion_def resolved_by_def)
  then show ?thesis
    using replayed_turns_are_inert[where w = ?w and m = ?m and x = applied_deletion and y = chat_response
        and h = sample_hashing and ta = clearing_agent, OF _ prod.collapse[symmetric]] by simp
qed

theorem interactions_stay_consistent_witness:
  "interactions_ok (wdb (snd (run_turns sample_hashing [(clearing_agent, ana_says ''yes''), (clearing_agent, ana_says ''again'')]
     (memory_world [Fail_before (\<lparr>pg_code = None, pg_constraint = None, pg_message = None\<rparr>)] [] [claimed_deletion]))))"
  (is "interactions_ok (wdb (snd (run_turns ?h ?ts ?w)))")
proof -
  have "interactions_ok (wdb ?w)" "txn ?w = None"
    by (simp_all add: interactions_ok_def memory_world_def unique_on_def)
  then show ?thesis
    using interactions_stay_consistent[where w = ?w and h = ?h and ts = ?ts, OF _ _ prod.collapse[symmetric]] by blast
qed


end
