(* ===== verification/Spec2Isabelle.thy ===== *)
theory Spec2Isabelle
  imports MutationComponents TurnRegistry PairingRepository Scheduling Books CheckedTeams ConfirmedMemory
begin

text \<open>
  A verification development for plus-one, a household finance assistant written in TypeScript.

  The program. A chat message reaches a channel gateway, which pairs the sender with a household
  and runs one turn of an orchestrator per conversation. The orchestrator delegates work to teams
  of agents. What a maker agent proposes is stored as an artifact, checked by another agent, and
  only an accepted artifact may change the books: it becomes a mutation command, which an executor
  runs in one serializable transaction, proves by reading the result back, and records. A ledger
  of verification tasks says at each moment how far a piece of work has come.

  What is modelled, in the order of the theories:

  - Prelude: the state-and-exception monad of the asynchronous methods, weakest preconditions
    (\<open>wp\<close>), the rules for relations that every step of a method keeps (locale \<open>step_relation\<close>), and
    lemmas on the lists that stand for tables.
  - Contracts, Schemas, Decimals: packages/contracts/src (errors.ts, runtime.ts,
    opaque-identifiers.ts, json.ts, artifacts.ts, mutations.ts, invocations.ts). A zod schema is the
    predicate of the values it accepts.
  - World: PostgreSQL and its driver. A world has the committed database, at most one open
    transaction, and a schedule of faults: each round trip may fail before it has an effect, or,
    for a COMMIT or a statement outside a transaction, lose its answer after it. No theorem
    restricts the schedule unless it says so.
  - DbErrors: database/src/errors.ts, repositories/operations/mutation-errors.ts.
  - TaskStateMachine: runtime/src/state-machine.ts, resume.ts.
  - OpsDb, VerificationLedger: the tables of the operations schema and
    repositories/operations/verification-ledger.ts, every method. The invariant \<open>ledger_ok\<close>: each
    task's history is a gapless path of the state machine that ends in its status.
  - RuntimePolicies: runtime/src/runtime-policy.ts.
  - Artifacts: runtime/src/artifacts/artifact-store.ts over the locale \<open>artifact_repository\<close>, which
    database/.../artifacts.ts is shown to provide.
  - VerificationRuntime, CheckedWork: runtime/src/verification-runtime.ts over the locale of the
    ledger port (runtime/src/ledger/ports.ts), interpreted on the PostgreSQL ledger. The invariant
    \<open>work_ok\<close> relates a task to its verdicts: verified means accepted.
  - MutationCommands, MutationInvariant: repositories/operations/mutation-command-repository.ts and
    domain-command-bridge.ts with the triggers and functions they rely on, and what every
    operation does to the tables of commands, receipts and read-backs.
  - ClientSections, SerializableRunner: hand-written transactions, and
    mutations/src/serializable-runner.ts with every error path of an attempt.
  - CommandRegistry: mutations/src/command-registry.ts; a handler is a script of queries.
  - CommandStateResolver: mutations/src/command-state-resolver.ts.
  - MutationExecutor, MutationSafety, CheckedMutations, MutationComponents:
    mutations/src/checked-mutation-executor.ts on all of the above; the guarantees of whole calls,
    and of the parts taken alone. \<open>execute_refines_once\<close> relates the executor to the abstract
    ledger in which every command is applied at most once.
  - TurnRegistry: runtime/src/gateway/active-turn-registry.ts. Promises are explicit: running
    turns, and a queue of callbacks; a step relation interleaves callers, works that settle, and
    callbacks. The invariant lists the phases of a slot.
  - ChannelPairing, PairingRepository: runtime/src/telegram/pairing-service.ts over the locale
    \<open>pairing_repository\<close>, provided by database/.../channel-pairing.ts.

  - Channels, Transports, OutputProcessors: contracts/src/channels.ts, runtime/src/gateway/send-result.ts
    and runtime/src/policy/output-processors.ts. A transport is an oracle of outcomes and a log of
    what was sent.
  - DeliveryRepository, FinalDelivery, Deliveries: class \<open>PostgresDeliveryRepository\<close> of
    database/.../delivery-scheduler.ts, and runtime/src/delivery/final-delivery-handler.ts over the
    locale \<open>delivery_ports\<close>, which the repository is shown to provide. A delivery that has settled
    stays as it is and its message is not sent again.
  - JsonText, SchedulerRepository, Scheduling: class \<open>PostgresSchedulerRepository\<close> of the same file, and
    runtime/src/scheduler/application-scheduler.ts over the locale \<open>scheduler_ports\<close>, interpreted on that
    class and on the delivery handler. The invariant \<open>runs_ok\<close> has one run for each run key and at
    most one open run for a job that skips overlaps.
  - Amounts, AccountingContracts: packages/accounting/src/amounts.ts and the schemas of
    contracts/src/accounting.ts, money.ts and time.ts, with decoders from JSON.
  - Scripts, Ledger, LedgerStatements: scripts of queries, with a weakest precondition (\<open>yields\<close>); the
    tables of the accounting schema with the constraint trigger \<open>validate_complete_journal\<close>; every
    statement that the accounting package sends, with the constraints it can meet
    (database/migrations/0004_accounting_ledger.sql).
  - JournalPosting, JournalFacts: journal-draft-repository.ts, journal-posting-service.ts,
    corrections.ts and reporting/src/projection-writer.ts; \<open>posted\<close> and \<open>drafted\<close> say what a call that
    returns has done to the tables.
  - LedgerInvariant: the invariant \<open>books_ok\<close> of the ledger. Every journal is sound (balanced, equal to
    its accepted draft, in the currency and book of its accounts) and the projection of balances is the
    sum of the postings. Drafting and posting keep it.
  - JournalHandler, ChartRepository, ChartFacts, ChartHandler: accounting-journal-handler.ts with
    ledger-readback.ts; accounting-repository.ts, all operations; chart-handler.ts; command-adapters.ts.
  - Bookkeeping, LedgerReadback, Books: the two handlers run by the executor of checked commands (locale
    \<open>kept_by_handlers\<close>: what every execution keeps, every call of the executor keeps, under any faults),
    and the properties of the books.

  - WorkCells: the schemas of roles, invocations, tasks and failures (contracts/src/invocations.ts), the
    registries of skills, tools and strategies, runtime/src/teams/definitions.ts,
    runtime/src/execution/execution-failure.ts, and the contexts of makers and checkers
    (runtime/src/context/role-context-builder.ts).
  - AgentInvocations: runtime/src/agents/agent-registry.ts and
    runtime/src/execution/agent-invocation-runner.ts. What a language model answers is a parameter.
  - TeamExecution, TeamSafety: runtime/src/execution/team-executor.ts. \<open>work_done\<close> says what an answered
    work cell has done: the stored and accepted artifact, its verdict, and the status of the task.
  - MutationCoordinator, CheckedTeams: mutations/src/checked-mutation-work-cell-coordinator.ts, and the
    guarantees of work cells and of the mutations they lead to.

  - WorkingMemory, MemoryDocuments: contracts/src/working-memory.ts and, under apps/engine/src/memory,
    working-memory-document.ts and working-memory-taxonomy.ts: the entries, documents and mutations of
    what the assistant remembers, their JSON, and the migration of the legacy format.
  - PendingInteractions: contracts/src/pending-interaction.ts and class
    \<open>PostgresPendingInteractionRepository\<close> of repositories/operations/pending-interactions.ts, with the
    unique indexes of database/migrations/0023_pending_interactions.sql.
  - SessionMemory, MemoryTools: apps/engine/src/memory/orchestrator-session-memory.ts,
    apps/engine/src/tools/working-memory.ts and working-memory-candidates.ts.
  - ConfirmationTurns: apps/engine/src/workflows/conversation-turn-router.ts, and the methods of
    agents/orchestrator.ts and workflows/orchestrator-loop.ts that read, resolve and store a proposed
    change of working memory.
  - MemoryFacts, ConfirmationSafety: what each operation of working memory does to the saved document
    and to the table of interactions. The locale \<open>consented\<close> is the contract of a turn: \<open>A\<close> says which
    interactions somebody has approved, and a turn whose approvals are in \<open>A\<close> keeps every saved entry
    that no interaction in \<open>A\<close> changes.
  - InteractionInvariant: the invariant \<open>interactions_ok\<close> of the table of interactions, kept by every
    statement (locale \<open>db_relation\<close>) and so by every turn.
  - ConfirmedMemory: the guarantees over any sequence of turns, under any faults and any answers of the
    language model, with \<open>consented\<close> interpreted on the approvals that the messages of the turns give.

  Bounds. The retry loop of the runner and the page loops recurse on a number of attempts that the
  policy bounds (\<open>runner_policy_bounds\<close>); the registry of turns settles within \<open>turn_fuel\<close> steps
  (\<open>turns_settle\<close>); the climb along the hierarchy of accounts has as much fuel as there are accounts,
  and a path that repeats no account needs no more; every other definition is total by structural
  recursion.

  Idealised. An instant is a natural number (of milliseconds or seconds as the code compares
  them); a clock never goes back; error messages and log lines are left out, error codes and
  retry directives are kept; SHA-256, ULIDs and random bytes are parameters or a stream of the
  world; a transaction sees no other client's writes, which is SERIALIZABLE isolation and the row
  locks of the methods. In the ledger a row is known by its public identifier instead of a surrogate
  key, \<open>numeric(38,12)\<close> is an integer of units of 10 to the power -12, a date is its text, timestamps are
  left out, and format checks that the schemas of the callers have already made are not repeated. The
  tables of artifacts and verdicts are seen by the ledger as a list of artifacts that were accepted or
  not. In working memory an instant is a number inside JSON as well, the order of the keys of an object is
  not kept by the database, the store of the Mastra framework keeps one value for each resource, and the
  mutex per resource makes each method of the session memory one step. Deferred constraints wait in a queue, which \<open>SET CONSTRAINTS IMMEDIATE\<close> empties within the script.

  Not modelled: the language models behind the agents, their prompts and tools (apps/engine/src/agents,
  the accounting work cells, the Mastra adapters), the leads that plan the work of a team; the signals
  that enforce deadlines, whose effect is part of what an agent answers; the domain handlers of planning
  and ingestion, reporting, query tools, the texts and reports about working memory, logging, and the
  command-line programs, which are program logic that the development has not reached.
\<close>

end
